(* ===== verification/Prelude.thy ===== *)
theory Prelude
  imports Complex_Main "HOL-Library.Word"
begin

text \<open>
  Shared vocabulary of the development: results with errors, byte buffers with bounded
  stores, little-endian integers, insertion-ordered dictionaries, and the generic lemmas
  on lists the component theories use.
\<close>

named_theorems buf_simps "reading back what was stored in a byte buffer"
named_theorems dict_simps "reading insertion-ordered dictionaries"

section \<open>Results with errors\<close>

text \<open>
  A Python function that may raise is a function into \<open>'e + 'a\<close>: \<open>Inl\<close> carries the
  exception, \<open>Inr\<close> the returned value. \<open>res_bind\<close> is sequencing: the first exception
  ends the function.
\<close>

definition res_bind :: "'e + 'a \<Rightarrow> ('a \<Rightarrow> 'e + 'b) \<Rightarrow> 'e + 'b" where
  "res_bind r f = (case r of Inl e \<Rightarrow> Inl e | Inr x \<Rightarrow> f x)"

lemma res_bind_simps [simp]:
  "res_bind (Inl e) f = Inl e"
  "res_bind (Inr x) f = f x"
  by (simp_all add: res_bind_def)

lemma res_bind_eq_Inr [simp]: "res_bind r f = Inr y \<longleftrightarrow> (\<exists>x. r = Inr x \<and> f x = Inr y)"
  by (cases r) auto

lemma res_bind_eq_Inl: "res_bind r f = Inl e \<longleftrightarrow> r = Inl e \<or> (\<exists>x. r = Inr x \<and> f x = Inl e)"
  by (cases r) auto

definition guard_err :: "bool \<Rightarrow> 'e \<Rightarrow> 'e + unit" where
  "guard_err b e = (if b then Inl e else Inr ())"

lemma guard_err_simps [simp]:
  "guard_err b e = Inr u \<longleftrightarrow> \<not> b"
  "guard_err b e = Inl e' \<longleftrightarrow> b \<and> e' = e"
  by (auto simp: guard_err_def)

text \<open>A \<open>for\<close> loop whose body may raise: the elements' results in order, or the first error.\<close>

fun res_map :: "('a \<Rightarrow> 'e + 'b) \<Rightarrow> 'a list \<Rightarrow> 'e + 'b list" where
  "res_map f [] = Inr []"
| "res_map f (x # xs) = res_bind (f x) (\<lambda>y. res_bind (res_map f xs) (\<lambda>ys. Inr (y # ys)))"

lemma res_map_Inr_length: "res_map f xs = Inr ys \<Longrightarrow> length ys = length xs"
  by (induction xs arbitrary: ys) auto

lemma res_map_Inr_nth: "res_map f xs = Inr ys \<Longrightarrow> i < length xs \<Longrightarrow> f (xs ! i) = Inr (ys ! i)"
proof (induction xs arbitrary: ys i)
  case Nil
  then show ?case by simp
next
  case (Cons x xs)
  then show ?case by (cases i) auto
qed

section \<open>Byte buffers\<close>

type_synonym byte = "8 word"
type_synonym buf = "byte list"

definition put_bytes :: "buf \<Rightarrow> nat \<Rightarrow> byte list \<Rightarrow> buf" where
  "put_bytes b off bs = take off b @ bs @ drop (off + length bs) b"

definition get_bytes :: "buf \<Rightarrow> nat \<Rightarrow> nat \<Rightarrow> byte list" where
  "get_bytes b off n = take n (drop off b)"

lemma length_put_bytes [buf_simps]:
  "off + length bs \<le> length b \<Longrightarrow> length (put_bytes b off bs) = length b"
  by (simp add: put_bytes_def)

lemma length_get_bytes [buf_simps]: "off + n \<le> length b \<Longrightarrow> length (get_bytes b off n) = n"
  by (simp add: get_bytes_def)

lemma nth_put_bytes:
  assumes "off + length bs \<le> length b" "i < length b"
  shows "put_bytes b off bs ! i =
    (if off \<le> i \<and> i < off + length bs then bs ! (i - off) else b ! i)"
  using assms by (auto simp: put_bytes_def nth_append)

lemma nth_get_bytes: "off + n \<le> length b \<Longrightarrow> i < n \<Longrightarrow> get_bytes b off n ! i = b ! (off + i)"
  by (simp add: get_bytes_def)

lemma get_put_bytes_same [buf_simps]:
  assumes "off + length bs \<le> length b" "n = length bs"
  shows "get_bytes (put_bytes b off bs) off n = bs"
  using assms by (simp add: get_bytes_def put_bytes_def)

lemma get_put_bytes_disjoint [buf_simps]:
  assumes "off + length bs \<le> length b" "off' + n \<le> length b"
    and "off' + n \<le> off \<or> off + length bs \<le> off'"
  shows "get_bytes (put_bytes b off bs) off' n = get_bytes b off' n"
proof (rule nth_equalityI)
  show "length (get_bytes (put_bytes b off bs) off' n) = length (get_bytes b off' n)"
    using assms by (simp add: buf_simps)
next
  fix i assume "i < length (get_bytes (put_bytes b off bs) off' n)"
  then have "i < n" using assms by (simp add: buf_simps)
  then show "get_bytes (put_bytes b off bs) off' n ! i = get_bytes b off' n ! i"
    using assms by (auto simp: nth_get_bytes nth_put_bytes length_put_bytes)
qed

subsection \<open>Little-endian integers\<close>

definition le_bytes :: "nat \<Rightarrow> int \<Rightarrow> byte list" where
  "le_bytes k v = map (\<lambda>i. word_of_int (v div 256 ^ i)) [0..<k]"

fun le_int :: "byte list \<Rightarrow> int" where
  "le_int [] = 0"
| "le_int (x # xs) = uint x + 256 * le_int xs"

lemma length_le_bytes [simp]: "length (le_bytes k v) = k"
  by (simp add: le_bytes_def)

lemma le_bytes_Suc: "le_bytes (Suc k) v = word_of_int v # le_bytes k (v div 256)"
  by (simp add: le_bytes_def upt_conv_Cons map_Suc_upt [symmetric] zdiv_zmult2_eq
      del: upt_Suc)

lemma le_int_le_bytes: "0 \<le> v \<Longrightarrow> v < 256 ^ k \<Longrightarrow> le_int (le_bytes k v) = v"
proof (induction k arbitrary: v)
  case 0
  then show ?case by (simp add: le_bytes_def)
next
  case (Suc k)
  have "v div 256 < 256 ^ k"
    using Suc.prems by (simp add: div_less_iff_less_mult mult.commute)
  with Suc have "le_int (le_bytes k (v div 256)) = v div 256" by simp
  then show ?case
    by (simp add: le_bytes_Suc uint_word_of_int)
qed

lemma le_int_nonneg: "0 \<le> le_int bs"
  by (induction bs) auto

end
