(* ===== verification/Py_Value.thy ===== *)
theory Py_Value
  imports Prelude "HOL-Library.AList"
begin

text \<open>
  The Python values the program exchanges as JSON: scalars, lists and dictionaries with
  string keys, kept in insertion order as Python keeps them. Truthiness, equality, \<open>str\<close>,
  \<open>float\<close> and the string methods the sources use are written out. A float is an exact
  rational, an infinity or a nan: rounding of double arithmetic is not modelled. Characters
  are ASCII. What the language does with text that HOL cannot compute here (the shortest
  round-trip printing of a float, parsing of numeric literals) is a parameter, the record
  \<open>py_lang\<close>.
\<close>

section \<open>Floats\<close>

datatype pyfloat = Fin rat | PInf | NInf | NaN

fun feq :: "pyfloat \<Rightarrow> pyfloat \<Rightarrow> bool" where
  "feq NaN _ = False"
| "feq _ NaN = False"
| "feq a b = (a = b)"

fun flt :: "pyfloat \<Rightarrow> pyfloat \<Rightarrow> bool" where
  "flt NaN _ = False"
| "flt _ NaN = False"
| "flt (Fin a) (Fin b) = (a < b)"
| "flt NInf b = (b \<noteq> NInf)"
| "flt a PInf = (a \<noteq> PInf)"
| "flt _ _ = False"

definition fle :: "pyfloat \<Rightarrow> pyfloat \<Rightarrow> bool" where
  "fle a b \<longleftrightarrow> flt a b \<or> feq a b"

fun fneg :: "pyfloat \<Rightarrow> pyfloat" where
  "fneg (Fin a) = Fin (- a)"
| "fneg PInf = NInf"
| "fneg NInf = PInf"
| "fneg NaN = NaN"

fun fadd :: "pyfloat \<Rightarrow> pyfloat \<Rightarrow> pyfloat" where
  "fadd NaN _ = NaN"
| "fadd _ NaN = NaN"
| "fadd (Fin a) (Fin b) = Fin (a + b)"
| "fadd PInf NInf = NaN"
| "fadd NInf PInf = NaN"
| "fadd (Fin a) b = b"
| "fadd a b = a"

definition fsub :: "pyfloat \<Rightarrow> pyfloat \<Rightarrow> pyfloat" where
  "fsub a b = fadd a (fneg b)"

text \<open>Python's \<open>max(a, b)\<close> returns \<open>a\<close> unless \<open>b > a\<close>.\<close>

definition fmax :: "pyfloat \<Rightarrow> pyfloat \<Rightarrow> pyfloat" where
  "fmax a b = (if flt a b then b else a)"

lemma fle_Fin [simp]: "fle (Fin a) (Fin b) \<longleftrightarrow> a \<le> b"
  by (auto simp: fle_def)

lemma fsub_Fin [simp]: "fsub (Fin a) (Fin b) = Fin (a - b)"
  by (simp add: fsub_def)

lemma fmax_Fin [simp]: "fmax (Fin a) (Fin b) = Fin (max a b)"
  by (auto simp: fmax_def)

lemma not_flt_iff_fle: "a \<noteq> NaN \<Longrightarrow> b \<noteq> NaN \<Longrightarrow> \<not> flt a b \<longleftrightarrow> fle b a"
  by (cases a; cases b) (auto simp: fle_def)

section \<open>Values\<close>

datatype pyval =
    PNone
  | PBool bool
  | PInt int
  | PFloat pyfloat
  | PStr string
  | PList "pyval list"
  | PDict "(string \<times> pyval) list"
  | PAttr "(string \<times> pyval) list" \<comment> \<open>an \<open>AttrDict\<close>, a subclass of \<open>dict\<close>\<close>

type_synonym items = "(string \<times> pyval) list"

fun as_dict :: "pyval \<Rightarrow> items option" where
  "as_dict (PDict d) = Some d"
| "as_dict (PAttr d) = Some d"
| "as_dict _ = None"

definition is_dict :: "pyval \<Rightarrow> bool" where
  "is_dict v \<longleftrightarrow> as_dict v \<noteq> None"

text \<open>\<open>d.get(k, default)\<close> and \<open>d.get(k)\<close>\<close>

definition dget :: "('k \<times> 'v) list \<Rightarrow> 'k \<Rightarrow> 'v \<Rightarrow> 'v" where
  "dget d k v = (case map_of d k of None \<Rightarrow> v | Some x \<Rightarrow> x)"

abbreviation jget :: "items \<Rightarrow> string \<Rightarrow> pyval" where
  "jget d k \<equiv> dget d k PNone"

definition dhas :: "('k \<times> 'v) list \<Rightarrow> 'k \<Rightarrow> bool" where
  "dhas d k \<longleftrightarrow> map_of d k \<noteq> None"

text \<open>\<open>d[k] = v\<close> keeps the position of an existing key and appends a new one.\<close>

abbreviation dset :: "'k \<Rightarrow> 'v \<Rightarrow> ('k \<times> 'v) list \<Rightarrow> ('k \<times> 'v) list" where
  "dset k v d \<equiv> AList.update k v d"

abbreviation dpop :: "'k \<Rightarrow> ('k \<times> 'v) list \<Rightarrow> ('k \<times> 'v) list" where
  "dpop k d \<equiv> AList.delete k d"

definition dict_update :: "('k \<times> 'v) list \<Rightarrow> ('k \<times> 'v) list \<Rightarrow> ('k \<times> 'v) list" where
  "dict_update d e = foldl (\<lambda>acc (k, v). dset k v acc) d e"

lemma dget_Nil [simp]: "dget [] k v = v"
  by (simp add: dget_def)

lemma dget_Cons [simp]: "dget ((k', x) # d) k v = (if k' = k then x else dget d k v)"
  by (simp add: dget_def)

lemma dhas_Nil [simp]: "\<not> dhas [] k"
  by (simp add: dhas_def)

lemma dhas_Cons [simp]: "dhas ((k', x) # d) k \<longleftrightarrow> k' = k \<or> dhas d k"
  by (simp add: dhas_def)

lemma dget_dset [dict_simps]: "dget (dset k x d) k' v = (if k = k' then x else dget d k' v)"
  by (simp add: dget_def update_conv')

lemma dhas_dset [dict_simps]: "dhas (dset k x d) k' \<longleftrightarrow> k = k' \<or> dhas d k'"
  by (auto simp: dhas_def update_conv')

lemma map_of_dict_update:
  "distinct (map fst e) \<Longrightarrow> map_of (dict_update d e) = map_of d ++ map_of e"
proof (induction e arbitrary: d)
  case Nil
  then show ?case by (simp add: dict_update_def)
next
  case (Cons p e)
  obtain k v where p: "p = (k, v)" by (cases p)
  with Cons.prems have k: "map_of e k = None" and d: "distinct (map fst e)"
    by (auto simp: map_of_eq_None_iff)
  have "map_of (dict_update d (p # e)) = map_of (dset k v d) ++ map_of e"
    using Cons.IH [OF d, of "dset k v d"] by (simp add: p dict_update_def)
  also have "\<dots> = map_of d ++ map_of (p # e)"
    using k by (auto simp: p update_conv' map_add_def fun_eq_iff split: option.split)
  finally show ?case .
qed

fun truthy :: "pyval \<Rightarrow> bool" where
  "truthy PNone = False"
| "truthy (PBool b) = b"
| "truthy (PInt i) = (i \<noteq> 0)"
| "truthy (PFloat f) = (f \<noteq> Fin 0)"
| "truthy (PStr s) = (s \<noteq> [])"
| "truthy (PList xs) = (xs \<noteq> [])"
| "truthy (PDict d) = (d \<noteq> [])"
| "truthy (PAttr d) = (d \<noteq> [])"

fun as_num :: "pyval \<Rightarrow> pyfloat option" where
  "as_num (PBool b) = Some (Fin (if b then 1 else 0))"
| "as_num (PInt i) = Some (Fin (of_int i))"
| "as_num (PFloat f) = Some f"
| "as_num _ = None"

text \<open>\<open>==\<close>: numbers compare across \<open>bool\<close>, \<open>int\<close> and \<open>float\<close>; dictionaries ignore order.\<close>

fun py_eq :: "pyval \<Rightarrow> pyval \<Rightarrow> bool"
  and py_eq_list :: "pyval list \<Rightarrow> pyval list \<Rightarrow> bool"
  and py_eq_items :: "items \<Rightarrow> items \<Rightarrow> bool" where
  "py_eq PNone b = (b = PNone)"
| "py_eq (PStr s) b = (b = PStr s)"
| "py_eq (PBool x) b = (case as_num b of None \<Rightarrow> False | Some f \<Rightarrow> feq (Fin (if x then 1 else 0)) f)"
| "py_eq (PInt i) b = (case as_num b of None \<Rightarrow> False | Some f \<Rightarrow> feq (Fin (of_int i)) f)"
| "py_eq (PFloat g) b = (case as_num b of None \<Rightarrow> False | Some f \<Rightarrow> feq g f)"
| "py_eq (PList xs) b = (case b of PList ys \<Rightarrow> py_eq_list xs ys | _ \<Rightarrow> False)"
| "py_eq (PDict d) b =
     (case as_dict b of None \<Rightarrow> False | Some e \<Rightarrow> length d = length e \<and> py_eq_items d e)"
| "py_eq (PAttr d) b =
     (case as_dict b of None \<Rightarrow> False | Some e \<Rightarrow> length d = length e \<and> py_eq_items d e)"
| "py_eq_list [] ys = (ys = [])"
| "py_eq_list (x # xs) ys = (case ys of [] \<Rightarrow> False | y # ys' \<Rightarrow> py_eq x y \<and> py_eq_list xs ys')"
| "py_eq_items [] e = True"
| "py_eq_items ((k, v) # d) e =
     ((case map_of e k of None \<Rightarrow> False | Some w \<Rightarrow> py_eq v w) \<and> py_eq_items d e)"

section \<open>Strings\<close>

definition is_space :: "char \<Rightarrow> bool" where
  "is_space c = (let n = (of_char c :: nat) in 9 \<le> n \<and> n \<le> 13 \<or> 28 \<le> n \<and> n \<le> 32)"

definition py_strip :: "string \<Rightarrow> string" where
  "py_strip s = rev (dropWhile is_space (rev (dropWhile is_space s)))"

definition lower_char :: "char \<Rightarrow> char" where
  "lower_char c = (let n = (of_char c :: nat) in if 65 \<le> n \<and> n \<le> 90 then char_of (n + 32) else c)"

definition upper_char :: "char \<Rightarrow> char" where
  "upper_char c = (let n = (of_char c :: nat) in if 97 \<le> n \<and> n \<le> 122 then char_of (n - 32) else c)"

definition py_lower :: "string \<Rightarrow> string" where
  "py_lower s = map lower_char s"

definition py_upper :: "string \<Rightarrow> string" where
  "py_upper s = map upper_char s"

fun starts_with :: "'a list \<Rightarrow> 'a list \<Rightarrow> bool" where
  "starts_with [] s = True"
| "starts_with (p # ps) s = (case s of [] \<Rightarrow> False | c # cs \<Rightarrow> p = c \<and> starts_with ps cs)"

lemma starts_with_append [simp]: "starts_with p (p @ s)"
  by (induction p) auto

fun join :: "string \<Rightarrow> string list \<Rightarrow> string" where
  "join sep [] = []"
| "join sep [x] = x"
| "join sep (x # xs) = x @ sep @ join sep xs"

fun digits_of :: "nat \<Rightarrow> string" where
  "digits_of n = (if n < 10 then [char_of (48 + n)] else digits_of (n div 10) @ [char_of (48 + n mod 10)])"

declare digits_of.simps [simp del]

definition str_int :: "int \<Rightarrow> string" where
  "str_int i = (if i < 0 then ''-'' @ digits_of (nat (- i)) else digits_of (nat i))"

lemma digits_of_nonempty: "digits_of n \<noteq> []"
  by (subst digits_of.simps) simp

text \<open>\<open>repr\<close> of a string: double quotes only when it holds a single quote and no double one.\<close>

definition hex_digit :: "nat \<Rightarrow> char" where
  "hex_digit n = (if n < 10 then char_of (48 + n) else char_of (87 + n))"

definition repr_char :: "char \<Rightarrow> char \<Rightarrow> string" where
  "repr_char q c =
     (let n = (of_char c :: nat) in
      if c = q \<or> n = 92 then [char_of (92::nat), c]
      else if n = 9 then [char_of (92::nat), CHR ''t'']
      else if n = 10 then [char_of (92::nat), CHR ''n'']
      else if n = 13 then [char_of (92::nat), CHR ''r'']
      else if n < 32 \<or> n = 127 then
        [char_of (92::nat), CHR ''x'', hex_digit (n div 16), hex_digit (n mod 16)]
      else [c])"

definition repr_str :: "string \<Rightarrow> string" where
  "repr_str s =
     (let sq = char_of (39::nat); dq = char_of (34::nat);
          q = (if sq \<in> set s \<and> dq \<notin> set s then dq else sq)
      in q # concat (map (repr_char q) s) @ [q])"

section \<open>What the language computes on text\<close>

record py_lang =
  float_repr :: "pyfloat \<Rightarrow> string"
  float_parse :: "string \<Rightarrow> pyfloat option"
  int_parse :: "string \<Rightarrow> int option"

fun py_repr :: "py_lang \<Rightarrow> pyval \<Rightarrow> string"
  and py_reprs :: "py_lang \<Rightarrow> pyval list \<Rightarrow> string list"
  and py_repr_items :: "py_lang \<Rightarrow> items \<Rightarrow> string list" where
  "py_repr L PNone = ''None''"
| "py_repr L (PBool b) = (if b then ''True'' else ''False'')"
| "py_repr L (PInt i) = str_int i"
| "py_repr L (PFloat f) = float_repr L f"
| "py_repr L (PStr s) = repr_str s"
| "py_repr L (PList xs) = ''['' @ join '', '' (py_reprs L xs) @ '']''"
| "py_repr L (PDict d) = ''{'' @ join '', '' (py_repr_items L d) @ ''}''"
| "py_repr L (PAttr d) = ''{'' @ join '', '' (py_repr_items L d) @ ''}''"
| "py_reprs L [] = []"
| "py_reprs L (x # xs) = py_repr L x # py_reprs L xs"
| "py_repr_items L [] = []"
| "py_repr_items L ((k, v) # d) = (repr_str k @ '': '' @ py_repr L v) # py_repr_items L d"

fun py_str :: "py_lang \<Rightarrow> pyval \<Rightarrow> string" where
  "py_str L (PStr s) = s"
| "py_str L v = py_repr L v"

fun py_float :: "py_lang \<Rightarrow> pyval \<Rightarrow> pyfloat option" where
  "py_float L (PStr s) = float_parse L s"
| "py_float L v = as_num v"

fun py_int :: "py_lang \<Rightarrow> pyval \<Rightarrow> int option" where
  "py_int L (PBool b) = Some (if b then 1 else 0)"
| "py_int L (PInt i) = Some i"
| "py_int L (PFloat (Fin q)) = Some (if q < 0 then - \<lfloor>- q\<rfloor> else \<lfloor>q\<rfloor>)"
| "py_int L (PStr s) = int_parse L s"
| "py_int L _ = None"

section \<open>Exceptions\<close>

text \<open>The exceptions the modelled code raises, with the text \<open>str(exc)\<close> gives.\<close>

datatype pyexc =
    TypeError string
  | ValueError string
  | KeyError string
  | AttributeError string
  | RuntimeError string
  | OtherError string

fun exc_text :: "pyexc \<Rightarrow> string" where
  "exc_text (TypeError s) = s"
| "exc_text (ValueError s) = s"
| "exc_text (KeyError s) = s"
| "exc_text (AttributeError s) = s"
| "exc_text (RuntimeError s) = s"
| "exc_text (OtherError s) = s"

text \<open>\<open>x or y\<close>, and what \<open>x.get\<close> does when \<open>x\<close> is not a dictionary.\<close>

definition py_or :: "pyval \<Rightarrow> pyval \<Rightarrow> pyval" where
  "py_or x y = (if truthy x then x else y)"

fun type_name :: "pyval \<Rightarrow> string" where
  "type_name PNone = ''NoneType''"
| "type_name (PBool _) = ''bool''"
| "type_name (PInt _) = ''int''"
| "type_name (PFloat _) = ''float''"
| "type_name (PStr _) = ''str''"
| "type_name (PList _) = ''list''"
| "type_name (PDict _) = ''dict''"
| "type_name (PAttr _) = ''AttrDict''"

definition need_get :: "pyval \<Rightarrow> pyexc + items" where
  "need_get v = (case as_dict v of
     Some d \<Rightarrow> Inr d
   | None \<Rightarrow> Inl (AttributeError (repr_str (type_name v) @ '' object has no attribute '' @ repr_str ''get'')))"

section \<open>An instance for examples\<close>

text \<open>A concrete \<open>py_lang\<close> the examples evaluate on: it prints integral floats and parses decimal digits.\<close>

fun digits_value :: "string \<Rightarrow> nat \<Rightarrow> nat option" where
  "digits_value [] acc = Some acc"
| "digits_value (c # cs) acc =
     (let n = (of_char c :: nat) in
      if 48 \<le> n \<and> n \<le> 57 then digits_value cs (10 * acc + (n - 48)) else None)"

definition plain_lang :: py_lang where
  "plain_lang =
     \<lparr>float_repr = (\<lambda>f. case f of Fin q \<Rightarrow> str_int \<lfloor>q\<rfloor> @ ''.0'' | PInf \<Rightarrow> ''inf'' | NInf \<Rightarrow> ''-inf'' | NaN \<Rightarrow> ''nan''),
      float_parse = (\<lambda>s. if s = [] then None else map_option (\<lambda>n. Fin (of_nat n)) (digits_value s 0)),
      int_parse = (\<lambda>s. if s = [] then None else map_option int (digits_value s 0))\<rparr>"

text \<open>An optional text as a value: ``None`` when it is missing.\<close>

definition opt_text :: "string option \<Rightarrow> pyval" where
  "opt_text t = (case t of None \<Rightarrow> PNone | Some s \<Rightarrow> PStr s)"

end
