(* ===== verification/Shm_Ring.thy ===== *)
theory Shm_Ring
  imports Py_Value "HOL-Library.Product_Lexorder"
begin

text \<open>
  The shared-memory ring of \<open>shm/shm_ring.py\<close>: the byte layout of a segment, the single
  writer that publishes frames into it, and the readers that copy frames out while the
  writer goes on. The segment is a list of bytes and every access is at the byte offset the
  code computes. A write is the list of its stores in program order, so that the buffer a
  concurrent reader sees is the buffer after some prefix of them.
\<close>

section \<open>Data\<close>

definition SHM_MAGIC :: "byte list" where
  "SHM_MAGIC = map of_char ''CNTXSHM1''"

definition HEADER_SIZE :: nat where "HEADER_SIZE = 64"
definition SLOT_ENTRY_SIZE :: nat where "SLOT_ENTRY_SIZE = 64"
definition SEQ_END_OFFSET :: nat where "SEQ_END_OFFSET = 32"
definition HEADER_LAST_SEQ_OFFSET :: nat where "HEADER_LAST_SEQ_OFFSET = 32"
definition HEADER_LAST_SLOT_OFFSET :: nat where "HEADER_LAST_SLOT_OFFSET = 40"

lemmas shm_consts = HEADER_SIZE_def SLOT_ENTRY_SIZE_def SEQ_END_OFFSET_def
  HEADER_LAST_SEQ_OFFSET_def HEADER_LAST_SLOT_OFFSET_def

definition STRUCTURED_DTYPE_PREFIX :: "byte list" where
  "STRUCTURED_DTYPE_PREFIX = map of_char ''json:''"

text \<open>
  numpy and \<open>json\<close> are not part of the program: what the ring asks of them is a
  parameter. \<open>np_str\<close> and \<open>np_descr\<close> are \<open>str(dtype)\<close> and \<open>dtype.descr\<close>, its tuples as the lists
  \<open>json\<close> makes of them; \<open>np_dumps\<close> and \<open>np_loads\<close> are \<open>json.dumps\<close> and \<open>json.loads\<close>, \<open>np_dtype_of_descr\<close> and \<open>np_dtype_of_str\<close> are
  the constructor \<open>np.dtype\<close>; \<open>None\<close> stands for the exception each may raise.
\<close>

record 'd np_api =
  np_itemsize :: "'d \<Rightarrow> nat"
  np_hasobject :: "'d \<Rightarrow> bool"
  np_fields :: "'d \<Rightarrow> bool"
  np_str :: "'d \<Rightarrow> byte list"
  np_descr :: "'d \<Rightarrow> pyval list"
  np_dumps :: "pyval \<Rightarrow> byte list"
  np_loads :: "byte list \<Rightarrow> pyval option"
  np_dtype_of_descr :: "pyval list \<Rightarrow> 'd option"
  np_dtype_of_str :: "byte list \<Rightarrow> 'd option"

datatype shm_error = ShmValueError string | ShmStructError | ShmNumpyError | ShmFileExists

definition structured_header :: "'d np_api \<Rightarrow> 'd \<Rightarrow> pyval" where
  "structured_header np d = PDict [(''kind'', PStr ''structured_dtype''), (''descr'', PList (np_descr np d))]"

definition dtype_to_header_text :: "'d np_api \<Rightarrow> 'd \<Rightarrow> byte list" where
  "dtype_to_header_text np d =
     (if \<not> np_fields np d then np_str np d
      else STRUCTURED_DTYPE_PREFIX @ np_dumps np (structured_header np d))"

definition dtype_from_header_text :: "'d np_api \<Rightarrow> byte list \<Rightarrow> shm_error + 'd" where
  "dtype_from_header_text np text =
     (if starts_with STRUCTURED_DTYPE_PREFIX text then
        (case np_loads np (drop (length STRUCTURED_DTYPE_PREFIX) text) of
           None \<Rightarrow> Inl ShmNumpyError
         | Some raw \<Rightarrow>
             (case as_dict raw of
                None \<Rightarrow> Inl (ShmValueError ''Invalid structured dtype header'')
              | Some d \<Rightarrow>
                  if jget d ''kind'' \<noteq> PStr ''structured_dtype''
                  then Inl (ShmValueError ''Invalid structured dtype header'')
                  else (case jget d ''descr'' of
                          PList descr \<Rightarrow>
                            (case np_dtype_of_descr np descr of
                               None \<Rightarrow> Inl ShmNumpyError | Some t \<Rightarrow> Inr t)
                        | _ \<Rightarrow> Inl (ShmValueError ''Invalid structured dtype descriptor''))))
      else (case np_dtype_of_str np text of None \<Rightarrow> Inl ShmNumpyError | Some t \<Rightarrow> Inr t))"

record 'd shm_layout =
  l_dtype :: 'd
  l_shape :: "int list"
  l_slot_count :: nat
  l_payload_nbytes :: nat
  l_layout_version :: nat
  l_dtype_str_len :: nat
  l_shape_len :: nat
  l_slot_table_offset :: nat
  l_payload_offset :: nat
  l_metadata_dtype :: "'d option"
  l_metadata_nbytes :: nat
  l_metadata_dtype_str_len :: nat
  l_metadata_offset :: nat

record 'd shm_writer =
  w_layout :: "'d shm_layout"
  w_buf :: buf
  w_next_seq :: nat
  w_next_slot :: nat

record 'd nd_array =
  a_dtype :: 'd
  a_shape :: "int list"
  a_bytes :: "byte list"

section \<open>Creating and attaching\<close>

text \<open>
  \<open>struct\<close> refuses a value outside the field's range. The header is packed at the start of
  the zeroed segment: \<open>I\<close> is 4 bytes, \<open>Q\<close> is 8, little endian, without padding.
\<close>

definition fits :: "nat \<Rightarrow> nat \<Rightarrow> bool" where
  "fits k v \<longleftrightarrow> v < 256 ^ k"

definition header_v1 :: "nat \<Rightarrow> nat \<Rightarrow> nat \<Rightarrow> nat \<Rightarrow> nat \<Rightarrow> byte list" where
  "header_v1 version slots payload dlen slen =
     SHM_MAGIC @ concat (map (\<lambda>v. le_bytes 4 (int v)) [version, slots, payload, dlen, slen, 0])"

definition header_v2 :: "nat \<Rightarrow> nat \<Rightarrow> nat \<Rightarrow> nat \<Rightarrow> nat \<Rightarrow> nat \<Rightarrow> nat \<Rightarrow> byte list" where
  "header_v2 version slots payload dlen slen mlen mbytes =
     SHM_MAGIC @ concat (map (\<lambda>v. le_bytes 4 (int v)) [version, slots, payload, dlen, slen, 0])
       @ concat (map (\<lambda>v. le_bytes 8 (int v)) [0, 0, mlen, mbytes])"

definition shape_bytes :: "int list \<Rightarrow> byte list" where
  "shape_bytes shape = concat (map (le_bytes 4) shape)"

definition fits_int32 :: "int \<Rightarrow> bool" where
  "fits_int32 d \<longleftrightarrow> - (2 ^ 31) \<le> d \<and> d < 2 ^ 31"

text \<open>
  \<open>shared_memory.SharedMemory(create=True)\<close> fails on an existing name; the code then
  unlinks the stale segment and tries once more. \<open>unlink_ok\<close> says whether that unlink
  took effect, since the code ignores its failure. The result is the segment namespace
  afterwards and the new zeroed segment.
\<close>

definition create_segment ::
  "(string \<rightharpoonup> buf) \<Rightarrow> bool \<Rightarrow> string \<Rightarrow> nat \<Rightarrow> shm_error + (string \<rightharpoonup> buf) \<times> buf" where
  "create_segment ns unlink_ok name nbytes =
     (let seg = replicate nbytes 0;
          ns' = (case ns name of None \<Rightarrow> ns | Some _ \<Rightarrow> if unlink_ok then ns(name := None) else ns)
      in case ns' name of None \<Rightarrow> Inr (ns'(name \<mapsto> seg), seg) | Some _ \<Rightarrow> Inl ShmFileExists)"

definition metadata_spec ::
  "'d np_api \<Rightarrow> nat \<Rightarrow> 'd option \<Rightarrow> shm_error + byte list \<times> nat" where
  "metadata_spec np version mdt =
     (case mdt of
        None \<Rightarrow> Inr ([], 0)
      | Some m \<Rightarrow>
          if np_hasobject np m \<or> \<not> np_fields np m
          then Inl (ShmValueError ''SHM ring metadata dtype must be a structured fixed-size dtype'')
          else if version < 4
          then Inl (ShmValueError ''SHM ring metadata requires layout_version >= 4'')
          else Inr (dtype_to_header_text np m, np_itemsize np m))"

definition shm_create ::
  "'d np_api \<Rightarrow> (string \<rightharpoonup> buf) \<Rightarrow> bool \<Rightarrow> string \<Rightarrow> 'd \<Rightarrow> int list \<Rightarrow> nat \<Rightarrow> nat \<Rightarrow> 'd option
    \<Rightarrow> shm_error + (string \<rightharpoonup> buf) \<times> 'd shm_writer" where
  "shm_create np ns unlink_ok name dt shape slot_count version mdt =
     (if np_hasobject np dt
      then Inl (ShmValueError ''SHM ring dtype cannot contain Python objects'')
      else if prod_list shape < 0 then Inl ShmStructError \<comment> \<open>no segment or header has a negative size\<close>
      else
      let payload_nbytes = np_itemsize np dt * nat (prod_list shape);
          dtype_bytes = dtype_to_header_text np dt;
          shape_len = length shape;
          dtype_str_len = length dtype_bytes
      in res_bind (metadata_spec np version mdt) (\<lambda>(mbytes, mnbytes).
      let mlen = length mbytes;
          slot_table_offset = HEADER_SIZE + dtype_str_len + shape_len * 4 + mlen;
          payload_offset = slot_table_offset + slot_count * SLOT_ENTRY_SIZE;
          metadata_offset = payload_offset + slot_count * payload_nbytes;
          total_bytes = metadata_offset + slot_count * mnbytes
      in res_bind (create_segment ns unlink_ok name total_bytes) (\<lambda>(ns', seg).
      if \<not> list_all (fits 4) [version, slot_count, payload_nbytes, dtype_str_len, shape_len]
         \<or> \<not> list_all fits_int32 shape
         \<or> version \<noteq> 1 \<and> \<not> list_all (fits 8) [mlen, mnbytes]
      then Inl ShmStructError
      else
      let header = (if version = 1
                    then header_v1 version slot_count payload_nbytes dtype_str_len shape_len
                    else header_v2 version slot_count payload_nbytes dtype_str_len shape_len
                           mlen mnbytes);
          b1 = put_bytes seg 0 header;
          b2 = put_bytes b1 HEADER_SIZE dtype_bytes;
          b3 = put_bytes b2 (HEADER_SIZE + dtype_str_len) (shape_bytes shape);
          b4 = put_bytes b3 (HEADER_SIZE + dtype_str_len + shape_len * 4) mbytes
      in Inr (ns'(name \<mapsto> b4),
           \<lparr>w_layout =
              \<lparr>l_dtype = dt, l_shape = shape, l_slot_count = slot_count,
               l_payload_nbytes = payload_nbytes, l_layout_version = version,
               l_dtype_str_len = dtype_str_len, l_shape_len = shape_len,
               l_slot_table_offset = slot_table_offset, l_payload_offset = payload_offset,
               l_metadata_dtype = mdt, l_metadata_nbytes = mnbytes,
               l_metadata_dtype_str_len = mlen, l_metadata_offset = metadata_offset\<rparr>,
            w_buf = b4, w_next_seq = 0, w_next_slot = 0\<rparr>))))"

text \<open>Reading one unsigned field of \<open>k\<close> bytes, and one signed field of 4 bytes.\<close>

definition field :: "nat \<Rightarrow> buf \<Rightarrow> nat \<Rightarrow> nat" where
  "field k b off = nat (le_int (get_bytes b off k))"

definition sfield :: "buf \<Rightarrow> nat \<Rightarrow> int" where
  "sfield b off = (let v = le_int (get_bytes b off 4) in if v \<ge> 2 ^ 31 then v - 2 ^ 32 else v)"

definition shm_attach :: "'d np_api \<Rightarrow> buf \<Rightarrow> shm_error + 'd shm_layout" where
  "shm_attach np b =
     (if length b < 32 then Inl ShmStructError
      else if get_bytes b 0 8 \<noteq> SHM_MAGIC then Inl (ShmValueError ''Invalid shm ring magic'')
      else
      let version = field 4 b 8; slot_count = field 4 b 12; payload_nbytes = field 4 b 16;
          dtype_len = field 4 b 20; shape_len = field 4 b 24;
          dtype_text = get_bytes b HEADER_SIZE dtype_len;
          shape_offset = HEADER_SIZE + dtype_len
      in if shape_offset + shape_len * 4 > length b \<and> shape_len > 0 then Inl ShmStructError
      else
      let shape = map (\<lambda>i. sfield b (shape_offset + i * 4)) [0..<shape_len]
      in res_bind
        (if version \<ge> 4 then
           if length b < 64 then Inl ShmStructError
           else let mlen = field 8 b 48; mnbytes = field 8 b 56
             in res_bind (dtype_from_header_text np (get_bytes b (shape_offset + shape_len * 4) mlen))
                  (\<lambda>m. if np_itemsize np m \<noteq> mnbytes
                        then Inl (ShmValueError ''Invalid SHM metadata layout'')
                        else Inr (Some m, mlen, mnbytes))
         else Inr (None, 0, 0)) (\<lambda>(mdt, mlen, mnbytes).
      let slot_table_offset = HEADER_SIZE + dtype_len + shape_len * 4 + mlen;
          payload_offset = slot_table_offset + slot_count * SLOT_ENTRY_SIZE;
          metadata_offset = payload_offset + slot_count * payload_nbytes
      in res_bind (dtype_from_header_text np dtype_text) (\<lambda>dt.
         Inr \<lparr>l_dtype = dt, l_shape = shape, l_slot_count = slot_count,
              l_payload_nbytes = payload_nbytes, l_layout_version = version,
              l_dtype_str_len = dtype_len, l_shape_len = shape_len,
              l_slot_table_offset = slot_table_offset, l_payload_offset = payload_offset,
              l_metadata_dtype = mdt, l_metadata_nbytes = mnbytes,
              l_metadata_dtype_str_len = mlen, l_metadata_offset = metadata_offset\<rparr>)))"

section \<open>Writing\<close>

text \<open>
  One store of the writer: \<open>Pack\<close> is one \<open>struct\<close> field, \<open>Copy\<close> a bulk \<open>np.copyto\<close> into a
  view of the buffer, \<open>BadValue\<close> a field whose value \<open>struct\<close> refuses.
\<close>

datatype store = Pack nat "byte list" | Copy nat "byte list" | BadValue

definition pack_Q :: "nat \<Rightarrow> int \<Rightarrow> store" where
  "pack_Q off v = (if 0 \<le> v \<and> v < 2 ^ 64 then Pack off (le_bytes 8 v) else BadValue)"

fun store_ok :: "nat \<Rightarrow> store \<Rightarrow> bool" where
  "store_ok n (Pack off bs) = (off + length bs \<le> n)"
| "store_ok n (Copy off bs) = (off + length bs \<le> n)"
| "store_ok n BadValue = False"

fun apply_store :: "buf \<Rightarrow> store \<Rightarrow> buf" where
  "apply_store b (Pack off bs) = put_bytes b off bs"
| "apply_store b (Copy off bs) = put_bytes b off bs"
| "apply_store b BadValue = b"

text \<open>The stores run in order up to the first that raises; what was stored before stays.\<close>

fun run_stores :: "buf \<Rightarrow> store list \<Rightarrow> shm_error option \<times> buf" where
  "run_stores b [] = (None, b)"
| "run_stores b (st # sts) =
     (if store_ok (length b) st then run_stores (apply_store b st) sts
      else (Some ShmStructError, b))"

definition slot_offset :: "'d shm_layout \<Rightarrow> nat \<Rightarrow> nat" where
  "slot_offset L slot = l_slot_table_offset L + slot * SLOT_ENTRY_SIZE"

definition payload_start :: "'d shm_layout \<Rightarrow> nat \<Rightarrow> nat" where
  "payload_start L slot = l_payload_offset L + slot * l_payload_nbytes L"

definition metadata_start :: "'d shm_layout \<Rightarrow> nat \<Rightarrow> nat" where
  "metadata_start L slot = l_metadata_offset L + slot * l_metadata_nbytes L"

definition write_check ::
  "'d shm_layout \<Rightarrow> 'd nd_array \<Rightarrow> 'd nd_array option \<Rightarrow> shm_error + unit" where
  "write_check L arr meta =
     (if a_dtype arr \<noteq> l_dtype L then Inl (ShmValueError ''dtype mismatch'')
      else if a_shape arr \<noteq> l_shape L then Inl (ShmValueError ''shape mismatch'')
      else case l_metadata_dtype L of
        None \<Rightarrow>
          (if meta \<noteq> None
           then Inl (ShmValueError ''metadata provided for a ring without a metadata schema'')
           else Inr ())
      | Some mdt \<Rightarrow>
          (case meta of
             None \<Rightarrow> Inl (ShmValueError ''metadata required by the SHM ring schema'')
           | Some m \<Rightarrow>
               if a_dtype m \<noteq> mdt \<or> a_shape m \<noteq> []
               then Inl (ShmValueError ''metadata mismatch'') else Inr ()))"

definition data_stores ::
  "'d shm_layout \<Rightarrow> nat \<Rightarrow> 'd nd_array \<Rightarrow> 'd nd_array option \<Rightarrow> store list" where
  "data_stores L slot arr meta =
     [Copy (payload_start L slot) (a_bytes arr)] @
     (case (l_metadata_dtype L, meta) of
        (Some _, Some m) \<Rightarrow> [Copy (metadata_start L slot) (a_bytes m)]
      | _ \<Rightarrow> [])"

definition write_stores ::
  "'d shm_layout \<Rightarrow> nat \<Rightarrow> nat \<Rightarrow> 'd nd_array \<Rightarrow> int \<Rightarrow> int \<Rightarrow> 'd nd_array option \<Rightarrow> store list" where
  "write_stores L slot seq arr t0_mono t0_wall meta =
     (let so = slot_offset L slot in
      [pack_Q so 0, pack_Q (so + SEQ_END_OFFSET) 0] @
      data_stores L slot arr meta @
      [pack_Q so (int seq), pack_Q (so + 8) t0_mono, pack_Q (so + 16) t0_wall, pack_Q (so + 24) 0,
       pack_Q (so + 32) 0, pack_Q (so + 40) 0, pack_Q (so + 48) 0, pack_Q (so + 56) 0] @
      [pack_Q (so + SEQ_END_OFFSET) (int seq)] @
      (if l_layout_version L \<ge> 2
       then [pack_Q HEADER_LAST_SEQ_OFFSET (int seq), pack_Q HEADER_LAST_SLOT_OFFSET (int slot)]
       else []))"

definition shm_write ::
  "'d shm_writer \<Rightarrow> 'd nd_array \<Rightarrow> int \<Rightarrow> int \<Rightarrow> 'd nd_array option
    \<Rightarrow> (shm_error + nat) \<times> 'd shm_writer" where
  "shm_write w arr t0_mono t0_wall meta =
     (case write_check (w_layout w) arr meta of
        Inl e \<Rightarrow> (Inl e, w)
      | Inr _ \<Rightarrow>
          let slot = w_next_slot w; seq = w_next_seq w + 1 in
          (case run_stores (w_buf w) (write_stores (w_layout w) slot seq arr t0_mono t0_wall meta) of
             (Some e, b) \<Rightarrow> (Inl e, w\<lparr>w_buf := b\<rparr>)
           | (None, b) \<Rightarrow>
               (Inr seq,
                w\<lparr>w_buf := b, w_next_seq := seq,
                  w_next_slot := (slot + 1) mod l_slot_count (w_layout w)\<rparr>)))"

text \<open>A batch has a leading axis; \<open>nb_frames\<close> are the bytes of \<open>batch[idx]\<close>.\<close>

record 'd nd_batch =
  nb_dtype :: 'd
  nb_shape :: "int list"
  nb_frames :: "byte list list"

definition batch_check ::
  "'d shm_layout \<Rightarrow> 'd nd_batch \<Rightarrow> int list \<Rightarrow> int list \<Rightarrow> 'd nd_batch option \<Rightarrow> shm_error + nat" where
  "batch_check L batch t0_mono t0_wall meta =
     (case nb_shape batch of
        [] \<Rightarrow> Inl (ShmValueError ''batched stream payload must have a leading batch axis'')
      | n # rest \<Rightarrow>
          if rest \<noteq> l_shape L then Inl (ShmValueError ''batched shape mismatch'')
          else if nb_dtype batch \<noteq> l_dtype L then Inl (ShmValueError ''dtype mismatch'')
          else if n < 1 \<or> n > int (l_slot_count L)
          then Inl (ShmValueError ''batch size must be between 1 and the ring slot count'')
          else if list_ex (\<lambda>t. t < 0 \<or> t \<ge> 2 ^ 64) (t0_mono @ t0_wall) then Inl ShmNumpyError
          else if int (length t0_mono) \<noteq> n \<or> int (length t0_wall) \<noteq> n
          then Inl (ShmValueError ''batch timestamps must contain one value per frame'')
          else (case l_metadata_dtype L of
            None \<Rightarrow>
              (if meta \<noteq> None
               then Inl (ShmValueError ''metadata provided for a ring without a metadata schema'')
               else Inr (nat n))
          | Some mdt \<Rightarrow>
              (case meta of
                 None \<Rightarrow> Inl (ShmValueError ''metadata required by the SHM ring schema'')
               | Some m \<Rightarrow>
                   if nb_dtype m \<noteq> mdt \<or> nb_shape m \<noteq> [n]
                   then Inl (ShmValueError ''batch metadata must match the ring schema and batch size'')
                   else Inr (nat n))))"

definition batch_frame :: "'d shm_layout \<Rightarrow> 'd nd_batch \<Rightarrow> nat \<Rightarrow> 'd nd_array" where
  "batch_frame L batch idx =
     \<lparr>a_dtype = nb_dtype batch, a_shape = tl (nb_shape batch), a_bytes = nb_frames batch ! idx\<rparr>"

text \<open>The loop of \<open>write_batch\<close>: \<open>first\<close> is the first sequence number, \<open>last\<close> the latest.\<close>

fun batch_loop ::
  "'d nd_batch \<Rightarrow> int list \<Rightarrow> int list \<Rightarrow> 'd nd_batch option \<Rightarrow> nat list \<Rightarrow> nat \<Rightarrow> nat
    \<Rightarrow> 'd shm_writer \<Rightarrow> (shm_error + nat \<times> nat) \<times> 'd shm_writer" where
  "batch_loop batch t0_mono t0_wall meta [] first lst w = (Inr (first, lst), w)"
| "batch_loop batch t0_mono t0_wall meta (idx # idxs) first lst w =
     (case shm_write w (batch_frame (w_layout w) batch idx) (t0_mono ! idx) (t0_wall ! idx)
             (map_option (\<lambda>m. batch_frame (w_layout w) m idx) meta) of
        (Inl e, w') \<Rightarrow> (Inl e, w')
      | (Inr seq, w') \<Rightarrow>
          batch_loop batch t0_mono t0_wall meta idxs (if idx = 0 then seq else first) seq w')"

definition shm_write_batch ::
  "'d shm_writer \<Rightarrow> 'd nd_batch \<Rightarrow> int list \<Rightarrow> int list \<Rightarrow> 'd nd_batch option
    \<Rightarrow> (shm_error + nat \<times> nat) \<times> 'd shm_writer" where
  "shm_write_batch w batch t0_mono t0_wall meta =
     (case batch_check (w_layout w) batch t0_mono t0_wall meta of
        Inl e \<Rightarrow> (Inl e, w)
      | Inr count \<Rightarrow> batch_loop batch t0_mono t0_wall meta [0..<count] 0 0 w)"

section \<open>Reading\<close>

record shm_event =
  ev_seq :: nat
  ev_t0_mono_ns :: nat
  ev_t0_wall_ns :: nat
  ev_payload :: "byte list"
  ev_metadata :: "byte list option"

text \<open>
  A reader loads one field or one byte at a time while the writer goes on. \<open>mem t\<close> is the
  buffer at time \<open>t\<close>, and \<open>tm i\<close> the time of the reader's \<open>i\<close>-th load. A slice of the
  buffer is copied byte by byte, each byte at its own time. Load 4 is the reserved \<open>shot\<close>
  field, which is read and dropped.
\<close>

definition load_bytes :: "('t \<Rightarrow> buf) \<Rightarrow> (nat \<Rightarrow> 't) \<Rightarrow> nat \<Rightarrow> nat \<Rightarrow> nat \<Rightarrow> byte list" where
  "load_bytes mem tm i off n =
     concat (map (\<lambda>k. get_bytes (mem (tm (i + k))) (off + k) 1) [0..<n])"

definition read_stable_slot_at ::
  "'d shm_layout \<Rightarrow> ('t \<Rightarrow> buf) \<Rightarrow> (nat \<Rightarrow> 't) \<Rightarrow> nat \<Rightarrow> nat \<Rightarrow> shm_event option" where
  "read_stable_slot_at L mem tm slot expected_seq =
     (let so = slot_offset L slot;
          seq_begin = field 8 (mem (tm 0)) so;
          seq_end = field 8 (mem (tm 1)) (so + SEQ_END_OFFSET)
      in if seq_begin = 0 \<or> seq_begin \<noteq> seq_end \<or> seq_end \<noteq> expected_seq then None
      else
      let t0_mono_ns = field 8 (mem (tm 2)) (so + 8);
          t0_wall_ns = field 8 (mem (tm 3)) (so + 16);
          pn = l_payload_nbytes L; mn = l_metadata_nbytes L;
          payload = load_bytes mem tm 5 (payload_start L slot) pn;
          metadata = (case l_metadata_dtype L of
                        None \<Rightarrow> None
                      | Some _ \<Rightarrow> Some (load_bytes mem tm (5 + pn) (metadata_start L slot) mn));
          after = 5 + pn + mn;
          seq_begin_after = field 8 (mem (tm after)) so;
          seq_end_after = field 8 (mem (tm (after + 1))) (so + SEQ_END_OFFSET)
      in if seq_begin_after \<noteq> expected_seq \<or> seq_end_after \<noteq> expected_seq
            \<or> seq_begin_after \<noteq> seq_end_after then None
      else Some \<lparr>ev_seq = expected_seq, ev_t0_mono_ns = t0_mono_ns, ev_t0_wall_ns = t0_wall_ns,
                 ev_payload = payload, ev_metadata = metadata\<rparr>)"

text \<open>The same read with no writer running: every load sees the same buffer.\<close>

definition read_stable_slot :: "'d shm_layout \<Rightarrow> buf \<Rightarrow> nat \<Rightarrow> nat \<Rightarrow> shm_event option" where
  "read_stable_slot L b slot expected_seq =
     read_stable_slot_at L (\<lambda>_::unit. b) (\<lambda>_. ()) slot expected_seq"

definition read_last_hint :: "'d shm_layout \<Rightarrow> buf \<Rightarrow> (nat \<times> nat) option" where
  "read_last_hint L b =
     (if l_layout_version L < 2 then None
      else Some (field 8 b HEADER_LAST_SEQ_OFFSET, field 8 b HEADER_LAST_SLOT_OFFSET))"

text \<open>The slots \<open>read_event\<close> tries, in its order: the hint, its neighbours, then every slot.\<close>

definition slots_to_try :: "'d shm_layout \<Rightarrow> buf \<Rightarrow> nat list" where
  "slots_to_try L b =
     (let n = l_slot_count L in
      (case read_last_hint L b of
         Some (_, h) \<Rightarrow>
           if h < n then
             h # concat (map (\<lambda>d. [(h + d) mod n, nat ((int h - int d) mod int n)]) [1..<33])
           else []
       | None \<Rightarrow> []) @ [0..<n])"

fun first_some :: "('a \<Rightarrow> 'b option) \<Rightarrow> 'a list \<Rightarrow> 'b option" where
  "first_some f [] = None"
| "first_some f (x # xs) = (case f x of Some y \<Rightarrow> Some y | None \<Rightarrow> first_some f xs)"

definition read_event :: "'d shm_layout \<Rightarrow> buf \<Rightarrow> nat \<Rightarrow> shm_event option" where
  "read_event L b seq_target =
     first_some (\<lambda>slot. read_stable_slot L b slot seq_target) (slots_to_try L b)"

definition slot_indices :: "'d shm_layout \<Rightarrow> buf \<Rightarrow> nat list" where
  "slot_indices L b =
     (let n = l_slot_count L in
      case read_last_hint L b of
        Some (_, h) \<Rightarrow> if h < n then map (\<lambda>i. (h + i) mod n) [0..<n] else [0..<n]
      | None \<Rightarrow> [0..<n])"

definition slot_entries :: "'d shm_layout \<Rightarrow> buf \<Rightarrow> nat \<Rightarrow> (nat \<times> nat) list" where
  "slot_entries L b last_seen_seq =
     concat (map (\<lambda>slot.
       let so = slot_offset L slot;
           seq_begin = field 8 b so; seq_end = field 8 b (so + SEQ_END_OFFSET)
       in if seq_begin = 0 \<or> seq_begin \<noteq> seq_end \<or> seq_end \<le> last_seen_seq then []
          else [(seq_end, slot)]) (slot_indices L b))"

definition read_events :: "'d shm_layout \<Rightarrow> buf \<Rightarrow> nat \<Rightarrow> shm_event list" where
  "read_events L b last_seen_seq =
     List.map_filter (\<lambda>(seq, slot). read_stable_slot L b slot seq)
       (sort_key fst (slot_entries L b last_seen_seq))"

end
