(* ===== verification/Shm_Ring_Proofs.thy ===== *)
theory Shm_Ring_Proofs
  imports Shm_Ring
begin

text \<open>
  Correctness of the shared-memory ring: where the fields of a slot lie, what a write does
  to them, what a reader may see while the writer runs, and which events the readers
  return.
\<close>

section \<open>Well-formed rings and frames\<close>

definition ring_wf :: "'d shm_layout \<Rightarrow> nat \<Rightarrow> bool" where
  "ring_wf L len \<longleftrightarrow>
     0 < l_slot_count L \<and> l_slot_count L < 2 ^ 64 \<and>
     HEADER_SIZE \<le> l_slot_table_offset L \<and>
     l_payload_offset L = l_slot_table_offset L + l_slot_count L * SLOT_ENTRY_SIZE \<and>
     l_metadata_offset L = l_payload_offset L + l_slot_count L * l_payload_nbytes L \<and>
     len = l_metadata_offset L + l_slot_count L * l_metadata_nbytes L \<and>
     (l_metadata_dtype L = None \<longrightarrow> l_metadata_nbytes L = 0)"

record 'd frame =
  fr_arr :: "'d nd_array"
  fr_mono :: int
  fr_wall :: int
  fr_meta :: "'d nd_array option"

definition is_u64 :: "int \<Rightarrow> bool" where
  "is_u64 v \<longleftrightarrow> 0 \<le> v \<and> v < 2 ^ 64"

definition frame_ok :: "'d shm_layout \<Rightarrow> 'd frame \<Rightarrow> bool" where
  "frame_ok L f \<longleftrightarrow>
     write_check L (fr_arr f) (fr_meta f) = Inr () \<and>
     length (a_bytes (fr_arr f)) = l_payload_nbytes L \<and>
     (case fr_meta f of None \<Rightarrow> True | Some m \<Rightarrow> length (a_bytes m) = l_metadata_nbytes L) \<and>
     is_u64 (fr_mono f) \<and> is_u64 (fr_wall f)"

definition write_frame :: "'d shm_writer \<Rightarrow> 'd frame \<Rightarrow> (shm_error + nat) \<times> 'd shm_writer" where
  "write_frame w f = shm_write w (fr_arr f) (fr_mono f) (fr_wall f) (fr_meta f)"

definition frame_event :: "'d frame \<Rightarrow> nat \<Rightarrow> shm_event" where
  "frame_event f seq =
     \<lparr>ev_seq = seq, ev_t0_mono_ns = nat (fr_mono f), ev_t0_wall_ns = nat (fr_wall f),
      ev_payload = a_bytes (fr_arr f), ev_metadata = map_option a_bytes (fr_meta f)\<rparr>"

definition frame_stores :: "'d shm_layout \<Rightarrow> nat \<Rightarrow> nat \<Rightarrow> 'd frame \<Rightarrow> store list" where
  "frame_stores L slot seq f = write_stores L slot seq (fr_arr f) (fr_mono f) (fr_wall f) (fr_meta f)"

lemma frame_ok_meta:
  assumes "frame_ok L f"
  shows "l_metadata_dtype L = None \<longleftrightarrow> fr_meta f = None"
  using assms by (auto simp: frame_ok_def write_check_def split: if_splits option.splits)

lemma frame_ok_lengths:
  assumes "frame_ok L f"
  shows "length (a_bytes (fr_arr f)) = l_payload_nbytes L"
    and "fr_meta f = Some m \<Longrightarrow> length (a_bytes m) = l_metadata_nbytes L"
  using assms by (auto simp: frame_ok_def split: option.splits)

section \<open>Where things lie\<close>

lemma mult_slot_bound: "(s::nat) < n \<Longrightarrow> s * c + c \<le> n * c"
proof -
  assume "s < n"
  then have "(s + 1) * c \<le> n * c" by (intro mult_le_mono1) simp
  then show ?thesis by (simp add: algebra_simps)
qed

lemma mult_slot_disjoint: "(s::nat) \<noteq> s' \<Longrightarrow> s * c + c \<le> s' * c \<or> s' * c + c \<le> s * c"
  by (cases s s' rule: linorder_cases) (auto dest: mult_slot_bound)

lemma ring_bounds:
  assumes "ring_wf L len" "s < l_slot_count L"
  shows "64 \<le> slot_offset L s"
    and "slot_offset L s + 64 \<le> l_payload_offset L"
    and "l_payload_offset L \<le> payload_start L s"
    and "payload_start L s + l_payload_nbytes L \<le> l_metadata_offset L"
    and "l_metadata_offset L \<le> metadata_start L s"
    and "metadata_start L s + l_metadata_nbytes L \<le> len"
    and "l_metadata_offset L \<le> len"
  using assms mult_slot_bound [OF assms(2), of 64]
    mult_slot_bound [OF assms(2), of "l_payload_nbytes L"]
    mult_slot_bound [OF assms(2), of "l_metadata_nbytes L"]
  by (auto simp: ring_wf_def slot_offset_def payload_start_def metadata_start_def shm_consts)

lemma ring_disjoint:
  assumes "s \<noteq> s'"
  shows "slot_offset L s + 64 \<le> slot_offset L s' \<or> slot_offset L s' + 64 \<le> slot_offset L s"
    and "payload_start L s + l_payload_nbytes L \<le> payload_start L s'
       \<or> payload_start L s' + l_payload_nbytes L \<le> payload_start L s"
    and "metadata_start L s + l_metadata_nbytes L \<le> metadata_start L s'
       \<or> metadata_start L s' + l_metadata_nbytes L \<le> metadata_start L s"
  using mult_slot_disjoint [OF assms, of 64] mult_slot_disjoint [OF assms, of "l_payload_nbytes L"]
    mult_slot_disjoint [OF assms, of "l_metadata_nbytes L"]
  by (auto simp: slot_offset_def payload_start_def metadata_start_def shm_consts)

section \<open>Runs of stores\<close>

fun clear_of :: "nat \<Rightarrow> nat \<Rightarrow> store \<Rightarrow> bool" where
  "clear_of p n (Pack off bs) = (p + n \<le> off \<or> off + length bs \<le> p)"
| "clear_of p n (Copy off bs) = (p + n \<le> off \<or> off + length bs \<le> p)"
| "clear_of p n BadValue = True"

lemma length_apply_store: "store_ok (length b) st \<Longrightarrow> length (apply_store b st) = length b"
  by (cases st) (auto simp: buf_simps)

lemma length_apply_stores:
  "list_all (store_ok (length b)) sts \<Longrightarrow> length (foldl apply_store b sts) = length b"
  by (induction sts arbitrary: b) (auto simp: length_apply_store)

lemma run_stores_ok:
  "list_all (store_ok (length b)) sts \<Longrightarrow> run_stores b sts = (None, foldl apply_store b sts)"
  by (induction sts arbitrary: b) (auto simp: length_apply_store)

lemma get_apply_store_clear:
  "store_ok (length b) st \<Longrightarrow> clear_of p n st \<Longrightarrow> p + n \<le> length b
    \<Longrightarrow> get_bytes (apply_store b st) p n = get_bytes b p n"
  by (cases st) (auto simp: buf_simps)

lemma get_apply_stores_clear:
  assumes "list_all (store_ok (length b)) sts" "list_all (clear_of p n) sts" "p + n \<le> length b"
  shows "get_bytes (foldl apply_store b sts) p n = get_bytes b p n"
  using assms
  by (induction sts arbitrary: b) (auto simp: length_apply_store get_apply_store_clear)

subsection \<open>Bulk copies byte by byte\<close>

fun fine :: "store \<Rightarrow> store list" where
  "fine (Copy off bs) = map (\<lambda>i. Copy (off + i) [bs ! i]) [0..<length bs]"
| "fine st = [st]"

lemma put_bytes_snoc:
  assumes "off + length bs + 1 \<le> length b"
  shows "put_bytes (put_bytes b off bs) (off + length bs) [x] = put_bytes b off (bs @ [x])"
  using assms
  by (intro nth_equalityI) (auto simp: nth_put_bytes length_put_bytes nth_append)

lemma apply_fine_copy:
  assumes "off + length bs \<le> length b"
  shows "foldl apply_store b (map (\<lambda>i. Copy (off + i) [bs ! i]) [0..<length bs]) = put_bytes b off bs"
  using assms
proof (induction bs rule: rev_induct)
  case Nil
  then show ?case by (simp add: put_bytes_def)
next
  case (snoc x xs)
  have *: "map (\<lambda>i. Copy (off + i) [(xs @ [x]) ! i]) [0..<length xs]
      = map (\<lambda>i. Copy (off + i) [xs ! i]) [0..<length xs]"
    by (auto simp: nth_append)
  have IH: "foldl apply_store b (map (\<lambda>i. Copy (off + i) [xs ! i]) [0..<length xs]) = put_bytes b off xs"
    using snoc by simp
  have "foldl apply_store b (map (\<lambda>i. Copy (off + i) [(xs @ [x]) ! i]) [0..<length (xs @ [x])])
      = put_bytes (foldl apply_store b (map (\<lambda>i. Copy (off + i) [(xs @ [x]) ! i]) [0..<length xs]))
          (off + length xs) [x]"
    by simp
  also have "\<dots> = put_bytes b off (xs @ [x])"
    unfolding * IH using snoc.prems by (intro put_bytes_snoc) simp
  finally show ?case .
qed

lemma apply_fine: "store_ok (length b) st \<Longrightarrow> foldl apply_store b (fine st) = apply_store b st"
  by (cases st) (auto simp: apply_fine_copy)

lemma apply_fines:
  "list_all (store_ok (length b)) sts
    \<Longrightarrow> foldl apply_store b (concat (map fine sts)) = foldl apply_store b sts"
  by (induction sts arbitrary: b) (auto simp: apply_fine length_apply_store)

lemma store_ok_fine: "store_ok n st \<Longrightarrow> list_all (store_ok n) (fine st)"
  by (cases st) (auto simp: list_all_iff)

lemma clear_of_fine: "clear_of p n st \<Longrightarrow> list_all (clear_of p n) (fine st)"
  by (cases st) (auto simp: list_all_iff)

lemma list_all_concat_fine:
  "(\<And>st. P st \<Longrightarrow> list_all P (fine st)) \<Longrightarrow> list_all P sts \<Longrightarrow> list_all P (concat (map fine sts))"
  by (induction sts) auto

lemma list_all_take: "list_all P xs \<Longrightarrow> list_all P (take j xs)"
  by (auto simp: list_all_iff dest: in_set_takeD)

section \<open>The stores of a write\<close>

lemma u64_bytes: "is_u64 v \<Longrightarrow> nat (le_int (le_bytes 8 v)) = nat v"
  by (simp add: le_int_le_bytes is_u64_def)

lemma pack_Q_u64: "is_u64 v \<Longrightarrow> pack_Q off v = Pack off (le_bytes 8 v)"
  by (simp add: pack_Q_def is_u64_def)

lemma is_u64_simps [simp]: "is_u64 0" "is_u64 (int n) \<longleftrightarrow> n < 2 ^ 64"
proof -
  show "is_u64 0" by (simp add: is_u64_def)
  have "int n < 2 ^ 64 \<longleftrightarrow> n < 2 ^ 64"
    by (metis of_nat_less_iff of_nat_numeral of_nat_power)
  then show "is_u64 (int n) \<longleftrightarrow> n < 2 ^ 64" by (simp add: is_u64_def)
qed

lemma list_all_fine:
  "(\<And>st. P st \<Longrightarrow> list_all P (fine st)) \<Longrightarrow> list_all P sts \<Longrightarrow> list_all P (take j (concat (map fine sts)))"
  by (intro list_all_take list_all_concat_fine) auto

text \<open>The write's stores in three parts: invalidation, data, publication.\<close>

definition open_stores :: "'d shm_layout \<Rightarrow> nat \<Rightarrow> store list" where
  "open_stores L slot = [pack_Q (slot_offset L slot) 0, pack_Q (slot_offset L slot + 32) 0]"

definition entry_stores :: "'d shm_layout \<Rightarrow> nat \<Rightarrow> nat \<Rightarrow> 'd frame \<Rightarrow> store list" where
  "entry_stores L slot seq f =
     (let so = slot_offset L slot in
      [pack_Q so (int seq), pack_Q (so + 8) (fr_mono f), pack_Q (so + 16) (fr_wall f),
       pack_Q (so + 24) 0, pack_Q (so + 32) 0, pack_Q (so + 40) 0, pack_Q (so + 48) 0,
       pack_Q (so + 56) 0])"

definition hint_stores :: "'d shm_layout \<Rightarrow> nat \<Rightarrow> nat \<Rightarrow> store list" where
  "hint_stores L slot seq =
     (if l_layout_version L \<ge> 2 then [pack_Q 32 (int seq), pack_Q 40 (int slot)] else [])"

lemma frame_stores_parts:
  "frame_stores L slot seq f =
     open_stores L slot @ data_stores L slot (fr_arr f) (fr_meta f) @ entry_stores L slot seq f
       @ [pack_Q (slot_offset L slot + 32) (int seq)] @ hint_stores L slot seq"
  by (simp add: frame_stores_def write_stores_def open_stores_def entry_stores_def
      hint_stores_def Let_def shm_consts)

text \<open>Each store lies in the slot's entry, its payload, its metadata or the header's hint.\<close>

fun store_in :: "nat \<Rightarrow> nat \<Rightarrow> store \<Rightarrow> bool" where
  "store_in lo hi (Pack off bs) = (lo \<le> off \<and> off + length bs \<le> hi)"
| "store_in lo hi (Copy off bs) = (lo \<le> off \<and> off + length bs \<le> hi)"
| "store_in lo hi BadValue = False"

definition slot_store :: "'d shm_layout \<Rightarrow> nat \<Rightarrow> store \<Rightarrow> bool" where
  "slot_store L slot st \<longleftrightarrow>
     store_in (slot_offset L slot) (slot_offset L slot + 64) st
     \<or> store_in (payload_start L slot) (payload_start L slot + l_payload_nbytes L) st
     \<or> store_in (metadata_start L slot) (metadata_start L slot + l_metadata_nbytes L) st
     \<or> store_in 32 48 st"

lemma store_in_ok: "store_in lo hi st \<Longrightarrow> hi \<le> n \<Longrightarrow> store_ok n st"
  by (cases st) auto

lemma store_in_clear: "store_in lo hi st \<Longrightarrow> p + n \<le> lo \<or> hi \<le> p \<Longrightarrow> clear_of p n st"
  by (cases st) auto

lemma frame_stores_slot:
  assumes s: "slot < 2 ^ 64" and f: "frame_ok L f" and seq: "seq < 2 ^ 64"
  shows "list_all (slot_store L slot) (frame_stores L slot seq f)"
proof -
  have "list_all (slot_store L slot) (open_stores L slot)"
    by (simp add: open_stores_def pack_Q_u64 slot_store_def)
  moreover have "list_all (slot_store L slot) (data_stores L slot (fr_arr f) (fr_meta f))"
    using frame_ok_lengths [OF f] by (simp add: data_stores_def slot_store_def split: option.split)
  moreover have "list_all (slot_store L slot) (entry_stores L slot seq f)"
    using f seq by (simp add: entry_stores_def Let_def pack_Q_u64 frame_ok_def slot_store_def)
  moreover have "list_all (slot_store L slot) (hint_stores L slot seq)"
    using s seq by (simp add: hint_stores_def pack_Q_u64 slot_store_def)
  ultimately show ?thesis
    using seq by (simp add: frame_stores_parts pack_Q_u64 slot_store_def)
qed

lemma slot_store_ok:
  assumes "ring_wf L len" "slot < l_slot_count L" "slot_store L slot st"
  shows "store_ok len st"
  using assms(3) ring_bounds [OF assms(1,2)] unfolding slot_store_def
  by (elim disjE) (erule store_in_ok; simp)+

lemma frame_stores_ok:
  assumes wf: "ring_wf L len" and s: "slot < l_slot_count L" and f: "frame_ok L f"
    and seq: "seq < 2 ^ 64"
  shows "list_all (store_ok len) (frame_stores L slot seq f)"
proof -
  have "slot < 2 ^ 64" using wf s by (auto simp: ring_wf_def)
  from frame_stores_slot [OF this f seq] slot_store_ok [OF wf s] show ?thesis
    by (auto simp: list_all_iff)
qed

text \<open>A write to one slot leaves every field of every other slot alone.\<close>

definition slot_field :: "'d shm_layout \<Rightarrow> nat \<Rightarrow> nat \<Rightarrow> nat \<Rightarrow> bool" where
  "slot_field L slot p n \<longleftrightarrow>
     slot_offset L slot \<le> p \<and> p + n \<le> slot_offset L slot + 64
     \<or> p = payload_start L slot \<and> n = l_payload_nbytes L
     \<or> p = metadata_start L slot \<and> n = l_metadata_nbytes L"

lemma slot_store_clear:
  assumes wf: "ring_wf L len" and s: "slot < l_slot_count L" and s': "slot' < l_slot_count L"
    and ne: "slot \<noteq> slot'" and st: "slot_store L slot st" and fld: "slot_field L slot' p n"
  shows "clear_of p n st"
proof -
  note b = ring_bounds [OF wf s] and b' = ring_bounds [OF wf s'] and d = ring_disjoint [OF ne, of L]
  have "(p + n \<le> slot_offset L slot \<or> slot_offset L slot + 64 \<le> p)
      \<and> (p + n \<le> payload_start L slot \<or> payload_start L slot + l_payload_nbytes L \<le> p)
      \<and> (p + n \<le> metadata_start L slot \<or> metadata_start L slot + l_metadata_nbytes L \<le> p)
      \<and> 48 \<le> p"
    using fld unfolding slot_field_def
  proof (elim disjE conjE)
    assume p: "slot_offset L slot' \<le> p" "p + n \<le> slot_offset L slot' + 64"
    have "p + n \<le> payload_start L slot" "p + n \<le> metadata_start L slot" "48 \<le> p"
      using p b(3-5) b'(1,2) by linarith+
    moreover have "p + n \<le> slot_offset L slot \<or> slot_offset L slot + 64 \<le> p"
      using d(1) p by linarith
    ultimately show ?thesis by simp
  next
    assume p: "p = payload_start L slot'" "n = l_payload_nbytes L"
    have "slot_offset L slot + 64 \<le> p" "p + n \<le> metadata_start L slot" "48 \<le> p"
      using p b(2,5) b'(1-4) by linarith+
    then show ?thesis using d(2) p by auto
  next
    assume p: "p = metadata_start L slot'" "n = l_metadata_nbytes L"
    have "slot_offset L slot + 64 \<le> p" "payload_start L slot + l_payload_nbytes L \<le> p" "48 \<le> p"
      using p b(2,4) b(3) b'(1-5) by linarith+
    then show ?thesis using d(3) p by auto
  qed
  with st show ?thesis unfolding slot_store_def
    by (elim disjE conjE) (auto elim!: store_in_clear)
qed

lemma frame_stores_clear:
  assumes wf: "ring_wf L len" and s: "slot < l_slot_count L" and s': "slot' < l_slot_count L"
    and ne: "slot \<noteq> slot'" and f: "frame_ok L f" and seq: "seq < 2 ^ 64"
    and fld: "slot_field L slot' p n"
  shows "list_all (clear_of p n) (frame_stores L slot seq f)"
proof -
  have "slot < 2 ^ 64" using wf s by (auto simp: ring_wf_def)
  from frame_stores_slot [OF this f seq] slot_store_clear [OF wf s s' ne _ fld] show ?thesis
    by (auto simp: list_all_iff)
qed

section \<open>What the slot holds during one write\<close>

lemma get_prefix_hit:
  assumes ok: "list_all (store_ok (length b)) (xs @ Pack p bs # ys @ zs)"
    and clear: "list_all (clear_of p (length bs)) ys"
    and j: "length xs < j" "j \<le> length xs + 1 + length ys"
  shows "get_bytes (foldl apply_store b (take j (xs @ Pack p bs # ys @ zs))) p (length bs) = bs"
proof -
  obtain i where i: "j = length xs + Suc i" "i \<le> length ys"
    using j by (metis add.assoc add_le_cancel_left less_imp_Suc_add plus_1_eq_Suc add_Suc_right Suc_le_mono)
  define c where "c = foldl apply_store b xs"
  have c: "length c = length b" using ok by (simp add: c_def length_apply_stores)
  have "foldl apply_store b (take j (xs @ Pack p bs # ys @ zs))
      = foldl apply_store (put_bytes c p bs) (take i ys)"
    using i by (simp add: c_def)
  then show ?thesis
    using ok clear c by (simp add: get_apply_stores_clear list_all_take buf_simps)
qed

lemma get_prefix_miss:
  assumes "list_all (store_ok (length b)) (xs @ ys)" "list_all (clear_of p n) xs"
    and "p + n \<le> length b" "j \<le> length xs"
  shows "get_bytes (foldl apply_store b (take j (xs @ ys))) p n = get_bytes b p n"
  using assms by (simp add: get_apply_stores_clear list_all_take)

lemma get_prefix_copy:
  assumes ok: "list_all (store_ok (length b)) (xs @ fine (Copy p bs) @ ys)"
    and clear: "list_all (clear_of p (length bs)) ys"
    and p: "p + length bs \<le> length b" and j: "length xs + length bs \<le> j"
  shows "get_bytes (foldl apply_store b (take j (xs @ fine (Copy p bs) @ ys))) p (length bs) = bs"
proof -
  define c where "c = foldl apply_store b xs"
  have c: "length c = length b" using ok by (simp add: c_def length_apply_stores)
  have "foldl apply_store b (take j (xs @ fine (Copy p bs) @ ys))
      = foldl apply_store (put_bytes c p bs) (take (j - (length xs + length bs)) ys)"
    using j p c by (simp add: c_def apply_fine_copy)
  then show ?thesis
    using ok clear c p by (simp add: get_apply_stores_clear list_all_take buf_simps)
qed

definition fine_stores :: "'d shm_layout \<Rightarrow> nat \<Rightarrow> nat \<Rightarrow> 'd frame \<Rightarrow> store list" where
  "fine_stores L slot seq f = concat (map fine (frame_stores L slot seq f))"

definition data_len :: "'d shm_layout \<Rightarrow> nat" where
  "data_len L = l_payload_nbytes L + l_metadata_nbytes L"

definition data_fine :: "'d shm_layout \<Rightarrow> nat \<Rightarrow> 'd frame \<Rightarrow> store list" where
  "data_fine L slot f = concat (map fine (data_stores L slot (fr_arr f) (fr_meta f)))"

lemma length_fine_Copy [simp]: "length (fine (Copy p bs)) = length bs"
  by simp

lemma length_data_fine:
  assumes "ring_wf L len" "frame_ok L f"
  shows "length (data_fine L slot f) = data_len L"
  using frame_ok_lengths [OF assms(2)] frame_ok_meta [OF assms(2)] assms(1)
  by (auto simp: data_fine_def data_stores_def data_len_def ring_wf_def split: option.split)

text \<open>The stores of a write with \<open>struct\<close> fields resolved; \<open>so\<close> is the slot's entry.\<close>

definition head_stores :: "nat \<Rightarrow> store list" where
  "head_stores so = [Pack so (le_bytes 8 0), Pack (so + 32) (le_bytes 8 0)]"

definition tail_stores :: "nat \<Rightarrow> nat \<Rightarrow> 'd frame \<Rightarrow> store list" where
  "tail_stores so seq f =
     [Pack so (le_bytes 8 (int seq)), Pack (so + 8) (le_bytes 8 (fr_mono f)),
      Pack (so + 16) (le_bytes 8 (fr_wall f)), Pack (so + 24) (le_bytes 8 0),
      Pack (so + 32) (le_bytes 8 0), Pack (so + 40) (le_bytes 8 0), Pack (so + 48) (le_bytes 8 0),
      Pack (so + 56) (le_bytes 8 0), Pack (so + 32) (le_bytes 8 (int seq))]"

definition hint_fine :: "'d shm_layout \<Rightarrow> nat \<Rightarrow> nat \<Rightarrow> store list" where
  "hint_fine L slot seq =
     (if l_layout_version L \<ge> 2
      then [Pack 32 (le_bytes 8 (int seq)), Pack 40 (le_bytes 8 (int slot))] else [])"

lemma fine_stores_eq:
  assumes "slot < 2 ^ 64" "frame_ok L f" "seq < 2 ^ 64"
  shows "fine_stores L slot seq f =
    head_stores (slot_offset L slot) @ data_fine L slot f @
    tail_stores (slot_offset L slot) seq f @ hint_fine L slot seq"
  using assms
  by (simp add: fine_stores_def frame_stores_parts open_stores_def entry_stores_def hint_stores_def
      head_stores_def tail_stores_def hint_fine_def data_fine_def Let_def pack_Q_u64 frame_ok_def)

lemma fine_stores_ok:
  assumes "ring_wf L len" "slot < l_slot_count L" "frame_ok L f" "seq < 2 ^ 64"
  shows "list_all (store_ok len) (fine_stores L slot seq f)"
  unfolding fine_stores_def
  by (intro list_all_concat_fine store_ok_fine frame_stores_ok assms)

lemma data_fine_clear:
  assumes wf: "ring_wf L len" and s: "slot < l_slot_count L" and f: "frame_ok L f"
    and p: "p + n \<le> slot_offset L slot + 64"
  shows "list_all (clear_of p n) (data_fine L slot f)"
  unfolding data_fine_def
proof (intro list_all_concat_fine clear_of_fine)
  note b = ring_bounds [OF wf s]
  show "list_all (clear_of p n) (data_stores L slot (fr_arr f) (fr_meta f))"
    using p b(2-5) by (simp add: data_stores_def split: option.split)
qed

lemma hint_fine_clear: "48 \<le> p \<Longrightarrow> list_all (clear_of p n) (hint_fine L slot seq)"
  by (simp add: hint_fine_def)

lemma tail_stores_clear:
  "so + 64 \<le> p \<Longrightarrow> list_all (clear_of p n) (tail_stores so seq f)"
  by (simp add: tail_stores_def)

lemma get_prefix_last:
  assumes ok: "list_all (store_ok (length b)) (xs @ Pack p bs # ys)"
    and clear: "list_all (clear_of p (length bs)) ys" and j: "length xs < j"
  shows "get_bytes (foldl apply_store b (take j (xs @ Pack p bs # ys))) p (length bs) = bs"
proof -
  let ?zs = "xs @ Pack p bs # ys"
  have "take j ?zs = take (min j (length ?zs)) ?zs" by (metis min.commute take_all_iff take_take nle_le)
  moreover have "get_bytes (foldl apply_store b (take (min j (length ?zs)) ?zs)) p (length bs) = bs"
    using get_prefix_hit [of b xs p bs ys "[]"] ok clear j by simp
  ultimately show ?thesis by simp
qed

lemma field_8_le_bytes:
  "get_bytes b off 8 = le_bytes 8 v \<Longrightarrow> is_u64 v \<Longrightarrow> field 8 b off = nat v"
  by (simp add: field_def u64_bytes)

lemma begin_in_write:
  assumes wf: "ring_wf L (length b)" and s: "slot < l_slot_count L" and f: "frame_ok L f"
    and seq: "seq < 2 ^ 64"
  shows "field 8 (foldl apply_store b (take j (fine_stores L slot seq f))) (slot_offset L slot) =
    (if j = 0 then field 8 b (slot_offset L slot) else if j \<le> 2 + data_len L then 0 else seq)"
proof -
  let ?so = "slot_offset L slot" and ?D = "data_fine L slot f"
  have lt: "slot < 2 ^ 64" using wf s by (auto simp: ring_wf_def)
  note eq = fine_stores_eq [OF lt f seq] and ok = fine_stores_ok [OF wf s f seq]
  note bd = ring_bounds [OF wf s] and ld = length_data_fine [OF wf f, of slot]
  have D: "list_all (clear_of ?so 8) ?D" by (rule data_fine_clear [OF wf s f]) simp
  let ?c = "foldl apply_store b (take j (fine_stores L slot seq f))"
  have early: "get_bytes ?c ?so 8 = le_bytes 8 0" if "0 < j" "j \<le> 2 + data_len L"
    using get_prefix_hit [of b "[]" ?so "le_bytes 8 0" "Pack (?so + 32) (le_bytes 8 0) # ?D"
        "tail_stores ?so seq f @ hint_fine L slot seq" j] ok D ld that
    by (simp add: eq head_stores_def)
  have late: "get_bytes ?c ?so 8 = le_bytes 8 (int seq)" if "2 + data_len L < j"
    using get_prefix_last [of b "head_stores ?so @ ?D" ?so "le_bytes 8 (int seq)"
        "tl (tail_stores ?so seq f) @ hint_fine L slot seq" j] ok ld bd(1)
      hint_fine_clear [of ?so 8 L slot seq] that
    by (simp add: eq head_stores_def tail_stores_def)
  show ?thesis
    using early late seq by (auto dest!: field_8_le_bytes)
qed

lemma end_in_write:
  assumes wf: "ring_wf L (length b)" and s: "slot < l_slot_count L" and f: "frame_ok L f"
    and seq: "seq < 2 ^ 64"
  shows "field 8 (foldl apply_store b (take j (fine_stores L slot seq f))) (slot_offset L slot + 32) =
    (if j \<le> 1 then field 8 b (slot_offset L slot + 32) else if j \<le> 10 + data_len L then 0 else seq)"
proof -
  let ?so = "slot_offset L slot" and ?D = "data_fine L slot f"
  let ?T = "tail_stores ?so seq f" and ?I = "hint_fine L slot seq"
  have lt: "slot < 2 ^ 64" using wf s by (auto simp: ring_wf_def)
  note eq = fine_stores_eq [OF lt f seq] and ok = fine_stores_ok [OF wf s f seq]
  note bd = ring_bounds [OF wf s] and ld = length_data_fine [OF wf f, of slot]
  have D: "list_all (clear_of (?so + 32) 8) ?D" by (rule data_fine_clear [OF wf s f]) simp
  let ?c = "foldl apply_store b (take j (fine_stores L slot seq f))"
  have none: "get_bytes ?c (?so + 32) 8 = get_bytes b (?so + 32) 8" if "j \<le> 1"
    using get_prefix_miss [of b "take 1 (head_stores ?so)" "tl (head_stores ?so) @ ?D @ ?T @ ?I"
        "?so + 32" 8 j] ok that bd
    by (simp add: eq head_stores_def)
  have early: "get_bytes ?c (?so + 32) 8 = le_bytes 8 0" if "1 < j" "j \<le> 6 + data_len L"
    using get_prefix_hit [of b "take 1 (head_stores ?so)" "?so + 32" "le_bytes 8 0"
        "?D @ take 4 ?T" "drop 4 ?T @ ?I" j] ok D ld that
    by (simp add: eq head_stores_def tail_stores_def)
  have again: "get_bytes ?c (?so + 32) 8 = le_bytes 8 0" if "6 + data_len L < j" "j \<le> 10 + data_len L"
    using get_prefix_hit [of b "head_stores ?so @ ?D @ take 4 ?T" "?so + 32" "le_bytes 8 0"
        "take 3 (drop 5 ?T)" "drop 8 ?T @ ?I" j] ok ld that
    by (simp add: eq head_stores_def tail_stores_def)
  have late: "get_bytes ?c (?so + 32) 8 = le_bytes 8 (int seq)" if "10 + data_len L < j"
    using get_prefix_last [of b "head_stores ?so @ ?D @ take 8 ?T" "?so + 32" "le_bytes 8 (int seq)"
        ?I j] ok ld bd(1) hint_fine_clear [of "?so + 32" 8 L slot seq] that
    by (simp add: eq head_stores_def tail_stores_def)
  have zero: "get_bytes ?c (?so + 32) 8 = le_bytes 8 0" if "1 < j" "j \<le> 10 + data_len L"
    using early again that by (cases "j \<le> 6 + data_len L") auto
  show ?thesis
    using none zero late seq by (auto simp: field_def [of 8 _ "?so + 32"] u64_bytes)
qed

definition slot_holds :: "'d shm_layout \<Rightarrow> buf \<Rightarrow> nat \<Rightarrow> 'd frame \<Rightarrow> bool" where
  "slot_holds L b slot f \<longleftrightarrow>
     field 8 b (slot_offset L slot + 8) = nat (fr_mono f) \<and>
     field 8 b (slot_offset L slot + 16) = nat (fr_wall f) \<and>
     get_bytes b (payload_start L slot) (l_payload_nbytes L) = a_bytes (fr_arr f) \<and>
     (\<forall>m. fr_meta f = Some m \<longrightarrow>
        get_bytes b (metadata_start L slot) (l_metadata_nbytes L) = a_bytes m)"

lemma payload_in_write:
  assumes wf: "ring_wf L (length b)" and s: "slot < l_slot_count L" and f: "frame_ok L f"
    and seq: "seq < 2 ^ 64" and j: "10 + data_len L < j"
  shows "get_bytes (foldl apply_store b (take j (fine_stores L slot seq f)))
      (payload_start L slot) (l_payload_nbytes L) = a_bytes (fr_arr f)"
proof -
  let ?so = "slot_offset L slot" and ?D = "data_fine L slot f"
  let ?T = "tail_stores ?so seq f" and ?I = "hint_fine L slot seq"
  let ?M = "concat (map fine (tl (data_stores L slot (fr_arr f) (fr_meta f))))"
  have lt: "slot < 2 ^ 64" using wf s by (auto simp: ring_wf_def)
  note eq = fine_stores_eq [OF lt f seq] and ok = fine_stores_ok [OF wf s f seq]
  note bd = ring_bounds [OF wf s] and fl = frame_ok_lengths [OF f]
  have D: "?D = fine (Copy (payload_start L slot) (a_bytes (fr_arr f))) @ ?M"
    by (simp add: data_fine_def data_stores_def)
  have M: "list_all (clear_of (payload_start L slot) (l_payload_nbytes L)) ?M"
    using bd by (intro list_all_concat_fine clear_of_fine)
      (auto simp: data_stores_def split: option.split)
  have jj: "2 + l_payload_nbytes L \<le> j" using j by (simp add: data_len_def)
  show ?thesis
    using get_prefix_copy [of b "head_stores ?so" "payload_start L slot" "a_bytes (fr_arr f)"
        "?M @ ?T @ ?I" j] ok M fl bd jj hint_fine_clear [of "payload_start L slot" _ L slot seq]
      tail_stores_clear [of ?so "payload_start L slot" "l_payload_nbytes L" seq f]
    by (simp add: eq D head_stores_def del: fine.simps)
qed

lemma metadata_in_write:
  assumes wf: "ring_wf L (length b)" and s: "slot < l_slot_count L" and f: "frame_ok L f"
    and seq: "seq < 2 ^ 64" and j: "10 + data_len L < j" and m: "fr_meta f = Some m"
  shows "get_bytes (foldl apply_store b (take j (fine_stores L slot seq f)))
      (metadata_start L slot) (l_metadata_nbytes L) = a_bytes m"
proof -
  let ?so = "slot_offset L slot" and ?D = "data_fine L slot f"
  let ?T = "tail_stores ?so seq f" and ?I = "hint_fine L slot seq"
  let ?P = "fine (Copy (payload_start L slot) (a_bytes (fr_arr f)))"
  have lt: "slot < 2 ^ 64" using wf s by (auto simp: ring_wf_def)
  note eq = fine_stores_eq [OF lt f seq] and ok = fine_stores_ok [OF wf s f seq]
  note bd = ring_bounds [OF wf s] and fl = frame_ok_lengths [OF f]
  have "l_metadata_dtype L \<noteq> None" using frame_ok_meta [OF f] m by simp
  then have D: "?D = ?P @ fine (Copy (metadata_start L slot) (a_bytes m))"
    using m by (auto simp: data_fine_def data_stores_def)
  have jj: "2 + (l_payload_nbytes L + l_metadata_nbytes L) \<le> j" using j by (simp add: data_len_def)
  show ?thesis
    using get_prefix_copy [of b "head_stores ?so @ ?P" "metadata_start L slot" "a_bytes m"
        "?T @ ?I" j] ok fl m bd jj hint_fine_clear [of "metadata_start L slot" _ L slot seq]
      tail_stores_clear [of ?so "metadata_start L slot" "l_metadata_nbytes L" seq f]
    by (simp add: eq D head_stores_def del: fine.simps)
qed

lemma times_in_write:
  assumes wf: "ring_wf L (length b)" and s: "slot < l_slot_count L" and f: "frame_ok L f"
    and seq: "seq < 2 ^ 64" and j: "10 + data_len L < j"
  defines "c \<equiv> foldl apply_store b (take j (fine_stores L slot seq f))"
  shows "field 8 c (slot_offset L slot + 8) = nat (fr_mono f)"
    and "field 8 c (slot_offset L slot + 16) = nat (fr_wall f)"
proof -
  let ?so = "slot_offset L slot" and ?D = "data_fine L slot f"
  let ?T = "tail_stores ?so seq f" and ?I = "hint_fine L slot seq"
  have lt: "slot < 2 ^ 64" using wf s by (auto simp: ring_wf_def)
  note eq = fine_stores_eq [OF lt f seq] and ok = fine_stores_ok [OF wf s f seq]
  note bd = ring_bounds [OF wf s] and ld = length_data_fine [OF wf f, of slot]
  have "get_bytes c (?so + 8) 8 = le_bytes 8 (fr_mono f)"
    using get_prefix_last [of b "head_stores ?so @ ?D @ take 1 ?T" "?so + 8" "le_bytes 8 (fr_mono f)"
        "drop 2 ?T @ ?I" j] ok ld bd(1) hint_fine_clear [of "?so + 8" 8 L slot seq] j
    by (simp add: eq c_def head_stores_def tail_stores_def)
  then show "field 8 c (?so + 8) = nat (fr_mono f)"
    using f by (auto dest: field_8_le_bytes simp: frame_ok_def)
  have "get_bytes c (?so + 16) 8 = le_bytes 8 (fr_wall f)"
    using get_prefix_last [of b "head_stores ?so @ ?D @ take 2 ?T" "?so + 16" "le_bytes 8 (fr_wall f)"
        "drop 3 ?T @ ?I" j] ok ld bd(1) hint_fine_clear [of "?so + 16" 8 L slot seq] j
    by (simp add: eq c_def head_stores_def tail_stores_def)
  then show "field 8 c (?so + 16) = nat (fr_wall f)"
    using f by (auto dest: field_8_le_bytes simp: frame_ok_def)
qed

lemma content_in_write:
  assumes "ring_wf L (length b)" "slot < l_slot_count L" "frame_ok L f"
    and "seq < 2 ^ 64" "10 + data_len L < j"
  shows "slot_holds L (foldl apply_store b (take j (fine_stores L slot seq f))) slot f"
  unfolding slot_holds_def
  using times_in_write [OF assms] payload_in_write [OF assms] metadata_in_write [OF assms] by simp

lemma fine_stores_clear:
  assumes "ring_wf L len" "slot < l_slot_count L" "slot' < l_slot_count L" "slot \<noteq> slot'"
    and "frame_ok L f" "seq < 2 ^ 64" "slot_field L slot' p n"
  shows "list_all (clear_of p n) (fine_stores L slot seq f)"
  unfolding fine_stores_def
  by (intro list_all_concat_fine clear_of_fine frame_stores_clear [OF assms])

lemma other_slot_in_write:
  assumes wf: "ring_wf L (length b)" and s: "slot < l_slot_count L" and s': "slot' < l_slot_count L"
    and ne: "slot \<noteq> slot'" and f: "frame_ok L f" and seq: "seq < 2 ^ 64"
    and fld: "slot_field L slot' p n"
  shows "get_bytes (foldl apply_store b (take j (fine_stores L slot seq f))) p n = get_bytes b p n"
proof (rule get_apply_stores_clear)
  show "list_all (store_ok (length b)) (take j (fine_stores L slot seq f))"
    by (intro list_all_take fine_stores_ok wf s f seq)
  show "list_all (clear_of p n) (take j (fine_stores L slot seq f))"
    by (intro list_all_take fine_stores_clear [OF wf s s' ne f seq fld])
  show "p + n \<le> length b"
    using fld ring_bounds [OF wf s'] by (auto simp: slot_field_def)
qed

lemma slot_field_simps [simp]:
  "slot_field L s (slot_offset L s) 8" "slot_field L s (slot_offset L s + 8) 8"
  "slot_field L s (slot_offset L s + 16) 8" "slot_field L s (slot_offset L s + 32) 8"
  "slot_field L s (payload_start L s) (l_payload_nbytes L)"
  "slot_field L s (metadata_start L s) (l_metadata_nbytes L)"
  by (auto simp: slot_field_def)

section \<open>The history of a ring\<close>

text \<open>
  The writer's history: \<open>ring_buf k\<close> is the buffer after \<open>k\<close> writes, and \<open>ring_mem (k, j)\<close>
  the buffer after \<open>j\<close> single stores of write \<open>k\<close>. Time is the lexicographic order on
  these pairs.
\<close>

fun ring_buf :: "'d shm_layout \<Rightarrow> buf \<Rightarrow> 'd frame list \<Rightarrow> nat \<Rightarrow> buf" where
  "ring_buf L b fs 0 = b"
| "ring_buf L b fs (Suc k) =
     foldl apply_store (ring_buf L b fs k) (frame_stores L (k mod l_slot_count L) (Suc k) (fs ! k))"

definition ring_mem :: "'d shm_layout \<Rightarrow> buf \<Rightarrow> 'd frame list \<Rightarrow> nat \<times> nat \<Rightarrow> buf" where
  "ring_mem L b fs = (\<lambda>(k, j).
     if k < length fs
     then foldl apply_store (ring_buf L b fs k)
            (take j (fine_stores L (k mod l_slot_count L) (Suc k) (fs ! k)))
     else ring_buf L b fs (length fs))"

fun last_write :: "nat \<Rightarrow> nat \<Rightarrow> nat \<Rightarrow> nat option" where
  "last_write n s 0 = None"
| "last_write n s (Suc k) = (if k mod n = s then Some k else last_write n s k)"

lemma last_write_SomeD:
  "last_write n s k = Some i \<Longrightarrow> 0 < n \<Longrightarrow> i < k \<and> i mod n = s \<and> k \<le> i + n"
proof (induction k)
  case (Suc k)
  show ?case
  proof (cases "k mod n = s")
    case False
    with Suc have i: "i < k" "i mod n = s" "k \<le> i + n" by auto
    then have "k \<noteq> i + n" using False by auto
    with i show ?thesis by simp
  qed (use Suc.prems in auto)
qed simp

lemma last_write_Some:
  assumes "i mod n = s" "i < k" "k \<le> i + n"
  shows "last_write n s k = Some i"
  using assms
proof (induction k)
  case (Suc k)
  show ?case
  proof (cases "k = i")
    case False
    have "k mod n \<noteq> s"
    proof
      assume "k mod n = s"
      then have "n dvd (k - i)" using Suc.prems mod_eq_dvd_iff_nat [of i k n] by auto
      moreover have "0 < k - i" "k - i < n" using Suc.prems False by auto
      ultimately show False by (auto dest: dvd_imp_le)
    qed
    then show ?thesis using Suc False by auto
  qed (use Suc.prems in simp)
qed simp

lemma last_write_None: "last_write n s k = None \<Longrightarrow> i < k \<Longrightarrow> i mod n \<noteq> s"
  by (induction k) (auto simp: less_Suc_eq split: if_splits)

text \<open>A ring that has not been written to.\<close>

definition ring_fresh :: "'d shm_layout \<Rightarrow> buf \<Rightarrow> bool" where
  "ring_fresh L b \<longleftrightarrow>
     ring_wf L (length b) \<and>
     list_all (\<lambda>s. field 8 b (slot_offset L s) = 0 \<and> field 8 b (slot_offset L s + 32) = 0)
       [0..<l_slot_count L]"

definition frames_ok :: "'d shm_layout \<Rightarrow> 'd frame list \<Rightarrow> bool" where
  "frames_ok L fs \<longleftrightarrow> list_all (frame_ok L) fs \<and> length fs < 2 ^ 64"

lemma frames_ok_nth: "frames_ok L fs \<Longrightarrow> k < length fs \<Longrightarrow> frame_ok L (fs ! k) \<and> Suc k < 2 ^ 64"
  by (auto simp: frames_ok_def list_all_length)

lemma ring_wf_slot: "ring_wf L len \<Longrightarrow> k mod l_slot_count L < l_slot_count L"
  by (simp add: ring_wf_def)

lemma length_ring_buf:
  assumes "ring_wf L (length b)" "frames_ok L fs"
  shows "k \<le> length fs \<Longrightarrow> length (ring_buf L b fs k) = length b"
proof (induction k)
  case (Suc k)
  then have "frame_ok L (fs ! k)" "Suc k < 2 ^ 64" using frames_ok_nth [OF assms(2)] by auto
  with Suc show ?case
    using frame_stores_ok [OF assms(1) ring_wf_slot [OF assms(1)]]
    by (simp add: length_apply_stores)
qed simp

lemma ring_buf_Suc_fine:
  assumes "ring_wf L (length b)" "frames_ok L fs" "k < length fs"
  shows "ring_buf L b fs (Suc k) =
    foldl apply_store (ring_buf L b fs k)
      (fine_stores L (k mod l_slot_count L) (Suc k) (fs ! k))"
proof -
  have "list_all (store_ok (length b)) (frame_stores L (k mod l_slot_count L) (Suc k) (fs ! k))"
    using frames_ok_nth [OF assms(2,3)]
    by (auto intro!: frame_stores_ok [OF assms(1) ring_wf_slot [OF assms(1)]])
  with assms show ?thesis
    by (simp add: fine_stores_def apply_fines length_ring_buf)
qed

text \<open>
  What each slot holds after \<open>k\<close> writes: both markers and the content of the last write to
  it, or empty markers.
\<close>

definition slot_at :: "'d shm_layout \<Rightarrow> buf \<Rightarrow> 'd frame list \<Rightarrow> nat \<Rightarrow> nat option \<Rightarrow> bool" where
  "slot_at L b fs s w \<longleftrightarrow>
     (case w of
        None \<Rightarrow> field 8 b (slot_offset L s) = 0 \<and> field 8 b (slot_offset L s + 32) = 0
      | Some i \<Rightarrow> field 8 b (slot_offset L s) = Suc i \<and> field 8 b (slot_offset L s + 32) = Suc i
          \<and> slot_holds L b s (fs ! i))"

lemma slot_at_other:
  assumes wf: "ring_wf L (length b)" and s: "slot < l_slot_count L" and s': "slot' < l_slot_count L"
    and ne: "slot \<noteq> slot'" and f: "frame_ok L f" and seq: "seq < 2 ^ 64"
  shows "slot_at L (foldl apply_store b (take j (fine_stores L slot seq f))) fs slot' w =
    slot_at L b fs slot' w"
  using other_slot_in_write [OF assms]
  by (simp add: slot_at_def slot_holds_def field_def split: option.split)

lemma length_fine_stores:
  assumes "ring_wf L len" "slot < l_slot_count L" "frame_ok L f" "seq < 2 ^ 64"
  shows "10 + data_len L < length (fine_stores L slot seq f)"
proof -
  have "slot < 2 ^ 64" using assms by (auto simp: ring_wf_def)
  then show ?thesis using assms length_data_fine [OF assms(1,3), of slot]
    by (simp add: fine_stores_eq head_stores_def tail_stores_def)
qed

lemma slot_at_ring_buf:
  assumes fresh: "ring_fresh L b" and fs: "frames_ok L fs" and s: "s < l_slot_count L"
  shows "k \<le> length fs \<Longrightarrow> slot_at L (ring_buf L b fs k) fs s (last_write (l_slot_count L) s k)"
proof (induction k)
  case 0
  then show ?case using fresh s by (simp add: ring_fresh_def slot_at_def list_all_iff)
next
  case (Suc k)
  have wf: "ring_wf L (length b)" using fresh by (simp add: ring_fresh_def)
  let ?s = "k mod l_slot_count L" and ?b = "ring_buf L b fs k"
  have k: "k < length fs" and f: "frame_ok L (fs ! k)" and q: "Suc k < 2 ^ 64"
    using Suc.prems frames_ok_nth [OF fs, of k] by auto
  have wf': "ring_wf L (length ?b)" using length_ring_buf [OF wf fs, of k] wf k by simp
  let ?st = "fine_stores L ?s (Suc k) (fs ! k)"
  have b': "ring_buf L b fs (Suc k) = foldl apply_store ?b (take (length ?st) ?st)"
    using ring_buf_Suc_fine [OF wf fs k] by simp
  have j: "10 + data_len L < length ?st" using length_fine_stores [OF wf ring_wf_slot [OF wf] f q] .
  show ?case
  proof (cases "?s = s")
    case True
    with j show ?thesis
      using begin_in_write [OF wf' ring_wf_slot [OF wf, of k] f q, of "length ?st"]
        end_in_write [OF wf' ring_wf_slot [OF wf, of k] f q, of "length ?st"]
        content_in_write [OF wf' ring_wf_slot [OF wf, of k] f q, of "length ?st"]
      by (auto simp: slot_at_def b' simp del: ring_buf.simps)
  next
    case False
    then show ?thesis
      unfolding b' using Suc.IH k slot_at_other [OF wf' ring_wf_slot [OF wf] s False f q, of "length ?st"]
      by (simp del: ring_buf.simps)
  qed
qed

lemma ring_mem_done: "length fs \<le> k \<Longrightarrow> ring_mem L b fs (k, j) = ring_buf L b fs (length fs)"
  by (simp add: ring_mem_def)

lemma ring_mem_run:
  "k < length fs \<Longrightarrow> ring_mem L b fs (k, j) =
     foldl apply_store (ring_buf L b fs k)
       (take j (fine_stores L (k mod l_slot_count L) (Suc k) (fs ! k)))"
  by (simp add: ring_mem_def)

lemma slot_at_markers:
  assumes "slot_at L b fs s w"
  shows "field 8 b (slot_offset L s) = (case w of None \<Rightarrow> 0 | Some i \<Rightarrow> Suc i)"
    and "field 8 b (slot_offset L s + 32) = (case w of None \<Rightarrow> 0 | Some i \<Rightarrow> Suc i)"
  using assms by (auto simp: slot_at_def split: option.splits)

lemma begin_marker:
  assumes fresh: "ring_fresh L b" and fs: "frames_ok L fs" and s: "s < l_slot_count L"
    and q: "field 8 (ring_mem L b fs (k, j)) (slot_offset L s) = Suc i"
  shows "i < length fs \<and> i mod l_slot_count L = s \<and>
    ((k, j) < (i + l_slot_count L, 1) \<or> length fs \<le> i + l_slot_count L)"
proof (cases "k < length fs")
  case False
  then have "last_write (l_slot_count L) s (length fs) = Some i"
    using q slot_at_markers(1) [OF slot_at_ring_buf [OF fresh fs s, of "length fs"]]
    by (simp add: ring_mem_done split: option.splits)
  then show ?thesis using last_write_SomeD s by fastforce
next
  case True
  have wf: "ring_wf L (length b)" using fresh by (simp add: ring_fresh_def)
  note k = frames_ok_nth [OF fs True, THEN conjunct1] frames_ok_nth [OF fs True, THEN conjunct2]
  have wf': "ring_wf L (length (ring_buf L b fs k))" using length_ring_buf [OF wf fs] wf True by simp
  have old: "field 8 (ring_buf L b fs k) (slot_offset L s) = Suc i \<Longrightarrow>
      i < k \<and> i mod l_slot_count L = s \<and> k \<le> i + l_slot_count L"
    using slot_at_markers(1) [OF slot_at_ring_buf [OF fresh fs s, of k]] True s
    by (auto dest: last_write_SomeD split: option.splits)
  show ?thesis
  proof (cases "k mod l_slot_count L = s")
    case eq: True
    then show ?thesis
      using q old True begin_in_write [OF wf' ring_wf_slot [OF wf, of k] k, of j] s
      by (auto simp: ring_mem_run split: if_splits)
  next
    case False
    have now: "field 8 (ring_buf L b fs k) (slot_offset L s) = Suc i"
      using q other_slot_in_write [OF wf' ring_wf_slot [OF wf, of k] s False k, of "slot_offset L s" 8 j]
      by (simp add: ring_mem_run True field_def)
    from old [OF now] False True have "k \<noteq> i + l_slot_count L" by auto
    with old [OF now] True show ?thesis by auto
  qed
qed

lemma end_marker:
  assumes fresh: "ring_fresh L b" and fs: "frames_ok L fs" and s: "s < l_slot_count L"
    and q: "field 8 (ring_mem L b fs (k, j)) (slot_offset L s + 32) = Suc i"
  shows "(i, 11 + data_len L) \<le> (k, j)"
proof (cases "k < length fs")
  case False
  then have "last_write (l_slot_count L) s (length fs) = Some i"
    using q slot_at_markers(2) [OF slot_at_ring_buf [OF fresh fs s, of "length fs"]]
    by (simp add: ring_mem_done split: option.splits)
  then show ?thesis using last_write_SomeD s False by fastforce
next
  case True
  have wf: "ring_wf L (length b)" using fresh by (simp add: ring_fresh_def)
  note k = frames_ok_nth [OF fs True, THEN conjunct1] frames_ok_nth [OF fs True, THEN conjunct2]
  have wf': "ring_wf L (length (ring_buf L b fs k))" using length_ring_buf [OF wf fs] wf True by simp
  have old: "field 8 (ring_buf L b fs k) (slot_offset L s + 32) = Suc i \<Longrightarrow> i < k"
    using slot_at_markers(2) [OF slot_at_ring_buf [OF fresh fs s, of k]] True s
    by (auto dest: last_write_SomeD split: option.splits)
  show ?thesis
  proof (cases "k mod l_slot_count L = s")
    case eq: True
    then show ?thesis
      using q old True end_in_write [OF wf' ring_wf_slot [OF wf, of k] k, of j]
      by (auto simp: ring_mem_run split: if_splits)
  next
    case False
    have "field 8 (ring_buf L b fs k) (slot_offset L s + 32) = Suc i"
      using q other_slot_in_write [OF wf' ring_wf_slot [OF wf, of k] s False k, of "slot_offset L s + 32" 8 j]
      by (simp add: ring_mem_run True field_def)
    from old [OF this] show ?thesis by simp
  qed
qed

lemma slot_between:
  assumes fresh: "ring_fresh L b" and fs: "frames_ok L fs" and s: "s < l_slot_count L"
    and i: "i < length fs" "i mod l_slot_count L = s"
    and lo: "(i, 11 + data_len L) \<le> (k, j)"
    and hi: "(k, j) < (i + l_slot_count L, 1) \<or> length fs \<le> i + l_slot_count L"
  shows "slot_at L (ring_mem L b fs (k, j)) fs s (Some i)"
proof -
  have wf: "ring_wf L (length b)" using fresh by (simp add: ring_fresh_def)
  have settled: "slot_at L (ring_buf L b fs k') fs s (Some i)"
    if "i < k'" "k' \<le> i + l_slot_count L" "k' \<le> length fs" for k'
    using slot_at_ring_buf [OF fresh fs s that(3)] last_write_Some [OF i(2) that(1,2)] by simp
  show ?thesis
  proof (cases "k < length fs")
    case False
    then have "length fs \<le> i + l_slot_count L" using hi by auto
    with False settled [of "length fs"] i show ?thesis by (simp add: ring_mem_done)
  next
    case True
    note k = frames_ok_nth [OF fs True, THEN conjunct1] frames_ok_nth [OF fs True, THEN conjunct2]
    have wf': "ring_wf L (length (ring_buf L b fs k))"
      using length_ring_buf [OF wf fs] wf True by simp
    consider "k = i" "10 + data_len L < j" | "i < k" "k < i + l_slot_count L"
      | "k = i + l_slot_count L" "j = 0"
      using lo hi True by fastforce
    then show ?thesis
    proof cases
      case 1
      then show ?thesis
        using content_in_write [OF wf' ring_wf_slot [OF wf, of k] k, of j]
          begin_in_write [OF wf' ring_wf_slot [OF wf, of k] k, of j]
          end_in_write [OF wf' ring_wf_slot [OF wf, of k] k, of j] i True
        by (simp add: ring_mem_run slot_at_def)
    next
      case 2
      have "k mod l_slot_count L \<noteq> s"
        using last_write_Some [of i _ s "Suc k"] 2 i(2) by fastforce
      from slot_at_other [OF wf' ring_wf_slot [OF wf, of k] s this k, of j fs "Some i"]
        settled [of k] 2 True
      show ?thesis by (simp add: ring_mem_run)
    next
      case 3
      then show ?thesis using settled [of k] True s by (simp add: ring_mem_run)
    qed
  qed
qed

section \<open>Reading while the writer runs\<close>

lemma load_bytes_const:
  assumes "\<And>j. j < n \<Longrightarrow> get_bytes (mem (tm (i + j))) off n = bs" "length bs = n"
    and "\<And>j. off + n \<le> length (mem (tm (i + j)))"
  shows "load_bytes mem tm i off n = bs"
proof -
  have "get_bytes (mem (tm (i + j))) (off + j) 1 = [bs ! j]" if "j < n" for j
  proof -
    have "get_bytes (mem (tm (i + j))) off n ! j = mem (tm (i + j)) ! (off + j)"
      using nth_get_bytes [OF assms(3) that] .
    then have "mem (tm (i + j)) ! (off + j) = bs ! j" using assms(1) [OF that] by simp
    then show ?thesis
      using assms(3) [of j] that by (simp add: get_bytes_def take_Suc_conv_app_nth)
  qed
  then have "load_bytes mem tm i off n = concat (map (\<lambda>j. [bs ! j]) [0..<n])"
    unfolding load_bytes_def by (intro arg_cong [where f = concat] map_cong) auto
  also have "\<dots> = bs" using assms(2) map_nth [of bs] by simp
  finally show ?thesis .
qed

lemma length_ring_mem:
  assumes "ring_wf L (length b)" "frames_ok L fs"
  shows "length (ring_mem L b fs t) = length b"
proof (cases t)
  case (Pair k j)
  show ?thesis
  proof (cases "k < length fs")
    case True
    have "list_all (store_ok (length b)) (fine_stores L (k mod l_slot_count L) (Suc k) (fs ! k))"
      using frames_ok_nth [OF assms(2) True] fine_stores_ok [OF assms(1) ring_wf_slot [OF assms(1)]]
      by auto
    then show ?thesis
      using True length_ring_buf [OF assms, of k]
      by (simp add: Pair ring_mem_run length_apply_stores list_all_take)
  next
    case False
    then show ?thesis using length_ring_buf [OF assms, of "length fs"] by (simp add: Pair ring_mem_done)
  qed
qed

lemma stable_read_sound:
  fixes tm :: "nat \<Rightarrow> nat \<times> nat"
  assumes fresh: "ring_fresh L b" and fs: "frames_ok L fs" and s: "s < l_slot_count L"
    and tm: "mono tm" and r: "read_stable_slot_at L (ring_mem L b fs) tm s q = Some ev"
  shows "0 < q \<and> q \<le> length fs \<and> ev = frame_event (fs ! (q - 1)) q"
proof -
  define e where "e = 5 + l_payload_nbytes L + l_metadata_nbytes L"
  have wf: "ring_wf L (length b)" using fresh by (simp add: ring_fresh_def)
  have q0: "q \<noteq> 0" and q1: "field 8 (ring_mem L b fs (tm 1)) (slot_offset L s + 32) = q"
    and q2: "field 8 (ring_mem L b fs (tm e)) (slot_offset L s) = q"
    using r by (auto simp: read_stable_slot_at_def Let_def shm_consts e_def split: if_splits)
  obtain i where i: "q = Suc i" using q0 by (cases q) auto
  have lo: "(i, 11 + data_len L) \<le> tm 1"
    using end_marker [OF fresh fs s, of "fst (tm 1)" "snd (tm 1)"] q1 i by simp
  have hi: "i < length fs" "i mod l_slot_count L = s"
    "tm e < (i + l_slot_count L, 1) \<or> length fs \<le> i + l_slot_count L"
    using begin_marker [OF fresh fs s, of "fst (tm e)" "snd (tm e)"] q2 i by auto
  have holds: "slot_holds L (ring_mem L b fs (tm x)) s (fs ! i)" if "1 \<le> x" "x \<le> e" for x
  proof -
    have "tm 1 \<le> tm x" "tm x \<le> tm e" using that tm by (auto dest: monoD)
    then show ?thesis
      using slot_between [OF fresh fs s hi(1,2), of "fst (tm x)" "snd (tm x)"] lo hi(3)
      by (fastforce simp: slot_at_def)
  qed
  have f: "frame_ok L (fs ! i)" using frames_ok_nth [OF fs hi(1)] by simp
  note bd = ring_bounds [OF wf s] and ln = length_ring_mem [OF wf fs]
  have p: "load_bytes (ring_mem L b fs) tm 5 (payload_start L s) (l_payload_nbytes L)
      = a_bytes (fr_arr (fs ! i))"
    using holds frame_ok_lengths(1) [OF f] bd ln
    by (intro load_bytes_const) (auto simp: slot_holds_def e_def)
  have m: "load_bytes (ring_mem L b fs) tm (5 + l_payload_nbytes L) (metadata_start L s)
      (l_metadata_nbytes L) = a_bytes m" if "fr_meta (fs ! i) = Some m" for m
    using holds frame_ok_lengths(2) [OF f] bd ln that
    by (intro load_bytes_const) (auto simp: slot_holds_def e_def)
  have t: "slot_holds L (ring_mem L b fs (tm 2)) s (fs ! i)" "slot_holds L (ring_mem L b fs (tm 3)) s (fs ! i)"
    by (rule holds; simp add: e_def)+
  have "ev = frame_event (fs ! i) (Suc i)"
    using r p m t frame_ok_meta [OF f]
    by (auto simp: read_stable_slot_at_def Let_def i frame_event_def slot_holds_def
        split: if_splits option.splits)
  then show ?thesis using i hi(1) by simp
qed

text \<open>A read whose loads all fall while the slot holds one write returns that write.\<close>

lemma read_slot_at:
  assumes at: "\<And>x. slot_at L (mem (tm x)) fs s (Some i)" and f: "frame_ok L (fs ! i)"
    and wf: "\<And>x. ring_wf L (length (mem (tm x)))" and s: "s < l_slot_count L"
  shows "read_stable_slot_at L mem tm s (Suc i) = Some (frame_event (fs ! i) (Suc i))"
proof -
  have h: "slot_holds L (mem (tm x)) s (fs ! i)" for x using at [of x] by (simp add: slot_at_def)
  have mk: "field 8 (mem (tm x)) (slot_offset L s) = Suc i"
    "field 8 (mem (tm x)) (slot_offset L s + 32) = Suc i" for x
    using at [of x] by (simp_all add: slot_at_def)
  note bd = ring_bounds [OF wf s]
  have p: "load_bytes mem tm x (payload_start L s) (l_payload_nbytes L) = a_bytes (fr_arr (fs ! i))" for x
  proof (rule load_bytes_const)
    show "payload_start L s + l_payload_nbytes L \<le> length (mem (tm (x + j)))" for j
      using bd(4) bd(7) [of "x + j"] by simp
  qed (use h frame_ok_lengths(1) [OF f] in \<open>simp_all add: slot_holds_def\<close>)
  have m: "load_bytes mem tm x (metadata_start L s) (l_metadata_nbytes L) = a_bytes m"
    if "fr_meta (fs ! i) = Some m" for m x
    using h frame_ok_lengths(2) [OF f that] bd that
    by (intro load_bytes_const) (auto simp: slot_holds_def)
  have t: "field 8 (mem (tm x)) (slot_offset L s + 8) = nat (fr_mono (fs ! i))"
    "field 8 (mem (tm x)) (slot_offset L s + 16) = nat (fr_wall (fs ! i))" for x
    using h [of x] by (simp_all add: slot_holds_def)
  show ?thesis
    using frame_ok_meta [OF f] m
    by (cases "fr_meta (fs ! i)")
      (auto simp: read_stable_slot_at_def Let_def shm_consts mk p t frame_event_def)
qed

lemma stable_read_complete:
  assumes fresh: "ring_fresh L b" and fs: "frames_ok L fs" and i: "i < length fs"
    and lo: "\<And>x. (i, 11 + data_len L) \<le> tm x"
    and hi: "\<And>x. tm x < (i + l_slot_count L, 1) \<or> length fs \<le> i + l_slot_count L"
  shows "read_stable_slot_at L (ring_mem L b fs) tm (i mod l_slot_count L) (Suc i) =
    Some (frame_event (fs ! i) (Suc i))"
proof -
  have wf: "ring_wf L (length b)" using fresh by (simp add: ring_fresh_def)
  note s = ring_wf_slot [OF wf, of i]
  show ?thesis
  proof (rule read_slot_at [OF _ _ _ s])
    show "slot_at L (ring_mem L b fs (tm x)) fs (i mod l_slot_count L) (Some i)" for x
      using slot_between [OF fresh fs s i refl, of "fst (tm x)" "snd (tm x)"] lo [of x] hi [of x] by simp
    show "frame_ok L (fs ! i)" using frames_ok_nth [OF fs i] by simp
    show "ring_wf L (length (ring_mem L b fs (tm x)))" for x using wf length_ring_mem [OF wf fs] by simp
  qed
qed

end
