(* ===== verification/Shm_Ring_Reads.thy ===== *)
theory Shm_Ring_Reads
  imports Shm_Ring_Proofs
begin

text \<open>
  What the readers of the ring return between writes, what a sequence of writes leaves in
  the ring, and the contract of the ring as a bounded event log.
\<close>

section \<open>Reading between writes\<close>

lemma read_stable_slot_iff:
  assumes wf: "ring_wf L (length b)" and s: "s < l_slot_count L" and at: "slot_at L b fs s w"
    and f: "\<And>i. w = Some i \<Longrightarrow> frame_ok L (fs ! i)"
  shows "read_stable_slot L b s q =
    (if \<exists>i. w = Some i \<and> q = Suc i then Some (frame_event (fs ! (q - 1)) q) else None)"
proof (cases w)
  case None
  with at show ?thesis
    by (simp add: read_stable_slot_def read_stable_slot_at_def slot_at_def shm_consts)
next
  case (Some i)
  have "read_stable_slot L b s (Suc i) = Some (frame_event (fs ! i) (Suc i))"
    unfolding read_stable_slot_def using at f s wf Some by (intro read_slot_at) simp_all
  moreover have "read_stable_slot L b s q = None" if "q \<noteq> Suc i"
    using at that Some
    by (simp add: read_stable_slot_def read_stable_slot_at_def slot_at_def shm_consts)
  ultimately show ?thesis using Some by auto
qed

lemma read_slot_ring_buf:
  assumes fresh: "ring_fresh L b" and fs: "frames_ok L fs" and s: "s < l_slot_count L"
    and k: "k \<le> length fs"
  shows "read_stable_slot L (ring_buf L b fs k) s q =
    (if \<exists>i. last_write (l_slot_count L) s k = Some i \<and> q = Suc i
     then Some (frame_event (fs ! (q - 1)) q) else None)"
proof (rule read_stable_slot_iff [OF _ s slot_at_ring_buf [OF fresh fs s k]])
  have wf: "ring_wf L (length b)" using fresh by (simp add: ring_fresh_def)
  then show "ring_wf L (length (ring_buf L b fs k))" using length_ring_buf [OF wf fs k] by simp
next
  fix i assume "last_write (l_slot_count L) s k = Some i"
  then have "i < length fs" using last_write_SomeD s k by fastforce
  then show "frame_ok L (fs ! i)" using frames_ok_nth [OF fs] by simp
qed

lemma first_some_uniform:
  "list_all (\<lambda>x. f x = None \<or> f x = Some z) xs \<Longrightarrow> x \<in> set xs \<Longrightarrow> f x = Some z
    \<Longrightarrow> first_some f xs = Some z"
  by (induction xs) auto

lemma first_some_None: "(\<And>x. x \<in> set xs \<Longrightarrow> f x = None) \<Longrightarrow> first_some f xs = None"
  by (induction xs) auto

lemma slots_to_try_range:
  assumes "0 < l_slot_count L"
  shows "x \<in> set (slots_to_try L b) \<Longrightarrow> x < l_slot_count L"
    and "x < l_slot_count L \<Longrightarrow> x \<in> set (slots_to_try L b)"
proof -
  have "nat (i mod int (l_slot_count L)) < l_slot_count L" for i
    using assms by (simp add: nat_less_iff)
  then show "x \<in> set (slots_to_try L b) \<Longrightarrow> x < l_slot_count L"
    using assms by (auto simp: slots_to_try_def Let_def split: option.splits if_splits)
  show "x < l_slot_count L \<Longrightarrow> x \<in> set (slots_to_try L b)"
    by (simp add: slots_to_try_def Let_def)
qed

lemma kept_iff:
  assumes "0 < n"
  shows "(\<exists>i. last_write n ((q - 1) mod n) k = Some i \<and> q = Suc i) \<longleftrightarrow> 0 < q \<and> q \<le> k \<and> k < q + n"
  (is "?l \<longleftrightarrow> ?r")
proof
  assume ?l
  then show ?r using last_write_SomeD assms by fastforce
next
  assume ?r
  then show ?l using last_write_Some [of "q - 1" n _ k] by auto
qed

lemma read_event_ring_buf:
  assumes fresh: "ring_fresh L b" and fs: "frames_ok L fs" and k: "k \<le> length fs"
  shows "read_event L (ring_buf L b fs k) q =
    (if 0 < q \<and> q \<le> k \<and> k < q + l_slot_count L then Some (frame_event (fs ! (q - 1)) q) else None)"
proof -
  let ?n = "l_slot_count L"
  have n: "0 < ?n" using fresh by (simp add: ring_fresh_def ring_wf_def)
  note rd = read_slot_ring_buf [OF fresh fs _ k]
  show ?thesis
  proof (cases "0 < q \<and> q \<le> k \<and> k < q + ?n")
    case True
    then have "read_stable_slot L (ring_buf L b fs k) ((q - 1) mod ?n) q = Some (frame_event (fs ! (q - 1)) q)"
      using kept_iff [OF n, of q k] rd n by simp
    then show ?thesis unfolding read_event_def
      using True n slots_to_try_range [OF n] rd
      by (auto intro!: first_some_uniform [where x = "(q - 1) mod ?n"] simp: list_all_iff)
  next
    case False
    have "read_stable_slot L (ring_buf L b fs k) s q = None" if "s < ?n" for s
    proof -
      have "\<not> (\<exists>i. last_write ?n s k = Some i \<and> q = Suc i)"
        using False last_write_SomeD n by fastforce
      with rd [OF that] show ?thesis by simp
    qed
    then show ?thesis unfolding read_event_def
      using False slots_to_try_range(1) [OF n] by (auto intro!: first_some_None)
  qed
qed

lemma shift_mod_eq:
  assumes "(h + x) mod n = (h + y) mod n" "x < n" "y < n"
  shows "x = (y::nat)"
  using assms mod_eq_dvd_iff_nat [of "h + x" "h + y" n] mod_eq_dvd_iff_nat [of "h + y" "h + x" n]
  by (cases x y rule: linorder_cases) (auto dest: dvd_imp_le)

lemma slot_indices_perm:
  assumes "0 < l_slot_count L"
  shows "distinct (slot_indices L b)" "set (slot_indices L b) = {0..<l_slot_count L}"
proof -
  let ?n = "l_slot_count L"
  have inj: "inj_on (\<lambda>i. (h + i) mod ?n) {0..<?n}" for h
    by (rule inj_onI) (auto dest: shift_mod_eq)
  have img: "(\<lambda>i. (h + i) mod ?n) ` {0..<?n} = {0..<?n}" for h
    by (rule endo_inj_surj) (use assms inj in auto)
  show "distinct (slot_indices L b)"
    using inj by (auto simp: slot_indices_def Let_def distinct_map split: option.split)
  show "set (slot_indices L b) = {0..<?n}"
    using img by (auto simp: slot_indices_def Let_def split: option.split)
qed

lemma sort_key_fst_fun:
  assumes "list_all (\<lambda>(q, s). s = g q) xs" "distinct (map fst xs)" "set (map fst xs) = set ys"
    and "sorted ys" "distinct ys"
  shows "sort_key fst xs = map (\<lambda>q. (q, g q)) ys"
proof -
  have "map fst (sort_key fst xs) = ys"
    using assms by (intro sorted_distinct_set_unique) (auto simp: distinct_map)
  moreover have "sort_key fst xs = map (\<lambda>q. (q, g q)) (map fst (sort_key fst xs))"
    using assms(1) by (auto simp: list_all_iff intro!: map_idI [symmetric])
  ultimately show ?thesis by simp
qed

lemma slot_entries_ring_buf:
  assumes fresh: "ring_fresh L b" and fs: "frames_ok L fs" and k: "k \<le> length fs"
  shows "slot_entries L (ring_buf L b fs k) lst =
    concat (map (\<lambda>s. case last_write (l_slot_count L) s k of
                        None \<Rightarrow> [] | Some i \<Rightarrow> if Suc i \<le> lst then [] else [(Suc i, s)])
       (slot_indices L (ring_buf L b fs k)))"
  unfolding slot_entries_def
proof (intro arg_cong [where f = concat] map_cong refl)
  fix s assume "s \<in> set (slot_indices L (ring_buf L b fs k))"
  moreover have "0 < l_slot_count L" using fresh by (simp add: ring_fresh_def ring_wf_def)
  ultimately have s: "s < l_slot_count L" using slot_indices_perm(2) [of L] by auto
  show "(let so = slot_offset L s; seq_begin = field 8 (ring_buf L b fs k) so;
             seq_end = field 8 (ring_buf L b fs k) (so + SEQ_END_OFFSET)
         in if seq_begin = 0 \<or> seq_begin \<noteq> seq_end \<or> seq_end \<le> lst then [] else [(seq_end, s)]) =
        (case last_write (l_slot_count L) s k of
           None \<Rightarrow> [] | Some i \<Rightarrow> if Suc i \<le> lst then [] else [(Suc i, s)])"
    using slot_at_markers [OF slot_at_ring_buf [OF fresh fs s k]]
    by (simp add: Let_def shm_consts split: option.split)
qed

lemma distinct_concat_slots:
  assumes "distinct xs" "\<And>s s' i. h s = Some i \<Longrightarrow> h s' = Some i \<Longrightarrow> s = s'"
  shows "distinct (map fst (concat (map (\<lambda>s. case h s of None \<Rightarrow> []
      | Some i \<Rightarrow> if Suc i \<le> lst then [] else [(Suc i, s)]) xs)))"
  using assms(1)
proof (induction xs)
  case (Cons x xs)
  then show ?case using assms(2) by (auto split: option.splits if_splits) (metis assms(2))
qed simp

lemma entries_sorted:
  assumes fresh: "ring_fresh L b" and fs: "frames_ok L fs" and k: "k \<le> length fs"
  shows "sort_key fst (slot_entries L (ring_buf L b fs k) lst) =
    map (\<lambda>q. (q, (q - 1) mod l_slot_count L)) [max (lst + 1) (k + 1 - l_slot_count L)..<k + 1]"
proof (rule sort_key_fst_fun)
  let ?n = "l_slot_count L"
  have n: "0 < ?n" using fresh by (simp add: ring_fresh_def ring_wf_def)
  note se = slot_entries_ring_buf [OF fresh fs k] and si = slot_indices_perm [OF n]
  have D: "last_write ?n s k = Some i \<longleftrightarrow> i < k \<and> i mod ?n = s \<and> k \<le> i + ?n" for s i
    using last_write_SomeD [OF _ n] last_write_Some by blast
  note D' = D eq_commute [of "Some _" "last_write _ _ _"]
  show "list_all (\<lambda>(q, s). s = (q - 1) mod ?n) (slot_entries L (ring_buf L b fs k) lst)"
    by (auto simp: se list_all_iff D' split: option.splits if_splits)
  show "distinct (map fst (slot_entries L (ring_buf L b fs k) lst))"
    unfolding se by (rule distinct_concat_slots) (auto simp: si D')
  show "set (map fst (slot_entries L (ring_buf L b fs k) lst)) =
      set [max (lst + 1) (k + 1 - ?n)..<k + 1]" (is "?A = ?B")
  proof
    show "?A \<subseteq> ?B" by (auto simp: se D' split: option.splits if_splits)
  next
    show "?B \<subseteq> ?A"
    proof
      fix q assume q: "q \<in> ?B"
      then have "q \<noteq> 0" by auto
      then obtain i where i: "q = Suc i" by (metis not0_implies_Suc)
      with q n have "last_write ?n (i mod ?n) k = Some i" by (auto simp: D)
      moreover have "i mod ?n \<in> set (slot_indices L (ring_buf L b fs k))" using si(2) n by simp
      ultimately have "(Suc i, i mod ?n) \<in> set (slot_entries L (ring_buf L b fs k) lst)"
        using q i by (auto simp: se intro!: bexI [where x = "i mod ?n"] exI [where x = i])
      then show "q \<in> ?A" using i by force
    qed
  qed
qed (simp_all del: upt_Suc)

lemma map_filter_map_Some:
  "(\<And>x. x \<in> set xs \<Longrightarrow> f (g x) = Some (h x)) \<Longrightarrow> List.map_filter f (map g xs) = map h xs"
  by (induction xs) (auto simp: map_filter_simps)

lemma read_events_ring_buf:
  assumes fresh: "ring_fresh L b" and fs: "frames_ok L fs" and k: "k \<le> length fs"
  shows "read_events L (ring_buf L b fs k) lst =
    map (\<lambda>q. frame_event (fs ! (q - 1)) q) [max (lst + 1) (k + 1 - l_slot_count L)..<k + 1]"
  unfolding read_events_def entries_sorted [OF assms]
proof (rule map_filter_map_Some)
  let ?n = "l_slot_count L"
  have n: "0 < ?n" using fresh by (simp add: ring_fresh_def ring_wf_def)
  fix q assume q: "q \<in> set [max (lst + 1) (k + 1 - ?n)..<k + 1]"
  then have "\<exists>i. last_write ?n ((q - 1) mod ?n) k = Some i \<and> q = Suc i"
    using n kept_iff [OF n, of q k] by auto
  then show "(case (q, (q - 1) mod ?n) of (seq, slot) \<Rightarrow>
      read_stable_slot L (ring_buf L b fs k) slot seq) = Some (frame_event (fs ! (q - 1)) q)"
    using read_slot_ring_buf [OF fresh fs _ k] n by simp
qed

section \<open>Sequences of writes\<close>

definition ring_at :: "'d shm_layout \<Rightarrow> buf \<Rightarrow> 'd shm_writer \<Rightarrow> 'd frame list \<Rightarrow> bool" where
  "ring_at L b w fs \<longleftrightarrow>
     w_layout w = L \<and> w_buf w = ring_buf L b fs (length fs) \<and> w_next_seq w = length fs \<and>
     w_next_slot w = length fs mod l_slot_count L \<and> ring_fresh L b \<and> frames_ok L fs"

lemma ring_buf_append: "k \<le> length fs \<Longrightarrow> ring_buf L b (fs @ gs) k = ring_buf L b fs k"
  by (induction k) (auto simp: nth_append)

lemma ring_at_start:
  "ring_fresh (w_layout w) (w_buf w) \<Longrightarrow> w_next_seq w = 0 \<Longrightarrow> w_next_slot w = 0
    \<Longrightarrow> ring_at (w_layout w) (w_buf w) w []"
  by (simp add: ring_at_def frames_ok_def)

lemma write_frame_step:
  assumes at: "ring_at L b w fs" and f: "frame_ok L f" and len: "length fs + 1 < 2 ^ 64"
  shows "fst (write_frame w f) = Inr (length fs + 1)"
    and "ring_at L b (snd (write_frame w f)) (fs @ [f])"
proof -
  let ?slot = "length fs mod l_slot_count L" and ?b = "ring_buf L b fs (length fs)"
  have wf: "ring_wf L (length b)" and ok: "frames_ok L fs"
    using at by (auto simp: ring_at_def ring_fresh_def)
  have "list_all (store_ok (length ?b)) (frame_stores L ?slot (length fs + 1) f)"
    using frame_stores_ok [OF wf ring_wf_slot [OF wf] f len] length_ring_buf [OF wf ok, of "length fs"]
    by simp
  from run_stores_ok [OF this] have run: "run_stores ?b (write_stores L ?slot (Suc (length fs))
      (fr_arr f) (fr_mono f) (fr_wall f) (fr_meta f)) =
    (None, ring_buf L b (fs @ [f]) (Suc (length fs)))"
    by (simp add: frame_stores_def ring_buf_append)
  have chk: "write_check L (fr_arr f) (fr_meta f) = Inr ()" using f by (simp add: frame_ok_def)
  show "fst (write_frame w f) = Inr (length fs + 1)"
    using at run chk by (simp add: write_frame_def shm_write_def ring_at_def Let_def)
  show "ring_at L b (snd (write_frame w f)) (fs @ [f])"
    using at run chk f len
    by (simp add: write_frame_def shm_write_def ring_at_def frames_ok_def mod_Suc_eq Let_def)
qed

fun write_frames :: "'d shm_writer \<Rightarrow> 'd frame list \<Rightarrow> (shm_error + nat) list \<times> 'd shm_writer" where
  "write_frames w [] = ([], w)"
| "write_frames w (f # fs) =
     (let (r, w') = write_frame w f; (rs, w'') = write_frames w' fs in (r # rs, w''))"

lemma write_frames_run:
  assumes "ring_at L b w fs" "list_all (frame_ok L) gs" "length fs + length gs < 2 ^ 64"
  shows "fst (write_frames w gs) = map Inr [length fs + 1..<length fs + length gs + 1]
    \<and> ring_at L b (snd (write_frames w gs)) (fs @ gs)"
  using assms
proof (induction gs arbitrary: w fs)
  case (Cons g gs)
  obtain r w' where w': "write_frame w g = (r, w')" by (cases "write_frame w g")
  have st: "r = Inr (length fs + 1)" "ring_at L b w' (fs @ [g])"
    using write_frame_step [OF Cons.prems(1), of g] Cons.prems w' by auto
  show ?case
    using Cons.IH [OF st(2)] Cons.prems st(1)
    by (cases "write_frames w' gs") (simp add: w' upt_conv_Cons del: upt_Suc)
qed simp

lemma rejected_write_keeps_ring:
  "write_check (w_layout w) arr meta = Inl e \<Longrightarrow> shm_write w arr t0 t1 meta = (Inl e, w)"
  by (simp add: shm_write_def)

section \<open>A bounded event log and its followers\<close>

text \<open>
  What a consumer relies on: appending adds one event, and a poll returns, in order, every
  event after the last one seen that is among the latest \<open>cap\<close>. A follower that polls at
  least once every \<open>cap\<close> appends then sees every event exactly once, in order.
\<close>

locale event_log =
  fixes rep :: "'s \<Rightarrow> 'f list \<Rightarrow> bool"
    and ok :: "'s \<Rightarrow> 'f \<Rightarrow> bool"
    and append_event :: "'s \<Rightarrow> 'f \<Rightarrow> 's"
    and poll :: "'s \<Rightarrow> nat \<Rightarrow> 'e list"
    and event :: "'f \<Rightarrow> nat \<Rightarrow> 'e"
    and seq_of :: "'e \<Rightarrow> nat"
    and cap :: "'s \<Rightarrow> nat"
  assumes rep_append: "rep s fs \<Longrightarrow> ok s f \<Longrightarrow> rep (append_event s f) (fs @ [f])"
    and cap_append: "cap (append_event s f) = cap s"
    and seq_event: "seq_of (event f q) = q"
    and poll_rep: "rep s fs \<Longrightarrow> poll s seen =
      map (\<lambda>q. event (fs ! (q - 1)) q) [max (seen + 1) (length fs + 1 - cap s)..<length fs + 1]"
begin

fun appends :: "'s \<Rightarrow> 'f list \<Rightarrow> 's" where
  "appends s [] = s"
| "appends s (f # fs) = appends (append_event s f) fs"

fun oks :: "'s \<Rightarrow> 'f list \<Rightarrow> bool" where
  "oks s [] = True"
| "oks s (f # fs) = (ok s f \<and> oks (append_event s f) fs)"

text \<open>One round of a follower: a burst of appends, then a poll from the last event seen.\<close>

fun follow :: "'s \<Rightarrow> nat \<Rightarrow> 'f list list \<Rightarrow> 'e list" where
  "follow s seen [] = []"
| "follow s seen (burst # bursts) =
     (let s' = appends s burst; evs = poll s' seen in
      evs @ follow s' (if evs = [] then seen else seq_of (last evs)) bursts)"

fun oks_all :: "'s \<Rightarrow> 'f list list \<Rightarrow> bool" where
  "oks_all s [] = True"
| "oks_all s (burst # bursts) = (oks s burst \<and> oks_all (appends s burst) bursts)"

lemma appends_rep:
  "rep s fs \<Longrightarrow> oks s gs \<Longrightarrow> rep (appends s gs) (fs @ gs) \<and> cap (appends s gs) = cap s"
proof (induction gs arbitrary: s fs)
  case (Cons g gs)
  then show ?case using rep_append [of s fs g] cap_append [of s g] by fastforce
qed simp

lemma follow_complete:
  assumes "rep s fs" "oks_all s bursts" "list_all (\<lambda>b. length b \<le> cap s) bursts"
  shows "follow s (length fs) bursts =
    map (\<lambda>q. event ((fs @ concat bursts) ! (q - 1)) q) [length fs + 1..<length fs + length (concat bursts) + 1]"
  using assms
proof (induction bursts arbitrary: s fs)
  case (Cons g gs)
  have r: "rep (appends s g) (fs @ g)" and c: "cap (appends s g) = cap s"
    using appends_rep Cons.prems by auto
  have p: "poll (appends s g) (length fs) =
      map (\<lambda>q. event ((fs @ g) ! (q - 1)) q) [length fs + 1..<length fs + length g + 1]"
  proof -
    have "max (length fs + 1) (length (fs @ g) + 1 - cap (appends s g)) = length fs + 1"
      using c Cons.prems(3) by auto
    with poll_rep [OF r, of "length fs"] show ?thesis by (simp del: upt_Suc)
  qed
  have "follow (appends s g) (length (fs @ g)) gs =
      map (\<lambda>q. event (((fs @ g) @ concat gs) ! (q - 1)) q)
        [length (fs @ g) + 1..<length (fs @ g) + length (concat gs) + 1]"
    using Cons.IH [OF r] Cons.prems c by simp
  moreover have "[length fs + 1..<length fs + length (concat (g # gs)) + 1] =
      [length fs + 1..<length fs + length g + 1] @
      [length fs + length g + 1..<length fs + length g + length (concat gs) + 1]"
    using upt_add_eq_append [of "length fs + 1" "length fs + length g + 1" "length (concat gs)"]
    by (simp add: add.assoc del: upt_Suc)
  moreover have "(if poll (appends s g) (length fs) = [] then length fs
      else seq_of (last (poll (appends s g) (length fs)))) = length (fs @ g)"
    unfolding p by (cases g) (auto simp: last_map seq_event)
  ultimately show ?case
    by (auto simp: p Let_def nth_append simp del: upt_Suc)
qed simp

end

definition log_ok :: "'d shm_writer \<Rightarrow> 'd frame \<Rightarrow> bool" where
  "log_ok w f \<longleftrightarrow> frame_ok (w_layout w) f \<and> w_next_seq w + 1 < 2 ^ 64"

definition ring_rep :: "'d shm_writer \<Rightarrow> 'd frame list \<Rightarrow> bool" where
  "ring_rep w fs \<longleftrightarrow> (\<exists>b. ring_at (w_layout w) b w fs)"

definition log_append :: "'d shm_writer \<Rightarrow> 'd frame \<Rightarrow> 'd shm_writer" where
  "log_append w f = snd (write_frame w f)"

definition log_poll :: "'d shm_writer \<Rightarrow> nat \<Rightarrow> shm_event list" where
  "log_poll w seen = read_events (w_layout w) (w_buf w) seen"

lemma write_frame_layout: "w_layout (snd (write_frame w f)) = w_layout w"
  by (auto simp: write_frame_def shm_write_def Let_def split: sum.split option.split prod.split)

interpretation ring_log: event_log ring_rep log_ok log_append log_poll frame_event ev_seq
  "\<lambda>w. l_slot_count (w_layout w)"
proof unfold_locales
  show "ring_rep (log_append w f) (fs @ [f])" if r: "ring_rep w fs" and f: "log_ok w f" for w :: "'a shm_writer" and fs f
  proof -
    obtain b where b: "ring_at (w_layout w) b w fs" using r unfolding ring_rep_def by blast
    then have "w_next_seq w = length fs" by (simp add: ring_at_def)
    with f b show ?thesis
      using write_frame_step(2) [OF b, of f]
      by (auto simp: ring_rep_def log_append_def log_ok_def write_frame_layout)
  qed
  show "l_slot_count (w_layout (log_append w f)) = l_slot_count (w_layout w)" for w :: "'a shm_writer" and f
    by (simp add: log_append_def write_frame_layout)
  show "ev_seq (frame_event f q) = q" for f :: "'a frame" and q
    by (simp add: frame_event_def)
  show "log_poll w seen = map (\<lambda>q. frame_event (fs ! (q - 1)) q)
      [max (seen + 1) (length fs + 1 - l_slot_count (w_layout w))..<length fs + 1]"
    if r: "ring_rep w fs" for w :: "'a shm_writer" and fs seen
  proof -
    obtain b where b: "ring_at (w_layout w) b w fs" using r unfolding ring_rep_def by blast
    then show ?thesis
      using read_events_ring_buf [of "w_layout w" b fs "length fs" seen]
      by (simp add: log_poll_def ring_at_def)
  qed
qed

text \<open>
  The loop of a stream consumer: after a burst of writes it reads what is new and remembers
  the sequence number of the last event it got.
\<close>

fun follow_ring :: "'d shm_writer \<Rightarrow> nat \<Rightarrow> 'd frame list list \<Rightarrow> shm_event list" where
  "follow_ring w seen [] = []"
| "follow_ring w seen (burst # bursts) =
     (let w' = snd (write_frames w burst);
          evs = read_events (w_layout w') (w_buf w') seen
      in evs @ follow_ring w' (if evs = [] then seen else ev_seq (last evs)) bursts)"

lemma write_frames_appends: "snd (write_frames w fs) = ring_log.appends w fs"
  by (induction fs arbitrary: w) (auto simp: log_append_def case_prod_unfold Let_def)

lemma follow_ring_log: "follow_ring w seen bursts = ring_log.follow w seen bursts"
  by (induction bursts arbitrary: w seen) (auto simp: log_poll_def write_frames_appends Let_def)

lemma write_frames_layout: "w_layout (snd (write_frames w fs)) = w_layout w"
  by (induction fs arbitrary: w) (auto simp: write_frame_layout case_prod_unfold Let_def)

lemma oks_frames:
  assumes "ring_at L b w fs" "list_all (frame_ok L) gs" "length fs + length gs < 2 ^ 64"
  shows "ring_log.oks w gs"
  using assms
proof (induction gs arbitrary: w fs)
  case (Cons g gs)
  have "log_ok w g" using Cons.prems by (auto simp: ring_at_def log_ok_def)
  moreover have "ring_at L b (log_append w g) (fs @ [g])"
    unfolding log_append_def using write_frame_step(2) [OF Cons.prems(1)] Cons.prems by simp
  ultimately show ?case using Cons.IH [of "log_append w g" "fs @ [g]"] Cons.prems by simp
qed simp

lemma oks_all_frames:
  assumes "ring_at L b w fs" "list_all (list_all (frame_ok L)) bursts"
    and "length fs + length (concat bursts) < 2 ^ 64"
  shows "ring_log.oks_all w bursts"
  using assms
proof (induction bursts arbitrary: w fs)
  case (Cons g gs)
  have "ring_at L b (ring_log.appends w g) (fs @ g)"
    using write_frames_run [OF Cons.prems(1), of g] Cons.prems by (simp add: write_frames_appends)
  then show ?case
    using Cons.IH [of "ring_log.appends w g" "fs @ g"] Cons.prems oks_frames [OF Cons.prems(1), of g] by simp
qed simp

end
