(* ===== verification/Shm_Ring_Segment.thy ===== *)
theory Shm_Ring_Segment
  imports Shm_Ring_Reads
begin

text \<open>
  Creating a segment and attaching to it: a created ring is well formed and empty, and a
  reader that attaches at any later time recovers the creator's layout.
\<close>

section \<open>A created ring is fresh\<close>

lemma get_bytes_replicate: "off + n \<le> len \<Longrightarrow> get_bytes (replicate len x) off n = replicate n x"
  by (simp add: get_bytes_def min_def)

lemma le_int_replicate_0: "le_int (replicate n 0) = 0"
  by (induction n) auto

lemma length_header [simp]:
  "length (header_v1 v s p d l) = 32" "length (header_v2 v s p d l m n) = 64"
  by (simp_all add: header_v1_def header_v2_def SHM_MAGIC_def)

lemma length_shape_bytes [simp]: "length (shape_bytes sh) = 4 * length sh"
  by (induction sh) (auto simp: shape_bytes_def)

lemma metadata_specD:
  "metadata_spec np version mdt = Inr (mbytes, mn) \<Longrightarrow>
     (mdt = None \<and> mbytes = [] \<and> mn = 0) \<or>
     (\<exists>m. mdt = Some m \<and> 4 \<le> version \<and> np_fields np m \<and> mbytes = dtype_to_header_text np m
        \<and> mn = np_itemsize np m)"
  by (auto simp: metadata_spec_def split: option.splits if_splits)

lemma create_segment_zero: "create_segment ns u name n = Inr (ns', seg) \<Longrightarrow> seg = replicate n 0"
  by (auto simp: create_segment_def Let_def split: option.splits)

text \<open>The four parts of the header area, in the order the constructor stores them.\<close>

definition header_area :: "buf \<Rightarrow> byte list \<Rightarrow> byte list \<Rightarrow> byte list \<Rightarrow> byte list \<Rightarrow> buf" where
  "header_area seg h d s m =
     put_bytes (put_bytes (put_bytes (put_bytes seg 0 h) 64 d) (64 + length d) s)
       (64 + length d + length s) m"

lemma length_header_area:
  "length h \<le> 64 \<Longrightarrow> 64 + length d + length s + length m \<le> length seg
    \<Longrightarrow> length (header_area seg h d s m) = length seg"
  by (simp add: header_area_def buf_simps)

lemma header_area_parts:
  assumes "length h \<le> 64" "64 + length d + length s + length m \<le> length seg"
  shows "get_bytes (header_area seg h d s m) 0 (length h) = h"
    and "get_bytes (header_area seg h d s m) 64 (length d) = d"
    and "get_bytes (header_area seg h d s m) (64 + length d) (length s) = s"
    and "get_bytes (header_area seg h d s m) (64 + length d + length s) (length m) = m"
    and "64 + length d + length s + length m \<le> p \<Longrightarrow> p + n \<le> length seg \<Longrightarrow>
      get_bytes (header_area seg h d s m) p n = get_bytes seg p n"
  using assms by (simp_all add: header_area_def buf_simps)

text \<open>What a successful \<open>create\<close> has built.\<close>

definition created ::
  "'d np_api \<Rightarrow> 'd \<Rightarrow> int list \<Rightarrow> nat \<Rightarrow> nat \<Rightarrow> 'd option \<Rightarrow> 'd shm_writer \<Rightarrow> byte list \<Rightarrow> byte list
    \<Rightarrow> nat \<Rightarrow> bool" where
  "created np dt shape slots version mdt w h mbytes mn \<longleftrightarrow>
     (let L = w_layout w; d = dtype_to_header_text np dt in
      metadata_spec np version mdt = Inr (mbytes, mn) \<and>
      list_all (fits 4) [version, slots, l_payload_nbytes L, length d, length shape] \<and>
      list_all fits_int32 shape \<and>
      (version \<noteq> 1 \<longrightarrow> fits 8 (length mbytes) \<and> fits 8 mn) \<and>
      h = (if version = 1 then header_v1 version slots (l_payload_nbytes L) (length d) (length shape)
           else header_v2 version slots (l_payload_nbytes L) (length d) (length shape)
                  (length mbytes) mn) \<and>
      w_buf w = header_area (replicate (l_metadata_offset L + slots * mn) 0) h d (shape_bytes shape) mbytes \<and>
      w_next_seq w = 0 \<and> w_next_slot w = 0 \<and>
      l_payload_nbytes L = np_itemsize np dt * nat (prod_list shape) \<and>
      l_slot_table_offset L = 64 + length d + length (shape_bytes shape) + length mbytes \<and>
      l_payload_offset L = l_slot_table_offset L + slots * 64 \<and>
      l_metadata_offset L = l_payload_offset L + slots * l_payload_nbytes L \<and>
      l_dtype L = dt \<and> l_shape L = shape \<and> l_slot_count L = slots \<and> l_layout_version L = version \<and>
      l_dtype_str_len L = length d \<and> l_shape_len L = length shape \<and>
      l_metadata_dtype L = mdt \<and> l_metadata_nbytes L = mn \<and>
      l_metadata_dtype_str_len L = length mbytes)"

lemma shm_createD:
  assumes "shm_create np ns u name dt shape slots version mdt = Inr (ns', w)"
  shows "\<exists>h mbytes mn. created np dt shape slots version mdt w h mbytes mn"
  using assms
  by (auto simp: created_def shm_create_def Let_def shm_consts header_area_def ac_simps split: if_splits
      dest!: create_segment_zero)

lemma created_wf:
  assumes c: "created np dt shape slots version mdt w h mbytes mn" and "0 < slots"
  shows "ring_wf (w_layout w) (length (w_buf w))"
proof -
  let ?L = "w_layout w" and ?d = "dtype_to_header_text np dt" and ?s = "shape_bytes shape"
  have m: "metadata_spec np version mdt = Inr (mbytes, mn)" and small: "fits 4 slots"
    and h: "length h \<le> 64"
    and b: "w_buf w = header_area (replicate (l_metadata_offset ?L + slots * mn) 0) h ?d ?s mbytes"
    and off: "l_slot_table_offset ?L = 64 + length ?d + length ?s + length mbytes"
      "l_payload_offset ?L = l_slot_table_offset ?L + slots * 64"
      "l_metadata_offset ?L = l_payload_offset ?L + slots * l_payload_nbytes ?L"
    and n: "l_slot_count ?L = slots" "l_metadata_nbytes ?L = mn" "l_metadata_dtype ?L = mdt"
    using c unfolding created_def Let_def by simp_all
  have len: "length (w_buf w) = l_metadata_offset ?L + slots * mn"
    unfolding b using h off by (subst length_header_area) simp_all
  have "mdt = None \<longrightarrow> mn = 0" using metadata_specD [OF m] by auto
  moreover have "slots < 2 ^ 64" using small by (simp add: fits_def)
  ultimately show ?thesis
    unfolding ring_wf_def len n using assms(2) off by (simp add: shm_consts)
qed

lemma create_fresh:
  assumes c: "shm_create np ns u name dt shape slots version mdt = Inr (ns', w)" and "0 < slots"
  shows "ring_fresh (w_layout w) (w_buf w)" "w_next_seq w = 0" "w_next_slot w = 0"
    "l_slot_count (w_layout w) = slots"
proof -
  obtain h mbytes mn where cr: "created np dt shape slots version mdt w h mbytes mn"
    using shm_createD [OF c] by blast
  then show "w_next_seq w = 0" "w_next_slot w = 0" and n: "l_slot_count (w_layout w) = slots"
    by (simp_all add: created_def Let_def)
  let ?L = "w_layout w"
  note wf = created_wf [OF cr \<open>0 < slots\<close>]
  have zero: "field 8 (w_buf w) (slot_offset ?L s + p) = 0" if "s < slots" "p + 8 \<le> 64" for s p
  proof -
    have "slot_offset ?L s + p + 8 \<le> length (w_buf w)" "l_slot_table_offset ?L \<le> slot_offset ?L s + p"
      using that ring_bounds [OF wf, of s] n by (auto simp: slot_offset_def)
    then have "get_bytes (w_buf w) (slot_offset ?L s + p) 8 = replicate 8 0"
      using cr by (auto simp: created_def Let_def header_area_parts(5) get_bytes_replicate length_header_area)
    then show ?thesis by (simp only: field_def le_int_replicate_0 nat_zero_as_int [symmetric] nat_0)
  qed
  show "ring_fresh ?L (w_buf w)"
    using wf zero [of _ 0] zero [of _ 32] by (auto simp: ring_fresh_def list_all_iff n)
qed

section \<open>Attaching\<close>

lemma get_bytes_sub: "p + n \<le> q \<Longrightarrow> get_bytes (get_bytes b o' q) p n = get_bytes b (o' + p) n"
  by (simp add: get_bytes_def drop_take min_def add.commute)

lemma field_4_le_bytes: "get_bytes b off 4 = le_bytes 4 (int v) \<Longrightarrow> fits 4 v \<Longrightarrow> field 4 b off = v"
  by (simp add: field_def fits_def le_int_le_bytes)

lemma field_8_fits: "get_bytes b off 8 = le_bytes 8 (int v) \<Longrightarrow> fits 8 v \<Longrightarrow> field 8 b off = v"
  by (simp add: field_def fits_def le_int_le_bytes)

lemma length_SHM_MAGIC [simp]: "length SHM_MAGIC = 8"
  by (simp add: SHM_MAGIC_def)

lemma header_fields:
  assumes "h = (if version = 1 then header_v1 version s p d l else header_v2 version s p d l m n)"
  shows "get_bytes h 0 8 = SHM_MAGIC" "get_bytes h 8 4 = le_bytes 4 (int version)"
    "get_bytes h 12 4 = le_bytes 4 (int s)" "get_bytes h 16 4 = le_bytes 4 (int p)"
    "get_bytes h 20 4 = le_bytes 4 (int d)" "get_bytes h 24 4 = le_bytes 4 (int l)"
    "version \<noteq> 1 \<Longrightarrow> get_bytes h 48 8 = le_bytes 8 (int m)"
    "version \<noteq> 1 \<Longrightarrow> get_bytes h 56 8 = le_bytes 8 (int n)"
  by (simp_all add: assms header_v1_def header_v2_def get_bytes_def)

lemma sfield_le_bytes:
  assumes "fits_int32 v" "get_bytes b off 4 = le_bytes 4 v"
  shows "sfield b off = v"
proof (cases "0 \<le> v")
  case True
  then show ?thesis using assms by (simp add: sfield_def fits_int32_def le_int_le_bytes)
next
  case False
  have "le_bytes 4 v = le_bytes 4 (v + 2 ^ 32)"
  proof -
    have "(v + 4294967296) div 256 = v div 256 + 16777216"
      "(v + 4294967296) div 65536 = v div 65536 + 65536"
      "(v + 4294967296) div 16777216 = v div 16777216 + 256"
      using div_mult_self1 [of 256 v 16777216] div_mult_self1 [of 65536 v 65536]
        div_mult_self1 [of 16777216 v 256] by simp_all
    moreover have "(x + 16777216) mod 256 = x mod 256" "(x + 65536) mod 256 = x mod 256"
      "(x + 256) mod 256 = x mod 256" for x :: int
      using mod_mult_self1 [of x 65536 256] mod_mult_self1 [of x 256 256] by simp_all
    ultimately show ?thesis
      by (simp add: le_bytes_def word_of_int_eq_iff upt_rec take_bit_eq_mod)
  qed
  then show ?thesis
    using False assms by (simp add: sfield_def fits_int32_def le_int_le_bytes)
qed

lemma shape_bytes_nth:
  "i < length sh \<Longrightarrow> get_bytes (shape_bytes sh) (i * 4) 4 = le_bytes 4 (sh ! i)"
proof (induction sh arbitrary: i)
  case (Cons a sh)
  then show ?case
  proof (cases i)
    case (Suc k)
    with Cons show ?thesis
      by (simp add: shape_bytes_def get_bytes_def)
  qed (simp add: shape_bytes_def get_bytes_def)
qed simp

text \<open>
  What numpy and \<open>json\<close> promise about one dtype: of a plain one, that \<open>np.dtype\<close> gives it back from
  its name, which is not a structured header; of a structured one, that \<open>np.dtype\<close> gives it back
  from its \<open>descr\<close>, and \<open>json.loads\<close> the value \<open>json.dumps\<close> printed.
\<close>

definition numpy_json_ok :: "'d np_api \<Rightarrow> 'd \<Rightarrow> bool" where
  "numpy_json_ok np d \<longleftrightarrow>
     (if np_fields np d
      then np_dtype_of_descr np (np_descr np d) = Some d
           \<and> np_loads np (np_dumps np (structured_header np d)) = Some (structured_header np d)
      else np_dtype_of_str np (np_str np d) = Some d \<and> \<not> starts_with STRUCTURED_DTYPE_PREFIX (np_str np d))"

lemma dtype_text_roundtrip: "numpy_json_ok np d \<Longrightarrow> dtype_from_header_text np (dtype_to_header_text np d) = Inr d"
  by (auto simp: numpy_json_ok_def dtype_from_header_text_def dtype_to_header_text_def structured_header_def dget_def
      split: if_splits)

text \<open>
  The bytes \<open>shm_attach\<close> reads determine its result: the header's fields before and after
  the hint, the dtype text, the shape and the metadata dtype text.
\<close>

lemma attach_layout:
  assumes "64 \<le> length b" "get_bytes b 0 8 = SHM_MAGIC"
    and "field 4 b 8 = l_layout_version L" "field 4 b 12 = l_slot_count L"
    and "field 4 b 16 = l_payload_nbytes L"
    and "field 4 b 20 = l_dtype_str_len L" "field 4 b 24 = l_shape_len L"
    and "64 + l_dtype_str_len L + l_shape_len L * 4 \<le> length b"
    and "map (\<lambda>i. sfield b (64 + l_dtype_str_len L + i * 4)) [0..<l_shape_len L] = l_shape L"
    and "dtype_from_header_text np (get_bytes b 64 (l_dtype_str_len L)) = Inr (l_dtype L)"
    and "case l_metadata_dtype L of
        None \<Rightarrow> l_layout_version L < 4 \<and> l_metadata_dtype_str_len L = 0 \<and> l_metadata_nbytes L = 0
      | Some m \<Rightarrow> 4 \<le> l_layout_version L \<and> field 8 b 48 = l_metadata_dtype_str_len L
          \<and> field 8 b 56 = l_metadata_nbytes L \<and> np_itemsize np m = l_metadata_nbytes L
          \<and> dtype_from_header_text np
               (get_bytes b (64 + l_dtype_str_len L + l_shape_len L * 4) (l_metadata_dtype_str_len L)) = Inr m"
    and "l_slot_table_offset L = 64 + l_dtype_str_len L + l_shape_len L * 4 + l_metadata_dtype_str_len L"
    and "l_payload_offset L = l_slot_table_offset L + l_slot_count L * 64"
    and "l_metadata_offset L = l_payload_offset L + l_slot_count L * l_payload_nbytes L"
  shows "shm_attach np b = Inr L"
  using assms unfolding shm_attach_def Let_def HEADER_SIZE_def SLOT_ENTRY_SIZE_def
  by (cases "l_metadata_dtype L") simp_all

text \<open>A write to the ring changes nothing a later reader attaches by.\<close>

lemma frame_stores_clear_header:
  assumes wf: "ring_wf L len" and s: "slot < l_slot_count L" and f: "frame_ok L f"
    and seq: "seq < 2 ^ 64" and p: "p + n \<le> 32 \<or> 48 \<le> p \<and> p + n \<le> l_slot_table_offset L"
  shows "list_all (clear_of p n) (frame_stores L slot seq f)"
proof -
  have "slot < 2 ^ 64" using wf s by (auto simp: ring_wf_def)
  note st = frame_stores_slot [OF this f seq] and b = ring_bounds [OF wf s]
  have "l_slot_table_offset L \<le> slot_offset L slot" by (simp add: slot_offset_def)
  moreover have "32 \<le> slot_offset L slot" using b(1) by simp
  ultimately have "p + n \<le> slot_offset L slot" using p by linarith
  moreover have "p + n \<le> payload_start L slot" "p + n \<le> metadata_start L slot"
    using calculation b(2-5) by linarith+
  ultimately have "clear_of p n x" if "slot_store L slot x" for x
    using that p unfolding slot_store_def by (auto elim!: store_in_clear)
  with st show ?thesis by (auto simp: list_all_iff)
qed

lemma ring_buf_header:
  assumes wf: "ring_wf L (length b)" and fs: "frames_ok L fs"
    and p: "p + n \<le> 32 \<or> 48 \<le> p \<and> p + n \<le> l_slot_table_offset L"
  shows "k \<le> length fs \<Longrightarrow> get_bytes (ring_buf L b fs k) p n = get_bytes b p n"
proof (induction k)
  case (Suc k)
  have f: "frame_ok L (fs ! k)" "Suc k < 2 ^ 64" using frames_ok_nth [OF fs, of k] Suc.prems by auto
  have "l_slot_table_offset L \<le> length b" "32 \<le> length b" using wf by (auto simp: ring_wf_def shm_consts)
  then have "p + n \<le> length (ring_buf L b fs k)" using p length_ring_buf [OF wf fs, of k] Suc.prems by linarith
  then show ?case
    using Suc length_ring_buf [OF wf fs, of k] frame_stores_ok [OF wf ring_wf_slot [OF wf] f]
      frame_stores_clear_header [OF wf ring_wf_slot [OF wf] f p]
    by (simp add: get_apply_stores_clear)
qed simp

lemma created_header:
  assumes c: "created np dt shape slots version mdt w h mbytes mn" and "0 < slots"
  shows "get_bytes (w_buf w) 0 8 = SHM_MAGIC"
    "field 4 (w_buf w) 8 = version" "field 4 (w_buf w) 12 = slots"
    "field 4 (w_buf w) 16 = l_payload_nbytes (w_layout w)"
    "field 4 (w_buf w) 20 = length (dtype_to_header_text np dt)" "field 4 (w_buf w) 24 = length shape"
    "version \<noteq> 1 \<Longrightarrow> field 8 (w_buf w) 48 = length mbytes"
    "version \<noteq> 1 \<Longrightarrow> field 8 (w_buf w) 56 = mn"
proof -
  let ?L = "w_layout w" and ?d = "dtype_to_header_text np dt" and ?s = "shape_bytes shape"
  have h: "h = (if version = 1 then header_v1 version slots (l_payload_nbytes ?L) (length ?d) (length shape)
      else header_v2 version slots (l_payload_nbytes ?L) (length ?d) (length shape) (length mbytes) mn)"
    and b: "w_buf w = header_area (replicate (l_metadata_offset ?L + slots * mn) 0) h ?d ?s mbytes"
    and off: "l_metadata_offset ?L = 64 + length ?d + length ?s + length mbytes + slots * 64
      + slots * l_payload_nbytes ?L"
    and fits: "fits 4 version" "fits 4 slots" "fits 4 (l_payload_nbytes ?L)" "fits 4 (length ?d)"
      "fits 4 (length shape)" "version \<noteq> 1 \<Longrightarrow> fits 8 (length mbytes) \<and> fits 8 mn"
    using c unfolding created_def Let_def by auto
  have lh: "length h \<le> 64" "32 \<le> length h" "version \<noteq> 1 \<Longrightarrow> length h = 64" by (auto simp: h)
  have "get_bytes (w_buf w) 0 (length h) = h"
    unfolding b by (rule header_area_parts(1)) (use lh off in auto)
  then have sub: "get_bytes (w_buf w) p n = get_bytes h p n" if "p + n \<le> length h" for p n
    using get_bytes_sub [OF that, of "w_buf w" 0] by simp
  note hf = header_fields [OF h]
  show "get_bytes (w_buf w) 0 8 = SHM_MAGIC" using hf(1) sub [of 0 8] lh by simp
  show "field 4 (w_buf w) 8 = version" "field 4 (w_buf w) 12 = slots"
    "field 4 (w_buf w) 16 = l_payload_nbytes (w_layout w)"
    "field 4 (w_buf w) 20 = length (dtype_to_header_text np dt)" "field 4 (w_buf w) 24 = length shape"
    using hf(2-6) sub [of 8 4] sub [of 12 4] sub [of 16 4] sub [of 20 4] sub [of 24 4] lh(2) fits(1-5)
    by (simp_all add: field_4_le_bytes)
  assume v: "version \<noteq> 1"
  show "field 8 (w_buf w) 48 = length mbytes" "field 8 (w_buf w) 56 = mn"
    using hf(7,8) [OF v] sub [of 48 8] sub [of 56 8] lh(3) [OF v] fits(6) [OF v]
    by (simp_all add: field_8_fits)
qed

lemma created_texts:
  assumes c: "created np dt shape slots version mdt w h mbytes mn"
  shows "get_bytes (w_buf w) 64 (length (dtype_to_header_text np dt)) = dtype_to_header_text np dt"
    and "get_bytes (w_buf w) (64 + length (dtype_to_header_text np dt)) (length (shape_bytes shape)) = shape_bytes shape"
    and "get_bytes (w_buf w) (64 + length (dtype_to_header_text np dt) + length (shape_bytes shape))
           (length mbytes) = mbytes"
proof -
  let ?L = "w_layout w" and ?d = "dtype_to_header_text np dt" and ?s = "shape_bytes shape"
  have b: "w_buf w = header_area (replicate (l_metadata_offset ?L + slots * mn) 0) h ?d ?s mbytes"
    and off: "l_metadata_offset ?L = 64 + length ?d + length ?s + length mbytes + slots * 64
      + slots * l_payload_nbytes ?L"
    and h: "length h \<le> 64"
    using c unfolding created_def Let_def by simp_all
  have len: "64 + length ?d + length ?s + length mbytes
      \<le> length (replicate (l_metadata_offset ?L + slots * mn) (0::byte))"
    using off by simp
  show "get_bytes (w_buf w) 64 (length ?d) = ?d"
    "get_bytes (w_buf w) (64 + length ?d) (length ?s) = ?s"
    "get_bytes (w_buf w) (64 + length ?d + length ?s) (length mbytes) = mbytes"
    unfolding b by (rule header_area_parts [OF h len])+
qed

lemma created_shape:
  assumes c: "created np dt shape slots version mdt w h mbytes mn"
  shows "map (\<lambda>i. sfield (w_buf w) (64 + length (dtype_to_header_text np dt) + i * 4)) [0..<length shape] = shape"
proof (rule nth_equalityI)
  fix i assume "i < length (map (\<lambda>i. sfield (w_buf w) (64 + length (dtype_to_header_text np dt) + i * 4)) [0..<length shape])"
  then have i: "i < length shape" by simp
  let ?o = "64 + length (dtype_to_header_text np dt)"
  have "get_bytes (w_buf w) (?o + i * 4) 4 = le_bytes 4 (shape ! i)"
    using get_bytes_sub [of "i * 4" 4 "length (shape_bytes shape)" "w_buf w" ?o]
      created_texts(2) [OF c] shape_bytes_nth [OF i] i by simp
  moreover have "fits_int32 (shape ! i)"
    using c i by (simp add: created_def Let_def list_all_length)
  ultimately show "map (\<lambda>i. sfield (w_buf w) (?o + i * 4)) [0..<length shape] ! i = shape ! i"
    using i by (simp add: sfield_le_bytes)
qed simp

text \<open>Attaching to a created ring, after any number of writes, recovers its layout.\<close>

lemma attach_created:
  assumes c: "shm_create np ns u name dt shape slots version mdt = Inr (ns', w)" and s: "0 < slots"
    and fs: "frames_ok (w_layout w) fs" and k: "k \<le> length fs"
    and dt: "numpy_json_ok np dt" and m: "case mdt of None \<Rightarrow> version < 4 | Some m \<Rightarrow> numpy_json_ok np m"
  shows "shm_attach np (ring_buf (w_layout w) (w_buf w) fs k) = Inr (w_layout w)"
proof -
  let ?L = "w_layout w" and ?b = "ring_buf (w_layout w) (w_buf w) fs k"
  obtain h mbytes mn where cr: "created np dt shape slots version mdt w h mbytes mn"
    using shm_createD [OF c] by blast
  note wf = created_wf [OF cr s]
  have spec: "metadata_spec np version mdt = Inr (mbytes, mn)"
    and L: "l_slot_table_offset ?L = 64 + length (dtype_to_header_text np dt) + length shape * 4 + length mbytes"
      "l_payload_offset ?L = l_slot_table_offset ?L + slots * 64"
      "l_metadata_offset ?L = l_payload_offset ?L + slots * l_payload_nbytes ?L"
      "l_dtype ?L = dt" "l_shape ?L = shape" "l_slot_count ?L = slots" "l_layout_version ?L = version"
      "l_dtype_str_len ?L = length (dtype_to_header_text np dt)" "l_shape_len ?L = length shape"
      "l_metadata_dtype ?L = mdt" "l_metadata_nbytes ?L = mn"
      "l_metadata_dtype_str_len ?L = length mbytes"
    using cr unfolding created_def Let_def by auto
  note same = ring_buf_header [OF wf fs _ k]
  have f4: "field 4 ?b p = field 4 (w_buf w) p" if "p + 4 \<le> 32" for p
    using same that by (simp add: field_def)
  have f8: "field 8 ?b p = field 8 (w_buf w) p" if "48 \<le> p" "p + 8 \<le> 64" for p
    using same [of p 8] that L(1) by (simp add: field_def)
  have tx: "get_bytes ?b p n = get_bytes (w_buf w) p n" if "64 \<le> p" "p + n \<le> l_slot_table_offset ?L" for p n
    using same that by simp
  have len: "l_slot_table_offset ?L \<le> length ?b"
    using length_ring_buf [OF wf fs k] wf by (auto simp: ring_wf_def)
  show ?thesis
  proof (rule attach_layout, unfold L)
    show "64 \<le> length ?b" "64 + length (dtype_to_header_text np dt) + length shape * 4 \<le> length ?b"
      using len L(1) by auto
    show "get_bytes ?b 0 8 = SHM_MAGIC" using same created_header(1) [OF cr s] by simp
    show "field 4 ?b 8 = version" "field 4 ?b 12 = slots" "field 4 ?b 16 = l_payload_nbytes ?L"
      "field 4 ?b 20 = length (dtype_to_header_text np dt)" "field 4 ?b 24 = length shape"
      using f4 created_header(2-6) [OF cr s] by simp_all
    have "sfield ?b (64 + length (dtype_to_header_text np dt) + i * 4)
        = sfield (w_buf w) (64 + length (dtype_to_header_text np dt) + i * 4)" if "i < length shape" for i
      using tx that L(1) by (simp add: sfield_def)
    then have "map (\<lambda>i. sfield ?b (64 + length (dtype_to_header_text np dt) + i * 4)) [0..<length shape]
        = map (\<lambda>i. sfield (w_buf w) (64 + length (dtype_to_header_text np dt) + i * 4)) [0..<length shape]"
      by (intro map_cong) auto
    then show "map (\<lambda>i. sfield ?b (64 + length (dtype_to_header_text np dt) + i * 4)) [0..<length shape] = shape"
      using created_shape [OF cr] by simp
    show "dtype_from_header_text np (get_bytes ?b 64 (length (dtype_to_header_text np dt))) = Inr dt"
      using tx created_texts(1) [OF cr] dt L(1) by (simp add: dtype_text_roundtrip)
    show "case mdt of
        None \<Rightarrow> version < 4 \<and> length mbytes = 0 \<and> mn = 0
      | Some m \<Rightarrow> 4 \<le> version \<and> field 8 ?b 48 = length mbytes \<and> field 8 ?b 56 = mn \<and> np_itemsize np m = mn
          \<and> dtype_from_header_text np (get_bytes ?b
               (64 + length (dtype_to_header_text np dt) + length shape * 4) (length mbytes)) = Inr m"
      using metadata_specD [OF spec] m f8 created_header(7,8) [OF cr s] tx L(1) created_texts(3) [OF cr]
      by (auto simp: dtype_text_roundtrip mult.commute)
  qed (use L in simp_all)
qed

section \<open>Batches\<close>

definition batch_frames ::
  "'d shm_layout \<Rightarrow> 'd nd_batch \<Rightarrow> int list \<Rightarrow> int list \<Rightarrow> 'd nd_batch option \<Rightarrow> nat list \<Rightarrow> 'd frame list" where
  "batch_frames L batch t0_mono t0_wall meta idxs =
     map (\<lambda>idx. \<lparr>fr_arr = batch_frame L batch idx, fr_mono = t0_mono ! idx, fr_wall = t0_wall ! idx,
                  fr_meta = map_option (\<lambda>m. batch_frame L m idx) meta\<rparr>) idxs"

text \<open>The arrays of a batch have as many bytes per frame as their dtype and shape say.\<close>

definition batch_sized :: "'d shm_layout \<Rightarrow> 'd nd_batch \<Rightarrow> 'd nd_batch option \<Rightarrow> bool" where
  "batch_sized L batch meta \<longleftrightarrow>
     int (length (nb_frames batch)) = hd (nb_shape batch) \<and>
     list_all (\<lambda>f. length f = l_payload_nbytes L) (nb_frames batch) \<and>
     (case meta of None \<Rightarrow> True
      | Some m \<Rightarrow> int (length (nb_frames m)) = hd (nb_shape m) \<and>
          list_all (\<lambda>f. length f = l_metadata_nbytes L) (nb_frames m))"

lemma batch_frames_ok:
  assumes c: "batch_check L batch t0 t1 meta = Inr count" and z: "batch_sized L batch meta"
  shows "list_all (frame_ok L) (batch_frames L batch t0 t1 meta [0..<count])" "0 < count"
proof -
  obtain n where sh: "nb_shape batch = n # l_shape L" and dt: "nb_dtype batch = l_dtype L"
    and n: "1 \<le> n" "count = nat n" and len: "int (length t0) = n" "int (length t1) = n"
    and u: "list_all (\<lambda>t. 0 \<le> t \<and> t < 2 ^ 64) (t0 @ t1)"
    and m: "case l_metadata_dtype L of None \<Rightarrow> meta = None
      | Some mdt \<Rightarrow> (\<exists>m. meta = Some m \<and> nb_dtype m = mdt \<and> nb_shape m = [n])"
    using c by (auto simp: batch_check_def list_ex_iff list_all_iff not_le not_less
        split: list.splits if_splits option.splits)
  have lens: "length (nb_frames batch) = count" "length t0 = count" "length t1 = count"
    using z sh n len by (auto simp: batch_sized_def)
  have pay: "length (nb_frames batch ! i) = l_payload_nbytes L" if "i < count" for i
    using z that lens by (auto simp: batch_sized_def list_all_length)
  have tim: "is_u64 (t0 ! i)" "is_u64 (t1 ! i)" if "i < count" for i
    using u that lens nth_mem [of i t0] nth_mem [of i t1] by (simp_all add: list_all_iff is_u64_def)
  have "frame_ok L \<lparr>fr_arr = batch_frame L batch i, fr_mono = t0 ! i, fr_wall = t1 ! i,
      fr_meta = map_option (\<lambda>m. batch_frame L m i) meta\<rparr>" if i: "i < count" for i
  proof (cases "l_metadata_dtype L")
    case None
    with m tim pay i sh dt show ?thesis by (simp add: frame_ok_def write_check_def batch_frame_def)
  next
    case (Some mdt)
    then obtain mm where mm: "meta = Some mm" "nb_dtype mm = mdt" "nb_shape mm = [n]" using m by auto
    then have "length (nb_frames mm ! i) = l_metadata_nbytes L"
      using z i n by (auto simp: batch_sized_def list_all_length)
    with Some mm tim pay i sh dt show ?thesis by (simp add: frame_ok_def write_check_def batch_frame_def)
  qed
  then show "list_all (frame_ok L) (batch_frames L batch t0 t1 meta [0..<count])"
    by (simp add: batch_frames_def list_all_iff)
  show "0 < count" using n by simp
qed

lemma batch_loop_run:
  assumes "ring_at L b w fs" "list_all (frame_ok L) (batch_frames L batch t0 t1 meta idxs)"
    and "length fs + length idxs < 2 ^ 64" "distinct idxs"
  shows "\<exists>w'. batch_loop batch t0 t1 meta idxs first lst w =
      (Inr (if 0 \<in> set idxs then length fs + 1 + length (takeWhile (\<lambda>i. i \<noteq> 0) idxs) else first,
            if idxs = [] then lst else length fs + length idxs), w')
    \<and> ring_at L b w' (fs @ batch_frames L batch t0 t1 meta idxs)"
  using assms
proof (induction idxs arbitrary: w fs first lst)
  case Nil
  then show ?case by (simp add: batch_frames_def)
next
  case (Cons i idxs)
  let ?f = "\<lparr>fr_arr = batch_frame L batch i, fr_mono = t0 ! i, fr_wall = t1 ! i,
      fr_meta = map_option (\<lambda>m. batch_frame L m i) meta\<rparr>"
  have f: "frame_ok L ?f" "w_layout w = L"
    using Cons.prems by (auto simp: batch_frames_def ring_at_def)
  obtain r w' where w': "write_frame w ?f = (r, w')" by (cases "write_frame w ?f")
  have st: "r = Inr (length fs + 1)" "ring_at L b w' (fs @ [?f])"
    using write_frame_step [OF Cons.prems(1) f(1)] Cons.prems(3) w' by auto
  have sw: "shm_write w (batch_frame L batch i) (t0 ! i) (t1 ! i)
      (map_option (\<lambda>m. batch_frame L m i) meta) = (Inr (length fs + 1), w')"
    using w' st(1) by (simp add: write_frame_def)
  have fr: "list_all (frame_ok L) (batch_frames L batch t0 t1 meta idxs)"
    using Cons.prems(2) by (simp add: batch_frames_def)
  have len: "length (fs @ [?f]) + length idxs < 2 ^ 64" using Cons.prems(3) by simp
  obtain w'' where IH: "batch_loop batch t0 t1 meta idxs (if i = 0 then length fs + 1 else first)
      (length fs + 1) w' =
      (Inr (if 0 \<in> set idxs then length (fs @ [?f]) + 1 + length (takeWhile (\<lambda>i. i \<noteq> 0) idxs)
            else (if i = 0 then length fs + 1 else first),
            if idxs = [] then length fs + 1 else length (fs @ [?f]) + length idxs), w'')"
    "ring_at L b w'' ((fs @ [?f]) @ batch_frames L batch t0 t1 meta idxs)"
    using Cons.IH [OF st(2) fr len] Cons.prems(4) by fastforce
  have "(fs @ [?f]) @ batch_frames L batch t0 t1 meta idxs = fs @ batch_frames L batch t0 t1 meta (i # idxs)"
    by (simp add: batch_frames_def)
  with IH sw f(2) Cons.prems(4) show ?case by (auto intro!: exI [where x = w''])
qed

lemma write_batch_run:
  assumes at: "ring_at L b w fs" and c: "batch_check L batch t0 t1 meta = Inr count"
    and z: "batch_sized L batch meta" and len: "length fs + count < 2 ^ 64"
  shows "fst (shm_write_batch w batch t0 t1 meta) = Inr (length fs + 1, length fs + count)
    \<and> ring_at L b (snd (shm_write_batch w batch t0 t1 meta))
        (fs @ batch_frames L batch t0 t1 meta [0..<count])"
proof -
  note ok = batch_frames_ok [OF c z]
  have "takeWhile (\<lambda>i. i \<noteq> 0) [0..<count] = []" using ok(2) by (simp add: upt_conv_Cons)
  moreover have "w_layout w = L" using at by (simp add: ring_at_def)
  ultimately show ?thesis
    using batch_loop_run [OF at ok(1), of 0 0] len ok(2) c by (auto simp: shm_write_batch_def)
qed

end
