(* ===== verification/Shm_Ring_Props.thy ===== *)
theory Shm_Ring_Props
  imports Shm_Ring_Segment
begin

text \<open>
  The properties of the shared-memory ring, stated from a ring that \<open>shm_create\<close> made, and
  a small concrete ring they are applied to: two slots of one byte, on a one-element dtype.
\<close>

section \<open>A concrete ring\<close>

definition demo_np :: "unit np_api" where
  "demo_np = \<lparr>np_itemsize = (\<lambda>_. 1), np_hasobject = (\<lambda>_. False), np_fields = (\<lambda>_. False),
     np_str = (\<lambda>_. [117]), np_descr = (\<lambda>_. []), np_dumps = (\<lambda>_. []), np_loads = (\<lambda>_. None),
     np_dtype_of_descr = (\<lambda>_. None), np_dtype_of_str = (\<lambda>t. if t = [117] then Some () else None)\<rparr>"

definition demo_create :: "shm_error + (string \<rightharpoonup> buf) \<times> unit shm_writer" where
  "demo_create = shm_create demo_np Map.empty True ''ring'' () [1] 2 2 None"

definition demo_ring :: "unit shm_writer" where
  "demo_ring = snd (projr demo_create)"

definition demo_frame :: "byte \<Rightarrow> unit frame" where
  "demo_frame x = \<lparr>fr_arr = \<lparr>a_dtype = (), a_shape = [1], a_bytes = [x]\<rparr>, fr_mono = 7, fr_wall = 9,
     fr_meta = None\<rparr>"

lemma demo_create_ok: "demo_create = Inr (fst (projr demo_create), demo_ring)"
  by (simp add: demo_ring_def demo_create_def shm_create_def demo_np_def metadata_spec_def
      create_segment_def Let_def fits_def fits_int32_def dtype_to_header_text_def)

lemma demo_layout:
  "l_dtype (w_layout demo_ring) = ()" "l_shape (w_layout demo_ring) = [1]"
  "l_slot_count (w_layout demo_ring) = 2" "l_payload_nbytes (w_layout demo_ring) = 1"
  "l_metadata_dtype (w_layout demo_ring) = None" "l_metadata_nbytes (w_layout demo_ring) = 0"
  "l_layout_version (w_layout demo_ring) = 2"
  by (simp_all add: demo_ring_def demo_create_def shm_create_def demo_np_def metadata_spec_def
      create_segment_def Let_def fits_def fits_int32_def dtype_to_header_text_def)

lemma demo_frame_ok: "frame_ok (w_layout demo_ring) (demo_frame x)"
  by (simp add: frame_ok_def write_check_def demo_frame_def demo_layout is_u64_def)
lemma demo_frames_ok: "frames_ok (w_layout demo_ring) [demo_frame 3, demo_frame 4]"
  using demo_frame_ok by (simp add: frames_ok_def)

lemma demo_fresh: "ring_fresh (w_layout demo_ring) (w_buf demo_ring)"
  using create_fresh(1) [OF demo_create_ok [unfolded demo_create_def]] by simp

section \<open>Properties\<close>

text \<open>
  C3. No torn reads. Whatever the writer is doing, a slot read that returns an event returns
  the complete frame of one write, with that write's sequence number and timestamps, even
  when the reader's loads interleave with the writer's single stores in any order that time
  allows.
\<close>

theorem ring_read_never_torn:
  fixes tm :: "nat \<Rightarrow> nat \<times> nat"
  assumes "shm_create np ns u name dt shape slots version mdt = Inr (ns', w)" and "0 < slots"
    and "frames_ok (w_layout w) fs" and "mono tm" and "slot < slots"
    and "read_stable_slot_at (w_layout w) (ring_mem (w_layout w) (w_buf w) fs) tm slot seq = Some ev"
  shows "0 < seq \<and> seq \<le> length fs \<and> ev = frame_event (fs ! (seq - 1)) seq"
  using stable_read_sound [OF create_fresh(1) [OF assms(1,2)] assms(3)] create_fresh(4) [OF assms(1,2)]
    assms(4-6) by simp

theorem ring_read_never_torn_witness:
  "read_stable_slot_at (w_layout demo_ring)
     (ring_mem (w_layout demo_ring) (w_buf demo_ring) [demo_frame 3, demo_frame 4])
     (\<lambda>i. (1, i)) 0 1 = Some (frame_event (demo_frame 3) 1)
   \<and> (0::nat) < 1 \<and> 1 \<le> length [demo_frame 3, demo_frame 4]
   \<and> frame_event (demo_frame 3) 1 = frame_event ([demo_frame 3, demo_frame 4] ! (1 - 1)) 1"
proof -
  let ?fs = "[demo_frame 3, demo_frame 4]"
  have mono: "mono (\<lambda>i. (1::nat, i::nat))" by (auto intro!: monoI)
  have read: "read_stable_slot_at (w_layout demo_ring)
      (ring_mem (w_layout demo_ring) (w_buf demo_ring) ?fs) (\<lambda>i. (1, i)) 0 1
      = Some (frame_event (demo_frame 3) 1)"
    using stable_read_complete [OF demo_fresh demo_frames_ok, of 0 "\<lambda>i. (1, i)"]
    by (simp add: demo_layout)
  from ring_read_never_torn [OF demo_create_ok [unfolded demo_create_def] _ demo_frames_ok mono _ read]
  show ?thesis using read by simp
qed

text \<open>
  C29. A read succeeds whenever the slot is left alone for its duration: if every load falls
  after write \<open>i\<close> published its frame and before the write that reuses the slot begins, the
  reader gets frame \<open>i\<close>.
\<close>

theorem ring_read_succeeds:
  fixes tm :: "nat \<Rightarrow> nat \<times> nat"
  assumes "shm_create np ns u name dt shape slots version mdt = Inr (ns', w)" and "0 < slots"
    and "frames_ok (w_layout w) fs" and "i < length fs"
    and "\<And>x. (i, 11 + data_len (w_layout w)) \<le> tm x"
    and "\<And>x. tm x < (i + slots, 1) \<or> length fs \<le> i + slots"
  shows "read_stable_slot_at (w_layout w) (ring_mem (w_layout w) (w_buf w) fs) tm (i mod slots) (Suc i)
    = Some (frame_event (fs ! i) (Suc i))"
  using stable_read_complete [OF create_fresh(1) [OF assms(1,2)] assms(3-5)] assms(6)
    create_fresh(4) [OF assms(1,2)] by simp

theorem ring_read_succeeds_witness:
  "read_stable_slot_at (w_layout demo_ring)
     (ring_mem (w_layout demo_ring) (w_buf demo_ring) [demo_frame 3, demo_frame 4])
     (\<lambda>i. (1, i)) (0 mod 2) (Suc 0) = Some (frame_event ([demo_frame 3, demo_frame 4] ! 0) (Suc 0))"
  using ring_read_succeeds [OF demo_create_ok [unfolded demo_create_def] _ demo_frames_ok, of 0 "\<lambda>i. (1, i)"]
  by simp

text \<open>
  The writer's history. Writing accepted frames to a new ring returns the sequence
  numbers 1, 2, 3 and so on, and the buffer it leaves after each is the one the concurrent
  history has at that time.
\<close>

theorem ring_writes_sequence:
  assumes "shm_create np ns u name dt shape slots version mdt = Inr (ns', w)" and "0 < slots"
    and "frames_ok (w_layout w) fs" and "k \<le> length fs"
  shows "fst (write_frames w (take k fs)) = map Inr [1..<k + 1]
    \<and> w_buf (snd (write_frames w (take k fs))) = ring_mem (w_layout w) (w_buf w) fs (k, 0)
    \<and> w_next_seq (snd (write_frames w (take k fs))) = k
    \<and> w_next_slot (snd (write_frames w (take k fs))) = k mod slots"
proof -
  note cf = create_fresh [OF assms(1,2)]
  have "list_all (frame_ok (w_layout w)) (take k fs)" "length fs < 2 ^ 64"
    using assms(3) by (auto simp: frames_ok_def list_all_take)
  with write_frames_run [OF ring_at_start [OF cf(1-3)], of "take k fs"] assms(4)
  have run: "fst (write_frames w (take k fs)) = map Inr [1..<k + 1]"
    "ring_at (w_layout w) (w_buf w) (snd (write_frames w (take k fs))) (take k fs)"
    by auto
  moreover have "ring_mem (w_layout w) (w_buf w) fs (k, 0) = ring_buf (w_layout w) (w_buf w) fs k"
    using assms(4) by (simp add: ring_mem_def)
  moreover have "ring_buf (w_layout w) (w_buf w) fs k = ring_buf (w_layout w) (w_buf w) (take k fs) k"
    using ring_buf_append [of k "take k fs" "w_layout w" "w_buf w" "drop k fs"] assms(4) by simp
  ultimately show ?thesis using assms(4) cf(4) by (simp add: ring_at_def)
qed

theorem ring_writes_sequence_witness:
  "fst (write_frames demo_ring (take 2 [demo_frame 3, demo_frame 4])) = map Inr [1..<2 + 1]
    \<and> w_buf (snd (write_frames demo_ring (take 2 [demo_frame 3, demo_frame 4]))) =
        ring_mem (w_layout demo_ring) (w_buf demo_ring) [demo_frame 3, demo_frame 4] (2, 0)
    \<and> w_next_seq (snd (write_frames demo_ring (take 2 [demo_frame 3, demo_frame 4]))) = 2
    \<and> w_next_slot (snd (write_frames demo_ring (take 2 [demo_frame 3, demo_frame 4]))) = 2 mod 2"
  using ring_writes_sequence [OF demo_create_ok [unfolded demo_create_def] _ demo_frames_ok, of 2] by simp

text \<open>
  C30. What a poll returns. After any number of accepted writes, \<open>read_events\<close> returns
  exactly the events newer than the last one seen that the ring still holds, in sequence
  order, each with the content that was written.
\<close>

theorem ring_read_events_exact:
  assumes "shm_create np ns u name dt shape slots version mdt = Inr (ns', w)" and "0 < slots"
    and "frames_ok (w_layout w) fs"
  shows "read_events (w_layout w) (w_buf (snd (write_frames w fs))) seen =
    map (\<lambda>q. frame_event (fs ! (q - 1)) q) [max (seen + 1) (length fs + 1 - slots)..<length fs + 1]"
proof -
  note cf = create_fresh [OF assms(1,2)]
  have "ring_at (w_layout w) (w_buf w) (snd (write_frames w fs)) fs"
    using write_frames_run [OF ring_at_start [OF cf(1-3)], of fs] assms(3) by (simp add: frames_ok_def)
  with read_events_ring_buf [OF cf(1) assms(3) order_refl] cf(4) show ?thesis by (simp add: ring_at_def)
qed

theorem ring_read_events_exact_witness:
  "read_events (w_layout demo_ring)
     (w_buf (snd (write_frames demo_ring [demo_frame 3, demo_frame 4]))) 1 =
   [frame_event (demo_frame 4) 2]"
  using ring_read_events_exact [OF demo_create_ok [unfolded demo_create_def] _ demo_frames_ok, of 1]
  by (simp add: upt_rec numeral_2_eq_2)

text \<open>
  Looking up one event. \<open>read_event\<close> finds sequence number \<open>q\<close> exactly when it was
  written and has not been overwritten, whatever the hint in the header says.
\<close>

theorem ring_read_event_exact:
  assumes "shm_create np ns u name dt shape slots version mdt = Inr (ns', w)" and "0 < slots"
    and "frames_ok (w_layout w) fs"
  shows "read_event (w_layout w) (w_buf (snd (write_frames w fs))) q =
    (if 0 < q \<and> q \<le> length fs \<and> length fs < q + slots
     then Some (frame_event (fs ! (q - 1)) q) else None)"
proof -
  note cf = create_fresh [OF assms(1,2)]
  have "ring_at (w_layout w) (w_buf w) (snd (write_frames w fs)) fs"
    using write_frames_run [OF ring_at_start [OF cf(1-3)], of fs] assms(3) by (simp add: frames_ok_def)
  with read_event_ring_buf [OF cf(1) assms(3) order_refl] cf(4) show ?thesis by (simp add: ring_at_def)
qed

theorem ring_read_event_exact_witness:
  "read_event (w_layout demo_ring)
     (w_buf (snd (write_frames demo_ring [demo_frame 3, demo_frame 4]))) 2 =
   Some (frame_event (demo_frame 4) 2)"
  using ring_read_event_exact [OF demo_create_ok [unfolded demo_create_def] _ demo_frames_ok, of 2] by simp



text \<open>
  C31. Attaching. A reader that attaches to the segment after any number of writes recovers the
  layout the creator chose, the dtypes of the payload and of the metadata included, provided
  numpy gives back a dtype from its own name or description and \<open>json\<close> the value it printed, and
  a ring without metadata has a layout version below 4.
\<close>

theorem ring_attach_roundtrip:
  assumes "shm_create np ns u name dt shape slots version mdt = Inr (ns', w)" and "0 < slots"
    and "frames_ok (w_layout w) fs" and "numpy_json_ok np dt"
    and "case mdt of None \<Rightarrow> version < 4 | Some m \<Rightarrow> numpy_json_ok np m"
  shows "shm_attach np (w_buf (snd (write_frames w fs))) = Inr (w_layout w)"
proof -
  note cf = create_fresh [OF assms(1,2)]
  have "ring_at (w_layout w) (w_buf w) (snd (write_frames w fs)) fs"
    using write_frames_run [OF ring_at_start [OF cf(1-3)], of fs] assms(3) by (simp add: frames_ok_def)
  with attach_created [OF assms(1-3) order_refl assms(4,5)] show ?thesis by (simp add: ring_at_def)
qed

text \<open>A ring with metadata: the dtype \<open>False\<close> is a plain byte, \<open>True\<close> a structure of one field.\<close>

definition meta_np :: "bool np_api" where
  "meta_np = \<lparr>np_itemsize = (\<lambda>_. 1), np_hasobject = (\<lambda>_. False), np_fields = (\<lambda>d. d), np_str = (\<lambda>_. [117]),
     np_descr = (\<lambda>_. [PList [PStr ''n'', PStr ''u1'']]), np_dumps = (\<lambda>v. if v = PNone then [110] else [123]),
     np_loads = (\<lambda>t. if t = [123]
        then Some (PDict [(''kind'', PStr ''structured_dtype''), (''descr'', PList [PList [PStr ''n'', PStr ''u1'']])]) else None),
     np_dtype_of_descr = (\<lambda>d. if d = [PList [PStr ''n'', PStr ''u1'']] then Some True else None),
     np_dtype_of_str = (\<lambda>t. if t = [117] then Some False else None)\<rparr>"

definition meta_create :: "shm_error + (string \<rightharpoonup> buf) \<times> bool shm_writer" where
  "meta_create = shm_create meta_np Map.empty True ''ring'' False [1] 2 4 (Some True)"

definition meta_ring :: "bool shm_writer" where
  "meta_ring = snd (projr meta_create)"

definition meta_frame :: "byte \<Rightarrow> byte \<Rightarrow> bool frame" where
  "meta_frame x n = \<lparr>fr_arr = \<lparr>a_dtype = False, a_shape = [1], a_bytes = [x]\<rparr>, fr_mono = 7, fr_wall = 9,
     fr_meta = Some \<lparr>a_dtype = True, a_shape = [], a_bytes = [n]\<rparr>\<rparr>"

lemmas meta_eval = shm_create_def meta_np_def metadata_spec_def create_segment_def fits_def fits_int32_def
  dtype_to_header_text_def structured_header_def STRUCTURED_DTYPE_PREFIX_def

lemma meta_create_ok: "meta_create = Inr (fst (projr meta_create), meta_ring)"
  by (simp add: meta_ring_def meta_create_def meta_eval Let_def)

lemma meta_layout:
  "l_dtype (w_layout meta_ring) = False" "l_shape (w_layout meta_ring) = [1]" "l_payload_nbytes (w_layout meta_ring) = 1"
  "l_metadata_dtype (w_layout meta_ring) = Some True" "l_metadata_nbytes (w_layout meta_ring) = 1"
  by (simp_all add: meta_ring_def meta_create_def meta_eval Let_def)

theorem ring_attach_roundtrip_witness:
  "shm_attach meta_np (w_buf (snd (write_frames meta_ring [meta_frame 3 1, meta_frame 4 2]))) = Inr (w_layout meta_ring)
   \<and> l_metadata_dtype (w_layout meta_ring) = Some True"
proof -
  have fs: "frames_ok (w_layout meta_ring) [meta_frame 3 1, meta_frame 4 2]"
    by (simp add: frames_ok_def frame_ok_def write_check_def meta_frame_def meta_layout is_u64_def)
  have "numpy_json_ok meta_np False" "numpy_json_ok meta_np True"
    by (simp_all add: numpy_json_ok_def meta_np_def structured_header_def STRUCTURED_DTYPE_PREFIX_def of_char_of)
  with ring_attach_roundtrip [OF meta_create_ok [unfolded meta_create_def] _ fs] meta_layout show ?thesis by simp
qed

text \<open>
  A batch is all or nothing at the door, and contiguous inside: a batch the check
  refuses leaves the ring as it was; an accepted one returns the first and last of
  consecutive sequence numbers and leaves the ring as the same frames written one by one.
\<close>

theorem ring_batch_contiguous:
  assumes "ring_at L b w fs"
  shows "case batch_check L batch t0_mono t0_wall meta of
      Inl e \<Rightarrow> shm_write_batch w batch t0_mono t0_wall meta = (Inl e, w)
    | Inr count \<Rightarrow>
        batch_sized L batch meta \<longrightarrow> length fs + count < 2 ^ 64 \<longrightarrow>
        fst (shm_write_batch w batch t0_mono t0_wall meta) = Inr (length fs + 1, length fs + count)
        \<and> ring_at L b (snd (shm_write_batch w batch t0_mono t0_wall meta))
            (fs @ batch_frames L batch t0_mono t0_wall meta [0..<count])"
proof (cases "batch_check L batch t0_mono t0_wall meta")
  case (Inl e)
  moreover have "w_layout w = L" using assms by (simp add: ring_at_def)
  ultimately show ?thesis by (simp add: shm_write_batch_def)
next
  case (Inr count)
  then show ?thesis using write_batch_run [OF assms Inr] by simp
qed

definition demo_batch :: "unit nd_batch" where
  "demo_batch = \<lparr>nb_dtype = (), nb_shape = [2, 1], nb_frames = [[5], [6]]\<rparr>"

theorem ring_batch_contiguous_witness:
  "fst (shm_write_batch demo_ring demo_batch [1, 2] [3, 4] None) = Inr (1, 2)
   \<and> shm_write_batch demo_ring demo_batch [1] [3, 4] None =
       (Inl (ShmValueError ''batch timestamps must contain one value per frame''), demo_ring)"
proof -
  have at: "ring_at (w_layout demo_ring) (w_buf demo_ring) demo_ring []"
    using create_fresh [OF demo_create_ok [unfolded demo_create_def]] by (intro ring_at_start) simp_all
  have "batch_check (w_layout demo_ring) demo_batch [1, 2] [3, 4] None = Inr 2"
    "batch_check (w_layout demo_ring) demo_batch [1] [3, 4] None =
      Inl (ShmValueError ''batch timestamps must contain one value per frame'')"
    "batch_sized (w_layout demo_ring) demo_batch None"
    by (simp_all add: batch_check_def batch_sized_def demo_batch_def demo_layout)
  then show ?thesis
    using ring_batch_contiguous [OF at, of demo_batch "[1, 2]" "[3, 4]" None]
      ring_batch_contiguous [OF at, of demo_batch "[1]" "[3, 4]" None] by simp
qed

end
