(* ===== verification/Interceptor_Routes.thy ===== *)
theory Interceptor_Routes
  imports Py_Value "HOL-Library.Multiset"
begin

text \<open>
  The manager's registry of command interceptors, \<open>_manager/interceptor_routes.py\<close> and the
  functions of \<open>_manager/route_handlers.py\<close> over it: which process may inspect which
  command, in which order, and the cache of the chains already computed.
\<close>

section \<open>State\<close>

record route =
  rt_process_id :: string
  rt_device_id :: string
  rt_action :: string
  rt_order :: int

type_synonym route_key = "string \<times> string"
type_synonym route_cache = "(route_key \<times> route list) list"

record route_state =
  rs_routes :: "route list"
  rs_chain_cache :: route_cache
  rs_next_order :: int
  rs_generation :: int
  rs_max_cache :: int

definition route_json :: "route \<Rightarrow> pyval" where
  "route_json r =
     PDict [(''process_id'', PStr (rt_process_id r)), (''device_id'', PStr (rt_device_id r)),
            (''action'', PStr (rt_action r)), (''order'', PInt (rt_order r))]"

section \<open>The operations of the registry\<close>

definition rs_snapshot :: "route_state \<Rightarrow> pyval list" where
  "rs_snapshot st = map route_json (sort_key rt_order (rs_routes st))"

definition rs_invalidate :: "route_state \<Rightarrow> route_state" where
  "rs_invalidate st = st\<lparr>rs_generation := rs_generation st + 1, rs_chain_cache := []\<rparr>"

definition rs_drop_process :: "string \<Rightarrow> route_state \<Rightarrow> bool \<times> route_state" where
  "rs_drop_process pid st =
     (let kept = filter (\<lambda>r. rt_process_id r \<noteq> pid) (rs_routes st);
          changed = length kept \<noteq> length (rs_routes st);
          st' = st\<lparr>rs_routes := kept\<rparr>
      in (changed, if changed then rs_invalidate st' else st'))"

text \<open>
  The loop of \<open>register\<close>. \<open>seen\<close> holds the keys already added in this call. An entry that
  raises ends the loop with the routes before it already appended.
\<close>

fun register_loop ::
  "py_lang \<Rightarrow> string \<Rightarrow> pyval list \<Rightarrow> route_key list \<Rightarrow> route list \<Rightarrow> route_state
    \<Rightarrow> (pyexc + route list) \<times> route_state" where
  "register_loop L pid [] seen added st = (Inr added, st)"
| "register_loop L pid (raw # raws) seen added st =
     (case as_dict raw of
        None \<Rightarrow> (Inl (TypeError ''route must be an object''), st)
      | Some d \<Rightarrow>
          let device_id = py_strip (py_str L (dget d ''device_id'' (PStr '''')));
              action = py_strip (py_str L (dget d ''action'' (PStr '''')))
          in if device_id = [] \<or> action = []
             then (Inl (ValueError ''route.device_id and route.action are required''), st)
             else if (device_id, action) \<in> set seen then register_loop L pid raws seen added st
             else
               let order = rs_next_order st + 1;
                   entry = \<lparr>rt_process_id = pid, rt_device_id = device_id, rt_action = action,
                            rt_order = order\<rparr>;
                   st' = st\<lparr>rs_next_order := order, rs_routes := rs_routes st @ [entry]\<rparr>
               in register_loop L pid raws (seen @ [(device_id, action)]) (added @ [entry]) st')"

definition rs_register ::
  "py_lang \<Rightarrow> string \<Rightarrow> pyval \<Rightarrow> bool \<Rightarrow> route_state \<Rightarrow> (pyexc + route list) \<times> route_state" where
  "rs_register L pid routes_raw replace st =
     (case routes_raw of
        PList raws \<Rightarrow>
          let st1 = (if replace then snd (rs_drop_process pid st) else st)
          in (case register_loop L pid raws [] [] st1 of
                (Inl e, st2) \<Rightarrow> (Inl e, st2)
              | (Inr added, st2) \<Rightarrow> (Inr added, rs_invalidate st2))
      | _ \<Rightarrow> (Inl (TypeError ''routes must be a list''), st))"

definition match_command_interceptor_route :: "route \<Rightarrow> string \<Rightarrow> string \<Rightarrow> bool" where
  "match_command_interceptor_route r device_id action =
     (if rt_device_id r \<noteq> ''*'' \<and> rt_device_id r \<noteq> device_id then False
      else if rt_action r \<noteq> ''*'' \<and> rt_action r \<noteq> action then False else True)"

text \<open>The first route of each process, in order; \<open>seen\<close> are the processes met.\<close>

fun first_per_process :: "route list \<Rightarrow> string list \<Rightarrow> route list" where
  "first_per_process [] seen = []"
| "first_per_process (r # rs) seen =
     (if rt_process_id r \<in> set seen then first_per_process rs seen
      else r # first_per_process rs (rt_process_id r # seen))"

function evict :: "nat \<Rightarrow> 'a list \<Rightarrow> 'a list" where
  "evict n xs = (if n < length xs then evict n (tl xs) else xs)"
  by pat_completeness auto
termination by (relation "measure (\<lambda>(n, xs). length xs)") auto

definition rs_chain :: "string \<Rightarrow> string \<Rightarrow> route_state \<Rightarrow> route list \<times> route_state" where
  "rs_chain device_id action st =
     (let key = (device_id, action) in
      case map_of (rs_chain_cache st) key of
        Some cached \<Rightarrow>
          (cached, st\<lparr>rs_chain_cache := dset key cached (dpop key (rs_chain_cache st))\<rparr>)
      | None \<Rightarrow>
          let matches = filter (\<lambda>r. match_command_interceptor_route r device_id action) (rs_routes st);
              ordered = first_per_process (sort_key rt_order matches) [];
              max_items = nat (max 32 (rs_max_cache st))
          in (ordered,
              st\<lparr>rs_chain_cache := evict max_items (dset key ordered (rs_chain_cache st))\<rparr>))"

section \<open>The manager's wrappers\<close>

text \<open>
  The manager keeps the registry in an attribute created on first use from its legacy
  fields, and copies the registry back to them after each operation that returns.
\<close>

record route_manager =
  rm_state :: "route_state option"
  rm_routes :: "route list"
  rm_order :: int
  rm_cache :: route_cache
  rm_cache_max :: int
  rm_processes :: "string list"
  rm_events :: "(string \<times> pyval) list"

definition ensure_interceptor_route_state :: "route_manager \<Rightarrow> route_state" where
  "ensure_interceptor_route_state mgr =
     (case rm_state mgr of
        Some st \<Rightarrow> st
      | None \<Rightarrow> \<lparr>rs_routes = rm_routes mgr, rs_chain_cache = rm_cache mgr, rs_next_order = rm_order mgr,
                 rs_generation = 0, rs_max_cache = rm_cache_max mgr\<rparr>)"

definition sync_legacy_fields :: "route_manager \<Rightarrow> route_state \<Rightarrow> route_manager" where
  "sync_legacy_fields mgr st =
     mgr\<lparr>rm_state := Some st, rm_routes := rs_routes st, rm_order := rs_next_order st,
         rm_cache := rs_chain_cache st\<rparr>"

definition ir_snapshot :: "route_manager \<Rightarrow> pyval list \<times> route_manager" where
  "ir_snapshot mgr =
     (let st = ensure_interceptor_route_state mgr
      in (rs_snapshot st, sync_legacy_fields mgr st))"

definition ir_invalidate :: "route_manager \<Rightarrow> route_manager" where
  "ir_invalidate mgr =
     (let st = rs_invalidate (ensure_interceptor_route_state mgr) in sync_legacy_fields mgr st)"

definition ir_drop_process :: "string \<Rightarrow> route_manager \<Rightarrow> bool \<times> route_manager" where
  "ir_drop_process pid mgr =
     (let (changed, st) = rs_drop_process pid (ensure_interceptor_route_state mgr)
      in (changed, sync_legacy_fields mgr st))"

text \<open>When \<open>register\<close> raises, the registry keeps what was done but the legacy fields are not synced.\<close>

definition ir_register ::
  "py_lang \<Rightarrow> string \<Rightarrow> pyval \<Rightarrow> bool \<Rightarrow> route_manager \<Rightarrow> (pyexc + route list) \<times> route_manager" where
  "ir_register L pid routes_raw replace mgr =
     (let st = (ensure_interceptor_route_state mgr)\<lparr>rs_max_cache := rm_cache_max mgr\<rparr>
      in case rs_register L pid routes_raw replace st of
           (Inl e, st') \<Rightarrow> (Inl e, mgr\<lparr>rm_state := Some st'\<rparr>)
         | (Inr added, st') \<Rightarrow> (Inr added, sync_legacy_fields mgr st'))"

definition ir_chain :: "string \<Rightarrow> string \<Rightarrow> route_manager \<Rightarrow> route list \<times> route_manager" where
  "ir_chain device_id action mgr =
     (let st = (ensure_interceptor_route_state mgr)\<lparr>rs_max_cache := rm_cache_max mgr\<rparr>;
          (ordered, st') = rs_chain device_id action st
      in (ordered, sync_legacy_fields mgr st'))"

text \<open>The events carry the wall and monotonic clocks, \<open>ts\<close>.\<close>

definition publish_interceptor_routes_update ::
  "pyval \<Rightarrow> string \<Rightarrow> pyval list \<Rightarrow> bool \<Rightarrow> route_manager \<Rightarrow> route_manager" where
  "publish_interceptor_routes_update ts pid routes replace mgr =
     mgr\<lparr>rm_events := rm_events mgr @
       [(''manager.command_interceptor.routes_updated'',
         PDict [(''process_id'', PStr pid), (''routes'', PList routes), (''replace'', PBool replace),
                (''ts'', ts)])]\<rparr>"

definition drop_command_interceptor_routes :: "pyval \<Rightarrow> string \<Rightarrow> route_manager \<Rightarrow> route_manager" where
  "drop_command_interceptor_routes ts pid mgr =
     (let (changed, mgr') = ir_drop_process pid mgr
      in if changed then publish_interceptor_routes_update ts pid [] True mgr' else mgr')"

definition register_command_interceptor_routes ::
  "py_lang \<Rightarrow> pyval \<Rightarrow> string \<Rightarrow> pyval \<Rightarrow> bool \<Rightarrow> route_manager \<Rightarrow> (pyexc + pyval list) \<times> route_manager" where
  "register_command_interceptor_routes L ts pid routes_raw replace mgr =
     (if pid \<notin> set (rm_processes mgr)
      then (Inl (KeyError (repr_str (''Unknown process_id '' @ repr_str pid))), mgr)
      else case ir_register L pid routes_raw replace mgr of
        (Inl e, mgr') \<Rightarrow> (Inl e, mgr')
      | (Inr added, mgr') \<Rightarrow>
          let routes = map route_json added
          in (Inr routes, publish_interceptor_routes_update ts pid routes replace mgr'))"

definition unregister_command_interceptor_routes :: "pyval \<Rightarrow> string \<Rightarrow> route_manager \<Rightarrow> bool \<times> route_manager" where
  "unregister_command_interceptor_routes ts pid mgr =
     (let (removed, mgr1) = ir_drop_process pid mgr;
          (routes, mgr2) = ir_snapshot mgr1
      in (removed,
          mgr2\<lparr>rm_events := rm_events mgr2 @
            [(''manager.command_interceptor.routes_unregistered'',
              PDict [(''process_id'', PStr pid), (''removed'', PBool removed), (''routes'', PList routes),
                     (''ts'', ts)])]\<rparr>))"

text \<open>\<open>_reply(code, message=...)\<close>\<close>

definition reply_error :: "string \<Rightarrow> string \<Rightarrow> pyval" where
  "reply_error code message =
     PDict [(''ok'', PBool False), (''error'', PDict [(''code'', PStr code), (''message'', PStr message)])]"

definition route_command_interceptor_register ::
  "py_lang \<Rightarrow> pyval \<Rightarrow> items \<Rightarrow> route_manager \<Rightarrow> pyval \<times> route_manager" where
  "route_command_interceptor_register L ts req mgr =
     (let pid = py_str L (dget req ''process_id'' (PStr ''''));
          routes_raw = dget req ''routes'' (PList []);
          replace = truthy (dget req ''replace'' (PBool False))
      in if pid = [] then (reply_error ''invalid_register'' ''missing process_id'', mgr)
         else case register_command_interceptor_routes L ts pid routes_raw replace mgr of
           (Inl e, mgr') \<Rightarrow> (reply_error ''register_failed'' (exc_text e), mgr')
         | (Inr routes, mgr') \<Rightarrow>
             (PDict [(''ok'', PBool True), (''result'', PDict [(''routes'', PList routes)])], mgr'))"

definition route_command_interceptor_unregister ::
  "py_lang \<Rightarrow> pyval \<Rightarrow> items \<Rightarrow> route_manager \<Rightarrow> pyval \<times> route_manager" where
  "route_command_interceptor_unregister L ts req mgr =
     (let pid = py_strip (py_str L (dget req ''process_id'' (PStr '''')))
      in if pid = [] then (reply_error ''invalid_unregister'' ''missing process_id'', mgr)
         else let (removed, mgr') = unregister_command_interceptor_routes ts pid mgr
              in (PDict [(''ok'', PBool True),
                         (''result'', PDict [(''process_id'', PStr pid), (''removed'', PBool removed)])], mgr'))"

definition route_command_interceptor_list :: "route_manager \<Rightarrow> pyval \<times> route_manager" where
  "route_command_interceptor_list mgr =
     (let (routes, mgr') = ir_snapshot mgr
      in (PDict [(''ok'', PBool True), (''result'', PDict [(''routes'', PList routes)])], mgr'))"

end
