(* ===== verification/Command_Interceptors.thy ===== *)
theory Command_Interceptors
  imports Interceptor_Routes
begin

text \<open>
  Applying the interceptors of a command, \<open>utils/command_interceptors.py\<close>, and the manager's
  entry point \<open>apply_command_interceptors\<close> of \<open>_manager/route_handlers.py\<close>. Each route's
  process is asked in turn; it may let the command pass, change its parameters, or reject
  it. What is outside (whether a process is available, what it answers, the clock) is the
  record \<open>icpt_env\<close>, indexed by the position in the chain, so that every call may answer
  differently.
\<close>

section \<open>Errors and events\<close>

type_synonym event = "string \<times> pyval"

definition build_interceptor_error ::
  "string \<Rightarrow> string \<Rightarrow> string \<Rightarrow> string \<Rightarrow> string \<Rightarrow> pyval \<Rightarrow> pyval \<Rightarrow> pyval option \<Rightarrow> items" where
  "build_interceptor_error code message process_id device_id action interceptor_id rule details =
     [(''kind'', PStr ''command_interceptor''), (''code'', PStr code), (''message'', PStr message),
      (''process_id'', PStr process_id), (''device_id'', PStr device_id), (''action'', PStr action)]
     @ (if interceptor_id \<noteq> PNone then [(''interceptor_id'', interceptor_id)] else [])
     @ (if rule \<noteq> PNone then [(''rule'', rule)] else [])
     @ (case details of None \<Rightarrow> [] | Some d \<Rightarrow> [(''details'', d)])"

abbreviation plain_error :: "string \<Rightarrow> string \<Rightarrow> string \<Rightarrow> string \<Rightarrow> string \<Rightarrow> items" where
  "plain_error code message process_id device_id action \<equiv>
     build_interceptor_error code message process_id device_id action PNone PNone None"

abbreviation response_error :: "string \<Rightarrow> string \<Rightarrow> string \<Rightarrow> string \<Rightarrow> pyval \<Rightarrow> items" where
  "response_error message process_id device_id action response \<equiv>
     build_interceptor_error ''INTERCEPTOR_BAD_RESPONSE'' message process_id device_id action
       PNone PNone (Some (PDict [(''response'', response)]))"

text \<open>A route is the manager's record or a dictionary.\<close>

datatype any_route = RouteObj route | RouteDict items

definition route_process_id :: "py_lang \<Rightarrow> any_route \<Rightarrow> string" where
  "route_process_id L r =
     (case r of
        RouteDict d \<Rightarrow> py_strip (py_str L (py_or (jget d ''process_id'') (PStr '''')))
      | RouteObj o' \<Rightarrow> py_strip (rt_process_id o'))"

definition emit_interceptor_error :: "items \<Rightarrow> items \<Rightarrow> event" where
  "emit_interceptor_error err command =
     (''manager.command_interceptor.error'', PDict [(''error'', PDict err), (''command'', PDict command)])"

section \<open>One interceptor\<close>

type_synonym call_result = "string \<times> pyval \<times> string option"

record icpt_env =
  ie_available :: "string \<Rightarrow> bool"
  ie_call :: "string \<Rightarrow> pyval \<Rightarrow> call_result"
  ie_t_mono :: pyfloat

definition validate_route_availability :: "string \<Rightarrow> bool \<Rightarrow> string \<Rightarrow> string \<Rightarrow> items option" where
  "validate_route_availability process_id available device_id action =
     (if process_id = []
      then Some (plain_error ''INTERCEPTOR_BAD_ROUTE''
             (''Interceptor route missing process_id for '' @ device_id @ ''.'' @ action)
             process_id device_id action)
      else if available then None
      else Some (plain_error ''INTERCEPTOR_UNAVAILABLE''
             (''Interceptor '' @ repr_str process_id @ '' unavailable for '' @ device_id @ ''.'' @ action)
             process_id device_id action))"

definition build_call_error ::
  "string \<Rightarrow> string \<Rightarrow> string option \<Rightarrow> string \<Rightarrow> string \<Rightarrow> items option" where
  "build_call_error process_id status_text call_error device_id action =
     (if status_text = ''ok'' then None
      else if status_text = ''timeout'' then
        Some (plain_error ''INTERCEPTOR_TIMEOUT''
          (''Interceptor '' @ repr_str process_id @ '' timed out for '' @ device_id @ ''.'' @ action)
          process_id device_id action)
      else
        let message = (case call_error of
              Some (c # cs) \<Rightarrow> ''Interceptor '' @ repr_str process_id @ '' failed for '' @ device_id
                  @ ''.'' @ action @ '': '' @ (c # cs)
            | _ \<Rightarrow> ''Interceptor '' @ repr_str process_id @ '' unavailable for '' @ device_id
                  @ ''.'' @ action)
        in Some (plain_error ''INTERCEPTOR_UNAVAILABLE'' message process_id device_id action))"

definition validate_interceptor_response ::
  "string \<Rightarrow> pyval \<Rightarrow> bool \<Rightarrow> string \<Rightarrow> string \<Rightarrow> items + items" where
  "validate_interceptor_response process_id response distinct_msg device_id action =
     (case as_dict response of
        None \<Rightarrow> Inl (response_error
            (''Interceptor '' @ repr_str process_id @ '' returned invalid response'')
            process_id device_id action response)
      | Some d \<Rightarrow>
          if jget d ''ok'' = PBool False
          then Inl (response_error
            (''Interceptor '' @ repr_str process_id @
              (if distinct_msg then '' returned error response'' else '' returned invalid response''))
            process_id device_id action response)
          else Inr d)"

text \<open>The command after an allowing answer, with the event if it was changed, or the error.\<close>

definition apply_allow_response ::
  "py_lang \<Rightarrow> string \<Rightarrow> items \<Rightarrow> items \<Rightarrow> string \<Rightarrow> string \<Rightarrow> items + items \<times> pyval option" where
  "apply_allow_response L process_id response current device_id action =
     (if \<not> dhas response ''command'' then Inr (current, None)
      else case as_dict (jget response ''command'') of
        None \<Rightarrow> Inl (plain_error ''INTERCEPTOR_BAD_RESPONSE''
            (''Interceptor '' @ repr_str process_id @ '' returned invalid command'')
            process_id device_id action)
      | Some raw \<Rightarrow>
          if py_str L (dget raw ''device_id'' (PStr device_id)) \<noteq> device_id
             \<or> py_str L (dget raw ''action'' (PStr action)) \<noteq> action
          then Inl (plain_error ''INTERCEPTOR_BAD_RESPONSE''
            (''Interceptor '' @ repr_str process_id @ '' attempted to change route'')
            process_id device_id action)
          else
          let new_params = (if dhas raw ''params'' then jget raw ''params'' else jget current ''params'')
          in if \<not> is_dict new_params
             then Inl (plain_error ''INTERCEPTOR_BAD_RESPONSE''
               (''Interceptor '' @ repr_str process_id @ '' returned invalid params'')
               process_id device_id action)
             else
             let new_cmd = [(''device_id'', PStr device_id), (''action'', PStr action),
                            (''params'', new_params)]
             in if py_eq (PDict new_cmd) (PDict current) then Inr (new_cmd, None)
                else Inr (new_cmd, Some (PDict
                  [(''process_id'', PStr process_id), (''interceptor_id'', jget response ''interceptor_id''),
                   (''rule'', jget response ''rule''), (''note'', jget response ''note''),
                   (''before'', PDict current), (''after'', PDict new_cmd)])))"

definition build_reject_error ::
  "py_lang \<Rightarrow> string \<Rightarrow> items \<Rightarrow> string \<Rightarrow> string \<Rightarrow> pyexc + items" where
  "build_reject_error L process_id response device_id action =
     res_bind (need_get (py_or (jget response ''error'') (PDict []))) (\<lambda>inner.
       let inner_code = py_str L (dget inner ''code'' (PStr ''CONDITION_FAILED''));
           inner_msg = py_str L (dget inner ''message'' (PStr ''Command rejected by interceptor''))
       in Inr (build_interceptor_error ''INTERCEPTOR_REJECTED'' inner_msg process_id device_id action
            (jget response ''interceptor_id'') (jget response ''rule'')
            (Some (PDict [(''code'', PStr inner_code), (''message'', PStr inner_msg),
                          (''details'', dget inner ''details'' (PDict []))]))))"

definition build_interceptor_request :: "pyfloat \<Rightarrow> items \<Rightarrow> pyval \<Rightarrow> pyval \<Rightarrow> pyval" where
  "build_interceptor_request t_mono current request_id caller =
     PDict [(''type'', PStr ''command_interceptor.check''), (''command'', PDict current),
       (''meta'', PDict ([(''request_id'', request_id), (''t_mono'', PFloat t_mono)]
          @ (if truthy caller then [(''caller_process_id'', caller)] else [])))]"

definition call_interceptor_checked ::
  "string \<Rightarrow> call_result \<Rightarrow> bool \<Rightarrow> string \<Rightarrow> string \<Rightarrow> items + items" where
  "call_interceptor_checked process_id result distinct_msg device_id action =
     (case result of (status, resp_raw, call_error) \<Rightarrow>
      let status_text = py_lower (py_strip status) in
      case build_call_error process_id status_text call_error device_id action of
        Some e \<Rightarrow> Inl e
      | None \<Rightarrow> validate_interceptor_response process_id resp_raw distinct_msg device_id action)"

text \<open>
  The outcome of one interceptor: the command to go on with, or the error; and the events
  published. An answer the code cannot handle raises.
\<close>

type_synonym decision = "(pyexc + (items + items)) \<times> event list"

definition apply_interceptor_decision ::
  "py_lang \<Rightarrow> string \<Rightarrow> items \<Rightarrow> items \<Rightarrow> string \<Rightarrow> string \<Rightarrow> decision" where
  "apply_interceptor_decision L process_id response current device_id action =
     (let allow = jget response ''allow'' in
      if allow = PBool True then
        (case apply_allow_response L process_id response current device_id action of
           Inl e \<Rightarrow> (Inr (Inl e), [])
         | Inr (new_cmd, None) \<Rightarrow> (Inr (Inr new_cmd), [])
         | Inr (new_cmd, Some ev) \<Rightarrow>
             (Inr (Inr new_cmd), [(''manager.command_interceptor.modified'', ev)]))
      else if allow = PBool False then
        (case build_reject_error L process_id response device_id action of
           Inl exc \<Rightarrow> (Inl exc, [])
         | Inr e \<Rightarrow> (Inr (Inl e), []))
      else (Inr (Inl (response_error
              (''Interceptor '' @ repr_str process_id @ '' returned invalid response'')
              process_id device_id action (PDict response))), []))"

definition apply_interceptor_step ::
  "py_lang \<Rightarrow> icpt_env \<Rightarrow> bool \<Rightarrow> pyval \<Rightarrow> pyval \<Rightarrow> string \<Rightarrow> string \<Rightarrow> any_route \<Rightarrow> items \<Rightarrow> decision" where
  "apply_interceptor_step L env distinct_msg request_id caller device_id action rt current =
     (let process_id = route_process_id L rt in
      case validate_route_availability process_id (ie_available env process_id) device_id action of
        Some e \<Rightarrow> (Inr (Inl e), [emit_interceptor_error e current])
      | None \<Rightarrow>
          let req = build_interceptor_request (ie_t_mono env) current request_id caller in
          case call_interceptor_checked process_id (ie_call env process_id req) distinct_msg
                 device_id action of
            Inl e \<Rightarrow> (Inr (Inl e), [emit_interceptor_error e current])
          | Inr resp \<Rightarrow>
              (case apply_interceptor_decision L process_id resp current device_id action of
                 (Inl exc, evs) \<Rightarrow> (Inl exc, evs)
               | (Inr (Inl e), evs) \<Rightarrow> (Inr (Inl e), evs @ [emit_interceptor_error e current])
               | (Inr (Inr cmd), evs) \<Rightarrow> (Inr (Inr cmd), evs)))"

section \<open>The chain\<close>

fun chain_loop ::
  "py_lang \<Rightarrow> (nat \<Rightarrow> icpt_env) \<Rightarrow> bool \<Rightarrow> pyval \<Rightarrow> pyval \<Rightarrow> string \<Rightarrow> string \<Rightarrow> nat \<Rightarrow> any_route list
    \<Rightarrow> items \<Rightarrow> decision" where
  "chain_loop L env distinct_msg request_id caller device_id action i [] cur = (Inr (Inr cur), [])"
| "chain_loop L env distinct_msg request_id caller device_id action i (r # rs) cur =
     (case apply_interceptor_step L (env i) distinct_msg request_id caller device_id action r cur of
        (Inl exc, evs) \<Rightarrow> (Inl exc, evs)
      | (Inr (Inl e), evs) \<Rightarrow> (Inr (Inl e), evs)
      | (Inr (Inr nxt), evs) \<Rightarrow>
          (case chain_loop L env distinct_msg request_id caller device_id action (Suc i) rs nxt of
             (res, evs') \<Rightarrow> (res, evs @ evs')))"

definition apply_command_interceptor_chain ::
  "py_lang \<Rightarrow> (nat \<Rightarrow> icpt_env) \<Rightarrow> bool \<Rightarrow> pyval \<Rightarrow> pyval \<Rightarrow> any_route list \<Rightarrow> items \<Rightarrow> decision" where
  "apply_command_interceptor_chain L env distinct_msg request_id caller chain initial =
     (let device_id = py_str L (dget initial ''device_id'' (PStr ''''));
          action = py_str L (dget initial ''action'' (PStr ''''));
          cur = [(''device_id'', PStr device_id), (''action'', PStr action),
                 (''params'', dget initial ''params'' (PDict []))]
      in if chain = [] then (Inr (Inr cur), [])
         else chain_loop L env distinct_msg request_id caller device_id action 0 chain cur)"

text \<open>
  The manager's entry point: the chain comes from the registry, a process is available when
  it is known, in a running state and has an RPC endpoint, and a call that fails is mapped
  to a status.
\<close>

datatype rpc_outcome = RpcReply pyval | RpcAgain | RpcRaised string

record process_view =
  pv_running :: bool
  pv_has_endpoint :: bool

definition is_route_available :: "(string \<rightharpoonup> process_view) \<Rightarrow> string \<Rightarrow> bool" where
  "is_route_available procs process_id =
     (case procs process_id of
        None \<Rightarrow> False
      | Some pv \<Rightarrow> if \<not> pv_running pv then False else pv_has_endpoint pv)"

fun call_process :: "rpc_outcome \<Rightarrow> call_result" where
  "call_process (RpcReply resp) = (''ok'', resp, None)"
| "call_process RpcAgain = (''timeout'', PNone, None)"
| "call_process (RpcRaised msg) = (''unavailable'', PNone, Some msg)"

record manager_env =
  me_procs :: "string \<rightharpoonup> process_view"
  me_rpc :: "string \<Rightarrow> pyval \<Rightarrow> rpc_outcome"
  me_t_mono :: pyfloat

definition manager_icpt_env :: "manager_env \<Rightarrow> icpt_env" where
  "manager_icpt_env me =
     \<lparr>ie_available = is_route_available (me_procs me),
      ie_call = (\<lambda>pid req. call_process (me_rpc me pid req)), ie_t_mono = me_t_mono me\<rparr>"

definition apply_command_interceptors ::
  "py_lang \<Rightarrow> (nat \<Rightarrow> manager_env) \<Rightarrow> pyval \<Rightarrow> pyval \<Rightarrow> items \<Rightarrow> route_manager \<Rightarrow> decision \<times> route_manager" where
  "apply_command_interceptors L me request_id caller cmd mgr =
     (let device_id = py_str L (dget cmd ''device_id'' (PStr ''''));
          action = py_str L (dget cmd ''action'' (PStr ''''));
          (chain, mgr') = ir_chain device_id action mgr
      in case apply_command_interceptor_chain L (\<lambda>i. manager_icpt_env (me i)) True request_id caller
               (map RouteObj chain)
               [(''device_id'', PStr device_id), (''action'', PStr action),
                (''params'', dget cmd ''params'' (PDict []))] of
           (res, evs) \<Rightarrow> ((res, evs), mgr'\<lparr>rm_events := rm_events mgr' @ evs\<rparr>))"

end
