(* ===== verification/Interceptor_Routes_Proofs.thy ===== *)
theory Interceptor_Routes_Proofs
  imports Interceptor_Routes
begin

text \<open>
  Correctness of the interceptor registry: the cached chain of a command is the chain its
  routes define, that chain asks each interested process once and in registration order,
  and the cache stays within its bound.
\<close>

declare evict.simps [simp del]

section \<open>The chain a set of routes defines\<close>

definition route_chain :: "route list \<Rightarrow> string \<Rightarrow> string \<Rightarrow> route list" where
  "route_chain routes device_id action =
     first_per_process
       (sort_key rt_order (filter (\<lambda>r. match_command_interceptor_route r device_id action) routes)) []"

lemma first_per_process_props:
  "r \<in> set (first_per_process rs seen) \<Longrightarrow> r \<in> set rs"
  "rt_process_id ` set (first_per_process rs seen) = rt_process_id ` set rs - set seen"
  "distinct (map rt_process_id (first_per_process rs seen))"
  by (induction rs arbitrary: seen) (auto split: if_splits)

lemma first_per_process_least:
  "sorted (map rt_order rs) \<Longrightarrow> r \<in> set (first_per_process rs seen) \<Longrightarrow> r' \<in> set rs
    \<Longrightarrow> rt_process_id r' = rt_process_id r \<Longrightarrow> rt_order r \<le> rt_order r'"
proof (induction rs arbitrary: seen)
  case (Cons x xs)
  have "r \<in> set (x # xs)" using first_per_process_props(1) [OF Cons.prems(2)] .
  then have lo: "rt_order x \<le> rt_order r" using Cons.prems(1) by auto
  show ?case
  proof (cases "rt_process_id x \<in> set seen")
    case True
    have "rt_process_id r \<notin> set seen"
      using Cons.prems(2) first_per_process_props(2) [of "x # xs" seen] by blast
    then have "r' \<in> set xs" using Cons.prems(3,4) True by auto
    then show ?thesis using Cons True by auto
  next
    case False
    show ?thesis
    proof (cases "r = x")
      case True
      then show ?thesis using Cons.prems(1,3) by auto
    next
      case rx: False
      then have r: "r \<in> set (first_per_process xs (rt_process_id x # seen))"
        using Cons.prems(2) False by simp
      then have "rt_process_id r \<noteq> rt_process_id x"
        using first_per_process_props(2) [of xs "rt_process_id x # seen"] by auto
      then have "r' \<in> set xs" using Cons.prems(3,4) by auto
      with Cons.IH [OF _ r] Cons.prems show ?thesis by simp
    qed
  qed
qed simp

lemma first_per_process_sorted:
  "sorted (map rt_order rs) \<Longrightarrow> sorted (map rt_order (first_per_process rs seen))"
proof (induction rs arbitrary: seen)
  case (Cons x xs)
  have "\<forall>y\<in>set (first_per_process xs (rt_process_id x # seen)). rt_order x \<le> rt_order y"
    using Cons.prems first_per_process_props(1) by fastforce
  with Cons show ?case by simp
qed simp

section \<open>Invariants\<close>

definition cache_coherent :: "route_state \<Rightarrow> bool" where
  "cache_coherent st \<longleftrightarrow>
     list_all (\<lambda>((d, a), chain). chain = route_chain (rs_routes st) d a) (rs_chain_cache st)"

definition orders_ok :: "route_state \<Rightarrow> bool" where
  "orders_ok st \<longleftrightarrow>
     sorted_wrt (<) (map rt_order (rs_routes st)) \<and>
     list_all (\<lambda>r. rt_order r \<le> rs_next_order st) (rs_routes st)"

definition routes_inv :: "route_state \<Rightarrow> bool" where
  "routes_inv st \<longleftrightarrow> cache_coherent st \<and> orders_ok st"

lemma routes_inv_invalidate: "orders_ok st \<Longrightarrow> routes_inv (rs_invalidate st)"
  by (simp add: routes_inv_def rs_invalidate_def cache_coherent_def orders_ok_def)

lemma orders_ok_drop: "orders_ok st \<Longrightarrow> orders_ok (snd (rs_drop_process pid st))"
  by (auto simp: orders_ok_def rs_drop_process_def rs_invalidate_def Let_def list_all_iff
      sorted_wrt_map intro: sorted_wrt_filter)

lemma drop_same: "length (filter P xs) = length xs \<Longrightarrow> filter P xs = xs"
  by (metis filter_True length_filter_less less_irrefl)

lemma routes_inv_drop:
  assumes "routes_inv st"
  shows "routes_inv (snd (rs_drop_process pid st))"
proof (cases "length (filter (\<lambda>r. rt_process_id r \<noteq> pid) (rs_routes st)) = length (rs_routes st)")
  case True
  then have "snd (rs_drop_process pid st) = st"
    using drop_same [OF True] by (simp add: rs_drop_process_def Let_def)
  then show ?thesis using assms by simp
next
  case False
  then have "snd (rs_drop_process pid st) =
      rs_invalidate (st\<lparr>rs_routes := filter (\<lambda>r. rt_process_id r \<noteq> pid) (rs_routes st)\<rparr>)"
    by (simp add: rs_drop_process_def Let_def)
  moreover have "orders_ok (st\<lparr>rs_routes := filter (\<lambda>r. rt_process_id r \<noteq> pid) (rs_routes st)\<rparr>)"
    using assms by (auto simp: routes_inv_def orders_ok_def list_all_iff sorted_wrt_map intro: sorted_wrt_filter)
  ultimately show ?thesis using routes_inv_invalidate by simp
qed

lemma orders_ok_append:
  assumes "orders_ok st" "rt_order e = rs_next_order st + 1"
  shows "orders_ok (st\<lparr>rs_next_order := rs_next_order st + 1, rs_routes := rs_routes st @ [e]\<rparr>)"
  using assms by (fastforce simp: orders_ok_def list_all_iff sorted_wrt_append)

lemma orders_ok_register_loop:
  "orders_ok st \<Longrightarrow> orders_ok (snd (register_loop L pid raws seen added st))"
  by (induction L pid raws seen added st rule: register_loop.induct)
    (auto simp: Let_def orders_ok_append split: option.split)

lemma routes_inv_register:
  assumes "orders_ok st" "fst (rs_register L pid raw replace st) = Inr added"
  shows "routes_inv (snd (rs_register L pid raw replace st))"
proof -
  define st1 where "st1 = (if replace then snd (rs_drop_process pid st) else st)"
  have "orders_ok st1" using assms(1) by (simp add: st1_def orders_ok_drop)
  moreover obtain raws where "raw = PList raws" using assms(2) by (cases raw) (auto simp: rs_register_def)
  ultimately show ?thesis
    using assms(2) orders_ok_register_loop [of st1 L pid raws "[]" "[]"]
    by (cases "register_loop L pid raws [] [] st1")
      (auto simp: rs_register_def st1_def [symmetric] intro!: routes_inv_invalidate split: sum.splits)
qed

section \<open>The cache\<close>

lemma evict_drop: "evict n xs = drop (length xs - n) xs"
proof (induction n xs rule: evict.induct)
  case (1 n xs)
  show ?case
  proof (cases "n < length xs")
    case True
    then have "length xs - n = Suc (length (tl xs) - n)" by simp
    with 1 True show ?thesis by (subst evict.simps) (simp add: drop_Suc)
  next
    case False
    then show ?thesis by (subst evict.simps) simp
  qed
qed

lemma in_updateD: "x \<in> set (AList.update k v xs) \<Longrightarrow> x = (k, v) \<or> x \<in> set xs"
  by (induction xs) (auto split: if_splits)

lemma in_deleteD: "x \<in> set (AList.delete k xs) \<Longrightarrow> x \<in> set xs"
  by (auto simp: AList.delete_eq)

lemma rs_chain_value:
  assumes "cache_coherent st"
  shows "fst (rs_chain d a st) = route_chain (rs_routes st) d a"
  using assms
  by (auto simp: rs_chain_def Let_def route_chain_def cache_coherent_def list_all_iff
      dest: map_of_SomeD split: option.split)

lemma rs_chain_cache_entries:
  "e \<in> set (rs_chain_cache (snd (rs_chain d a st))) \<Longrightarrow>
     e = ((d, a), fst (rs_chain d a st)) \<or> e \<in> set (rs_chain_cache st)"
  by (auto simp: rs_chain_def Let_def evict_drop dest!: in_set_dropD dest: in_updateD in_deleteD
      split: option.splits)

lemma rs_chain_routes:
  "rs_routes (snd (rs_chain d a st)) = rs_routes st"
  "rs_next_order (snd (rs_chain d a st)) = rs_next_order st"
  "rs_max_cache (snd (rs_chain d a st)) = rs_max_cache st"
  by (simp_all add: rs_chain_def Let_def split: option.split)

lemma routes_inv_chain:
  assumes "routes_inv st"
  shows "routes_inv (snd (rs_chain d a st))"
proof -
  have "cache_coherent st" "orders_ok st" using assms by (auto simp: routes_inv_def)
  moreover have "case e of ((d', a'), chain) \<Rightarrow> chain = route_chain (rs_routes st) d' a'"
    if "e \<in> set (rs_chain_cache (snd (rs_chain d a st)))" for e
    using rs_chain_cache_entries [OF that] rs_chain_value [OF \<open>cache_coherent st\<close>, of d a] \<open>cache_coherent st\<close>
    by (auto simp: cache_coherent_def list_all_iff)
  ultimately show ?thesis
    by (auto simp: routes_inv_def cache_coherent_def orders_ok_def list_all_iff rs_chain_routes)
qed

definition cache_bounded :: "route_state \<Rightarrow> bool" where
  "cache_bounded st \<longleftrightarrow> int (length (rs_chain_cache st)) \<le> max 32 (rs_max_cache st)"

lemma length_delete: "distinct (map fst xs) \<Longrightarrow> k \<in> fst ` set xs \<Longrightarrow> length (AList.delete k xs) + 1 = length xs"
proof (induction xs)
  case (Cons x xs)
  show ?case
  proof (cases "fst x = k")
    case True
    then have "k \<notin> fst ` set xs" using Cons.prems(1) by auto
    then have "AList.delete k xs = xs" by simp
    then show ?thesis using True by (cases x) simp
  next
    case False
    then show ?thesis using Cons by (cases x) auto
  qed
qed simp

lemma update_new: "k \<notin> fst ` set xs \<Longrightarrow> AList.update k v xs = xs @ [(k, v)]"
  by (induction xs) auto

lemma cache_bounded_chain:
  assumes "cache_bounded st" "distinct (map fst (rs_chain_cache st))"
  shows "cache_bounded (snd (rs_chain d a st))" "distinct (map fst (rs_chain_cache (snd (rs_chain d a st))))"
proof -
  let ?c = "rs_chain_cache st" and ?k = "(d, a)"
  have del: "?k \<notin> fst ` set (AList.delete ?k ?c)" by (auto simp: AList.delete_eq)
  have hit: "length (dset ?k v (dpop ?k ?c)) = length ?c" if "map_of ?c ?k = Some v" for v
  proof -
    have "?k \<in> fst ` set ?c" using map_of_SomeD [OF that] by force
    then show ?thesis using length_delete [OF assms(2)] update_new [OF del] by simp
  qed
  show "cache_bounded (snd (rs_chain d a st))"
    using assms(1) hit by (auto simp: cache_bounded_def rs_chain_def Let_def evict_drop split: option.split)
  show "distinct (map fst (rs_chain_cache (snd (rs_chain d a st))))"
    using assms(2)
    by (auto simp: rs_chain_def Let_def evict_drop drop_map [symmetric] split: option.split
        intro!: distinct_drop distinct_update distinct_delete)
qed

section \<open>Histories of the registry\<close>

text \<open>
  Every state the operations of the registry reach, registrations that raise half way included.
  The flag says whether the cache can be trusted: since it was last empty the routes have not
  changed.
\<close>

datatype route_op =
    DropProcess string
  | Invalidate
  | Register py_lang string pyval bool
  | Chain string string

fun route_op_state :: "route_op \<Rightarrow> route_state \<Rightarrow> route_state" where
  "route_op_state (DropProcess pid) st = snd (rs_drop_process pid st)"
| "route_op_state Invalidate st = rs_invalidate st"
| "route_op_state (Register L pid raw replace) st = snd (rs_register L pid raw replace st)"
| "route_op_state (Chain d a) st = snd (rs_chain d a st)"

inductive routes_reach :: "bool \<Rightarrow> route_state \<Rightarrow> bool" where
  start: "routes_reach True \<lparr>rs_routes = [], rs_chain_cache = [], rs_next_order = 0, rs_generation = 0, rs_max_cache = m\<rparr>"
| op: "routes_reach ok st \<Longrightarrow>
    routes_reach (rs_chain_cache (route_op_state x st) = [] \<or> ok \<and> rs_routes (route_op_state x st) = rs_routes st) (route_op_state x st)"

inductive_cases routes_reachE: "routes_reach ok st"

lemma rs_drop_cache:
  "rs_chain_cache (snd (rs_drop_process pid st)) = rs_chain_cache st
   \<or> rs_chain_cache (snd (rs_drop_process pid st)) = []"
  "rs_max_cache (snd (rs_drop_process pid st)) = rs_max_cache st"
  by (auto simp: rs_drop_process_def rs_invalidate_def Let_def)

lemma register_loop_cache [simp]:
  "rs_chain_cache (snd (register_loop L pid raws seen added st)) = rs_chain_cache st"
  "rs_max_cache (snd (register_loop L pid raws seen added st)) = rs_max_cache st"
  by (induction L pid raws seen added st rule: register_loop.induct) (auto simp: Let_def split: option.split)

lemma rs_register_cases:
  obtains "snd (rs_register L pid raw replace st) = st"
  | raws where "snd (rs_register L pid raw replace st) \<in>
      (let st2 = snd (register_loop L pid raws [] [] (if replace then snd (rs_drop_process pid st) else st)) in {st2, rs_invalidate st2})"
proof (cases raw)
  case (PList raws)
  then have "snd (rs_register L pid raw replace st) \<in>
      (let st2 = snd (register_loop L pid raws [] [] (if replace then snd (rs_drop_process pid st) else st)) in {st2, rs_invalidate st2})"
    by (simp add: rs_register_def Let_def split: prod.split sum.split)
  then show thesis by (rule that(2))
qed (rule that(1), simp add: rs_register_def)+

lemma rs_register_cache:
  "rs_chain_cache (snd (rs_register L pid raw replace st)) \<in> {rs_chain_cache st, []} \<and> rs_max_cache (snd (rs_register L pid raw replace st)) = rs_max_cache st"
  using rs_drop_cache [where pid = pid and st = st]
  by (cases rule: rs_register_cases [of L pid raw replace st]) (auto simp: Let_def rs_invalidate_def)

lemma orders_ok_register:
  assumes "orders_ok st"
  shows "orders_ok (snd (rs_register L pid raw replace st))"
proof (rule rs_register_cases [of L pid raw replace st])
  fix raws
  let ?st2 = "snd (register_loop L pid raws [] [] (if replace then snd (rs_drop_process pid st) else st))"
  assume "snd (rs_register L pid raw replace st) \<in> (let st2 = ?st2 in {st2, rs_invalidate st2})"
  moreover have "orders_ok ?st2" using assms by (intro orders_ok_register_loop) (simp add: orders_ok_drop)
  ultimately show ?thesis by (auto simp: Let_def orders_ok_def rs_invalidate_def)
qed (use assms in simp)

lemma route_op_keeps:
  assumes "orders_ok st" "cache_bounded st" "distinct (map fst (rs_chain_cache st))"
  shows "orders_ok (route_op_state x st)" "cache_bounded (route_op_state x st)"
    "distinct (map fst (rs_chain_cache (route_op_state x st)))"
proof -
  show "orders_ok (route_op_state x st)"
    using assms(1) orders_ok_drop [OF assms(1)] orders_ok_register [OF assms(1)]
    by (cases x) (simp_all add: orders_ok_def rs_invalidate_def rs_chain_routes)
  show "cache_bounded (route_op_state x st)"
  proof (cases x)
    case (DropProcess pid)
    then show ?thesis using assms(2) rs_drop_cache [where st = st and pid = pid] by (auto simp: cache_bounded_def)
  next
    case (Register L pid raw replace)
    then show ?thesis using assms(2) rs_register_cache [of L pid raw replace st] by (auto simp: cache_bounded_def)
  qed (use assms cache_bounded_chain(1) in \<open>simp_all add: cache_bounded_def rs_invalidate_def\<close>)
  show "distinct (map fst (rs_chain_cache (route_op_state x st)))"
  proof (cases x)
    case (DropProcess pid)
    then show ?thesis using assms(3) rs_drop_cache(1) [where st = st and pid = pid] by auto
  next
    case (Register L pid raw replace)
    then show ?thesis using assms(3) rs_register_cache [of L pid raw replace st] by auto
  qed (use assms cache_bounded_chain(2) in \<open>simp_all add: rs_invalidate_def\<close>)
qed

lemma route_op_coherent:
  assumes "cache_coherent st" "rs_routes (route_op_state x st) = rs_routes st" "orders_ok st"
  shows "cache_coherent (route_op_state x st)"
proof (cases x)
  case (DropProcess pid)
  then show ?thesis
    using assms(1,2) rs_drop_cache(1) [where pid = pid and st = st] by (auto simp: cache_coherent_def)
next
  case (Register L pid raw replace)
  then show ?thesis
    using assms(1,2) rs_register_cache [of L pid raw replace st]
    by (auto simp: cache_coherent_def)
next
  case (Chain d a)
  then show ?thesis using routes_inv_chain [of st d a] assms(1,3) by (simp add: routes_inv_def)
qed (simp add: cache_coherent_def rs_invalidate_def)

lemma routes_reach_inv:
  "routes_reach ok st \<Longrightarrow> (ok \<longrightarrow> cache_coherent st) \<and> orders_ok st \<and> cache_bounded st \<and> distinct (map fst (rs_chain_cache st))"
proof (induction rule: routes_reach.induct)
  case (start m)
  then show ?case by (simp add: cache_coherent_def orders_ok_def cache_bounded_def)
next
  case (op ok st x)
  then have "cache_coherent (route_op_state x st)"
    if "rs_chain_cache (route_op_state x st) = [] \<or> ok \<and> rs_routes (route_op_state x st) = rs_routes st"
    using that route_op_coherent by (auto simp: cache_coherent_def)
  with op route_op_keeps show ?case by blast
qed

lemma routes_reach_trusted: "routes_reach True st \<Longrightarrow> routes_inv st"
  using routes_reach_inv by (simp add: routes_inv_def)

lemma drop_unchanged:
  "rs_chain_cache (snd (rs_drop_process pid st)) = [] \<or> rs_routes (snd (rs_drop_process pid st)) = rs_routes st"
  using drop_same [of "\<lambda>r. rt_process_id r \<noteq> pid" "rs_routes st"] by (auto simp: rs_drop_process_def rs_invalidate_def Let_def)

lemma drop_nothing: "pid \<notin> rt_process_id ` set (rs_routes st) \<Longrightarrow> snd (rs_drop_process pid st) = st"
proof -
  assume "pid \<notin> rt_process_id ` set (rs_routes st)"
  then have "filter (\<lambda>r. rt_process_id r \<noteq> pid) (rs_routes st) = rs_routes st" by (auto simp: filter_id_conv)
  then show ?thesis by (simp add: rs_drop_process_def Let_def)
qed

text \<open>Only a registration that raises leaves a cache that cannot be trusted.\<close>

lemma trusted_unless_failed:
  assumes "\<nexists>L pid raw replace. x = Register L pid raw replace \<and> (\<exists>e. fst (rs_register L pid raw replace st) = Inl e)"
  shows "rs_chain_cache (route_op_state x st) = [] \<or> rs_routes (route_op_state x st) = rs_routes st"
proof (cases x)
  case (Register L pid raw replace)
  with assms obtain added where "fst (rs_register L pid raw replace st) = Inr added"
    by (cases "fst (rs_register L pid raw replace st)") auto
  then show ?thesis
    using Register by (auto simp: rs_register_def rs_invalidate_def Let_def split: pyval.splits prod.splits sum.splits)
qed (use drop_unchanged in \<open>auto simp: rs_invalidate_def rs_chain_routes\<close>)

text \<open>A chain is the one the routes define when the cache can be trusted or does not hold it.\<close>

lemma rs_chain_fresh:
  "map_of (rs_chain_cache st) (d, a) = None \<Longrightarrow> fst (rs_chain d a st) = route_chain (rs_routes st) d a"
  by (simp add: rs_chain_def Let_def route_chain_def)

lemma route_chain_props:
  "distinct (map rt_process_id (route_chain routes d a))"
  "rt_process_id ` set (route_chain routes d a) =
     rt_process_id ` {r \<in> set routes. match_command_interceptor_route r d a}"
  "sorted (map rt_order (route_chain routes d a))"
  "r \<in> set (route_chain routes d a) \<Longrightarrow> r \<in> set routes \<and> match_command_interceptor_route r d a"
  "r \<in> set (route_chain routes d a) \<Longrightarrow> r' \<in> set routes \<Longrightarrow> match_command_interceptor_route r' d a
    \<Longrightarrow> rt_process_id r' = rt_process_id r \<Longrightarrow> rt_order r \<le> rt_order r'"
proof -
  let ?m = "sort_key rt_order (filter (\<lambda>r. match_command_interceptor_route r d a) routes)"
  have s: "sorted (map rt_order ?m)" by simp
  show "distinct (map rt_process_id (route_chain routes d a))"
    by (simp add: route_chain_def first_per_process_props)
  show "rt_process_id ` set (route_chain routes d a) =
     rt_process_id ` {r \<in> set routes. match_command_interceptor_route r d a}"
    by (simp add: route_chain_def first_per_process_props(2))
  show "sorted (map rt_order (route_chain routes d a))"
    unfolding route_chain_def by (rule first_per_process_sorted [OF s])
  assume r: "r \<in> set (route_chain routes d a)"
  then show "r \<in> set routes \<and> match_command_interceptor_route r d a"
    unfolding route_chain_def using first_per_process_props(1) by fastforce
  assume "r' \<in> set routes" "match_command_interceptor_route r' d a" "rt_process_id r' = rt_process_id r"
  then show "rt_order r \<le> rt_order r'"
    using first_per_process_least [OF s, of r "[]" r'] r by (simp add: route_chain_def)
qed

end
