(* ===== verification/Command_Interceptors_Proofs.thy ===== *)
theory Command_Interceptors_Proofs
  imports Command_Interceptors Interceptor_Routes_Proofs
begin

text \<open>
  Correctness of the interceptor chain: a command goes through only when every interceptor
  with a matching route was available and allowed it, its target cannot be changed on the
  way, and the first refusal ends the chain with one error event.
\<close>

section \<open>One interceptor\<close>

definition command_target :: "string \<Rightarrow> string \<Rightarrow> items \<Rightarrow> bool" where
  "command_target device_id action cmd \<longleftrightarrow>
     jget cmd ''device_id'' = PStr device_id \<and> jget cmd ''action'' = PStr action"

text \<open>The process of a route was available, answered, and answered \<open>allow: true\<close>.\<close>

definition allowed_by :: "icpt_env \<Rightarrow> string \<Rightarrow> pyval \<Rightarrow> bool" where
  "allowed_by env process_id req \<longleftrightarrow>
     process_id \<noteq> [] \<and> ie_available env process_id \<and>
     (case ie_call env process_id req of
        (status, resp, _) \<Rightarrow>
          py_lower (py_strip status) = ''ok'' \<and>
          (case as_dict resp of
             None \<Rightarrow> False
           | Some d \<Rightarrow> jget d ''ok'' \<noteq> PBool False \<and> jget d ''allow'' = PBool True))"

lemma allow_response_target:
  "apply_allow_response L pid resp cur d a = Inr (cmd, ev) \<Longrightarrow> command_target d a cur
    \<Longrightarrow> command_target d a cmd"
  by (auto simp: apply_allow_response_def command_target_def Let_def split: if_splits option.splits)

lemma step_pass:
  assumes "apply_interceptor_step L env dm rid caller d a r cur = (Inr (Inr cmd), evs)"
  shows "allowed_by env (route_process_id L r) (build_interceptor_request (ie_t_mono env) cur rid caller)"
    and "command_target d a cur \<Longrightarrow> command_target d a cmd"
  using assms
  by (auto simp: apply_interceptor_step_def allowed_by_def validate_route_availability_def
      call_interceptor_checked_def build_call_error_def validate_interceptor_response_def
      apply_interceptor_decision_def build_reject_error_def Let_def dest: allow_response_target
      split: if_splits option.splits prod.splits sum.splits)

text \<open>Error events of the chain.\<close>

definition is_error_event :: "event \<Rightarrow> bool" where
  "is_error_event ev \<longleftrightarrow> fst ev = ''manager.command_interceptor.error''"

lemma is_error_event_emit [simp]: "is_error_event (emit_interceptor_error e cmd)"
  by (simp add: is_error_event_def emit_interceptor_error_def)

lemma decision_events:
  "apply_interceptor_decision L pid resp cur d a = (res, evs) \<Longrightarrow> list_all (\<lambda>e. \<not> is_error_event e) evs"
  by (auto simp: apply_interceptor_decision_def is_error_event_def Let_def
      split: if_splits sum.splits prod.splits option.splits)

lemma step_refuse:
  assumes "apply_interceptor_step L env dm rid caller d a r cur = (Inr (Inl e), evs)"
  shows "\<exists>evs'. evs = evs' @ [emit_interceptor_error e cur] \<and> list_all (\<lambda>e. \<not> is_error_event e) evs'"
  using assms
  by (auto simp: apply_interceptor_step_def Let_def dest!: decision_events
      split: option.splits sum.splits prod.splits)

lemma step_pass_events:
  assumes "apply_interceptor_step L env dm rid caller d a r cur = (Inr (Inr cmd), evs)"
  shows "list_all (\<lambda>e. \<not> is_error_event e) evs"
  using assms
  by (auto simp: apply_interceptor_step_def Let_def dest!: decision_events
      split: option.splits sum.splits prod.splits)

section \<open>The chain\<close>

lemma chain_cons_pass:
  "chain_loop L env dm rid caller d a k (r # rs) cur = (Inr (Inr cmd), evs) \<longleftrightarrow>
    (\<exists>nxt evs1 evs2. apply_interceptor_step L (env k) dm rid caller d a r cur = (Inr (Inr nxt), evs1)
       \<and> chain_loop L env dm rid caller d a (Suc k) rs nxt = (Inr (Inr cmd), evs2) \<and> evs = evs1 @ evs2)"
  by (auto split: prod.splits sum.splits)

lemma chain_cons_refuse:
  "chain_loop L env dm rid caller d a k (r # rs) cur = (Inr (Inl e), evs) \<longleftrightarrow>
    apply_interceptor_step L (env k) dm rid caller d a r cur = (Inr (Inl e), evs) \<or>
    (\<exists>nxt evs1 evs2. apply_interceptor_step L (env k) dm rid caller d a r cur = (Inr (Inr nxt), evs1)
       \<and> chain_loop L env dm rid caller d a (Suc k) rs nxt = (Inr (Inl e), evs2) \<and> evs = evs1 @ evs2)"
  by (auto split: prod.splits sum.splits)

lemma chain_pass_target:
  "chain_loop L env dm rid caller d a k rs cur = (Inr (Inr cmd), evs) \<Longrightarrow> command_target d a cur
    \<Longrightarrow> command_target d a cmd"
  by (induction rs arbitrary: k cur evs) (auto simp: chain_cons_pass simp del: chain_loop.simps(2) dest: step_pass)

lemma chain_pass_events:
  "chain_loop L env dm rid caller d a k rs cur = (Inr (Inr cmd), evs)
    \<Longrightarrow> list_all (\<lambda>e. \<not> is_error_event e) evs"
  by (induction rs arbitrary: k cur evs)
    (auto simp: chain_cons_pass simp del: chain_loop.simps(2) dest: step_pass_events)

lemma chain_pass_allowed:
  assumes "chain_loop L env dm rid caller d a k rs cur = (Inr (Inr cmd), evs)"
    and "command_target d a cur" "i < length rs"
  shows "\<exists>c. command_target d a c \<and> allowed_by (env (k + i)) (route_process_id L (rs ! i))
           (build_interceptor_request (ie_t_mono (env (k + i))) c rid caller)"
  using assms
proof (induction rs arbitrary: k cur evs i)
  case (Cons r rs)
  from Cons.prems(1) obtain nxt evs1 evs2 where
    st: "apply_interceptor_step L (env k) dm rid caller d a r cur = (Inr (Inr nxt), evs1)"
    and rest: "chain_loop L env dm rid caller d a (Suc k) rs nxt = (Inr (Inr cmd), evs2)"
    by (auto simp: chain_cons_pass simp del: chain_loop.simps(2))
  show ?case
  proof (cases i)
    case 0
    then show ?thesis using step_pass(1) [OF st] Cons.prems(2) by auto
  next
    case (Suc j)
    then show ?thesis
      using Cons.IH [OF rest step_pass(2) [OF st Cons.prems(2)], of j] Cons.prems(3) by simp
  qed
qed simp

text \<open>A refusal: one error event, published last, and nobody after the refusing process is asked.\<close>

lemma chain_refuse:
  assumes "chain_loop L env dm rid caller d a k rs cur = (Inr (Inl e), evs)"
  shows "\<exists>i cmd evs'. i < length rs
    \<and> evs = evs' @ [emit_interceptor_error e cmd] \<and> list_all (\<lambda>e. \<not> is_error_event e) evs'
    \<and> (\<forall>env' rs'. (\<forall>j\<le>i. env' (k + j) = env (k + j)) \<longrightarrow>
         chain_loop L env' dm rid caller d a k (take (Suc i) rs @ rs') cur = (Inr (Inl e), evs))"
  using assms
proof (induction rs arbitrary: k cur evs)
  case (Cons r rs)
  from Cons.prems consider
    (now) "apply_interceptor_step L (env k) dm rid caller d a r cur = (Inr (Inl e), evs)"
  | (later) nxt evs1 evs2 where
      "apply_interceptor_step L (env k) dm rid caller d a r cur = (Inr (Inr nxt), evs1)"
      "chain_loop L env dm rid caller d a (Suc k) rs nxt = (Inr (Inl e), evs2)" "evs = evs1 @ evs2"
    unfolding chain_cons_refuse by blast
  then show ?case
  proof cases
    case now
    then have "chain_loop L env' dm rid caller d a k (take (Suc 0) (r # rs) @ rs') cur = (Inr (Inl e), evs)"
      if "env' k = env k" for env' rs' using that by simp
    with step_refuse [OF now] show ?thesis by (intro exI [where x = 0]) auto
  next
    case later
    from Cons.IH [OF later(2)] obtain i cmd evs' where i: "i < length rs"
      and ev: "evs2 = evs' @ [emit_interceptor_error e cmd]" "list_all (\<lambda>e. \<not> is_error_event e) evs'"
      and rest: "\<And>env' rs'. (\<forall>j\<le>i. env' (Suc k + j) = env (Suc k + j)) \<Longrightarrow>
        chain_loop L env' dm rid caller d a (Suc k) (take (Suc i) rs @ rs') nxt = (Inr (Inl e), evs2)"
      by blast
    have "chain_loop L env' dm rid caller d a k (take (Suc (Suc i)) (r # rs) @ rs') cur = (Inr (Inl e), evs)"
      if "\<forall>j\<le>Suc i. env' (k + j) = env (k + j)" for env' rs'
    proof -
      have "env' k = env k" using that by (auto dest: spec [where x = 0])
      moreover have "\<forall>j\<le>i. env' (Suc k + j) = env (Suc k + j)"
        using that by (auto dest: spec [where x = "Suc _"])
      ultimately show ?thesis using later rest by (simp add: chain_cons_refuse del: chain_loop.simps(2))
    qed
    with i ev later(3) step_pass_events [OF later(1)] show ?thesis
      by (intro exI [where x = "Suc i"] exI [where x = cmd] exI [where x = "evs1 @ evs'"]) auto
  qed
qed simp

section \<open>Against a registry\<close>

text \<open>
  What the chain's caller relies on: the registry's chain asks exactly the processes that
  have a matching route. The manager's registry is one provider.
\<close>

locale chain_provider =
  fixes chain_of :: "string \<Rightarrow> string \<Rightarrow> 's \<Rightarrow> route list \<times> 's"
    and routes_of :: "'s \<Rightarrow> route list"
    and inv :: "'s \<Rightarrow> bool"
  assumes chain_processes: "inv s \<Longrightarrow> rt_process_id ` set (fst (chain_of d a s)) =
      rt_process_id ` {r \<in> set (routes_of s). match_command_interceptor_route r d a}"
    and chain_inv: "inv s \<Longrightarrow> inv (snd (chain_of d a s))"
    and chain_routes: "routes_of (snd (chain_of d a s)) = routes_of s"
begin

lemma pass_needs_all:
  assumes "inv s"
    and "chain_loop L env dm rid caller d a 0 (map RouteObj (fst (chain_of d a s))) cur = (Inr (Inr cmd), evs)"
    and "command_target d a cur"
    and "r \<in> set (routes_of s)" "match_command_interceptor_route r d a"
  shows "\<exists>i c. command_target d a c \<and> allowed_by (env i) (py_strip (rt_process_id r))
           (build_interceptor_request (ie_t_mono (env i)) c rid caller)"
proof -
  have "rt_process_id r \<in> rt_process_id ` set (fst (chain_of d a s))"
    unfolding chain_processes [OF assms(1)] using assms(4,5) by auto
  then obtain i where i: "i < length (fst (chain_of d a s))"
    "rt_process_id (fst (chain_of d a s) ! i) = rt_process_id r"
    by (auto simp: in_set_conv_nth)
  from chain_pass_allowed [OF assms(2,3), of i] i show ?thesis
    by (auto simp: route_process_id_def)
qed

end

interpretation registry: chain_provider rs_chain rs_routes routes_inv
proof unfold_locales
  show "rt_process_id ` set (fst (rs_chain d a s)) =
      rt_process_id ` {r \<in> set (rs_routes s). match_command_interceptor_route r d a}"
    if "routes_inv s" for s d a
    using that rs_chain_value route_chain_props(2) by (simp add: routes_inv_def)
qed (simp_all add: routes_inv_chain rs_chain_routes)

definition mgr_state :: "route_manager \<Rightarrow> route_state" where
  "mgr_state mgr = (ensure_interceptor_route_state mgr)\<lparr>rs_max_cache := rm_cache_max mgr\<rparr>"

lemma ir_chain_fst: "fst (ir_chain d a mgr) = fst (rs_chain d a (mgr_state mgr))"
  by (simp add: ir_chain_def mgr_state_def Let_def case_prod_unfold)

lemma upd_max_same: "rs_max_cache x = m \<Longrightarrow> x\<lparr>rs_max_cache := m\<rparr> = (x :: route_state)"
  by (cases x) simp

interpretation manager_registry: chain_provider ir_chain "\<lambda>mgr. rs_routes (mgr_state mgr)" "\<lambda>mgr. routes_inv (mgr_state mgr)"
proof unfold_locales
  show "rt_process_id ` set (fst (ir_chain d a s)) =
      rt_process_id ` {r \<in> set (rs_routes (mgr_state s)). match_command_interceptor_route r d a}"
    if "routes_inv (mgr_state s)" for s d a
    using registry.chain_processes [OF that] by (simp add: ir_chain_fst)
  have st: "mgr_state (snd (ir_chain d a s)) = snd (rs_chain d a (mgr_state s))" for d a s
    by (simp add: ir_chain_def mgr_state_def Let_def case_prod_unfold sync_legacy_fields_def
        ensure_interceptor_route_state_def rs_chain_routes(3) upd_max_same)
  show "routes_inv (mgr_state (snd (ir_chain d a s)))" if "routes_inv (mgr_state s)" for s d a
    using that by (simp add: st routes_inv_chain)
  show "rs_routes (mgr_state (snd (ir_chain d a s))) = rs_routes (mgr_state s)" for d a s
    by (simp add: st rs_chain_routes)
qed

lemma apply_command_interceptors_loop:
  "apply_command_interceptors L me rid caller cmd mgr = ((res, evs), mgr') \<Longrightarrow>
    chain_loop L (\<lambda>i. manager_icpt_env (me i)) True rid caller
      (py_str L (dget cmd ''device_id'' (PStr ''''))) (py_str L (dget cmd ''action'' (PStr ''''))) 0
      (map RouteObj (fst (ir_chain (py_str L (dget cmd ''device_id'' (PStr '''')))
         (py_str L (dget cmd ''action'' (PStr ''''))) mgr)))
      [(''device_id'', PStr (py_str L (dget cmd ''device_id'' (PStr '''')))),
       (''action'', PStr (py_str L (dget cmd ''action'' (PStr '''')))),
       (''params'', dget cmd ''params'' (PDict []))] = (res, evs)"
  by (auto simp: apply_command_interceptors_def apply_command_interceptor_chain_def Let_def case_prod_unfold
      split: if_splits)

section \<open>Registering routes\<close>

definition parse_route :: "py_lang \<Rightarrow> pyval \<Rightarrow> route_key option" where
  "parse_route L raw =
     (case as_dict raw of
        None \<Rightarrow> None
      | Some d \<Rightarrow>
          let k = (py_strip (py_str L (dget d ''device_id'' (PStr ''''))),
                   py_strip (py_str L (dget d ''action'' (PStr ''''))))
          in if fst k = [] \<or> snd k = [] then None else Some k)"

fun first_keys :: "route_key list \<Rightarrow> route_key list \<Rightarrow> route_key list" where
  "first_keys [] seen = []"
| "first_keys (k # ks) seen =
     (if k \<in> set seen then first_keys ks seen else k # first_keys ks (seen @ [k]))"

lemma first_keys_props:
  "distinct (first_keys ks seen)" "set (first_keys ks seen) = set ks - set seen"
  by (induction ks arbitrary: seen) auto

fun new_routes :: "string \<Rightarrow> int \<Rightarrow> route_key list \<Rightarrow> route list" where
  "new_routes pid n [] = []"
| "new_routes pid n ((d, a) # ks) =
     \<lparr>rt_process_id = pid, rt_device_id = d, rt_action = a, rt_order = n + 1\<rparr> # new_routes pid (n + 1) ks"

lemma length_new_routes [simp]: "length (new_routes pid n ks) = length ks"
  by (induction pid n ks rule: new_routes.induct) auto

lemma register_loop_ok:
  assumes "map (parse_route L) raws = map Some ks"
  shows "register_loop L pid raws seen added st =
    (let new = new_routes pid (rs_next_order st) (first_keys ks seen)
     in (Inr (added @ new),
         st\<lparr>rs_next_order := rs_next_order st + int (length new), rs_routes := rs_routes st @ new\<rparr>))"
  using assms
proof (induction raws arbitrary: ks seen added st)
  case Nil
  then show ?case by (simp add: Let_def)
next
  case (Cons raw raws)
  then obtain k ks' where ks: "ks = k # ks'" and k: "parse_route L raw = Some k"
    and rest: "map (parse_route L) raws = map Some ks'" by (cases ks) auto
  from k obtain d where d: "as_dict raw = Some d"
    "k = (py_strip (py_str L (dget d ''device_id'' (PStr ''''))), py_strip (py_str L (dget d ''action'' (PStr ''''))))"
    "fst k \<noteq> []" "snd k \<noteq> []"
    by (auto simp: parse_route_def Let_def split: option.splits if_splits)
  show ?case
    using d Cons.IH [OF rest] by (auto simp: ks Let_def algebra_simps)
qed

lemma register_loop_fails:
  assumes "map (parse_route L) raws = map Some ks" "parse_route L bad = None"
  shows "\<exists>e. register_loop L pid (raws @ bad # rest) seen added st =
    (let new = new_routes pid (rs_next_order st) (first_keys ks seen)
     in (Inl e, st\<lparr>rs_next_order := rs_next_order st + int (length new), rs_routes := rs_routes st @ new\<rparr>))"
  using assms(1)
proof (induction raws arbitrary: ks seen added st)
  case Nil
  then show ?case using assms(2) by (auto simp: parse_route_def Let_def split: option.splits if_splits)
next
  case (Cons raw raws)
  then obtain k ks' where ks: "ks = k # ks'" and k: "parse_route L raw = Some k"
    and rest: "map (parse_route L) raws = map Some ks'" by (cases ks) auto
  from k obtain d where d: "as_dict raw = Some d"
    "k = (py_strip (py_str L (dget d ''device_id'' (PStr ''''))), py_strip (py_str L (dget d ''action'' (PStr ''''))))"
    "fst k \<noteq> []" "snd k \<noteq> []"
    by (auto simp: parse_route_def Let_def split: option.splits if_splits)
  show ?case
  proof (cases "k \<in> set seen")
    case True
    then show ?thesis using d Cons.IH [OF rest, of seen added st] by (simp add: ks Let_def)
  next
    case False
    define entry where "entry = \<lparr>rt_process_id = pid, rt_device_id = fst k, rt_action = snd k, rt_order = rs_next_order st + 1\<rparr>"
    from Cons.IH [OF rest, of "seen @ [k]" "added @ [entry]" "st\<lparr>rs_next_order := rs_next_order st + 1, rs_routes := rs_routes st @ [entry]\<rparr>"]
    obtain e where "register_loop L pid (raws @ bad # rest) (seen @ [k]) (added @ [entry])
        (st\<lparr>rs_next_order := rs_next_order st + 1, rs_routes := rs_routes st @ [entry]\<rparr>) =
      (let new = new_routes pid (rs_next_order st + 1) (first_keys ks' (seen @ [k]))
       in (Inl e, st\<lparr>rs_next_order := rs_next_order st + 1 + int (length new), rs_routes := (rs_routes st @ [entry]) @ new\<rparr>))"
      by (auto simp: Let_def)
    then show ?thesis using d False by (intro exI [where x = e]) (simp add: ks Let_def entry_def algebra_simps)
  qed
qed

lemma new_routes_has:
  "(d, a) \<in> set ks \<Longrightarrow> \<exists>r\<in>set (new_routes pid n ks). rt_process_id r = pid \<and> rt_device_id r = d \<and> rt_action r = a"
  by (induction pid n ks rule: new_routes.induct) auto

end
