(* ===== verification/Interceptors_Props.thy ===== *)
theory Interceptors_Props
  imports Command_Interceptors_Proofs
begin

text \<open>
  The properties of the interceptor registry and of the interceptor chain.
\<close>

section \<open>A concrete registry\<close>

definition demo_routes_raw :: pyval where
  "demo_routes_raw =
     PList [PDict [(''device_id'', PStr ''laser''), (''action'', PStr '' set '')],
            PDict [(''device_id'', PStr ''*''), (''action'', PStr ''stop'')],
            PDict [(''device_id'', PStr ''laser''), (''action'', PStr ''set'')]]"

definition demo_state :: route_state where
  "demo_state = \<lparr>rs_routes = [\<lparr>rt_process_id = ''ilk'', rt_device_id = ''*'', rt_action = ''*'', rt_order = 1\<rparr>],
     rs_chain_cache = [], rs_next_order = 1, rs_generation = 1, rs_max_cache = 2048\<rparr>"

definition demo_manager :: route_manager where
  "demo_manager = \<lparr>rm_state = Some demo_state, rm_routes = rs_routes demo_state, rm_order = 1, rm_cache = [],
     rm_cache_max = 2048, rm_processes = [''ilk''], rm_events = []\<rparr>"

definition demo_env :: "pyval \<Rightarrow> nat \<Rightarrow> manager_env" where
  "demo_env allow i = \<lparr>me_procs = [''ilk'' \<mapsto> \<lparr>pv_running = True, pv_has_endpoint = True\<rparr>],
     me_rpc = (\<lambda>_ _. RpcReply (PDict [(''ok'', PBool True), (''allow'', allow)])), me_t_mono = Fin 5\<rparr>"

definition demo_cmd :: items where
  "demo_cmd = [(''device_id'', PStr ''laser''), (''action'', PStr ''set''), (''params'', PDict [(''p'', PInt 1)])]"

lemmas demo_defs = demo_routes_raw_def demo_state_def demo_manager_def demo_env_def demo_cmd_def

lemmas register_eval = rs_register_def rs_drop_process_def rs_invalidate_def py_strip_def is_space_def

abbreviation empty_routes :: route_state where
  "empty_routes \<equiv> \<lparr>rs_routes = [], rs_chain_cache = [], rs_next_order = 0, rs_generation = 0, rs_max_cache = 2048\<rparr>"

lemma demo_reach: "routes_reach True (mgr_state demo_manager)"
proof -
  let ?op = "Register plain_lang ''ilk'' (PList [PDict [(''device_id'', PStr ''*''), (''action'', PStr ''*'')]]) False"
  have "mgr_state demo_manager = route_op_state ?op empty_routes"
    by (simp add: register_eval mgr_state_def demo_defs ensure_interceptor_route_state_def Let_def)
  moreover have "rs_chain_cache (route_op_state ?op empty_routes) = []"
    by (simp add: register_eval Let_def)
  ultimately show ?thesis using routes_reach.op [OF routes_reach.start [of 2048], of ?op] by simp
qed

lemmas icpt_eval = apply_command_interceptors_def apply_command_interceptor_chain_def
  apply_interceptor_step_def ir_chain_def rs_chain_def ensure_interceptor_route_state_def
  match_command_interceptor_route_def route_process_id_def validate_route_availability_def
  is_route_available_def call_interceptor_checked_def build_call_error_def
  validate_interceptor_response_def apply_interceptor_decision_def apply_allow_response_def
  build_reject_error_def manager_icpt_env_def py_strip_def is_space_def py_lower_def lower_char_def
  need_get_def py_or_def dhas_def dget_def Let_def

section \<open>Properties\<close>

text \<open>
  C5. Every interceptor is asked, as long as the chain cache can be trusted: the routes have not
  changed since it was last empty, which is so unless a registration has failed half way.
  When the manager then lets a command through, each process with a matching route was running
  and reachable, was sent a check for this very target, and answered \<open>allow: true\<close>; and the
  command that goes out has the target it came in with.
\<close>

theorem command_needs_every_interceptor:
  fixes L :: py_lang and cmd :: items
  defines "d \<equiv> py_str L (dget cmd ''device_id'' (PStr ''''))"
    and "a \<equiv> py_str L (dget cmd ''action'' (PStr ''''))"
  assumes "routes_reach True (mgr_state mgr)"
    and "apply_command_interceptors L me rid caller cmd mgr = ((Inr (Inr out), evs), mgr')"
  shows "command_target d a out \<and>
    (\<forall>r \<in> set (rs_routes (mgr_state mgr)). match_command_interceptor_route r d a \<longrightarrow>
      (\<exists>i c. command_target d a c \<and>
        allowed_by (manager_icpt_env (me i)) (py_strip (rt_process_id r))
          (build_interceptor_request (me_t_mono (me i)) c rid caller)))"
proof (intro conjI ballI impI)
  note loop = apply_command_interceptors_loop [OF assms(4), folded d_def a_def]
  have start: "command_target d a [(''device_id'', PStr d), (''action'', PStr a),
      (''params'', dget cmd ''params'' (PDict []))]" by (simp add: command_target_def)
  show "command_target d a out" by (rule chain_pass_target [OF loop start])
  fix r assume "r \<in> set (rs_routes (mgr_state mgr))" "match_command_interceptor_route r d a"
  from manager_registry.pass_needs_all [OF routes_reach_trusted [OF assms(3)] loop start this]
  show "\<exists>i c. command_target d a c \<and> allowed_by (manager_icpt_env (me i)) (py_strip (rt_process_id r))
      (build_interceptor_request (me_t_mono (me i)) c rid caller)"
    by (auto simp: manager_icpt_env_def)
qed

theorem command_needs_every_interceptor_witness:
  "fst (fst (apply_command_interceptors plain_lang (demo_env (PBool True)) PNone PNone demo_cmd demo_manager))
     = Inr (Inr demo_cmd)
   \<and> command_target ''laser'' ''set'' demo_cmd"
proof -
  have pass: "fst (fst (apply_command_interceptors plain_lang (demo_env (PBool True)) PNone PNone demo_cmd demo_manager))
     = Inr (Inr demo_cmd)"
    by (simp add: icpt_eval demo_defs)
  then obtain evs mgr' where "apply_command_interceptors plain_lang (demo_env (PBool True)) PNone PNone demo_cmd
      demo_manager = ((Inr (Inr demo_cmd), evs), mgr')"
    by (metis prod.collapse)
  from command_needs_every_interceptor [OF demo_reach this] pass show ?thesis
    by (simp add: demo_cmd_def)
qed

text \<open>
  The first refusal decides. When the manager turns a command down, exactly one error
  event is published, it is the last one and carries the error; and the outcome does not
  depend on what any process further down the chain would have answered.
\<close>

theorem refusal_stops_the_chain:
  fixes L :: py_lang and cmd :: items
  defines "d \<equiv> py_str L (dget cmd ''device_id'' (PStr ''''))"
    and "a \<equiv> py_str L (dget cmd ''action'' (PStr ''''))"
  assumes "apply_command_interceptors L me rid caller cmd mgr = ((Inr (Inl e), evs), mgr')"
  shows "\<exists>i c evs'. i < length (fst (ir_chain d a mgr))
    \<and> evs = evs' @ [emit_interceptor_error e c] \<and> list_all (\<lambda>ev. \<not> is_error_event ev) evs'
    \<and> (\<forall>me'. (\<forall>j\<le>i. me' j = me j) \<longrightarrow>
         apply_command_interceptors L me' rid caller cmd mgr = ((Inr (Inl e), evs), mgr'))"
proof -
  let ?cur = "[(''device_id'', PStr d), (''action'', PStr a), (''params'', dget cmd ''params'' (PDict []))]"
  let ?ch = "map RouteObj (fst (ir_chain d a mgr))"
  note loop = apply_command_interceptors_loop [OF assms(3), folded d_def a_def]
  from chain_refuse [OF loop] obtain i c evs' where i: "i < length ?ch"
    and ev: "evs = evs' @ [emit_interceptor_error e c]" "list_all (\<lambda>ev. \<not> is_error_event ev) evs'"
    and indep: "\<And>env' rs'. \<forall>j\<le>i. env' (0 + j) = manager_icpt_env (me (0 + j)) \<Longrightarrow>
      chain_loop L env' True rid caller d a 0 (take (Suc i) ?ch @ rs') ?cur = (Inr (Inl e), evs)"
    by blast
  have mgr': "mgr' = (snd (ir_chain d a mgr))\<lparr>rm_events := rm_events (snd (ir_chain d a mgr)) @ evs\<rparr>"
    using assms(3) by (auto simp: apply_command_interceptors_def Let_def case_prod_unfold d_def a_def)
  have "apply_command_interceptors L me' rid caller cmd mgr = ((Inr (Inl e), evs), mgr')"
    if "\<forall>j\<le>i. me' j = me j" for me'
  proof -
    have "chain_loop L (\<lambda>i. manager_icpt_env (me' i)) True rid caller d a 0 ?ch ?cur = (Inr (Inl e), evs)"
      using indep [of "\<lambda>i. manager_icpt_env (me' i)" "drop (Suc i) ?ch"] that by simp
    then show ?thesis using i mgr'
      by (auto simp: apply_command_interceptors_def apply_command_interceptor_chain_def Let_def
          case_prod_unfold d_def a_def)
  qed
  with i ev show ?thesis by (intro exI [where x = i] exI [where x = c] exI [where x = evs']) auto
qed

theorem refusal_stops_the_chain_witness:
  "\<exists>e evs mgr'. apply_command_interceptors plain_lang (demo_env (PBool False)) PNone PNone demo_cmd demo_manager
       = ((Inr (Inl e), evs), mgr')
     \<and> (\<exists>c evs'. evs = evs' @ [emit_interceptor_error e c])"
proof -
  have "\<exists>e. fst (fst (apply_command_interceptors plain_lang (demo_env (PBool False)) PNone PNone demo_cmd demo_manager))
      = Inr (Inl e)"
    by (simp add: icpt_eval demo_defs)
  then obtain e evs mgr' where r: "apply_command_interceptors plain_lang (demo_env (PBool False)) PNone PNone demo_cmd
      demo_manager = ((Inr (Inl e), evs), mgr')"
    by (metis prod.collapse)
  from refusal_stops_the_chain [OF r] r show ?thesis by blast
qed

text \<open>
  C21. What the cache of chains can do to an answer. In every state the registry reaches, by any
  operations and registrations that raise half way included, the routes stand in the order of
  their registration and the cache is within its bound; and the chain returned for a command is
  the one the routes define, each process with a matching route once, with its earliest route,
  in registration order, whenever the chain is not in the cache or the routes have not changed
  since the cache was last empty. Only a registration that fails half way breaks the latter.
\<close>

theorem cached_chain_is_the_routes_chain:
  assumes "routes_reach ok st" "ok \<or> map_of (rs_chain_cache st) (d, a) = None"
  shows "fst (rs_chain d a st) = route_chain (rs_routes st) d a
    \<and> distinct (map rt_process_id (fst (rs_chain d a st)))
    \<and> rt_process_id ` set (fst (rs_chain d a st)) =
        rt_process_id ` {r \<in> set (rs_routes st). match_command_interceptor_route r d a}
    \<and> sorted (map rt_order (fst (rs_chain d a st)))
    \<and> (\<forall>r\<in>set (fst (rs_chain d a st)). \<forall>r'\<in>set (rs_routes st).
         match_command_interceptor_route r' d a \<longrightarrow> rt_process_id r' = rt_process_id r \<longrightarrow>
         rt_order r \<le> rt_order r')
    \<and> sorted_wrt (<) (map rt_order (rs_routes st))
    \<and> int (length (rs_chain_cache st)) \<le> max 32 (rs_max_cache st)
    \<and> (\<forall>x. (\<nexists>L pid raw replace. x = Register L pid raw replace \<and> (\<exists>e. fst (rs_register L pid raw replace st) = Inl e)) \<longrightarrow> ok \<longrightarrow>
         routes_reach True (route_op_state x st))"
proof -
  have inv: "ok \<longrightarrow> cache_coherent st" "orders_ok st" "cache_bounded st" using routes_reach_inv [OF assms(1)] by auto
  then have c: "fst (rs_chain d a st) = route_chain (rs_routes st) d a"
    using assms(2) rs_chain_value rs_chain_fresh by blast
  have "routes_reach True (route_op_state x st)"
    if "\<nexists>L pid raw replace. x = Register L pid raw replace \<and> (\<exists>e. fst (rs_register L pid raw replace st) = Inl e)" ok for x
    using routes_reach.op [OF assms(1), of x] trusted_unless_failed [OF that(1)] that(2) by simp
  then show ?thesis
    unfolding c using inv(2,3) route_chain_props [where routes = "rs_routes st" and d = d and a = a]
    by (auto simp: cache_bounded_def orders_ok_def)
qed

definition demo_reached :: route_state where
  "demo_reached = route_op_state (Chain ''laser'' ''set'') (route_op_state (Register plain_lang ''ilk'' demo_routes_raw False) empty_routes)"

lemma demo_reached_ok: "routes_reach True demo_reached"
proof -
  let ?st = "route_op_state (Register plain_lang ''ilk'' demo_routes_raw False) empty_routes"
  have "rs_chain_cache ?st = []" by (simp add: register_eval demo_routes_raw_def Let_def)
  then have "routes_reach True ?st"
    using routes_reach.op [OF routes_reach.start [of 2048], of "Register plain_lang ''ilk'' demo_routes_raw False"] by simp
  from routes_reach.op [OF this, of "Chain ''laser'' ''set''"] show ?thesis by (simp add: demo_reached_def rs_chain_routes)
qed

theorem cached_chain_is_the_routes_chain_witness:
  "fst (rs_chain ''laser'' ''set'' demo_reached) = route_chain (rs_routes demo_reached) ''laser'' ''set''
   \<and> map_of (rs_chain_cache demo_reached) (''laser'', ''set'') \<noteq> None
   \<and> map rt_order (route_chain (rs_routes demo_reached) ''laser'' ''set'') = [1]"
proof -
  have "fst (rs_chain ''laser'' ''set'' demo_reached) = route_chain (rs_routes demo_reached) ''laser'' ''set''"
    using cached_chain_is_the_routes_chain [OF demo_reached_ok, of "''laser''" "''set''"] by blast
  moreover have "map rt_order (route_chain (rs_routes demo_reached) ''laser'' ''set'') = [1]"
    "map_of (rs_chain_cache demo_reached) (''laser'', ''set'') \<noteq> None"
    by (simp_all add: demo_reached_def register_eval demo_routes_raw_def Let_def rs_chain_def route_chain_def
        match_command_interceptor_route_def evict.simps)
  ultimately show ?thesis by simp
qed

text \<open>
  What a registration does. When every entry names a device and an action, the process
  gets one new route per distinct pair, in the order given, after all existing routes and
  with the next order numbers; with \<open>replace\<close> its old routes are gone; the routes of other
  processes are untouched and the cache is emptied.
\<close>

theorem register_adds_each_route_once:
  fixes st :: route_state and pid :: string and replace :: bool and ks :: "route_key list"
  assumes "map (parse_route L) raws = map Some ks"
  defines "kept \<equiv> (if replace then filter (\<lambda>r. rt_process_id r \<noteq> pid) (rs_routes st) else rs_routes st)"
    and "new \<equiv> new_routes pid (rs_next_order st) (first_keys ks [])"
  shows "fst (rs_register L pid (PList raws) replace st) = Inr new
    \<and> rs_routes (snd (rs_register L pid (PList raws) replace st)) = kept @ new
    \<and> rs_next_order (snd (rs_register L pid (PList raws) replace st)) = rs_next_order st + int (length new)
    \<and> rs_chain_cache (snd (rs_register L pid (PList raws) replace st)) = []
    \<and> distinct (first_keys ks []) \<and> set (first_keys ks []) = set ks"
  using register_loop_ok [OF assms(1)] first_keys_props [of ks "[]"]
  by (simp add: rs_register_def rs_drop_process_def rs_invalidate_def Let_def kept_def new_def)

theorem register_adds_each_route_once_witness:
  "fst (rs_register plain_lang ''ilk'' demo_routes_raw True demo_state) =
     Inr (new_routes ''ilk'' 1 [(''laser'', ''set''), (''*'', ''stop'')])"
  using register_adds_each_route_once [where L = plain_lang and replace = True and pid = "''ilk''"
      and st = demo_state and raws = "[PDict [(''device_id'', PStr ''laser''), (''action'', PStr '' set '')],
        PDict [(''device_id'', PStr ''*''), (''action'', PStr ''stop'')],
        PDict [(''device_id'', PStr ''laser''), (''action'', PStr ''set'')]]"
      and ks = "[(''laser'', ''set''), (''*'', ''stop''), (''laser'', ''set'')]"]
  by (simp add: demo_routes_raw_def demo_state_def parse_route_def py_strip_def is_space_def)



end
