(* ===== verification/Rules_Config.thy ===== *)
theory Rules_Config
  imports Py_Value
begin

text \<open>
  Parsing of rule configurations, \<open>utils/config_parsing.py\<close>, \<open>rules/rules_common.py\<close> and
  \<open>coerce_float\<close> of \<open>utils/value_coercion.py\<close>: the required and optional fields, the paths
  the errors name, and the telemetry bindings of a rule.
\<close>

section \<open>Errors with paths\<close>

datatype path_part = PKey string | PIdx nat

fun fmt_parts :: "path_part list \<Rightarrow> string list \<Rightarrow> string list" where
  "fmt_parts [] out = out"
| "fmt_parts (PIdx i # ps) out = fmt_parts ps (out @ [''['' @ digits_of i @ '']''])"
| "fmt_parts (PKey k # ps) out = fmt_parts ps (out @ [if out = [] then k else ''.'' @ k])"

definition fmt_path :: "path_part list \<Rightarrow> string" where
  "fmt_path ps = (let out = fmt_parts ps [] in if out \<noteq> [] then concat out else ''<root>'')"

datatype parse_error = ConfigError string string | ParseRaised pyexc

fun parse_error_text :: "parse_error \<Rightarrow> string" where
  "parse_error_text (ConfigError path msg) = path @ '': '' @ msg"
| "parse_error_text (ParseRaised e) = exc_text e"

definition cfg_err :: "path_part list \<Rightarrow> string \<Rightarrow> parse_error" where
  "cfg_err path msg = ConfigError (fmt_path path) msg"

section \<open>Fields\<close>

definition normalize_list :: "pyval \<Rightarrow> path_part list \<Rightarrow> parse_error + pyval list" where
  "normalize_list raw path =
     (case raw of PNone \<Rightarrow> Inr [] | PList xs \<Rightarrow> Inr xs | _ \<Rightarrow> Inl (cfg_err path ''must be a JSON list''))"

definition require_dict :: "pyval \<Rightarrow> path_part list \<Rightarrow> parse_error + items" where
  "require_dict raw path =
     (case as_dict raw of None \<Rightarrow> Inl (cfg_err path ''must be an object/dict'') | Some d \<Rightarrow> Inr d)"

definition optional_dict :: "pyval \<Rightarrow> path_part list \<Rightarrow> parse_error + items" where
  "optional_dict raw path =
     (if raw = PNone then Inr []
      else case as_dict raw of
        None \<Rightarrow> Inl (cfg_err path ''must be an object/dict'') | Some d \<Rightarrow> Inr d)"

definition require_str :: "pyval \<Rightarrow> path_part list \<Rightarrow> parse_error + string" where
  "require_str raw path =
     (case raw of
        PStr s \<Rightarrow> if s = [] then Inl (cfg_err path ''must be a non-empty string'') else Inr s
      | _ \<Rightarrow> Inl (cfg_err path ''must be a non-empty string''))"

definition optional_str :: "py_lang \<Rightarrow> pyval \<Rightarrow> string option" where
  "optional_str L raw = (if raw = PNone then None else Some (py_str L raw))"

fun dicts_from :: "pyval list \<Rightarrow> nat \<Rightarrow> path_part list \<Rightarrow> parse_error + items list" where
  "dicts_from [] i path = Inr []"
| "dicts_from (x # xs) i path =
     (case as_dict x of
        None \<Rightarrow> Inl (cfg_err (path @ [PIdx i]) ''must be an object/dict'')
      | Some d \<Rightarrow> res_bind (dicts_from xs (Suc i) path) (\<lambda>ds. Inr (d # ds)))"

definition require_list_of_dicts :: "pyval \<Rightarrow> path_part list \<Rightarrow> parse_error + items list" where
  "require_list_of_dicts raw path =
     res_bind (normalize_list raw path) (\<lambda>xs. dicts_from xs 0 path)"

text \<open>\<open>float(value)\<close> with the text of the error Python raises.\<close>

definition float_error :: "pyval \<Rightarrow> pyexc" where
  "float_error v =
     (case v of
        PStr s \<Rightarrow> ValueError (''could not convert string to float: '' @ repr_str s)
      | _ \<Rightarrow> TypeError (''float() argument must be a string or a real number, not '' @ repr_str (type_name v)))"

definition coerce_float :: "py_lang \<Rightarrow> pyval \<Rightarrow> pyfloat option \<Rightarrow> pyexc + pyfloat" where
  "coerce_float L v dflt =
     (if v = PNone then
        (case dflt of None \<Rightarrow> Inl (ValueError ''missing float'') | Some d \<Rightarrow> Inr d)
      else case py_float L v of None \<Rightarrow> Inl (float_error v) | Some f \<Rightarrow> Inr f)"

definition parse_version :: "py_lang \<Rightarrow> items \<Rightarrow> bool \<Rightarrow> parse_error + int" where
  "parse_version L obj allow_type =
     (let version = (if allow_type \<and> \<not> dhas obj ''version'' \<and> dhas obj ''type''
                     then dget obj ''type'' (PInt 1) else dget obj ''version'' (PInt 1))
      in case py_int L version of
           None \<Rightarrow> Inl (ConfigError ''<root>'' ''version must be an int'')
         | Some v \<Rightarrow>
             if v \<noteq> 1 then Inl (ConfigError ''<root>'' ''version must be 1'') else Inr v)"

definition ON_UNKNOWN_VALUES :: "string list" where "ON_UNKNOWN_VALUES = [''ignore'', ''trigger'']"
definition WATCHDOG_SEVERITIES :: "string list" where "WATCHDOG_SEVERITIES = [''info'', ''warn'', ''critical'']"

definition parse_on_unknown :: "pyval \<Rightarrow> path_part list \<Rightarrow> string \<Rightarrow> parse_error + string" where
  "parse_on_unknown raw path dflt =
     (case raw of
        PNone \<Rightarrow> Inr dflt
      | PStr s \<Rightarrow>
          let v = py_lower (py_strip s) in
          if v \<notin> set ON_UNKNOWN_VALUES then Inl (cfg_err path ''on_unknown must be ignore or trigger'')
          else Inr v
      | _ \<Rightarrow> Inl (cfg_err path ''on_unknown must be a string''))"

definition parse_severity :: "pyval \<Rightarrow> path_part list \<Rightarrow> parse_error + string" where
  "parse_severity raw path =
     (case raw of
        PNone \<Rightarrow> Inr ''info''
      | PStr s \<Rightarrow>
          let v = py_lower (py_strip s) in
          if v \<notin> set WATCHDOG_SEVERITIES then Inl (cfg_err path ''severity must be one of info/warn/critical'')
          else Inr v
      | _ \<Rightarrow> Inl (cfg_err path ''severity must be a string''))"

section \<open>Telemetry bindings\<close>

record telemetry_binding =
  tb_alias :: string
  tb_device_id :: string
  tb_signal :: string
  tb_max_age_s :: pyfloat
  tb_required :: bool
  tb_process_id :: "string option"

definition tb_source_id :: "telemetry_binding \<Rightarrow> string" where
  "tb_source_id b = (case tb_process_id b of Some p \<Rightarrow> p | None \<Rightarrow> tb_device_id b)"

definition parse_max_age :: "py_lang \<Rightarrow> pyval \<Rightarrow> path_part list \<Rightarrow> parse_error + pyfloat" where
  "parse_max_age L v path =
     (case py_float L v of None \<Rightarrow> Inl (cfg_err path ''max_age_s must be a number'') | Some f \<Rightarrow> Inr f)"

definition parse_required :: "pyval \<Rightarrow> path_part list \<Rightarrow> parse_error + bool" where
  "parse_required v path =
     (case v of PBool b \<Rightarrow> Inr b | _ \<Rightarrow> Inl (cfg_err path ''required must be a boolean''))"

definition parse_binding ::
  "py_lang \<Rightarrow> path_part list \<Rightarrow> pyfloat \<Rightarrow> bool \<Rightarrow> nat \<Rightarrow> pyval \<Rightarrow> parse_error + telemetry_binding" where
  "parse_binding L path default_max_age allow_process i raw =
     (let here = path @ [PKey ''telemetry'', PIdx i] in
      res_bind (require_dict raw here) (\<lambda>d.
      res_bind (require_str (jget d ''as'') (here @ [PKey ''as''])) (\<lambda>alias.
      let has_device = jget d ''device'' \<noteq> PNone; has_process = jget d ''process'' \<noteq> PNone in
      if has_device \<and> has_process
      then Inl (cfg_err here (''binding must have exactly one of '' @ repr_str ''device'' @ '' or '' @ repr_str ''process''))
      else if \<not> has_device \<and> \<not> has_process
      then Inl (cfg_err here (''binding must have '' @ repr_str ''device'' @ '' or '' @ repr_str ''process''))
      else if has_process \<and> \<not> allow_process
      then Inl (cfg_err (here @ [PKey ''process''])
             (''process telemetry bindings are not supported here; use '' @ repr_str ''device''))
      else
      res_bind (if has_process
                then res_bind (require_str (jget d ''process'') (here @ [PKey ''process''])) (\<lambda>p. Inr (Some p, ''''))
                else res_bind (require_str (jget d ''device'') (here @ [PKey ''device''])) (\<lambda>dev. Inr (None, dev)))
        (\<lambda>(process_id, dev).
      res_bind (require_str (jget d ''signal'') (here @ [PKey ''signal''])) (\<lambda>signal.
      res_bind (parse_max_age L (dget d ''max_age_s'' (PFloat default_max_age)) (here @ [PKey ''max_age_s'']))
        (\<lambda>max_age.
      res_bind (parse_required (dget d ''required'' (PBool True)) (here @ [PKey ''required''])) (\<lambda>required.
        Inr \<lparr>tb_alias = alias, tb_device_id = dev, tb_signal = signal, tb_max_age_s = max_age,
             tb_required = required, tb_process_id = process_id\<rparr>)))))))"

fun parse_bindings ::
  "py_lang \<Rightarrow> path_part list \<Rightarrow> pyfloat \<Rightarrow> bool \<Rightarrow> nat \<Rightarrow> pyval list \<Rightarrow> parse_error + telemetry_binding list" where
  "parse_bindings L path age allow i [] = Inr []"
| "parse_bindings L path age allow i (x # xs) =
     res_bind (parse_binding L path age allow i x) (\<lambda>b.
     res_bind (parse_bindings L path age allow (Suc i) xs) (\<lambda>bs. Inr (b # bs)))"

definition parse_telemetry_bindings ::
  "py_lang \<Rightarrow> pyval \<Rightarrow> path_part list \<Rightarrow> pyfloat \<Rightarrow> bool \<Rightarrow> bool \<Rightarrow> parse_error + telemetry_binding list" where
  "parse_telemetry_bindings L inputs path default_max_age require_nonempty allow_process =
     res_bind (optional_dict inputs path) (\<lambda>obj.
     res_bind (normalize_list (jget obj ''telemetry'') (path @ [PKey ''telemetry''])) (\<lambda>raws.
       if require_nonempty \<and> raws = []
       then Inl (cfg_err (path @ [PKey ''telemetry'']) ''telemetry inputs are required'')
       else parse_bindings L path default_max_age allow_process 0 raws))"

section \<open>What parsing guarantees\<close>

text \<open>Every binding names its alias, its signal and exactly one source.\<close>

definition binding_ok :: "bool \<Rightarrow> telemetry_binding \<Rightarrow> bool" where
  "binding_ok allow_process b \<longleftrightarrow>
     tb_alias b \<noteq> [] \<and> tb_signal b \<noteq> [] \<and>
     (case tb_process_id b of
        None \<Rightarrow> tb_device_id b \<noteq> []
      | Some p \<Rightarrow> allow_process \<and> p \<noteq> [] \<and> tb_device_id b = [])"

lemma require_str_Inr: "require_str raw path = Inr s \<longleftrightarrow> raw = PStr s \<and> s \<noteq> []"
  by (auto simp: require_str_def split: pyval.splits if_splits)

lemma parse_binding_ok: "parse_binding L path age allow i raw = Inr b \<Longrightarrow> binding_ok allow b"
  by (auto simp: parse_binding_def Let_def binding_ok_def require_str_Inr
      split: if_splits)

lemma parse_bindings_ok: "parse_bindings L path age allow i raws = Inr bs \<Longrightarrow> list_all (binding_ok allow) bs"
  by (induction raws arbitrary: i bs) (auto dest: parse_binding_ok)

lemma parse_telemetry_bindings_ok:
  "parse_telemetry_bindings L inputs path age ne allow = Inr bs \<Longrightarrow>
     list_all (binding_ok allow) bs \<and> (ne \<longrightarrow> bs \<noteq> [])"
proof -
  assume a: "parse_telemetry_bindings L inputs path age ne allow = Inr bs"
  then obtain raws where r: "parse_bindings L path age allow 0 raws = Inr bs" "ne \<longrightarrow> raws \<noteq> []"
    by (auto simp: parse_telemetry_bindings_def split: if_splits)
  moreover have "parse_bindings L path age allow i raws = Inr bs \<Longrightarrow> length bs = length raws" for i
    by (induction raws arbitrary: i bs) auto
  ultimately show ?thesis using parse_bindings_ok by fastforce
qed

end
