(* ===== verification/Sequencer_Eval.thy ===== *)
theory Sequencer_Eval
  imports Py_Value
begin

text \<open>
  The expression and template evaluator of \<open>sequencer/eval.py\<close>, which the sequencer, the
  interlock and the watchdog evaluate their conditions with: a restricted interpreter over
  Python's syntax trees, the filling in of templates with its limits on depth and size, and
  the condition language. Parsing of Python text, \<open>difflib\<close>, printf formatting, powers of
  floats, \<open>math.log2\<close> and the texts of Python's own error messages are the record \<open>eval_lang\<close>. Floats are
  exact; an overflow of double arithmetic is not modelled.
\<close>

section \<open>Syntax trees\<close>

datatype unop = UAdd | USub | Not | UnaryOther
datatype binop = Add | Sub | Mult | Div | FloorDiv | Mod | Pow | BinOther
datatype boolop = And | Or
datatype cmpop = Eq | NotEq | Lt | LtE | Gt | GtE | CmpOther

text \<open>A call keeps the name called, when it is a plain name, and whether it has keyword arguments.\<close>

datatype expr =
    Constant pyval
  | Name string
  | Attribute expr string
  | UnaryOp unop expr
  | BinOp binop expr expr
  | BoolOp boolop "expr list"
  | Compare expr "(cmpop \<times> expr) list"
  | Call "string option" "expr list" bool
  | IfExp expr expr expr
  | OtherExpr

datatype arith_error = ATypeError | AZeroDivision | AOther pyexc

record eval_lang = py_lang +
  ast_parse :: "string \<Rightarrow> string + expr"
  close_matches :: "string \<Rightarrow> string list \<Rightarrow> string list"
  op_error_text :: "string \<Rightarrow> pyval list \<Rightarrow> string"
  str_format :: "string \<Rightarrow> pyval \<Rightarrow> arith_error + string"
  float_pow :: "pyfloat \<Rightarrow> pyfloat \<Rightarrow> arith_error + pyval"
  log2_int :: "int \<Rightarrow> pyfloat"

definition plain :: "eval_lang \<Rightarrow> py_lang" where
  "plain E = \<lparr>float_repr = float_repr E, float_parse = float_parse E, int_parse = int_parse E\<rparr>"

datatype eval_error =
    UnknownNameError string string
  | ValueTooLargeError string
  | OperandError string bool
  | TemplateError string
  | EvalRaised pyexc

fun eval_error_text :: "eval_error \<Rightarrow> string" where
  "eval_error_text (UnknownNameError msg _) = msg"
| "eval_error_text (ValueTooLargeError msg) = msg"
| "eval_error_text (OperandError msg _) = msg"
| "eval_error_text (TemplateError msg) = msg"
| "eval_error_text (EvalRaised e) = exc_text e"

definition MAX_INT_DIGITS :: nat where "MAX_INT_DIGITS = 4000"
definition MAX_INT_BITS :: nat where "MAX_INT_BITS = 13287"
definition MAX_RESULT_SIZE :: nat where "MAX_RESULT_SIZE = 1000000"
definition MAX_TEMPLATE_DEPTH :: nat where "MAX_TEMPLATE_DEPTH = 16"

definition unknown_name_message :: "eval_lang \<Rightarrow> string \<Rightarrow> string list \<Rightarrow> string" where
  "unknown_name_message E name candidates =
     (let pool = filter (\<lambda>c. \<not> starts_with ''_'' c) candidates;
          close = close_matches E name pool
      in if close = [] then ''Unknown name '' @ repr_str name
         else ''Unknown name '' @ repr_str name @ '' (did you mean '' @ join '', '' (map repr_str close) @ ''?)'')"

definition in_expr :: "string \<Rightarrow> string" where
  "in_expr expr = ''${'' @ expr @ ''}''"

definition describe_operand :: "expr \<times> pyval \<Rightarrow> string option" where
  "describe_operand nv =
     (case nv of
        (Name n, PStr s) \<Rightarrow>
          Some (n @ '' is the string '' @ repr_str (if length s \<le> 40 then s else take 37 s @ ''...''))
      | (Name n, PNone) \<Rightarrow> Some (n @ '' is None'')
      | _ \<Rightarrow> None)"

definition operand_error ::
  "eval_lang \<Rightarrow> string \<Rightarrow> string \<Rightarrow> (expr \<times> pyval) list \<Rightarrow> arith_error \<Rightarrow> eval_error" where
  "operand_error E expr opname operands err =
     (case err of
        AOther e \<Rightarrow> EvalRaised e
      | AZeroDivision \<Rightarrow>
          OperandError (op_error_text E opname (map snd operands) @ '' in '' @ in_expr expr) False
      | ATypeError \<Rightarrow>
          let notes = List.map_filter describe_operand operands;
              detail = (if notes \<noteq> [] then '': '' @ join ''; '' notes
                        else '' ('' @ op_error_text E opname (map snd operands) @ '')'')
          in OperandError (''unsupported operand types in '' @ in_expr expr @ detail)
               (list_ex (\<lambda>(_, v). v = PNone) operands))"

section \<open>Arithmetic of Python values\<close>

fun fmul :: "pyfloat \<Rightarrow> pyfloat \<Rightarrow> pyfloat" where
  "fmul NaN _ = NaN"
| "fmul _ NaN = NaN"
| "fmul (Fin a) (Fin b) = Fin (a * b)"
| "fmul (Fin a) PInf = (if a = 0 then NaN else if a > 0 then PInf else NInf)"
| "fmul (Fin a) NInf = (if a = 0 then NaN else if a > 0 then NInf else PInf)"
| "fmul PInf (Fin b) = (if b = 0 then NaN else if b > 0 then PInf else NInf)"
| "fmul NInf (Fin b) = (if b = 0 then NaN else if b > 0 then NInf else PInf)"
| "fmul PInf PInf = PInf"
| "fmul PInf NInf = NInf"
| "fmul NInf PInf = NInf"
| "fmul NInf NInf = PInf"

text \<open>Division by a divisor that is not zero.\<close>

fun fdiv :: "pyfloat \<Rightarrow> pyfloat \<Rightarrow> pyfloat" where
  "fdiv NaN _ = NaN"
| "fdiv _ NaN = NaN"
| "fdiv (Fin a) (Fin b) = Fin (a / b)"
| "fdiv (Fin a) _ = Fin 0"
| "fdiv PInf (Fin b) = (if b > 0 then PInf else NInf)"
| "fdiv NInf (Fin b) = (if b > 0 then NInf else PInf)"
| "fdiv _ _ = NaN"

fun ffloordiv :: "pyfloat \<Rightarrow> pyfloat \<Rightarrow> pyfloat" where
  "ffloordiv (Fin a) (Fin b) = Fin (of_int \<lfloor>a / b\<rfloor>)"
| "ffloordiv (Fin a) PInf = Fin (if a < 0 then - 1 else 0)"
| "ffloordiv (Fin a) NInf = Fin (if a > 0 then - 1 else 0)"
| "ffloordiv _ _ = NaN"

fun fmod :: "pyfloat \<Rightarrow> pyfloat \<Rightarrow> pyfloat" where
  "fmod (Fin a) (Fin b) = Fin (a - b * of_int \<lfloor>a / b\<rfloor>)"
| "fmod (Fin a) PInf = (if a < 0 then PInf else Fin a)"
| "fmod (Fin a) NInf = (if a > 0 then NInf else Fin a)"
| "fmod _ _ = NaN"

fun as_index :: "pyval \<Rightarrow> int option" where
  "as_index (PBool b) = Some (if b then 1 else 0)"
| "as_index (PInt i) = Some i"
| "as_index _ = None"

definition num_op ::
  "(int \<Rightarrow> int \<Rightarrow> pyval) \<Rightarrow> (pyfloat \<Rightarrow> pyfloat \<Rightarrow> pyval) \<Rightarrow> pyval \<Rightarrow> pyval \<Rightarrow> arith_error + pyval" where
  "num_op fi ff a b =
     (case (as_index a, as_index b) of
        (Some i, Some j) \<Rightarrow> Inr (fi i j)
      | _ \<Rightarrow> (case (as_num a, as_num b) of
                (Some x, Some y) \<Rightarrow> Inr (ff x y)
              | _ \<Rightarrow> Inl ATypeError))"

definition is_zero :: "pyval \<Rightarrow> bool" where
  "is_zero v \<longleftrightarrow> as_num v = Some (Fin 0)"

definition div_op ::
  "(int \<Rightarrow> int \<Rightarrow> pyval) \<Rightarrow> (pyfloat \<Rightarrow> pyfloat \<Rightarrow> pyval) \<Rightarrow> pyval \<Rightarrow> pyval \<Rightarrow> arith_error + pyval" where
  "div_op fi ff a b =
     (if as_num a = None \<or> as_num b = None then Inl ATypeError
      else if is_zero b then Inl AZeroDivision else num_op fi ff a b)"

definition repeat_list :: "'a list \<Rightarrow> int \<Rightarrow> 'a list" where
  "repeat_list xs n = concat (replicate (nat n) xs)"

fun py_add :: "pyval \<Rightarrow> pyval \<Rightarrow> arith_error + pyval" where
  "py_add (PStr s) (PStr t) = Inr (PStr (s @ t))"
| "py_add (PList s) (PList t) = Inr (PList (s @ t))"
| "py_add a b = num_op (\<lambda>i j. PInt (i + j)) (\<lambda>x y. PFloat (fadd x y)) a b"

definition py_mul :: "pyval \<Rightarrow> pyval \<Rightarrow> arith_error + pyval" where
  "py_mul a b =
     (case (a, as_index b) of
        (PStr s, Some n) \<Rightarrow> Inr (PStr (repeat_list s n))
      | (PList s, Some n) \<Rightarrow> Inr (PList (repeat_list s n))
      | _ \<Rightarrow>
        (case (as_index a, b) of
           (Some n, PStr s) \<Rightarrow> Inr (PStr (repeat_list s n))
         | (Some n, PList s) \<Rightarrow> Inr (PList (repeat_list s n))
         | _ \<Rightarrow> num_op (\<lambda>i j. PInt (i * j)) (\<lambda>x y. PFloat (fmul x y)) a b))"

definition py_pow :: "eval_lang \<Rightarrow> pyval \<Rightarrow> pyval \<Rightarrow> arith_error + pyval" where
  "py_pow E a b =
     (case (as_index a, as_index b) of
        (Some i, Some j) \<Rightarrow>
          if j \<ge> 0 then Inr (PInt (i ^ nat j))
          else if i = 0 then Inl AZeroDivision
          else Inr (PFloat (Fin (1 / of_int (i ^ nat (- j)))))
      | _ \<Rightarrow>
        (case (as_num a, as_num b) of
           (Some x, Some y) \<Rightarrow>
             if x = Fin 0 \<and> flt y (Fin 0) then Inl AZeroDivision else float_pow E x y
         | _ \<Rightarrow> Inl ATypeError))"

definition py_binop :: "eval_lang \<Rightarrow> binop \<Rightarrow> pyval \<Rightarrow> pyval \<Rightarrow> arith_error + pyval" where
  "py_binop E op a b =
     (case op of
        Add \<Rightarrow> py_add a b
      | Sub \<Rightarrow> num_op (\<lambda>i j. PInt (i - j)) (\<lambda>x y. PFloat (fsub x y)) a b
      | Mult \<Rightarrow> py_mul a b
      | Div \<Rightarrow> div_op (\<lambda>i j. PFloat (Fin (of_int i / of_int j))) (\<lambda>x y. PFloat (fdiv x y)) a b
      | FloorDiv \<Rightarrow> div_op (\<lambda>i j. PInt (i div j)) (\<lambda>x y. PFloat (ffloordiv x y)) a b
      | Mod \<Rightarrow>
          (case a of
             PStr s \<Rightarrow> (case str_format E s b of Inl e \<Rightarrow> Inl e | Inr t \<Rightarrow> Inr (PStr t))
           | _ \<Rightarrow> div_op (\<lambda>i j. PInt (i mod j)) (\<lambda>x y. PFloat (fmod x y)) a b)
      | Pow \<Rightarrow> py_pow E a b
      | BinOther \<Rightarrow> Inl (AOther (ValueError ''Binary op not allowed'')))"

fun py_neg :: "pyval \<Rightarrow> arith_error + pyval" where
  "py_neg (PBool b) = Inr (PInt (if b then - 1 else 0))"
| "py_neg (PInt i) = Inr (PInt (- i))"
| "py_neg (PFloat f) = Inr (PFloat (fneg f))"
| "py_neg _ = Inl ATypeError"

fun py_pos :: "pyval \<Rightarrow> arith_error + pyval" where
  "py_pos (PBool b) = Inr (PInt (if b then 1 else 0))"
| "py_pos (PInt i) = Inr (PInt i)"
| "py_pos (PFloat f) = Inr (PFloat f)"
| "py_pos _ = Inl ATypeError"

fun py_abs :: "pyval \<Rightarrow> arith_error + pyval" where
  "py_abs (PBool b) = Inr (PInt (if b then 1 else 0))"
| "py_abs (PInt i) = Inr (PInt \<bar>i\<bar>)"
| "py_abs (PFloat f) = Inr (PFloat (case f of Fin q \<Rightarrow> Fin \<bar>q\<bar> | NInf \<Rightarrow> PInf | _ \<Rightarrow> f))"
| "py_abs _ = Inl ATypeError"

fun py_len :: "pyval \<Rightarrow> arith_error + pyval" where
  "py_len (PStr s) = Inr (PInt (int (length s)))"
| "py_len (PList xs) = Inr (PInt (int (length xs)))"
| "py_len (PDict d) = Inr (PInt (int (length d)))"
| "py_len (PAttr d) = Inr (PInt (int (length d)))"
| "py_len _ = Inl ATypeError"

text \<open>Ordering: numbers, strings by code point, lists by the first difference.\<close>

fun str_less :: "string \<Rightarrow> string \<Rightarrow> bool" where
  "str_less [] t = (t \<noteq> [])"
| "str_less (c # s) [] = False"
| "str_less (c # s) (d # t) =
     (if c = d then str_less s t else (of_char c :: nat) < of_char d)"

text \<open>\<open>sorted\<close> on texts, and the message for a key that is not accepted.\<close>

fun insert_text :: "string \<Rightarrow> string list \<Rightarrow> string list" where
  "insert_text x [] = [x]"
| "insert_text x (y # ys) = (if str_less y x then y # insert_text x ys else x # y # ys)"

definition sorted_texts :: "string list \<Rightarrow> string list" where
  "sorted_texts xs = foldr insert_text xs []"

definition unknown_key_message :: "eval_lang \<Rightarrow> string \<Rightarrow> string \<Rightarrow> string list \<Rightarrow> string option \<Rightarrow> string" where
  "unknown_key_message E owner key allowed hint =
     (let names = sorted_texts allowed; close = close_matches E key names in
      owner @ '' has unknown key '' @ repr_str key
      @ (case close of c # _ \<Rightarrow> '' (did you mean '' @ repr_str c @ ''?)'' | [] \<Rightarrow> [])
      @ (case hint of Some (h # hs) \<Rightarrow> ''; '' @ (h # hs) | _ \<Rightarrow> [])
      @ ''. Valid keys: '' @ join '', '' names)"

datatype ordop = OLt | OLe | OGt | OGe

definition num_ord :: "ordop \<Rightarrow> pyfloat \<Rightarrow> pyfloat \<Rightarrow> bool" where
  "num_ord op x y = (case op of OLt \<Rightarrow> flt x y | OLe \<Rightarrow> fle x y | OGt \<Rightarrow> flt y x | OGe \<Rightarrow> fle y x)"

definition str_ord :: "ordop \<Rightarrow> string \<Rightarrow> string \<Rightarrow> bool" where
  "str_ord op s t =
     (case op of OLt \<Rightarrow> str_less s t | OLe \<Rightarrow> s = t \<or> str_less s t
      | OGt \<Rightarrow> str_less t s | OGe \<Rightarrow> s = t \<or> str_less t s)"

fun py_ord :: "ordop \<Rightarrow> pyval \<Rightarrow> pyval \<Rightarrow> bool option"
  and py_ord_list :: "ordop \<Rightarrow> pyval list \<Rightarrow> pyval list \<Rightarrow> bool option" where
  "py_ord op (PStr s) b = (case b of PStr t \<Rightarrow> Some (str_ord op s t) | _ \<Rightarrow> None)"
| "py_ord op (PList xs) b = (case b of PList ys \<Rightarrow> py_ord_list op xs ys | _ \<Rightarrow> None)"
| "py_ord op a b = (case (as_num a, as_num b) of (Some x, Some y) \<Rightarrow> Some (num_ord op x y) | _ \<Rightarrow> None)"
| "py_ord_list op [] ys =
     Some (case op of OLt \<Rightarrow> ys \<noteq> [] | OLe \<Rightarrow> True | OGt \<Rightarrow> False | OGe \<Rightarrow> ys = [])"
| "py_ord_list op (x # xs) ys =
     (case ys of
        [] \<Rightarrow> Some (op = OGt \<or> op = OGe)
      | y # ys' \<Rightarrow> if py_eq x y then py_ord_list op xs ys' else py_ord op x y)"

fun py_iter :: "pyval \<Rightarrow> pyval list option" where
  "py_iter (PStr s) = Some (map (\<lambda>c. PStr [c]) s)"
| "py_iter (PList xs) = Some xs"
| "py_iter (PDict d) = Some (map (\<lambda>(k, _). PStr k) d)"
| "py_iter (PAttr d) = Some (map (\<lambda>(k, _). PStr k) d)"
| "py_iter _ = None"

fun extreme :: "ordop \<Rightarrow> pyval \<Rightarrow> pyval list \<Rightarrow> arith_error + pyval" where
  "extreme op best [] = Inr best"
| "extreme op best (x # xs) =
     (case py_ord op x best of
        None \<Rightarrow> Inl ATypeError
      | Some b \<Rightarrow> extreme op (if b then x else best) xs)"

definition min_max :: "string \<Rightarrow> ordop \<Rightarrow> pyval list \<Rightarrow> arith_error + pyval" where
  "min_max name op args =
     (case args of
        [] \<Rightarrow> Inl ATypeError
      | [v] \<Rightarrow>
          (case py_iter v of
             None \<Rightarrow> Inl ATypeError
           | Some [] \<Rightarrow> Inl (AOther (ValueError (name @ ''() iterable argument is empty'')))
           | Some (x # xs) \<Rightarrow> extreme op x xs)
      | x # xs \<Rightarrow> extreme op x xs)"

definition py_call :: "string \<Rightarrow> pyval list \<Rightarrow> arith_error + pyval" where
  "py_call f args =
     (if f = ''abs'' then (case args of [v] \<Rightarrow> py_abs v | _ \<Rightarrow> Inl ATypeError)
      else if f = ''len'' then (case args of [v] \<Rightarrow> py_len v | _ \<Rightarrow> Inl ATypeError)
      else if f = ''min'' then min_max ''min'' OLt args
      else min_max ''max'' OGt args)"

section \<open>Sizes\<close>

fun bit_length_nat :: "nat \<Rightarrow> nat" where
  "bit_length_nat n = (if n = 0 then 0 else 1 + bit_length_nat (n div 2))"

declare bit_length_nat.simps [simp del]

definition bit_length :: "int \<Rightarrow> nat" where
  "bit_length i = bit_length_nat (nat \<bar>i\<bar>)"

text \<open>\<open>text_size(value, limit)\<close>, counting on until the limit is passed.\<close>

fun text_size :: "nat \<Rightarrow> pyval \<Rightarrow> nat"
  and text_size_list :: "nat \<Rightarrow> pyval list \<Rightarrow> nat \<Rightarrow> nat"
  and text_size_items :: "nat \<Rightarrow> items \<Rightarrow> nat \<Rightarrow> nat" where
  "text_size limit (PStr s) = length s"
| "text_size limit (PInt i) = bit_length i div 3 + 1"
| "text_size limit (PList xs) = text_size_list limit xs (length xs)"
| "text_size limit (PDict d) = text_size_items limit d (length d)"
| "text_size limit (PAttr d) = text_size_items limit d (length d)"
| "text_size limit v = 8"
| "text_size_list limit [] tot = tot"
| "text_size_list limit (x # xs) tot =
     (let tot' = tot + text_size limit x
      in if tot' > limit then tot' else text_size_list limit xs tot')"
| "text_size_items limit [] tot = tot"
| "text_size_items limit ((k, v) # d) tot =
     (let total1 = tot + length k
      in if total1 > limit then total1
         else let total2 = total1 + text_size limit v
              in if total2 > limit then total2 else text_size_items limit d total2)"

definition is_int :: "pyval \<Rightarrow> bool" where
  "is_int v \<longleftrightarrow> (case v of PInt _ \<Rightarrow> True | _ \<Rightarrow> False)"

definition int_result_too_large :: "eval_lang \<Rightarrow> binop \<Rightarrow> int \<Rightarrow> int \<Rightarrow> bool" where
  "int_result_too_large E op l r =
     (case op of
        Pow \<Rightarrow>
          if r \<le> 0 \<or> \<bar>l\<bar> \<le> 1 then False
          else r > int MAX_INT_BITS \<or> flt (Fin (of_nat MAX_INT_BITS)) (fmul (log2_int E \<bar>l\<bar>) (Fin (of_int r)))
      | Mult \<Rightarrow> bit_length l + bit_length r > MAX_INT_BITS + 1
      | _ \<Rightarrow> False)"

text \<open>
  The numbers in the printf specifications of a format string: after \<open>%\<close>, an optional
  parenthesised key, flags, a width, a precision, a length modifier and a conversion letter.
\<close>

definition is_digit :: "char \<Rightarrow> bool" where
  "is_digit c \<longleftrightarrow> (let n = (of_char c :: nat) in 48 \<le> n \<and> n \<le> 57)"

definition is_letter :: "char \<Rightarrow> bool" where
  "is_letter c \<longleftrightarrow> (let n = (of_char c :: nat) in 65 \<le> n \<and> n \<le> 90 \<or> 97 \<le> n \<and> n \<le> 122)"

definition skip_key :: "string \<Rightarrow> string" where
  "skip_key s =
     (case s of
        CHR ''('' # t \<Rightarrow>
          (case dropWhile (\<lambda>c. c \<noteq> CHR '')'') t of [] \<Rightarrow> s | _ # rest \<Rightarrow> rest)
      | _ \<Rightarrow> s)"

definition digits_nat :: "string \<Rightarrow> nat list" where
  "digits_nat s = (case digits_value s 0 of Some n \<Rightarrow> if s = [] then [] else [n] | None \<Rightarrow> [])"

definition format_spec :: "string \<Rightarrow> (nat list \<times> string) option" where
  "format_spec s =
     (let s1 = dropWhile (\<lambda>c. c \<in> set ''-#0 +'') (skip_key s);
          width = takeWhile is_digit s1; s2 = dropWhile is_digit s1;
          prec = (case s2 of CHR ''.'' # t \<Rightarrow> takeWhile is_digit t | _ \<Rightarrow> []);
          s3 = (if prec = [] then s2 else drop (1 + length prec) s2);
          s4 = (case s3 of c # d # t \<Rightarrow>
                   if c \<in> set ''hlL'' \<and> (is_letter d \<or> d = CHR ''%'') then d # t else s3
                 | _ \<Rightarrow> s3)
      in case s4 of
           c # rest \<Rightarrow> if is_letter c \<or> c = CHR ''%'' then Some (digits_nat width @ digits_nat prec, rest) else None
         | [] \<Rightarrow> None)"

fun format_sizes :: "nat \<Rightarrow> string \<Rightarrow> nat list" where
  "format_sizes 0 s = []"
| "format_sizes (Suc fuel) [] = []"
| "format_sizes (Suc fuel) (c # s) =
     (if c = CHR ''%'' then
        (case format_spec s of
           Some (ns, rest) \<Rightarrow> ns @ format_sizes fuel rest
         | None \<Rightarrow> format_sizes fuel s)
      else format_sizes fuel s)"

definition is_sequence :: "pyval \<Rightarrow> bool" where
  "is_sequence v \<longleftrightarrow> (case v of PStr _ \<Rightarrow> True | PList _ \<Rightarrow> True | _ \<Rightarrow> False)"

definition result_size :: "binop \<Rightarrow> pyval \<Rightarrow> pyval \<Rightarrow> nat" where
  "result_size op l r =
     (let (sq, cnt) = (if is_int r then (l, r) else (r, l)) in
      if op = Mult \<and> is_sequence sq \<and> is_int cnt \<and> (case cnt of PInt n \<Rightarrow> n > 0 | _ \<Rightarrow> False)
      then text_size MAX_RESULT_SIZE sq * (case cnt of PInt n \<Rightarrow> nat n | _ \<Rightarrow> 0)
      else if op = Add \<and> is_sequence l \<and> is_sequence r
      then text_size MAX_RESULT_SIZE l + text_size MAX_RESULT_SIZE r
      else case (op, l) of
        (Mod, PStr s) \<Rightarrow>
          length s + text_size MAX_RESULT_SIZE r + foldl max 0 (format_sizes (length s) s)
      | _ \<Rightarrow> 0)"

definition check_result_size :: "eval_lang \<Rightarrow> binop \<Rightarrow> pyval \<Rightarrow> pyval \<Rightarrow> string \<Rightarrow> eval_error option" where
  "check_result_size E op l r expr =
     (let limit =
        (case (l, r) of
           (PInt i, PInt j) \<Rightarrow>
             if int_result_too_large E op i j then Some ''more than 4000 digits'' else None
         | _ \<Rightarrow>
             if result_size op l r > MAX_RESULT_SIZE then Some ''more than 1,000,000 characters'' else None)
      in case limit of
           None \<Rightarrow> None
         | Some text \<Rightarrow>
             Some (ValueTooLargeError (''result of '' @ in_expr expr @ '' would be too large ('' @ text @ '')'')))"

section \<open>Evaluation of a syntax tree\<close>

definition binop_symbol :: "binop \<Rightarrow> string" where
  "binop_symbol op = (case op of Add \<Rightarrow> ''+'' | Sub \<Rightarrow> ''-'' | Mult \<Rightarrow> ''*'' | Div \<Rightarrow> ''/'' | FloorDiv \<Rightarrow> ''//''
     | Mod \<Rightarrow> ''%'' | Pow \<Rightarrow> ''**'' | BinOther \<Rightarrow> ''?'')"

definition compare_values :: "eval_lang \<Rightarrow> string \<Rightarrow> expr \<Rightarrow> cmpop \<Rightarrow> expr \<Rightarrow> pyval \<Rightarrow> pyval \<Rightarrow> eval_error + bool" where
  "compare_values E expr nl op nr l r =
     (let ord = (\<lambda>o' sym. case py_ord o' l r of
            Some b \<Rightarrow> Inr b
          | None \<Rightarrow> Inl (operand_error E expr sym [(nl, l), (nr, r)] ATypeError))
      in case op of
           Eq \<Rightarrow> Inr (py_eq l r)
         | NotEq \<Rightarrow> Inr (\<not> py_eq l r)
         | Lt \<Rightarrow> ord OLt ''<''
         | LtE \<Rightarrow> ord OLe ''<=''
         | Gt \<Rightarrow> ord OGt ''>''
         | GtE \<Rightarrow> ord OGe ''>=''
         | CmpOther \<Rightarrow> Inl (EvalRaised (ValueError ''Compare op not allowed'')))"

fun eval_node :: "eval_lang \<Rightarrow> string \<Rightarrow> items \<Rightarrow> expr \<Rightarrow> eval_error + pyval"
  and eval_nodes :: "eval_lang \<Rightarrow> string \<Rightarrow> items \<Rightarrow> expr list \<Rightarrow> eval_error + pyval list"
  and eval_compare :: "eval_lang \<Rightarrow> string \<Rightarrow> items \<Rightarrow> expr \<Rightarrow> pyval \<Rightarrow> (cmpop \<times> expr) list \<Rightarrow> eval_error + pyval" where
  "eval_node E x env (Constant v) = Inr v"
| "eval_node E x env (Name n) =
     (case map_of env n of
        Some v \<Rightarrow> Inr v
      | None \<Rightarrow> Inl (UnknownNameError (unknown_name_message E n (map fst env)) n))"
| "eval_node E x env (Attribute e attr) =
     res_bind (eval_node E x env e) (\<lambda>base.
       case base of
         PAttr d \<Rightarrow>
           if starts_with ''_'' attr then Inl (EvalRaised (ValueError ''Private attribute access not allowed''))
           else (case map_of d attr of
                   Some v \<Rightarrow> Inr v
                 | None \<Rightarrow> Inl (EvalRaised (ValueError ''Attribute access not allowed'')))
       | _ \<Rightarrow> Inl (EvalRaised (ValueError ''Attribute access not allowed'')))"
| "eval_node E x env (UnaryOp op e) =
     res_bind (eval_node E x env e) (\<lambda>v.
       case op of
         UAdd \<Rightarrow> (case py_pos v of Inr r \<Rightarrow> Inr r | Inl err \<Rightarrow> Inl (operand_error E x ''+'' [(e, v)] err))
       | USub \<Rightarrow> (case py_neg v of Inr r \<Rightarrow> Inr r | Inl err \<Rightarrow> Inl (operand_error E x ''-'' [(e, v)] err))
       | Not \<Rightarrow> Inr (PBool (\<not> truthy v))
       | UnaryOther \<Rightarrow> Inl (EvalRaised (ValueError ''Unary op not allowed'')))"
| "eval_node E x env (BinOp op a b) =
     res_bind (eval_node E x env a) (\<lambda>l.
     res_bind (eval_node E x env b) (\<lambda>r.
       case check_result_size E op l r x of
         Some err \<Rightarrow> Inl err
       | None \<Rightarrow>
           (case py_binop E op l r of
              Inr v \<Rightarrow> Inr v
            | Inl err \<Rightarrow> Inl (operand_error E x (binop_symbol op) [(a, l), (b, r)] err))))"
| "eval_node E x env (BoolOp op es) =
     res_bind (eval_nodes E x env es) (\<lambda>vs.
       Inr (PBool (case op of And \<Rightarrow> list_all truthy vs | Or \<Rightarrow> list_ex truthy vs)))"
| "eval_node E x env (Compare e cs) =
     res_bind (eval_node E x env e) (\<lambda>l. eval_compare E x env e l cs)"
| "eval_node E x env (Call f args kw) =
     (case f of
        None \<Rightarrow> Inl (EvalRaised (ValueError ''Only simple calls allowed''))
      | Some name \<Rightarrow>
          if kw then Inl (EvalRaised (ValueError ''Keyword args not allowed''))
          else if name \<notin> {''abs'', ''len'', ''min'', ''max''}
          then Inl (EvalRaised (ValueError (''Function '' @ repr_str name @ '' not allowed'')))
          else res_bind (eval_nodes E x env args) (\<lambda>vs.
            case py_call name vs of
              Inr v \<Rightarrow> Inr v
            | Inl err \<Rightarrow> Inl (operand_error E x name (zip args vs) err)))"
| "eval_node E x env (IfExp b t f) =
     res_bind (eval_node E x env t) (\<lambda>c. if truthy c then eval_node E x env b else eval_node E x env f)"
| "eval_node E x env OtherExpr = Inl (EvalRaised (ValueError ''Unsupported expression''))"
| "eval_nodes E x env [] = Inr []"
| "eval_nodes E x env (e # es) =
     res_bind (eval_node E x env e) (\<lambda>v. res_bind (eval_nodes E x env es) (\<lambda>vs. Inr (v # vs)))"
| "eval_compare E x env nl l [] = Inr (PBool True)"
| "eval_compare E x env nl l ((op, e) # cs) =
     res_bind (eval_node E x env e) (\<lambda>r.
     res_bind (compare_values E x nl op e l r) (\<lambda>ok.
       if \<not> ok then Inr (PBool False) else eval_compare E x env nl r cs))"

definition eval_expr :: "eval_lang \<Rightarrow> string \<Rightarrow> items \<Rightarrow> eval_error + pyval" where
  "eval_expr E expr env =
     (case ast_parse E expr of
        Inl msg \<Rightarrow> Inl (TemplateError (''Invalid expression '' @ in_expr expr @ '': '' @ msg))
      | Inr tree \<Rightarrow> eval_node E expr env tree)"

section \<open>Templates\<close>

text \<open>
  The matches of \<open>${...}\<close> from left to right. A match has at least one character between
  the braces and none of them is a closing brace; a match is given by its expression.
\<close>

fun split_template :: "string \<Rightarrow> (string \<times> string) option" where
  "split_template s =
     (case s of
        c1 # c2 # t \<Rightarrow>
          if c1 = CHR ''$'' \<and> c2 = CHR ''{'' then
            let body = takeWhile (\<lambda>c. c \<noteq> CHR ''}'') t; rest = dropWhile (\<lambda>c. c \<noteq> CHR ''}'') t
            in if body \<noteq> [] \<and> rest \<noteq> [] then Some (body, tl rest) else None
          else None
      | _ \<Rightarrow> None)"

declare split_template.simps [simp del]

fun template_matches :: "nat \<Rightarrow> string \<Rightarrow> string list" where
  "template_matches 0 s = []"
| "template_matches (Suc fuel) s =
     (case s of
        [] \<Rightarrow> []
      | c # t \<Rightarrow>
          (case split_template s of
             Some (body, rest) \<Rightarrow> body # template_matches fuel rest
           | None \<Rightarrow> template_matches fuel t))"

definition templates_in :: "string \<Rightarrow> string list" where
  "templates_in s = template_matches (length s) s"

definition has_template :: "string \<Rightarrow> bool" where
  "has_template s \<longleftrightarrow> templates_in s \<noteq> []"

text \<open>\<open>str.replace\<close> and \<open>str.count\<close> for a token that is not empty.\<close>

fun replace_all :: "nat \<Rightarrow> string \<Rightarrow> string \<Rightarrow> string \<Rightarrow> string" where
  "replace_all 0 tok rep s = s"
| "replace_all (Suc fuel) tok rep s =
     (if s = [] then []
      else if starts_with tok s then rep @ replace_all fuel tok rep (drop (length tok) s)
      else hd s # replace_all fuel tok rep (tl s))"

fun count_of :: "nat \<Rightarrow> string \<Rightarrow> string \<Rightarrow> nat" where
  "count_of 0 tok s = 0"
| "count_of (Suc fuel) tok s =
     (if s = [] then 0
      else if starts_with tok s then 1 + count_of fuel tok (drop (length tok) s)
      else count_of fuel tok (tl s))"

text \<open>
  \<open>_render_templates\<close> on a string. \<open>levels\<close> is what is left of the depth limit: a value
  beyond it is returned as it is.
\<close>

fun render_string :: "eval_lang \<Rightarrow> items \<Rightarrow> nat \<Rightarrow> string \<Rightarrow> eval_error + pyval"
  and fill_templates :: "eval_lang \<Rightarrow> items \<Rightarrow> nat \<Rightarrow> string list \<Rightarrow> string \<Rightarrow> eval_error + string" where
  "render_string E env 0 s = Inr (PStr s)"
| "render_string E env (Suc levels) s =
     (let matches = templates_in s in
      if matches = [] then Inr (PStr s)
      else if length matches = 1 \<and> s = in_expr (hd matches) then
        res_bind (eval_expr E (hd matches) env) (\<lambda>out.
          case out of
            PStr t \<Rightarrow> if t \<noteq> s \<and> has_template t then render_string E env levels t else Inr out
          | _ \<Rightarrow> Inr out)
      else
        res_bind (fill_templates E env (Suc levels) matches s) (\<lambda>out.
          if out \<noteq> s \<and> has_template out then render_string E env levels out else Inr (PStr out)))"
| "fill_templates E env levels [] out = Inr out"
| "fill_templates E env levels (expr # exprs) out =
     res_bind (eval_expr E expr env) (\<lambda>replacement.
     res_bind (case (replacement, levels) of
                 (PStr t, Suc lv) \<Rightarrow> if has_template t then render_string E env lv t else Inr replacement
               | _ \<Rightarrow> Inr replacement) (\<lambda>rep.
       let tok = in_expr expr in
       if length out + count_of (length out) tok out * text_size MAX_RESULT_SIZE rep > MAX_RESULT_SIZE
       then Inl (ValueTooLargeError (''text with '' @ in_expr expr @
              '' filled in would be too large (more than 1,000,000 characters)''))
       else fill_templates E env levels exprs (replace_all (length out) tok (py_str (plain E) rep) out)))"

definition render_str :: "eval_lang \<Rightarrow> items \<Rightarrow> string \<Rightarrow> eval_error + pyval" where
  "render_str E env s = render_string E env (Suc MAX_TEMPLATE_DEPTH) s"

text \<open>
  A list or dictionary is rendered item by item, counting the text built. A string is only
  ever re-rendered to a string, so containers are always rendered at depth 0.
\<close>

definition too_large_value :: eval_error where
  "too_large_value = ValueTooLargeError ''value would be too large once filled in (more than 1,000,000 characters)''"

definition render_key :: "eval_lang \<Rightarrow> items \<Rightarrow> string \<Rightarrow> items \<Rightarrow> eval_error + string" where
  "render_key E env k out =
     (if has_template k then
        res_bind (render_str E env k) (\<lambda>v.
          let key = py_str (plain E) v in
          if dhas out key
          then Inl (TemplateError (''templated key renders to duplicate key '' @ repr_str key))
          else Inr key)
      else Inr k)"

fun render_item :: "eval_lang \<Rightarrow> items \<Rightarrow> pyval \<Rightarrow> eval_error + pyval \<times> nat"
  and render_list :: "eval_lang \<Rightarrow> items \<Rightarrow> pyval list \<Rightarrow> nat \<Rightarrow> eval_error + pyval list \<times> nat"
  and render_dict :: "eval_lang \<Rightarrow> items \<Rightarrow> items \<Rightarrow> items \<Rightarrow> nat \<Rightarrow> eval_error + items \<times> nat" where
  "render_item E env (PStr s) =
     res_bind (render_str E env s) (\<lambda>v.
       Inr (v, case v of PStr t \<Rightarrow> if t \<noteq> s then length t else 0 | _ \<Rightarrow> 0))"
| "render_item E env (PList xs) =
     res_bind (render_list E env xs (length xs)) (\<lambda>(ys, built). Inr (PList ys, built))"
| "render_item E env (PDict d) =
     res_bind (render_dict E env d [] (length d)) (\<lambda>(out, built). Inr (PDict out, built))"
| "render_item E env (PAttr d) =
     res_bind (render_dict E env d [] (length d)) (\<lambda>(out, built). Inr (PDict out, built))"
| "render_item E env v = Inr (v, 0)"
| "render_list E env [] built = Inr ([], built)"
| "render_list E env (x # xs) built =
     res_bind (render_item E env x) (\<lambda>(y, sz).
       if built + sz > MAX_RESULT_SIZE then Inl too_large_value
       else res_bind (render_list E env xs (built + sz)) (\<lambda>(ys, b). Inr (y # ys, b)))"
| "render_dict E env [] out built = Inr (out, built)"
| "render_dict E env ((k, v) # d) out built =
     res_bind (render_key E env k out) (\<lambda>key.
     res_bind (render_item E env v) (\<lambda>(y, sz).
       if built + sz > MAX_RESULT_SIZE then Inl too_large_value
       else render_dict E env d (dset key y out) (built + sz)))"

definition render_templates :: "eval_lang \<Rightarrow> pyval \<Rightarrow> items \<Rightarrow> eval_error + pyval" where
  "render_templates E v env = res_bind (render_item E env v) (\<lambda>(r, _). Inr r)"

fun to_attrdict :: "pyval \<Rightarrow> pyval"
  and to_attrdict_items :: "items \<Rightarrow> items" where
  "to_attrdict (PDict d) = PAttr (to_attrdict_items d)"
| "to_attrdict (PAttr d) = PAttr (to_attrdict_items d)"
| "to_attrdict (PList xs) = PList (map to_attrdict xs)"
| "to_attrdict v = v"
| "to_attrdict_items [] = []"
| "to_attrdict_items ((k, v) # d) = (k, to_attrdict v) # to_attrdict_items d"

section \<open>Conditions\<close>

fun ordop_symbol :: "ordop \<Rightarrow> string" where
  "ordop_symbol OGt = ''>''"
| "ordop_symbol OGe = ''>=''"
| "ordop_symbol OLt = ''<''"
| "ordop_symbol OLe = ''<=''"

definition cond_compare :: "eval_lang \<Rightarrow> ordop \<Rightarrow> pyval \<Rightarrow> pyval \<Rightarrow> eval_error + bool" where
  "cond_compare E op a b =
     (case py_ord op a b of
        Some r \<Rightarrow> Inr r
      | None \<Rightarrow> Inl (OperandError (''cannot compare '' @ py_repr (plain E) a @ '' '' @ ordop_symbol op @ '' '' @
                  py_repr (plain E) b @ '' ('' @ op_error_text E (ordop_symbol op) [a, b] @ '')'')
                (a = PNone \<or> b = PNone)))"

text \<open>\<open>a, b = value\<close>: the value must be iterable with exactly two items.\<close>

definition unpack2 :: "eval_lang \<Rightarrow> pyval \<Rightarrow> eval_error + pyval \<times> pyval" where
  "unpack2 E v =
     (case py_iter v of
        None \<Rightarrow> Inl (EvalRaised (TypeError (op_error_text E ''unpack'' [v])))
      | Some [a, b] \<Rightarrow> Inr (a, b)
      | Some _ \<Rightarrow> Inl (EvalRaised (ValueError (op_error_text E ''unpack'' [v]))))"

definition render_pair :: "eval_lang \<Rightarrow> pyval \<Rightarrow> items \<Rightarrow> eval_error + pyval \<times> pyval" where
  "render_pair E v env =
     res_bind (unpack2 E v) (\<lambda>(a, b).
     res_bind (render_templates E a env) (\<lambda>a'.
     res_bind (render_templates E b env) (\<lambda>b'. Inr (a', b'))))"

definition cond_order :: "eval_lang \<Rightarrow> ordop \<Rightarrow> pyval \<Rightarrow> items \<Rightarrow> eval_error + bool" where
  "cond_order E op v env = res_bind (render_pair E v env) (\<lambda>(a, b). cond_compare E op a b)"

definition cond_abs_lt :: "eval_lang \<Rightarrow> pyval \<Rightarrow> items \<Rightarrow> eval_error + bool" where
  "cond_abs_lt E v env =
     res_bind (unpack2 E v) (\<lambda>(a, b).
     res_bind (render_templates E a env) (\<lambda>av.
       case py_abs av of
         Inl _ \<Rightarrow> Inl (OperandError (''cannot take abs() of '' @ py_repr (plain E) av @ '' ('' @
             op_error_text E ''abs'' [av] @ '')'') (av = PNone))
       | Inr av' \<Rightarrow>
           res_bind (render_templates E b env) (\<lambda>b'. cond_compare E OLt av' b')))"

definition cond_value :: "eval_lang \<Rightarrow> pyval \<Rightarrow> items \<Rightarrow> eval_error + bool" where
  "cond_value E v env = res_bind (render_templates E v env) (\<lambda>r. Inr (truthy r))"

text \<open>
  The operators that take one value. \<open>cond_leaf d\<close> is the first of them the dictionary has,
  in the order the code looks for them up to \<open>and\<close>.
\<close>

definition cond_first :: "eval_lang \<Rightarrow> items \<Rightarrow> items \<Rightarrow> (eval_error + bool) option" where
  "cond_first E d env =
     (if dhas d ''always'' then
        Some (if length d \<noteq> 1
              then Inl (EvalRaised (ValueError ''always must be the only condition operator''))
              else cond_value E (jget d ''always'') env)
      else if dhas d ''eq'' then
        Some (res_bind (render_pair E (jget d ''eq'') env) (\<lambda>(a, b). Inr (py_eq a b)))
      else if dhas d ''ne'' then
        Some (res_bind (render_pair E (jget d ''ne'') env) (\<lambda>(a, b). Inr (\<not> py_eq a b)))
      else if dhas d ''gt'' then Some (cond_order E OGt (jget d ''gt'') env)
      else if dhas d ''ge'' then Some (cond_order E OGe (jget d ''ge'') env)
      else if dhas d ''lt'' then Some (cond_order E OLt (jget d ''lt'') env)
      else if dhas d ''le'' then Some (cond_order E OLe (jget d ''le'') env)
      else None)"

text \<open>\<open>all(...)\<close> and \<open>any(...)\<close> over a generator: evaluation stops at the first decision.\<close>

fun all_res :: "('a \<Rightarrow> 'e + bool) \<Rightarrow> 'a list \<Rightarrow> 'e + bool" where
  "all_res f [] = Inr True"
| "all_res f (x # xs) = res_bind (f x) (\<lambda>b. if b then all_res f xs else Inr False)"

fun any_res :: "('a \<Rightarrow> 'e + bool) \<Rightarrow> 'a list \<Rightarrow> 'e + bool" where
  "any_res f [] = Inr False"
| "any_res f (x # xs) = res_bind (f x) (\<lambda>b. if b then Inr True else any_res f xs)"

lemma all_res_cong [fundef_cong]:
  "xs = ys \<Longrightarrow> (\<And>x. x \<in> set ys \<Longrightarrow> f x = g x) \<Longrightarrow> all_res f xs = all_res g ys"
  by (induction xs arbitrary: ys) (auto simp: res_bind_def split: sum.split)

lemma any_res_cong [fundef_cong]:
  "xs = ys \<Longrightarrow> (\<And>x. x \<in> set ys \<Longrightarrow> f x = g x) \<Longrightarrow> any_res f xs = any_res g ys"
  by (induction xs arbitrary: ys) (auto simp: res_bind_def split: sum.split)

definition cond_items :: "pyval \<Rightarrow> pyval list" where
  "cond_items v = (case py_iter v of None \<Rightarrow> [] | Some xs \<Rightarrow> xs)"

lemma map_of_size: "map_of d k = Some v \<Longrightarrow> size v < size_list (size_prod (\<lambda>_. 0) size) d"
  by (induction d) (auto split: if_splits)

lemma size_jget: "dhas d k \<Longrightarrow> size (jget d k) < Suc (size_list (size_prod (\<lambda>_. 0) size) d)"
  using map_of_size [of d k] by (auto simp: dhas_def dget_def less_Suc_eq)

lemma size_cond_items: "x \<in> set (cond_items v) \<Longrightarrow> size x \<le> size v"
proof (cases v)
  case (PList xs)
  assume "x \<in> set (cond_items v)"
  then have "x \<in> set xs" using PList by (simp add: cond_items_def)
  then have "size x \<le> size_list size xs" by (rule size_list_estimation') simp
  then show ?thesis using PList by simp
qed (auto simp: cond_items_def)

lemma size_cond_jget:
  "dhas d k \<Longrightarrow> x \<in> set (cond_items (jget d k)) \<Longrightarrow> size x < Suc (size_list (size_prod (\<lambda>_. 0) size) d)"
  using size_jget [of d k] size_cond_items [of x "jget d k"] by simp

function eval_condition :: "eval_lang \<Rightarrow> items \<Rightarrow> pyval \<Rightarrow> eval_error + bool" where
  "eval_condition E env v =
     (case v of
        PBool b \<Rightarrow> Inr b
      | PInt _ \<Rightarrow> cond_value E v env
      | PFloat _ \<Rightarrow> cond_value E v env
      | PStr _ \<Rightarrow> cond_value E v env
      | _ \<Rightarrow>
        (case as_dict v of
           None \<Rightarrow> Inr False
         | Some d \<Rightarrow>
             (case cond_first E d env of
                Some r \<Rightarrow> r
              | None \<Rightarrow>
                  if dhas d ''and'' then
                    if py_iter (jget d ''and'') = None
                    then Inl (EvalRaised (TypeError (op_error_text E ''iter'' [jget d ''and''])))
                    else all_res (\<lambda>c. eval_condition E env c) (cond_items (jget d ''and''))
                  else if dhas d ''or'' then
                    if py_iter (jget d ''or'') = None
                    then Inl (EvalRaised (TypeError (op_error_text E ''iter'' [jget d ''or''])))
                    else any_res (\<lambda>c. eval_condition E env c) (cond_items (jget d ''or''))
                  else if dhas d ''not'' then
                    res_bind (eval_condition E env (jget d ''not'')) (\<lambda>b. Inr (\<not> b))
                  else if dhas d ''abs_lt'' then cond_abs_lt E (jget d ''abs_lt'') env
                  else Inr False)))"
  by pat_completeness auto
termination
  by (relation "measure (\<lambda>(E, env, v). size v)") (auto simp: size_jget size_cond_jget)

declare eval_condition.simps [simp del]

end
