(* ===== verification/Interlock.thy ===== *)
theory Interlock
  imports Rules_Config Sequencer_Eval
begin

text \<open>
  The interlock process, \<open>processes/interlock.py\<close>: rulesets and their parsing, the telemetry
  a rule may rely on, the verdict of a rule on a command, the state of the process with its
  RPC handlers, and the check the manager's interceptor chain asks for. Outside are the
  telemetry caches, the clock, the YAML loader and the manager call that registers routes.
\<close>

section \<open>Rules\<close>

record rule =
  ru_rule_id :: string
  ru_name :: string
  ru_device_id :: string
  ru_action :: string
  ru_telemetry :: "telemetry_binding list"
  ru_condition :: pyval
  ru_on_block_message :: "string option"
  ru_on_block_code :: "string option"
  ru_allow_transform_params :: "items option"

record ruleset =
  rst_interceptor_id :: string
  rst_defaults_max_age_s :: pyfloat
  rst_rules :: "rule list"

record ruleset_entry =
  re_ruleset :: ruleset
  re_enabled :: bool
  re_source :: "string option"

section \<open>Parsing\<close>

definition parse_on_block :: "py_lang \<Rightarrow> items \<Rightarrow> nat \<Rightarrow> parse_error + string option \<times> string option" where
  "parse_on_block L raw i =
     res_bind (optional_dict (jget raw ''on_block'') [PKey ''rules'', PIdx i, PKey ''on_block'']) (\<lambda>d.
       Inr (optional_str L (jget d ''message''), optional_str L (jget d ''code'')))"

definition rule_at :: "nat \<Rightarrow> string \<Rightarrow> string" where
  "rule_at i suffix = ''rules['' @ digits_of i @ ''].'' @ suffix"

definition parse_allow_transform_params :: "items \<Rightarrow> nat \<Rightarrow> parse_error + items option" where
  "parse_allow_transform_params raw i =
     (if jget raw ''allow_transform'' = PNone then Inr None
      else res_bind (require_dict (jget raw ''allow_transform'') [PKey ''rules'', PIdx i, PKey ''allow_transform''])
        (\<lambda>d.
          if dhas d ''device_id'' \<or> dhas d ''action''
          then Inl (ConfigError (rule_at i ''allow_transform'') ''device_id/action rewrites are not supported'')
          else if list_ex (\<lambda>(k, _). k \<noteq> ''params'') d
          then Inl (ConfigError (rule_at i ''allow_transform'') ''only params are supported in allow_transform'')
          else let params_raw = jget d ''params'' in
            if params_raw = PNone then Inr (Some [])
            else case as_dict params_raw of
              None \<Rightarrow> Inl (ConfigError (rule_at i ''allow_transform.params'') ''params must be an object/dict'')
            | Some ps \<Rightarrow> Inr (Some ps)))"

definition parse_interlock_rule :: "py_lang \<Rightarrow> pyfloat \<Rightarrow> nat \<Rightarrow> items \<Rightarrow> parse_error + rule" where
  "parse_interlock_rule L max_age i raw =
     (let at' = [PKey ''rules'', PIdx i] in
      res_bind (require_str (jget raw ''name'') (at' @ [PKey ''name''])) (\<lambda>name.
      res_bind (require_dict (jget raw ''match'') (at' @ [PKey ''match''])) (\<lambda>mtch.
      res_bind (require_str (jget mtch ''device_id'') (at' @ [PKey ''match'', PKey ''device_id''])) (\<lambda>device_id.
      res_bind (require_str (jget mtch ''action'') (at' @ [PKey ''match'', PKey ''action''])) (\<lambda>action.
      res_bind (optional_dict (jget raw ''inputs'') (at' @ [PKey ''inputs''])) (\<lambda>inputs.
      res_bind (parse_telemetry_bindings L (PDict inputs) (at' @ [PKey ''inputs'']) max_age False True) (\<lambda>telemetry.
      if \<not> dhas raw ''condition''
      then Inl (ConfigError (rule_at i ''condition'') ''condition is required'')
      else
      res_bind (parse_on_block L raw i) (\<lambda>(message, code).
      res_bind (parse_allow_transform_params raw i) (\<lambda>transform.
        Inr \<lparr>ru_rule_id = ''r'' @ digits_of i, ru_name = name, ru_device_id = device_id, ru_action = action,
             ru_telemetry = telemetry, ru_condition = jget raw ''condition'', ru_on_block_message = message,
             ru_on_block_code = code, ru_allow_transform_params = transform\<rparr>)))))))))"

fun parse_interlock_rules :: "py_lang \<Rightarrow> pyfloat \<Rightarrow> string \<Rightarrow> nat \<Rightarrow> items list \<Rightarrow> pyexc + rule list" where
  "parse_interlock_rules L max_age source i [] = Inr []"
| "parse_interlock_rules L max_age source i (raw # raws) =
     (case parse_interlock_rule L max_age i raw of
        Inl (ConfigError path msg) \<Rightarrow> Inl (ValueError (source @ '': '' @ parse_error_text (ConfigError path msg)))
      | Inl (ParseRaised e) \<Rightarrow> Inl e
      | Inr r \<Rightarrow> res_bind (parse_interlock_rules L max_age source (Suc i) raws) (\<lambda>rs. Inr (r # rs)))"

definition as_exc :: "parse_error + 'a \<Rightarrow> pyexc + 'a" where
  "as_exc r = (case r of Inl e \<Rightarrow> Inl (case e of ParseRaised x \<Rightarrow> x | _ \<Rightarrow> ValueError (parse_error_text e)) | Inr x \<Rightarrow> Inr x)"

definition parse_ruleset :: "py_lang \<Rightarrow> string \<Rightarrow> pyval \<Rightarrow> pyexc + ruleset" where
  "parse_ruleset L source raw =
     res_bind (as_exc (require_dict raw [])) (\<lambda>obj.
     res_bind (as_exc (parse_version L obj False)) (\<lambda>version.
     res_bind (as_exc (require_str (jget obj ''interceptor_id'') [PKey ''interceptor_id''])) (\<lambda>interceptor_id.
     res_bind (as_exc (optional_dict (jget obj ''defaults'') [PKey ''defaults''])) (\<lambda>defaults.
     res_bind (coerce_float L (jget defaults ''max_age_s'') (Some (Fin 2))) (\<lambda>max_age.
     res_bind (as_exc (require_list_of_dicts (jget obj ''rules'') [PKey ''rules''])) (\<lambda>rules_raw.
     res_bind (parse_interlock_rules L max_age source 0 rules_raw) (\<lambda>rules.
       Inr \<lparr>rst_interceptor_id = interceptor_id, rst_defaults_max_age_s = max_age, rst_rules = rules\<rparr>)))))))"

section \<open>Telemetry\<close>

text \<open>What a rule reads: the latest samples of devices and processes, and the clock.\<close>

record telemetry_world =
  tw_latest :: "string \<Rightarrow> string \<Rightarrow> items option"
  tw_latest_process :: "(string \<Rightarrow> string \<Rightarrow> items option) option"
  tw_now_mono :: pyfloat
  tw_fmt3 :: "pyfloat \<Rightarrow> string"

definition device_or_none :: "telemetry_binding \<Rightarrow> pyval" where
  "device_or_none b = (if tb_device_id b = [] then PNone else PStr (tb_device_id b))"

definition telemetry_error :: "string \<Rightarrow> string \<Rightarrow> telemetry_binding \<Rightarrow> items option \<Rightarrow> items" where
  "telemetry_error code message b sample =
     [(''code'', PStr code), (''message'', PStr message),
      (''details'', PDict
        ([(''binding'', PStr (tb_alias b)), (''device'', device_or_none b), (''process'', opt_text (tb_process_id b)),
          (''signal'', PStr (tb_signal b)), (''max_age_s'', PFloat (tb_max_age_s b))]
         @ (case sample of
              None \<Rightarrow> []
            | Some s \<Rightarrow> [(''value'', jget s ''value''), (''quality'', jget s ''quality''),
                (''t_mono'', jget s ''t_mono''), (''t_wall'', jget s ''t_wall''), (''age_s'', jget s ''age_s'')])))]"

definition resolve_binding_age_s :: "py_lang \<Rightarrow> pyfloat \<Rightarrow> items \<Rightarrow> pyfloat option" where
  "resolve_binding_age_s L now sample =
     (if jget sample ''age_s'' \<noteq> PNone then py_float L (jget sample ''age_s'')
      else if jget sample ''t_mono'' = PNone then None
      else map_option (\<lambda>t. fsub now t) (py_float L (jget sample ''t_mono'')))"

definition optional_binding_env ::
  "py_lang \<Rightarrow> telemetry_binding \<Rightarrow> items option \<Rightarrow> bool \<Rightarrow> string \<Rightarrow> pyfloat option \<Rightarrow> items" where
  "optional_binding_env L b sample ok reason age =
     (let get = (\<lambda>k. case sample of None \<Rightarrow> PNone | Some s \<Rightarrow> jget s k) in
      [(''available'', PBool (sample \<noteq> None)), (''ok'', PBool ok), (''value'', get ''value''),
       (''units'', get ''units''),
       (''quality'', PStr (case sample of None \<Rightarrow> ''MISSING'' | Some s \<Rightarrow> py_str L (dget s ''quality'' (PStr ''MISSING'')))),
       (''t_mono'', get ''t_mono''), (''t_wall'', get ''t_wall''),
       (''age_s'', case age of None \<Rightarrow> PNone | Some a \<Rightarrow> PFloat a), (''reason'', PStr reason),
       (''device'', device_or_none b), (''process'', opt_text (tb_process_id b)), (''signal'', PStr (tb_signal b)),
       (''max_age_s'', PFloat (tb_max_age_s b))])"

definition sample_for_binding :: "telemetry_world \<Rightarrow> telemetry_binding \<Rightarrow> items option" where
  "sample_for_binding w b =
     (case tb_process_id b of
        Some p \<Rightarrow> (case tw_latest_process w of None \<Rightarrow> None | Some f \<Rightarrow> f p (tb_signal b))
      | None \<Rightarrow> tw_latest w (tb_device_id b) (tb_signal b))"

text \<open>One binding: the value its alias gets, or the error that ends the rule.\<close>

definition resolve_binding :: "py_lang \<Rightarrow> telemetry_world \<Rightarrow> telemetry_binding \<Rightarrow> items + items" where
  "resolve_binding L w b =
     (let src = tb_source_id b @ ''.'' @ tb_signal b in
      case sample_for_binding w b of
        None \<Rightarrow>
          if \<not> tb_required b then Inr (optional_binding_env L b None False ''missing'' None)
          else Inl (telemetry_error ''TELEMETRY_MISSING'' (''Telemetry missing for '' @ src) b None)
      | Some s \<Rightarrow>
          let quality = py_str L (dget s ''quality'' (PStr ''MISSING'')) in
          if py_upper quality \<noteq> ''OK'' then
            if \<not> tb_required b
            then Inr (optional_binding_env L b (Some s) False (''quality='' @ quality)
                        (resolve_binding_age_s L (tw_now_mono w) s))
            else Inl (telemetry_error ''TELEMETRY_NOT_OK'' (''Telemetry not OK for '' @ src) b (Some s))
          else case resolve_binding_age_s L (tw_now_mono w) s of
            None \<Rightarrow>
              if \<not> tb_required b
              then Inr (optional_binding_env L b (Some s) False ''missing timestamp'' None)
              else Inl (telemetry_error ''TELEMETRY_MISSING'' (''Telemetry missing timestamp for '' @ src) b (Some s))
          | Some age \<Rightarrow>
              if flt (tb_max_age_s b) age then
                if \<not> tb_required b
                then Inr (optional_binding_env L b (Some s) False (''stale: age='' @ tw_fmt3 w age @ ''s'') (Some age))
                else Inl (case telemetry_error ''TELEMETRY_STALE'' (''Telemetry stale for '' @ src) b (Some s) of
                       err \<Rightarrow> (case as_dict (jget err ''details'') of
                                 Some d \<Rightarrow> dset ''details'' (PDict (dset ''age_s'' (PFloat age) d)) err
                               | None \<Rightarrow> err))
              else Inr
                [(''available'', PBool True), (''ok'', PBool True), (''value'', jget s ''value''),
                 (''units'', jget s ''units''), (''quality'', PStr quality), (''t_mono'', jget s ''t_mono''),
                 (''t_wall'', jget s ''t_wall''), (''age_s'', PFloat age), (''reason'', PNone),
                 (''device'', device_or_none b), (''process'', opt_text (tb_process_id b)),
                 (''signal'', PStr (tb_signal b)), (''max_age_s'', PFloat (tb_max_age_s b))])"

fun resolve_bindings :: "py_lang \<Rightarrow> telemetry_world \<Rightarrow> telemetry_binding list \<Rightarrow> items \<Rightarrow> items + items" where
  "resolve_bindings L w [] env = Inr env"
| "resolve_bindings L w (b # bs) env =
     (case resolve_binding L w b of
        Inl err \<Rightarrow> Inl err
      | Inr v \<Rightarrow> resolve_bindings L w bs (dset (tb_alias b) (to_attrdict (PDict v)) env))"

definition resolve_interlock_telemetry_env :: "py_lang \<Rightarrow> telemetry_world \<Rightarrow> rule \<Rightarrow> items + items" where
  "resolve_interlock_telemetry_env L w r = resolve_bindings L w (ru_telemetry r) []"

section \<open>The verdict of a rule\<close>

datatype verdict = Allow | Transform items | Reject items

definition condition_failed_error :: "rule \<Rightarrow> items" where
  "condition_failed_error r =
     (let pick = (\<lambda>o' d. case o' of Some (c # cs) \<Rightarrow> c # cs | _ \<Rightarrow> d) in
      [(''code'', PStr (pick (ru_on_block_code r) ''CONDITION_FAILED'')),
       (''message'', PStr (pick (ru_on_block_message r) ''Command rejected by interceptor'')),
       (''details'', PDict [])])"

definition transform_error :: "string \<Rightarrow> items" where
  "transform_error msg =
     [(''code'', PStr ''TRANSFORM_ERROR''), (''message'', PStr (if msg = [] then ''Transform failed'' else msg)),
      (''details'', PDict [])]"

definition apply_interlock_transform :: "eval_lang \<Rightarrow> rule \<Rightarrow> items \<Rightarrow> items \<Rightarrow> items + items option" where
  "apply_interlock_transform E r cmd env =
     (case ru_allow_transform_params r of
        None \<Rightarrow> Inr None
      | Some ps \<Rightarrow>
          (case render_templates E (PDict ps) env of
             Inl e \<Rightarrow> Inl (transform_error (eval_error_text e))
           | Inr rendered \<Rightarrow>
               (case (as_dict rendered, as_dict (dget cmd ''params'' (PDict []))) of
                  (Some new, Some old) \<Rightarrow>
                    Inr (Some [(''device_id'', jget cmd ''device_id''), (''action'', jget cmd ''action''),
                               (''params'', PDict (dict_update old new))])
                | (None, _) \<Rightarrow> Inl (transform_error ''allow_transform.params must be a dict'')
                | (_, None) \<Rightarrow> Inl (transform_error (op_error_text E ''dict'' [jget cmd ''params''])))))"

definition build_interlock_env :: "items \<Rightarrow> items" where
  "build_interlock_env cmd =
     [(''params'', to_attrdict (dget cmd ''params'' (PDict []))), (''device_id'', jget cmd ''device_id''),
      (''action'', jget cmd ''action'')]"

text \<open>
  The verdict, and the exception the condition raised if it did, which the process reports.
\<close>

definition evaluate_interlock_rule ::
  "eval_lang \<Rightarrow> telemetry_world \<Rightarrow> rule \<Rightarrow> items \<Rightarrow> verdict \<times> eval_error option" where
  "evaluate_interlock_rule E w r cmd =
     (case resolve_interlock_telemetry_env (plain E) w r of
        Inl err \<Rightarrow> (Reject err, None)
      | Inr tenv \<Rightarrow>
          let env = dict_update (build_interlock_env cmd) tenv in
          (case eval_condition E env (ru_condition r) of
             Inl e \<Rightarrow> (Reject (condition_failed_error r), Some e)
           | Inr False \<Rightarrow> (Reject (condition_failed_error r), None)
           | Inr True \<Rightarrow>
               (case apply_interlock_transform E r cmd env of
                  Inl err \<Rightarrow> (Reject err, None)
                | Inr (Some new_cmd) \<Rightarrow> (Transform new_cmd, None)
                | Inr None \<Rightarrow> (Allow, None))))"

section \<open>The process\<close>

record interlock =
  ip_process_id :: string
  ip_entries :: "(string \<times> ruleset_entry) list"
  ip_order :: "string list"
  ip_rule_enabled :: "((string \<times> string) \<times> bool) list"
  ip_rule_error_last :: "((string \<times> string) \<times> pyfloat) list"
  ip_rule_error_events :: "pyval list"

definition drop_rule_states :: "string \<Rightarrow> interlock \<Rightarrow> interlock" where
  "drop_rule_states iid p = p\<lparr>ip_rule_enabled := filter (\<lambda>(k, _). fst k \<noteq> iid) (ip_rule_enabled p)\<rparr>"

definition set_default_rule_states :: "string \<Rightarrow> ruleset \<Rightarrow> interlock \<Rightarrow> interlock" where
  "set_default_rule_states iid rs p =
     (let p1 = drop_rule_states iid p
      in p1\<lparr>ip_rule_enabled :=
           foldl (\<lambda>acc r. dset (iid, ru_rule_id r) True acc) (ip_rule_enabled p1) (rst_rules rs)\<rparr>)"

definition rule_enabled_state :: "interlock \<Rightarrow> string \<Rightarrow> string \<Rightarrow> bool" where
  "rule_enabled_state p iid rid = dget (ip_rule_enabled p) (iid, rid) True"

definition iter_ruleset_entries :: "interlock \<Rightarrow> bool \<Rightarrow> ruleset_entry list" where
  "iter_ruleset_entries p enabled_only =
     filter (\<lambda>e. \<not> enabled_only \<or> re_enabled e)
       (List.map_filter (\<lambda>iid. map_of (ip_entries p) iid) (ip_order p))"

text \<open>The rules in force, in the order they are tried, with their interceptor.\<close>

definition active_rules :: "interlock \<Rightarrow> (string \<times> rule) list" where
  "active_rules p =
     concat (map (\<lambda>e. let iid = rst_interceptor_id (re_ruleset e) in
        map (\<lambda>r. (iid, r)) (filter (\<lambda>r. rule_enabled_state p iid (ru_rule_id r)) (rst_rules (re_ruleset e))))
       (iter_ruleset_entries p True))"

fun distinct_routes :: "(string \<times> string) list \<Rightarrow> (string \<times> string) list \<Rightarrow> (string \<times> string) list" where
  "distinct_routes [] seen = []"
| "distinct_routes (k # ks) seen =
     (if k \<in> set seen then distinct_routes ks seen else k # distinct_routes ks (k # seen))"

definition route_payload :: "string \<times> string \<Rightarrow> pyval" where
  "route_payload k = PDict [(''device_id'', PStr (fst k)), (''action'', PStr (snd k))]"

definition routes_for_enabled_rules :: "interlock \<Rightarrow> pyval list" where
  "routes_for_enabled_rules p =
     map route_payload (distinct_routes (map (\<lambda>(_, r). (ru_device_id r, ru_action r)) (active_rules p)) [])"

definition collect_routes :: "ruleset \<Rightarrow> pyval list" where
  "collect_routes rs =
     map route_payload (distinct_routes (map (\<lambda>r. (ru_device_id r, ru_action r)) (rst_rules rs)) [])"

text \<open>The manager call; \<open>PNone\<close> is no response.\<close>

definition register_routes :: "py_lang \<Rightarrow> (pyval \<Rightarrow> pyexc + pyval) \<Rightarrow> interlock \<Rightarrow> pyexc + unit" where
  "register_routes L call p =
     res_bind (call (PDict [(''type'', PStr ''manager.interceptors.register''),
         (''process_id'', PStr (ip_process_id p)), (''routes'', PList (routes_for_enabled_rules p)),
         (''replace'', PBool True)])) (\<lambda>resp.
       if resp = PNone then Inl (RuntimeError ''Failed to register interlock routes: no response'')
       else case as_dict resp of
         None \<Rightarrow> Inl (RuntimeError (''Failed to register interlock routes: '' @ py_str L resp))
       | Some d \<Rightarrow>
           if \<not> truthy (dget d ''ok'' (PBool False))
           then Inl (RuntimeError (''Failed to register interlock routes: '' @ py_str L resp))
           else Inr ())"

text \<open>The state after the constructor has taken in the rulesets it is given.\<close>

fun add_rulesets :: "ruleset_entry list \<Rightarrow> interlock \<Rightarrow> pyexc + interlock" where
  "add_rulesets [] p = Inr p"
| "add_rulesets (e # es) p =
     (let iid = rst_interceptor_id (re_ruleset e) in
      if dhas (ip_entries p) iid then Inl (ValueError (''Duplicate interceptor_id '' @ repr_str iid))
      else add_rulesets es (set_default_rule_states iid (re_ruleset e)
             (p\<lparr>ip_entries := dset iid e (ip_entries p), ip_order := ip_order p @ [iid]\<rparr>)))"

definition interlock_init ::
  "py_lang \<Rightarrow> (pyval \<Rightarrow> pyexc + pyval) \<Rightarrow> string \<Rightarrow> ruleset_entry list \<Rightarrow> pyexc + interlock" where
  "interlock_init L call pid entries =
     res_bind (add_rulesets entries
         \<lparr>ip_process_id = pid, ip_entries = [], ip_order = [], ip_rule_enabled = [], ip_rule_error_last = [],
          ip_rule_error_events = []\<rparr>) (\<lambda>p.
     res_bind (register_routes L call p) (\<lambda>_. Inr p))"

section \<open>RPC handlers\<close>

definition rpc_error :: "pyval \<Rightarrow> items \<Rightarrow> pyval" where
  "rpc_error req_id err = PDict [(''request_id'', req_id), (''ok'', PBool False), (''error'', PDict err)]"

definition rpc_ok :: "pyval \<Rightarrow> pyval \<Rightarrow> pyval" where
  "rpc_ok req_id result = PDict [(''request_id'', req_id), (''ok'', PBool True), (''result'', result)]"

definition code_only :: "string \<Rightarrow> items" where
  "code_only c = [(''code'', PStr c)]"

definition code_msg :: "string \<Rightarrow> string \<Rightarrow> items" where
  "code_msg c msg = [(''code'', PStr c), (''message'', PStr msg)]"

definition req_params :: "items \<Rightarrow> items option" where
  "req_params req = as_dict (py_or (dget req ''params'' (PDict [])) (PDict []))"

definition binding_payload :: "telemetry_binding \<Rightarrow> pyval" where
  "binding_payload b =
     PDict [(''as'', PStr (tb_alias b)), (''device_id'', device_or_none b),
            (''process_id'', opt_text (tb_process_id b)), (''signal'', PStr (tb_signal b)),
            (''max_age_s'', PFloat (tb_max_age_s b)), (''required'', PBool (tb_required b))]"

definition rule_status_payload :: "interlock \<Rightarrow> string \<Rightarrow> rule \<Rightarrow> pyval" where
  "rule_status_payload p iid r =
     PDict [(''rule_id'', PStr (ru_rule_id r)), (''name'', PStr (ru_name r)),
       (''enabled'', PBool (rule_enabled_state p iid (ru_rule_id r))),
       (''match'', PDict [(''device_id'', PStr (ru_device_id r)), (''action'', PStr (ru_action r))]),
       (''telemetry'', PList (map binding_payload (ru_telemetry r))), (''condition'', ru_condition r),
       (''on_block'', PDict [(''code'', opt_text (ru_on_block_code r)), (''message'', opt_text (ru_on_block_message r))]),
       (''has_allow_transform'', PBool (ru_allow_transform_params r \<noteq> None))]"

definition enabled_rule_count :: "interlock \<Rightarrow> ruleset \<Rightarrow> nat" where
  "enabled_rule_count p rs =
     length (filter (\<lambda>r. rule_enabled_state p (rst_interceptor_id rs) (ru_rule_id r)) (rst_rules rs))"

definition entry_summary :: "interlock \<Rightarrow> ruleset_entry \<Rightarrow> items" where
  "entry_summary p e =
     (let rs = re_ruleset e in
      [(''interceptor_id'', PStr (rst_interceptor_id rs)), (''enabled'', PBool (re_enabled e)),
       (''source'', opt_text (re_source e)), (''rule_count'', PInt (int (length (rst_rules rs)))),
       (''enabled_rule_count'', PInt (int (enabled_rule_count p rs))), (''routes'', PList (collect_routes rs))])"

definition rpc_interlock_list :: "items \<Rightarrow> interlock \<Rightarrow> pyval" where
  "rpc_interlock_list req p =
     rpc_ok (jget req ''request_id'') (PDict [(''interceptors'',
       PList (map (\<lambda>e. PDict (entry_summary p e)) (iter_ruleset_entries p False)))])"

definition rpc_interlock_status :: "items \<Rightarrow> interlock \<Rightarrow> pyval" where
  "rpc_interlock_status req p =
     rpc_ok (jget req ''request_id'') (PDict [(''interceptors'',
       PList (map (\<lambda>e. PDict (entry_summary p e @
         [(''rules'', PList (map (rule_status_payload p (rst_interceptor_id (re_ruleset e)))
                                  (rst_rules (re_ruleset e))))])) (iter_ruleset_entries p False)))])"

text \<open>Loading: the file (with its resolved name) and the text are read by the YAML loader.\<close>

record yaml_world =
  yw_file :: "string \<Rightarrow> pyexc + string \<times> pyval"
  yw_text :: "string \<Rightarrow> string \<Rightarrow> pyexc + pyval"

definition rpc_interlock_load_prepare ::
  "py_lang \<Rightarrow> yaml_world \<Rightarrow> pyval \<Rightarrow> items \<Rightarrow> pyval + ruleset \<times> string \<times> bool \<times> pyval" where
  "rpc_interlock_load_prepare L y req_id params =
     (let path = jget params ''path''; text = jget params ''text'';
          replace = truthy (dget params ''replace'' (PBool True)) in
      if (path = PNone) = (text = PNone)
      then Inl (rpc_error req_id (code_msg ''invalid_load'' ''path or text required''))
      else
      let source = (if path \<noteq> PNone then py_str L path
                    else py_str L (py_or (jget params ''source'') (PStr ''rpc'')));
          loaded = (if path \<noteq> PNone
                    then res_bind (yw_file y (py_str L path)) (\<lambda>(resolved, raw). parse_ruleset L resolved raw)
                    else res_bind (yw_text y (py_str L text) source) (\<lambda>raw. parse_ruleset L source raw))
      in case loaded of
           Inl e \<Rightarrow> Inl (rpc_error req_id (code_msg ''load_failed'' (exc_text e)))
         | Inr rs \<Rightarrow> Inr (rs, source, replace, jget params ''enable''))"

definition restore_rule_states :: "string \<Rightarrow> (string \<times> bool) list \<Rightarrow> interlock \<Rightarrow> interlock" where
  "restore_rule_states iid prev p =
     (let p1 = drop_rule_states iid p
      in p1\<lparr>ip_rule_enabled := foldl (\<lambda>acc (rid, st). dset (iid, rid) st acc) (ip_rule_enabled p1) prev\<rparr>)"

definition rpc_interlock_apply_loaded_ruleset ::
  "py_lang \<Rightarrow> (pyval \<Rightarrow> pyexc + pyval) \<Rightarrow> pyval \<Rightarrow> ruleset \<Rightarrow> string \<Rightarrow> bool \<Rightarrow> pyval \<Rightarrow> interlock
    \<Rightarrow> pyval \<times> interlock" where
  "rpc_interlock_apply_loaded_ruleset L call req_id rs source replace enable_param p =
     (let iid = rst_interceptor_id rs; existing = map_of (ip_entries p) iid in
      if existing \<noteq> None \<and> \<not> replace then (rpc_error req_id (code_only ''interceptor_exists''), p)
      else
      let enabled = (if enable_param = PNone
                     then (case existing of Some e \<Rightarrow> re_enabled e | None \<Rightarrow> True)
                     else truthy enable_param);
          prev = List.map_filter (\<lambda>((i, rid), st). if i = iid then Some (rid, st) else None) (ip_rule_enabled p);
          entry = \<lparr>re_ruleset = rs, re_enabled = enabled, re_source = Some source\<rparr>;
          p1 = p\<lparr>ip_entries := dset iid entry (ip_entries p),
                 ip_order := (if existing = None then ip_order p @ [iid] else ip_order p)\<rparr>;
          p2 = set_default_rule_states iid rs p1
      in case register_routes L call p2 of
           Inl e \<Rightarrow>
             let p3 = (case existing of
                         None \<Rightarrow> p2\<lparr>ip_entries := dpop iid (ip_entries p2),
                                    ip_order := filter (\<lambda>c. c \<noteq> iid) (ip_order p2)\<rparr>
                       | Some old \<Rightarrow> p2\<lparr>ip_entries := dset iid old (ip_entries p2)\<rparr>)
             in (rpc_error req_id (code_msg ''route_update_failed'' (exc_text e)), restore_rule_states iid prev p3)
         | Inr _ \<Rightarrow>
             (rpc_ok req_id (PDict [(''interceptor_id'', PStr iid), (''enabled'', PBool enabled)]), p2))"

definition rpc_interlock_load ::
  "py_lang \<Rightarrow> yaml_world \<Rightarrow> (pyval \<Rightarrow> pyexc + pyval) \<Rightarrow> items \<Rightarrow> interlock \<Rightarrow> pyval \<times> interlock" where
  "rpc_interlock_load L y call req p =
     (let req_id = jget req ''request_id'' in
      case req_params req of
        None \<Rightarrow> (rpc_error req_id (code_only ''invalid_params''), p)
      | Some params \<Rightarrow>
          (case rpc_interlock_load_prepare L y req_id params of
             Inl resp \<Rightarrow> (resp, p)
           | Inr (rs, source, replace, enable_param) \<Rightarrow>
               rpc_interlock_apply_loaded_ruleset L call req_id rs source replace enable_param p))"

definition set_enabled :: "string \<Rightarrow> bool \<Rightarrow> interlock \<Rightarrow> interlock" where
  "set_enabled iid b p =
     (case map_of (ip_entries p) iid of
        None \<Rightarrow> p
      | Some e \<Rightarrow> p\<lparr>ip_entries := dset iid (e\<lparr>re_enabled := b\<rparr>) (ip_entries p)\<rparr>)"

definition rpc_interlock_enable_disable ::
  "py_lang \<Rightarrow> (pyval \<Rightarrow> pyexc + pyval) \<Rightarrow> bool \<Rightarrow> items \<Rightarrow> interlock \<Rightarrow> pyval \<times> interlock" where
  "rpc_interlock_enable_disable L call enable req p =
     (let req_id = jget req ''request_id'' in
      case req_params req of
        None \<Rightarrow> (rpc_error req_id (code_only ''invalid_params''), p)
      | Some params \<Rightarrow>
          let iid = py_str L (dget params ''interceptor_id'' (PStr '''')) in
          if iid = [] then (rpc_error req_id (code_only ''missing_interceptor_id''), p)
          else (case map_of (ip_entries p) iid of
             None \<Rightarrow> (rpc_error req_id (code_only ''unknown_interceptor''), p)
           | Some entry \<Rightarrow>
               let p1 = set_enabled iid enable p in
               (case register_routes L call p1 of
                  Inl e \<Rightarrow> (rpc_error req_id (code_msg ''route_update_failed'' (exc_text e)),
                            set_enabled iid (re_enabled entry) p1)
                | Inr _ \<Rightarrow> (rpc_ok req_id (PDict [(''interceptor_id'', PStr iid), (''enabled'', PBool enable)]), p1))))"

definition rpc_interlock_enable_rule_disable_rule ::
  "py_lang \<Rightarrow> (pyval \<Rightarrow> pyexc + pyval) \<Rightarrow> bool \<Rightarrow> items \<Rightarrow> interlock \<Rightarrow> pyval \<times> interlock" where
  "rpc_interlock_enable_rule_disable_rule L call enable req p =
     (let req_id = jget req ''request_id'' in
      case req_params req of
        None \<Rightarrow> (rpc_error req_id (code_only ''invalid_params''), p)
      | Some params \<Rightarrow>
          let iid = py_strip (py_str L (dget params ''interceptor_id'' (PStr '''')));
              rid = py_strip (py_str L (dget params ''rule_id'' (PStr ''''))) in
          if iid = [] then (rpc_error req_id (code_only ''missing_interceptor_id''), p)
          else if rid = [] then (rpc_error req_id (code_only ''missing_rule_id''), p)
          else (case map_of (ip_entries p) iid of
             None \<Rightarrow> (rpc_error req_id (code_only ''unknown_interceptor''), p)
           | Some entry \<Rightarrow>
               if \<not> list_ex (\<lambda>r. ru_rule_id r = rid) (rst_rules (re_ruleset entry))
               then (rpc_error req_id (code_only ''unknown_rule''), p)
               else
               let prev = rule_enabled_state p iid rid;
                   p1 = p\<lparr>ip_rule_enabled := dset (iid, rid) enable (ip_rule_enabled p)\<rparr> in
               (case register_routes L call p1 of
                  Inl e \<Rightarrow> (rpc_error req_id (code_msg ''route_update_failed'' (exc_text e)),
                            p1\<lparr>ip_rule_enabled := dset (iid, rid) prev (ip_rule_enabled p1)\<rparr>)
                | Inr _ \<Rightarrow> (rpc_ok req_id (PDict [(''interceptor_id'', PStr iid), (''rule_id'', PStr rid),
                               (''enabled'', PBool enable)]), p1))))"

definition rpc_interlock_enable_all_disable_all ::
  "py_lang \<Rightarrow> (pyval \<Rightarrow> pyexc + pyval) \<Rightarrow> bool \<Rightarrow> items \<Rightarrow> interlock \<Rightarrow> pyval \<times> interlock" where
  "rpc_interlock_enable_all_disable_all L call enable req p =
     (let req_id = jget req ''request_id'';
          prev = map (\<lambda>(iid, e). (iid, re_enabled e)) (ip_entries p);
          p1 = p\<lparr>ip_entries := map (\<lambda>(iid, e). (iid, e\<lparr>re_enabled := enable\<rparr>)) (ip_entries p)\<rparr>
      in case register_routes L call p1 of
           Inl e \<Rightarrow> (rpc_error req_id (code_msg ''route_update_failed'' (exc_text e)),
                     foldl (\<lambda>q (iid, was). set_enabled iid was q) p1 prev)
         | Inr _ \<Rightarrow> (rpc_ok req_id (PDict [(''enabled'', PBool enable),
                        (''count'', PInt (int (length (ip_entries p))))]), p1))"

section \<open>The check\<close>

definition check_request_command :: "items \<Rightarrow> pyval" where
  "check_request_command req =
     (if jget req ''command'' \<noteq> PNone then jget req ''command''
      else case as_dict (jget req ''params'') of None \<Rightarrow> PNone | Some d \<Rightarrow> jget d ''command'')"

definition rule_matches :: "rule \<Rightarrow> string \<Rightarrow> string \<Rightarrow> bool" where
  "rule_matches r device_id action =
     (if ru_device_id r \<noteq> ''*'' \<and> ru_device_id r \<noteq> device_id then False
      else if ru_action r \<noteq> ''*'' \<and> ru_action r \<noteq> action then False else True)"

fun exc_class :: "pyexc \<Rightarrow> string" where
  "exc_class (TypeError _) = ''TypeError''"
| "exc_class (ValueError _) = ''ValueError''"
| "exc_class (KeyError _) = ''KeyError''"
| "exc_class (AttributeError _) = ''AttributeError''"
| "exc_class (RuntimeError _) = ''RuntimeError''"
| "exc_class (OtherError _) = ''Exception''"

fun eval_error_repr :: "eval_error \<Rightarrow> string" where
  "eval_error_repr (UnknownNameError msg _) = ''UnknownNameError('' @ repr_str msg @ '')''"
| "eval_error_repr (ValueTooLargeError msg) = ''ValueTooLargeError('' @ repr_str msg @ '')''"
| "eval_error_repr (OperandError msg _) = ''OperandError('' @ repr_str msg @ '')''"
| "eval_error_repr (TemplateError msg) = ''TemplateError('' @ repr_str msg @ '')''"
| "eval_error_repr (EvalRaised e) = exc_class e @ ''('' @ repr_str (exc_text e) @ '')''"

text \<open>The callback for a condition that raised: at most one event per rule every 30 seconds.\<close>

definition condition_error_callback :: "pyfloat \<Rightarrow> string \<Rightarrow> string \<Rightarrow> eval_error \<Rightarrow> interlock \<Rightarrow> interlock" where
  "condition_error_callback now iid rule_name e p =
     (let key = (iid, rule_name);
          recent = (case map_of (ip_rule_error_last p) key of None \<Rightarrow> False | Some last_t \<Rightarrow> flt (fsub now last_t) (Fin 30))
      in if recent then p
         else p\<lparr>ip_rule_error_last := dset key now (ip_rule_error_last p),
                ip_rule_error_events := ip_rule_error_events p @
                  [PDict [(''process_id'', PStr (ip_process_id p)), (''interceptor_id'', PStr iid),
                          (''rule'', PStr rule_name), (''error'', PStr (eval_error_repr e))]]\<rparr>)"

text \<open>
  The loop over the rules in force. The result is the rejecting rule with its error, or the
  command with the last rule that changed it.
\<close>

fun check_loop ::
  "eval_lang \<Rightarrow> telemetry_world \<Rightarrow> pyfloat \<Rightarrow> string \<Rightarrow> string \<Rightarrow> (string \<times> rule) list \<Rightarrow> items
    \<Rightarrow> (string \<times> string) option \<Rightarrow> interlock
    \<Rightarrow> ((string \<times> string \<times> items) + items \<times> (string \<times> string) option) \<times> interlock" where
  "check_loop E w now device_id action [] cur last_rule p = (Inr (cur, last_rule), p)"
| "check_loop E w now device_id action ((iid, r) # rs) cur last_rule p =
     (if \<not> rule_matches r device_id action then check_loop E w now device_id action rs cur last_rule p
      else
      case evaluate_interlock_rule E w r cur of
        (v, exc) \<Rightarrow>
          let p' = (case exc of None \<Rightarrow> p | Some e \<Rightarrow> condition_error_callback now iid (ru_name r) e p) in
          (case v of
             Reject err \<Rightarrow> (Inl (iid, ru_name r, err), p')
           | Transform new_cmd \<Rightarrow> check_loop E w now device_id action rs new_cmd (Some (iid, ru_name r)) p'
           | Allow \<Rightarrow> check_loop E w now device_id action rs cur last_rule p'))"

definition rpc_interlock_check ::
  "eval_lang \<Rightarrow> telemetry_world \<Rightarrow> pyfloat \<Rightarrow> items \<Rightarrow> interlock \<Rightarrow> pyval \<times> interlock" where
  "rpc_interlock_check E w now req p =
     (let req_id = jget req ''request_id''; L = plain E in
      case as_dict (check_request_command req) of
        None \<Rightarrow> (rpc_error req_id (code_only ''invalid_command''), p)
      | Some command \<Rightarrow>
          let device_id = py_str L (dget command ''device_id'' (PStr ''''));
              action = py_str L (dget command ''action'' (PStr ''''));
              params = dget command ''params'' (PDict []) in
          if device_id = [] \<or> action = [] \<or> \<not> is_dict params
          then (rpc_error req_id (code_only ''invalid_command''), p)
          else
          let cur = [(''device_id'', PStr device_id), (''action'', PStr action), (''params'', params)] in
          (case check_loop E w now device_id action (active_rules p) cur None p of
             (Inl (iid, name, err), p') \<Rightarrow>
               (PDict [(''request_id'', req_id), (''ok'', PBool True), (''allow'', PBool False),
                       (''interceptor_id'', PStr iid), (''rule'', PStr name), (''error'', PDict err)], p')
           | (Inr (cmd, None), p') \<Rightarrow>
               (PDict [(''request_id'', req_id), (''ok'', PBool True), (''allow'', PBool True)], p')
           | (Inr (cmd, Some (iid, name)), p') \<Rightarrow>
               (PDict [(''request_id'', req_id), (''ok'', PBool True), (''allow'', PBool True),
                       (''command'', PDict cmd), (''interceptor_id'', PStr iid), (''rule'', PStr name),
                       (''note'', PStr ''transformed'')], p')))"

end
