(* ===== verification/Interlock_Proofs.thy ===== *)
theory Interlock_Proofs
  imports Interlock Command_Interceptors_Proofs
begin

text \<open>
  Laws of the interlock: what a rule that lets a command pass has established, the outcome
  of every other case, the invariant of the process, and that a change of the rules and
  the routes the manager was told go together.
\<close>

section \<open>Telemetry\<close>

text \<open>A sample a rule may rely on: present, of quality OK, with an age within the limit.\<close>

definition binding_fresh :: "py_lang \<Rightarrow> telemetry_world \<Rightarrow> telemetry_binding \<Rightarrow> bool" where
  "binding_fresh L w b =
     (case sample_for_binding w b of
        None \<Rightarrow> False
      | Some s \<Rightarrow>
          py_upper (py_str L (dget s ''quality'' (PStr ''MISSING''))) = ''OK'' \<and>
          (case resolve_binding_age_s L (tw_now_mono w) s of
             None \<Rightarrow> False
           | Some age \<Rightarrow> \<not> flt (tb_max_age_s b) age))"

definition telemetry_codes :: "pyval list" where
  "telemetry_codes = [PStr ''TELEMETRY_MISSING'', PStr ''TELEMETRY_NOT_OK'', PStr ''TELEMETRY_STALE'']"

lemma resolve_binding_fresh:
  "binding_fresh L w b \<Longrightarrow>
    \<exists>v s. resolve_binding L w b = Inr v \<and> sample_for_binding w b = Some s
      \<and> jget v ''ok'' = PBool True \<and> jget v ''value'' = jget s ''value''"
  by (auto simp: resolve_binding_def binding_fresh_def Let_def split: option.splits)

lemma resolve_binding_not_fresh:
  "\<not> binding_fresh L w b \<Longrightarrow>
    (if tb_required b then \<exists>err. resolve_binding L w b = Inl err \<and> jget err ''code'' \<in> set telemetry_codes
     else \<exists>v. resolve_binding L w b = Inr v \<and> jget v ''ok'' = PBool False)"
  by (auto simp: resolve_binding_def binding_fresh_def Let_def telemetry_error_def telemetry_codes_def
      optional_binding_env_def dict_simps split: option.splits)

lemma resolve_bindings_Inr:
  "(\<exists>env'. resolve_bindings L w bs env = Inr env') \<longleftrightarrow>
    (\<forall>b\<in>set bs. tb_required b \<longrightarrow> binding_fresh L w b)"
proof (induction bs arbitrary: env)
  case (Cons b bs)
  show ?case
  proof (cases "binding_fresh L w b")
    case True
    then obtain v where "resolve_binding L w b = Inr v" using resolve_binding_fresh by blast
    with True Cons.IH [of "dset (tb_alias b) (to_attrdict (PDict v)) env"] show ?thesis by simp
  next
    case False
    show ?thesis
    proof (cases "tb_required b")
      case True
      with resolve_binding_not_fresh [OF False] False show ?thesis by auto
    next
      case opt: False
      then obtain v where "resolve_binding L w b = Inr v" using resolve_binding_not_fresh [OF False] by auto
      with opt Cons.IH [of "dset (tb_alias b) (to_attrdict (PDict v)) env"] show ?thesis by simp
    qed
  qed
qed simp

lemma resolve_bindings_Inl:
  "resolve_bindings L w bs env = Inl err \<Longrightarrow> jget err ''code'' \<in> set telemetry_codes"
proof (induction bs arbitrary: env)
  case (Cons b bs)
  show ?case
  proof (cases "binding_fresh L w b")
    case True
    with resolve_binding_fresh [OF True] Cons show ?thesis by auto
  next
    case False
    with resolve_binding_not_fresh [OF False] Cons show ?thesis by (cases "tb_required b") auto
  qed
qed simp

section \<open>The verdict\<close>

text \<open>The environment a rule's condition is evaluated in, for telemetry that resolves.\<close>

definition rule_env :: "eval_lang \<Rightarrow> telemetry_world \<Rightarrow> rule \<Rightarrow> items \<Rightarrow> items" where
  "rule_env E w r cmd =
     (case resolve_interlock_telemetry_env (plain E) w r of
        Inl _ \<Rightarrow> []
      | Inr tenv \<Rightarrow> dict_update (build_interlock_env cmd) tenv)"

text \<open>What a rule demands of a command: fresh required telemetry, and its condition.\<close>

definition telemetry_ok :: "eval_lang \<Rightarrow> telemetry_world \<Rightarrow> rule \<Rightarrow> bool" where
  "telemetry_ok E w r \<longleftrightarrow> (\<forall>b\<in>set (ru_telemetry r). tb_required b \<longrightarrow> binding_fresh (plain E) w b)"

definition rule_holds :: "eval_lang \<Rightarrow> telemetry_world \<Rightarrow> rule \<Rightarrow> items \<Rightarrow> bool" where
  "rule_holds E w r cmd \<longleftrightarrow>
     telemetry_ok E w r \<and> eval_condition E (rule_env E w r cmd) (ru_condition r) = Inr True"

lemma telemetry_ok_iff:
  "telemetry_ok E w r \<longleftrightarrow> (\<exists>tenv. resolve_interlock_telemetry_env (plain E) w r = Inr tenv)"
  by (simp add: telemetry_ok_def resolve_interlock_telemetry_env_def resolve_bindings_Inr)

lemma verdict_not_ok:
  assumes "\<not> telemetry_ok E w r"
  shows "\<exists>err. evaluate_interlock_rule E w r cmd = (Reject err, None) \<and> jget err ''code'' \<in> set telemetry_codes"
proof -
  from assms obtain err where e: "resolve_interlock_telemetry_env (plain E) w r = Inl err"
    unfolding telemetry_ok_iff by (cases "resolve_interlock_telemetry_env (plain E) w r") auto
  then have "jget err ''code'' \<in> set telemetry_codes"
    using resolve_bindings_Inl by (simp add: resolve_interlock_telemetry_env_def)
  with e show ?thesis by (simp add: evaluate_interlock_rule_def)
qed

lemma verdict_ok:
  assumes "telemetry_ok E w r"
  shows "evaluate_interlock_rule E w r cmd =
    (case eval_condition E (rule_env E w r cmd) (ru_condition r) of
       Inl e \<Rightarrow> (Reject (condition_failed_error r), Some e)
     | Inr False \<Rightarrow> (Reject (condition_failed_error r), None)
     | Inr True \<Rightarrow>
         (case apply_interlock_transform E r cmd (rule_env E w r cmd) of
            Inl err \<Rightarrow> (Reject err, None)
          | Inr (Some new_cmd) \<Rightarrow> (Transform new_cmd, None)
          | Inr None \<Rightarrow> (Allow, None)))"
proof -
  from assms obtain tenv where t: "resolve_interlock_telemetry_env (plain E) w r = Inr tenv"
    unfolding telemetry_ok_iff by blast
  then have env: "rule_env E w r cmd = dict_update (build_interlock_env cmd) tenv" by (simp add: rule_env_def)
  show ?thesis unfolding evaluate_interlock_rule_def t env by (simp add: Let_def)
qed

definition passes :: "verdict \<Rightarrow> bool" where
  "passes v \<longleftrightarrow> (\<forall>err. v \<noteq> Reject err)"

lemma passes_holds:
  assumes "passes (fst (evaluate_interlock_rule E w r cmd))"
  shows "rule_holds E w r cmd"
proof -
  have "telemetry_ok E w r"
    using assms verdict_not_ok [of E w r cmd] unfolding passes_def by (metis fst_conv)
  then show ?thesis using assms
    by (auto simp: verdict_ok rule_holds_def passes_def split: sum.splits option.splits bool.splits)
qed

lemma holds_passes:
  "ru_allow_transform_params r = None \<Longrightarrow> rule_holds E w r cmd \<longleftrightarrow> evaluate_interlock_rule E w r cmd = (Allow, None)"
  using passes_holds [of E w r cmd]
  by (auto simp: passes_def rule_holds_def verdict_ok apply_interlock_transform_def)

lemma transform_target:
  assumes "fst (evaluate_interlock_rule E w r cmd) = Transform c" "command_target d a cmd"
  shows "command_target d a c \<and> (\<exists>ps. jget c ''params'' = PDict ps)"
  using assms
  by (auto simp: evaluate_interlock_rule_def apply_interlock_transform_def command_target_def Let_def
      split: sum.splits option.splits bool.splits prod.splits)


section \<open>The loop over the rules\<close>

lemma check_loop_step:
  "rule_matches r d a \<Longrightarrow> check_loop E w now d a ((iid, r) # rs) cur lr p =
    (let (v, exc) = evaluate_interlock_rule E w r cur;
         p' = (case exc of None \<Rightarrow> p | Some e \<Rightarrow> condition_error_callback now iid (ru_name r) e p)
     in case v of
          Reject err \<Rightarrow> (Inl (iid, ru_name r, err), p')
        | Transform c \<Rightarrow> check_loop E w now d a rs c (Some (iid, ru_name r)) p'
        | Allow \<Rightarrow> check_loop E w now d a rs cur lr p')"
  by (simp add: Let_def split: prod.split)

lemma check_loop_skip:
  "\<not> rule_matches r d a \<Longrightarrow> check_loop E w now d a ((iid, r) # rs) cur lr p = check_loop E w now d a rs cur lr p"
  by simp

declare check_loop.simps(2) [simp del]

text \<open>A command that gets through was accepted by every rule that matches it.\<close>

lemma check_loop_pass:
  assumes "check_loop E w now d a rs cur lr p = (Inr (out, lr'), p')" "command_target d a cur"
  shows "command_target d a out \<and>
    (\<forall>(iid, r)\<in>set rs. rule_matches r d a \<longrightarrow> (\<exists>c. command_target d a c \<and> rule_holds E w r c))"
  using assms
proof (induction rs arbitrary: cur lr p)
  case (Cons x rs)
  obtain iid r where x: "x = (iid, r)" by (cases x)
  obtain v exc where ev: "evaluate_interlock_rule E w r cur = (v, exc)" by fastforce
  show ?case
  proof (cases "rule_matches r d a")
    case False
    with Cons show ?thesis by (auto simp: x check_loop_skip)
  next
    case m: True
    note step = Cons.prems(1) [unfolded x check_loop_step [OF m] ev]
    then have p: "passes v" by (auto simp: passes_def Let_def split: verdict.splits)
    with ev passes_holds have h: "rule_holds E w r cur" by (metis fst_conv)
    obtain cur2 lr2 p2 where rest: "check_loop E w now d a rs cur2 lr2 p2 = (Inr (out, lr'), p')"
      and t: "command_target d a cur2"
    proof (cases v)
      case (Transform c)
      with step ev Cons.prems(2) transform_target [of E w r cur c d a] show ?thesis by (auto intro: that)
    qed (use step p Cons.prems(2) in \<open>auto simp: passes_def intro: that\<close>)
    from Cons.IH [OF rest t] h Cons.prems(2) show ?thesis by (auto simp: x)
  qed
qed simp

text \<open>A refusal names the first rule that does not accept the command.\<close>

lemma check_loop_reject:
  assumes "check_loop E w now d a rs cur lr p = (Inl (iid, name, err), p')"
  shows "\<exists>r c. (iid, r) \<in> set rs \<and> ru_name r = name \<and> rule_matches r d a
    \<and> fst (evaluate_interlock_rule E w r c) = Reject err"
  using assms
proof (induction rs arbitrary: cur lr p)
  case (Cons x rs)
  obtain iid' r where x: "x = (iid', r)" by (cases x)
  obtain v exc where ev: "evaluate_interlock_rule E w r cur = (v, exc)" by fastforce
  show ?case
  proof (cases "rule_matches r d a")
    case False
    with Cons.prems have "check_loop E w now d a rs cur lr p = (Inl (iid, name, err), p')"
      by (simp add: x check_loop_skip)
    from Cons.IH [OF this] show ?thesis by auto
  next
    case m: True
    note step = Cons.prems(1) [unfolded x check_loop_step [OF m] ev]
    show ?thesis
    proof (cases v)
      case (Reject e)
      with step m ev have "(iid, r) \<in> set (x # rs) \<and> ru_name r = name \<and> rule_matches r d a
          \<and> fst (evaluate_interlock_rule E w r cur) = Reject err" by (simp add: x)
      then show ?thesis by blast
    next
      case (Transform c)
      with step Cons.IH show ?thesis by fastforce
    next
      case Allow
      with step Cons.IH show ?thesis by fastforce
    qed
  qed
qed simp

text \<open>Without transforms the loop is a conjunction over the matching rules.\<close>

lemma check_loop_all:
  assumes "\<forall>(iid, r)\<in>set rs. ru_allow_transform_params r = None"
  shows "(\<exists>x p'. check_loop E w now d a rs cur lr p = (Inr x, p')) \<longleftrightarrow>
    (\<forall>(iid, r)\<in>set rs. rule_matches r d a \<longrightarrow> rule_holds E w r cur)"
  using assms
proof (induction rs arbitrary: p)
  case (Cons x rs)
  obtain iid r where x: "x = (iid, r)" by (cases x)
  obtain v exc where ev: "evaluate_interlock_rule E w r cur = (v, exc)" by fastforce
  from Cons.prems x have nt: "ru_allow_transform_params r = None"
    and rest: "\<forall>(iid, r)\<in>set rs. ru_allow_transform_params r = None" by auto
  show ?case
  proof (cases "rule_matches r d a")
    case False
    with Cons.IH [OF rest] show ?thesis by (auto simp: x check_loop_skip)
  next
    case m: True
    show ?thesis
    proof (cases "rule_holds E w r cur")
      case True
      with holds_passes [OF nt] ev m Cons.IH [OF rest] show ?thesis by (auto simp: x check_loop_step)
    next
      case False
      then obtain err where "v = Reject err"
        using passes_holds [of E w r cur] ev by (auto simp: passes_def)
      with False m ev show ?thesis by (auto simp: x check_loop_step Let_def)
    qed
  qed
qed simp


section \<open>The answer\<close>

lemma check_answer_allow:
  assumes "rpc_interlock_check E w now req p = (PDict resp, p')" "jget resp ''allow'' = PBool True"
  obtains command d a cur lr out where
    "as_dict (check_request_command req) = Some command"
    "d = py_str (plain E) (dget command ''device_id'' (PStr ''''))"
    "a = py_str (plain E) (dget command ''action'' (PStr ''''))"
    "cur = [(''device_id'', PStr d), (''action'', PStr a), (''params'', dget command ''params'' (PDict []))]"
    "check_loop E w now d a (active_rules p) cur None p = (Inr (out, lr), p')"
  using assms
  by (auto simp: rpc_interlock_check_def rpc_error_def Let_def
      split: option.splits if_splits prod.splits sum.splits)

lemma check_answer_wellformed:
  assumes "as_dict (check_request_command req) = Some command"
    and "d = py_str (plain E) (dget command ''device_id'' (PStr ''''))" "d \<noteq> []"
    and "a = py_str (plain E) (dget command ''action'' (PStr ''''))" "a \<noteq> []"
    and "is_dict (dget command ''params'' (PDict []))"
  shows "rpc_interlock_check E w now req p =
    (case check_loop E w now d a (active_rules p)
        [(''device_id'', PStr d), (''action'', PStr a), (''params'', dget command ''params'' (PDict []))] None p of
       (Inl (iid, name, err), p') \<Rightarrow>
         (PDict [(''request_id'', jget req ''request_id''), (''ok'', PBool True), (''allow'', PBool False),
                 (''interceptor_id'', PStr iid), (''rule'', PStr name), (''error'', PDict err)], p')
     | (Inr (cmd, None), p') \<Rightarrow>
         (PDict [(''request_id'', jget req ''request_id''), (''ok'', PBool True), (''allow'', PBool True)], p')
     | (Inr (cmd, Some (iid, name)), p') \<Rightarrow>
         (PDict [(''request_id'', jget req ''request_id''), (''ok'', PBool True), (''allow'', PBool True),
                 (''command'', PDict cmd), (''interceptor_id'', PStr iid), (''rule'', PStr name),
                 (''note'', PStr ''transformed'')], p'))"
  using assms by (simp add: rpc_interlock_check_def Let_def)


section \<open>The state of the process\<close>

definition interlock_inv :: "interlock \<Rightarrow> bool" where
  "interlock_inv p \<longleftrightarrow>
     ip_order p = map fst (ip_entries p) \<and> distinct (ip_order p) \<and> distinct (map fst (ip_rule_enabled p))
     \<and> (\<forall>(iid, e)\<in>set (ip_entries p). rst_interceptor_id (re_ruleset e) = iid)"

text \<open>Two states with the same rules, switched on alike.\<close>

definition same_rules :: "interlock \<Rightarrow> interlock \<Rightarrow> bool" where
  "same_rules p q \<longleftrightarrow>
     ip_process_id p = ip_process_id q \<and> ip_entries p = ip_entries q \<and> ip_order p = ip_order q
     \<and> rule_enabled_state p = rule_enabled_state q"

lemma same_rules_refl [simp]: "same_rules p p"
  by (simp add: same_rules_def)

lemma same_rules_active: "same_rules p q \<Longrightarrow> active_rules p = active_rules q"
  by (simp add: same_rules_def active_rules_def iter_ruleset_entries_def)

text \<open>The routes the manager is told are those of the rules in force.\<close>

lemma set_distinct_routes: "set (distinct_routes ks seen) = set ks - set seen"
  by (induction ks arbitrary: seen) auto

lemma distinct_distinct_routes: "distinct (distinct_routes ks seen)"
  by (induction ks arbitrary: seen) (auto simp: set_distinct_routes)

subsection \<open>Switching rules\<close>

lemma foldl_dset_other:
  "(\<And>x. x \<in> set xs \<Longrightarrow> f x \<noteq> k) \<Longrightarrow> map_of (foldl (\<lambda>acc x. dset (f x) (g x) acc) d xs) k = map_of d k"
  by (induction xs arbitrary: d) (auto simp: update_conv')

lemma foldl_dset_distinct:
  "distinct (map fst d) \<Longrightarrow> distinct (map fst (foldl (\<lambda>acc x. dset (f x) (g x) acc) d xs))"
  by (induction xs arbitrary: d) (auto simp: distinct_update)

lemma foldl_dset_update:
  "foldl (\<lambda>acc (r, s). dset (h r) s acc) d xs = dict_update d (map (\<lambda>(r, s). (h r, s)) xs)"
  by (induction xs arbitrary: d) (auto simp: dict_update_def)

lemma distinct_filter_fst: "distinct (map fst d) \<Longrightarrow> distinct (map fst (filter P d))"
  by (induction d) auto

lemma map_of_filter_key:
  "map_of (filter (\<lambda>(k, _). P k) d) k = (if P k then map_of d k else None)"
  by (induction d) auto

lemma prev_states:
  defines "sel iid \<equiv> (\<lambda>((i, rid), st). if i = iid then Some (rid, st) else None)"
  assumes "distinct (map fst d)"
  shows "distinct (map fst (List.map_filter (sel iid) d))"
    and "map_of (List.map_filter (sel iid) d) rid = map_of d (iid, rid)"
proof -
  have sub: "fst ` set (List.map_filter (sel iid) d) = {rid. (iid, rid) \<in> fst ` set d}" for d
    by (induction d) (auto simp: List.map_filter_simps sel_def split: if_splits, force+)
  have notin: "(iid, r) \<notin> fst ` set d \<Longrightarrow> (r, s) \<notin> set (List.map_filter (sel iid) d)" for r s d
    using sub [of d] by force
  from assms(2) show "distinct (map fst (List.map_filter (sel iid) d))"
    using notin by (induction d) (auto simp: List.map_filter_simps sel_def split: if_splits)
  from assms(2) show "map_of (List.map_filter (sel iid) d) rid = map_of d (iid, rid)"
    by (induction d) (auto simp: List.map_filter_simps sel_def split: if_splits)
qed

lemma default_states_other:
  "i \<noteq> iid \<Longrightarrow> map_of (ip_rule_enabled (set_default_rule_states iid rs p)) (i, rid) = map_of (ip_rule_enabled p) (i, rid)"
  by (simp add: set_default_rule_states_def drop_rule_states_def Let_def foldl_dset_other map_of_filter_key)

lemma restored_states:
  assumes "distinct (map fst prev)"
  shows "map_of (ip_rule_enabled (restore_rule_states iid prev p)) (i, rid) =
    (if i = iid then map_of prev rid else map_of (ip_rule_enabled p) (i, rid))"
proof -
  have "map_of (map (\<lambda>(r, s). ((iid, r), s)) prev) (i, rid) = (if i = iid then map_of prev rid else None)"
    by (induction prev) auto
  moreover have "distinct (map fst (map (\<lambda>(r, s). ((iid, r), s)) prev))"
    using assms by (simp add: distinct_map inj_on_def comp_def case_prod_unfold)
  ultimately show ?thesis
    by (simp add: restore_rule_states_def drop_rule_states_def Let_def foldl_dset_update map_of_dict_update
        map_of_filter_key map_add_def split: option.split)
qed


subsection \<open>Handlers\<close>

definition resp_ok :: "pyval \<Rightarrow> bool" where
  "resp_ok resp = (case as_dict resp of None \<Rightarrow> False | Some d \<Rightarrow> jget d ''ok'' = PBool True)"

lemma resp_ok_simps [simp]: "\<not> resp_ok (rpc_error i e)" "resp_ok (rpc_ok i x)"
  by (simp_all add: resp_ok_def rpc_error_def rpc_ok_def)

text \<open>
  A change is committed or undone: with an ok response the manager has accepted the routes
  of the new state, with an error the rules are as before.
\<close>

definition committed :: "py_lang \<Rightarrow> (pyval \<Rightarrow> pyexc + pyval) \<Rightarrow> interlock \<Rightarrow> pyval \<times> interlock \<Rightarrow> bool" where
  "committed L call p r \<longleftrightarrow>
     interlock_inv (snd r) \<and>
     (if resp_ok (fst r) then register_routes L call (snd r) = Inr () else same_rules p (snd r))"

lemma committed_error [simp]: "committed L call p (rpc_error i e, p) \<longleftrightarrow> interlock_inv p"
  by (simp add: committed_def)

lemma dset_same: "map_of d k = Some v \<Longrightarrow> dset k v d = d"
  by (induction d) auto

lemma dset_dset [simp]: "dset k v (dset k v' d) = dset k v d"
  by (induction d) auto

lemma dset_keys: "map fst (dset k v d) = (if k \<in> fst ` set d then map fst d else map fst d @ [k])"
  by (induction d) auto

lemma dset_set: "(k', v') \<in> set (dset k v d) \<Longrightarrow> k' = k \<and> v' = v \<or> (k', v') \<in> set d"
  by (induction d) (auto split: if_splits)

lemma dpop_dset_new: "k \<notin> fst ` set d \<Longrightarrow> dpop k (dset k v d) = d"
  by (induction d) (auto simp: AList.delete_eq filter_id_conv)

lemma inv_entries:
  assumes "interlock_inv p" "map_of (ip_entries p) iid = Some e"
    and "rst_interceptor_id (re_ruleset e') = iid"
  shows "interlock_inv (p\<lparr>ip_entries := dset iid e' (ip_entries p)\<rparr>)"
  using assms by (auto simp: interlock_inv_def dset_keys dest: dset_set map_of_SomeD intro!: image_eqI)

lemma inv_rule_enabled: "interlock_inv p \<Longrightarrow> distinct (map fst m) \<Longrightarrow> interlock_inv (p\<lparr>ip_rule_enabled := m\<rparr>)"
  by (auto simp: interlock_inv_def)

lemma inv_default_states: "interlock_inv p \<Longrightarrow> interlock_inv (set_default_rule_states iid rs p)"
  unfolding set_default_rule_states_def drop_rule_states_def Let_def
  by (auto simp: interlock_inv_def intro!: foldl_dset_distinct distinct_filter_fst)

lemma inv_restore_states: "interlock_inv p \<Longrightarrow> interlock_inv (restore_rule_states iid prev p)"
  unfolding restore_rule_states_def drop_rule_states_def Let_def
  by (auto simp: interlock_inv_def case_prod_unfold intro!: foldl_dset_distinct distinct_filter_fst)

lemma states_fields [simp]:
  "ip_entries (set_default_rule_states iid rs p) = ip_entries p"
  "ip_order (set_default_rule_states iid rs p) = ip_order p"
  "ip_process_id (set_default_rule_states iid rs p) = ip_process_id p"
  "ip_entries (restore_rule_states iid prev p) = ip_entries p"
  "ip_order (restore_rule_states iid prev p) = ip_order p"
  "ip_process_id (restore_rule_states iid prev p) = ip_process_id p"
  by (simp_all add: set_default_rule_states_def restore_rule_states_def drop_rule_states_def Let_def)


lemma load_committed:
  assumes inv: "interlock_inv p"
  shows "committed L call p (rpc_interlock_apply_loaded_ruleset L call i rs src replace en p)"
proof -
  let ?iid = "rst_interceptor_id rs" and ?ex = "map_of (ip_entries p) (rst_interceptor_id rs)"
  define entry where "entry = \<lparr>re_ruleset = rs,
    re_enabled = (if en = PNone then (case ?ex of Some e \<Rightarrow> re_enabled e | None \<Rightarrow> True) else truthy en),
    re_source = Some src\<rparr>"
  define p1 where "p1 = p\<lparr>ip_entries := dset ?iid entry (ip_entries p),
    ip_order := (if ?ex = None then ip_order p @ [?iid] else ip_order p)\<rparr>"
  define p2 where "p2 = set_default_rule_states ?iid rs p1"
  define p3 where "p3 = (case ?ex of
     None \<Rightarrow> p2\<lparr>ip_entries := dpop ?iid (ip_entries p2), ip_order := filter (\<lambda>c. c \<noteq> ?iid) (ip_order p2)\<rparr>
   | Some old \<Rightarrow> p2\<lparr>ip_entries := dset ?iid old (ip_entries p2)\<rparr>)"
  define prev where "prev = List.map_filter (\<lambda>((i, rid), st). if i = ?iid then Some (rid, st) else None) (ip_rule_enabled p)"
  have d: "distinct (map fst (ip_rule_enabled p))" using inv by (simp add: interlock_inv_def)
  have None_iff: "?ex = None \<longleftrightarrow> ?iid \<notin> fst ` set (ip_entries p)" by (simp add: map_of_eq_None_iff)
  have "interlock_inv p1"
    using inv None_iff unfolding p1_def interlock_inv_def
    by (auto simp: dset_keys entry_def dest: dset_set)
  then have inv2: "interlock_inv p2" unfolding p2_def by (rule inv_default_states)
  have fields: "ip_entries p3 = ip_entries p" "ip_order p3 = ip_order p" "ip_process_id p3 = ip_process_id p"
    "ip_rule_enabled p3 = ip_rule_enabled p2"
    using inv None_iff unfolding p3_def p2_def p1_def
    by (auto simp: dpop_dset_new dset_same interlock_inv_def filter_id_conv split: option.splits)
  have inv3: "interlock_inv p3" using inv inv2 fields by (auto simp: interlock_inv_def)
  have "rule_enabled_state (restore_rule_states ?iid prev p3) = rule_enabled_state p"
    using prev_states [OF d, of ?iid, folded prev_def]
    by (auto simp: fun_eq_iff rule_enabled_state_def dget_def restored_states fields p2_def default_states_other p1_def)
  then have undo: "same_rules p (restore_rule_states ?iid prev p3)"
    by (simp add: same_rules_def fields)
  have "rpc_interlock_apply_loaded_ruleset L call i rs src replace en p =
    (if ?ex \<noteq> None \<and> \<not> replace then (rpc_error i (code_only ''interceptor_exists''), p)
     else case register_routes L call p2 of
       Inl e \<Rightarrow> (rpc_error i (code_msg ''route_update_failed'' (exc_text e)), restore_rule_states ?iid prev p3)
     | Inr _ \<Rightarrow> (rpc_ok i (PDict [(''interceptor_id'', PStr ?iid), (''enabled'', PBool (re_enabled entry))]), p2))"
    unfolding rpc_interlock_apply_loaded_ruleset_def Let_def entry_def p1_def p2_def p3_def prev_def
      ruleset_entry.simps by (rule refl)
  with inv inv2 undo inv_restore_states [OF inv3] show ?thesis
    by (auto simp: committed_def split: sum.split)
qed


lemma set_enabled_inv:
  assumes "interlock_inv p"
  shows "interlock_inv (set_enabled iid b p)"
proof (cases "map_of (ip_entries p) iid")
  case (Some e)
  with assms have "rst_interceptor_id (re_ruleset e) = iid"
    by (auto simp: interlock_inv_def dest: map_of_SomeD)
  with inv_entries [OF assms Some] Some show ?thesis by (simp add: set_enabled_def)
qed (simp add: set_enabled_def assms)

lemma set_enabled_undo:
  "map_of (ip_entries p) iid = Some e \<Longrightarrow> set_enabled iid (re_enabled e) (set_enabled iid b p) = p"
  by (simp add: set_enabled_def update_conv' dset_same)

lemma enable_disable_committed:
  "interlock_inv p \<Longrightarrow> committed L call p (rpc_interlock_enable_disable L call en req p)"
  by (auto simp: rpc_interlock_enable_disable_def Let_def committed_def set_enabled_inv set_enabled_undo
      split: option.split sum.split)

lemma enable_rule_committed:
  "interlock_inv p \<Longrightarrow> committed L call p (rpc_interlock_enable_rule_disable_rule L call en req p)"
  by (auto simp: rpc_interlock_enable_rule_disable_rule_def Let_def committed_def same_rules_def fun_eq_iff
      rule_enabled_state_def dget_dset distinct_update interlock_inv_def
      split: option.split sum.split)

lemma set_enabled_at:
  assumes "iid \<notin> fst ` set pre" "ip_entries p = pre @ (iid, e) # post"
  shows "set_enabled iid b p = p\<lparr>ip_entries := pre @ (iid, e\<lparr>re_enabled := b\<rparr>) # post\<rparr>"
proof -
  from assms(1) have "dset iid v (pre @ (iid, e) # post) = pre @ (iid, v) # post" for v
    by (induction pre) auto
  moreover from assms(1) have "map_of (pre @ (iid, e) # post) iid = Some e"
    by (simp add: map_add_def map_of_eq_None_iff [THEN iffD2])
  ultimately show ?thesis by (simp add: set_enabled_def assms(2))
qed

lemma set_enabled_all_undo:
  assumes "distinct (map fst (pre @ es))" "ip_entries p = pre @ map (\<lambda>(iid, e). (iid, e\<lparr>re_enabled := b\<rparr>)) es"
  shows "foldl (\<lambda>q (iid, was). set_enabled iid was q) p (map (\<lambda>(iid, e). (iid, re_enabled e)) es)
    = p\<lparr>ip_entries := pre @ es\<rparr>"
  using assms
proof (induction es arbitrary: pre p)
  case (Cons x es)
  obtain iid e where x: "x = (iid, e)" by (cases x)
  have "set_enabled iid (re_enabled e) p
      = p\<lparr>ip_entries := pre @ (iid, e) # map (\<lambda>(iid, e). (iid, e\<lparr>re_enabled := b\<rparr>)) es\<rparr>"
    using Cons.prems by (subst set_enabled_at) (auto simp: x)
  with Cons.IH [of "pre @ [x]"] Cons.prems(1) show ?case by (simp add: x)
qed simp

lemma enable_all_committed:
  assumes inv: "interlock_inv p"
  shows "committed L call p (rpc_interlock_enable_all_disable_all L call en req p)"
proof -
  define p1 where "p1 = p\<lparr>ip_entries := map (\<lambda>(iid, e). (iid, e\<lparr>re_enabled := en\<rparr>)) (ip_entries p)\<rparr>"
  have "foldl (\<lambda>q (iid, was). set_enabled iid was q) p1 (map (\<lambda>(iid, e). (iid, re_enabled e)) (ip_entries p)) = p"
    using set_enabled_all_undo [of "[]" "ip_entries p" p1 en] inv by (auto simp: p1_def interlock_inv_def)
  moreover have "interlock_inv p1"
    using inv by (auto simp: p1_def interlock_inv_def comp_def case_prod_unfold)
  ultimately show ?thesis
    using inv unfolding rpc_interlock_enable_all_disable_all_def Let_def p1_def [symmetric]
    by (auto simp: committed_def split: sum.split)
qed


subsection \<open>Checks\<close>

lemma callback_fields [simp]:
  "ip_process_id (condition_error_callback now iid n e p) = ip_process_id p"
  "ip_entries (condition_error_callback now iid n e p) = ip_entries p"
  "ip_order (condition_error_callback now iid n e p) = ip_order p"
  "ip_rule_enabled (condition_error_callback now iid n e p) = ip_rule_enabled p"
  by (simp_all add: condition_error_callback_def Let_def)

definition same_config :: "interlock \<Rightarrow> interlock \<Rightarrow> bool" where
  "same_config p q \<longleftrightarrow> ip_process_id p = ip_process_id q \<and> ip_entries p = ip_entries q \<and> ip_order p = ip_order q
     \<and> ip_rule_enabled p = ip_rule_enabled q"

lemma same_config_rules: "same_config p q \<Longrightarrow> same_rules p q"
  by (simp add: same_config_def same_rules_def rule_enabled_state_def fun_eq_iff)

lemma same_config_inv: "same_config p q \<Longrightarrow> interlock_inv p \<Longrightarrow> interlock_inv q"
  by (auto simp: same_config_def interlock_inv_def)

lemma same_config_trans: "same_config p q \<Longrightarrow> same_config q r \<Longrightarrow> same_config p r"
  by (simp add: same_config_def)

lemma check_loop_config: "same_config p (snd (check_loop E w now d a rs cur lr p))"
proof (induction rs arbitrary: cur lr p)
  case (Cons x rs)
  obtain iid r where x: "x = (iid, r)" by (cases x)
  obtain v exc where ev: "evaluate_interlock_rule E w r cur = (v, exc)" by fastforce
  define q where "q = (case exc of None \<Rightarrow> p | Some e \<Rightarrow> condition_error_callback now iid (ru_name r) e p)"
  have "same_config p q" by (simp add: q_def same_config_def split: option.split)
  then have "same_config p (snd (check_loop E w now d a rs cur' lr' q))" for cur' lr'
    using Cons.IH by (rule same_config_trans)
  with \<open>same_config p q\<close> Cons.IH show ?case
    by (cases "rule_matches r d a")
      (simp_all add: x check_loop_step check_loop_skip ev Let_def flip: q_def split: verdict.split)
qed (simp add: same_config_def)


lemma check_config: "same_config p (snd (rpc_interlock_check E w now req p))"
proof -
  have "same_config p q" if "check_loop E w now d a rs cur lr p = (res, q)" for d a rs cur lr res q
    using check_loop_config [of p E w now d a rs cur lr] that by simp
  moreover have "same_config p p" by (simp add: same_config_def)
  ultimately show ?thesis
    by (auto simp: rpc_interlock_check_def Let_def split: option.split prod.split sum.split)
qed

subsection \<open>Reachable states\<close>

text \<open>One request served; \<open>L\<close>, \<open>y\<close>, \<open>call\<close> and \<open>E\<close> may differ from request to request.\<close>

inductive interlock_step :: "interlock \<Rightarrow> interlock \<Rightarrow> bool" where
  load: "interlock_step p (snd (rpc_interlock_load L y call req p))"
| enable: "interlock_step p (snd (rpc_interlock_enable_disable L call en req p))"
| enable_rule: "interlock_step p (snd (rpc_interlock_enable_rule_disable_rule L call en req p))"
| enable_all: "interlock_step p (snd (rpc_interlock_enable_all_disable_all L call en req p))"
| check: "interlock_step p (snd (rpc_interlock_check E w now req p))"

inductive interlock_reach :: "interlock \<Rightarrow> bool" where
  init: "interlock_init L call pid es = Inr p \<Longrightarrow> interlock_reach p"
| step: "interlock_reach p \<Longrightarrow> interlock_step p p' \<Longrightarrow> interlock_reach p'"

lemma load_request_committed: "interlock_inv p \<Longrightarrow> committed L call p (rpc_interlock_load L y call req p)"
  by (auto simp: rpc_interlock_load_def Let_def rpc_interlock_load_prepare_def load_committed
      split: option.split sum.split prod.split)

lemma committed_inv: "committed L call p r \<Longrightarrow> interlock_inv (snd r)"
  by (simp add: committed_def)

lemma step_inv: "interlock_step p p' \<Longrightarrow> interlock_inv p \<Longrightarrow> interlock_inv p'"
  by (induction rule: interlock_step.induct)
    (blast intro: committed_inv load_request_committed enable_disable_committed enable_rule_committed
      enable_all_committed same_config_inv check_config)+

lemma add_rulesets_inv: "add_rulesets es p = Inr p' \<Longrightarrow> interlock_inv p \<Longrightarrow> interlock_inv p'"
proof (induction es arbitrary: p)
  case (Cons e es)
  let ?iid = "rst_interceptor_id (re_ruleset e)"
  from Cons.prems(1) have new: "?iid \<notin> fst ` set (ip_entries p)"
    by (auto simp: dhas_def map_of_eq_None_iff [symmetric] Let_def split: if_splits)
  then have "interlock_inv (p\<lparr>ip_entries := dset ?iid e (ip_entries p), ip_order := ip_order p @ [?iid]\<rparr>)"
    using Cons.prems(2) by (auto simp: interlock_inv_def dset_keys dest: dset_set)
  then have "interlock_inv (set_default_rule_states ?iid (re_ruleset e)
      (p\<lparr>ip_entries := dset ?iid e (ip_entries p), ip_order := ip_order p @ [?iid]\<rparr>))"
    by (rule inv_default_states)
  with Cons show ?case by (auto simp: Let_def split: if_splits)
qed simp

lemma reach_inv: "interlock_reach p \<Longrightarrow> interlock_inv p"
proof (induction rule: interlock_reach.induct)
  case (init L call pid es p)
  moreover have "interlock_inv \<lparr>ip_process_id = pid, ip_entries = [], ip_order = [], ip_rule_enabled = [],
      ip_rule_error_last = [], ip_rule_error_events = []\<rparr>" by (simp add: interlock_inv_def)
  ultimately show ?case by (auto simp: interlock_init_def intro: add_rulesets_inv)
qed (rule step_inv)


section \<open>Routes\<close>

text \<open>Names that survive the registry's \<open>strip\<close>.\<close>

definition plain_name :: "string \<Rightarrow> bool" where
  "plain_name s \<longleftrightarrow> s \<noteq> [] \<and> py_strip s = s"

definition rule_keys :: "interlock \<Rightarrow> (string \<times> string) list" where
  "rule_keys p = distinct_routes (map (\<lambda>(_, r). (ru_device_id r, ru_action r)) (active_rules p)) []"

definition plain_names :: "interlock \<Rightarrow> bool" where
  "plain_names p \<longleftrightarrow> (\<forall>(_, r)\<in>set (active_rules p). plain_name (ru_device_id r) \<and> plain_name (ru_action r))"

lemma set_rule_keys: "set (rule_keys p) = (\<lambda>(_, r). (ru_device_id r, ru_action r)) ` set (active_rules p)"
  by (simp add: rule_keys_def set_distinct_routes)

lemma routes_parse:
  assumes "plain_names p"
  shows "map (parse_route L) (routes_for_enabled_rules p) = map Some (rule_keys p)"
proof -
  have "parse_route L (route_payload k) = Some k" if "k \<in> set (rule_keys p)" for k
    using assms that unfolding set_rule_keys plain_names_def
    by (auto simp: plain_name_def parse_route_def route_payload_def)
  then show ?thesis by (simp add: routes_for_enabled_rules_def rule_keys_def [symmetric])
qed

lemma set_new_routes:
  "r \<in> set (new_routes pid n ks) \<Longrightarrow> rt_process_id r = pid \<and> (rt_device_id r, rt_action r) \<in> set ks"
  by (induction pid n ks rule: new_routes.induct) auto

lemma route_matches_rule:
  "rt_device_id t = ru_device_id r \<Longrightarrow> rt_action t = ru_action r \<Longrightarrow>
    match_command_interceptor_route t d a = rule_matches r d a"
  by (simp add: match_command_interceptor_route_def rule_matches_def)

text \<open>After the registration, the process is asked about exactly the commands a rule in force matches.\<close>

lemma registered_routes_match:
  fixes L :: py_lang and st :: route_state
  assumes "plain_names p"
  defines "st' \<equiv> snd (rs_register L (ip_process_id p) (PList (routes_for_enabled_rules p)) True st)"
  shows "(\<exists>t\<in>set (rs_routes st'). rt_process_id t = ip_process_id p \<and> match_command_interceptor_route t d a)
    \<longleftrightarrow> (\<exists>(iid, r)\<in>set (active_rules p). rule_matches r d a)"
proof -
  let ?new = "new_routes (ip_process_id p) (rs_next_order st) (first_keys (rule_keys p) [])"
  have st': "rs_routes st' = filter (\<lambda>r. rt_process_id r \<noteq> ip_process_id p) (rs_routes st) @ ?new"
    using register_loop_ok [OF routes_parse [OF assms(1)]]
    by (simp add: st'_def rs_register_def rs_drop_process_def rs_invalidate_def Let_def)
  have keys: "set (first_keys (rule_keys p) []) = (\<lambda>(_, r). (ru_device_id r, ru_action r)) ` set (active_rules p)"
    by (simp add: first_keys_props set_rule_keys)
  show ?thesis
  proof
    assume "\<exists>t\<in>set (rs_routes st'). rt_process_id t = ip_process_id p \<and> match_command_interceptor_route t d a"
    then obtain t where "t \<in> set ?new" and m: "match_command_interceptor_route t d a" by (auto simp: st')
    then have "(rt_device_id t, rt_action t) \<in> set (first_keys (rule_keys p) [])"
      using set_new_routes by blast
    then obtain iid r where "(iid, r) \<in> set (active_rules p)" "rt_device_id t = ru_device_id r" "rt_action t = ru_action r"
      unfolding keys by auto
    with m route_matches_rule show "\<exists>(iid, r)\<in>set (active_rules p). rule_matches r d a" by auto
  next
    assume "\<exists>(iid, r)\<in>set (active_rules p). rule_matches r d a"
    then obtain iid r where r: "(iid, r) \<in> set (active_rules p)" "rule_matches r d a" by auto
    then have "(ru_device_id r, ru_action r) \<in> set (first_keys (rule_keys p) [])" unfolding keys by force
    from new_routes_has [OF this] r(2) route_matches_rule
    show "\<exists>t\<in>set (rs_routes st'). rt_process_id t = ip_process_id p \<and> match_command_interceptor_route t d a"
      unfolding st' by fastforce
  qed
qed


section \<open>Parsed rulesets\<close>

lemma digits_value_snoc:
  "digits_value (xs @ [c]) acc = (case digits_value xs acc of None \<Rightarrow> None | Some m \<Rightarrow> digits_value [c] m)"
  by (induction xs acc rule: digits_value.induct) (auto simp: Let_def split: option.split)

lemma digits_value_digits_of: "digits_value (digits_of n) 0 = Some n"
proof (induction n rule: less_induct)
  case (less n)
  have c: "(of_char (char_of (48 + m :: nat)) :: nat) = 48 + m" if "m < 10" for m
    using that by simp
  show ?case
  proof (cases "n < 10")
    case True
    then show ?thesis using c [of n] by (subst digits_of.simps) (simp add: Let_def)
  next
    case False
    have "n mod 10 < 10" by simp
    with False less [of "n div 10"] c [OF this] show ?thesis
      by (subst digits_of.simps) (simp add: digits_value_snoc Let_def)
  qed
qed

lemma digits_of_inj: "digits_of m = digits_of n \<longleftrightarrow> m = n"
  using digits_value_digits_of by (metis option.inject)

definition rule_ok :: "rule \<Rightarrow> bool" where
  "rule_ok r \<longleftrightarrow> ru_name r \<noteq> [] \<and> ru_device_id r \<noteq> [] \<and> ru_action r \<noteq> [] \<and> list_all (binding_ok True) (ru_telemetry r)"

lemma parse_interlock_rule_ok:
  "parse_interlock_rule L age i raw = Inr r \<Longrightarrow>
    rule_ok r \<and> ru_rule_id r = ''r'' @ digits_of i \<and> dhas raw ''condition'' \<and> ru_condition r = jget raw ''condition''"
  by (auto simp: parse_interlock_rule_def Let_def rule_ok_def require_str_Inr
      dest!: parse_telemetry_bindings_ok split: if_splits prod.splits)

lemma parse_interlock_rules_ok:
  "parse_interlock_rules L age src i raws = Inr rs \<Longrightarrow>
    list_all rule_ok rs \<and> map ru_rule_id rs = map (\<lambda>n. ''r'' @ digits_of n) [i..<i + length raws]"
proof (induction raws arbitrary: i rs)
  case (Cons raw raws)
  then obtain r rs' where "rs = r # rs'" "parse_interlock_rule L age i raw = Inr r"
    "parse_interlock_rules L age src (Suc i) raws = Inr rs'"
    by (auto split: sum.splits parse_error.splits)
  with Cons.IH parse_interlock_rule_ok show ?case
    by (fastforce simp: upt_conv_Cons simp del: upt_Suc)
qed simp

lemma rule_ids_distinct: "distinct (map (\<lambda>n. ''r'' @ digits_of n) [i..<j])"
  by (simp add: distinct_map inj_on_def digits_of_inj)

lemma parse_ruleset_Inr:
  assumes "parse_ruleset L src raw = Inr rs"
  obtains obj raws where "as_dict raw = Some obj" "jget obj ''interceptor_id'' = PStr (rst_interceptor_id rs)"
    "rst_interceptor_id rs \<noteq> []" "parse_interlock_rules L (rst_defaults_max_age_s rs) src 0 raws = Inr (rst_rules rs)"
proof -
  have as_exc_Inr: "as_exc x = Inr y \<longleftrightarrow> x = Inr y" for x :: "parse_error + 'z" and y
    by (auto simp: as_exc_def split: sum.splits)
  show thesis using assms
    by (auto simp: parse_ruleset_def as_exc_Inr require_dict_def require_str_Inr
        split: option.splits intro!: that)
qed

end
