(* ===== verification/Sequencer_Eval_Proofs.thy ===== *)
theory Sequencer_Eval_Proofs
  imports Complex_Main Sequencer_Eval
begin

text \<open>
  Laws of the evaluator: what the condition operators mean, which variables an expression
  can depend on, and how large the integers it computes can get.
\<close>

section \<open>Conditions\<close>

definition cond_and :: "pyval list \<Rightarrow> pyval" where "cond_and cs = PDict [(''and'', PList cs)]"
definition cond_or :: "pyval list \<Rightarrow> pyval" where "cond_or cs = PDict [(''or'', PList cs)]"
definition cond_not :: "pyval \<Rightarrow> pyval" where "cond_not c = PDict [(''not'', c)]"

lemma eval_cond_and: "eval_condition E env (cond_and cs) = all_res (eval_condition E env) cs"
  by (subst eval_condition.simps) (simp add: cond_and_def cond_first_def cond_items_def)

lemma eval_cond_or: "eval_condition E env (cond_or cs) = any_res (eval_condition E env) cs"
  by (subst eval_condition.simps) (simp add: cond_or_def cond_first_def cond_items_def)

lemma eval_cond_not:
  "eval_condition E env (cond_not c) = res_bind (eval_condition E env c) (\<lambda>b. Inr (\<not> b))"
  by (subst eval_condition.simps) (simp add: cond_not_def cond_first_def)

lemma all_res_True: "all_res f xs = Inr True \<longleftrightarrow> (\<forall>x\<in>set xs. f x = Inr True)"
  by (induction xs) auto

lemma any_res_False: "any_res f xs = Inr False \<longleftrightarrow> (\<forall>x\<in>set xs. f x = Inr False)"
  by (induction xs) auto

lemma all_res_prefix:
  "(\<forall>x\<in>set xs. f x = Inr True) \<Longrightarrow> all_res f (xs @ y # ys) = res_bind (f y) (\<lambda>b. if b then all_res f ys else Inr False)"
  by (induction xs) auto

lemma de_morgan:
  "res_bind (all_res f xs) (\<lambda>b. Inr (\<not> b)) = any_res (\<lambda>x. res_bind (f x) (\<lambda>b. Inr (\<not> b))) xs"
  by (induction xs) (auto simp: res_bind_def split: sum.splits)

lemma any_res_map: "any_res f (map g xs) = any_res (f \<circ> g) xs"
  by (induction xs) (auto simp: res_bind_def split: sum.split)

section \<open>Which variables matter\<close>

fun expr_names :: "expr \<Rightarrow> string set"
  and exprs_names :: "expr list \<Rightarrow> string set"
  and cmps_names :: "(cmpop \<times> expr) list \<Rightarrow> string set" where
  "expr_names (Constant v) = {}"
| "expr_names (Name n) = {n}"
| "expr_names (Attribute e a) = expr_names e"
| "expr_names (UnaryOp op e) = expr_names e"
| "expr_names (BinOp op a b) = expr_names a \<union> expr_names b"
| "expr_names (BoolOp op es) = exprs_names es"
| "expr_names (Compare e cs) = expr_names e \<union> cmps_names cs"
| "expr_names (Call f args kw) = exprs_names args"
| "expr_names (IfExp b t f) = expr_names b \<union> expr_names t \<union> expr_names f"
| "expr_names OtherExpr = {}"
| "exprs_names [] = {}"
| "exprs_names (e # es) = expr_names e \<union> exprs_names es"
| "cmps_names [] = {}"
| "cmps_names ((op, e) # cs) = expr_names e \<union> cmps_names cs"

text \<open>Two environments that agree, and define, the names of an expression give it the same value.\<close>

definition agree :: "string set \<Rightarrow> items \<Rightarrow> items \<Rightarrow> bool" where
  "agree S env env' \<longleftrightarrow> (\<forall>n\<in>S. map_of env n = map_of env' n \<and> map_of env n \<noteq> None)"

lemma agree_Un [simp]: "agree (S \<union> T) env env' \<longleftrightarrow> agree S env env' \<and> agree T env env'"
  by (auto simp: agree_def)

lemma agree_single [simp]: "agree {n} env env' \<longleftrightarrow> map_of env n = map_of env' n \<and> map_of env n \<noteq> None"
  by (auto simp: agree_def)

lemma eval_agree:
  "agree (expr_names e) env env' \<Longrightarrow> eval_node E x env e = eval_node E x env' e"
  "agree (exprs_names es) env env' \<Longrightarrow> eval_nodes E x env es = eval_nodes E x env' es"
  "agree (cmps_names cs) env env' \<Longrightarrow> eval_compare E x env nl l cs = eval_compare E x env' nl l cs"
  by (induction E x env e and E x env es and E x env nl l cs
      rule: eval_node_eval_nodes_eval_compare.induct)
    (auto simp: res_bind_def split: option.splits sum.splits)

section \<open>Bounds on integers\<close>

lemma bit_length_nat_bound: "n < 2 ^ bit_length_nat n"
proof (induction n rule: bit_length_nat.induct)
  case (1 n)
  show ?case
  proof (cases "n = 0")
    case True
    then show ?thesis by (subst bit_length_nat.simps) simp
  next
    case False
    with 1 have "n div 2 < 2 ^ bit_length_nat (n div 2)" by simp
    then have "n < 2 * 2 ^ bit_length_nat (n div 2)" by linarith
    then show ?thesis using False by (subst bit_length_nat.simps) simp
  qed
qed

lemma bit_length_bound: "\<bar>i\<bar> < 2 ^ bit_length i"
proof -
  have "int (nat \<bar>i\<bar>) < int (2 ^ bit_length i)"
    unfolding bit_length_def of_nat_less_iff by (rule bit_length_nat_bound)
  then show ?thesis by simp
qed

lemma mult_bits:
  assumes "bit_length i + bit_length j \<le> n"
  shows "\<bar>i * j\<bar> < (2::int) ^ n"
proof -
  have "\<bar>i\<bar> * \<bar>j\<bar> < 2 ^ bit_length i * 2 ^ bit_length j"
    using bit_length_bound [of i] bit_length_bound [of j] by (intro mult_strict_mono) auto
  also have "\<dots> = 2 ^ (bit_length i + bit_length j)" by (simp add: power_add)
  also have "\<dots> \<le> (2::int) ^ n" using assms by (intro power_increasing) auto
  finally show ?thesis by (simp add: abs_mult)
qed

lemma bit_length_nat_least: "0 < n \<Longrightarrow> 2 ^ (bit_length_nat n - 1) \<le> n"
proof (induction n rule: bit_length_nat.induct)
  case (1 n)
  show ?case
  proof (cases "n div 2 = 0")
    case True
    then have "n = 1" using 1(2) by linarith
    then show ?thesis by (simp add: bit_length_nat.simps)
  next
    case False
    then have pos: "bit_length_nat (n div 2) \<ge> 1" by (subst bit_length_nat.simps) simp
    have "2 * 2 ^ (bit_length_nat (n div 2) - 1) \<le> n" using 1 False by simp
    also have "2 * 2 ^ (bit_length_nat (n div 2) - 1) = (2::nat) ^ bit_length_nat (n div 2)"
      using pos by (simp flip: power_Suc)
    finally show ?thesis using 1(2) by (subst bit_length_nat.simps) simp
  qed
qed

lemma bit_length_least: "i \<noteq> 0 \<Longrightarrow> 2 ^ (bit_length i - 1) \<le> \<bar>i\<bar>"
  using bit_length_nat_least [of "nat \<bar>i\<bar>"]
  by (simp add: bit_length_def le_nat_iff)

lemma mult_bits_least:
  assumes "i \<noteq> 0" "j \<noteq> 0" "n + 2 \<le> bit_length i + bit_length j"
  shows "(2::int) ^ n \<le> \<bar>i * j\<bar>"
proof -
  have "(2::int) ^ n \<le> 2 ^ ((bit_length i - 1) + (bit_length j - 1))"
    using assms(3) by (intro power_increasing) auto
  also have "\<dots> = 2 ^ (bit_length i - 1) * 2 ^ (bit_length j - 1)" by (simp add: power_add)
  also have "\<dots> \<le> \<bar>i\<bar> * \<bar>j\<bar>" using assms(1,2) bit_length_least by (intro mult_mono) auto
  finally show ?thesis by (simp add: abs_mult)
qed

text \<open>
  What the evaluator relies on of \<open>math.log2\<close>: on an integer above one it is a finite float
  within a relative error of \<open>2 ^ -40\<close> of the binary logarithm.
\<close>

definition log2_accurate :: "eval_lang \<Rightarrow> bool" where
  "log2_accurate E \<longleftrightarrow> (\<forall>n>1. \<exists>q. log2_int E n = Fin q
     \<and> \<bar>of_rat q - log 2 (of_int n)\<bar> \<le> log 2 (of_int n) / 2 ^ 40)"

lemma rel_bounds:
  fixes l q :: real
  assumes "\<bar>q - l\<bar> \<le> l / 2 ^ 40"
  shows "l * (1 - 1 / 2 ^ 40) \<le> q" and "q \<le> l * (1 + 1 / 2 ^ 40)"
proof -
  have "q - l \<le> l / 2 ^ 40" "l - q \<le> l / 2 ^ 40" using assms by (simp_all only: abs_le_iff minus_diff_eq)
  then show "l * (1 - 1 / 2 ^ 40) \<le> q" "q \<le> l * (1 + 1 / 2 ^ 40)" by (simp_all add: algebra_simps)
qed

lemma log_pow_less:
  assumes "n > (1::int)" shows "real k * log 2 (of_int n) < real m \<longleftrightarrow> n ^ k < 2 ^ m"
proof -
  have "real k * log 2 (of_int n) = log 2 (of_int (n ^ k))" using assms by (simp add: log_nat_power)
  then have "real k * log 2 (of_int n) < real m \<longleftrightarrow> real_of_int (n ^ k) < 2 powr real m"
    using assms by (simp add: log_less_iff)
  also have "\<dots> \<longleftrightarrow> real_of_int (n ^ k) < real_of_int (2 ^ m)" by (simp add: powr_realpow)
  finally show ?thesis by linarith
qed

text \<open>The float test against the exact size of a power: off by at most one bit.\<close>

lemma log2_test:
  assumes "log2_accurate E" "n > 1" and k: "k \<le> MAX_INT_BITS"
  defines "big \<equiv> flt (Fin (of_nat MAX_INT_BITS)) (fmul (log2_int E n) (Fin (of_nat k)))"
  shows "\<not> big \<Longrightarrow> n ^ k < 2 ^ (MAX_INT_BITS + 1)" and "big \<Longrightarrow> 2 ^ (MAX_INT_BITS - 1) \<le> n ^ k"
proof -
  let ?l = "log 2 (real_of_int n)" let ?e = "1 / 2 ^ 40 :: real"
  obtain q where q: "log2_int E n = Fin q" "\<bar>of_rat q - ?l\<bar> \<le> ?l / 2 ^ 40"
    using assms(1,2) by (auto simp: log2_accurate_def)
  have big: "big \<longleftrightarrow> real MAX_INT_BITS < of_rat q * real k"
    unfolding big_def q(1) by (simp flip: of_rat_less [where 'a = real] add: of_rat_mult)
  have lpos: "0 \<le> real k * ?l" using assms(2) by simp
  have lo: "real k * ?l * (1 - ?e) \<le> of_rat q * real k" and hi: "of_rat q * real k \<le> real k * ?l * (1 + ?e)"
    using mult_left_mono [OF rel_bounds(1) [OF q(2)], of "real k"] mult_left_mono [OF rel_bounds(2) [OF q(2)], of "real k"] by (simp_all add: mult_ac)
  show "n ^ k < 2 ^ (MAX_INT_BITS + 1)" if "\<not> big"
  proof -
    have "real k * ?l * (1 - ?e) \<le> real MAX_INT_BITS" using lo that big by simp
    also have "\<dots> < real (MAX_INT_BITS + 1) * (1 - ?e)" by (simp add: MAX_INT_BITS_def)
    finally have "real k * ?l < real (MAX_INT_BITS + 1)" by simp
    then show ?thesis using log_pow_less [OF assms(2)] by blast
  qed
  show "2 ^ (MAX_INT_BITS - 1) \<le> n ^ k" if "big"
  proof (rule ccontr)
    assume "\<not> 2 ^ (MAX_INT_BITS - 1) \<le> n ^ k"
    then have "real k * ?l < real (MAX_INT_BITS - 1)" using log_pow_less [OF assms(2)] by simp
    then have "real k * ?l * (1 + ?e) < real (MAX_INT_BITS - 1) * (1 + ?e)" by simp
    also have "\<dots> < real MAX_INT_BITS" by (simp add: MAX_INT_BITS_def)
    finally show False using hi that big by simp
  qed
qed

text \<open>The result the operators have on integers, and the size test against its real size.\<close>

definition int_result :: "binop \<Rightarrow> int \<Rightarrow> int \<Rightarrow> int" where
  "int_result op i j = (if op = Mult then i * j else i ^ nat j)"

lemma pow_small: "\<bar>i\<bar> \<le> (1::int) \<Longrightarrow> \<bar>i ^ k\<bar> \<le> 1"
  by (simp add: power_abs power_le_one)

lemma mult_size_test:
  "\<not> int_result_too_large E Mult i j \<Longrightarrow> \<bar>i * j\<bar> < 2 ^ (MAX_INT_BITS + 1)"
  "int_result_too_large E Mult i j \<Longrightarrow> i * j \<noteq> 0 \<Longrightarrow> 2 ^ (MAX_INT_BITS - 1) \<le> \<bar>i * j\<bar>"
  using mult_bits [of i j "MAX_INT_BITS + 1"] mult_bits_least [of i j "MAX_INT_BITS - 1"]
  by (auto simp: int_result_too_large_def)

lemma pow_size_test:
  assumes "log2_accurate E" "0 \<le> j"
  shows "\<not> int_result_too_large E Pow i j \<Longrightarrow> \<bar>i ^ nat j\<bar> < 2 ^ (MAX_INT_BITS + 1)"
    and "int_result_too_large E Pow i j \<Longrightarrow> 2 ^ (MAX_INT_BITS - 1) \<le> \<bar>i ^ nat j\<bar>"
proof -
  have test: "int_result_too_large E Pow i j
      \<longleftrightarrow> flt (Fin (of_nat MAX_INT_BITS)) (fmul (log2_int E \<bar>i\<bar>) (Fin (of_nat (nat j))))"
    if "1 < \<bar>i\<bar>" "0 < j" "j \<le> int MAX_INT_BITS"
    using that by (simp add: int_result_too_large_def)
  show "\<bar>i ^ nat j\<bar> < 2 ^ (MAX_INT_BITS + 1)" if ok: "\<not> int_result_too_large E Pow i j"
  proof (cases "j = 0 \<or> \<bar>i\<bar> \<le> 1")
    case True
    then have "\<bar>i ^ nat j\<bar> \<le> 1" using pow_small [of i "nat j"] by auto
    moreover have "(1::int) < 2 ^ (MAX_INT_BITS + 1)" by (rule one_less_power) simp_all
    ultimately show ?thesis by linarith
  next
    case False
    then have ij: "1 < \<bar>i\<bar>" "0 < j" "j \<le> int MAX_INT_BITS"
      using ok assms(2) by (auto simp: int_result_too_large_def)
    then have "\<bar>i\<bar> ^ nat j < 2 ^ (MAX_INT_BITS + 1)"
      using ok test [OF ij] by (intro log2_test(1) [OF assms(1)]) auto
    then show ?thesis by (simp add: power_abs)
  qed
  show "2 ^ (MAX_INT_BITS - 1) \<le> \<bar>i ^ nat j\<bar>" if big: "int_result_too_large E Pow i j"
  proof (cases "j > int MAX_INT_BITS")
    case True
    have i: "2 \<le> \<bar>i\<bar>" using big by (simp add: int_result_too_large_def split: if_splits)
    have "(2::int) ^ (MAX_INT_BITS - 1) \<le> 2 ^ nat j" using True by (intro power_increasing) auto
    also have "\<dots> \<le> \<bar>i\<bar> ^ nat j" using i by (intro power_mono) auto
    finally show ?thesis by (simp add: power_abs)
  next
    case False
    then have ij: "1 < \<bar>i\<bar>" "0 < j" "j \<le> int MAX_INT_BITS"
      using big by (auto simp: int_result_too_large_def split: if_splits)
    then have "2 ^ (MAX_INT_BITS - 1) \<le> \<bar>i\<bar> ^ nat j"
      using big test [OF ij] by (intro log2_test(2) [OF assms(1)]) auto
    then show ?thesis by (simp add: power_abs)
  qed
qed

lemma int_size_test:
  assumes "log2_accurate E" "op = Mult \<or> op = Pow \<and> 0 \<le> j"
  shows "\<not> int_result_too_large E op i j \<Longrightarrow> \<bar>int_result op i j\<bar> < 2 ^ (MAX_INT_BITS + 1)"
    and "int_result_too_large E op i j \<Longrightarrow> int_result op i j \<noteq> 0 \<Longrightarrow> 2 ^ (MAX_INT_BITS - 1) \<le> \<bar>int_result op i j\<bar>"
  using assms mult_size_test [of E i j] pow_size_test [OF assms(1), of j i] by (auto simp: int_result_def)

lemma py_binop_int:
  "op = Mult \<or> op = Pow \<and> 0 \<le> j \<Longrightarrow> py_binop E op (PInt i) (PInt j) = Inr (PInt (int_result op i j))"
  by (auto simp: py_binop_def py_mul_def py_pow_def num_op_def int_result_def)

section \<open>Properties\<close>

text \<open>
  The condition operators are the connectives they name. \<open>and\<close> holds exactly when every
  part holds, \<open>or\<close> fails exactly when every part fails, the negation of an \<open>and\<close> is the
  \<open>or\<close> of the negations with the same errors, and a part after the first that fails is not
  evaluated.
\<close>

theorem condition_connectives:
  "((eval_condition E env (cond_and cs) = Inr True) = (\<forall>c\<in>set cs. eval_condition E env c = Inr True))
   \<and> ((eval_condition E env (cond_or cs) = Inr False) = (\<forall>c\<in>set cs. eval_condition E env c = Inr False))
   \<and> eval_condition E env (cond_not (cond_and cs)) = eval_condition E env (cond_or (map cond_not cs))
   \<and> (list_all (\<lambda>c. eval_condition E env c = Inr True) pre \<longrightarrow> eval_condition E env c = Inr False \<longrightarrow>
        eval_condition E env (cond_and (pre @ c # post)) = Inr False)"
  by (simp add: eval_cond_and eval_cond_or eval_cond_not all_res_True any_res_False de_morgan
      any_res_map comp_def all_res_prefix list_all_iff)

text \<open>A concrete evaluator: it parses one name and one product.\<close>

definition plain_eval :: eval_lang where
  "plain_eval = \<lparr>float_repr = float_repr plain_lang, float_parse = float_parse plain_lang,
     int_parse = int_parse plain_lang,
     ast_parse = (\<lambda>s. if s = ''x * 6'' then Inr (BinOp Mult (Name ''x'') (Constant (PInt 6)))
                       else if s = ''x'' then Inr (Name ''x'') else Inl ''invalid syntax''),
     close_matches = (\<lambda>_ _. []), op_error_text = (\<lambda>_ _. ''unsupported operand type(s)''),
     str_format = (\<lambda>_ _. Inl ATypeError), float_pow = (\<lambda>_ _. Inl ATypeError),
     log2_int = (\<lambda>n. Fin (of_nat (bit_length n)))\<rparr>"

theorem condition_connectives_witness:
  "eval_condition plain_eval [] (cond_and ([PBool True] @ PBool False # [PDict [(''gt'', PNone)]])) = Inr False"
  using condition_connectives [of plain_eval "[]" "[PBool True]" "[PBool True]" "PBool False" "[PDict [(''gt'', PNone)]]"]
  by (simp add: eval_condition.simps)

text \<open>
  An expression sees nothing but the variables it names: evaluating it in two
  environments that define those names alike gives the same value or the same error.
\<close>

theorem expression_depends_on_its_names:
  assumes "ast_parse E expr = Inr tree" and "agree (expr_names tree) env env'"
  shows "eval_expr E expr env = eval_expr E expr env'"
  using eval_agree(1) [OF assms(2)] assms(1) by (simp add: eval_expr_def)

theorem expression_depends_on_its_names_witness:
  "eval_expr plain_eval ''x * 6'' [(''x'', PInt 7)] = eval_expr plain_eval ''x * 6'' [(''y'', PNone), (''x'', PInt 7)]"
  by (rule expression_depends_on_its_names [where tree = "BinOp Mult (Name ''x'') (Constant (PInt 6))"])
    (simp_all add: plain_eval_def)

text \<open>
  C32. Products and powers of integers stay small. When the evaluator multiplies two
  integers, or raises one to a power that is not negative, it either gives the exact result,
  and that has at most \<open>_MAX_INT_BITS + 1\<close> bits, or refuses the operation before computing
  it, and then the result, unless it is a product of zero, would have had at least
  \<open>_MAX_INT_BITS\<close> bits. \<open>math.log2\<close> is taken to be accurate to a relative error of
  \<open>2 ^ -40\<close>.
\<close>

theorem integer_results_bounded:
  assumes "op = Mult \<or> op = Pow \<and> 0 \<le> j" and "log2_accurate E"
    and "eval_node E expr env a = Inr (PInt i)" and "eval_node E expr env b = Inr (PInt j)"
  shows "eval_node E expr env (BinOp op a b) = Inr (PInt (int_result op i j))
      \<and> \<bar>int_result op i j\<bar> < 2 ^ (MAX_INT_BITS + 1)
    \<or> (\<exists>msg. eval_node E expr env (BinOp op a b) = Inl (ValueTooLargeError msg))
      \<and> (int_result op i j = 0 \<or> 2 ^ (MAX_INT_BITS - 1) \<le> \<bar>int_result op i j\<bar>)"
proof (cases "int_result_too_large E op i j")
  case True
  then show ?thesis
    using int_size_test(2) [OF assms(2,1) True] assms(1,3,4) by (auto simp: check_result_size_def)
next
  case False
  then show ?thesis
    using int_size_test(1) [OF assms(2,1) False] py_binop_int [OF assms(1), of E i] assms(1,3,4)
    by (auto simp: check_result_size_def)
qed

text \<open>An evaluator whose logarithm is the binary logarithm rounded up to a multiple of \<open>2 ^ -50\<close>.\<close>

definition log_eval :: eval_lang where
  "log_eval = plain_eval\<lparr>log2_int := (\<lambda>n. Fin (of_int \<lceil>log 2 (of_int n) * 2 ^ 50\<rceil> / 2 ^ 50))\<rparr>"

lemma ceil_close:
  fixes l c :: real
  assumes "1 \<le> l" "l * 2 ^ 50 \<le> c" "c \<le> l * 2 ^ 50 + 1"
  shows "\<bar>c / 2 ^ 50 - l\<bar> \<le> l / 2 ^ 40"
  using assms by (simp add: abs_le_iff field_simps)

lemma log_eval_accurate: "log2_accurate log_eval"
  unfolding log2_accurate_def
proof (intro allI impI exI conjI)
  fix n :: int assume n: "1 < n"
  let ?l = "log 2 (real_of_int n)"
  show "log2_int log_eval n = Fin (of_int \<lceil>?l * 2 ^ 50\<rceil> / 2 ^ 50)" by (simp add: log_eval_def)
  have "1 \<le> ?l" using n by simp
  then have "\<bar>real_of_int \<lceil>?l * 2 ^ 50\<rceil> / 2 ^ 50 - ?l\<bar> \<le> ?l / 2 ^ 40"
    by (rule ceil_close [OF _ le_of_int_ceiling of_int_ceiling_le_add_one])
  then show "\<bar>of_rat (of_int \<lceil>?l * 2 ^ 50\<rceil> / 2 ^ 50) - ?l\<bar> \<le> ?l / 2 ^ 40"
    by (simp only: of_rat_divide of_rat_of_int_eq of_rat_power of_rat_numeral_eq)
qed

theorem integer_results_bounded_witness:
  "eval_node log_eval ''x ** 3'' [(''x'', PInt 7)] (BinOp Pow (Name ''x'') (Constant (PInt 3))) = Inr (PInt 343)
   \<and> (\<exists>msg. eval_node log_eval ''x ** 100000'' [(''x'', PInt 7)] (BinOp Pow (Name ''x'') (Constant (PInt 100000)))
        = Inl (ValueTooLargeError msg))"
proof
  have "(2::int) ^ 10 \<le> 2 ^ (MAX_INT_BITS - 1)" by (rule power_increasing) (simp_all add: MAX_INT_BITS_def)
  then show "eval_node log_eval ''x ** 3'' [(''x'', PInt 7)] (BinOp Pow (Name ''x'') (Constant (PInt 3))) = Inr (PInt 343)"
    using integer_results_bounded [where op = Pow and j = 3 and i = 7 and E = log_eval and expr = "''x ** 3''"
        and env = "[(''x'', PInt 7)]" and a = "Name ''x''" and b = "Constant (PInt 3)"] log_eval_accurate
    by (simp add: int_result_def del: eval_node.simps(5))
  have "(2::int) ^ (MAX_INT_BITS + 1) \<le> 2 ^ nat 100000" by (rule power_increasing) (simp_all add: MAX_INT_BITS_def)
  also have "\<dots> \<le> 7 ^ nat 100000" by (rule power_mono) simp_all
  finally have "\<not> \<bar>int_result Pow 7 100000\<bar> < 2 ^ (MAX_INT_BITS + 1)"
    unfolding int_result_def using abs_ge_self [of "7 ^ nat 100000 :: int"] by (simp only: binop.distinct if_False not_less)
  then show "\<exists>msg. eval_node log_eval ''x ** 100000'' [(''x'', PInt 7)] (BinOp Pow (Name ''x'') (Constant (PInt 100000)))
      = Inl (ValueTooLargeError msg)"
    using integer_results_bounded [where op = Pow and j = 100000 and i = 7 and E = log_eval and expr = "''x ** 100000''"
        and env = "[(''x'', PInt 7)]" and a = "Name ''x''" and b = "Constant (PInt 100000)"] log_eval_accurate
    by (simp del: eval_node.simps(5))
qed

end
