(* ===== verification/Interlock_Props.thy ===== *)
theory Interlock_Props
  imports Interlock_Proofs Sequencer_Eval_Proofs
begin

text \<open>
  The properties of the interlock process.
\<close>

section \<open>A concrete interlock\<close>

text \<open>One rule, on every action of the laser: the shutter must be closed.\<close>

definition demo_rule :: rule where
  "demo_rule = \<lparr>ru_rule_id = ''r0'', ru_name = ''shutter'', ru_device_id = ''laser'', ru_action = ''*'',
     ru_telemetry = [\<lparr>tb_alias = ''s'', tb_device_id = ''shutter'', tb_signal = ''closed'', tb_max_age_s = Fin 2,
       tb_required = True, tb_process_id = None\<rparr>],
     ru_condition = PBool True, ru_on_block_message = None, ru_on_block_code = None,
     ru_allow_transform_params = None\<rparr>"

definition demo_ruleset :: ruleset where
  "demo_ruleset = \<lparr>rst_interceptor_id = ''safety'', rst_defaults_max_age_s = Fin 2, rst_rules = [demo_rule]\<rparr>"

definition demo_entry :: ruleset_entry where
  "demo_entry = \<lparr>re_ruleset = demo_ruleset, re_enabled = True, re_source = None\<rparr>"

definition demo_interlock :: interlock where
  "demo_interlock = \<lparr>ip_process_id = ''ilk'', ip_entries = [(''safety'', demo_entry)], ip_order = [''safety''],
     ip_rule_enabled = [((''safety'', ''r0''), True)], ip_rule_error_last = [], ip_rule_error_events = []\<rparr>"

text \<open>The shutter's sample is of quality \<open>q\<close> and one second old.\<close>

definition demo_world :: "string \<Rightarrow> telemetry_world" where
  "demo_world q = \<lparr>tw_latest = (\<lambda>_ _. Some [(''value'', PBool True), (''quality'', PStr q), (''t_mono'', PFloat (Fin 9))]),
     tw_latest_process = None, tw_now_mono = Fin 10, tw_fmt3 = (\<lambda>_. [])\<rparr>"

definition demo_check :: items where
  "demo_check = [(''command'', PDict [(''device_id'', PStr ''laser''), (''action'', PStr ''fire''), (''params'', PDict [])])]"

lemmas ilk_defs = demo_rule_def demo_ruleset_def demo_entry_def demo_interlock_def demo_world_def demo_check_def

lemma demo_active: "active_rules demo_interlock = [(''safety'', demo_rule)]"
  by (simp add: active_rules_def iter_ruleset_entries_def ilk_defs rule_enabled_state_def List.map_filter_simps)

lemma demo_holds: "rule_holds plain_eval (demo_world q) demo_rule cmd \<longleftrightarrow> py_upper q = ''OK''"
  by (simp add: rule_holds_def telemetry_ok_def binding_fresh_def ilk_defs sample_for_binding_def
      resolve_binding_age_s_def eval_condition.simps)


section \<open>Properties\<close>

text \<open>
  The interlock is safe. When it answers \<open>allow: true\<close>, every rule in force that matches
  the command was found to hold for this target: each required sample was present, of quality
  OK and no older than its limit, and the condition was true of the command as the rules
  before had left it.
\<close>

theorem interlock_allows_only_if_rules_hold:
  assumes "rpc_interlock_check E w now req p = (PDict resp, p')" "jget resp ''allow'' = PBool True"
  shows "\<exists>command d a. as_dict (check_request_command req) = Some command
    \<and> d = py_str (plain E) (dget command ''device_id'' (PStr ''''))
    \<and> a = py_str (plain E) (dget command ''action'' (PStr ''''))
    \<and> (\<forall>(iid, r)\<in>set (active_rules p). rule_matches r d a \<longrightarrow>
         (\<forall>b\<in>set (ru_telemetry r). tb_required b \<longrightarrow> binding_fresh (plain E) w b)
         \<and> (\<exists>c. command_target d a c \<and> eval_condition E (rule_env E w r c) (ru_condition r) = Inr True))"
proof -
  obtain command d a cur lr out where c:
    "as_dict (check_request_command req) = Some command"
    "d = py_str (plain E) (dget command ''device_id'' (PStr ''''))"
    "a = py_str (plain E) (dget command ''action'' (PStr ''''))"
    "cur = [(''device_id'', PStr d), (''action'', PStr a), (''params'', dget command ''params'' (PDict []))]"
    and loop: "check_loop E w now d a (active_rules p) cur None p = (Inr (out, lr), p')"
    by (rule check_answer_allow [OF assms])
  have "command_target d a cur" by (simp add: c(4) command_target_def)
  note pass = check_loop_pass [OF loop this, THEN conjunct2]
  have "(\<forall>b\<in>set (ru_telemetry r). tb_required b \<longrightarrow> binding_fresh (plain E) w b)
      \<and> (\<exists>c. command_target d a c \<and> eval_condition E (rule_env E w r c) (ru_condition r) = Inr True)"
    if "(iid, r) \<in> set (active_rules p)" "rule_matches r d a" for iid r
  proof -
    from pass that obtain c where "command_target d a c" "rule_holds E w r c" by blast
    then show ?thesis unfolding rule_holds_def telemetry_ok_def by blast
  qed
  with c(1-3) show ?thesis by (intro exI [where x = command] exI [where x = d] exI [where x = a]) auto
qed

lemma demo_check_answer:
  "rpc_interlock_check plain_eval (demo_world ''OK'') now demo_check demo_interlock =
     (PDict [(''request_id'', PNone), (''ok'', PBool True), (''allow'', PBool True)], demo_interlock)"
proof -
  have m: "rule_matches demo_rule ''laser'' ''fire''" by (simp add: rule_matches_def demo_rule_def)
  have "ru_allow_transform_params demo_rule = None" by (simp add: demo_rule_def)
  then have "evaluate_interlock_rule plain_eval (demo_world ''OK'') demo_rule c = (Allow, None)" for c
    using holds_passes demo_holds by (simp add: py_upper_def upper_char_def)
  with m show ?thesis
    by (simp add: rpc_interlock_check_def check_request_command_def demo_check_def demo_active check_loop_step
        is_dict_def)
qed

theorem interlock_allows_only_if_rules_hold_witness:
  "binding_fresh (plain plain_eval) (demo_world ''OK'') (hd (ru_telemetry demo_rule))"
  using interlock_allows_only_if_rules_hold [OF demo_check_answer [of "Fin 10"]]
  by (simp add: demo_active check_request_command_def demo_check_def)
    (simp add: rule_matches_def demo_rule_def)


text \<open>
  C18. And it does not block more. A well-formed request over rules that change no command is
  answered \<open>allow: true\<close> exactly when every matching rule in force holds for the command, and
  \<open>allow: false\<close> otherwise; a refusal names a rule in force that matches and rejected it.
\<close>

theorem interlock_check_decides:
  assumes "as_dict (check_request_command req) = Some command"
    and "d = py_str (plain E) (dget command ''device_id'' (PStr ''''))" "d \<noteq> []"
    and "a = py_str (plain E) (dget command ''action'' (PStr ''''))" "a \<noteq> []"
    and "is_dict (dget command ''params'' (PDict []))"
    and "\<forall>(iid, r)\<in>set (active_rules p). ru_allow_transform_params r = None"
  shows "\<exists>resp p'. rpc_interlock_check E w now req p = (PDict resp, p') \<and>
    jget resp ''allow'' = PBool (\<forall>(iid, r)\<in>set (active_rules p). rule_matches r d a \<longrightarrow>
      rule_holds E w r [(''device_id'', PStr d), (''action'', PStr a), (''params'', dget command ''params'' (PDict []))])
    \<and> (jget resp ''allow'' = PBool False \<longrightarrow>
         (\<exists>(iid, r)\<in>set (active_rules p). rule_matches r d a \<and> jget resp ''interceptor_id'' = PStr iid
            \<and> jget resp ''rule'' = PStr (ru_name r)))"
proof -
  let ?cur = "[(''device_id'', PStr d), (''action'', PStr a), (''params'', dget command ''params'' (PDict []))]"
  let ?loop = "check_loop E w now d a (active_rules p) ?cur None p"
  note answer = check_answer_wellformed [OF assms(1-6), of w now p]
  note all = check_loop_all [OF assms(7), of E w now d a ?cur None p]
  show ?thesis
  proof (cases ?loop)
    case (Pair res p')
    show ?thesis
    proof (cases res)
      case (Inl x)
      obtain iid name err where x: "x = (iid, name, err)" by (cases x)
      have loop: "?loop = (Inl (iid, name, err), p')" using Pair Inl x by simp
      from check_loop_reject [OF loop] obtain r where "(iid, r) \<in> set (active_rules p)" "ru_name r = name"
        "rule_matches r d a" by blast
      moreover from all loop have "\<not> (\<forall>(iid, r)\<in>set (active_rules p). rule_matches r d a \<longrightarrow> rule_holds E w r ?cur)"
        by auto
      ultimately show ?thesis unfolding answer loop by fastforce
    next
      case (Inr y)
      then have loop: "?loop = (Inr y, p')" using Pair by simp
      with all have "\<forall>(iid, r)\<in>set (active_rules p). rule_matches r d a \<longrightarrow> rule_holds E w r ?cur" by blast
      with loop show ?thesis unfolding answer by (auto split: prod.splits option.splits)
    qed
  qed
qed

theorem interlock_check_decides_witness:
  "\<exists>resp p'. rpc_interlock_check plain_eval (demo_world ''BAD'') (Fin 10) demo_check demo_interlock = (PDict resp, p')
    \<and> jget resp ''allow'' = PBool False"
proof -
  have "rule_matches demo_rule ''laser'' ''fire''" by (simp add: rule_matches_def demo_rule_def)
  moreover have "ru_allow_transform_params demo_rule = None" by (simp add: demo_rule_def)
  ultimately show ?thesis
    using interlock_check_decides [of demo_check "[(''device_id'', PStr ''laser''), (''action'', PStr ''fire''), (''params'', PDict [])]"
        "''laser''" plain_eval "''fire''" demo_interlock "demo_world ''BAD''" "Fin 10"]
    by (auto simp: check_request_command_def demo_check_def demo_active is_dict_def demo_holds py_upper_def
        upper_char_def)
qed

text \<open>
  C20. Every doubt is a refusal. A rule whose required telemetry is missing, not OK or stale
  rejects with the telemetry code and its condition is not evaluated; a condition that is
  false rejects, and one that raises rejects too and reports the exception; a parameter
  template that fails rejects; and a rule that changes a command keeps its target.
\<close>

theorem interlock_rule_fails_closed:
  "(\<not> telemetry_ok E w r \<longrightarrow>
      (\<exists>err. evaluate_interlock_rule E w r cmd = (Reject err, None) \<and> jget err ''code'' \<in> set telemetry_codes))
   \<and> (telemetry_ok E w r \<longrightarrow> eval_condition E (rule_env E w r cmd) (ru_condition r) = Inl e \<longrightarrow>
      evaluate_interlock_rule E w r cmd = (Reject (condition_failed_error r), Some e))
   \<and> (telemetry_ok E w r \<longrightarrow> eval_condition E (rule_env E w r cmd) (ru_condition r) = Inr False \<longrightarrow>
      evaluate_interlock_rule E w r cmd = (Reject (condition_failed_error r), None))
   \<and> (rule_holds E w r cmd \<longrightarrow> ru_allow_transform_params r = Some ps \<longrightarrow>
      render_templates E (PDict ps) (rule_env E w r cmd) = Inl te \<longrightarrow>
      evaluate_interlock_rule E w r cmd = (Reject (transform_error (eval_error_text te)), None))
   \<and> (fst (evaluate_interlock_rule E w r cmd) = Transform c \<longrightarrow> command_target d a cmd \<longrightarrow> command_target d a c)"
  using verdict_not_ok [of E w r cmd] transform_target [of E w r cmd c d a]
  by (auto simp: verdict_ok rule_holds_def apply_interlock_transform_def)

theorem interlock_rule_fails_closed_witness:
  "\<exists>err. evaluate_interlock_rule plain_eval (demo_world ''BAD'') demo_rule [] = (Reject err, None)
    \<and> jget err ''code'' \<in> set telemetry_codes"
proof -
  have "\<not> telemetry_ok plain_eval (demo_world ''BAD'') demo_rule"
    by (simp add: telemetry_ok_def binding_fresh_def ilk_defs sample_for_binding_def py_upper_def upper_char_def)
  with interlock_rule_fails_closed [of plain_eval "demo_world ''BAD''" demo_rule "[]"] show ?thesis by blast
qed


text \<open>
  C11. Rules and routes change together. In every state the process reaches, a request to load
  a ruleset or to switch an interceptor, a rule or all interceptors either answers ok, and then
  the manager has accepted the routes of the state that results, or answers an error, and then
  the rulesets, their order and which of them and of their rules are on are as before; a check
  changes none of this.
\<close>

theorem rule_changes_are_transactional:
  assumes "interlock_reach p"
  shows "committed L call p (rpc_interlock_load L y call req p)
    \<and> committed L call p (rpc_interlock_enable_disable L call en req p)
    \<and> committed L call p (rpc_interlock_enable_rule_disable_rule L call en req p)
    \<and> committed L call p (rpc_interlock_enable_all_disable_all L call en req p)
    \<and> same_rules p (snd (rpc_interlock_check E w now req p))"
  using reach_inv [OF assms]
  by (simp add: load_request_committed enable_disable_committed enable_rule_committed enable_all_committed
      check_config same_config_rules)

lemma demo_interlock_reach: "interlock_reach demo_interlock"
proof (rule interlock_reach.init)
  show "interlock_init plain_lang (\<lambda>_. Inr (PDict [(''ok'', PBool True)])) ''ilk'' [demo_entry] = Inr demo_interlock"
    by (simp add: interlock_init_def register_routes_def ilk_defs set_default_rule_states_def drop_rule_states_def
        Let_def)
qed

theorem rule_changes_are_transactional_witness:
  "same_rules demo_interlock (snd (rpc_interlock_enable_disable plain_lang (\<lambda>_. Inr PNone) False
     [(''params'', PDict [(''interceptor_id'', PStr ''safety'')])] demo_interlock))"
proof -
  let ?req = "[(''params'', PDict [(''interceptor_id'', PStr ''safety'')])]"
  let ?r = "rpc_interlock_enable_disable plain_lang (\<lambda>_. Inr PNone) False ?req demo_interlock"
  have "committed plain_lang (\<lambda>_. Inr PNone) demo_interlock ?r"
    using rule_changes_are_transactional [OF demo_interlock_reach] by blast
  moreover have "\<not> resp_ok (fst ?r)"
    by (simp add: rpc_interlock_enable_disable_def req_params_def py_or_def register_routes_def demo_interlock_def
        Let_def)
  ultimately show ?thesis by (simp add: committed_def)
qed

text \<open>
  C19. No rule is left out. Once the registry, whose routes stand in the order of their
  registration as in every state it reaches, has taken in the routes the interlock reports, the
  chain of a command contains the interlock exactly when some rule in force matches the
  command, provided the names in the rules have no surrounding blanks (the registry strips
  them, the rules do not).
\<close>

theorem interlock_asked_iff_rule_matches:
  assumes "plain_names p" "orders_ok st"
  shows "ip_process_id p \<in> rt_process_id `
      set (fst (rs_chain d a (snd (rs_register L (ip_process_id p) (PList (routes_for_enabled_rules p)) True st))))
    \<longleftrightarrow> (\<exists>(iid, r)\<in>set (active_rules p). rule_matches r d a)"
proof -
  let ?st = "snd (rs_register L (ip_process_id p) (PList (routes_for_enabled_rules p)) True st)"
  have "fst (rs_register L (ip_process_id p) (PList (routes_for_enabled_rules p)) True st) \<noteq> Inl e" for e
    using register_loop_ok [OF routes_parse [OF assms(1), where L = L]]
    by (simp add: rs_register_def rs_drop_process_def rs_invalidate_def Let_def)
  then have "routes_inv ?st" using routes_inv_register [OF assms(2)] by (metis sum.exhaust)
  note chain = registry.chain_processes [OF this, of d a]
  show ?thesis
    unfolding chain registered_routes_match [OF assms(1), of L st d a, symmetric] by (auto simp: image_iff)
qed


theorem interlock_asked_iff_rule_matches_witness:
  "''ilk'' \<in> rt_process_id ` set (fst (rs_chain ''laser'' ''fire''
     (snd (rs_register plain_lang ''ilk'' (PList (routes_for_enabled_rules demo_interlock)) True
       \<lparr>rs_routes = [], rs_chain_cache = [], rs_next_order = 0, rs_generation = 0, rs_max_cache = 2048\<rparr>))))"
proof -
  have "plain_names demo_interlock"
    unfolding plain_names_def demo_active by (simp add: demo_rule_def plain_name_def py_strip_def is_space_def)
  moreover have "orders_ok \<lparr>rs_routes = [], rs_chain_cache = [], rs_next_order = 0, rs_generation = 0, rs_max_cache = 2048\<rparr>"
    by (simp add: orders_ok_def)
  moreover have "rule_matches demo_rule ''laser'' ''fire''" by (simp add: rule_matches_def demo_rule_def)
  moreover have "ip_process_id demo_interlock = ''ilk''" by (simp add: demo_interlock_def)
  ultimately show ?thesis
    using interlock_asked_iff_rule_matches [of demo_interlock _ "''laser''" "''fire''" plain_lang]
    by (simp add: demo_active)
qed


text \<open>
  C33. What a loaded ruleset guarantees. Its id is not empty; its rules are numbered \<open>r0\<close>,
  \<open>r1\<close>, ... without repetition, so that switching a rule by its id addresses exactly one; and
  each rule names a device and an action and each of its telemetry inputs an alias, a signal
  and exactly one source.
\<close>

theorem parsed_ruleset_wellformed:
  assumes "parse_ruleset L source raw = Inr rs"
  shows "rst_interceptor_id rs \<noteq> []
    \<and> map ru_rule_id (rst_rules rs) = map (\<lambda>n. ''r'' @ digits_of n) [0..<length (rst_rules rs)]
    \<and> distinct (map ru_rule_id (rst_rules rs))
    \<and> list_all (\<lambda>r. ru_name r \<noteq> [] \<and> ru_device_id r \<noteq> [] \<and> ru_action r \<noteq> []
         \<and> list_all (binding_ok True) (ru_telemetry r)) (rst_rules rs)"
proof -
  obtain obj raws where ne: "rst_interceptor_id rs \<noteq> []"
    and p: "parse_interlock_rules L (rst_defaults_max_age_s rs) source 0 raws = Inr (rst_rules rs)"
    by (rule parse_ruleset_Inr [OF assms])
  from parse_interlock_rules_ok [OF p]
  have ok: "list_all rule_ok (rst_rules rs)"
    and ids: "map ru_rule_id (rst_rules rs) = map (\<lambda>n. ''r'' @ digits_of n) [0..<length raws]" by simp_all
  from ids have len: "length (rst_rules rs) = length raws" by (metis length_map length_upt diff_zero)
  show ?thesis
    using ne ok rule_ids_distinct unfolding ids len by (simp add: rule_ok_def [abs_def])
qed

definition demo_yaml :: pyval where
  "demo_yaml = PDict [(''interceptor_id'', PStr ''safety''), (''rules'', PList [PDict
     [(''name'', PStr ''shutter''), (''condition'', PBool True),
      (''match'', PDict [(''device_id'', PStr ''laser''), (''action'', PStr ''*'')]),
      (''inputs'', PDict [(''telemetry'', PList [PDict [(''as'', PStr ''s''), (''device'', PStr ''shutter''),
         (''signal'', PStr ''closed'')]])])]])]"

theorem parsed_ruleset_wellformed_witness:
  "parse_ruleset plain_lang ''demo'' demo_yaml = Inr demo_ruleset \<and> map ru_rule_id (rst_rules demo_ruleset) = [''r0'']"
proof -
  have "(of_char (CHR ''0'') :: nat) = 48" by simp
  then have zero: "char_of (48 :: nat) = CHR ''0''" by (metis char_of_char)
  have "parse_ruleset plain_lang ''demo'' demo_yaml = Inr demo_ruleset"
    by (simp add: parse_ruleset_def as_exc_def require_dict_def parse_version_def require_str_def optional_dict_def
        coerce_float_def require_list_of_dicts_def normalize_list_def demo_yaml_def parse_interlock_rule_def Let_def
        parse_telemetry_bindings_def parse_binding_def parse_max_age_def parse_required_def parse_on_block_def
        optional_str_def parse_allow_transform_params_def demo_ruleset_def demo_rule_def digits_of.simps zero)
  with parsed_ruleset_wellformed [OF this] show ?thesis by (simp add: demo_ruleset_def demo_rule_def)
qed

end
