(* ===== verification/Safety_Path.thy ===== *)
theory Safety_Path
  imports Interceptors_Props Interlock_Props
begin

text \<open>
  Lemmas that join the manager's interceptor chain with the interlock process: the routes the
  interlock reports, once registered with the manager, put it into the chain of every command
  its rules match, and the answer the chain needs is one the interlock gives only when those
  rules hold.
\<close>

lemma command_target_dget:
  "command_target d a c \<Longrightarrow> dget c ''device_id'' (PStr '''') = PStr d \<and> dget c ''action'' (PStr '''') = PStr a"
  by (auto simp: command_target_def dget_def split: option.splits)

text \<open>The request the chain sends carries the command as the interlock reads it.\<close>

lemma chain_request_command:
  "build_interceptor_request t c rid caller = PDict req \<Longrightarrow> as_dict (check_request_command req) = Some c"
  by (auto simp: build_interceptor_request_def check_request_command_def dget_def)

lemma interlock_allow_holds:
  assumes "allowed_by env pid (build_interceptor_request t c rid caller)" "command_target d a c"
    and answer: "\<And>req. ie_call env pid (PDict req) = (''ok'', fst (rpc_interlock_check E w now req q), None)"
    and "(iid, r) \<in> set (active_rules q)" "rule_matches r d a"
  shows "\<exists>c'. command_target d a c' \<and> rule_holds E w r c'"
proof -
  obtain req where req: "build_interceptor_request t c rid caller = PDict req"
    by (simp add: build_interceptor_request_def)
  obtain v q' where check: "rpc_interlock_check E w now req q = (v, q')"
    by (metis surj_pair)
  obtain resp where "as_dict v = Some resp" "jget resp ''allow'' = PBool True"
    using assms(1) check unfolding allowed_by_def req answer by (auto split: option.splits)
  moreover have "v = PDict resp" if "as_dict v = Some resp" for resp
    using check that by (auto simp: rpc_interlock_check_def rpc_error_def Let_def
        split: option.splits if_splits prod.splits sum.splits)
  ultimately have resp: "rpc_interlock_check E w now req q = (PDict resp, q')" "jget resp ''allow'' = PBool True"
    using check by auto
  obtain command cur lr out where
    "as_dict (check_request_command req) = Some command"
    and cur: "cur = [(''device_id'', PStr (py_str (plain E) (dget command ''device_id'' (PStr '''')))),
      (''action'', PStr (py_str (plain E) (dget command ''action'' (PStr '''')))), (''params'', dget command ''params'' (PDict []))]"
    and loop: "check_loop E w now (py_str (plain E) (dget command ''device_id'' (PStr '''')))
      (py_str (plain E) (dget command ''action'' (PStr ''''))) (active_rules q) cur None q = (Inr (out, lr), q')"
    by (rule check_answer_allow [OF resp]) blast
  then have "command = c" using chain_request_command [OF req] by simp
  with command_target_dget [OF assms(2)] cur loop have
    "check_loop E w now d a (active_rules q) cur None q = (Inr (out, lr), q')" "command_target d a cur"
    by (simp_all add: command_target_def dget_def)
  from check_loop_pass [OF this] assms(4,5) show ?thesis by blast
qed

lemma registered_manager_state:
  assumes "fst (rs_register L pid raw replace (mgr_state mgr)) = Inr added"
  shows "mgr_state (snd (ir_register L pid raw replace mgr)) =
    (snd (rs_register L pid raw replace (mgr_state mgr)))\<lparr>rs_max_cache := rm_cache_max mgr\<rparr>"
  using assms
  by (auto simp: ir_register_def mgr_state_def [symmetric] Let_def split: prod.splits sum.splits)
    (simp add: mgr_state_def sync_legacy_fields_def ensure_interceptor_route_state_def)

lemma routes_inv_max [simp]: "routes_inv (st\<lparr>rs_max_cache := m\<rparr>) = routes_inv st"
  by (simp add: routes_inv_def cache_coherent_def orders_ok_def)

lemma interlock_routes_accepted:
  assumes "plain_names p"
  shows "\<exists>added. fst (rs_register L (ip_process_id p) (PList (routes_for_enabled_rules p)) True st) = Inr added"
  using register_loop_ok [OF routes_parse [OF assms, where L = L]]
  by (simp add: rs_register_def rs_drop_process_def rs_invalidate_def Let_def)

text \<open>The manager after it has taken in the routes of the interlock.\<close>

definition with_interlock :: "py_lang \<Rightarrow> interlock \<Rightarrow> route_manager \<Rightarrow> route_manager" where
  "with_interlock L p mgr = snd (ir_register L (ip_process_id p) (PList (routes_for_enabled_rules p)) True mgr)"

lemma with_interlock_routes:
  assumes "plain_names p" "orders_ok (mgr_state mgr)" "(iid, r) \<in> set (active_rules p)" "rule_matches r d a"
  shows "routes_inv (mgr_state (with_interlock L p mgr))"
    and "\<exists>t\<in>set (rs_routes (mgr_state (with_interlock L p mgr))).
      rt_process_id t = ip_process_id p \<and> match_command_interceptor_route t d a"
proof -
  obtain added where added: "fst (rs_register L (ip_process_id p) (PList (routes_for_enabled_rules p)) True (mgr_state mgr)) = Inr added"
    using interlock_routes_accepted [OF assms(1)] by blast
  note state = registered_manager_state [OF added, folded with_interlock_def]
  show "routes_inv (mgr_state (with_interlock L p mgr))"
    using routes_inv_register [OF assms(2) added] by (simp add: state)
  show "\<exists>t\<in>set (rs_routes (mgr_state (with_interlock L p mgr))).
      rt_process_id t = ip_process_id p \<and> match_command_interceptor_route t d a"
    using registered_routes_match [OF assms(1), of L "mgr_state mgr" d a] assms(3,4) by (auto simp: state)
qed

lemma passed_command_satisfies_rules:
  fixes L :: py_lang and cmd :: items
  defines "d \<equiv> py_str L (dget cmd ''device_id'' (PStr ''''))"
    and "a \<equiv> py_str L (dget cmd ''action'' (PStr ''''))"
  assumes inv: "plain_names p" "plain_name (ip_process_id p)" "orders_ok (mgr_state mgr)"
    and answer: "\<And>i req. me_rpc (me i) (ip_process_id p) (PDict req) = RpcReply (fst (rpc_interlock_check E (w i) (now i) req (q i)))"
    and rules: "\<And>i. active_rules (q i) = active_rules p"
    and pass: "apply_command_interceptors L me rid caller cmd (with_interlock L p mgr) = ((Inr (Inr out), evs), mgr')"
    and r: "(iid, r) \<in> set (active_rules p)" "rule_matches r d a"
  shows "\<exists>i c. command_target d a c \<and> rule_holds E (w i) r c"
proof -
  note routes = with_interlock_routes [OF inv(1,3) r, where L = L]
  from routes(2) obtain t where
    t: "t \<in> set (rs_routes (mgr_state (with_interlock L p mgr)))" "rt_process_id t = ip_process_id p"
      "match_command_interceptor_route t d a" by blast
  have start: "command_target d a [(''device_id'', PStr d), (''action'', PStr a),
      (''params'', dget cmd ''params'' (PDict []))]" by (simp add: command_target_def dget_def)
  have strip: "py_strip (ip_process_id p) = ip_process_id p" using inv(2) by (simp add: plain_name_def)
  from manager_registry.pass_needs_all [OF routes(1) apply_command_interceptors_loop [OF pass, folded d_def a_def] start t(1,3)]
  obtain i c where c: "command_target d a c"
    "allowed_by (manager_icpt_env (me i)) (ip_process_id p)
       (build_interceptor_request (ie_t_mono (manager_icpt_env (me i))) c rid caller)"
    by (auto simp: t(2) strip)
  have "ie_call (manager_icpt_env (me i)) (ip_process_id p) (PDict req) =
      (''ok'', fst (rpc_interlock_check E (w i) (now i) req (q i)), None)" for req
    by (simp add: manager_icpt_env_def answer)
  from interlock_allow_holds [OF c(2,1) this] r rules show ?thesis by metis
qed


section \<open>A laser behind its interlock\<close>

text \<open>A manager without routes, and the interlock process answering its checks.\<close>

definition bare_manager :: route_manager where
  "bare_manager = \<lparr>rm_state = None, rm_routes = [], rm_order = 0, rm_cache = [], rm_cache_max = 2048,
     rm_processes = [''ilk''], rm_events = []\<rparr>"

definition ilk_env :: "nat \<Rightarrow> manager_env" where
  "ilk_env i = \<lparr>me_procs = [''ilk'' \<mapsto> \<lparr>pv_running = True, pv_has_endpoint = True\<rparr>],
     me_rpc = (\<lambda>_ v. case as_dict v of
        Some req \<Rightarrow> RpcReply (fst (rpc_interlock_check plain_eval (demo_world ''OK'') (Fin 10) req demo_interlock))
      | None \<Rightarrow> RpcAgain),
     me_t_mono = Fin 10\<rparr>"

definition fire_cmd :: items where
  "fire_cmd = [(''device_id'', PStr ''laser''), (''action'', PStr ''fire''), (''params'', PDict [])]"

lemma fire_passes:
  "fst (fst (apply_command_interceptors plain_lang ilk_env PNone PNone fire_cmd
     (with_interlock plain_lang demo_interlock bare_manager))) = Inr (Inr fire_cmd)"
  by code_simp

end
