(* ===== verification/Responses.thy ===== *)
theory Responses
  imports Py_Value
begin

text \<open>
  The envelopes of the manager's answers, \<open>utils/responses.py\<close>, and the table that sends a
  request to its handler, \<open>utils/rpc_dispatch.py\<close>: the two conventions an answer may follow
  (\<open>ok\<close> and \<open>status\<close>), what counts as success, the normal form of an answer, and the
  resolution of action names through aliases.
\<close>

section \<open>Answers\<close>

record error_payload =
  ep_code :: string
  ep_message :: "string option"
  ep_details :: pyval

record rpc_response =
  rr_ok :: bool
  rr_result :: pyval
  rr_error :: "error_payload option"
  rr_include_result :: bool

definition error_payload_dict :: "error_payload \<Rightarrow> items" where
  "error_payload_dict e =
     [(''code'', PStr (ep_code e))]
     @ (case ep_message e of None \<Rightarrow> [] | Some s \<Rightarrow> [(''message'', PStr s)])
     @ (if ep_details e = PNone then [] else [(''details'', ep_details e)])"

definition response_success :: "pyval \<Rightarrow> rpc_response" where
  "response_success result = \<lparr>rr_ok = True, rr_result = result, rr_error = None, rr_include_result = True\<rparr>"

definition response_failure :: "string \<Rightarrow> string option \<Rightarrow> pyval \<Rightarrow> pyval \<Rightarrow> bool \<Rightarrow> rpc_response" where
  "response_failure code message details result include_result =
     \<lparr>rr_ok = False, rr_result = result,
      rr_error = Some \<lparr>ep_code = code, ep_message = message, ep_details = details\<rparr>,
      rr_include_result = include_result\<rparr>"

definition response_dict :: "rpc_response \<Rightarrow> items" where
  "response_dict r =
     [(''ok'', PBool (rr_ok r))]
     @ (if rr_include_result r then [(''result'', rr_result r)] else [])
     @ (case rr_error r of None \<Rightarrow> [] | Some e \<Rightarrow> [(''error'', PDict (error_payload_dict e))])"

definition from_driver_status :: "py_lang \<Rightarrow> items \<Rightarrow> rpc_response" where
  "from_driver_status L d =
     (if dhas d ''ok''
      then if jget d ''ok'' = PBool True then response_success (jget d ''result'')
           else (case as_dict (jget d ''error'') of
                   Some err \<Rightarrow>
                     response_failure (py_str L (py_or (jget err ''code'') (PStr ''error'')))
                       (if jget err ''message'' = PNone then None else Some (py_str L (jget err ''message'')))
                       (jget err ''details'') (jget d ''result'') (dhas d ''result'')
                 | None \<Rightarrow>
                     response_failure ''error'' (Some (py_str L (jget d ''error''))) PNone
                       (jget d ''result'') (dhas d ''result''))
      else if py_eq (jget d ''status'') (PStr ''OK'') then response_success (jget d ''result'')
      else response_failure ''device_error'' (Some (py_str L (py_or (jget d ''error'') (PStr ''device error''))))
             (PDict d) (jget d ''result'') True)"

definition ensure_error_shape :: "pyval \<Rightarrow> items" where
  "ensure_error_shape resp =
     (case as_dict resp of
        None \<Rightarrow> response_dict (response_failure ''invalid_response'' (Some ''router response was not a dict'') PNone PNone False)
      | Some d \<Rightarrow>
          if jget d ''ok'' = PBool False
          then (case jget d ''error'' of
                  PStr s \<Rightarrow> dset ''error'' (PDict [(''code'', PStr ''error''), (''message'', PStr s)]) d
                | _ \<Rightarrow> d)
          else d)"

definition normalize_command_response :: "py_lang \<Rightarrow> pyval \<Rightarrow> items" where
  "normalize_command_response L resp =
     (let d = ensure_error_shape resp in
      if dhas d ''ok'' then d else response_dict (from_driver_status L d))"

definition is_response_ok :: "pyval \<Rightarrow> bool" where
  "is_response_ok resp =
     (case as_dict resp of
        None \<Rightarrow> False
      | Some d \<Rightarrow> if dhas d ''ok'' then jget d ''ok'' = PBool True else py_eq (jget d ''status'') (PStr ''OK''))"

text \<open>\<open>max(1, int(float(timeout_s) * 1000))\<close>, which raises on an infinite or undefined timeout.\<close>

definition timeout_ms :: "pyfloat option \<Rightarrow> pyexc + int option" where
  "timeout_ms t =
     (case t of
        None \<Rightarrow> Inr None
      | Some (Fin q) \<Rightarrow> Inr (Some (max 1 (if q < 0 then - \<lfloor>- (q * 1000)\<rfloor> else \<lfloor>q * 1000\<rfloor>)))
      | Some NaN \<Rightarrow> Inl (ValueError ''cannot convert float NaN to integer'')
      | Some _ \<Rightarrow> Inl (OtherError ''cannot convert float infinity to integer''))"


section \<open>Dispatch\<close>

definition normalize_rpc_action :: "py_lang \<Rightarrow> pyval \<Rightarrow> string" where
  "normalize_rpc_action L raw = py_strip (py_str L (py_or raw (PStr [])))"

record 'h rpc_registry =
  rg_handlers :: "(string \<times> 'h) list"
  rg_aliases :: "(string \<times> string) list"

fun rpc_handlers :: "py_lang \<Rightarrow> (string \<times> 'h) list \<Rightarrow> (string \<times> 'h) list \<Rightarrow> (string \<times> 'h) list" where
  "rpc_handlers L [] acc = acc"
| "rpc_handlers L ((a, h) # hs) acc =
     (let k = normalize_rpc_action L (PStr a) in
      rpc_handlers L hs (if k = [] then acc else dset k h acc))"

fun rpc_aliases :: "py_lang \<Rightarrow> (string \<times> 'h) list \<Rightarrow> (string \<times> string) list \<Rightarrow> (string \<times> string) list \<Rightarrow> (string \<times> string) list" where
  "rpc_aliases L handlers [] acc = acc"
| "rpc_aliases L handlers ((a, t) # as) acc =
     (let k = normalize_rpc_action L (PStr a); target = normalize_rpc_action L (PStr t) in
      rpc_aliases L handlers as
        (if k = [] \<or> target = [] \<or> \<not> dhas handlers target then acc else dset k target acc))"

definition rpc_registry_init :: "py_lang \<Rightarrow> (string \<times> 'h) list \<Rightarrow> (string \<times> string) list \<Rightarrow> 'h rpc_registry" where
  "rpc_registry_init L handlers aliases =
     (let hs = rpc_handlers L handlers [] in \<lparr>rg_handlers = hs, rg_aliases = rpc_aliases L hs aliases []\<rparr>)"

definition canonical_action :: "py_lang \<Rightarrow> 'h rpc_registry \<Rightarrow> pyval \<Rightarrow> string" where
  "canonical_action L r raw =
     (let action = normalize_rpc_action L raw in
      if action = [] then [] else dget (rg_aliases r) action action)"

definition handler_for :: "py_lang \<Rightarrow> 'h rpc_registry \<Rightarrow> pyval \<Rightarrow> 'h option" where
  "handler_for L r raw =
     (let action = canonical_action L r raw in
      if action = [] then None else map_of (rg_handlers r) action)"

definition canonicalize_request :: "py_lang \<Rightarrow> 'h rpc_registry \<Rightarrow> items \<Rightarrow> items" where
  "canonicalize_request L r req =
     (let canonical = canonical_action L r (jget req ''type'') in
      if canonical \<noteq> [] \<and> canonical \<noteq> py_strip (py_str L (dget req ''type'' (PStr [])))
      then dset ''type'' (PStr canonical) req
      else req)"

text \<open>The handler that is run, with the request it is run on.\<close>

definition rpc_dispatch :: "py_lang \<Rightarrow> 'h rpc_registry \<Rightarrow> items \<Rightarrow> ('h \<times> items) option" where
  "rpc_dispatch L r req = map_option (\<lambda>h. (h, req)) (handler_for L r (jget req ''type''))"

definition dispatch_with_canonical :: "py_lang \<Rightarrow> 'h rpc_registry \<Rightarrow> items \<Rightarrow> ('h \<times> items) option" where
  "dispatch_with_canonical L r req =
     (let req1 = canonicalize_request L r req in
      map_option (\<lambda>h. (h, req1)) (map_of (rg_handlers r) (normalize_rpc_action L (jget req1 ''type''))))"


section \<open>What normalisation keeps\<close>

lemma normalized_has_ok: "dhas (normalize_command_response L resp) ''ok''"
  by (simp add: normalize_command_response_def response_dict_def Let_def)

lemma ensure_error_shape_ok:
  "is_response_ok (PDict (ensure_error_shape resp)) \<longleftrightarrow> is_response_ok resp"
  by (auto simp: ensure_error_shape_def is_response_ok_def response_dict_def response_failure_def dict_simps
      split: option.split pyval.split)

lemma response_dict_ok: "is_response_ok (PDict (response_dict r)) \<longleftrightarrow> rr_ok r"
  by (simp add: is_response_ok_def response_dict_def)

lemma from_driver_status_ok: "rr_ok (from_driver_status L d) \<longleftrightarrow> is_response_ok (PDict d)"
  by (simp add: from_driver_status_def is_response_ok_def response_success_def response_failure_def split: option.split)

lemma normalized_ok: "is_response_ok (PDict (normalize_command_response L resp)) \<longleftrightarrow> is_response_ok resp"
  by (simp add: normalize_command_response_def Let_def response_dict_ok from_driver_status_ok ensure_error_shape_ok)

lemma ensure_error_shape_idem: "ensure_error_shape (PDict (ensure_error_shape resp)) = ensure_error_shape resp"
  by (auto simp: ensure_error_shape_def response_dict_def response_failure_def error_payload_dict_def dict_simps
      split: option.split pyval.split)

lemma response_dict_shape: "ensure_error_shape (PDict (response_dict r)) = response_dict r"
  by (simp add: ensure_error_shape_def response_dict_def split: option.split)

lemma normalized_error_shape: "ensure_error_shape (PDict (normalize_command_response L resp)) = normalize_command_response L resp"
  by (simp add: normalize_command_response_def Let_def ensure_error_shape_idem response_dict_shape)

lemma normalize_idem: "normalize_command_response L (PDict (normalize_command_response L resp)) = normalize_command_response L resp"
  using normalized_has_ok normalized_error_shape
  by (subst normalize_command_response_def) (simp add: Let_def)


section \<open>What the registry keeps\<close>

lemma py_strip_idem: "py_strip (py_strip s) = py_strip s"
proof -
  have drop: "dropWhile is_space (rev (dropWhile is_space (rev t))) = rev (dropWhile is_space (rev t))"
    if "dropWhile is_space t = t" for t
    using that unfolding dropWhile_eq_self_iff by (cases t) (auto simp: dropWhile_append)
  show ?thesis unfolding py_strip_def by (simp add: drop)
qed

definition clean_action :: "string \<Rightarrow> bool" where
  "clean_action a \<longleftrightarrow> a \<noteq> [] \<and> py_strip a = a"

lemma normalize_clean: "clean_action a \<Longrightarrow> normalize_rpc_action L (PStr a) = a"
  by (simp add: normalize_rpc_action_def clean_action_def py_or_def)

lemma normalize_is_clean: "normalize_rpc_action L v \<noteq> [] \<Longrightarrow> clean_action (normalize_rpc_action L v)"
  by (simp add: clean_action_def normalize_rpc_action_def py_strip_idem)

definition registry_ok :: "'h rpc_registry \<Rightarrow> bool" where
  "registry_ok r \<longleftrightarrow> (\<forall>k. dhas (rg_handlers r) k \<longrightarrow> clean_action k)
     \<and> (\<forall>k t. map_of (rg_aliases r) k = Some t \<longrightarrow> dhas (rg_handlers r) t)"

lemma rpc_handlers_clean:
  "\<forall>k. dhas acc k \<longrightarrow> clean_action k \<Longrightarrow> \<forall>k. dhas (rpc_handlers L hs acc) k \<longrightarrow> clean_action k"
proof (induction hs arbitrary: acc)
  case (Cons p hs)
  obtain a h where p: "p = (a, h)" by (cases p)
  show ?case
    unfolding p rpc_handlers.simps Let_def
    by (rule Cons.IH) (use Cons.prems normalize_is_clean [of L "PStr a"] in \<open>auto simp: dict_simps\<close>)
qed simp

lemma rpc_aliases_targets:
  "\<forall>k t. map_of acc k = Some t \<longrightarrow> dhas hs t \<Longrightarrow> \<forall>k t. map_of (rpc_aliases L hs as acc) k = Some t \<longrightarrow> dhas hs t"
proof (induction as arbitrary: acc)
  case (Cons p as)
  obtain a b where p: "p = (a, b)" by (cases p)
  show ?case
    unfolding p rpc_aliases.simps Let_def
    by (rule Cons.IH) (use Cons.prems in \<open>auto simp: update_conv' split: if_splits\<close>)
qed simp

lemma registry_init_ok: "registry_ok (rpc_registry_init L handlers aliases)"
  using rpc_handlers_clean [of "[]" L handlers] rpc_aliases_targets [of "[]" "rpc_handlers L handlers []" L aliases]
  by (auto simp: registry_ok_def rpc_registry_init_def Let_def)

lemma canonical_empty: "registry_ok r \<Longrightarrow> canonical_action L r v = [] \<longleftrightarrow> normalize_rpc_action L v = []"
  by (auto simp: canonical_action_def Let_def dget_def registry_ok_def clean_action_def split: option.split)

lemma canonical_clean:
  "registry_ok r \<Longrightarrow> canonical_action L r v \<noteq> [] \<Longrightarrow> clean_action (canonical_action L r v)"
  using normalize_is_clean [of L v]
  by (auto simp: canonical_action_def Let_def dget_def registry_ok_def split: if_splits option.splits)

lemma no_empty_handler: "registry_ok r \<Longrightarrow> map_of (rg_handlers r) [] = None"
  unfolding registry_ok_def clean_action_def dhas_def by auto

lemma canonical_request_type:
  assumes "registry_ok r" and c: "canonical_action L r (jget req ''type'') \<noteq> []"
  shows "normalize_rpc_action L (jget (canonicalize_request L r req) ''type'') = canonical_action L r (jget req ''type'')"
proof (cases "canonical_action L r (jget req ''type'') = py_strip (py_str L (dget req ''type'' (PStr [])))")
  case True
  have truthy: "truthy (jget req ''type'')"
    using c assms(1) by (auto simp: canonical_empty normalize_rpc_action_def py_or_def py_strip_def split: if_splits)
  then have "dget req ''type'' (PStr []) = jget req ''type''"
    by (auto simp: dget_def split: option.splits)
  then show ?thesis
    using True truthy by (simp add: canonicalize_request_def Let_def normalize_rpc_action_def py_or_def)
next
  case False
  then show ?thesis
    using c canonical_clean [OF assms] by (simp add: canonicalize_request_def Let_def dict_simps normalize_clean)
qed

lemma dispatchers_agree:
  assumes "registry_ok r"
  shows "map_option fst (dispatch_with_canonical L r req) = map_option fst (rpc_dispatch L r req)"
proof (cases "canonical_action L r (jget req ''type'') = []")
  case True
  then show ?thesis
    using assms no_empty_handler [OF assms] canonical_empty [OF assms, of L "jget req ''type''"]
    by (simp add: dispatch_with_canonical_def rpc_dispatch_def handler_for_def canonicalize_request_def Let_def)
next
  case False
  then show ?thesis
    using canonical_request_type [OF assms False]
    by (simp add: dispatch_with_canonical_def rpc_dispatch_def handler_for_def Let_def option.map_comp comp_def)
qed

end
