(* ===== verification/State_Machine.thy ===== *)
theory State_Machine
  imports Responses "HOL-Library.List_Lexorder" "HOL-Library.Char_ord"
begin

text \<open>
  The state machine every sequenced process is built on,
  \<open>StateMachineProcessBase\<close> of \<open>processes/state_machine_base.py\<close>: the graph of states, the
  allowed transitions, guarded and forced transitions with their history, and the search
  for a path through the graph. The hooks a subclass defines, the clock, the manager call
  and the publishing of events are parameters.
\<close>

section \<open>The graph\<close>

record graph_edge =
  ge_id :: string
  ge_from :: string
  ge_to :: string
  ge_note :: "string option"

text \<open>\<open>str(d.get(key, "")).strip()\<close>\<close>

definition stripped :: "py_lang \<Rightarrow> items \<Rightarrow> string \<Rightarrow> string" where
  "stripped L d k = py_strip (py_str L (dget d k (PStr '''')))"

definition normalize_graph_edge :: "py_lang \<Rightarrow> nat \<Rightarrow> pyval \<Rightarrow> graph_edge option" where
  "normalize_graph_edge L idx item =
     (case as_dict item of
        None \<Rightarrow> None
      | Some d \<Rightarrow>
          let from_state = stripped L d ''from_state''; to_state = stripped L d ''to_state'' in
          if from_state = [] \<or> to_state = [] then None
          else
          let edge_id = stripped L d ''id''; note = stripped L d ''note'' in
          Some \<lparr>ge_id = (if edge_id = [] then ''edge_'' @ digits_of idx else edge_id),
                ge_from = from_state, ge_to = to_state, ge_note = (if note = [] then None else Some note)\<rparr>)"

fun normalize_edges_from :: "py_lang \<Rightarrow> nat \<Rightarrow> pyval list \<Rightarrow> graph_edge list" where
  "normalize_edges_from L idx [] = []"
| "normalize_edges_from L idx (x # xs) =
     (case normalize_graph_edge L idx x of
        None \<Rightarrow> normalize_edges_from L (Suc idx) xs
      | Some e \<Rightarrow> e # normalize_edges_from L (Suc idx) xs)"

definition normalize_graph_edges :: "py_lang \<Rightarrow> pyval \<Rightarrow> graph_edge list" where
  "normalize_graph_edges L raw = (case raw of PList xs \<Rightarrow> normalize_edges_from L 0 xs | _ \<Rightarrow> [])"

text \<open>The allowed transitions: a dictionary from states to sets of states.\<close>

type_synonym transitions = "(string \<times> string list) list"

definition add_target :: "string \<Rightarrow> string \<Rightarrow> transitions \<Rightarrow> transitions" where
  "add_target src dst t = dset src (List.insert dst (dget t src [])) t"

definition derive_allowed_transitions_from_graph_edges :: "graph_edge list \<Rightarrow> transitions" where
  "derive_allowed_transitions_from_graph_edges edges =
     foldl (\<lambda>out e. if py_strip (ge_from e) = [] \<or> py_strip (ge_to e) = [] then out
                    else add_target (py_strip (ge_from e)) (py_strip (ge_to e)) out) [] edges"

fun normalize_allowed_from :: "py_lang \<Rightarrow> items \<Rightarrow> transitions \<Rightarrow> pyexc + transitions" where
  "normalize_allowed_from L [] out = Inr out"
| "normalize_allowed_from L ((src, dst) # rest) out =
     (case dst of
        PList xs \<Rightarrow> normalize_allowed_from L rest (dset src (remdups (map (py_str L) xs)) out)
      | _ \<Rightarrow> Inl (TypeError ''allowed_transitions values must be set[str] | list[str] | tuple[str, ...]''))"

definition normalize_allowed_transitions :: "py_lang \<Rightarrow> items option \<Rightarrow> pyexc + transitions" where
  "normalize_allowed_transitions L raw =
     (case raw of None \<Rightarrow> Inr [] | Some d \<Rightarrow> normalize_allowed_from L d [])"

section \<open>The process\<close>

record machine =
  sm_process_id :: string
  sm_initial_state :: string
  sm_state :: string
  sm_state_since :: "pyfloat \<times> pyfloat" \<comment> \<open>wall clock and monotonic clock\<close>
  sm_last_error :: "string option"
  sm_last_transition :: pyval
  sm_last_command :: pyval
  sm_graph_edges :: "graph_edge list"
  sm_allowed :: transitions
  sm_history_max :: nat
  sm_history :: "items list"
  sm_has_manager :: bool
  sm_published :: "pyval list"

type_synonym two_clocks = "pyfloat \<times> pyfloat"

definition machine_init ::
  "py_lang \<Rightarrow> two_clocks \<Rightarrow> string \<Rightarrow> string \<Rightarrow> string \<Rightarrow> items option \<Rightarrow> pyval \<Rightarrow> pyexc + machine" where
  "machine_init L now process_id namespace initial allowed graph =
     (if py_strip namespace = [] then Inl (ValueError ''rpc_namespace must be a non-empty string'')
      else
      let edges = normalize_graph_edges L graph in
      res_bind (if allowed = None \<and> edges \<noteq> [] then Inr (derive_allowed_transitions_from_graph_edges edges)
                else normalize_allowed_transitions L allowed) (\<lambda>trans.
        Inr \<lparr>sm_process_id = process_id, sm_initial_state = initial, sm_state = initial, sm_state_since = now,
             sm_last_error = None, sm_last_transition = PNone, sm_last_command = PNone, sm_graph_edges = edges,
             sm_allowed = trans, sm_history_max = 500, sm_history = [], sm_has_manager = True, sm_published = []\<rparr>))"

section \<open>History\<close>

definition ts_payload :: "two_clocks \<Rightarrow> pyval" where
  "ts_payload now = PDict [(''t_wall'', PFloat (fst now)), (''t_mono'', PFloat (snd now))]"

definition append_history_entry :: "two_clocks \<Rightarrow> items \<Rightarrow> machine \<Rightarrow> machine" where
  "append_history_entry now entry m =
     (let item = (if dhas entry ''ts'' then entry else entry @ [(''ts'', ts_payload now)]);
          h = sm_history m @ [item]
      in m\<lparr>sm_history := (if length h > sm_history_max m then drop (length h - sm_history_max m) h else h)\<rparr>)"

definition set_last_error :: "two_clocks \<Rightarrow> string option \<Rightarrow> machine \<Rightarrow> machine" where
  "set_last_error now message m =
     (let m1 = m\<lparr>sm_last_error := message\<rparr> in
      case message of
        Some (c # cs) \<Rightarrow>
          append_history_entry now [(''event'', PStr ''error''), (''state'', PStr (sm_state m1)),
            (''message'', PStr (c # cs)), (''ok'', PBool False)] m1
      | _ \<Rightarrow> m1)"

definition history_rows :: "bool \<Rightarrow> items list \<Rightarrow> items list" where
  "history_rows errors_only rows =
     (if errors_only
      then filter (\<lambda>row. jget row ''ok'' = PBool False \<or> jget row ''event'' = PStr ''error'') rows else rows)"

definition history_tail_payload :: "int \<Rightarrow> bool \<Rightarrow> machine \<Rightarrow> items" where
  "history_tail_payload limit errors_only m =
     (let rows = history_rows errors_only (sm_history m);
          tail = (if limit > 0 \<and> int (length rows) > limit then drop (length rows - nat limit) rows else rows)
      in [(''entries'', PList (map PDict tail)), (''count'', PInt (int (length tail)))])"

section \<open>Transitions\<close>

definition allowed_next_states :: "string option \<Rightarrow> machine \<Rightarrow> string list" where
  "allowed_next_states state m =
     sort (dget (sm_allowed m) (case state of None \<Rightarrow> sm_state m | Some s \<Rightarrow> s) [])"

definition can_transition :: "string \<Rightarrow> string option \<Rightarrow> machine \<Rightarrow> bool" where
  "can_transition target from_state m =
     (target \<in> set (dget (sm_allowed m) (case from_state of None \<Rightarrow> sm_state m | Some s \<Rightarrow> s) []))"

definition TRANSITION_PUBLISH_ERROR_PREFIX :: string where
  "TRANSITION_PUBLISH_ERROR_PREFIX = ''failed to publish transition event''"

text \<open>Publishing; \<open>pub\<close> gives the \<open>repr\<close> of the exception it raised, if it did.\<close>

definition publish_transition_event ::
  "(pyval \<Rightarrow> string option) \<Rightarrow> string \<Rightarrow> string \<Rightarrow> pyval \<Rightarrow> items \<Rightarrow> machine \<Rightarrow> machine" where
  "publish_transition_event pub src dst reason metadata m =
     (if \<not> sm_has_manager m then m
      else
      let payload = PDict ([(''process_id'', PStr (sm_process_id m)), (''from_state'', PStr src),
             (''to_state'', PStr dst), (''reason'', reason)]
             @ (if metadata \<noteq> [] then [(''metadata'', PDict metadata)] else [])) in
      case pub payload of
        Some exc \<Rightarrow>
          (case sm_last_error m of
             Some (c # cs) \<Rightarrow> m
           | _ \<Rightarrow> m\<lparr>sm_last_error := Some (TRANSITION_PUBLISH_ERROR_PREFIX @ '' '' @ src @ '' -> '' @ dst @ '': '' @ exc)\<rparr>)
      | None \<Rightarrow>
          let m1 = m\<lparr>sm_published := sm_published m @ [payload]\<rparr> in
          (case sm_last_error m1 of
             Some err \<Rightarrow> if starts_with TRANSITION_PUBLISH_ERROR_PREFIX err then m1\<lparr>sm_last_error := None\<rparr> else m1
           | None \<Rightarrow> m1))"

text \<open>
  The hooks of a subclass, by the lower-case name of the state: they may raise and may
  change the process.
\<close>

type_synonym hook = "string \<Rightarrow> pyval \<Rightarrow> items \<Rightarrow> machine \<Rightarrow> (pyexc + unit) \<times> machine"

record machine_env =
  mv_clock :: two_clocks
  mv_publish :: "pyval \<Rightarrow> string option"
  mv_on_exit :: "string \<Rightarrow> hook option"
  mv_on_enter :: "string \<Rightarrow> hook option"

definition run_hook :: "hook option \<Rightarrow> hook" where
  "run_hook h other reason metadata m =
     (case h of None \<Rightarrow> (Inr (), m) | Some f \<Rightarrow> f other reason metadata m)"

definition enter_state :: "machine_env \<Rightarrow> string \<Rightarrow> string \<Rightarrow> pyval \<Rightarrow> items \<Rightarrow> machine \<Rightarrow> machine" where
  "enter_state env src dst reason metadata m =
     (let ts = ts_payload (mv_clock env);
          m1 = m\<lparr>sm_state := dst, sm_state_since := mv_clock env,
                 sm_last_transition := PDict [(''from_state'', PStr src), (''to_state'', PStr dst), (''reason'', reason),
                   (''ts'', ts), (''metadata'', PDict metadata)]\<rparr>;
          m2 = append_history_entry (mv_clock env)
                 [(''event'', PStr ''transition''), (''from_state'', PStr src), (''to_state'', PStr dst),
                  (''reason'', reason), (''metadata'', PDict metadata), (''ok'', PBool True), (''ts'', ts)] m1
      in publish_transition_event (mv_publish env) src dst reason metadata m2)"

definition transition ::
  "machine_env \<Rightarrow> string \<Rightarrow> pyval \<Rightarrow> items \<Rightarrow> bool \<Rightarrow> machine \<Rightarrow> (pyexc + bool) \<times> machine" where
  "transition env target reason metadata allow_noop m =
     (let src = sm_state m in
      if src = target then (Inr allow_noop, m)
      else if \<not> can_transition target (Some src) m then (Inr False, m)
      else case run_hook (mv_on_exit env (py_lower src)) target reason metadata m of
             (Inl e, m1) \<Rightarrow> (Inl e, m1)
           | (Inr _, m1) \<Rightarrow>
               let m2 = enter_state env src target reason metadata m1 in
               (case run_hook (mv_on_enter env (py_lower target)) src reason metadata m2 of
                  (Inl e, m3) \<Rightarrow> (Inl e, m3)
                | (Inr _, m3) \<Rightarrow> (Inr True, m3)))"

definition force_transition ::
  "machine_env \<Rightarrow> string \<Rightarrow> pyval \<Rightarrow> items \<Rightarrow> bool \<Rightarrow> machine \<Rightarrow> bool \<times> machine" where
  "force_transition env target reason metadata allow_noop m =
     (let src = sm_state m in
      if src = target then (allow_noop, m)
      else
      let meta = (if dhas metadata ''forced'' then metadata else metadata @ [(''forced'', PBool True)])
      in (True, enter_state env src target reason meta m))"

section \<open>Paths\<close>

text \<open>The edges out of a state, in the order of the graph.\<close>

definition adjacency :: "graph_edge list \<Rightarrow> string \<Rightarrow> graph_edge list" where
  "adjacency edges cur = filter (\<lambda>e. py_strip (ge_from e) \<noteq> [] \<and> py_strip (ge_from e) = cur) edges"

record search =
  se_queue :: "string list"
  se_parent :: "(string \<times> string \<times> graph_edge) list"
  se_visited :: "string list"
  se_found :: bool

fun scan_edges :: "string \<Rightarrow> string \<Rightarrow> graph_edge list \<Rightarrow> search \<Rightarrow> search" where
  "scan_edges target cur [] s = s"
| "scan_edges target cur (e # es) s =
     (let nxt = py_strip (ge_to e) in
      if nxt = [] \<or> nxt \<in> set (se_visited s) then scan_edges target cur es s
      else
      let s1 = s\<lparr>se_visited := nxt # se_visited s, se_parent := dset nxt (cur, e) (se_parent s)\<rparr> in
      if nxt = target then s1\<lparr>se_found := True, se_queue := []\<rparr>
      else scan_edges target cur es (s1\<lparr>se_queue := se_queue s1 @ [nxt]\<rparr>))"

definition unvisited :: "graph_edge list \<Rightarrow> search \<Rightarrow> nat" where
  "unvisited edges s = card (set (map (\<lambda>e. py_strip (ge_to e)) edges) - set (se_visited s))"


lemma scan_edges_visited: "set (se_visited s) \<subseteq> set (se_visited (scan_edges target cur es s))"
  by (induction target cur es s rule: scan_edges.induct) (auto simp: Let_def)

text \<open>A scan that enters nothing new leaves the search as it was; one that does, shrinks the rest.\<close>

lemma scan_edges_progress:
  assumes "set es \<subseteq> set edges"
  shows "scan_edges target cur es s = s \<or> unvisited edges (scan_edges target cur es s) < unvisited edges s"
  using assms
proof (induction target cur es s rule: scan_edges.induct)
  case (2 target cur e es s)
  let ?n = "py_strip (ge_to e)"
  let ?s1 = "s\<lparr>se_visited := ?n # se_visited s, se_parent := dset ?n (cur, e) (se_parent s)\<rparr>"
  show ?case
  proof (cases "?n = [] \<or> ?n \<in> set (se_visited s)")
    case True
    with 2 show ?thesis by (auto simp: Let_def)
  next
    case False
    have "?n \<in> set (map (\<lambda>e. py_strip (ge_to e)) edges)" using "2.prems" by auto
    then have less: "unvisited edges s' < unvisited edges s" if "set (?n # se_visited s) \<subseteq> set (se_visited s')" for s' :: search
      unfolding unvisited_def using that False by (intro psubset_card_mono) auto
    have "set (?n # se_visited s) \<subseteq> set (se_visited (scan_edges target cur es (?s1\<lparr>se_queue := se_queue ?s1 @ [?n]\<rparr>)))"
      using scan_edges_visited [of "?s1\<lparr>se_queue := se_queue ?s1 @ [?n]\<rparr>" target cur es] by simp
    with less have "unvisited edges (scan_edges target cur es (?s1\<lparr>se_queue := se_queue ?s1 @ [?n]\<rparr>)) < unvisited edges s"
      by blast
    moreover have "unvisited edges (?s1\<lparr>se_found := True, se_queue := []\<rparr>) < unvisited edges s"
      by (rule less) simp
    ultimately show ?thesis using False by (auto simp: Let_def)
  qed
qed simp

function bfs :: "graph_edge list \<Rightarrow> string \<Rightarrow> search \<Rightarrow> search" where
  "bfs edges target s =
     (case se_queue s of
        [] \<Rightarrow> s
      | cur # rest \<Rightarrow> bfs edges target (scan_edges target cur (adjacency edges cur) (s\<lparr>se_queue := rest\<rparr>)))"
  by pat_completeness auto
termination
proof (relation "measures [\<lambda>(edges, _, s). unvisited edges s, \<lambda>(_, _, s). length (se_queue s)]")
  fix edges :: "graph_edge list" and target cur :: string and s :: search and rest :: "string list"
  assume q: "se_queue s = cur # rest"
  let ?s = "s\<lparr>se_queue := rest\<rparr>"
  have "scan_edges target cur (adjacency edges cur) ?s = ?s
      \<or> unvisited edges (scan_edges target cur (adjacency edges cur) ?s) < unvisited edges ?s"
    by (rule scan_edges_progress) (auto simp: adjacency_def)
  then show "((edges, target, scan_edges target cur (adjacency edges cur) ?s), edges, target, s)
      \<in> measures [\<lambda>(edges, _, s). unvisited edges s, \<lambda>(_, _, s). length (se_queue s)]"
    by (auto simp: q unvisited_def)
qed simp

declare bfs.simps [simp del]

text \<open>Walking back from the target; a missing parent would be a \<open>KeyError\<close>.\<close>

partial_function (option) walk_back ::
  "(string \<times> string \<times> graph_edge) list \<Rightarrow> string \<Rightarrow> string \<Rightarrow> graph_edge list
    \<Rightarrow> (pyexc + graph_edge list) option" where
  "walk_back parent start cursor path_rev =
     (if cursor = start then Some (Inr (rev path_rev))
      else case map_of parent cursor of
        None \<Rightarrow> Some (Inl (KeyError cursor))
      | Some (prev, e) \<Rightarrow> walk_back parent start prev (path_rev @ [e]))"

text \<open>
  The planned path: \<open>None\<close> if the walk does not end, an exception, or the answer of the
  method (\<open>None\<close> or the edges to follow).
\<close>

definition plan_state_path ::
  "string \<Rightarrow> string option \<Rightarrow> machine \<Rightarrow> (pyexc + graph_edge list option) option" where
  "plan_state_path target from_state m =
     (let start = (case from_state of None \<Rightarrow> sm_state m | Some s \<Rightarrow> s) in
      if start = [] \<or> target = [] then Some (Inr None)
      else if start = target then Some (Inr (Some []))
      else if sm_graph_edges m = [] then Some (Inr None)
      else
      let s = bfs (sm_graph_edges m) target \<lparr>se_queue = [start], se_parent = [], se_visited = [start], se_found = False\<rparr> in
      if \<not> se_found s then Some (Inr None)
      else map_option (\<lambda>r. res_bind r (\<lambda>p. Inr (Some p))) (walk_back (se_parent s) start target []))"

text \<open>The shortest path to any of several states; ties go to the first state in sorted order.\<close>

fun best_path ::
  "string list \<Rightarrow> string \<Rightarrow> machine \<Rightarrow> graph_edge list option \<Rightarrow> (pyexc + graph_edge list option) option" where
  "best_path [] start m best = Some (Inr best)"
| "best_path (t # ts) start m best =
     (case plan_state_path t (Some start) m of
        None \<Rightarrow> None
      | Some (Inl e) \<Rightarrow> Some (Inl e)
      | Some (Inr None) \<Rightarrow> best_path ts start m best
      | Some (Inr (Some p)) \<Rightarrow>
          best_path ts start m
            (if (case best of None \<Rightarrow> True | Some b \<Rightarrow> length p < length b) then Some p else best))"

definition plan_state_path_to_any ::
  "string list \<Rightarrow> string option \<Rightarrow> machine \<Rightarrow> (pyexc + graph_edge list option) option" where
  "plan_state_path_to_any target_states from_state m =
     (let targets = remdups (filter (\<lambda>t. t \<noteq> []) (map py_strip target_states)) in
      if targets = [] then Some (Inr None)
      else
      let start = (case from_state of None \<Rightarrow> sm_state m | Some s \<Rightarrow> s) in
      if start \<in> set targets then Some (Inr (Some []))
      else best_path (sort targets) start m None)"

section \<open>Commands\<close>

definition sm_command ::
  "py_lang \<Rightarrow> (pyval \<Rightarrow> int option \<Rightarrow> pyexc + pyval) \<Rightarrow> string \<Rightarrow> string \<Rightarrow> items \<Rightarrow> pyfloat option \<Rightarrow> machine
    \<Rightarrow> (pyexc + pyval) \<times> machine" where
  "sm_command L call device_id action params timeout m =
     (if \<not> sm_has_manager m then (Inl (RuntimeError ''manager not initialized''), m)
      else
      let req = PDict [(''type'', PStr ''command''), (''device_id'', PStr device_id), (''action'', PStr action),
                       (''params'', PDict params), (''caller_process_id'', PStr (sm_process_id m))];
          m1 = m\<lparr>sm_last_command := req\<rparr>
      in (res_bind (timeout_ms timeout) (\<lambda>ms.
          res_bind (call req ms) (\<lambda>resp.
            if \<not> is_response_ok resp
            then Inl (RuntimeError (''command failed: '' @ py_str L req @ '' -> '' @ py_str L resp))
            else Inr resp)), m1))"

end
