(* ===== verification/State_Machine_Proofs.thy ===== *)
theory State_Machine_Proofs
  imports State_Machine
begin

text \<open>
  The search for a path is a breadth-first search: its invariant, and that the path it
  gives is a shortest one. Then the transitions and the history.
\<close>

section \<open>Steps of the graph\<close>

definition edge_ok :: "graph_edge list \<Rightarrow> string \<Rightarrow> graph_edge \<Rightarrow> string \<Rightarrow> bool" where
  "edge_ok edges u e v \<longleftrightarrow> e \<in> set edges \<and> u = py_strip (ge_from e) \<and> v = py_strip (ge_to e) \<and> u \<noteq> [] \<and> v \<noteq> []"

definition steps :: "graph_edge list \<Rightarrow> (string \<times> string) set" where
  "steps edges = {(u, v). \<exists>e. edge_ok edges u e v}"

fun is_path :: "graph_edge list \<Rightarrow> string \<Rightarrow> graph_edge list \<Rightarrow> string \<Rightarrow> bool" where
  "is_path edges u [] v \<longleftrightarrow> u = v"
| "is_path edges u (e # es) v \<longleftrightarrow> edge_ok edges u e (py_strip (ge_to e)) \<and> is_path edges (py_strip (ge_to e)) es v"

lemma is_path_snoc: "is_path edges u (p @ [e]) w \<longleftrightarrow> (\<exists>v. is_path edges u p v \<and> edge_ok edges v e w)"
  by (induction p arbitrary: u) (auto simp: edge_ok_def)

lemma path_relpow: "is_path edges u p v \<Longrightarrow> (u, v) \<in> steps edges ^^ length p"
proof (induction p arbitrary: v rule: rev_induct)
  case (snoc e p)
  then obtain w where "is_path edges u p w" "edge_ok edges w e v" by (auto simp: is_path_snoc)
  with snoc.IH show ?case by (auto simp: steps_def)
qed simp

lemma relpow_path: "(u, v) \<in> steps edges ^^ n \<Longrightarrow> \<exists>p. is_path edges u p v \<and> length p = n"
proof (induction n arbitrary: v)
  case (Suc n)
  then obtain w e where "(u, w) \<in> steps edges ^^ n" "edge_ok edges w e v" by (auto simp: steps_def)
  with Suc.IH obtain p where "is_path edges u p w" "length p = n" by blast
  with \<open>edge_ok edges w e v\<close> have "is_path edges u (p @ [e]) v" "length (p @ [e]) = Suc n" by (auto simp: is_path_snoc)
  then show ?case by blast
qed simp

section \<open>The invariant of the search\<close>

text \<open>
  \<open>lev\<close> gives the level of each state visited; \<open>opn\<close> are the states visited whose edges
  are not all scanned yet, in the order of the queue.
\<close>

definition bfs_inv ::
  "graph_edge list \<Rightarrow> string \<Rightarrow> (string \<Rightarrow> nat) \<Rightarrow> string list \<Rightarrow> search \<Rightarrow> bool" where
  "bfs_inv edges start lev opn s \<longleftrightarrow>
     start \<in> set (se_visited s) \<and> set opn \<subseteq> set (se_visited s)
     \<and> (\<forall>v\<in>set (se_visited s). (start, v) \<in> steps edges ^^ lev v)
     \<and> (\<forall>v\<in>set (se_visited s). \<forall>n. (start, v) \<in> steps edges ^^ n \<longrightarrow> lev v \<le> n)
     \<and> sorted (map lev opn) \<and> (opn \<noteq> [] \<longrightarrow> (\<forall>v\<in>set opn. lev v \<le> Suc (lev (hd opn))))
     \<and> (\<forall>v\<in>set (se_visited s) - set opn. \<forall>w. (v, w) \<in> steps edges \<longrightarrow> w \<in> set (se_visited s))
     \<and> (\<forall>v\<in>set (se_visited s). v \<noteq> start \<longrightarrow>
          (\<exists>u e. map_of (se_parent s) v = Some (u, e) \<and> u \<in> set (se_visited s) \<and> edge_ok edges u e v \<and> lev v = Suc (lev u)))"

text \<open>A state not visited yet is further away than the first open one.\<close>

lemma unvisited_far:
  assumes inv: "bfs_inv edges start lev opn s" and w: "w \<notin> set (se_visited s)" and "(start, w) \<in> steps edges ^^ n"
  shows "opn \<noteq> [] \<and> Suc (lev (hd opn)) \<le> n"
  using assms(3) w
proof (induction n arbitrary: w)
  case 0
  with inv show ?case by (simp add: bfs_inv_def)
next
  case (Suc n)
  then obtain v where v: "(start, v) \<in> steps edges ^^ n" "(v, w) \<in> steps edges" by auto
  show ?case
  proof (cases "v \<in> set (se_visited s)")
    case False
    with Suc.IH v(1) show ?thesis by fastforce
  next
    case True
    with inv v Suc.prems(2) have o: "v \<in> set opn" unfolding bfs_inv_def by blast
    then have "lev (hd opn) \<le> lev v"
      using inv by (cases opn) (auto simp: bfs_inv_def)
    moreover have "lev v \<le> n" using inv True v(1) by (simp add: bfs_inv_def)
    ultimately show ?thesis using o by (auto intro: order_trans)
  qed
qed

lemma visit_inv:
  assumes inv: "bfs_inv edges start lev (cur # q) s" and e: "edge_ok edges cur e nxt"
    and new: "nxt \<notin> set (se_visited s)"
    and s': "se_visited s' = nxt # se_visited s" "se_parent s' = dset nxt (cur, e) (se_parent s)"
  shows "bfs_inv edges start (lev(nxt := Suc (lev cur))) (cur # q @ [nxt]) s'"
proof -
  let ?l = "lev(nxt := Suc (lev cur))"
  have cv: "cur \<in> set (se_visited s)" "start \<in> set (se_visited s)" and open_visited: "set q \<subseteq> set (se_visited s)"
    and reach: "\<forall>v\<in>set (se_visited s). (start, v) \<in> steps edges ^^ lev v"
    and least: "\<forall>v\<in>set (se_visited s). \<forall>n. (start, v) \<in> steps edges ^^ n \<longrightarrow> lev v \<le> n"
    and srt: "sorted (map lev (cur # q))" and near: "\<forall>v\<in>set (cur # q). lev v \<le> Suc (lev cur)"
    and done': "\<forall>v\<in>set (se_visited s) - set (cur # q). \<forall>w. (v, w) \<in> steps edges \<longrightarrow> w \<in> set (se_visited s)"
    and par: "\<forall>v\<in>set (se_visited s). v \<noteq> start \<longrightarrow> (\<exists>u e. map_of (se_parent s) v = Some (u, e)
      \<and> u \<in> set (se_visited s) \<and> edge_ok edges u e v \<and> lev v = Suc (lev u))"
    using inv by (simp_all add: bfs_inv_def)
  have ne: "v \<in> set (se_visited s) \<Longrightarrow> v \<noteq> nxt" for v using new by auto
  have l: "v \<in> set (se_visited s) \<Longrightarrow> ?l v = lev v" for v using ne by simp
  have step: "(cur, nxt) \<in> steps edges" using e by (auto simp: steps_def)
  have 1: "\<forall>v\<in>set (se_visited s'). (start, v) \<in> steps edges ^^ ?l v"
    using reach cv step l by (auto simp: s')
  have 2: "\<forall>v\<in>set (se_visited s'). \<forall>n. (start, v) \<in> steps edges ^^ n \<longrightarrow> ?l v \<le> n"
  proof (intro ballI allI impI)
    fix v n assume "v \<in> set (se_visited s')" "(start, v) \<in> steps edges ^^ n"
    then show "?l v \<le> n"
      using least unvisited_far [OF inv new, of n] by (cases "v = nxt") (auto simp: s')
  qed
  have map: "map ?l (cur # q) = map lev (cur # q)" using ne cv open_visited by auto
  have "sorted (map lev (cur # q) @ [Suc (lev cur)])"
    using srt near by (simp only: sorted_append) auto
  moreover have "map ?l (cur # q @ [nxt]) = map ?l (cur # q) @ [Suc (lev cur)]" by simp
  ultimately have 3: "sorted (map ?l (cur # q @ [nxt]))" unfolding map by (simp only:)
  have cn: "cur \<noteq> nxt" using ne [OF cv(1)] .
  have 4: "\<forall>v\<in>set (cur # q @ [nxt]). ?l v \<le> Suc (?l (hd (cur # q @ [nxt])))"
  proof
    fix v assume "v \<in> set (cur # q @ [nxt])"
    then show "?l v \<le> Suc (?l (hd (cur # q @ [nxt])))"
      using bspec [OF near, of v] cn by (cases "v = nxt") simp_all
  qed
  have 5: "\<forall>v\<in>set (se_visited s') - set (cur # q @ [nxt]). \<forall>w. (v, w) \<in> steps edges \<longrightarrow> w \<in> set (se_visited s')"
  proof (intro ballI allI impI)
    fix v w assume v: "v \<in> set (se_visited s') - set (cur # q @ [nxt])" and w: "(v, w) \<in> steps edges"
    from v have "v \<in> set (se_visited s) - set (cur # q)" by (simp add: s')
    with w done' have "w \<in> set (se_visited s)" by blast
    then show "w \<in> set (se_visited s')" by (simp add: s')
  qed
  have 6: "\<forall>v\<in>set (se_visited s'). v \<noteq> start \<longrightarrow> (\<exists>u e. map_of (se_parent s') v = Some (u, e)
      \<and> u \<in> set (se_visited s') \<and> edge_ok edges u e v \<and> ?l v = Suc (?l u))"
  proof (intro ballI impI)
    fix v assume v: "v \<in> set (se_visited s')" "v \<noteq> start"
    show "\<exists>u e. map_of (se_parent s') v = Some (u, e) \<and> u \<in> set (se_visited s') \<and> edge_ok edges u e v \<and> ?l v = Suc (?l u)"
    proof (cases "v = nxt")
      case True
      with e l [OF cv(1)] cv(1) show ?thesis by (auto simp: s' update_conv')
    next
      case False
      with v par obtain u e where u: "map_of (se_parent s) v = Some (u, e)" "u \<in> set (se_visited s)"
        "edge_ok edges u e v" "lev v = Suc (lev u)" by (auto simp: s')
      have "map_of (se_parent s') v = Some (u, e)" using u(1) False by (simp add: s' update_conv')
      moreover have "?l v = Suc (?l u)" using False u(4) l [OF u(2)] by simp
      ultimately show ?thesis using u(2,3) by (auto simp: s')
    qed
  qed
  have 0: "start \<in> set (se_visited s')" "set (cur # q @ [nxt]) \<subseteq> set (se_visited s')"
    using cv open_visited by (auto simp: s')
  show ?thesis
    unfolding bfs_inv_def by (intro conjI impI 0 1 2 3 4 5 6)
qed

text \<open>Scanning the edges of the first open state.\<close>

lemma scan_inv:
  assumes "bfs_inv edges start lev (cur # se_queue s) s" "set es \<subseteq> set (adjacency edges cur)"
    and "\<not> se_found s" "target \<notin> set (se_visited s)"
  shows "\<exists>lev' opn. bfs_inv edges start lev' (cur # opn) (scan_edges target cur es s)
    \<and> (if se_found (scan_edges target cur es s)
       then target \<in> set (se_visited (scan_edges target cur es s)) \<and> se_queue (scan_edges target cur es s) = []
       else opn = se_queue (scan_edges target cur es s) \<and> target \<notin> set (se_visited (scan_edges target cur es s))
         \<and> (\<forall>e\<in>set es. py_strip (ge_to e) \<noteq> [] \<longrightarrow> py_strip (ge_to e) \<in> set (se_visited (scan_edges target cur es s))))"
  using assms
proof (induction target cur es s arbitrary: lev rule: scan_edges.induct)
  case (1 target cur s)
  then show ?case by auto
next
  case (2 target cur e es s)
  let ?n = "py_strip (ge_to e)"
  let ?s1 = "s\<lparr>se_visited := ?n # se_visited s, se_parent := dset ?n (cur, e) (se_parent s)\<rparr>"
  show ?case
  proof (cases "?n = [] \<or> ?n \<in> set (se_visited s)")
    case True
    then have eq: "scan_edges target cur (e # es) s = scan_edges target cur es s" by (simp add: Let_def)
    have "set (se_visited s) \<subseteq> set (se_visited (scan_edges target cur es s))" by (rule scan_edges_visited)
    with "2.IH"(1) [OF refl True] "2.prems" True show ?thesis unfolding eq by (fastforce split: if_splits)
  next
    case new: False
    have e: "edge_ok edges cur e ?n" using "2.prems"(2) new by (auto simp: adjacency_def edge_ok_def)
    note v = visit_inv [OF "2.prems"(1) e]
    show ?thesis
    proof (cases "?n = target")
      case True
      let ?s2 = "?s1\<lparr>se_found := True, se_queue := []\<rparr>"
      have eq: "scan_edges target cur (e # es) s = ?s2" using new True by (simp add: Let_def)
      have "bfs_inv edges start (lev(?n := Suc (lev cur))) (cur # se_queue s @ [?n]) ?s2"
        by (rule v) (use new in auto)
      then show ?thesis unfolding eq using True by (intro exI) auto
    next
      case False
      let ?s2 = "?s1\<lparr>se_queue := se_queue ?s1 @ [?n]\<rparr>"
      have eq: "scan_edges target cur (e # es) s = scan_edges target cur es ?s2" using new False by (simp add: Let_def)
      have inv: "bfs_inv edges start (lev(?n := Suc (lev cur))) (cur # se_queue ?s2) ?s2"
        using v [of ?s2] new by simp
      have "?n \<in> set (se_visited (scan_edges target cur es ?s2))"
        using scan_edges_visited [of ?s2 target cur es] by auto
      with "2.IH"(2) [OF refl new refl False inv] "2.prems" False show ?thesis
        unfolding eq by (fastforce split: if_splits)
    qed
  qed
qed


lemma pop_inv:
  assumes inv: "bfs_inv edges start lev (cur # q) s"
    and succ: "\<And>w. (cur, w) \<in> steps edges \<Longrightarrow> w \<in> set (se_visited s)"
  shows "bfs_inv edges start lev q s"
proof -
  have near: "\<forall>v\<in>set q. lev v \<le> Suc (lev (hd q))" if "q \<noteq> []"
  proof
    fix v assume "v \<in> set q"
    with inv have "lev v \<le> Suc (lev cur)" by (simp add: bfs_inv_def)
    also have "lev cur \<le> lev (hd q)" using inv that by (simp add: bfs_inv_def)
    finally show "lev v \<le> Suc (lev (hd q))" by simp
  qed
  have done': "\<forall>v\<in>set (se_visited s) - set q. \<forall>w. (v, w) \<in> steps edges \<longrightarrow> w \<in> set (se_visited s)"
  proof (intro ballI allI impI)
    fix v w assume v: "v \<in> set (se_visited s) - set q" and w: "(v, w) \<in> steps edges"
    have d: "\<forall>v\<in>set (se_visited s) - set (cur # q). \<forall>w. (v, w) \<in> steps edges \<longrightarrow> w \<in> set (se_visited s)"
      using inv by (simp add: bfs_inv_def)
    show "w \<in> set (se_visited s)"
    proof (cases "v = cur")
      case True
      with succ w show ?thesis by blast
    next
      case False
      with v have "v \<in> set (se_visited s) - set (cur # q)" by simp
      with d w show ?thesis by blast
    qed
  qed
  have "set q \<subseteq> set (se_visited s)" "sorted (map lev q)" using inv by (simp_all add: bfs_inv_def)
  moreover note inv [unfolded bfs_inv_def]
  ultimately show ?thesis
    unfolding bfs_inv_def by (elim conjE, intro conjI impI near done') assumption+
qed

lemma bfs_inv_queue [simp]: "bfs_inv edges start lev opn (s\<lparr>se_queue := q\<rparr>) = bfs_inv edges start lev opn s"
  by (simp add: bfs_inv_def)

lemma bfs_search:
  assumes "bfs_inv edges start lev (se_queue s) s" "\<not> se_found s" "target \<notin> set (se_visited s)"
  shows "\<exists>lev' opn. bfs_inv edges start lev' opn (bfs edges target s)
    \<and> (if se_found (bfs edges target s) then target \<in> set (se_visited (bfs edges target s))
       else opn = [] \<and> target \<notin> set (se_visited (bfs edges target s)))"
  using assms
proof (induction edges target s arbitrary: lev rule: bfs.induct)
  case (1 edges target s)
  show ?case
  proof (cases "se_queue s")
    case Nil
    then have eq: "bfs edges target s = s" by (subst bfs.simps) simp
    with Nil "1.prems" show ?thesis unfolding eq by auto
  next
    case (Cons cur rest)
    let ?s = "s\<lparr>se_queue := rest\<rparr>"
    let ?s' = "scan_edges target cur (adjacency edges cur) ?s"
    have eq: "bfs edges target s = bfs edges target ?s'" by (subst bfs.simps) (simp add: Cons)
    have "bfs_inv edges start lev (cur # se_queue ?s) ?s" using "1.prems"(1) Cons by simp
    moreover have "\<not> se_found ?s" "target \<notin> set (se_visited ?s)" using "1.prems"(2,3) by simp_all
    ultimately obtain lev' opn where
      i: "bfs_inv edges start lev' (cur # opn) ?s'" and
      c: "if se_found ?s' then target \<in> set (se_visited ?s') \<and> se_queue ?s' = []
          else opn = se_queue ?s' \<and> target \<notin> set (se_visited ?s') \<and>
            (\<forall>e\<in>set (adjacency edges cur). py_strip (ge_to e) \<noteq> [] \<longrightarrow> py_strip (ge_to e) \<in> set (se_visited ?s'))"
      using scan_inv [OF _ order_refl] by blast
    show ?thesis
    proof (cases "se_found ?s'")
      case True
      with c have "bfs edges target ?s' = ?s'" by (subst bfs.simps) simp
      with True c i show ?thesis unfolding eq by auto
    next
      case False
      have "bfs_inv edges start lev' (se_queue ?s') ?s'"
      proof (rule pop_inv)
        show "bfs_inv edges start lev' (cur # se_queue ?s') ?s'" using i c False by simp
        show "w \<in> set (se_visited ?s')" if "(cur, w) \<in> steps edges" for w
          using that c False by (auto simp: steps_def edge_ok_def adjacency_def)
      qed
      with "1.IH" [OF Cons this False] c False show ?thesis unfolding eq by simp
    qed
  qed
qed

lemma walk_back_path:
  assumes "bfs_inv edges start lev opn s" "v \<in> set (se_visited s)"
  shows "\<exists>p. walk_back (se_parent s) start v acc = Some (Inr (p @ rev acc)) \<and> is_path edges start p v \<and> length p = lev v"
  using assms(2)
proof (induction "lev v" arbitrary: v acc rule: less_induct)
  case less
  show ?case
  proof (cases "v = start")
    case True
    with assms(1) less.prems have "lev v \<le> 0" unfolding bfs_inv_def by (metis relpow_0_I)
    with True show ?thesis by (subst walk_back.simps) auto
  next
    case False
    with assms(1) less.prems obtain u e where u: "map_of (se_parent s) v = Some (u, e)" "u \<in> set (se_visited s)"
      "edge_ok edges u e v" "lev v = Suc (lev u)"
      by (auto simp: bfs_inv_def)
    from less.hyps [OF _ u(2), of "acc @ [e]"] u(4) obtain p where
      p: "walk_back (se_parent s) start u (acc @ [e]) = Some (Inr (p @ rev (acc @ [e])))"
      "is_path edges start p u" "length p = lev u" by auto
    then have "walk_back (se_parent s) start v acc = Some (Inr ((p @ [e]) @ rev acc))"
      using False u(1) by (subst walk_back.simps) simp
    moreover have "is_path edges start (p @ [e]) v" using p(2) u(3) by (auto simp: is_path_snoc)
    ultimately show ?thesis using p(3) u(4) by (intro exI [where x = "p @ [e]"]) simp
  qed
qed

lemma bfs_start: "bfs_inv edges start (\<lambda>_. 0) [start]
    \<lparr>se_queue = [start], se_parent = [], se_visited = [start], se_found = False\<rparr>"
  by (simp add: bfs_inv_def)

text \<open>What the search finds.\<close>

lemma plan_result:
  assumes "start = (case from_state of None \<Rightarrow> sm_state m | Some s \<Rightarrow> s)" "start \<noteq> []" "target \<noteq> []"
  shows "\<exists>r. plan_state_path target from_state m = Some (Inr r) \<and>
    (case r of
       None \<Rightarrow> \<not> (\<exists>q. is_path (sm_graph_edges m) start q target)
     | Some p \<Rightarrow> is_path (sm_graph_edges m) start p target
         \<and> (\<forall>q. is_path (sm_graph_edges m) start q target \<longrightarrow> length p \<le> length q))"
proof (cases "start = target \<or> sm_graph_edges m = []")
  case True
  have "\<not> is_path [] start q target" if "start \<noteq> target" for q
    using that by (cases q) (auto simp: edge_ok_def)
  with True assms show ?thesis by (auto simp: plan_state_path_def Let_def)
next
  case False
  let ?E = "sm_graph_edges m"
  let ?init = "\<lparr>se_queue = [start], se_parent = [], se_visited = [start], se_found = False\<rparr>"
  let ?s = "bfs ?E target ?init"
  have "bfs_inv ?E start (\<lambda>_. 0) (se_queue ?init) ?init" using bfs_start by simp
  moreover have "\<not> se_found ?init" "target \<notin> set (se_visited ?init)" using False by auto
  ultimately obtain lev opn where inv: "bfs_inv ?E start lev opn ?s"
    and c: "if se_found ?s then target \<in> set (se_visited ?s) else opn = [] \<and> target \<notin> set (se_visited ?s)"
    using bfs_search by blast
  have plan: "plan_state_path target from_state m =
      (if \<not> se_found ?s then Some (Inr None)
       else map_option (\<lambda>r. res_bind r (\<lambda>p. Inr (Some p))) (walk_back (se_parent ?s) start target []))"
    using assms False by (simp add: plan_state_path_def Let_def)
  show ?thesis
  proof (cases "se_found ?s")
    case True
    from walk_back_path [OF inv, of target "[]"] c True obtain p where
      p: "walk_back (se_parent ?s) start target [] = Some (Inr p)" "is_path ?E start p target" "length p = lev target" by auto
    have "lev target \<le> length q" if "is_path ?E start q target" for q
      using path_relpow [OF that] inv c True by (simp add: bfs_inv_def)
    with p True show ?thesis unfolding plan by simp
  next
    case nf: False
    have "\<not> is_path ?E start q target" for q
    proof
      assume q: "is_path ?E start q target"
      from nf c have "opn = []" "target \<notin> set (se_visited ?s)" by simp_all
      with unvisited_far [OF inv _ path_relpow [OF q]] show False by simp
    qed
    with nf show ?thesis unfolding plan by simp
  qed
qed


text \<open>The best of several paths.\<close>

definition shortest_to :: "graph_edge list \<Rightarrow> string \<Rightarrow> string set \<Rightarrow> graph_edge list option \<Rightarrow> bool" where
  "shortest_to edges start T r \<longleftrightarrow>
     (case r of
        None \<Rightarrow> \<not> (\<exists>t\<in>T. \<exists>q. is_path edges start q t)
      | Some p \<Rightarrow> (\<exists>t\<in>T. is_path edges start p t)
          \<and> (\<forall>t\<in>T. \<forall>q. is_path edges start q t \<longrightarrow> length p \<le> length q))"

lemma shortest_to_single:
  "shortest_to edges start {t} r \<longleftrightarrow>
    (case r of None \<Rightarrow> \<not> (\<exists>q. is_path edges start q t)
     | Some p \<Rightarrow> is_path edges start p t \<and> (\<forall>q. is_path edges start q t \<longrightarrow> length p \<le> length q))"
  by (cases r) (simp_all add: shortest_to_def)

lemma shortest_to_insert:
  assumes "shortest_to edges start T best" "shortest_to edges start {t} r"
  shows "shortest_to edges start (insert t T) (case r of None \<Rightarrow> best | Some p \<Rightarrow>
    (if (case best of None \<Rightarrow> True | Some b \<Rightarrow> length p < length b) then Some p else best))"
  using assms unfolding shortest_to_def by (cases r; cases best) fastforce+

lemma best_path_result:
  assumes "start \<noteq> []" "list_all (\<lambda>t. t \<noteq> []) ts" "shortest_to (sm_graph_edges m) start T best"
  shows "\<exists>r. best_path ts start m best = Some (Inr r) \<and> shortest_to (sm_graph_edges m) start (T \<union> set ts) r"
  using assms(2,3)
proof (induction ts arbitrary: T best)
  case (Cons t ts)
  obtain r where r: "plan_state_path t (Some start) m = Some (Inr r)" "shortest_to (sm_graph_edges m) start {t} r"
    using plan_result [where start = start and from_state = "Some start" and m = m and target = t] assms(1) Cons.prems(1)
    by (auto simp: shortest_to_single)
  let ?best = "case r of None \<Rightarrow> best | Some p \<Rightarrow>
    (if (case best of None \<Rightarrow> True | Some b \<Rightarrow> length p < length b) then Some p else best)"
  have step: "best_path (t # ts) start m best = best_path ts start m ?best"
    using r(1) by (simp split: option.split)
  have sets: "T \<union> set (t # ts) = insert t T \<union> set ts" by auto
  from Cons.IH [OF _ shortest_to_insert [OF Cons.prems(2) r(2)]] Cons.prems(1)
  show ?case unfolding step sets by simp
qed simp

section \<open>Following a path\<close>

text \<open>The edges a machine is built with have stripped, non-empty ends.\<close>

definition clean_edge :: "graph_edge \<Rightarrow> bool" where
  "clean_edge e \<longleftrightarrow> py_strip (ge_from e) = ge_from e \<and> py_strip (ge_to e) = ge_to e \<and> ge_from e \<noteq> [] \<and> ge_to e \<noteq> []"

lemma normalize_edges_clean: "e \<in> set (normalize_edges_from L i xs) \<Longrightarrow> clean_edge e"
  by (induction L i xs rule: normalize_edges_from.induct)
    (auto simp: normalize_graph_edge_def stripped_def clean_edge_def py_strip_idem Let_def split: option.splits if_splits)

lemma normalized_clean: "e \<in> set (normalize_graph_edges L raw) \<Longrightarrow> clean_edge e"
  by (auto simp: normalize_graph_edges_def dest: normalize_edges_clean split: pyval.splits)

lemma derive_keeps: "v \<in> set (dget t u []) \<Longrightarrow> v \<in> set (dget (add_target s d t) u [])"
  by (auto simp: add_target_def dget_dset)

lemma derive_has:
  assumes "edge_ok edges u e v"
  shows "v \<in> set (dget (derive_allowed_transitions_from_graph_edges edges) u [])"
proof -
  define f where "f = (\<lambda>out (e :: graph_edge). if py_strip (ge_from e) = [] \<or> py_strip (ge_to e) = [] then out
                    else add_target (py_strip (ge_from e)) (py_strip (ge_to e)) out)"
  have keep: "v \<in> set (dget t u []) \<Longrightarrow> v \<in> set (dget (foldl f t es) u [])" for t es
    by (induction es arbitrary: t) (auto simp: f_def derive_keeps)
  have "e \<in> set es \<Longrightarrow> v \<in> set (dget (foldl f t es) u [])" for t es
  proof (induction es arbitrary: t)
    case (Cons x es)
    show ?case
    proof (cases "x = e")
      case True
      then have "v \<in> set (dget (f t x) u [])" using assms by (auto simp: f_def edge_ok_def add_target_def dget_dset)
      with keep show ?thesis by simp
    next
      case False
      with Cons show ?thesis by simp
    qed
  qed simp
  with assms show ?thesis by (simp add: derive_allowed_transitions_from_graph_edges_def f_def edge_ok_def)
qed

text \<open>Taking the edges of a path one transition after the other.\<close>

fun follow_edges :: "machine_env \<Rightarrow> graph_edge list \<Rightarrow> machine \<Rightarrow> (pyexc + bool) list \<times> machine" where
  "follow_edges env [] m = ([], m)"
| "follow_edges env (e # es) m =
     (case transition env (ge_to e) PNone [] True m of
        (r, m1) \<Rightarrow> (case follow_edges env es m1 of (rs, m2) \<Rightarrow> (r # rs, m2)))"

definition no_hooks :: "machine_env \<Rightarrow> bool" where
  "no_hooks env \<longleftrightarrow> mv_on_exit env = (\<lambda>_. None) \<and> mv_on_enter env = (\<lambda>_. None)"

lemma publish_fields [simp]:
  "sm_state (publish_transition_event pub s d r md m) = sm_state m"
  "sm_allowed (publish_transition_event pub s d r md m) = sm_allowed m"
  "sm_graph_edges (publish_transition_event pub s d r md m) = sm_graph_edges m"
  "sm_history (publish_transition_event pub s d r md m) = sm_history m"
  "sm_history_max (publish_transition_event pub s d r md m) = sm_history_max m"
  by (auto simp: publish_transition_event_def Let_def split: option.split list.split)

lemma append_fields [simp]:
  "sm_state (append_history_entry now x m) = sm_state m"
  "sm_allowed (append_history_entry now x m) = sm_allowed m"
  "sm_graph_edges (append_history_entry now x m) = sm_graph_edges m"
  "sm_history_max (append_history_entry now x m) = sm_history_max m"
  by (auto simp: append_history_entry_def Let_def)

lemma enter_fields [simp]:
  "sm_state (enter_state env s d r md m) = d"
  "sm_allowed (enter_state env s d r md m) = sm_allowed m"
  "sm_graph_edges (enter_state env s d r md m) = sm_graph_edges m"
  "sm_history_max (enter_state env s d r md m) = sm_history_max m"
  by (simp_all add: enter_state_def Let_def)

lemma transition_plain:
  "no_hooks env \<Longrightarrow> transition env t r md noop m =
    (if sm_state m = t then (Inr noop, m)
     else if t \<notin> set (dget (sm_allowed m) (sm_state m) []) then (Inr False, m)
     else (Inr True, enter_state env (sm_state m) t r md m))"
  by (simp add: transition_def no_hooks_def run_hook_def can_transition_def Let_def)

lemma follow_path:
  assumes "no_hooks env" "\<And>u e v. edge_ok edges u e v \<Longrightarrow> v \<in> set (dget (sm_allowed m) u [])"
    and "\<And>e. e \<in> set edges \<Longrightarrow> clean_edge e" "is_path edges (sm_state m) p t"
  shows "fst (follow_edges env p m) = replicate (length p) (Inr True) \<and> sm_state (snd (follow_edges env p m)) = t"
  using assms(2,4)
proof (induction p arbitrary: m)
  case (Cons e es)
  from Cons.prems(2) have e: "edge_ok edges (sm_state m) e (py_strip (ge_to e))"
    and rest: "is_path edges (py_strip (ge_to e)) es t" by auto
  from e assms(3) have to: "py_strip (ge_to e) = ge_to e" by (auto simp: edge_ok_def clean_edge_def)
  obtain m1 where m1: "transition env (ge_to e) PNone [] True m = (Inr True, m1)" "sm_state m1 = ge_to e"
    "sm_allowed m1 = sm_allowed m"
    using Cons.prems(1) [OF e] by (cases "sm_state m = ge_to e") (auto simp: transition_plain [OF assms(1)] to)
  from Cons.IH [of m1] Cons.prems(1) rest m1 show ?case by (auto simp: to split: prod.split)
qed simp


section \<open>The history\<close>

definition is_transition_row :: "items \<Rightarrow> bool" where
  "is_transition_row row \<longleftrightarrow> jget row ''event'' = PStr ''transition''"

definition row_legal :: "transitions \<Rightarrow> items \<Rightarrow> bool" where
  "row_legal allowed row \<longleftrightarrow>
     (\<exists>src dst md. jget row ''from_state'' = PStr src \<and> jget row ''to_state'' = PStr dst \<and> jget row ''metadata'' = PDict md
       \<and> (jget md ''forced'' = PBool True \<or> dst \<in> set (dget allowed src [])))"

abbreviation transition_rows :: "items list \<Rightarrow> items list" where
  "transition_rows h \<equiv> filter is_transition_row h"

text \<open>
  The recorded transitions form a walk that ends in the present state, each step allowed
  or forced, and there are never more entries than the bound.
\<close>

definition walk_ok :: "items list \<Rightarrow> bool" where
  "walk_ok rows = successively (\<lambda>a b. jget a ''to_state'' = jget b ''from_state'') rows"

definition history_ok :: "machine \<Rightarrow> bool" where
  "history_ok m \<longleftrightarrow>
     length (sm_history m) \<le> sm_history_max m
     \<and> walk_ok (transition_rows (sm_history m))
     \<and> list_all (row_legal (sm_allowed m)) (transition_rows (sm_history m))
     \<and> (transition_rows (sm_history m) \<noteq> [] \<longrightarrow>
          jget (last (transition_rows (sm_history m))) ''to_state'' = PStr (sm_state m))"

lemma rows_suffix:
  assumes "walk_ok (transition_rows h)" "list_all P (transition_rows h)"
  shows "walk_ok (transition_rows (drop n h))" "list_all P (transition_rows (drop n h))"
    "transition_rows (drop n h) \<noteq> [] \<Longrightarrow>
      transition_rows h \<noteq> [] \<and> last (transition_rows (drop n h)) = last (transition_rows h)"
proof -
  have split: "transition_rows h = transition_rows (take n h) @ transition_rows (drop n h)"
    by (metis append_take_drop_id filter_append)
  show "walk_ok (transition_rows (drop n h))"
    using assms(1) unfolding walk_ok_def split by (simp add: successively_append_iff)
  show "list_all P (transition_rows (drop n h))" using assms(2) unfolding split by simp
  show "transition_rows h \<noteq> [] \<and> last (transition_rows (drop n h)) = last (transition_rows h)"
    if "transition_rows (drop n h) \<noteq> []"
    using that unfolding split by simp
qed

lemma append_history:
  "sm_history (append_history_entry now x m) =
    (let h = sm_history m @ [if dhas x ''ts'' then x else x @ [(''ts'', ts_payload now)]]
     in drop (length h - sm_history_max m) h)"
  by (auto simp: append_history_entry_def Let_def)

lemma append_row_ok:
  assumes "walk_ok (transition_rows (sm_history m @ [row]))"
    and "list_all (row_legal (sm_allowed m)) (transition_rows (sm_history m @ [row]))"
    and "transition_rows (sm_history m @ [row]) \<noteq> [] \<longrightarrow>
      jget (last (transition_rows (sm_history m @ [row]))) ''to_state'' = PStr (sm_state m)"
    and "row = (if dhas x ''ts'' then x else x @ [(''ts'', ts_payload now)])"
  shows "history_ok (append_history_entry now x m)"
proof -
  define h where "h = sm_history m @ [row]"
  have eq: "sm_history (append_history_entry now x m) = drop (length h - sm_history_max m) h"
    by (simp only: append_history Let_def assms(4) h_def)
  show ?thesis
    using rows_suffix [OF assms(1,2) [folded h_def], of "length h - sm_history_max m"] assms(3) [folded h_def]
    unfolding history_ok_def eq by auto
qed

lemma error_row_ok:
  assumes "history_ok m" "\<not> is_transition_row (x @ [(''ts'', ts_payload now)])" "\<not> dhas x ''ts''"
  shows "history_ok (append_history_entry now x m)"
  by (rule append_row_ok [OF _ _ _ refl]) (use assms in \<open>auto simp: history_ok_def\<close>)

lemma walk_snoc: "walk_ok (xs @ [x]) \<longleftrightarrow> walk_ok xs \<and> (xs \<noteq> [] \<longrightarrow> jget (last xs) ''to_state'' = jget x ''from_state'')"
  by (auto simp: walk_ok_def successively_append_iff)

lemma history_ok_publish [simp]: "history_ok (publish_transition_event pub s d r md m) = history_ok m"
  by (simp add: history_ok_def)

lemma enter_state_ok:
  assumes "history_ok m" "jget md ''forced'' = PBool True \<or> dst \<in> set (dget (sm_allowed m) (sm_state m) [])"
  shows "history_ok (enter_state env (sm_state m) dst reason md m)"
proof -
  let ?ts = "ts_payload (mv_clock env)"
  let ?x = "[(''event'', PStr ''transition''), (''from_state'', PStr (sm_state m)), (''to_state'', PStr dst),
    (''reason'', reason), (''metadata'', PDict md), (''ok'', PBool True), (''ts'', ?ts)]"
  have row: "is_transition_row ?x" "row_legal (sm_allowed m) ?x"
    using assms(2) by (auto simp: is_transition_row_def row_legal_def)
  show ?thesis
    unfolding enter_state_def Let_def history_ok_publish
    by (rule append_row_ok [where row = ?x]) (use assms(1) row in \<open>auto simp: history_ok_def walk_snoc\<close>)
qed

text \<open>
  What can happen to a machine, one change at a time: a state is entered that is allowed or
  marked as forced, an error is recorded, a command is sent.
\<close>

inductive machine_step :: "machine \<Rightarrow> machine \<Rightarrow> bool" where
  enter: "jget md ''forced'' = PBool True \<or> t \<in> set (dget (sm_allowed m) (sm_state m) []) \<Longrightarrow>
    machine_step m (enter_state env (sm_state m) t r md m)"
| error: "machine_step m (set_last_error now msg m)"
| command: "machine_step m (snd (sm_command L call d a ps tmo m))"

abbreviation machine_steps :: "machine \<Rightarrow> machine \<Rightarrow> bool" where
  "machine_steps \<equiv> machine_step\<^sup>*\<^sup>*"

text \<open>
  Hooks that go through the machine's own operations. An exit hook returns, or raises, in the
  state it was called in; an enter hook may make transitions of its own.
\<close>

definition hooks_ok :: "machine_env \<Rightarrow> bool" where
  "hooks_ok env \<longleftrightarrow>
     (\<forall>name f other reason md m. mv_on_exit env name = Some f \<longrightarrow>
        machine_steps m (snd (f other reason md m)) \<and> sm_state (snd (f other reason md m)) = sm_state m)
     \<and> (\<forall>name f other reason md m. mv_on_enter env name = Some f \<longrightarrow> machine_steps m (snd (f other reason md m)))"

inductive machine_op :: "machine \<Rightarrow> machine \<Rightarrow> bool" where
  transition: "hooks_ok env \<Longrightarrow> machine_op m (snd (transition env t r md noop m))"
| force: "\<not> dhas md ''forced'' \<Longrightarrow> machine_op m (snd (force_transition env t r md noop m))"
| other: "machine_step m m' \<Longrightarrow> machine_op m m'"

inductive machine_reach :: "machine \<Rightarrow> bool" where
  init: "machine_init L now pid ns initial allowed graph = Inr m \<Longrightarrow> machine_reach m"
| step: "machine_reach m \<Longrightarrow> machine_op m m' \<Longrightarrow> machine_reach m'"

lemma step_history:
  assumes "machine_step m m'" "history_ok m"
  shows "history_ok m'"
  using assms
proof (induction rule: machine_step.induct)
  case (enter md t m env r)
  then show ?case by (intro enter_state_ok)
next
  case (error m now msg)
  have "history_ok (m\<lparr>sm_last_error := msg\<rparr>)" using error by (simp add: history_ok_def)
  then show ?case
    by (auto simp: set_last_error_def Let_def is_transition_row_def intro!: error_row_ok split: option.split list.split)
next
  case (command m L call d a ps tmo)
  then show ?case
    by (auto simp: sm_command_def Let_def history_ok_def split: option.split pyfloat.split)
qed

lemma step_fields: "machine_step m m' \<Longrightarrow> sm_history_max m' = sm_history_max m \<and> sm_allowed m' = sm_allowed m"
  by (induction rule: machine_step.induct)
    (auto simp: set_last_error_def sm_command_def Let_def split: option.split list.split pyfloat.split)

lemma steps_keep:
  "machine_steps m m' \<Longrightarrow> (history_ok m \<longrightarrow> history_ok m') \<and> sm_history_max m' = sm_history_max m \<and> sm_allowed m' = sm_allowed m"
  by (induction rule: rtranclp_induct) (auto dest: step_history step_fields)

lemma run_hook_steps:
  assumes "hooks_ok env"
  shows "run_hook (mv_on_exit env name) other reason md m = (x, m') \<Longrightarrow> machine_steps m m' \<and> sm_state m' = sm_state m"
    and "run_hook (mv_on_enter env name) other reason md m = (x, m') \<Longrightarrow> machine_steps m m'"
  using assms unfolding hooks_ok_def run_hook_def
  by (auto split: option.splits) (metis snd_conv)+

text \<open>A transition with its hooks, and a forced one, are sequences of such changes.\<close>

lemma transition_steps:
  assumes "hooks_ok env" "transition env t r md noop m = (x, m')"
  shows "machine_steps m m'"
proof (cases "sm_state m = t \<or> \<not> can_transition t (Some (sm_state m)) m")
  case True
  then show ?thesis using assms(2) by (auto simp: transition_def Let_def split: if_splits)
next
  case False
  obtain y m1 where ex: "run_hook (mv_on_exit env (py_lower (sm_state m))) t r md m = (y, m1)" by fastforce
  note e = run_hook_steps(1) [OF assms(1) ex]
  show ?thesis
  proof (cases y)
    case (Inl err)
    then show ?thesis using assms(2) False ex e by (simp add: transition_def Let_def)
  next
    case (Inr u)
    define m2 where "m2 = enter_state env (sm_state m) t r md m1"
    have "t \<in> set (dget (sm_allowed m1) (sm_state m1) [])"
      using False e steps_keep [of m m1] by (simp add: can_transition_def)
    then have "machine_step m1 m2" unfolding m2_def using machine_step.enter [of md t m1] e by metis
    moreover obtain z m3 where en: "run_hook (mv_on_enter env (py_lower t)) (sm_state m) r md m2 = (z, m3)" by fastforce
    moreover have "m3 = m'"
      using assms(2) False ex en Inr by (auto simp: transition_def Let_def m2_def split: sum.splits)
    ultimately show ?thesis
      using e run_hook_steps(2) [OF assms(1) en] by (meson rtranclp.rtrancl_into_rtrancl rtranclp_trans)
  qed
qed

lemma jget_snoc: "\<not> dhas md k \<Longrightarrow> jget (md @ [(k, v)]) k = v"
  by (induction md) (auto simp: dget_def)

lemma op_steps: "machine_op m m' \<Longrightarrow> machine_steps m m'"
proof (induction rule: machine_op.induct)
  case (transition env m t r md noop)
  then show ?case using transition_steps [of env t r md noop m] by (metis prod.collapse)
next
  case (force md m env t r noop)
  then show ?case
    by (auto simp: force_transition_def Let_def jget_snoc intro!: r_into_rtranclp machine_step.enter)
qed auto

lemma reach_history: "machine_reach m \<Longrightarrow> history_ok m \<and> sm_history_max m = 500"
proof (induction rule: machine_reach.induct)
  case (init L now pid ns initial allowed graph m)
  then show ?case by (auto simp: machine_init_def history_ok_def walk_ok_def Let_def split: if_splits)
next
  case (step m m')
  then show ?case using steps_keep [OF op_steps] by simp
qed

end
