(* ===== verification/State_Machine_Props.thy ===== *)
theory State_Machine_Props
  imports State_Machine_Proofs
begin

text \<open>
  The properties of the state machine base.
\<close>

section \<open>A concrete machine\<close>

definition demo_graph :: pyval where
  "demo_graph = PList (map (\<lambda>(u, v). PDict [(''from_state'', PStr u), (''to_state'', PStr v)])
     [(''A'', ''B''), (''B'', ''C''), (''A'', ''C''), (''C'', ''D'')])"

definition demo_edge :: "string \<Rightarrow> string \<Rightarrow> string \<Rightarrow> graph_edge" where
  "demo_edge i u v = \<lparr>ge_id = ''edge_'' @ i, ge_from = u, ge_to = v, ge_note = None\<rparr>"

definition demo_machine :: machine where
  "demo_machine = \<lparr>sm_process_id = ''p'', sm_initial_state = ''A'', sm_state = ''A'', sm_state_since = (Fin 0, Fin 0),
     sm_last_error = None, sm_last_transition = PNone, sm_last_command = PNone,
     sm_graph_edges = normalize_graph_edges plain_lang demo_graph,
     sm_allowed = derive_allowed_transitions_from_graph_edges (normalize_graph_edges plain_lang demo_graph),
     sm_history_max = 500, sm_history = [], sm_has_manager = True, sm_published = []\<rparr>"

lemma char_digits: "char_of (48 :: nat) = CHR ''0''" "char_of (49 :: nat) = CHR ''1''" "char_of (50 :: nat) = CHR ''2''"
  "char_of (51 :: nat) = CHR ''3''"
proof -
  have "(of_char (CHR ''0'') :: nat) = 48" "(of_char (CHR ''1'') :: nat) = 49" "(of_char (CHR ''2'') :: nat) = 50"
    "(of_char (CHR ''3'') :: nat) = 51" by simp_all
  then show "char_of (48 :: nat) = CHR ''0''" "char_of (49 :: nat) = CHR ''1''" "char_of (50 :: nat) = CHR ''2''"
    "char_of (51 :: nat) = CHR ''3''" by (metis char_of_char)+
qed

lemma demo_edges: "normalize_graph_edges plain_lang demo_graph =
  [demo_edge ''0'' ''A'' ''B'', demo_edge ''1'' ''B'' ''C'', demo_edge ''2'' ''A'' ''C'', demo_edge ''3'' ''C'' ''D'']"
  by (simp add: normalize_graph_edges_def demo_graph_def normalize_graph_edge_def stripped_def py_strip_def is_space_def
      demo_edge_def digits_of.simps char_digits Let_def)

lemma demo_machine_init:
  "machine_init plain_lang (Fin 0, Fin 0) ''p'' ''ns'' ''A'' None demo_graph = Inr demo_machine"
  by (simp add: machine_init_def demo_machine_def demo_edges py_strip_def is_space_def Let_def)

lemma demo_machine_state [simp]: "sm_state demo_machine = ''A''"
  by (simp add: demo_machine_def)

lemma demo_path: "\<exists>q. is_path (sm_graph_edges demo_machine) ''A'' q ''D'' \<and> length q = 2"
  by (rule exI [where x = "[demo_edge ''2'' ''A'' ''C'', demo_edge ''3'' ''C'' ''D'']"])
    (simp add: demo_machine_def demo_edges edge_ok_def demo_edge_def py_strip_def is_space_def)

lemma demo_shortest:
  assumes "shortest_to (sm_graph_edges demo_machine) ''A'' T r" "''D'' \<in> T"
  shows "\<exists>p. r = Some p \<and> length p \<le> 2"
proof (cases r)
  case None
  with assms demo_path show ?thesis unfolding shortest_to_def by auto
next
  case (Some p)
  with assms demo_path show ?thesis unfolding shortest_to_def by fastforce
qed

definition quiet_env :: machine_env where
  "quiet_env = \<lparr>mv_clock = (Fin 1, Fin 1), mv_publish = (\<lambda>_. None), mv_on_exit = (\<lambda>_. None), mv_on_enter = (\<lambda>_. None)\<rparr>"

section \<open>Properties\<close>

text \<open>
  C15. Planning terminates and finds a shortest path. For a non-empty start and target the
  method always returns: a sequence of edges of the graph from the start to the target than
  which no other is shorter, or \<open>None\<close> exactly when there is no such sequence.
\<close>

theorem plan_state_path_shortest:
  fixes m :: machine and from_state :: "string option"
  defines "start \<equiv> (case from_state of None \<Rightarrow> sm_state m | Some s \<Rightarrow> s)"
  assumes "start \<noteq> []" "target \<noteq> []"
  shows "\<exists>r. plan_state_path target from_state m = Some (Inr r) \<and>
    (case r of
       None \<Rightarrow> \<not> (\<exists>q. is_path (sm_graph_edges m) start q target)
     | Some p \<Rightarrow> is_path (sm_graph_edges m) start p target
         \<and> (\<forall>q. is_path (sm_graph_edges m) start q target \<longrightarrow> length p \<le> length q))"
  using plan_result [OF start_def [THEN meta_eq_to_obj_eq] assms(2,3)] .

theorem plan_state_path_shortest_witness:
  "\<exists>p. plan_state_path ''D'' None demo_machine = Some (Inr (Some p)) \<and> length p \<le> 2"
proof -
  obtain r where r: "plan_state_path ''D'' None demo_machine = Some (Inr r)"
    and c: "shortest_to (sm_graph_edges demo_machine) ''A'' {''D''} r"
    using plan_state_path_shortest [where m = demo_machine and from_state = None and target = "''D''",
        folded shortest_to_single] by auto
  from demo_shortest [OF c] r show ?thesis by auto
qed

text \<open>
  Planning to any of several states gives a path that is shortest over all of them, and
  \<open>None\<close> exactly when none of them can be reached.
\<close>

theorem plan_to_any_shortest:
  fixes m :: machine and from_state :: "string option"
  defines "start \<equiv> (case from_state of None \<Rightarrow> sm_state m | Some s \<Rightarrow> s)"
  assumes "start \<noteq> []" "\<exists>t\<in>set ts. py_strip t \<noteq> []"
  shows "\<exists>r. plan_state_path_to_any ts from_state m = Some (Inr r)
    \<and> shortest_to (sm_graph_edges m) start {t \<in> py_strip ` set ts. t \<noteq> []} r"
proof -
  define T where "T = remdups (filter (\<lambda>t. t \<noteq> []) (map py_strip ts))"
  have set_T: "set T = {t \<in> py_strip ` set ts. t \<noteq> []}" by (auto simp: T_def)
  have ne: "T \<noteq> []" using assms(3) by (auto simp: T_def filter_empty_conv)
  have plan: "plan_state_path_to_any ts from_state m =
      (if start \<in> set T then Some (Inr (Some [])) else best_path (sort T) start m None)"
    using ne by (simp add: plan_state_path_to_any_def Let_def start_def T_def)
  show ?thesis
  proof (cases "start \<in> set T")
    case True
    then have "shortest_to (sm_graph_edges m) start (set T) (Some [])" by (auto simp: shortest_to_def)
    with plan True show ?thesis unfolding set_T by simp
  next
    case False
    have "list_all (\<lambda>t. t \<noteq> []) (sort T)" using set_T by (auto simp: list_all_iff)
    moreover have "shortest_to (sm_graph_edges m) start {} None" by (simp add: shortest_to_def)
    ultimately show ?thesis
      using best_path_result [OF assms(2), of "sort T" m "{}" None] plan False unfolding set_T [symmetric] by simp
  qed
qed

theorem plan_to_any_shortest_witness:
  "\<exists>p. plan_state_path_to_any [''Z'', ''D''] None demo_machine = Some (Inr (Some p)) \<and> length p \<le> 2"
proof -
  have T: "{t \<in> py_strip ` set [''Z'', ''D'']. t \<noteq> []} = {''Z'', ''D''}"
    by (auto simp: py_strip_def is_space_def)
  have "\<exists>t\<in>set [''Z'', ''D'']. py_strip t \<noteq> []" by (auto simp: py_strip_def is_space_def)
  then obtain r where r: "plan_state_path_to_any [''Z'', ''D''] None demo_machine = Some (Inr r)"
    and c: "shortest_to (sm_graph_edges demo_machine) ''A'' {''Z'', ''D''} r"
    using plan_to_any_shortest [where m = demo_machine and from_state = None and ts = "[''Z'', ''D'']"] unfolding T by auto
  from demo_shortest [OF c] r show ?thesis by auto
qed

text \<open>
  C16. A planned path can be walked. When a machine is built from its graph alone and its
  states have no hooks, taking the edges of a planned path one after the other succeeds at
  every edge and ends in the target.
\<close>

theorem planned_path_can_be_followed:
  assumes "machine_init L now pid ns initial None graph = Inr m" "no_hooks env"
    and "initial \<noteq> []" "target \<noteq> []" "plan_state_path target None m = Some (Inr (Some p))"
  shows "fst (follow_edges env p m) = replicate (length p) (Inr True) \<and> sm_state (snd (follow_edges env p m)) = target"
proof -
  have m: "sm_state m = initial" "sm_graph_edges m = normalize_graph_edges L graph"
    "sm_allowed m = derive_allowed_transitions_from_graph_edges (sm_graph_edges m)"
    using assms(1) by (auto simp: machine_init_def normalize_allowed_transitions_def Let_def
        derive_allowed_transitions_from_graph_edges_def split: if_splits)
  have "is_path (sm_graph_edges m) (sm_state m) p target"
    using plan_result [where m = m and from_state = None and target = target] assms(3-5) m(1) by auto
  from follow_path [OF assms(2) _ _ this] show ?thesis
    using derive_has normalized_clean m(2,3) by metis
qed

theorem planned_path_can_be_followed_witness:
  "\<exists>p. plan_state_path ''D'' None demo_machine = Some (Inr (Some p)) \<and> sm_state (snd (follow_edges quiet_env p demo_machine)) = ''D''"
proof -
  obtain p where p: "plan_state_path ''D'' None demo_machine = Some (Inr (Some p))"
    using plan_result [where m = demo_machine and from_state = None and target = "''D''", folded shortest_to_single]
      demo_shortest [of "{''D''}"] by fastforce
  have "no_hooks quiet_env" by (simp add: no_hooks_def quiet_env_def)
  from planned_path_can_be_followed [OF demo_machine_init this _ _ p] p show ?thesis by auto
qed

text \<open>
  C17. The history tells a true story. A machine makes transitions, forced transitions, records
  errors and sends commands, in any order. Its hooks may do the same and may raise; only an exit
  hook has to return in the state it was called in, and a forced transition is called without a
  \<open>forced\<close> of its own in the metadata. Then in every state it reaches the history holds at most
  500 entries, its transitions join up to a walk that ends in the present state, and each of
  them was allowed or is marked with \<open>forced: true\<close>.
\<close>

theorem history_is_a_legal_walk:
  assumes "machine_reach m"
  shows "length (sm_history m) \<le> 500
    \<and> successively (\<lambda>a b. jget a ''to_state'' = jget b ''from_state'') (filter is_transition_row (sm_history m))
    \<and> list_all (row_legal (sm_allowed m)) (filter is_transition_row (sm_history m))
    \<and> (filter is_transition_row (sm_history m) \<noteq> [] \<longrightarrow>
         jget (last (filter is_transition_row (sm_history m))) ''to_state'' = PStr (sm_state m))"
  using reach_history [OF assms] by (auto simp: history_ok_def walk_ok_def)

text \<open>Entering \<open>B\<close> raises, after the state has changed.\<close>

definition raising_env :: machine_env where
  "raising_env = quiet_env\<lparr>mv_on_enter := (\<lambda>name. if name = ''b'' then Some (\<lambda>_ _ _ m. (Inl (ValueError ''jammed''), m)) else None)\<rparr>"

theorem history_is_a_legal_walk_witness:
  "let m = snd (transition raising_env ''B'' PNone [] True demo_machine) in
     fst (transition raising_env ''B'' PNone [] True demo_machine) = Inl (ValueError ''jammed'')
     \<and> jget (last (filter is_transition_row (sm_history m))) ''to_state'' = PStr ''B''"
proof -
  let ?m = "snd (transition raising_env ''B'' PNone [] True demo_machine)"
  have n: "hooks_ok raising_env" by (simp add: hooks_ok_def raising_env_def quiet_env_def)
  have r: "machine_reach ?m"
    by (rule machine_reach.step [OF machine_reach.init [OF demo_machine_init] machine_op.transition [OF n]])
  have "''B'' \<in> set (dget (sm_allowed demo_machine) ''A'' [])"
    using derive_has [of "sm_graph_edges demo_machine" "''A''" "demo_edge ''0'' ''A'' ''B''" "''B''"]
    by (simp add: demo_machine_def demo_edges edge_ok_def demo_edge_def py_strip_def is_space_def)
  moreover have "py_lower ''B'' = ''b''" by code_simp
  ultimately have tr: "transition raising_env ''B'' PNone [] True demo_machine
      = (Inl (ValueError ''jammed''), enter_state raising_env ''A'' ''B'' PNone [] demo_machine)"
    by (simp add: transition_def can_transition_def run_hook_def raising_env_def quiet_env_def Let_def)
  have "filter is_transition_row (sm_history ?m) \<noteq> []" unfolding tr
    by (simp add: enter_state_def append_history Let_def is_transition_row_def demo_machine_def)
  with history_is_a_legal_walk [OF r] show ?thesis by (simp add: tr Let_def)
qed

end
