(* ===== verification/Process_Supervision.thy ===== *)
theory Process_Supervision
  imports Py_Value
begin

text \<open>
  Supervision of managed processes, \<open>_manager/process_supervision.py\<close>, with the heartbeat
  ingestion of \<open>manager.py\<close>, the collision recovery of \<open>_manager/process_recovery.py\<close> and the
  exit codes of \<open>utils/exit_codes.py\<close> (the POSIX branch). Times are finite, exact rationals.
  What the operating system answers in one supervision pass (whether a child has exited at
  each of the places that ask, whether signals and spawns succeed), the clock, the log
  history and the heartbeats queued on the socket are the record \<open>proc_env\<close>.
\<close>

section \<open>Exit codes\<close>

text \<open>\<open>signal.Signals(n).name\<close> is the parameter \<open>sig\<close>.\<close>

definition posix_signal_name :: "(int \<Rightarrow> string option) \<Rightarrow> int \<Rightarrow> string" where
  "posix_signal_name sig n = (case sig n of Some s \<Rightarrow> s | None \<Rightarrow> ''SIG'' @ str_int n)"

definition derive_signal_name :: "(int \<Rightarrow> string option) \<Rightarrow> int \<Rightarrow> string option" where
  "derive_signal_name sig rc =
     (if rc < 0 then Some (posix_signal_name sig (- rc))
      else if 129 \<le> rc \<and> rc \<le> 192 then sig (rc - 128)
      else None)"

definition describe_exit_code :: "(int \<Rightarrow> string option) \<Rightarrow> int \<Rightarrow> string" where
  "describe_exit_code sig rc =
     (let name = derive_signal_name sig rc in
      if rc < 0 then
        (case name of Some s \<Rightarrow> s @ '' (signal '' @ str_int (- rc) @ '')'' | None \<Rightarrow> ''signal '' @ str_int (- rc))
      else case name of Some s \<Rightarrow> s @ '' (exit code '' @ str_int rc @ '')'' | None \<Rightarrow> ''exit code '' @ str_int rc)"

section \<open>Handles\<close>

datatype restart_policy = NEVER | ALWAYS | ON_FAILURE

datatype proc_state = STOPPED | STARTING | RUNNING | STOPPING | EXITED | FAILED | CRASHLOOP

record process_spec =
  ps_process_id :: string
  ps_heartbeat_period_s :: rat
  ps_heartbeat_timeout_s :: rat
  ps_shutdown_timeout_s :: rat
  ps_restart_policy :: restart_policy
  ps_restart_backoff_s :: rat
  ps_max_restarts :: "int option"
  ps_heartbeat_endpoint :: "string option"
  ps_process_data_endpoint :: "string option"
  ps_heartbeat_hard_timeout_s :: "rat option"

text \<open>\<open>ph_popen\<close>: a child process object is held. The log tails are not part of the model.\<close>

record phandle =
  ph_spec :: process_spec
  ph_popen :: bool
  ph_state :: proc_state
  ph_pid :: "int option"
  ph_popen_pid :: "int option"
  ph_heartbeat_pid :: "int option"
  ph_rpc_endpoint :: "string option"
  ph_last_start_t :: "(rat \<times> rat) option" \<comment> \<open>wall and monotonic\<close>
  ph_last_hb_t_wall :: "pyfloat option" \<comment> \<open>by the sender's clocks\<close>
  ph_last_hb_t_mono :: "pyfloat option"
  ph_last_hb_recv :: "rat option"
  ph_last_heartbeat_payload :: pyval
  ph_last_exit_code :: "int option"
  ph_restart_count :: int
  ph_last_restart :: "rat option"
  ph_last_error :: "string option"
  ph_last_error_kind :: "string option"
  ph_last_signal_name :: "string option"
  ph_last_failure_pid :: "int option"
  ph_last_heartbeat_age :: "rat option"
  ph_last_liveness_age :: "rat option"
  ph_last_heartbeat_received :: "bool option"
  ph_strikes :: int
  ph_last_stale :: "rat option"
  ph_terminated_by_manager :: bool
  ph_termination_reason :: "string option"
  ph_termination_method :: "string option"
  ph_termination_error :: "string option"
  ph_recent_stall :: bool
  ph_stall_duration :: "rat option"
  ph_stall_source :: "string option"
  ph_reconcile_started :: "rat option"
  ph_reconcile_deadline :: "rat option"
  ph_failure_trigger :: "string option"
  ph_heartbeat_endpoint :: string
  ph_process_data_endpoint :: string
  ph_stop_requested :: "rat option"
  ph_next_restart :: "rat option"
  ph_collision_retry_done :: bool
  ph_kill_attempts :: int

text \<open>
  What happens outside: events published (a process event with the handle it describes),
  signals sent, a child spawned, a log record, the RPC socket closed.
\<close>

datatype sv_event =
    ProcessEvent string phandle
  | ManagerEvent string items
  | LogEvent string string
  | SentTerminate
  | SentKill
  | Spawned int
  | ClosedRpc

datatype poll_site = AtSupervise | AtHeartbeat | AtStop | AtRestart | AtStart

record proc_env =
  pe_poll :: "poll_site \<Rightarrow> int option"
  pe_terminate :: "string option" \<comment> \<open>the exception \<open>terminate()\<close> raises, if it does\<close>
  pe_kill :: "string option"
  pe_spawn :: "string + int"
  pe_stop_rpc :: "pyexc + pyval"
  pe_wall :: rat
  pe_mono :: rat
  pe_signal :: "int \<Rightarrow> string option"
  pe_fmt2 :: "rat \<Rightarrow> string"
  pe_log_history :: "items list"
  pe_orphans :: items

text \<open>The manager's settings and timing that supervision reads.\<close>

record sup_cfg =
  sc_stall_warn_s :: rat
  sc_current_pump_start :: "rat option"
  sc_current_pump_gap :: "rat option"
  sc_last_loop_stall :: "rat option"
  sc_last_loop_stall_duration :: "rat option"
  sc_stall_recent_s :: rat
  sc_startup_active :: bool
  sc_startup_complete :: "rat option"
  sc_startup_grace_s :: rat
  sc_startup_grace_hard_s :: rat
  sc_hard_multiplier :: rat
  sc_strikes_to_fail :: int
  sc_reconcile_multiplier :: rat

text \<open>The endpoints handed out so far.\<close>

record sup_net =
  sn_hb_base :: string
  sn_hb_offset :: int
  sn_data_base :: string
  sn_data_offset :: int
  sn_hb_connected :: "string list"
  sn_data_connected :: "string list"

section \<open>Endpoints\<close>

text \<open>\<open>s.rpartition(":")\<close>: what is before and after the last colon.\<close>

definition rpartition_colon :: "string \<Rightarrow> string \<times> string" where
  "rpartition_colon s =
     (if CHR '':'' \<in> set s
      then (rev (tl (dropWhile (\<lambda>c. c \<noteq> CHR '':'') (rev s))), rev (takeWhile (\<lambda>c. c \<noteq> CHR '':'') (rev s)))
      else ([], s))"

definition next_endpoint :: "string \<Rightarrow> string \<Rightarrow> int \<Rightarrow> pyexc + string" where
  "next_endpoint what base offset =
     (case rpartition_colon base of (host, port) \<Rightarrow>
      case (if port = [] then None else digits_value port 0) of
        Some n \<Rightarrow> if host = [] then Inl (ValueError (what @ '' must be tcp://host:port, got '' @ repr_str base))
                  else Inr (host @ '':'' @ str_int (int n + offset))
      | None \<Rightarrow> Inl (ValueError (what @ '' must be tcp://host:port, got '' @ repr_str base)))"

definition resolve_process_heartbeat_endpoint :: "process_spec \<Rightarrow> sup_net \<Rightarrow> (pyexc + string) \<times> sup_net" where
  "resolve_process_heartbeat_endpoint spec net =
     (case ps_heartbeat_endpoint spec of
        Some ep \<Rightarrow> (Inr ep, net)
      | None \<Rightarrow>
          (case next_endpoint ''process_hb_bind_base'' (sn_hb_base net) (sn_hb_offset net) of
             Inl e \<Rightarrow> (Inl e, net)
           | Inr ep \<Rightarrow> (Inr ep, net\<lparr>sn_hb_offset := sn_hb_offset net + 1\<rparr>)))"

definition resolve_process_data_endpoint :: "process_spec \<Rightarrow> sup_net \<Rightarrow> (pyexc + string) \<times> sup_net" where
  "resolve_process_data_endpoint spec net =
     (case ps_process_data_endpoint spec of
        Some ep \<Rightarrow> (Inr ep, net)
      | None \<Rightarrow>
          (case next_endpoint ''process_data_bind_base'' (sn_data_base net) (sn_data_offset net) of
             Inl e \<Rightarrow> (Inl e, net)
           | Inr ep \<Rightarrow> (Inr ep, net\<lparr>sn_data_offset := sn_data_offset net + 1\<rparr>)))"

definition connect_process_heartbeat :: "string \<Rightarrow> sup_net \<Rightarrow> sup_net" where
  "connect_process_heartbeat ep net = net\<lparr>sn_hb_connected := List.insert ep (sn_hb_connected net)\<rparr>"

definition connect_process_data :: "string \<Rightarrow> sup_net \<Rightarrow> sup_net" where
  "connect_process_data ep net = net\<lparr>sn_data_connected := List.insert ep (sn_data_connected net)\<rparr>"

section \<open>Adding a process\<close>

text \<open>A handle as the manager makes it, every other field at its default.\<close>

definition process_handle :: "process_spec \<Rightarrow> string \<Rightarrow> string \<Rightarrow> phandle" where
  "process_handle spec hb_endpoint data_endpoint =
     \<lparr>ph_spec = spec, ph_popen = False, ph_state = STOPPED, ph_pid = None, ph_popen_pid = None, ph_heartbeat_pid = None,
      ph_rpc_endpoint = None, ph_last_start_t = None, ph_last_hb_t_wall = None, ph_last_hb_t_mono = None,
      ph_last_hb_recv = None, ph_last_heartbeat_payload = PNone, ph_last_exit_code = None, ph_restart_count = 0,
      ph_last_restart = None, ph_last_error = None, ph_last_error_kind = None, ph_last_signal_name = None,
      ph_last_failure_pid = None, ph_last_heartbeat_age = None, ph_last_liveness_age = None,
      ph_last_heartbeat_received = None, ph_strikes = 0, ph_last_stale = None, ph_terminated_by_manager = False,
      ph_termination_reason = None, ph_termination_method = None, ph_termination_error = None, ph_recent_stall = False,
      ph_stall_duration = None, ph_stall_source = None, ph_reconcile_started = None, ph_reconcile_deadline = None,
      ph_failure_trigger = None, ph_heartbeat_endpoint = hb_endpoint, ph_process_data_endpoint = data_endpoint,
      ph_stop_requested = None, ph_next_restart = None, ph_collision_retry_done = False, ph_kill_attempts = 0\<rparr>"

type_synonym procs = "string \<rightharpoonup> phandle"

definition add_process_shared :: "process_spec \<Rightarrow> sup_net \<times> procs \<Rightarrow> (pyexc + unit) \<times> (sup_net \<times> procs) \<times> sv_event list" where
  "add_process_shared spec s =
     (case s of (net, procs) \<Rightarrow>
      if procs (ps_process_id spec) \<noteq> None
      then (Inl (ValueError (''Duplicate process_id '' @ repr_str (ps_process_id spec))), s, [])
      else
      case resolve_process_heartbeat_endpoint spec net of
        (Inl e, net1) \<Rightarrow> (Inl e, (net1, procs), [])
      | (Inr hb, net1) \<Rightarrow>
          (case resolve_process_data_endpoint spec net1 of
             (Inl e, net2) \<Rightarrow> (Inl e, (net2, procs), [])
           | (Inr dp, net2) \<Rightarrow>
               let h = process_handle spec hb dp
               in (Inr (), (connect_process_data dp (connect_process_heartbeat hb net2), procs(ps_process_id spec \<mapsto> h)),
                   [ProcessEvent ''manager.process.added'' h])))"

text \<open>\<open>fmt3\<close> is the format \<open>:.3g\<close>.\<close>

definition add_process :: "(rat \<Rightarrow> string) \<Rightarrow> process_spec \<Rightarrow> sup_net \<times> procs \<Rightarrow> (pyexc + unit) \<times> (sup_net \<times> procs) \<times> sv_event list" where
  "add_process fmt3 spec s =
     (if ps_heartbeat_period_s spec \<le> 0 then (Inl (ValueError ''heartbeat_period_s must be > 0''), s, [])
      else if ps_heartbeat_timeout_s spec \<le> 0 then (Inl (ValueError ''heartbeat_timeout_s must be > 0''), s, [])
      else if (case ps_heartbeat_hard_timeout_s spec of None \<Rightarrow> False | Some t \<Rightarrow> t \<le> ps_heartbeat_timeout_s spec)
      then (Inl (ValueError (''Process '' @ repr_str (ps_process_id spec)
              @ '' heartbeat_hard_timeout_s must be greater than heartbeat_timeout_s (''
              @ fmt3 (ps_heartbeat_timeout_s spec) @ ''s)'')), s, [])
      else add_process_shared spec s)"

section \<open>Starting\<close>

definition fresh_start :: "proc_env \<Rightarrow> bool \<Rightarrow> int \<Rightarrow> phandle \<Rightarrow> phandle" where
  "fresh_start env reset_collision pid h =
     h\<lparr>ph_popen := True, ph_kill_attempts := 0, ph_popen_pid := Some pid, ph_heartbeat_pid := None, ph_pid := Some pid,
       ph_state := STARTING, ph_rpc_endpoint := None, ph_last_start_t := Some (pe_wall env, pe_mono env),
       ph_last_hb_t_wall := None, ph_last_hb_t_mono := None, ph_last_hb_recv := None, ph_last_heartbeat_payload := PNone, ph_last_exit_code := None,
       ph_stop_requested := None, ph_next_restart := None, ph_last_error := None, ph_last_error_kind := None,
       ph_last_signal_name := None, ph_last_failure_pid := None, ph_last_heartbeat_age := None,
       ph_last_liveness_age := None, ph_last_heartbeat_received := None, ph_strikes := 0, ph_last_stale := None,
       ph_terminated_by_manager := False, ph_termination_reason := None, ph_termination_method := None,
       ph_termination_error := None, ph_recent_stall := False, ph_stall_duration := None, ph_stall_source := None,
       ph_reconcile_started := None, ph_reconcile_deadline := None, ph_failure_trigger := None,
       ph_collision_retry_done := (if reset_collision then False else ph_collision_retry_done h)\<rparr>"

type_synonym sv_result = "(pyexc + unit) \<times> sup_net \<times> phandle \<times> sv_event list"

definition spawn_process :: "proc_env \<Rightarrow> bool \<Rightarrow> sup_net \<Rightarrow> phandle \<Rightarrow> sv_result" where
  "spawn_process env reset_collision net h =
     (case pe_spawn env of
        Inl msg \<Rightarrow>
          let h1 = h\<lparr>ph_popen := False, ph_pid := None, ph_popen_pid := None, ph_state := FAILED,
                     ph_last_error := Some msg, ph_last_error_kind := Some ''spawn_error''\<rparr>
          in (Inl (OtherError msg), net, h1,
              [ProcessEvent ''manager.process.failed'' h1, LogEvent ''manager.process.spawn_error'' msg])
      | Inr pid \<Rightarrow>
          let h1 = fresh_start env reset_collision pid h
          in (Inr (), net, h1, [Spawned pid, ClosedRpc, ProcessEvent ''manager.process.started'' h1]))"

definition start_process_handle :: "proc_env \<Rightarrow> bool \<Rightarrow> sup_net \<Rightarrow> phandle \<Rightarrow> sv_result" where
  "start_process_handle env reset_collision net h =
     (if ph_popen h \<and> pe_poll env AtStart = None then (Inr (), net, h, [])
      else if ph_state h = CRASHLOOP then (Inr (), net, h, [])
      else
      case (if ph_heartbeat_endpoint h \<noteq> [] then (Inr (ph_heartbeat_endpoint h), net)
            else resolve_process_heartbeat_endpoint (ph_spec h) net) of
        (Inl e, net1) \<Rightarrow> (Inl e, net1, h, [])
      | (Inr hb, net1) \<Rightarrow>
          let h1 = h\<lparr>ph_heartbeat_endpoint := hb\<rparr>; net2 = connect_process_heartbeat hb net1 in
          (case (if ph_process_data_endpoint h1 \<noteq> [] then (Inr (ph_process_data_endpoint h1), net2)
                 else resolve_process_data_endpoint (ph_spec h1) net2) of
             (Inl e, net3) \<Rightarrow> (Inl e, net3, h1, [])
           | (Inr dp, net3) \<Rightarrow>
               spawn_process env reset_collision (connect_process_data dp net3)
                 (h1\<lparr>ph_process_data_endpoint := dp\<rparr>)))"

section \<open>Stopping\<close>

definition text_or :: "string option \<Rightarrow> string \<Rightarrow> string option" where
  "text_or o' d = (case o' of Some (c # cs) \<Rightarrow> Some (c # cs) | _ \<Rightarrow> Some d)"

definition pid_or :: "int option \<Rightarrow> int option \<Rightarrow> int option" where
  "pid_or a b = (case a of Some n \<Rightarrow> if n \<noteq> 0 then Some n else b | None \<Rightarrow> b)"

text \<open>A child that has exited with a non-zero code.\<close>

definition mark_crashed :: "proc_env \<Rightarrow> int \<Rightarrow> int option \<Rightarrow> phandle \<Rightarrow> phandle" where
  "mark_crashed env rc exiting_pid h =
     h\<lparr>ph_state := FAILED, ph_last_failure_pid := exiting_pid, ph_last_signal_name := derive_signal_name (pe_signal env) rc,
       ph_last_error_kind := text_or (ph_last_error_kind h) ''nonzero_exit'',
       ph_last_error := text_or (ph_last_error h) (''process exited: '' @ describe_exit_code (pe_signal env) rc)\<rparr>"

definition stop_process_handle :: "proc_env \<Rightarrow> phandle \<Rightarrow> phandle \<times> sv_event list" where
  "stop_process_handle env h =
     (if \<not> ph_popen h then (h\<lparr>ph_state := STOPPED\<rparr>, [])
      else case pe_poll env AtStop of
        Some rc \<Rightarrow>
          let exiting_pid = pid_or (ph_popen_pid h) (ph_pid h);
              h1 = h\<lparr>ph_last_exit_code := Some rc, ph_popen := False, ph_rpc_endpoint := None\<rparr>
          in if rc \<noteq> 0
             then let h2 = mark_crashed env rc exiting_pid h1
                  in (h2, [ClosedRpc, ProcessEvent ''manager.process.failed'' h2])
             else let h2 = h1\<lparr>ph_state := EXITED\<rparr>
                  in (h2, [ClosedRpc, ProcessEvent ''manager.process.exited'' h2])
      | None \<Rightarrow>
          let graceful = (ph_rpc_endpoint h \<noteq> None \<and>
                 (case pe_stop_rpc env of
                    Inl _ \<Rightarrow> False
                  | Inr resp \<Rightarrow> (case as_dict resp of None \<Rightarrow> False | Some d \<Rightarrow> truthy (dget d ''ok'' (PBool False)))));
              (h1, evs) = (if graceful then (h, [])
                 else case pe_terminate env of
                        None \<Rightarrow> (h, [SentTerminate])
                      | Some msg \<Rightarrow> (h\<lparr>ph_last_error := Some msg\<rparr>, []));
              h2 = h1\<lparr>ph_state := STOPPING, ph_stop_requested := Some (pe_mono env), ph_rpc_endpoint := None\<rparr>
          in (h2, evs @ [ClosedRpc, ProcessEvent ''manager.process.stopping'' h2]))"

text \<open>\<open>Manager.restart_process\<close>\<close>

definition restart_process :: "proc_env \<Rightarrow> phandle \<Rightarrow> phandle \<times> sv_event list" where
  "restart_process env h =
     (case stop_process_handle env h of
        (h1, evs) \<Rightarrow>
          let h2 = h1\<lparr>ph_next_restart := Some (pe_mono env + ps_restart_backoff_s (ph_spec h1))\<rparr>
          in (h2, evs @ [ProcessEvent ''manager.process.restart_scheduled'' h2]))"

section \<open>Restarting\<close>

definition maybe_schedule_restart :: "rat \<Rightarrow> phandle \<Rightarrow> phandle \<times> sv_event list" where
  "maybe_schedule_restart now h =
     (if ph_next_restart h \<noteq> None then (h, [])
      else if ps_restart_policy (ph_spec h) = NEVER then (h, [])
      else if ps_restart_policy (ph_spec h) = ON_FAILURE
           \<and> (case ph_last_exit_code h of None \<Rightarrow> True | Some rc \<Rightarrow> rc = 0) then (h, [])
      else
      let h1 = h\<lparr>ph_next_restart := Some (now + max (ps_restart_backoff_s (ph_spec h)) 0)\<rparr>
      in (h1, [ProcessEvent ''manager.process.restart_scheduled'' h1]))"

definition try_restart_process :: "proc_env \<Rightarrow> sup_net \<Rightarrow> phandle \<Rightarrow> sv_result" where
  "try_restart_process env net h =
     (if (case ps_max_restarts (ph_spec h) of None \<Rightarrow> False | Some n \<Rightarrow> ph_restart_count h \<ge> n)
      then let h1 = h\<lparr>ph_state := CRASHLOOP, ph_next_restart := None\<rparr>
           in (Inr (), net, h1, [ProcessEvent ''manager.process.crashloop'' h1])
      else start_process_handle env True net
             (h\<lparr>ph_restart_count := ph_restart_count h + 1, ph_last_restart := Some (pe_mono env),
                ph_next_restart := None, ph_stop_requested := None\<rparr>))"

definition maybe_restart_managed_process :: "proc_env \<Rightarrow> rat \<Rightarrow> sup_net \<Rightarrow> phandle \<Rightarrow> sv_result" where
  "maybe_restart_managed_process env now net h =
     (let (h1, evs) = (if ph_state h \<in> {FAILED, EXITED} \<and> ph_stop_requested h = None
                       then maybe_schedule_restart now h else (h, []))
      in if (case ph_next_restart h1 of None \<Rightarrow> False | Some t \<Rightarrow> now \<ge> t)
         then if ph_popen h1 \<and> pe_poll env AtRestart = None then (Inr (), net, h1, evs)
              else (case try_restart_process env net h1 of (r, net1, h2, evs2) \<Rightarrow> (r, net1, h2, evs @ evs2))
         else (Inr (), net, h1, evs))"


section \<open>Recovery from a start collision\<close>

definition LOG_SEVERITY_NAMES :: "string list" where
  "LOG_SEVERITY_NAMES = [''debug'', ''info'', ''warning'', ''error'', ''critical'']"

definition normalize_candidate :: "py_lang \<Rightarrow> pyval \<Rightarrow> string" where
  "normalize_candidate L raw =
     (let text = py_lower (py_strip (py_str L (py_or raw (PStr ''''))))
      in if text = ''warn'' then ''warning'' else text)"

definition normalize_log_severity :: "py_lang \<Rightarrow> pyval \<Rightarrow> string" where
  "normalize_log_severity L raw =
     (let c = normalize_candidate L (if raw = PNone then PStr ''info'' else raw)
      in if c = [] \<or> c \<notin> set LOG_SEVERITY_NAMES then ''info'' else c)"

definition normalize_id :: "py_lang \<Rightarrow> pyval \<Rightarrow> string option" where
  "normalize_id L raw =
     (if raw = PNone then None
      else let text = py_strip (py_str L raw) in if text = [] then None else Some text)"

text \<open>The entries of a process, newest first.\<close>

definition matching_process_log_entries :: "py_lang \<Rightarrow> string \<Rightarrow> items list \<Rightarrow> items list" where
  "matching_process_log_entries L pid history =
     filter (\<lambda>e. py_lower (py_strip (py_str L (py_or (dget e ''source_kind'' (PStr '''')) (PStr '''')))) = ''process''
        \<and> (normalize_id L (jget e ''source_id'') = Some pid \<or> normalize_id L (jget e ''process_id'') = Some pid))
       (rev history)"

definition log_line :: "py_lang \<Rightarrow> items \<Rightarrow> string option" where
  "log_line L e =
     (let message = py_strip (py_str L (py_or (dget e ''message'' (PStr '''')) (PStr ''''))) in
      if message = [] then None
      else
      let shown = (if length message > 220 then take 217 message @ ''...'' else message);
          stream = py_strip (py_str L (py_or (dget e ''stream'' (PStr ''event'')) (PStr ''event'')))
      in Some (normalize_log_severity L (jget e ''severity'') @ ''/'' @ stream @ '': '' @ shown))"

definition recent_process_logs :: "py_lang \<Rightarrow> string \<Rightarrow> nat \<Rightarrow> items list \<Rightarrow> string list" where
  "recent_process_logs L process_id limit history =
     (let pid = py_strip process_id in
      if pid = [] \<or> limit = 0 then []
      else rev (take limit (List.map_filter (log_line L) (matching_process_log_entries L pid history))))"

fun contains_text :: "string \<Rightarrow> string \<Rightarrow> bool" where
  "contains_text pat [] = (pat = [])"
| "contains_text pat (c # cs) = (starts_with pat (c # cs) \<or> contains_text pat cs)"

definition is_endpoint_collision_process_start_failure :: "phandle \<Rightarrow> bool" where
  "is_endpoint_collision_process_start_failure h =
     (let err = py_lower (case ph_last_error h of None \<Rightarrow> '''' | Some s \<Rightarrow> s)
      in contains_text ''already in use'' err \<or> contains_text ''bind failed'' err)"

definition collision_seen :: "py_lang \<Rightarrow> proc_env \<Rightarrow> phandle \<Rightarrow> bool" where
  "collision_seen L env h =
     (is_endpoint_collision_process_start_failure h \<or>
      (let recent = py_lower (join '' '' (recent_process_logs L (ps_process_id (ph_spec h)) 8 (pe_log_history env)))
       in list_ex (\<lambda>m. contains_text m recent)
            [''already in use'', ''bind failed'', ''endpoint is likely already in use'', ''address already in use'']))"

text \<open>The second component: the child was started again.\<close>

definition maybe_recover_process_start_collision ::
  "py_lang \<Rightarrow> proc_env \<Rightarrow> sup_net \<Rightarrow> phandle \<Rightarrow> bool \<times> sup_net \<times> phandle \<times> sv_event list" where
  "maybe_recover_process_start_collision L env net h =
     (if ph_state h \<noteq> STARTING \<or> ph_collision_retry_done h \<or> \<not> collision_seen L env h then (False, net, h, [])
      else
      let h1 = h\<lparr>ph_collision_retry_done := True\<rparr>;
          evs = [LogEvent ''manager.process.collision_recover'' (ps_process_id (ph_spec h)),
                 ManagerEvent ''manager.process.collision_recover''
                   [(''process_id'', PStr (ps_process_id (ph_spec h))), (''summary'', PDict (pe_orphans env))]]
      in case start_process_handle env False net h1 of
           (Inr _, net1, h2, evs2) \<Rightarrow> (True, net1, h2, evs @ evs2)
         | (Inl e, net1, h2, evs2) \<Rightarrow>
             (False, net1, h2\<lparr>ph_state := FAILED,
                ph_last_error := Some (''collision cleanup retry failed: '' @ exc_text e),
                ph_last_error_kind := Some ''collision_recover_failed''\<rparr>, evs @ evs2))"

definition update_managed_process_exit_state ::
  "py_lang \<Rightarrow> proc_env \<Rightarrow> int \<Rightarrow> sup_net \<Rightarrow> phandle \<Rightarrow> bool \<times> sup_net \<times> phandle \<times> sv_event list" where
  "update_managed_process_exit_state L env rc net h =
     (let exiting_pid = pid_or (ph_popen_pid h) (ph_pid h);
          h1 = h\<lparr>ph_last_exit_code := Some rc, ph_popen := False, ph_pid := None, ph_rpc_endpoint := None\<rparr>
      in if ph_state h1 = STOPPING then
           let h2 = h1\<lparr>ph_state := EXITED\<rparr> in (False, net, h2, [ClosedRpc, ProcessEvent ''manager.process.exited'' h2])
         else if rc = 0 then
           let h2 = h1\<lparr>ph_state := STOPPED\<rparr> in (False, net, h2, [ClosedRpc, ProcessEvent ''manager.process.exited'' h2])
         else case maybe_recover_process_start_collision L env net h1 of
           (True, net1, h2, evs) \<Rightarrow> (True, net1, h2, ClosedRpc # evs)
         | (False, net1, h2, evs) \<Rightarrow>
             let h3 = mark_crashed env rc exiting_pid h2
             in (False, net1, h3, ClosedRpc # evs @ [ProcessEvent ''manager.process.failed'' h3]))"

section \<open>Heartbeats\<close>

definition manager_loop_stall_context :: "sup_cfg \<Rightarrow> rat \<Rightarrow> bool \<times> string option \<times> rat option" where
  "manager_loop_stall_context cfg now =
     (let current = (case sc_current_pump_start cfg of
            None \<Rightarrow> None
          | Some start \<Rightarrow> if max 0 (now - start) > sc_stall_warn_s cfg then Some (max 0 (now - start)) else None);
          gap = (case sc_current_pump_gap cfg of
            None \<Rightarrow> None | Some g \<Rightarrow> if g > sc_stall_warn_s cfg then Some g else None);
          completed = (case sc_last_loop_stall cfg of
            None \<Rightarrow> False | Some t \<Rightarrow> now - t \<le> sc_stall_recent_s cfg)
      in case current of
           Some age \<Rightarrow> (True, Some ''current_pump'', Some age)
         | None \<Rightarrow>
             (case gap of
                Some g \<Rightarrow> (True, Some ''pre_pump_gap'', Some g)
              | None \<Rightarrow>
                  if completed
                  then (True, Some ''recent_completed_pump'',
                        Some (case sc_last_loop_stall_duration cfg of None \<Rightarrow> 0 | Some x \<Rightarrow> x))
                  else (False, None, None)))"

definition heartbeat_age_s :: "phandle \<Rightarrow> rat \<Rightarrow> rat option" where
  "heartbeat_age_s h now =
     (case ph_last_hb_recv h of
        Some t \<Rightarrow> Some (now - t)
      | None \<Rightarrow> (case ph_last_start_t h of Some (_, t) \<Rightarrow> Some (now - t) | None \<Rightarrow> None))"

definition in_startup_grace :: "sup_cfg \<Rightarrow> rat \<Rightarrow> bool" where
  "in_startup_grace cfg now =
     (if sc_startup_active cfg then True
      else case sc_startup_complete cfg of None \<Rightarrow> False | Some t \<Rightarrow> now - t \<le> sc_startup_grace_s cfg)"

text \<open>Taking in one heartbeat message for the processes of the manager.\<close>

fun split_slash :: "string \<Rightarrow> string list" where
  "split_slash [] = [[]]"
| "split_slash (c # cs) =
     (if c = CHR ''/'' then [] # split_slash cs
      else case split_slash cs of x # xs \<Rightarrow> (c # x) # xs | [] \<Rightarrow> [[c]])"

definition dict_item :: "items \<Rightarrow> string \<Rightarrow> pyexc + pyval" where
  "dict_item d k = (case map_of d k of None \<Rightarrow> Inl (KeyError (repr_str k)) | Some v \<Rightarrow> Inr v)"

definition float_item :: "py_lang \<Rightarrow> items \<Rightarrow> string \<Rightarrow> pyexc + pyfloat" where
  "float_item L d k = res_bind (dict_item d k) (\<lambda>v.
     case py_float L v of None \<Rightarrow> Inl (ValueError ''could not convert to float'') | Some f \<Rightarrow> Inr f)"

definition int_item :: "py_lang \<Rightarrow> items \<Rightarrow> string \<Rightarrow> pyexc + int" where
  "int_item L d k = res_bind (dict_item d k) (\<lambda>v.
     case py_int L v of None \<Rightarrow> Inl (ValueError ''invalid literal for int()'') | Some n \<Rightarrow> Inr n)"

definition hb_error :: "string \<Rightarrow> string \<Rightarrow> sv_event" where
  "hb_error topic msg = ManagerEvent ''manager.process.heartbeat_error'' [(''topic'', PStr topic), (''error'', PStr msg)]"

text \<open>
  The fields a heartbeat sets. An exception ends the ingestion where it arises: the process
  ids are set before the timestamps are read.
\<close>

definition ingest_into ::
  "py_lang \<Rightarrow> proc_env \<Rightarrow> items \<Rightarrow> int \<Rightarrow> items \<Rightarrow> phandle \<Rightarrow> (pyexc + unit) \<times> phandle \<times> sv_event list" where
  "ingest_into L env msg pid ts h =
     (let h1 = h\<lparr>ph_heartbeat_pid := Some pid, ph_pid := Some pid\<rparr> in
      case float_item L ts ''t_wall'' of
        Inl e \<Rightarrow> (Inl e, h1, [])
      | Inr wall \<Rightarrow>
          (case float_item L ts ''t_mono'' of
             Inl e \<Rightarrow> (Inl e, h1\<lparr>ph_last_hb_t_wall := Some wall\<rparr>, [])
           | Inr sent \<Rightarrow>
               let h2 = h1\<lparr>ph_last_hb_t_wall := Some wall, ph_last_hb_t_mono := Some sent,
                           ph_last_hb_recv := Some (pe_mono env), ph_last_heartbeat_payload := PDict msg\<rparr>;
                   h3 = (if ph_state h2 = STARTING then h2\<lparr>ph_state := RUNNING, ph_collision_retry_done := False\<rparr> else h2);
                   ep = py_strip (py_str L (py_or (jget msg ''rpc_endpoint'') (PStr '''')));
                   (h4, evs) = (if ep \<noteq> [] \<and> ph_rpc_endpoint h3 \<noteq> Some ep
                      then (h3\<lparr>ph_rpc_endpoint := Some ep\<rparr>,
                            [ClosedRpc, ManagerEvent ''manager.process.rpc_update''
                              [(''process_id'', PStr (ps_process_id (ph_spec h3))), (''rpc_endpoint'', PStr ep)]])
                      else (h3, []))
               in (Inr (), h4, evs @ [ProcessEvent ''manager.process.heartbeat'' h4])))"

definition ingest_process_heartbeat ::
  "py_lang \<Rightarrow> proc_env \<Rightarrow> string \<Rightarrow> items \<Rightarrow> procs \<Rightarrow> (pyexc + unit) \<times> procs \<times> sv_event list" where
  "ingest_process_heartbeat L env topic msg procs =
     (case dict_item msg ''process_id'' of
        Inl e \<Rightarrow> (Inl e, procs, [])
      | Inr pv \<Rightarrow>
          let process_id = py_str L pv;
              topic_pid = (if CHR ''/'' \<in> set topic then split_slash topic ! 1 else '''')
          in if topic_pid \<noteq> [] \<and> topic_pid \<noteq> process_id
             then (Inr (), procs, [hb_error topic ''process_id mismatch''])
             else
             (case int_item L msg ''pid'' of
                Inl e \<Rightarrow> (Inl e, procs, [])
              | Inr pid \<Rightarrow>
                  (case as_dict (jget msg ''ts'') of
                     None \<Rightarrow> (Inl (ValueError ''process heartbeat missing ts''), procs, [])
                   | Some ts \<Rightarrow>
                       (case procs process_id of
                          None \<Rightarrow> (Inr (), procs, [ManagerEvent ''manager.process.unknown''
                              [(''process_id'', PStr process_id), (''topic'', PStr topic)]])
                        | Some h \<Rightarrow>
                            (case ingest_into L env msg pid ts h of
                               (r, h1, evs) \<Rightarrow> (r, procs(process_id \<mapsto> h1), evs))))))"

definition ends_with :: "string \<Rightarrow> string \<Rightarrow> bool" where
  "ends_with suffix s = starts_with (rev suffix) (rev s)"

definition MAX_DRAIN_PER_TICK :: nat where
  "MAX_DRAIN_PER_TICK = 256"

text \<open>A message: its topic, and its payload or the exception its decoding raises.\<close>

type_synonym hb_message = "string \<times> (pyexc + pyval)"

definition process_pub_message :: "py_lang \<Rightarrow> proc_env \<Rightarrow> hb_message \<Rightarrow> procs \<Rightarrow> procs \<times> sv_event list" where
  "process_pub_message L env tm procs =
     (let topic = py_strip (fst tm) in
      case snd tm of
        Inl e \<Rightarrow> (procs, [hb_error topic (exc_text e)])
      | Inr payload \<Rightarrow>
          (case as_dict payload of
             None \<Rightarrow> (procs, [ManagerEvent ''manager.process.unknown_pub'' [(''topic'', PStr topic)]])
           | Some msg \<Rightarrow>
               if \<not> starts_with ''process/'' topic \<or> \<not> ends_with ''/heartbeat'' topic
               then (procs, [ManagerEvent ''manager.process.unknown_pub'' [(''topic'', PStr topic), (''raw'', PDict msg)]])
               else (case ingest_process_heartbeat L env topic msg procs of
                       (Inr _, procs1, evs) \<Rightarrow> (procs1, evs)
                     | (Inl e, procs1, evs) \<Rightarrow> (procs1, evs @ [hb_error topic (exc_text e)]))))"

fun drain_messages :: "py_lang \<Rightarrow> proc_env \<Rightarrow> hb_message list \<Rightarrow> procs \<Rightarrow> procs \<times> sv_event list" where
  "drain_messages L env [] procs = (procs, [])"
| "drain_messages L env (m # ms) procs =
     (case process_pub_message L env m procs of
        (procs1, evs) \<Rightarrow> (case drain_messages L env ms procs1 of (procs2, evs2) \<Rightarrow> (procs2, evs @ evs2)))"

text \<open>
  Draining the socket: at most \<open>MAX_DRAIN_PER_TICK\<close> messages; what is left stays queued. (The
  diagnostics on reaching the cap are left out.)
\<close>

definition handle_process_pub ::
  "py_lang \<Rightarrow> proc_env \<Rightarrow> hb_message list \<Rightarrow> procs \<Rightarrow> procs \<times> sv_event list \<times> hb_message list" where
  "handle_process_pub L env queue procs =
     (case drain_messages L env (take MAX_DRAIN_PER_TICK queue) procs of
        (procs1, evs) \<Rightarrow> (procs1, evs, drop MAX_DRAIN_PER_TICK queue))"


section \<open>The heartbeat check\<close>

definition hb_healthy :: "rat \<Rightarrow> phandle \<Rightarrow> phandle" where
  "hb_healthy age h =
     h\<lparr>ph_strikes := 0, ph_last_stale := None, ph_recent_stall := False, ph_stall_source := None,
       ph_reconcile_started := None, ph_reconcile_deadline := None, ph_failure_trigger := None,
       ph_last_heartbeat_age := (if ph_last_hb_recv h \<noteq> None then Some age else None)\<rparr>"

definition hard_timeout_s :: "sup_cfg \<Rightarrow> phandle \<Rightarrow> rat" where
  "hard_timeout_s cfg h =
     (case ps_heartbeat_hard_timeout_s (ph_spec h) of
        Some t \<Rightarrow> t
      | None \<Rightarrow> ps_heartbeat_timeout_s (ph_spec h) * max 1 (sc_hard_multiplier cfg))"

definition strikes_to_fail :: "sup_cfg \<Rightarrow> int" where
  "strikes_to_fail cfg = max 1 (sc_strikes_to_fail cfg)"

definition hb_period_s :: "phandle \<Rightarrow> rat" where
  "hb_period_s h = max (1 / 1000) (ps_heartbeat_period_s (ph_spec h))"

text \<open>What a stale observation records, and the one reconciliation window of the episode.\<close>

definition hb_observe :: "sup_cfg \<Rightarrow> rat \<Rightarrow> rat \<Rightarrow> phandle \<Rightarrow> phandle" where
  "hb_observe cfg now age h =
     (case manager_loop_stall_context cfg now of (recent, source, duration) \<Rightarrow>
      let received = (ph_last_hb_recv h \<noteq> None);
          h1 = h\<lparr>ph_last_heartbeat_received := Some received, ph_last_liveness_age := Some age,
                 ph_last_heartbeat_age := (if received then Some age else None), ph_recent_stall := recent,
                 ph_stall_duration := duration, ph_stall_source := source\<rparr>
      in if recent \<and> ph_reconcile_deadline h1 = None
         then h1\<lparr>ph_reconcile_started := Some now,
                 ph_reconcile_deadline := Some (now + hb_period_s h * max 0 (sc_reconcile_multiplier cfg))\<rparr>
         else h1)"

definition hb_strike :: "rat \<Rightarrow> phandle \<Rightarrow> phandle" where
  "hb_strike now h =
     (if (case ph_last_stale h of None \<Rightarrow> True | Some t \<Rightarrow> now - t \<ge> hb_period_s h)
      then h\<lparr>ph_strikes := ph_strikes h + 1, ph_last_stale := Some now\<rparr> else h)"

definition opt_num :: "rat option \<Rightarrow> pyval" where
  "opt_num o' = (case o' of None \<Rightarrow> PNone | Some q \<Rightarrow> PFloat (Fin q))"

definition hb_deferred_reconcile :: "sup_cfg \<Rightarrow> rat \<Rightarrow> rat \<Rightarrow> phandle \<Rightarrow> sv_event" where
  "hb_deferred_reconcile cfg now age h =
     ManagerEvent ''manager.process.heartbeat_stale_deferred''
       [(''process_id'', PStr (ps_process_id (ph_spec h))), (''heartbeat_age_s'', PFloat (Fin age)),
        (''heartbeat_timeout_s'', PFloat (Fin (ps_heartbeat_timeout_s (ph_spec h)))),
        (''heartbeat_hard_timeout_s'', PFloat (Fin (hard_timeout_s cfg h))), (''strikes'', PInt (ph_strikes h)),
        (''strikes_to_fail'', PInt (strikes_to_fail cfg)), (''defer_reason'', PStr ''manager_stall_reconciliation''),
        (''recent_manager_loop_stall'', PBool (ph_recent_stall h)),
        (''manager_loop_stall_source'', opt_text (ph_stall_source h)),
        (''manager_loop_stall_duration_s'', opt_num (ph_stall_duration h)),
        (''reconcile_deadline_mono'', opt_num (ph_reconcile_deadline h)),
        (''in_startup_grace'', PBool (in_startup_grace cfg now))]"

definition hb_deferred :: "sup_cfg \<Rightarrow> rat \<Rightarrow> rat \<Rightarrow> string \<Rightarrow> phandle \<Rightarrow> sv_event" where
  "hb_deferred cfg now age reason h =
     ManagerEvent ''manager.process.heartbeat_stale_deferred''
       [(''process_id'', PStr (ps_process_id (ph_spec h))), (''heartbeat_age_s'', PFloat (Fin age)),
        (''heartbeat_timeout_s'', PFloat (Fin (ps_heartbeat_timeout_s (ph_spec h)))),
        (''heartbeat_hard_timeout_s'', PFloat (Fin (hard_timeout_s cfg h))), (''strikes'', PInt (ph_strikes h)),
        (''strikes_to_fail'', PInt (strikes_to_fail cfg)), (''defer_reason'', PStr reason),
        (''recent_manager_loop_stall'', PBool (ph_recent_stall h)),
        (''manager_loop_stall_source'', opt_text (ph_stall_source h)),
        (''in_startup_grace'', PBool (in_startup_grace cfg now)),
        (''last_manager_loop_stall_duration_s'', opt_num (ph_stall_duration h))]"

definition hb_fail :: "sup_cfg \<Rightarrow> proc_env \<Rightarrow> rat \<Rightarrow> rat \<Rightarrow> phandle \<Rightarrow> phandle \<times> sv_event list" where
  "hb_fail cfg env now age h =
     (let timeout = ps_heartbeat_timeout_s (ph_spec h);
          msg = (if ph_last_hb_recv h \<noteq> None
                 then ''heartbeat stale ('' @ pe_fmt2 env age @ ''s > '' @ pe_fmt2 env timeout @ ''s)''
                 else ''no heartbeat received '' @ pe_fmt2 env age @ ''s after spawn (timeout '' @ pe_fmt2 env timeout @ ''s)'');
          h1 = h\<lparr>ph_state := FAILED, ph_last_error_kind := Some ''heartbeat_stale'',
                 ph_failure_trigger := Some (if age \<ge> hard_timeout_s cfg h then ''hard_timeout'' else ''stale_strikes''),
                 ph_last_failure_pid := pid_or (ph_popen_pid h) (ph_pid h), ph_last_error := Some msg,
                 ph_terminated_by_manager := False, ph_termination_reason := Some ''heartbeat_stale'',
                 ph_termination_method := None, ph_termination_error := None\<rparr>;
          (h2, evs) = (if ph_popen h1 \<and> pe_poll env AtHeartbeat = None
             then (case pe_terminate env of
                     None \<Rightarrow> (h1\<lparr>ph_stop_requested := Some now, ph_terminated_by_manager := True,
                                 ph_termination_method := Some ''terminate''\<rparr>, [SentTerminate])
                   | Some e \<Rightarrow> (h1\<lparr>ph_termination_error := Some e,
                                   ph_last_error := Some (msg @ ''; terminate failed: '' @ e)\<rparr>, []))
             else (h1, []))
      in (h2, evs @ [ProcessEvent ''manager.process.failed'' h2]))"

text \<open>The check of a heartbeat known to be stale.\<close>

definition hb_stale_check :: "sup_cfg \<Rightarrow> proc_env \<Rightarrow> rat \<Rightarrow> rat \<Rightarrow> phandle \<Rightarrow> phandle \<times> sv_event list" where
  "hb_stale_check cfg env now age h =
     (let h1 = hb_observe cfg now age h in
      if (case ph_reconcile_deadline h1 of None \<Rightarrow> False | Some t \<Rightarrow> now < t)
      then (h1, [hb_deferred_reconcile cfg now age h1])
      else
      let h2 = hb_strike now h1;
          grace_defer = (in_startup_grace cfg now \<and> age < sc_startup_grace_hard_s cfg);
          strike_defer = (ph_strikes h2 < strikes_to_fail cfg \<and> age < hard_timeout_s cfg h2)
      in if grace_defer \<or> strike_defer
         then let h3 = (if grace_defer then h2\<lparr>ph_strikes := min (ph_strikes h2) (strikes_to_fail cfg - 1)\<rparr> else h2)
              in (h3, [hb_deferred cfg now age (if grace_defer then ''startup_grace'' else ''stale_strikes'') h3])
         else hb_fail cfg env now age h2)"

text \<open>
  The whole check. \<open>refreshed\<close> is the handle after the heartbeats waiting on the socket have
  been taken in, which the check asks for before it calls a heartbeat stale; the last
  component says whether it did.
\<close>

definition enforce_managed_process_heartbeat_timeout ::
  "sup_cfg \<Rightarrow> proc_env \<Rightarrow> rat \<Rightarrow> phandle \<Rightarrow> phandle \<Rightarrow> phandle \<times> sv_event list \<times> bool" where
  "enforce_managed_process_heartbeat_timeout cfg env now refreshed h =
     (if ph_state h \<notin> {STARTING, RUNNING} then (h, [], False)
      else case heartbeat_age_s h now of
        None \<Rightarrow> (h, [], False)
      | Some age0 \<Rightarrow>
          if age0 \<le> ps_heartbeat_timeout_s (ph_spec h) then (hb_healthy age0 h, [], False)
          else (case heartbeat_age_s refreshed now of
             None \<Rightarrow> (refreshed, [], True)
           | Some age \<Rightarrow>
               if age \<le> ps_heartbeat_timeout_s (ph_spec h) then (hb_healthy age refreshed, [], True)
               else (case hb_stale_check cfg env now age refreshed of (h1, evs) \<Rightarrow> (h1, evs, True))))"

section \<open>The stop check\<close>

definition MAX_KILL_ATTEMPTS :: int where "MAX_KILL_ATTEMPTS = 5"

definition enforce_managed_process_stop_timeout :: "proc_env \<Rightarrow> rat \<Rightarrow> phandle \<Rightarrow> phandle \<times> sv_event list" where
  "enforce_managed_process_stop_timeout env now h =
     (if ph_state h \<noteq> STOPPING then (h, [])
      else if \<not> ph_popen h \<or> pe_poll env AtStop \<noteq> None then (h, [])
      else case ph_stop_requested h of
        None \<Rightarrow> (h\<lparr>ph_stop_requested := Some now\<rparr>, [])
      | Some t \<Rightarrow>
          if now - t \<le> ps_shutdown_timeout_s (ph_spec h) then (h, [])
          else
          let h1 = h\<lparr>ph_kill_attempts := ph_kill_attempts h + 1\<rparr>;
              (h2, evs) = (case pe_kill env of None \<Rightarrow> (h1, [SentKill]) | Some e \<Rightarrow> (h1\<lparr>ph_last_error := Some e\<rparr>, []))
          in if ph_kill_attempts h2 \<ge> MAX_KILL_ATTEMPTS
             then let h3 = h2\<lparr>ph_state := FAILED, ph_last_error_kind := text_or (ph_last_error_kind h2) ''kill_escalated'',
                              ph_last_error := text_or (ph_last_error h2)
                                (''process refused to exit after '' @ str_int (ph_kill_attempts h2)
                                  @ '' kill() attempts (last poll() = None)'')\<rparr>
                  in (h3, evs @ [ProcessEvent ''manager.process.failed'' h3])
             else (h2, evs))"

section \<open>A supervision pass\<close>

text \<open>
  One process. The exception, if a restart raises one, ends the pass over all processes.
\<close>

definition supervise_managed_process ::
  "py_lang \<Rightarrow> sup_cfg \<Rightarrow> proc_env \<Rightarrow> rat \<Rightarrow> string \<Rightarrow> hb_message list \<times> sup_net \<times> procs
    \<Rightarrow> (pyexc + unit) \<times> (hb_message list \<times> sup_net \<times> procs) \<times> sv_event list" where
  "supervise_managed_process L cfg env now pid s =
     (case s of (queue, net, procs) \<Rightarrow>
      case procs pid of
        None \<Rightarrow> (Inr (), s, [])
      | Some h \<Rightarrow>
          (case (case (if ph_popen h then pe_poll env AtSupervise else None) of
                   None \<Rightarrow> (False, net, h, [])
                 | Some rc \<Rightarrow> update_managed_process_exit_state L env rc net h) of
            (True, net1, h1, evs1) \<Rightarrow> (Inr (), (queue, net1, procs(pid \<mapsto> h1)), evs1)
          | (False, net1, h1, evs1) \<Rightarrow>
              (case handle_process_pub L env queue (procs(pid \<mapsto> h1)) of (procs_r, evs_r, queue_r) \<Rightarrow>
               case enforce_managed_process_heartbeat_timeout cfg env now (the (procs_r pid)) h1 of (h2, evs2, drained) \<Rightarrow>
               case enforce_managed_process_stop_timeout env now h2 of (h3, evs3) \<Rightarrow>
               case maybe_restart_managed_process env now net1 h3 of (r, net2, h4, evs4) \<Rightarrow>
                 (r,
                  (if drained then queue_r else queue, net2, (if drained then procs_r else procs)(pid \<mapsto> h4)),
                  evs1 @ (if drained then evs_r else []) @ evs2 @ evs3 @ evs4))))"

fun supervise_managed_processes ::
  "py_lang \<Rightarrow> sup_cfg \<Rightarrow> (string \<Rightarrow> proc_env) \<Rightarrow> rat \<Rightarrow> string list \<Rightarrow> hb_message list \<times> sup_net \<times> procs
    \<Rightarrow> (pyexc + unit) \<times> (hb_message list \<times> sup_net \<times> procs) \<times> sv_event list" where
  "supervise_managed_processes L cfg env now [] s = (Inr (), s, [])"
| "supervise_managed_processes L cfg env now (pid # pids) s =
     (case supervise_managed_process L cfg (env pid) now pid s of
        (Inl e, s1, evs) \<Rightarrow> (Inl e, s1, evs)
      | (Inr _, s1, evs) \<Rightarrow>
          (case supervise_managed_processes L cfg env now pids s1 of (r, s2, evs2) \<Rightarrow> (r, s2, evs @ evs2)))"

end
