(* ===== verification/Budgeted_Steps.thy ===== *)
theory Budgeted_Steps
  imports Main
begin

text \<open>
  Runs of a step function that emits events, and the contract of a step that pays for some of
  its events out of a budget held in the state: over any run the events paid for number at
  most the budget the run started with, plus what other events have granted. The supervision
  passes of the manager are instances.
\<close>

fun run_steps :: "('i \<Rightarrow> 's \<Rightarrow> 's \<times> 'e list) \<Rightarrow> 'i list \<Rightarrow> 's \<Rightarrow> 's \<times> 'e list" where
  "run_steps step [] s = (s, [])"
| "run_steps step (i # is) s =
     (case step i s of (s1, evs) \<Rightarrow> (case run_steps step is s1 of (s2, evs2) \<Rightarrow> (s2, evs @ evs2)))"

definition paid :: "('e \<Rightarrow> bool) \<Rightarrow> 'e list \<Rightarrow> int" where
  "paid cost evs = int (length (filter cost evs))"

lemma paid_simps [simp]:
  "paid cost [] = 0"
  "paid cost (e # evs) = (if cost e then 1 else 0) + paid cost evs"
  "paid cost (xs @ ys) = paid cost xs + paid cost ys"
  by (simp_all add: paid_def)

lemma paid_nonneg [simp]: "0 \<le> paid cost evs"
  by (simp add: paid_def)

lemma run_steps_append:
  "run_steps step (xs @ ys) s =
     (case run_steps step xs s of (s1, e1) \<Rightarrow> (case run_steps step ys s1 of (s2, e2) \<Rightarrow> (s2, e1 @ e2)))"
  by (induction xs arbitrary: s) (auto split: prod.splits)

locale kept_by_steps =
  fixes step :: "'i \<Rightarrow> 's \<Rightarrow> 's \<times> 'e list"
    and inv :: "'s \<Rightarrow> bool"
  assumes step_inv: "inv s \<Longrightarrow> inv (fst (step i s))"
begin

lemma run_inv: "inv s \<Longrightarrow> inv (fst (run_steps step is s))"
  by (induction "is" arbitrary: s) (simp_all add: split_beta step_inv)

end

locale funded_steps = kept_by_steps step inv
  for step :: "'i \<Rightarrow> 's \<Rightarrow> 's \<times> 'e list" and inv +
  fixes cost :: "'e \<Rightarrow> bool"
    and gain :: "'e \<Rightarrow> bool"
    and grant :: int
    and budget :: "'s \<Rightarrow> int"
  assumes step_funds:
      "inv s \<Longrightarrow> paid cost (snd (step i s)) + budget (fst (step i s)) \<le> budget s + grant * paid gain (snd (step i s))"
    and budget_nonneg: "inv s \<Longrightarrow> 0 \<le> budget s"
begin

lemma run_funds:
  "inv s \<Longrightarrow> paid cost (snd (run_steps step is s)) + budget (fst (run_steps step is s))
     \<le> budget s + grant * paid gain (snd (run_steps step is s))"
proof (induction "is" arbitrary: s)
  case (Cons i "is")
  have "inv (fst (step i s))"
    using Cons.prems by (rule step_inv)
  from Cons.IH [OF this] step_funds [OF Cons.prems, of i] show ?case
    by (auto simp: distrib_left split: prod.splits)
qed simp

lemma run_within_funds:
  assumes "inv s"
  shows "paid cost (snd (run_steps step is s)) \<le> budget s + grant * paid gain (snd (run_steps step is s))"
  using run_funds [OF assms, of "is"] budget_nonneg [OF run_inv [OF assms, of "is"]] by linarith

end

text \<open>A budget that nothing refills.\<close>

locale budgeted_steps = kept_by_steps step inv
  for step :: "'i \<Rightarrow> 's \<Rightarrow> 's \<times> 'e list" and inv +
  fixes cost :: "'e \<Rightarrow> bool"
    and budget :: "'s \<Rightarrow> int"
  assumes step_cost: "inv s \<Longrightarrow> paid cost (snd (step i s)) + budget (fst (step i s)) \<le> budget s"
    and budget_nonneg: "inv s \<Longrightarrow> 0 \<le> budget s"

sublocale budgeted_steps \<subseteq> funded: funded_steps step inv cost "\<lambda>_. False" 0 budget
  by unfold_locales (simp_all add: step_cost budget_nonneg)

context budgeted_steps
begin

lemma run_bounded:
  assumes "inv s"
  shows "paid cost (snd (run_steps step is s)) \<le> budget s"
  using funded.run_within_funds [OF assms, of "is"] by simp

end

end
