(* ===== verification/Process_Supervision_Proofs.thy ===== *)
theory Process_Supervision_Proofs
  imports Process_Supervision Budgeted_Steps
begin

text \<open>
  Lemmas on process supervision: what each operation keeps of a handle, which of them spawn
  a child, and the budget that pays for spawning.
\<close>

section \<open>Spawning\<close>

fun is_spawn :: "sv_event \<Rightarrow> bool" where
  "is_spawn (Spawned _) = True"
| "is_spawn _ = False"

abbreviation spawns :: "sv_event list \<Rightarrow> int" where
  "spawns \<equiv> paid is_spawn"

text \<open>
  The children supervision may still spawn for a process with a restart limit: two for every
  restart left (the restart and one retry after an endpoint collision), and the retry of the
  start in progress.
\<close>

definition spawn_budget :: "phandle \<Rightarrow> int" where
  "spawn_budget h =
     2 * max 0 (the (ps_max_restarts (ph_spec h)) - ph_restart_count h)
       + (if ph_state h = STARTING \<and> \<not> ph_collision_retry_done h then 1 else 0)"

definition restart_limited :: "phandle \<Rightarrow> bool" where
  "restart_limited h = (ps_max_restarts (ph_spec h) \<noteq> None)"

lemma spawn_budget_nonneg [simp]: "0 \<le> spawn_budget h"
  by (simp add: spawn_budget_def)

lemma fresh_start_simps [simp]:
  "ph_spec (fresh_start env reset pid h) = ph_spec h"
  "ph_restart_count (fresh_start env reset pid h) = ph_restart_count h"
  "ph_state (fresh_start env reset pid h) = STARTING"
  "ph_popen (fresh_start env reset pid h)"
  "ph_collision_retry_done (fresh_start env reset pid h) = (\<not> reset \<and> ph_collision_retry_done h)"
  "ph_stop_requested (fresh_start env reset pid h) = None"
  "ph_next_restart (fresh_start env reset pid h) = None"
  "ph_kill_attempts (fresh_start env reset pid h) = 0"
  by (simp_all add: fresh_start_def)

lemma spawn_process_spec:
  assumes "spawn_process env reset net h = (r, net', h', evs)"
  shows "ph_spec h' = ph_spec h" "ph_restart_count h' = ph_restart_count h"
    "spawns evs = 0 \<and> ph_state h' = FAILED \<or>
     spawns evs = 1 \<and> ph_state h' = STARTING \<and> ph_popen h' \<and>
       ph_collision_retry_done h' = (\<not> reset \<and> ph_collision_retry_done h)"
  using assms by (auto simp: spawn_process_def Let_def split: sum.splits)

lemma start_process_handle_spec:
  assumes "start_process_handle env reset net h = (r, net', h', evs)"
  shows "ph_spec h' = ph_spec h" "ph_restart_count h' = ph_restart_count h"
    "spawns evs = 0 \<and> (ph_state h' = FAILED \<or> ph_state h' = ph_state h \<and> ph_collision_retry_done h' = ph_collision_retry_done h) \<or>
     spawns evs = 1 \<and> ph_state h' = STARTING \<and> ph_popen h' \<and>
       ph_collision_retry_done h' = (\<not> reset \<and> ph_collision_retry_done h)"
  using assms
  by (auto simp: start_process_handle_def Let_def split: if_splits sum.splits prod.splits dest: spawn_process_spec)


text \<open>
  What an operation on a handle keeps, and that it pays for what it spawns.
\<close>

definition spends :: "phandle \<Rightarrow> sv_event list \<Rightarrow> phandle \<Rightarrow> bool" where
  "spends h evs h' =
     (ph_spec h' = ph_spec h \<and> (restart_limited h \<longrightarrow> spawns evs + spawn_budget h' \<le> spawn_budget h))"

lemma spends_trans:
  "\<lbrakk>spends h evs h1; spends h1 evs' h2\<rbrakk> \<Longrightarrow> spends h (evs @ evs') h2"
  by (auto simp: spends_def restart_limited_def)

lemma spends_refl [simp]: "spends h [] h"
  by (simp add: spends_def)

lemma spends_quiet:
  assumes "spawns evs = 0" "ph_spec h' = ph_spec h" "ph_restart_count h' = ph_restart_count h"
    "ph_state h' = STARTING \<Longrightarrow> \<not> ph_collision_retry_done h' \<Longrightarrow> ph_state h = STARTING \<and> \<not> ph_collision_retry_done h"
  shows "spends h evs h'"
  using assms by (auto simp: spends_def spawn_budget_def)

lemma maybe_schedule_restart_keeps:
  assumes "maybe_schedule_restart now h = (h', evs)"
  shows "ph_spec h' = ph_spec h" "ph_restart_count h' = ph_restart_count h" "ph_state h' = ph_state h"
    "ph_collision_retry_done h' = ph_collision_retry_done h" "ph_popen h' = ph_popen h" "spawns evs = 0"
    "ph_kill_attempts h' = ph_kill_attempts h" "ph_stop_requested h' = ph_stop_requested h"
  using assms by (auto simp: maybe_schedule_restart_def Let_def split: if_splits)

lemma try_restart_spends:
  assumes "try_restart_process env net h = (r, net', h', evs)"
  shows "spends h evs h'"
proof (cases "case ps_max_restarts (ph_spec h) of None \<Rightarrow> False | Some n \<Rightarrow> ph_restart_count h \<ge> n")
  case True
  with assms show ?thesis
    by (auto simp: try_restart_process_def Let_def intro!: spends_quiet)
next
  case False
  with assms obtain h1 where
    start: "start_process_handle env True net h1 = (r, net', h', evs)"
    and h1: "ph_spec h1 = ph_spec h" "ph_restart_count h1 = ph_restart_count h + 1" "ph_state h1 = ph_state h"
      "ph_collision_retry_done h1 = ph_collision_retry_done h"
    by (auto simp: try_restart_process_def Let_def)
  from False have "restart_limited h \<Longrightarrow> ph_restart_count h < the (ps_max_restarts (ph_spec h))"
    by (auto simp: restart_limited_def)
  with start_process_handle_spec [OF start] h1 show ?thesis
    by (auto simp: spends_def spawn_budget_def)
qed

lemma maybe_restart_spends:
  assumes "maybe_restart_managed_process env now net h = (r, net', h', evs)"
  shows "spends h evs h'"
proof -
  obtain h1 e1 where
    one: "(if ph_state h \<in> {FAILED, EXITED} \<and> ph_stop_requested h = None
           then maybe_schedule_restart now h else (h, [])) = (h1, e1)"
    by (metis surj_pair)
  have "spends h e1 h1"
    using one by (auto split: if_splits intro!: spends_quiet dest: maybe_schedule_restart_keeps)
  moreover obtain e2 where "evs = e1 @ e2" "spends h1 e2 h'"
    using assms unfolding maybe_restart_managed_process_def one
    by (auto split: if_splits prod.splits dest: try_restart_spends intro!: spends_quiet)
  ultimately show ?thesis
    by (auto intro: spends_trans)
qed

lemma recover_collision_spends:
  assumes "maybe_recover_process_start_collision L env net h = (ok, net', h', evs)"
  shows "spends h evs h'"
proof (cases "ph_state h \<noteq> STARTING \<or> ph_collision_retry_done h \<or> \<not> collision_seen L env h")
  case True
  with assms show ?thesis
    by (simp add: maybe_recover_process_start_collision_def)
next
  case False
  obtain r net1 h2 e2 where
    start: "start_process_handle env False net (h\<lparr>ph_collision_retry_done := True\<rparr>) = (r, net1, h2, e2)"
    by (metis surj_pair)
  note start_process_handle_spec [OF start]
  moreover have "ph_spec h' = ph_spec h2" "ph_restart_count h' = ph_restart_count h2" "spawns evs = spawns e2"
    "ph_state h' = FAILED \<or> ph_state h' = ph_state h2 \<and> ph_collision_retry_done h' = ph_collision_retry_done h2"
    using assms False
    by (simp_all add: maybe_recover_process_start_collision_def Let_def start split: sum.splits) auto
  ultimately show ?thesis
    using False by (auto simp: spends_def spawn_budget_def)
qed

lemma mark_crashed_simps [simp]:
  "ph_spec (mark_crashed env rc p h) = ph_spec h"
  "ph_restart_count (mark_crashed env rc p h) = ph_restart_count h"
  "ph_state (mark_crashed env rc p h) = FAILED"
  "ph_popen (mark_crashed env rc p h) = ph_popen h"
  "ph_stop_requested (mark_crashed env rc p h) = ph_stop_requested h"
  "ph_next_restart (mark_crashed env rc p h) = ph_next_restart h"
  by (simp_all add: mark_crashed_def)


lemma exit_state_spends:
  assumes "update_managed_process_exit_state L env rc net h = (ok, net', h', evs)"
  shows "spends h evs h'"
proof -
  define h1 where "h1 = h\<lparr>ph_last_exit_code := Some rc, ph_popen := False, ph_pid := None, ph_rpc_endpoint := None\<rparr>"
  have h1: "ph_spec h1 = ph_spec h" "ph_restart_count h1 = ph_restart_count h" "ph_state h1 = ph_state h"
    "ph_collision_retry_done h1 = ph_collision_retry_done h"
    by (simp_all add: h1_def)
  obtain got net2 h2 e2 where
    recover: "maybe_recover_process_start_collision L env net h1 = (got, net2, h2, e2)"
    by (metis surj_pair)
  have "spends h [ClosedRpc] h1"
    by (rule spends_quiet) (simp_all add: h1)
  from spends_trans [OF this recover_collision_spends [OF recover]]
  have two: "spends h (ClosedRpc # e2) h2" by simp
  have crashed: "spends h2 [ProcessEvent t h3] h3" if "h3 = mark_crashed env rc p h2" for t h3 p
    by (rule spends_quiet) (simp_all add: that)
  show ?thesis
  proof (cases "ph_state h = STOPPING \<or> rc = 0")
    case True
    with assms show ?thesis
      unfolding update_managed_process_exit_state_def Let_def h1_def [symmetric] h1
      by (auto split: if_splits intro!: spends_quiet simp: h1)
  next
    case False
    with assms two show ?thesis
      unfolding update_managed_process_exit_state_def Let_def h1_def [symmetric] h1 recover
      by (auto split: bool.splits dest: spends_trans [OF _ crashed [OF refl]])
  qed
qed

section \<open>Heartbeats\<close>

text \<open>What taking in heartbeats can change of a handle.\<close>

definition heard :: "phandle \<Rightarrow> phandle \<Rightarrow> bool" where
  "heard h h' =
     (ph_spec h' = ph_spec h \<and> ph_restart_count h' = ph_restart_count h \<and> ph_popen h' = ph_popen h
      \<and> ph_next_restart h' = ph_next_restart h \<and> ph_stop_requested h' = ph_stop_requested h
      \<and> ph_kill_attempts h' = ph_kill_attempts h
      \<and> (ph_state h' = ph_state h \<and> ph_collision_retry_done h' = ph_collision_retry_done h
         \<or> ph_state h = STARTING \<and> ph_state h' = RUNNING))"

lemma heard_refl [simp]: "heard h h"
  by (simp add: heard_def)

lemma heard_trans: "\<lbrakk>heard h h1; heard h1 h2\<rbrakk> \<Longrightarrow> heard h h2"
  by (auto simp: heard_def)

lemma heard_spends: "\<lbrakk>heard h h'; spawns evs = 0\<rbrakk> \<Longrightarrow> spends h evs h'"
  by (auto simp: heard_def intro!: spends_quiet)

lemma ingest_into_heard:
  assumes "ingest_into L env msg pid ts h = (r, h', evs)"
  shows "heard h h'" "spawns evs = 0"
  using assms by (auto simp: ingest_into_def heard_def Let_def split: sum.splits if_splits)

text \<open>The same for a table of processes.\<close>

definition heard_all :: "procs \<Rightarrow> procs \<Rightarrow> bool" where
  "heard_all procs procs' = (\<forall>p. rel_option heard (procs p) (procs' p))"

lemma heard_all_refl [simp]: "heard_all procs procs"
  by (auto simp: heard_all_def option.rel_refl)

lemma heard_all_trans: "\<lbrakk>heard_all a b; heard_all b c\<rbrakk> \<Longrightarrow> heard_all a c"
  using option.rel_transp [of heard] unfolding heard_all_def transp_def
  by (metis heard_trans)

lemma heard_all_Some:
  assumes "heard_all procs procs'" "procs p = Some h"
  obtains h' where "procs' p = Some h'" "heard h h'"
  using assms unfolding heard_all_def by (metis option_rel_Some1)

lemma heard_all_upd: "\<lbrakk>procs p = Some h; heard h h'\<rbrakk> \<Longrightarrow> heard_all procs (procs(p \<mapsto> h'))"
  by (simp add: heard_all_def option.rel_refl)

lemma ingest_process_heartbeat_cases:
  assumes "ingest_process_heartbeat L env topic msg procs = (r, procs', evs)"
  shows "procs' = procs \<and> spawns evs = 0 \<or>
    (\<exists>p h h' pid ts r'. procs p = Some h \<and> ingest_into L env msg pid ts h = (r', h', evs) \<and> procs' = procs(p \<mapsto> h'))"
proof -
  have "fst (snd (ingest_process_heartbeat L env topic msg procs)) = procs
      \<and> spawns (snd (snd (ingest_process_heartbeat L env topic msg procs))) = 0 \<or>
    (\<exists>p h pid ts. procs p = Some h
      \<and> ingest_process_heartbeat L env topic msg procs =
          (case ingest_into L env msg pid ts h of (r, h1, evs) \<Rightarrow> (r, procs(p \<mapsto> h1), evs)))"
    unfolding ingest_process_heartbeat_def Let_def hb_error_def
    by (simp split: sum.split option.split) blast
  then show ?thesis
  proof (elim disjE exE conjE)
    fix p h pid ts
    assume "procs p = Some h"
      "ingest_process_heartbeat L env topic msg procs =
         (case ingest_into L env msg pid ts h of (r, h1, evs) \<Rightarrow> (r, procs(p \<mapsto> h1), evs))"
    moreover obtain r' h' e where "ingest_into L env msg pid ts h = (r', h', e)"
      by (metis surj_pair)
    ultimately show ?thesis
      using assms by (intro disjI2 exI [of _ p] exI [of _ h] exI [of _ h'] exI [of _ pid] exI [of _ ts]) auto
  qed (simp add: assms)
qed

lemma ingest_process_heartbeat_heard:
  assumes "ingest_process_heartbeat L env topic msg procs = (r, procs', evs)"
  shows "heard_all procs procs' \<and> spawns evs = 0"
  using ingest_process_heartbeat_cases [OF assms] by (auto dest: ingest_into_heard intro: heard_all_upd)

lemma process_pub_message_heard:
  assumes "process_pub_message L env m procs = (procs', evs)"
  shows "heard_all procs procs' \<and> spawns evs = 0"
  using assms
  by (auto simp: process_pub_message_def Let_def hb_error_def
      split: sum.splits option.splits if_splits prod.splits dest!: ingest_process_heartbeat_heard)

lemma drain_messages_heard:
  "drain_messages L env ms procs = (procs', evs) \<Longrightarrow> heard_all procs procs' \<and> spawns evs = 0"
proof (induction ms arbitrary: procs procs' evs)
  case (Cons m ms)
  then show ?case
    by (auto split: prod.splits dest!: process_pub_message_heard Cons.IH intro: heard_all_trans)
qed simp

lemma handle_process_pub_heard:
  assumes "handle_process_pub L env queue procs = (procs', evs, queue')"
  shows "heard_all procs procs'" "spawns evs = 0"
  using assms by (auto simp: handle_process_pub_def split: prod.splits dest: drain_messages_heard)


section \<open>The checks\<close>

text \<open>What the heartbeat check and the stop check keep of a handle.\<close>

definition checked :: "phandle \<Rightarrow> phandle \<Rightarrow> bool" where
  "checked h h' =
     (ph_spec h' = ph_spec h \<and> ph_restart_count h' = ph_restart_count h \<and> ph_popen h' = ph_popen h
      \<and> ph_next_restart h' = ph_next_restart h \<and> ph_collision_retry_done h' = ph_collision_retry_done h
      \<and> (ph_state h' = ph_state h \<or> ph_state h' = FAILED))"

lemma checked_spends: "\<lbrakk>checked h h'; spawns evs = 0\<rbrakk> \<Longrightarrow> spends h evs h'"
  by (auto simp: checked_def intro!: spends_quiet)

lemma hb_healthy_checked [simp]: "checked h (hb_healthy age h)"
  by (simp add: checked_def hb_healthy_def)

lemma hb_observe_simps [simp]:
  "ph_spec (hb_observe cfg now age h) = ph_spec h"
  "ph_restart_count (hb_observe cfg now age h) = ph_restart_count h"
  "ph_popen (hb_observe cfg now age h) = ph_popen h"
  "ph_next_restart (hb_observe cfg now age h) = ph_next_restart h"
  "ph_collision_retry_done (hb_observe cfg now age h) = ph_collision_retry_done h"
  "ph_state (hb_observe cfg now age h) = ph_state h"
  "ph_strikes (hb_observe cfg now age h) = ph_strikes h"
  "ph_last_stale (hb_observe cfg now age h) = ph_last_stale h"
  "ph_last_hb_recv (hb_observe cfg now age h) = ph_last_hb_recv h"
  "ph_last_start_t (hb_observe cfg now age h) = ph_last_start_t h"
  "ph_stop_requested (hb_observe cfg now age h) = ph_stop_requested h"
  by (simp_all add: hb_observe_def Let_def split: prod.split)

lemma hb_strike_simps [simp]:
  "ph_spec (hb_strike now h) = ph_spec h"
  "ph_restart_count (hb_strike now h) = ph_restart_count h"
  "ph_popen (hb_strike now h) = ph_popen h"
  "ph_next_restart (hb_strike now h) = ph_next_restart h"
  "ph_collision_retry_done (hb_strike now h) = ph_collision_retry_done h"
  "ph_state (hb_strike now h) = ph_state h"
  "ph_last_hb_recv (hb_strike now h) = ph_last_hb_recv h"
  "ph_last_start_t (hb_strike now h) = ph_last_start_t h"
  "ph_reconcile_deadline (hb_strike now h) = ph_reconcile_deadline h"
  "ph_stop_requested (hb_strike now h) = ph_stop_requested h"
  by (simp_all add: hb_strike_def)

lemma hb_fail_spec:
  assumes "hb_fail cfg env now age h = (h', evs)"
  shows "checked h h'" "spawns evs = 0" "ph_state h' = FAILED"
    "SentTerminate \<in> set evs \<longleftrightarrow> ph_popen h \<and> pe_poll env AtHeartbeat = None \<and> pe_terminate env = None"
    "SentTerminate \<in> set evs \<Longrightarrow> ph_stop_requested h' = Some now"
proof -
  have "checked h h' \<and> spawns evs = 0 \<and> ph_state h' = FAILED
    \<and> (SentTerminate \<in> set evs \<longleftrightarrow> ph_popen h \<and> pe_poll env AtHeartbeat = None \<and> pe_terminate env = None)
    \<and> (SentTerminate \<in> set evs \<longrightarrow> ph_stop_requested h' = Some now)"
    using assms
    by (cases "ph_popen h \<and> pe_poll env AtHeartbeat = None"; cases "pe_terminate env")
      (clarsimp simp: hb_fail_def checked_def Let_def)+
  then show "checked h h'" "spawns evs = 0" "ph_state h' = FAILED"
    "SentTerminate \<in> set evs \<longleftrightarrow> ph_popen h \<and> pe_poll env AtHeartbeat = None \<and> pe_terminate env = None"
    "SentTerminate \<in> set evs \<Longrightarrow> ph_stop_requested h' = Some now"
    by blast+
qed

lemma hb_stale_check_checked:
  assumes "hb_stale_check cfg env now age h = (h', evs)"
  shows "checked h h' \<and> spawns evs = 0"
proof -
  define f where "f = hb_fail cfg env now age (hb_strike now (hb_observe cfg now age h))"
  have f: "checked (hb_strike now (hb_observe cfg now age h)) (fst f)" "spawns (snd f) = 0"
    using hb_fail_spec(1,2) [of cfg env now age "hb_strike now (hb_observe cfg now age h)" "fst f" "snd f"] by (simp_all add: f_def)
  have "h' = fst (hb_stale_check cfg env now age h)" "evs = snd (hb_stale_check cfg env now age h)" using assms by simp_all
  then show ?thesis
    using f by (simp add: hb_stale_check_def f_def [symmetric] Let_def checked_def hb_deferred_def hb_deferred_reconcile_def)
qed

lemma heartbeat_timeout_spends:
  assumes "enforce_managed_process_heartbeat_timeout cfg env now refreshed h = (h', evs, drained)"
  shows "spends (if drained then refreshed else h) evs h'"
  using assms
  by (auto simp: enforce_managed_process_heartbeat_timeout_def
      split: if_splits option.splits prod.splits dest: hb_stale_check_checked intro: checked_spends)

lemma stop_timeout_checked:
  assumes "enforce_managed_process_stop_timeout env now h = (h', evs)"
  shows "checked h h'" "spawns evs = 0"
  using assms
  by (auto simp: enforce_managed_process_stop_timeout_def checked_def Let_def split: if_splits option.splits)

section \<open>A pass\<close>

text \<open>What a pass over the processes keeps of the table, and the budget of a list of processes.\<close>

definition all_limited :: "string list \<Rightarrow> procs \<Rightarrow> bool" where
  "all_limited pids procs = (\<forall>p\<in>set pids. case procs p of None \<Rightarrow> True | Some h \<Rightarrow> restart_limited h)"

definition handle_budget :: "procs \<Rightarrow> string \<Rightarrow> int" where
  "handle_budget procs p = (case procs p of None \<Rightarrow> 0 | Some h \<Rightarrow> spawn_budget h)"

definition total_budget :: "string list \<Rightarrow> procs \<Rightarrow> int" where
  "total_budget pids procs = (\<Sum>p\<leftarrow>pids. handle_budget procs p)"


definition pays :: "string \<Rightarrow> procs \<Rightarrow> sv_event list \<Rightarrow> procs \<Rightarrow> bool" where
  "pays pid procs evs procs' =
     ((procs pid = None \<longrightarrow> spawns evs = 0)
      \<and> (\<forall>p. rel_option (\<lambda>h h'. spends h (if p = pid then evs else []) h') (procs p) (procs' p)))"

lemma heard_rel_spends: "rel_option heard x y \<Longrightarrow> rel_option (\<lambda>h h'. spends h [] h') x y"
  by (cases x; cases y) (auto intro: heard_spends)

lemma paysI:
  assumes "procs pid = Some h" "procs' pid = Some h'" "spends h evs h'"
    "\<And>p. p \<noteq> pid \<Longrightarrow> rel_option heard (procs p) (procs' p)"
  shows "pays pid procs evs procs'"
  using assms unfolding pays_def by (auto intro: heard_rel_spends)

lemma supervise_managed_process_pays:
  assumes "supervise_managed_process L cfg env now pid (queue, net, procs) = (r, (queue', net', procs'), evs)"
  shows "pays pid procs evs procs'"
proof (cases "procs pid")
  case None
  with assms show ?thesis
    by (auto simp: supervise_managed_process_def pays_def intro: option.rel_refl)
next
  case (Some h)
  obtain again net1 h1 e1 where
    one: "(case (if ph_popen h then pe_poll env AtSupervise else None) of
             None \<Rightarrow> (False, net, h, [])
           | Some rc \<Rightarrow> update_managed_process_exit_state L env rc net h) = (again, net1, h1, e1)"
    by (metis surj_pair)
  have one_spends: "spends h e1 h1"
    using one by (auto split: option.splits if_splits dest: exit_state_spends)
  show ?thesis
  proof (cases again)
    case True
    with assms one one_spends show ?thesis
      by (auto simp: supervise_managed_process_def Some option.rel_refl intro!: paysI)
  next
    case False
    obtain procs_r e_r queue_r where
      pub: "handle_process_pub L env queue (procs(pid \<mapsto> h1)) = (procs_r, e_r, queue_r)"
      by (metis surj_pair)
    obtain h_r where h_r: "procs_r pid = Some h_r" "heard h1 h_r"
      using handle_process_pub_heard [OF pub] by (auto elim: heard_all_Some)
    obtain h2 e2 drained where
      hb: "enforce_managed_process_heartbeat_timeout cfg env now h_r h1 = (h2, e2, drained)"
      by (metis surj_pair)
    obtain h3 e3 where stop: "enforce_managed_process_stop_timeout env now h2 = (h3, e3)"
      by (metis surj_pair)
    obtain r4 net2 h4 e4 where rst: "maybe_restart_managed_process env now net1 h3 = (r4, net2, h4, e4)"
      by (metis surj_pair)
    have "spends h1 (if drained then e_r else []) (if drained then h_r else h1)"
      using h_r handle_process_pub_heard [OF pub] by (simp add: heard_spends)
    note one_spends this heartbeat_timeout_spends [OF hb] checked_spends [OF stop_timeout_checked [OF stop]]
      maybe_restart_spends [OF rst]
    then have "spends h (e1 @ (if drained then e_r else []) @ e2 @ e3 @ e4) h4"
      by (blast intro: spends_trans)
    moreover have "rel_option heard (procs p) (procs_r p)" if "p \<noteq> pid" for p
      using handle_process_pub_heard(1) [OF pub] that unfolding heard_all_def by (metis fun_upd_apply)
    ultimately show ?thesis
      using assms False
      by (auto simp: supervise_managed_process_def Some one pub h_r hb stop rst option.rel_refl intro!: paysI)
  qed
qed

lemma pays_budget:
  assumes "pays pid procs evs procs'" "pid \<in> set pids" "all_limited pids procs"
  shows "all_limited pids procs'" "spawns evs + total_budget pids procs' \<le> total_budget pids procs"
proof -
  have step: "rel_option (\<lambda>h h'. spends h (if p = pid then evs else []) h') (procs p) (procs' p)" for p
    using assms(1) by (simp add: pays_def)
  have "case procs' p of None \<Rightarrow> True | Some h \<Rightarrow> restart_limited h" if "p \<in> set pids" for p
    using step [of p] assms(3) that unfolding all_limited_def
    by (cases "procs p"; cases "procs' p") (auto simp: spends_def restart_limited_def)
  then show "all_limited pids procs'"
    by (simp add: all_limited_def)
  have each: "(if p = pid then spawns evs else 0) + handle_budget procs' p \<le> handle_budget procs p"
    if "p \<in> set pids" for p
    using step [of p] assms(1,3) that unfolding handle_budget_def all_limited_def pays_def
    by (cases "procs p"; cases "procs' p") (auto simp: spends_def)
  from each have "(\<Sum>p\<leftarrow>pids. (if p = pid then spawns evs else 0) + handle_budget procs' p) \<le> (\<Sum>p\<leftarrow>pids. handle_budget procs p)"
    by (rule sum_list_mono)
  moreover have "spawns evs \<le> (\<Sum>p\<leftarrow>qs. if p = pid then spawns evs else 0)" if "pid \<in> set qs" for qs
  proof -
    have nonneg: "0 \<le> (\<Sum>p\<leftarrow>rs. if p = pid then spawns evs else 0)" for rs
      by (rule sum_list_nonneg) auto
    with that show ?thesis by (induction qs) (auto intro: add_increasing)
  qed
  ultimately show "spawns evs + total_budget pids procs' \<le> total_budget pids procs"
    using assms(2) unfolding total_budget_def sum_list_addf by fastforce
qed


lemma supervise_managed_processes_pays:
  assumes "supervise_managed_processes L cfg env now ps (queue, net, procs) = (r, (queue', net', procs'), evs)"
    and "set ps \<subseteq> set pids" "all_limited pids procs"
  shows "all_limited pids procs' \<and> spawns evs + total_budget pids procs' \<le> total_budget pids procs"
  using assms
proof (induction ps arbitrary: queue net procs r queue' net' procs' evs)
  case (Cons p ps)
  obtain r1 q1 n1 procs1 e1 where
    one: "supervise_managed_process L cfg (env p) now p (queue, net, procs) = (r1, (q1, n1, procs1), e1)"
    by (metis surj_pair)
  note first = pays_budget [OF supervise_managed_process_pays [OF one], of pids]
  show ?case
  proof (cases r1)
    case (Inl e)
    with Cons.prems one first show ?thesis by auto
  next
    case (Inr u)
    obtain r2 q2 n2 procs2 e2 where
      rest: "supervise_managed_processes L cfg env now ps (q1, n1, procs1) = (r2, (q2, n2, procs2), e2)"
      by (metis surj_pair)
    have "all_limited pids procs2 \<and> spawns e2 + total_budget pids procs2 \<le> total_budget pids procs1"
      using Cons.IH [OF rest] Cons.prems(2,3) first by simp
    with Cons.prems one rest first Inr show ?thesis by auto
  qed
qed simp

text \<open>
  A turn of the manager's loop as far as managed processes go: the heartbeats that arrived
  are drained, then the processes are supervised. (An exception of the pass leaves the
  manager's loop; runs that go on after one are included.)
\<close>

type_synonym managed_state = "hb_message list \<times> sup_net \<times> procs"
type_synonym managed_input = "sup_cfg \<times> (string \<Rightarrow> proc_env) \<times> proc_env \<times> rat \<times> hb_message list"

definition managed_turn :: "py_lang \<Rightarrow> string list \<Rightarrow> managed_input \<Rightarrow> managed_state \<Rightarrow> managed_state \<times> sv_event list" where
  "managed_turn L pids i s =
     (case i of (cfg, env, env0, now, arrived) \<Rightarrow>
      case s of (queue, net, procs) \<Rightarrow>
      case handle_process_pub L env0 (queue @ arrived) procs of (procs1, evs1, queue1) \<Rightarrow>
      case supervise_managed_processes L cfg env now pids (queue1, net, procs1) of (_, s2, evs2) \<Rightarrow> (s2, evs1 @ evs2))"

lemma heard_all_budget:
  assumes "heard_all procs procs'" "all_limited pids procs"
  shows "all_limited pids procs' \<and> total_budget pids procs' \<le> total_budget pids procs"
proof -
  have each: "rel_option spends_nothing (procs p) (procs' p)" if "spends_nothing = (\<lambda>h h'. spends h [] h')" for p spends_nothing
    using assms(1) heard_rel_spends unfolding heard_all_def that by blast
  have "case procs' p of None \<Rightarrow> True | Some h \<Rightarrow> restart_limited h" if "p \<in> set pids" for p
    using each [OF refl, of p] assms(2) that unfolding all_limited_def
    by (cases "procs p"; cases "procs' p") (auto simp: spends_def restart_limited_def)
  moreover have "handle_budget procs' p \<le> handle_budget procs p" if "p \<in> set pids" for p
    using each [OF refl, of p] assms(2) that unfolding handle_budget_def all_limited_def
    by (cases "procs p"; cases "procs' p") (auto simp: spends_def)
  ultimately show ?thesis
    unfolding all_limited_def total_budget_def by (simp add: sum_list_mono)
qed

lemma managed_turn_pays:
  assumes "all_limited pids (snd (snd s))"
  shows "all_limited pids (snd (snd (fst (managed_turn L pids i s))))"
    "spawns (snd (managed_turn L pids i s)) + total_budget pids (snd (snd (fst (managed_turn L pids i s))))
       \<le> total_budget pids (snd (snd s))"
proof -
  obtain cfg env env0 now arrived queue net procs where i: "i = (cfg, env, env0, now, arrived)" and s: "s = (queue, net, procs)"
    by (metis surj_pair)
  obtain procs1 e1 q1 where pub: "handle_process_pub L env0 (queue @ arrived) procs = (procs1, e1, q1)"
    by (metis surj_pair)
  obtain r q2 n2 procs2 e2 where sup: "supervise_managed_processes L cfg env now pids (q1, net, procs1) = (r, (q2, n2, procs2), e2)"
    by (metis surj_pair)
  note handle_process_pub_heard [OF pub]
  moreover have "all_limited pids procs1 \<and> total_budget pids procs1 \<le> total_budget pids procs"
    using heard_all_budget calculation(1) assms by (simp add: s)
  moreover note supervise_managed_processes_pays [OF sup subset_refl]
  ultimately show "all_limited pids (snd (snd (fst (managed_turn L pids i s))))"
    "spawns (snd (managed_turn L pids i s)) + total_budget pids (snd (snd (fst (managed_turn L pids i s))))
       \<le> total_budget pids (snd (snd s))"
    by (auto simp: managed_turn_def i s pub sup)
qed

lemma total_budget_nonneg: "0 \<le> total_budget pids procs"
  unfolding total_budget_def handle_budget_def by (rule sum_list_nonneg) (auto split: option.splits)

interpretation managed: budgeted_steps "managed_turn L pids" "\<lambda>s. all_limited pids (snd (snd s))"
    is_spawn "\<lambda>s. total_budget pids (snd (snd s))" for L pids
  by unfold_locales (auto intro: managed_turn_pays total_budget_nonneg)

end
