(* ===== verification/Process_Supervision_Checks.thy ===== *)
theory Process_Supervision_Checks
  imports Process_Supervision_Proofs
begin

text \<open>
  Lemmas on the heartbeat check and the stop check over time: silence is found out in spite of
  stalls of the manager, a heartbeat waiting on the socket is seen before a process is failed,
  kills are bounded, and a process failed by the manager stays down.
\<close>

section \<open>Silence\<close>

text \<open>A heartbeat check of a process from which nothing is waiting on the socket.\<close>

definition silent_check :: "sup_cfg \<times> proc_env \<times> rat \<Rightarrow> phandle \<Rightarrow> phandle \<times> sv_event list" where
  "silent_check i h =
     (case i of (cfg, env, now) \<Rightarrow>
      case enforce_managed_process_heartbeat_timeout cfg env now h h of (h', evs, _) \<Rightarrow> (h', evs))"

definition live :: "phandle \<Rightarrow> bool" where
  "live h = (ph_state h \<in> {STARTING, RUNNING})"

lemma heartbeat_age_cong:
  "\<lbrakk>ph_last_hb_recv h' = ph_last_hb_recv h; ph_last_start_t h' = ph_last_start_t h\<rbrakk>
    \<Longrightarrow> heartbeat_age_s h' = heartbeat_age_s h"
  by (simp add: heartbeat_age_s_def fun_eq_iff split: option.split)

lemma heartbeat_age_later: "heartbeat_age_s h t1 = Some age \<Longrightarrow> heartbeat_age_s h t2 = Some (age + (t2 - t1))"
  by (auto simp: heartbeat_age_s_def split: option.splits prod.splits)

definition overdue :: "phandle \<Rightarrow> rat \<Rightarrow> bool" where
  "overdue h now = (case heartbeat_age_s h now of None \<Rightarrow> False | Some age \<Rightarrow> ps_heartbeat_timeout_s (ph_spec h) < age)"

lemma overdue_later: "\<lbrakk>overdue h t1; t1 \<le> t2\<rbrakk> \<Longrightarrow> overdue h t2"
  by (auto simp: overdue_def split: option.splits dest: heartbeat_age_later [of h t1 _ t2])

lemma silent_check_overdue:
  assumes "live h" "heartbeat_age_s h now = Some age" "ps_heartbeat_timeout_s (ph_spec h) < age"
  shows "silent_check (cfg, env, now) h = hb_stale_check cfg env now age h"
  using assms
  by (simp add: silent_check_def live_def enforce_managed_process_heartbeat_timeout_def split: prod.split)

lemma hb_observe_deadline:
  "ph_reconcile_deadline (hb_observe cfg now age h) =
     (if ph_reconcile_deadline h = None \<and> fst (manager_loop_stall_context cfg now)
      then Some (now + hb_period_s h * max 0 (sc_reconcile_multiplier cfg)) else ph_reconcile_deadline h)"
  by (auto simp: hb_observe_def Let_def split: prod.splits)

text \<open>A stale check fails the process or keeps what the next one will look at.\<close>

definition still_silent :: "phandle \<Rightarrow> phandle \<Rightarrow> bool" where
  "still_silent h h' =
     (ph_state h' = ph_state h \<and> ph_spec h' = ph_spec h \<and> ph_last_hb_recv h' = ph_last_hb_recv h
      \<and> ph_last_start_t h' = ph_last_start_t h
      \<and> (ph_reconcile_deadline h \<noteq> None \<longrightarrow> ph_reconcile_deadline h' = ph_reconcile_deadline h))"

lemma still_silent_trans: "\<lbrakk>still_silent h h1; still_silent h1 h2\<rbrakk> \<Longrightarrow> still_silent h h2"
  by (auto simp: still_silent_def)

lemma hb_stale_check_cases:
  assumes "hb_stale_check cfg env now age h = (h', evs)"
  shows "ph_state h' = FAILED \<or> still_silent h h' \<and> ph_reconcile_deadline h' = ph_reconcile_deadline (hb_observe cfg now age h)"
  using assms hb_fail_spec(3) [of cfg env now age "hb_strike now (hb_observe cfg now age h)" h' evs]
  by (auto simp: hb_stale_check_def Let_def still_silent_def hb_observe_deadline split: if_splits)

lemma hb_stale_check_hard:
  assumes "hard_timeout_s cfg h \<le> age"
    and "\<not> in_startup_grace cfg now \<or> sc_startup_grace_hard_s cfg \<le> age"
    and "case ph_reconcile_deadline (hb_observe cfg now age h) of None \<Rightarrow> True | Some d \<Rightarrow> d \<le> now"
  shows "ph_state (fst (hb_stale_check cfg env now age h)) = FAILED"
proof -
  have "hard_timeout_s cfg (hb_strike now (hb_observe cfg now age h)) = hard_timeout_s cfg h"
    by (simp add: hard_timeout_s_def split: option.split)
  with assms hb_fail_spec(3) [OF surjective_pairing, of cfg env now age "hb_strike now (hb_observe cfg now age h)"]
  show ?thesis
    by (auto simp: hb_stale_check_def Let_def split: option.splits)
qed

lemma silent_check_failed: "ph_state h = FAILED \<Longrightarrow> silent_check i h = (h, [])"
  by (simp add: silent_check_def enforce_managed_process_heartbeat_timeout_def split: prod.split)

lemma silent_check_step:
  assumes "live h" "overdue h now"
  shows "ph_state (fst (silent_check (cfg, env, now) h)) = FAILED
    \<or> still_silent h (fst (silent_check (cfg, env, now) h))"
proof -
  obtain age where age: "heartbeat_age_s h now = Some age" "ps_heartbeat_timeout_s (ph_spec h) < age"
    using assms(2) by (auto simp: overdue_def split: option.splits)
  show ?thesis
    unfolding silent_check_overdue [OF assms(1) age]
    using hb_stale_check_cases [OF surjective_pairing, of cfg env now age h] by blast
qed

lemma still_silent_keeps:
  assumes "still_silent h h'"
  shows "live h' = live h" "overdue h' t = overdue h t" "heartbeat_age_s h' t = heartbeat_age_s h t"
    "hard_timeout_s cfg h' = hard_timeout_s cfg h"
  using assms heartbeat_age_cong [of h' h]
  by (simp_all add: still_silent_def live_def overdue_def hard_timeout_s_def split: option.split)

lemma still_silent_refl [simp]: "still_silent h h"
  by (simp add: still_silent_def)

lemma silent_run_failed: "ph_state h = FAILED \<Longrightarrow> run_steps silent_check cs h = (h, [])"
  by (induction cs) (simp_all add: silent_check_failed)

lemma silent_run:
  assumes "live h" "\<forall>(cfg, env, t)\<in>set cs. overdue h t"
  shows "ph_state (fst (run_steps silent_check cs h)) = FAILED \<or> still_silent h (fst (run_steps silent_check cs h))"
  using assms
proof (induction cs arbitrary: h)
  case (Cons c cs)
  obtain cfg env t where c: "c = (cfg, env, t)"
    by (metis surj_pair)
  obtain h1 e1 where one: "silent_check c h = (h1, e1)"
    by (metis surj_pair)
  have "ph_state h1 = FAILED \<or> still_silent h h1"
    using silent_check_step [of h t cfg env] Cons.prems one by (auto simp: c)
  then show ?case
  proof
    assume silent: "still_silent h h1"
    with Cons.IH [of h1] Cons.prems
    have "ph_state (fst (run_steps silent_check cs h1)) = FAILED \<or> still_silent h1 (fst (run_steps silent_check cs h1))"
      by (auto simp: still_silent_keeps [OF silent])
    then show ?thesis
      using silent by (auto simp: one split: prod.split intro: still_silent_trans)
  qed (simp add: one silent_run_failed)
qed simp

text \<open>A check past the hard timeout and past the reconciliation deadline of the episode.\<close>

lemma silent_check_after_deadline:
  assumes "ph_state h = FAILED \<or> live h \<and> overdue h now \<and> heartbeat_age_s h now = Some age
      \<and> hard_timeout_s cfg h \<le> age \<and> ph_reconcile_deadline h = Some d \<and> d \<le> now"
    and "\<not> in_startup_grace cfg now \<or> sc_startup_grace_hard_s cfg \<le> age"
  shows "ph_state (fst (silent_check (cfg, env, now) h)) = FAILED"
  using assms(1)
proof
  assume "live h \<and> overdue h now \<and> heartbeat_age_s h now = Some age
      \<and> hard_timeout_s cfg h \<le> age \<and> ph_reconcile_deadline h = Some d \<and> d \<le> now"
  then show ?thesis
    using hb_stale_check_hard [of cfg h age now env] assms(2)
    by (auto simp: silent_check_overdue overdue_def hb_observe_deadline)
qed (simp add: silent_check_failed)

lemma reconcile_window_nonneg: "0 \<le> hb_period_s h * max 0 (sc_reconcile_multiplier cfg)"
  by (auto simp: hb_period_s_def intro!: mult_nonneg_nonneg)

text \<open>
  A check past the hard timeout fails the process or leaves a deadline one reconciliation
  window ahead.
\<close>

lemma silent_check_sets_deadline:
  assumes "live h" "ph_reconcile_deadline h = None"
    and age: "heartbeat_age_s h now = Some age" "ps_heartbeat_timeout_s (ph_spec h) < age" "hard_timeout_s cfg h \<le> age"
    and grace: "\<not> in_startup_grace cfg now \<or> sc_startup_grace_hard_s cfg \<le> age"
    and step: "silent_check (cfg, env, now) h = (h1, evs)"
  shows "ph_state h1 = FAILED \<or> still_silent h h1
    \<and> ph_reconcile_deadline h1 = Some (now + hb_period_s h * max 0 (sc_reconcile_multiplier cfg))"
proof -
  have check: "hb_stale_check cfg env now age h = (h1, evs)"
    using silent_check_overdue [OF assms(1) age(1,2)] step by simp
  have "ph_state h1 = FAILED \<or> ph_reconcile_deadline (hb_observe cfg now age h) \<noteq> None"
    using hb_stale_check_hard [OF age(3) grace, of env] check by (auto split: option.splits)
  then show ?thesis
    using hb_stale_check_cases [OF check] assms(2) by (auto simp: hb_observe_deadline split: if_splits)
qed

lemma silent_twice:
  assumes live: "live h" and dl: "ph_reconcile_deadline h = None"
    and age1: "heartbeat_age_s h t1 = Some age1" "ps_heartbeat_timeout_s (ph_spec h) < age1" "hard_timeout_s c1 h \<le> age1"
    and grace1: "\<not> in_startup_grace c1 t1 \<or> sc_startup_grace_hard_s c1 \<le> age1"
    and age2: "heartbeat_age_s h t2 = Some age2" "hard_timeout_s c2 h \<le> age2"
    and grace2: "\<not> in_startup_grace c2 t2 \<or> sc_startup_grace_hard_s c2 \<le> age2"
    and mid: "\<forall>(c, e, t)\<in>set mid. t1 \<le> t"
    and later: "t1 + hb_period_s h * max 0 (sc_reconcile_multiplier c1) \<le> t2"
  shows "ph_state (fst (run_steps silent_check ((c1, e1, t1) # mid @ [(c2, e2, t2)]) h)) = FAILED"
proof -
  obtain h1 ev1 where one: "silent_check (c1, e1, t1) h = (h1, ev1)"
    by (metis surj_pair)
  define h2 where "h2 = fst (run_steps silent_check mid h1)"
  have over: "overdue h t1" using age1 by (simp add: overdue_def)
  have "overdue h t2"
    using overdue_later [OF over] later reconcile_window_nonneg [of h c1] by simp
  have "ph_state h2 = FAILED \<or> live h2 \<and> overdue h2 t2 \<and> heartbeat_age_s h2 t2 = Some age2 \<and> hard_timeout_s c2 h2 \<le> age2
      \<and> ph_reconcile_deadline h2 = Some (t1 + hb_period_s h * max 0 (sc_reconcile_multiplier c1))"
  proof (cases "ph_state h1 = FAILED")
    case True
    then show ?thesis by (simp add: h2_def silent_run_failed)
  next
    case False
    with silent_check_sets_deadline [OF live dl age1 grace1 one]
    have silent1: "still_silent h h1"
      and dl1: "ph_reconcile_deadline h1 = Some (t1 + hb_period_s h * max 0 (sc_reconcile_multiplier c1))" by auto
    have "live h1" "\<forall>(c, e, t)\<in>set mid. overdue h1 t"
      using live mid overdue_later [OF over] by (auto simp: still_silent_keeps [OF silent1])
    from silent_run [OF this] have "ph_state h2 = FAILED \<or> still_silent h1 h2"
      by (simp add: h2_def)
    then show ?thesis
    proof
      assume "still_silent h1 h2"
      with silent1 have "still_silent h h2" "ph_reconcile_deadline h2 = ph_reconcile_deadline h1"
        using dl1 by (auto intro: still_silent_trans simp: still_silent_def)
      then show ?thesis
        using live age2 \<open>overdue h t2\<close> dl1 by (simp add: still_silent_keeps)
    qed simp
  qed
  with silent_check_after_deadline [of h2 t2 age2 c2 "t1 + hb_period_s h * max 0 (sc_reconcile_multiplier c1)", OF _ grace2]
    later have "ph_state (fst (silent_check (c2, e2, t2) h2)) = FAILED"
    by blast
  then show ?thesis
    by (auto simp: one run_steps_append h2_def split: prod.splits)
qed


section \<open>Kills\<close>

fun is_kill :: "sv_event \<Rightarrow> bool" where
  "is_kill SentKill = True"
| "is_kill _ = False"

definition stop_check :: "proc_env \<times> rat \<Rightarrow> phandle \<Rightarrow> phandle \<times> sv_event list" where
  "stop_check i h = (case i of (env, now) \<Rightarrow> enforce_managed_process_stop_timeout env now h)"

definition kills_left :: "phandle \<Rightarrow> int" where
  "kills_left h = (if ph_state h = STOPPING then max 1 (MAX_KILL_ATTEMPTS - ph_kill_attempts h) else 0)"

lemma stop_check_kills: "paid is_kill (snd (stop_check i h)) + kills_left (fst (stop_check i h)) \<le> kills_left h"
  by (cases i) (auto simp: stop_check_def enforce_managed_process_stop_timeout_def kills_left_def Let_def
      MAX_KILL_ATTEMPTS_def split: if_splits option.splits)

interpretation stopping: budgeted_steps stop_check "\<lambda>_. True" is_kill kills_left
  by unfold_locales (simp_all add: stop_check_kills, auto simp: kills_left_def)

text \<open>A child that does not go away although its time is up.\<close>

definition lingers :: "phandle \<Rightarrow> proc_env \<times> rat \<Rightarrow> bool" where
  "lingers h i =
     (case i of (env, now) \<Rightarrow> pe_poll env AtStop = None \<and>
      (case ph_stop_requested h of None \<Rightarrow> False | Some t \<Rightarrow> ps_shutdown_timeout_s (ph_spec h) < now - t))"

lemma stop_check_lingers:
  assumes "ph_state h = STOPPING" "ph_popen h" "lingers h i"
  shows "ph_state (fst (stop_check i h)) = (if ph_kill_attempts h + 1 \<ge> MAX_KILL_ATTEMPTS then FAILED else STOPPING)"
    "ph_kill_attempts (fst (stop_check i h)) = ph_kill_attempts h + 1" "ph_popen (fst (stop_check i h))"
    "ph_stop_requested (fst (stop_check i h)) = ph_stop_requested h" "ph_spec (fst (stop_check i h)) = ph_spec h"
    "lingers (fst (stop_check i h)) j = lingers h j"
  using assms
  by (auto simp: stop_check_def lingers_def enforce_managed_process_stop_timeout_def Let_def
      split: prod.splits option.splits)

lemma stop_check_idle: "ph_state h \<noteq> STOPPING \<Longrightarrow> stop_check i h = (h, [])"
  by (simp add: stop_check_def enforce_managed_process_stop_timeout_def split: prod.split)

lemma stop_checks_idle: "ph_state h \<noteq> STOPPING \<Longrightarrow> run_steps stop_check is h = (h, [])"
  by (induction "is") (simp_all add: stop_check_idle)

lemma stop_checks_escalate:
  assumes "ph_state h = STOPPING" "ph_popen h" "\<forall>i\<in>set is. lingers h i"
    "MAX_KILL_ATTEMPTS \<le> ph_kill_attempts h + int (length is)" "is \<noteq> []"
  shows "ph_state (fst (run_steps stop_check is h)) = FAILED"
  using assms
proof (induction "is" arbitrary: h)
  case (Cons i "is")
  obtain h1 e1 where one: "stop_check i h = (h1, e1)"
    by (metis surj_pair)
  have "lingers h i" using Cons.prems by simp
  note step = stop_check_lingers [OF Cons.prems(1,2) this]
  show ?case
  proof (cases "ph_kill_attempts h + 1 \<ge> MAX_KILL_ATTEMPTS")
    case True
    then show ?thesis
      using step(1) by (simp add: one stop_checks_idle)
  next
    case False
    moreover from False have "is \<noteq> []"
      using Cons.prems(4) by auto
    ultimately have "ph_state (fst (run_steps stop_check is h1)) = FAILED"
      using Cons.prems(3,4) step Cons.IH [of h1] by (simp add: one)
    then show ?thesis
      by (auto simp: one split: prod.splits)
  qed
qed simp

section \<open>Processes that stay down\<close>

text \<open>Failed or ended with a stop on record and no restart due, or stopped.\<close>

definition stays_down :: "phandle \<Rightarrow> bool" where
  "stays_down h =
     (ph_next_restart h = None \<and> (ph_state h = STOPPED \<and> \<not> ph_popen h \<or> ph_state h \<in> {FAILED, EXITED} \<and> ph_stop_requested h \<noteq> None))"

lemma stays_down_heard: "\<lbrakk>heard h h'; stays_down h\<rbrakk> \<Longrightarrow> stays_down h'"
  by (auto simp: heard_def stays_down_def)

lemma stays_down_exit:
  assumes "update_managed_process_exit_state L env rc net h = (ok, net', h', evs)" "stays_down h"
  shows "ph_popen h \<longrightarrow> \<not> ok \<and> stays_down h' \<and> spawns evs = 0"
  using assms
  by (auto simp: update_managed_process_exit_state_def maybe_recover_process_start_collision_def Let_def stays_down_def
      split: if_splits)

lemma stays_down_checks:
  assumes "stays_down h"
  shows "enforce_managed_process_heartbeat_timeout cfg env now g h = (h, [], False)"
    "enforce_managed_process_stop_timeout env now h = (h, [])"
    "maybe_restart_managed_process env now net h = (Inr (), net, h, [])"
  using assms
  by (auto simp: stays_down_def enforce_managed_process_heartbeat_timeout_def
      enforce_managed_process_stop_timeout_def maybe_restart_managed_process_def)

lemma supervise_stays_down:
  assumes "procs p = Some h" "stays_down h"
    and "supervise_managed_process L cfg env now p (queue, net, procs) = (r, (queue', net', procs'), evs)"
  shows "spawns evs = 0 \<and> (\<exists>h'. procs' p = Some h' \<and> stays_down h')"
proof -
  obtain again net1 h1 e1 where
    one: "(case (if ph_popen h then pe_poll env AtSupervise else None) of
             None \<Rightarrow> (False, net, h, [])
           | Some rc \<Rightarrow> update_managed_process_exit_state L env rc net h) = (again, net1, h1, e1)"
    by (metis surj_pair)
  have "\<not> again \<and> stays_down h1 \<and> spawns e1 = 0"
    using one assms(2) by (auto split: option.splits if_splits dest: stays_down_exit)
  with assms(1,3) one show ?thesis
    by (auto simp: supervise_managed_process_def stays_down_checks split: prod.splits)
qed

definition down_in :: "string \<Rightarrow> managed_state \<Rightarrow> bool" where
  "down_in p s = (case snd (snd s) p of None \<Rightarrow> False | Some h \<Rightarrow> stays_down h)"

lemma managed_turn_down:
  assumes "down_in p s"
  shows "down_in p (fst (managed_turn L [p] i s)) \<and> spawns (snd (managed_turn L [p] i s)) = 0"
proof -
  obtain cfg env env0 now arrived queue net procs where i: "i = (cfg, env, env0, now, arrived)" and s: "s = (queue, net, procs)"
    by (metis surj_pair)
  obtain procs1 e1 q1 where pub: "handle_process_pub L env0 (queue @ arrived) procs = (procs1, e1, q1)"
    by (metis surj_pair)
  obtain r q2 n2 procs2 e2 where sup: "supervise_managed_process L cfg (env p) now p (q1, net, procs1) = (r, (q2, n2, procs2), e2)"
    by (metis surj_pair)
  obtain h where h: "procs p = Some h" "stays_down h"
    using assms by (auto simp: down_in_def s split: option.splits)
  obtain h1 where "procs1 p = Some h1" "stays_down h1"
    using h handle_process_pub_heard(1) [OF pub] by (auto elim: heard_all_Some dest: stays_down_heard)
  note supervise_stays_down [OF this sup]
  then show ?thesis
    using handle_process_pub_heard(2) [OF pub]
    by (auto simp: managed_turn_def i s pub sup down_in_def split: sum.splits)
qed

interpretation down: budgeted_steps "managed_turn L [p]" "down_in p" is_spawn "\<lambda>_. 0" for L p
  by unfold_locales (simp_all add: managed_turn_down)


section \<open>Live children and heartbeats on the socket\<close>

lemma alive_child_no_restart:
  assumes "maybe_restart_managed_process env now net h = (r, net', h', evs)" "ph_popen h" "pe_poll env AtRestart = None"
  shows "spawns evs = 0 \<and> ph_popen h' \<and> ph_state h' = ph_state h \<and> r = Inr ()"
  using assms
  by (auto simp: maybe_restart_managed_process_def split: if_splits prod.splits dest: maybe_schedule_restart_keeps)

text \<open>The heartbeats of process \<open>p\<close> that ingestion accepts.\<close>

definition valid_heartbeat :: "py_lang \<Rightarrow> string \<Rightarrow> hb_message \<Rightarrow> bool" where
  "valid_heartbeat L p m =
     (let topic = py_strip (fst m) in
      starts_with ''process/'' topic \<and> ends_with ''/heartbeat'' topic \<and> CHR ''/'' \<in> set topic
      \<and> split_slash topic ! 1 = p
      \<and> (case snd m of
           Inl _ \<Rightarrow> False
         | Inr payload \<Rightarrow>
             (case as_dict payload of
                None \<Rightarrow> False
              | Some msg \<Rightarrow>
                  map_option (py_str L) (map_of msg ''process_id'') = Some p
                  \<and> \<not> isl (int_item L msg ''pid'')
                  \<and> (case as_dict (jget msg ''ts'') of
                       None \<Rightarrow> False
                     | Some ts \<Rightarrow> \<not> isl (float_item L ts ''t_wall'') \<and> \<not> isl (float_item L ts ''t_mono'')))))"

lemma ingest_into_recv:
  assumes "ingest_into L env msg pid ts h = (r, h', evs)"
  shows "ph_last_hb_recv h' \<in> {ph_last_hb_recv h, Some (pe_mono env)}"
    "\<not> isl (float_item L ts ''t_wall'') \<Longrightarrow> \<not> isl (float_item L ts ''t_mono'') \<Longrightarrow> ph_last_hb_recv h' = Some (pe_mono env) \<and> r = Inr ()"
  using assms by (auto simp: ingest_into_def Let_def split: sum.splits if_splits)

lemma not_isl: "\<not> isl x \<longleftrightarrow> (\<exists>y. x = Inr y)"
  by (cases x) auto

lemma valid_heartbeat_received:
  assumes "valid_heartbeat L p m" "procs p = Some h" "process_pub_message L env m procs = (procs', evs)"
  shows "\<exists>h'. procs' p = Some h' \<and> ph_last_hb_recv h' = Some (pe_mono env)"
proof -
  obtain topic payload msg v pid ts where
    topic: "topic = py_strip (fst m)" "starts_with ''process/'' topic" "ends_with ''/heartbeat'' topic"
      "CHR ''/'' \<in> set topic" "split_slash topic ! 1 = p"
    and msg: "snd m = Inr payload" "as_dict payload = Some msg" "dict_item msg ''process_id'' = Inr v" "py_str L v = p"
      "int_item L msg ''pid'' = Inr pid" "as_dict (jget msg ''ts'') = Some ts"
      "\<not> isl (float_item L ts ''t_wall'')" "\<not> isl (float_item L ts ''t_mono'')"
    using assms(1) by (auto simp: valid_heartbeat_def Let_def not_isl dict_item_def simp del: starts_with.simps
        split: sum.split_asm option.split_asm)
  obtain r h' e where into: "ingest_into L env msg pid ts h = (r, h', e)"
    by (metis surj_pair)
  have "ingest_process_heartbeat L env topic msg procs = (r, procs(p \<mapsto> h'), e)"
    by (simp add: ingest_process_heartbeat_def topic(2-5) msg assms(2) into Let_def del: One_nat_def)
  then have "procs' = procs(p \<mapsto> h')"
    using assms(3) ingest_into_recv(2) [OF into msg(7,8)]
    by (simp add: process_pub_message_def topic(1) [symmetric] topic(2,3) msg(1,2) del: starts_with.simps)
  with ingest_into_recv(2) [OF into msg(7,8)] show ?thesis by simp
qed

lemma message_recv:
  assumes "process_pub_message L env m procs = (procs', evs)" "procs p = Some h" "ph_last_hb_recv h = Some (pe_mono env)"
  shows "\<exists>h'. procs' p = Some h' \<and> ph_last_hb_recv h' = Some (pe_mono env)"
proof -
  have "procs' = procs \<or> (\<exists>topic msg r e. ingest_process_heartbeat L env topic msg procs = (r, procs', e))"
    using assms(1) by (auto simp: process_pub_message_def Let_def split: sum.splits option.splits if_splits prod.splits)
  then show ?thesis
  proof (elim disjE exE)
    fix topic msg r e
    assume "ingest_process_heartbeat L env topic msg procs = (r, procs', e)"
    from ingest_process_heartbeat_cases [OF this] show ?thesis
      using assms(2,3) by (fastforce dest: ingest_into_recv(1))
  qed (simp add: assms)
qed

lemma drain_recv:
  assumes "drain_messages L env ms procs = (procs', evs)" "procs p = Some h"
    and "ph_last_hb_recv h = Some (pe_mono env) \<or> (\<exists>m\<in>set ms. valid_heartbeat L p m)"
  shows "\<exists>h'. procs' p = Some h' \<and> ph_last_hb_recv h' = Some (pe_mono env)"
  using assms
proof (induction ms arbitrary: procs h evs)
  case (Cons m ms)
  obtain procs1 e1 where one: "process_pub_message L env m procs = (procs1, e1)"
    by (metis surj_pair)
  obtain e2 where rest: "drain_messages L env ms procs1 = (procs', e2)"
    using Cons.prems(1) by (auto simp: one split: prod.splits)
  obtain h1 where h1: "procs1 p = Some h1"
    using process_pub_message_heard [OF one] Cons.prems(2) by (auto elim: heard_all_Some)
  have "ph_last_hb_recv h1 = Some (pe_mono env) \<or> (\<exists>m\<in>set ms. valid_heartbeat L p m)"
    using Cons.prems(2,3) h1 message_recv [OF one] valid_heartbeat_received [OF _ _ one] by fastforce
  from Cons.IH [OF rest h1 this] show ?case .
qed auto


lemma live_heard: "heard h h' \<Longrightarrow> live h \<Longrightarrow> live h'"
  by (auto simp: heard_def live_def)

lemma fresh_heartbeat_check:
  assumes "live h" "heard h g" "heartbeat_age_s g now = Some age" "age \<le> ps_heartbeat_timeout_s (ph_spec h)"
    and "enforce_managed_process_heartbeat_timeout cfg env now g h = (h', evs, drained)"
  shows "live h' \<and> ph_next_restart h' = ph_next_restart h"
proof -
  have l: "ph_state h \<in> {STARTING, RUNNING}" "ph_state g \<in> {STARTING, RUNNING}"
    using assms(1) live_heard [OF assms(2,1)] by (simp_all add: live_def)
  have "h' = h \<or> (\<exists>age. h' = hb_healthy age h) \<or> h' = hb_healthy age g"
    using assms(3-5) l(1) by (auto simp: enforce_managed_process_heartbeat_timeout_def split: option.splits if_splits)
  with l assms(2) show ?thesis by (auto simp: live_def hb_healthy_def heard_def)
qed

lemma supervise_heartbeat_waiting:
  assumes h: "procs p = Some h" "live h" "ph_next_restart h = None"
    and alive: "ph_popen h \<Longrightarrow> pe_poll env AtSupervise = None"
    and m: "m \<in> set (take MAX_DRAIN_PER_TICK queue)" "valid_heartbeat L p m"
    and fresh: "now - pe_mono env \<le> ps_heartbeat_timeout_s (ph_spec h)"
    and pass: "supervise_managed_process L cfg env now p (queue, net, procs) = (r, (queue', net', procs'), evs)"
  shows "\<exists>h'. procs' p = Some h' \<and> live h'"
proof -
  obtain procs_r e_r queue_r where
    pub: "handle_process_pub L env queue procs = (procs_r, e_r, queue_r)"
    by (metis surj_pair)
  have "drain_messages L env (take MAX_DRAIN_PER_TICK queue) procs = (procs_r, e_r)"
    using pub by (simp add: handle_process_pub_def split: prod.splits)
  from drain_recv [OF this h(1)] obtain h_r where h_r: "procs_r p = Some h_r" "ph_last_hb_recv h_r = Some (pe_mono env)"
    using m by blast
  have "heard h h_r"
    using handle_process_pub_heard(1) [OF pub] h(1) h_r(1) by (auto elim: heard_all_Some)
  moreover have "heartbeat_age_s h_r now = Some (now - pe_mono env)"
    by (simp add: heartbeat_age_s_def h_r)
  moreover obtain h2 e2 drained where
    hb: "enforce_managed_process_heartbeat_timeout cfg env now h_r h = (h2, e2, drained)"
    by (metis surj_pair)
  ultimately have "live h2" "ph_next_restart h2 = None"
    using fresh_heartbeat_check [OF h(2) _ _ fresh hb] h(3) by auto
  then have "enforce_managed_process_stop_timeout env now h2 = (h2, [])"
    "maybe_restart_managed_process env now net h2 = (Inr (), net, h2, [])"
    by (auto simp: enforce_managed_process_stop_timeout_def maybe_restart_managed_process_def live_def)
  moreover have "procs(p \<mapsto> h) = procs" using h(1) by auto
  ultimately have "procs' p = Some h2"
    using pass alive by (auto simp: supervise_managed_process_def h(1) pub h_r hb split: if_splits)
  with \<open>live h2\<close> show ?thesis by simp
qed

lemma supervise_alive_child:
  assumes h: "procs p = Some h" "ph_popen h" and alive: "\<forall>site. pe_poll env site = None"
    and pass: "supervise_managed_process L cfg env now p (queue, net, procs) = (r, (queue', net', procs'), evs)"
  shows "spawns evs = 0 \<and> (\<exists>h'. procs' p = Some h' \<and> ph_popen h')"
proof -
  obtain procs_r e_r queue_r where
    pub: "handle_process_pub L env queue procs = (procs_r, e_r, queue_r)"
    by (metis surj_pair)
  obtain h_r where h_r: "procs_r p = Some h_r" "heard h h_r"
    using handle_process_pub_heard(1) [OF pub] h(1) by (auto elim: heard_all_Some)
  obtain h2 e2 drained where
    hb: "enforce_managed_process_heartbeat_timeout cfg env now h_r h = (h2, e2, drained)"
    by (metis surj_pair)
  obtain h3 e3 where stop: "enforce_managed_process_stop_timeout env now h2 = (h3, e3)"
    by (metis surj_pair)
  obtain r4 net2 h4 e4 where rst: "maybe_restart_managed_process env now net h3 = (r4, net2, h4, e4)"
    by (metis surj_pair)
  have "ph_popen h_r" using h_r(2) h(2) by (simp add: heard_def)
  have two: "ph_popen h2 \<and> spawns e2 = 0"
    using hb h(2) \<open>ph_popen h_r\<close>
    by (auto simp: enforce_managed_process_heartbeat_timeout_def hb_healthy_def
        split: if_splits option.splits prod.splits dest!: hb_stale_check_checked) (auto simp: checked_def)
  then have three: "ph_popen h3 \<and> spawns e3 = 0"
    using stop_timeout_checked [OF stop] by (simp add: checked_def)
  then have "ph_popen h4 \<and> spawns e4 = 0"
    using alive_child_no_restart [OF rst] alive by simp
  moreover have "procs(p \<mapsto> h) = procs" using h(1) by auto
  ultimately show ?thesis
    using pass alive two three handle_process_pub_heard(2) [OF pub]
    by (auto simp: supervise_managed_process_def h pub h_r hb stop rst)
qed

text \<open>A restart that is due and whose spawn fails ends the pass with its exception.\<close>

lemma due_restart_spawn_error:
  assumes "ph_state h = FAILED" "ph_next_restart h = Some t" "t \<le> now" "\<not> ph_popen h"
    and "ps_max_restarts (ph_spec h) = None" "ph_heartbeat_endpoint h \<noteq> []" "ph_process_data_endpoint h \<noteq> []"
    and "pe_spawn env = Inl msg"
  shows "\<exists>net' h' evs. maybe_restart_managed_process env now net h = (Inl (OtherError msg), net', h', evs) \<and> spawns evs = 0"
  using assms
  by (auto simp: maybe_restart_managed_process_def maybe_schedule_restart_def try_restart_process_def
      start_process_handle_def spawn_process_def Let_def)

end
