(* ===== verification/Process_Supervision_Props.thy ===== *)
theory Process_Supervision_Props
  imports Process_Supervision_Checks
begin

text \<open>The properties of process supervision, each with a run in which its hypotheses hold.\<close>

section \<open>A process for the witnesses\<close>

definition camera_spec :: process_spec where
  "camera_spec = \<lparr>ps_process_id = ''camera'', ps_heartbeat_period_s = 1, ps_heartbeat_timeout_s = 3,
     ps_shutdown_timeout_s = 3, ps_restart_policy = ALWAYS, ps_restart_backoff_s = 1 / 2, ps_max_restarts = Some 3,
     ps_heartbeat_endpoint = None, ps_process_data_endpoint = None, ps_heartbeat_hard_timeout_s = None\<rparr>"

definition camera_handle :: phandle where
  "camera_handle = (process_handle camera_spec ''tcp://127.0.0.1:6001'' ''tcp://127.0.0.1:6101'')
     \<lparr>ph_popen := True, ph_state := RUNNING, ph_pid := Some 42, ph_popen_pid := Some 42, ph_last_start_t := Some (0, 0),
      ph_last_hb_recv := Some 10\<rparr>"

definition camera_env :: "rat \<Rightarrow> proc_env" where
  "camera_env t = \<lparr>pe_poll = (\<lambda>_. None), pe_terminate = None, pe_kill = None, pe_spawn = Inr 43,
     pe_stop_rpc = Inr PNone, pe_wall = t, pe_mono = t, pe_signal = (\<lambda>_. None), pe_fmt2 = (\<lambda>_. ''0.00''),
     pe_log_history = [], pe_orphans = []\<rparr>"

definition camera_cfg :: sup_cfg where
  "camera_cfg = \<lparr>sc_stall_warn_s = 1, sc_current_pump_start = None, sc_current_pump_gap = Some 2, sc_last_loop_stall = None,
     sc_last_loop_stall_duration = None, sc_stall_recent_s = 10, sc_startup_active = False, sc_startup_complete = None,
     sc_startup_grace_s = 10, sc_startup_grace_hard_s = 30, sc_hard_multiplier = 3, sc_strikes_to_fail = 2,
     sc_reconcile_multiplier = 5 / 4\<rparr>"

definition camera_net :: sup_net where
  "camera_net = \<lparr>sn_hb_base = ''tcp://127.0.0.1:6000'', sn_hb_offset = 2, sn_data_base = ''tcp://127.0.0.1:6100'',
     sn_data_offset = 2, sn_hb_connected = [], sn_data_connected = []\<rparr>"

definition camera_beat :: hb_message where
  "camera_beat = (''process/camera/heartbeat'', Inr (PDict [(''process_id'', PStr ''camera''), (''pid'', PInt 42),
     (''ts'', PDict [(''t_wall'', PFloat (Fin 20)), (''t_mono'', PFloat (Fin 20))])]))"

lemmas camera_defs = camera_spec_def camera_handle_def camera_env_def camera_cfg_def camera_net_def
  camera_beat_def process_handle_def

section \<open>Properties\<close>

text \<open>
  C8. Over any sequence of manager turns (whatever the child does, whatever the operating
  system answers, whatever arrives on the heartbeat socket) supervision spawns children for a
  process with a restart limit at most twice per restart it has left, the restart itself and one
  retry after an endpoint collision, plus the retry of a start in progress: a crash loop ends.
\<close>
theorem supervision_spawns_bounded:
  fixes L :: py_lang
  assumes "procs p = Some h" "ps_max_restarts (ph_spec h) = Some n"
  shows "spawns (snd (run_steps (managed_turn L [p]) turns (queue, net, procs)))
    \<le> 2 * max 0 (n - ph_restart_count h)
       + (if ph_state h = STARTING \<and> \<not> ph_collision_retry_done h then 1 else 0)"
proof -
  have "all_limited [p] procs"
    using assms by (simp add: all_limited_def restart_limited_def)
  then show ?thesis
    using managed.run_bounded [of "[p]" "(queue, net, procs)" L turns] assms
    by (simp add: total_budget_def handle_budget_def spawn_budget_def)
qed

theorem supervision_spawns_bounded_witness:
  "spawns (snd (run_steps (managed_turn plain_lang [''camera''])
     [(camera_cfg, \<lambda>_. camera_env 20, camera_env 20, 20, [camera_beat]), (camera_cfg, \<lambda>_. camera_env 30, camera_env 30, 30, [])]
     ([], camera_net, [''camera'' \<mapsto> camera_handle]))) \<le> 6"
  using supervision_spawns_bounded [of "[''camera'' \<mapsto> camera_handle]" "''camera''" camera_handle 3 plain_lang
    "[(camera_cfg, \<lambda>_. camera_env 20, camera_env 20, 20, [camera_beat]), (camera_cfg, \<lambda>_. camera_env 30, camera_env 30, 30, [])]"
    "[]" camera_net]
  by (simp add: camera_defs)

text \<open>
  A process whose child answers every poll of a pass as still running is not spawned a
  second time in that pass, even when a restart is due, and its child is not given up.
\<close>
theorem running_child_not_respawned:
  assumes "procs p = Some h" "ph_popen h" "\<forall>site. pe_poll env site = None"
    and "supervise_managed_process L cfg env now p (queue, net, procs) = (r, (queue', net', procs'), evs)"
  shows "spawns evs = 0 \<and> (\<exists>h'. procs' p = Some h' \<and> ph_popen h')"
  by (rule supervise_alive_child [OF assms])

theorem running_child_not_respawned_witness:
  "\<exists>r s evs. supervise_managed_process plain_lang camera_cfg (camera_env 20) 20 ''camera''
       ([], camera_net, [''camera'' \<mapsto> camera_handle\<lparr>ph_state := STOPPING, ph_next_restart := Some 15\<rparr>]) = (r, s, evs)
     \<and> spawns evs = 0"
proof -
  obtain r q n procs evs where
    step: "supervise_managed_process plain_lang camera_cfg (camera_env 20) 20 ''camera''
       ([], camera_net, [''camera'' \<mapsto> camera_handle\<lparr>ph_state := STOPPING, ph_next_restart := Some 15\<rparr>]) = (r, (q, n, procs), evs)"
    by (metis surj_pair)
  from running_child_not_respawned [OF _ _ _ step] show ?thesis
    using step by (simp add: camera_defs)
qed

text \<open>
  C9. A silent process is found out however often the manager stalls: once a check sees the
  heartbeat past the hard timeout (outside the startup grace), a check one reconciliation
  window later leaves the process FAILED. Stalls reported at the checks in between do not move
  the deadline.
\<close>
theorem silent_process_fails:
  assumes "ph_state h \<in> {STARTING, RUNNING}" "ph_reconcile_deadline h = None"
    and "heartbeat_age_s h t1 = Some age1" "ps_heartbeat_timeout_s (ph_spec h) < age1" "hard_timeout_s c1 h \<le> age1"
    and "\<not> in_startup_grace c1 t1 \<or> sc_startup_grace_hard_s c1 \<le> age1"
    and "heartbeat_age_s h t2 = Some age2" "hard_timeout_s c2 h \<le> age2"
    and "\<not> in_startup_grace c2 t2 \<or> sc_startup_grace_hard_s c2 \<le> age2"
    and "\<forall>(c, e, t)\<in>set mid. t1 \<le> t"
    and "t1 + hb_period_s h * max 0 (sc_reconcile_multiplier c1) \<le> t2"
  shows "ph_state (fst (run_steps silent_check ((c1, e1, t1) # mid @ [(c2, e2, t2)]) h)) = FAILED"
  using silent_twice [OF _ assms(2-11)] assms(1) by (simp add: live_def)

theorem silent_process_fails_witness:
  "ph_state (fst (run_steps silent_check
     [(camera_cfg, camera_env 20, 20), (camera_cfg, camera_env 21, 21), (camera_cfg, camera_env 22, 22)] camera_handle)) = FAILED"
  using silent_process_fails [of camera_handle 20 10 camera_cfg 22 12 camera_cfg "[(camera_cfg, camera_env 21, 21)]" "camera_env 20" "camera_env 22"]
  by (simp add: camera_defs heartbeat_age_s_def hard_timeout_s_def in_startup_grace_def hb_period_s_def)

text \<open>
  A heartbeat of the process waiting among the messages the manager takes in at once keeps
  it alive: a live process with no restart due whose child has not exited is still STARTING
  or RUNNING after the pass, however old the heartbeat the manager had seen before.
\<close>
theorem waiting_heartbeat_keeps_process:
  assumes "procs p = Some h" "ph_state h \<in> {STARTING, RUNNING}" "ph_next_restart h = None"
    and "ph_popen h \<Longrightarrow> pe_poll env AtSupervise = None"
    and "m \<in> set (take MAX_DRAIN_PER_TICK queue)" "valid_heartbeat L p m"
    and "now - pe_mono env \<le> ps_heartbeat_timeout_s (ph_spec h)"
    and "supervise_managed_process L cfg env now p (queue, net, procs) = (r, (queue', net', procs'), evs)"
  shows "\<exists>h'. procs' p = Some h' \<and> ph_state h' \<in> {STARTING, RUNNING}"
  using supervise_heartbeat_waiting [OF assms(1) _ assms(3-8)] assms(2) by (simp add: live_def)

lemma camera_beat_valid: "valid_heartbeat plain_lang ''camera'' camera_beat"
  unfolding camera_beat_def by code_simp

theorem waiting_heartbeat_keeps_process_witness:
  "\<exists>r q n procs' evs h'. supervise_managed_process plain_lang camera_cfg (camera_env 100) 100 ''camera''
       ([camera_beat], camera_net, [''camera'' \<mapsto> camera_handle]) = (r, (q, n, procs'), evs)
     \<and> procs' ''camera'' = Some h' \<and> ph_state h' \<in> {STARTING, RUNNING}"
proof -
  obtain r q n procs' evs where
    step: "supervise_managed_process plain_lang camera_cfg (camera_env 100) 100 ''camera''
       ([camera_beat], camera_net, [''camera'' \<mapsto> camera_handle]) = (r, (q, n, procs'), evs)"
    by (metis surj_pair)
  from waiting_heartbeat_keeps_process [OF _ _ _ _ _ camera_beat_valid _ step] show ?thesis
    using step by (fastforce simp: camera_handle_def camera_spec_def process_handle_def camera_env_def MAX_DRAIN_PER_TICK_def)
qed

text \<open>
  C22. Stopping ends: the stop check kills a child at most as often as the attempts it has left
  (five for a fresh one) over any sequence of checks, and when the child is still there at
  that many checks after the shutdown timeout the process is FAILED, not STOPPING for ever.
\<close>
theorem stop_escalates:
  assumes "ph_state h = STOPPING" "ph_kill_attempts h < MAX_KILL_ATTEMPTS"
  shows "paid is_kill (snd (run_steps stop_check checks h)) \<le> MAX_KILL_ATTEMPTS - ph_kill_attempts h
    \<and> (ph_popen h \<longrightarrow> (\<forall>i\<in>set checks. lingers h i) \<longrightarrow> MAX_KILL_ATTEMPTS - ph_kill_attempts h \<le> int (length checks)
         \<longrightarrow> ph_state (fst (run_steps stop_check checks h)) = FAILED)"
proof
  show "paid is_kill (snd (run_steps stop_check checks h)) \<le> MAX_KILL_ATTEMPTS - ph_kill_attempts h"
    using stopping.run_bounded [of checks h] assms by (simp add: kills_left_def)
  have "ph_state (fst (run_steps stop_check checks h)) = FAILED"
    if "ph_popen h" "\<forall>i\<in>set checks. lingers h i" "MAX_KILL_ATTEMPTS - ph_kill_attempts h \<le> int (length checks)"
  proof -
    have "checks \<noteq> []" using that(3) assms(2) by auto
    with stop_checks_escalate [OF assms(1) that(1,2)] that(3) show ?thesis by linarith
  qed
  then show "ph_popen h \<longrightarrow> (\<forall>i\<in>set checks. lingers h i) \<longrightarrow> MAX_KILL_ATTEMPTS - ph_kill_attempts h \<le> int (length checks)
      \<longrightarrow> ph_state (fst (run_steps stop_check checks h)) = FAILED" by blast
qed

theorem stop_escalates_witness:
  "ph_state (fst (run_steps stop_check (map (\<lambda>t. (camera_env t, t)) [14, 15, 16, 17, 18])
     (camera_handle\<lparr>ph_state := STOPPING, ph_stop_requested := Some 10\<rparr>))) = FAILED"
  using stop_escalates [of "camera_handle\<lparr>ph_state := STOPPING, ph_stop_requested := Some 10\<rparr>"
      "map (\<lambda>t. (camera_env t, t)) [14, 15, 16, 17, 18]"]
  by (simp add: camera_defs MAX_KILL_ATTEMPTS_def lingers_def)

text \<open>
  C38. A process the manager has failed and signalled (for a stale heartbeat, or after the last
  kill) has its stop on record, and with no restart due supervision never starts it again,
  whatever its restart policy and whatever happens afterwards.
\<close>
theorem failed_by_manager_stays_down:
  fixes L :: py_lang
  assumes "procs p = Some h" "ph_state h = FAILED" "ph_stop_requested h \<noteq> None" "ph_next_restart h = None"
  shows "spawns (snd (run_steps (managed_turn L [p]) turns (queue, net, procs))) = 0"
proof -
  have "down_in p (queue, net, procs)"
    using assms by (simp add: down_in_def stays_down_def)
  from down.run_bounded [OF this, of L turns] show ?thesis
    using paid_nonneg [of is_spawn "snd (run_steps (managed_turn L [p]) turns (queue, net, procs))"] by linarith
qed

lemma camera_failed:
  "hb_fail camera_cfg (camera_env 22) 22 12 camera_handle = (h, evs) \<Longrightarrow>
     ph_state h = FAILED \<and> ph_stop_requested h = Some 22 \<and> ph_next_restart h = None"
  by (auto simp: hb_fail_def camera_defs Let_def)

theorem failed_by_manager_stays_down_witness:
  "\<exists>h evs. hb_fail camera_cfg (camera_env 22) 22 12 camera_handle = (h, evs)
     \<and> ps_restart_policy (ph_spec camera_handle) = ALWAYS
     \<and> spawns (snd (run_steps (managed_turn plain_lang [''camera''])
         [(camera_cfg, \<lambda>_. (camera_env 30)\<lparr>pe_poll := (\<lambda>_. Some (-15))\<rparr>, camera_env 30, 30, []),
          (camera_cfg, \<lambda>_. camera_env 90, camera_env 90, 90, [])]
         ([], camera_net, [''camera'' \<mapsto> h]))) = 0"
proof -
  obtain h evs where fail: "hb_fail camera_cfg (camera_env 22) 22 12 camera_handle = (h, evs)"
    by (metis surj_pair)
  have policy: "ps_restart_policy (ph_spec camera_handle) = ALWAYS"
    by (simp add: camera_defs)
  show ?thesis
    by (intro exI conjI, rule fail, rule policy, rule failed_by_manager_stays_down [where h = h])
      (simp_all add: camera_failed [OF fail])
qed

text \<open>
  C39. When the spawn of a restart that is due fails, the exception ends the whole pass: the
  processes after it are not supervised in that pass, and the exception is what the pass
  returns to the manager's loop.
\<close>
theorem spawn_error_ends_pass:
  assumes "procs p = Some h" "ph_state h = FAILED" "\<not> ph_popen h" "ph_next_restart h = Some t" "t \<le> now"
    and "ps_max_restarts (ph_spec h) = None" "ph_heartbeat_endpoint h \<noteq> []" "ph_process_data_endpoint h \<noteq> []"
    and "pe_spawn (env p) = Inl msg"
  shows "\<exists>net' h' evs. supervise_managed_processes L cfg env now (p # later) (queue, net, procs)
    = (Inl (OtherError msg), (queue, net', procs(p \<mapsto> h')), evs) \<and> spawns evs = 0"
proof -
  obtain net' h' evs where
    rst: "maybe_restart_managed_process (env p) now net h = (Inl (OtherError msg), net', h', evs)" "spawns evs = 0"
    using due_restart_spawn_error [OF assms(2,4,5,3,6-9)] by blast
  have "enforce_managed_process_heartbeat_timeout cfg (env p) now g h = (h, [], False)"
    "enforce_managed_process_stop_timeout (env p) now h = (h, [])" for g
    using assms(2) by (simp_all add: enforce_managed_process_heartbeat_timeout_def enforce_managed_process_stop_timeout_def)
  with rst assms(1,3) show ?thesis
    by (auto simp: supervise_managed_process_def split: prod.split)
qed

theorem spawn_error_ends_pass_witness:
  "\<exists>net' h' evs. supervise_managed_processes plain_lang camera_cfg (\<lambda>_. (camera_env 20)\<lparr>pe_spawn := Inl ''no such file''\<rparr>) 20
      [''camera'', ''laser''] ([], camera_net,
        [''camera'' \<mapsto> camera_handle\<lparr>ph_spec := camera_spec\<lparr>ps_max_restarts := None\<rparr>, ph_state := FAILED, ph_popen := False,
           ph_next_restart := Some 15\<rparr>])
    = (Inl (OtherError ''no such file''), ([], net',
        [''camera'' \<mapsto> camera_handle\<lparr>ph_spec := camera_spec\<lparr>ps_max_restarts := None\<rparr>, ph_state := FAILED, ph_popen := False,
           ph_next_restart := Some 15\<rparr>](''camera'' \<mapsto> h')), evs) \<and> spawns evs = 0"
  by (rule spawn_error_ends_pass [where h = "camera_handle\<lparr>ph_spec := camera_spec\<lparr>ps_max_restarts := None\<rparr>, ph_state := FAILED,
      ph_popen := False, ph_next_restart := Some 15\<rparr>" and t = 15]) (simp_all add: camera_defs)

end
