(* ===== verification/Driver_Supervision.thy ===== *)
theory Driver_Supervision
  imports Process_Supervision
begin

text \<open>
  Supervision of device drivers: \<open>_manager/driver_heartbeat_policy.py\<close>, the driver half of
  \<open>_manager/process_supervision.py\<close>, driver registration (\<open>manager.py\<close>) and the storing of a
  driver heartbeat (\<open>_manager/driver_pub.py\<close>). Supervision, with the restarts it makes, heartbeats and
  registrations run on the manager's thread, one after the other. An operator's start or stop
  runs on a lifecycle worker: it holds the lifecycle lock of the device, which supervision
  respects and registrations and heartbeats do not take. Starting, stopping and registering
  are therefore given in phases, cut where the other thread can come in between;
  \<open>start_driver\<close>, \<open>stop_driver\<close> and \<open>handle_registry\<close> compose them, and \<open>Driver_Race\<close>
  interleaves them. Automatic reconnection of the device behind the driver is not part of the
  pass modelled here.
\<close>

section \<open>Handles\<close>

record device_spec =
  ds_device_id :: string
  ds_hard_timeout_s :: "rat option"
  ds_restart_on_heartbeat_timeout :: bool
  ds_stop_timeout_s :: rat
  ds_kill_timeout_s :: rat
  ds_restart_backoff_s :: rat
  ds_max_restarts :: "int option"
  ds_restart_healthy_reset_s :: rat

text \<open>Of a heartbeat: the process id, whether the device answers, and the operation in hand.\<close>

record heartbeat =
  hb_pid :: int
  hb_device_reachable :: bool
  hb_current_operation :: "string option"
  hb_operation_started :: "rat option"

record dhandle =
  dh_spec :: device_spec
  dh_process :: bool
  dh_rpc_endpoint :: "string option"
  dh_pub_endpoint :: "string option"
  dh_capabilities :: pyval
  dh_last_hb_recv :: "rat option"
  dh_last_hb :: "heartbeat option"
  dh_state :: proc_state
  dh_pid :: "int option"
  dh_popen_pid :: "int option"
  dh_heartbeat_pid :: "int option"
  dh_last_exit_code :: "int option"
  dh_restart_count :: int
  dh_last_restart :: "rat option"
  dh_healthy_since :: "rat option"
  dh_restart_is_automatic :: bool
  dh_generation :: int
  dh_registered_generation :: "int option"
  dh_reconnect_after_restart :: bool
  dh_reconnect_generation :: "int option"
  dh_last_error :: "string option"
  dh_last_error_kind :: "string option"
  dh_last_signal_name :: "string option"
  dh_last_failure_pid :: "int option"
  dh_stop_requested :: "rat option"
  dh_next_restart :: "rat option"
  dh_stale_since :: "rat option"
  dh_stale_max_age :: "rat option"
  dh_stale_generation :: "(int option \<times> rat option) option"
  dh_running_since :: "rat option"
  dh_config_published :: bool

text \<open>A handle as the manager makes it, every field at its default.\<close>

definition device_handle :: "device_spec \<Rightarrow> dhandle" where
  "device_handle spec =
     \<lparr>dh_spec = spec, dh_process = False, dh_rpc_endpoint = None, dh_pub_endpoint = None, dh_capabilities = PNone,
      dh_last_hb_recv = None, dh_last_hb = None, dh_state = STOPPED, dh_pid = None, dh_popen_pid = None,
      dh_heartbeat_pid = None, dh_last_exit_code = None, dh_restart_count = 0, dh_last_restart = None,
      dh_healthy_since = None, dh_restart_is_automatic = False, dh_generation = 0, dh_registered_generation = None,
      dh_reconnect_after_restart = False, dh_reconnect_generation = None, dh_last_error = None,
      dh_last_error_kind = None, dh_last_signal_name = None, dh_last_failure_pid = None, dh_stop_requested = None,
      dh_next_restart = None, dh_stale_since = None, dh_stale_max_age = None, dh_stale_generation = None,
      dh_running_since = None, dh_config_published = False\<rparr>"

datatype dv_event =
    DriverEvent string dhandle
  | DvManagerEvent string items
  | DvLog string string
  | DvTerminate
  | DvKill
  | DvSpawned int
  | DvClosedRpc
  | DvSubscribed string
  | DvConfigPublished

datatype dv_poll = DvSupervise | DvHeartbeat | DvStop | DvStopAgain | DvRestart | DvStart | DvRegister

record driver_env =
  de_poll :: "dv_poll \<Rightarrow> int option"
  de_terminate :: "string option"
  de_kill :: "string option"
  de_spawn :: "string + int"
  de_child_pid :: int
  de_mono :: rat
  de_signal :: "int \<Rightarrow> string option"
  de_fmt1 :: "rat \<Rightarrow> string"

text \<open>What the manager is set to.\<close>

record driver_cfg =
  dc_sup :: sup_cfg
  dc_heartbeat_timeout_s :: rat
  dc_heartbeat_hard_timeout_s :: rat

type_synonym dv_result = "(pyexc + unit) \<times> dhandle \<times> dv_event list"

section \<open>Starting and stopping\<close>

text \<open>The checks, and the heartbeat fields that a failed launch puts back.\<close>

definition start_refused :: "driver_env \<Rightarrow> dhandle \<Rightarrow> bool" where
  "start_refused env h = (dh_process h \<and> de_poll env DvStart = None \<or> dh_state h = CRASHLOOP)"

type_synonym heartbeat_memo = "heartbeat option \<times> rat option \<times> int option \<times> rat option"

definition previous_heartbeat :: "dhandle \<Rightarrow> heartbeat_memo" where
  "previous_heartbeat h = (dh_last_hb h, dh_last_hb_recv h, dh_heartbeat_pid h, dh_running_since h)"

text \<open>First phase: the new generation, and STARTING, before the process is launched.\<close>

definition prepare_start :: "dhandle \<Rightarrow> dhandle" where
  "prepare_start h =
     (let generation = dh_generation h + 1;
          h1 = h\<lparr>dh_generation := generation,
                 dh_reconnect_generation := (if dh_reconnect_after_restart h then Some generation else dh_reconnect_generation h)\<rparr>
      in h1\<lparr>dh_last_hb := None, dh_last_hb_recv := None, dh_heartbeat_pid := None, dh_running_since := None,
            dh_pid := None, dh_popen_pid := None, dh_state := STARTING, dh_last_exit_code := None,
            dh_stop_requested := None, dh_last_error := None, dh_last_error_kind := None,
            dh_last_signal_name := None, dh_last_failure_pid := None, dh_next_restart := None\<rparr>)"

text \<open>The process could not be launched.\<close>

definition spawn_failed :: "heartbeat_memo \<Rightarrow> string \<Rightarrow> dhandle \<Rightarrow> dv_result" where
  "spawn_failed prev msg h =
     (case prev of (hb, recv, pid, since) \<Rightarrow>
      let h1 = h\<lparr>dh_last_hb := hb, dh_last_hb_recv := recv, dh_heartbeat_pid := pid, dh_running_since := since,
                 dh_process := False, dh_pid := None, dh_popen_pid := None, dh_state := FAILED,
                 dh_last_error := Some msg, dh_last_error_kind := Some ''spawn_error''\<rparr>
      in (Inl (OtherError msg), h1, [DriverEvent ''manager.driver.failed'' h1, DvLog ''manager.driver.spawn_error'' msg]))"

text \<open>
  It was launched: its process id, unless its own heartbeat has given one already; STARTING,
  and the event that says so, unless it has registered already.
\<close>

definition note_child :: "int \<Rightarrow> dhandle \<Rightarrow> dhandle" where
  "note_child pid h =
     (let h1 = h\<lparr>dh_popen_pid := Some pid\<rparr>
      in if dh_heartbeat_pid h1 = None then h1\<lparr>dh_pid := dh_popen_pid h1\<rparr> else h1)"

definition settle_starting :: "dhandle \<Rightarrow> dhandle" where
  "settle_starting h = (if dh_state h \<noteq> RUNNING then h\<lparr>dh_state := STARTING\<rparr> else h)"

definition announce_start :: "dhandle \<Rightarrow> dv_event list" where
  "announce_start h = (if dh_state h \<noteq> RUNNING then [DriverEvent ''manager.driver.starting'' h] else [])"

definition start_driver :: "driver_env \<Rightarrow> dhandle \<Rightarrow> dv_result" where
  "start_driver env h =
     (if start_refused env h then (Inr (), h, [])
      else
      let prev = previous_heartbeat h;
          h1 = prepare_start h
      in case de_spawn env of
           Inl msg \<Rightarrow> spawn_failed prev msg h1
         | Inr pid \<Rightarrow>
             let h2 = settle_starting (note_child pid (h1\<lparr>dh_process := True\<rparr>))
             in (Inr (), h2, DvSpawned pid # announce_start h2))"

definition hard_timeout_for :: "driver_cfg \<Rightarrow> dhandle \<Rightarrow> rat" where
  "hard_timeout_for cfg h =
     (case ds_hard_timeout_s (dh_spec h) of Some t \<Rightarrow> t | None \<Rightarrow> dc_heartbeat_hard_timeout_s cfg)"

definition opt_int :: "int option \<Rightarrow> pyval" where
  "opt_int o' = (case o' of None \<Rightarrow> PNone | Some n \<Rightarrow> PInt n)"

fun state_name :: "proc_state \<Rightarrow> string" where
  "state_name STOPPED = ''STOPPED''"
| "state_name STARTING = ''STARTING''"
| "state_name RUNNING = ''RUNNING''"
| "state_name STOPPING = ''STOPPING''"
| "state_name EXITED = ''EXITED''"
| "state_name FAILED = ''FAILED''"
| "state_name CRASHLOOP = ''CRASHLOOP''"

definition mark_device_offline :: "driver_cfg \<Rightarrow> driver_env \<Rightarrow> string \<Rightarrow> dhandle \<Rightarrow> dhandle \<times> dv_event list" where
  "mark_device_offline cfg env offline_state h =
     (let age = dc_heartbeat_timeout_s cfg + 1;
          h1 = h\<lparr>dh_last_hb_recv := Some (de_mono env - age)\<rparr>
      in (h1, [DvManagerEvent ''manager.liveness''
            [(''device_id'', PStr (ds_device_id (dh_spec h))), (''liveness'', PStr offline_state), (''age_s'', PFloat (Fin age)),
             (''driver_process_state'', PStr (state_name (dh_state h1))), (''heartbeat_pid'', opt_int (dh_heartbeat_pid h1)),
             (''heartbeat_hard_timeout_s'', PFloat (Fin (hard_timeout_for cfg h)))]]))"

text \<open>
  A stop cancels the restart that may be due and marks the device offline; then, when there is
  no process left, it is done, and otherwise it sends the process a shutdown request, when there is an
  endpoint, whose answer is ignored, and kills it when forced.
\<close>

definition begin_stop :: "driver_cfg \<Rightarrow> driver_env \<Rightarrow> dhandle \<Rightarrow> dhandle \<times> dv_event list" where
  "begin_stop cfg env h =
     mark_device_offline cfg env ''OFFLINE''
       (h\<lparr>dh_next_restart := None, dh_restart_is_automatic := False, dh_reconnect_after_restart := False,
          dh_reconnect_generation := None\<rparr>)"

definition stopped_already :: "dhandle \<Rightarrow> dhandle \<times> dv_event list" where
  "stopped_already h =
     (let h1 = h\<lparr>dh_process := False, dh_pid := None, dh_state := STOPPED, dh_rpc_endpoint := None, dh_pub_endpoint := None\<rparr>
      in (h1, [DvClosedRpc, DriverEvent ''manager.driver.stopped'' h1]))"

definition finish_stop :: "driver_env \<Rightarrow> bool \<Rightarrow> dhandle \<Rightarrow> dhandle \<times> dv_event list" where
  "finish_stop env force h =
     (let (h1, evs) = (if \<not> force then (h, []) else
            let (t, e1) = (case de_terminate env of None \<Rightarrow> (h, [DvTerminate]) | Some e \<Rightarrow> (h\<lparr>dh_last_error := Some e\<rparr>, []));
                (k, e2) = (case de_kill env of None \<Rightarrow> (t, [DvKill]) | Some e \<Rightarrow> (t\<lparr>dh_last_error := Some e\<rparr>, []))
            in (k, e1 @ e2));
          h2 = h1\<lparr>dh_state := STOPPING, dh_stop_requested := Some (de_mono env)\<rparr>
      in (h2, evs @ [DvClosedRpc, DriverEvent ''manager.driver.stopping'' h2]))"

definition stop_driver :: "driver_cfg \<Rightarrow> driver_env \<Rightarrow> bool \<Rightarrow> dhandle \<Rightarrow> dhandle \<times> dv_event list" where
  "stop_driver cfg env force h =
     (let (h1, evs) = begin_stop cfg env h;
          (h2, evs2) = (if \<not> dh_process h1 \<or> de_poll env DvStop \<noteq> None then stopped_already h1 else finish_stop env force h1)
      in (h2, evs @ evs2))"

section \<open>Registration and heartbeats\<close>

record registration =
  rg_rpc_endpoint :: string
  rg_pub_endpoint :: string
  rg_capabilities :: pyval
  rg_generation :: "int option"

text \<open>First the generation is checked; a registration of another one is acknowledged and dropped.\<close>

definition registration_obsolete :: "registration \<Rightarrow> dhandle \<Rightarrow> bool" where
  "registration_obsolete reg h = (dh_generation h > 0 \<and> rg_generation reg \<noteq> Some (dh_generation h))"

text \<open>Then endpoints, capabilities and generation are recorded.\<close>

definition record_registration :: "registration \<Rightarrow> dhandle \<Rightarrow> dhandle \<times> dv_event list" where
  "record_registration reg h =
     (h\<lparr>dh_rpc_endpoint := Some (rg_rpc_endpoint reg), dh_pub_endpoint := Some (rg_pub_endpoint reg),
        dh_capabilities := rg_capabilities reg, dh_registered_generation := rg_generation reg\<rparr>,
      if dh_rpc_endpoint h \<noteq> Some (rg_rpc_endpoint reg) then [DvClosedRpc] else [])"

text \<open>Then the driver becomes RUNNING, when its process lives, is being launched, or its heartbeat is fresh.\<close>

definition promote_registered :: "driver_cfg \<Rightarrow> driver_env \<Rightarrow> dhandle \<Rightarrow> dhandle" where
  "promote_registered cfg env h =
     (let alive = (dh_process h \<and> de_poll env DvRegister = None)
      in if alive \<or> dh_state h = STARTING
         then h\<lparr>dh_state := RUNNING, dh_pid := (if alive then Some (de_child_pid env) else dh_pid h),
                dh_running_since := Some (de_mono env)\<rparr>
         else if (case dh_last_hb_recv h of None \<Rightarrow> False | Some t \<Rightarrow> de_mono env - t \<le> dc_heartbeat_timeout_s cfg)
         then h\<lparr>dh_state := RUNNING, dh_running_since := Some (de_mono env)\<rparr>
         else h)"

definition announce_registered :: "registration \<Rightarrow> dhandle \<Rightarrow> dhandle \<times> dv_event list" where
  "announce_registered reg h =
     (let registered = [DvSubscribed (rg_pub_endpoint reg),
             DvManagerEvent ''manager.driver_registered''
               [(''device_id'', PStr (ds_device_id (dh_spec h))), (''rpc_endpoint'', PStr (rg_rpc_endpoint reg)),
                (''pub_endpoint'', PStr (rg_pub_endpoint reg)), (''capabilities'', rg_capabilities reg)],
             DriverEvent ''manager.driver.running'' h]
      in if dh_config_published h then (h, registered)
         else (h\<lparr>dh_config_published := True\<rparr>, registered @ [DvConfigPublished]))"

definition handle_registry :: "driver_cfg \<Rightarrow> driver_env \<Rightarrow> registration \<Rightarrow> dhandle \<Rightarrow> dhandle \<times> dv_event list" where
  "handle_registry cfg env reg h =
     (if registration_obsolete reg h
      then (h, [DvManagerEvent ''manager.driver_registration_ignored''
             [(''device_id'', PStr (ds_device_id (dh_spec h))), (''registration_generation'', opt_int (rg_generation reg)),
              (''current_generation'', PInt (dh_generation h))]])
      else
      let (h1, closed) = record_registration reg h;
          (h2, registered) = announce_registered reg (promote_registered cfg env h1)
      in (h2, closed @ registered))"

definition store_heartbeat_on_handle :: "driver_env \<Rightarrow> heartbeat \<Rightarrow> dhandle \<Rightarrow> dhandle" where
  "store_heartbeat_on_handle env hb h =
     h\<lparr>dh_last_hb := Some hb, dh_last_hb_recv := Some (de_mono env), dh_heartbeat_pid := Some (hb_pid hb),
       dh_pid := Some (hb_pid hb)\<rparr>"

section \<open>The staged heartbeat policy\<close>

text \<open>The generation an episode belongs to, and the time the heartbeat is aged from.\<close>

definition episode_generation :: "dhandle \<Rightarrow> int option \<times> rat option" where
  "episode_generation h = (dh_popen_pid h, dh_running_since h)"

definition heartbeat_from_current_run :: "dhandle \<Rightarrow> bool" where
  "heartbeat_from_current_run h =
     (case dh_last_hb_recv h of
        None \<Rightarrow> False
      | Some t \<Rightarrow> (case dh_running_since h of None \<Rightarrow> True | Some r \<Rightarrow> t \<ge> r))"

definition liveness_ref :: "dhandle \<Rightarrow> rat option" where
  "liveness_ref h = (if heartbeat_from_current_run h then dh_last_hb_recv h else dh_running_since h)"

definition clear_stale_episode :: "dhandle \<Rightarrow> dhandle" where
  "clear_stale_episode h = h\<lparr>dh_stale_since := None, dh_stale_max_age := None, dh_stale_generation := None\<rparr>"

text \<open>The episode of an earlier generation is dropped without a report.\<close>

definition drop_old_episode :: "dhandle \<Rightarrow> dhandle" where
  "drop_old_episode h =
     (if dh_stale_since h \<noteq> None \<and> dh_stale_generation h \<noteq> Some (episode_generation h)
      then clear_stale_episode h else h)"

definition recent_manager_loop_stall :: "sup_cfg \<Rightarrow> rat \<Rightarrow> bool" where
  "recent_manager_loop_stall cfg now =
     (case sc_last_loop_stall cfg of None \<Rightarrow> False | Some t \<Rightarrow> now - t \<le> sc_stall_recent_s cfg)"

definition soft_event :: "driver_cfg \<Rightarrow> string \<Rightarrow> dhandle \<Rightarrow> rat \<Rightarrow> rat \<Rightarrow> items \<Rightarrow> dv_event" where
  "soft_event cfg topic h age now extra =
     DvManagerEvent topic
       ([(''version'', PInt 1), (''device_id'', PStr (ds_device_id (dh_spec h))), (''heartbeat_age_s'', PFloat (Fin age)),
         (''heartbeat_timeout_s'', PFloat (Fin (dc_heartbeat_timeout_s cfg))),
         (''heartbeat_hard_timeout_s'', PFloat (Fin (hard_timeout_for cfg h))), (''pid'', opt_int (dh_pid h)),
         (''popen_pid'', opt_int (dh_popen_pid h)), (''heartbeat_pid'', opt_int (dh_heartbeat_pid h)),
         (''driver_process_state'', PStr (state_name (dh_state h)))]
        @ (case dh_last_hb h of
             None \<Rightarrow> []
           | Some hb \<Rightarrow>
               (case hb_current_operation hb of None \<Rightarrow> [] | Some op \<Rightarrow> [(''current_operation'', PStr op)])
               @ (case hb_operation_started hb of
                    None \<Rightarrow> []
                  | Some t \<Rightarrow> [(''current_operation_started_mono'', PFloat (Fin t)),
                               (''current_operation_age_s'', PFloat (Fin (max 0 (now - t))))]))
        @ extra)"

text \<open>The first half: what a check does short of failing the driver.\<close>

definition soft_recovered :: "driver_cfg \<Rightarrow> rat \<Rightarrow> rat \<Rightarrow> dhandle \<Rightarrow> dhandle \<times> dv_event list" where
  "soft_recovered cfg now age h =
     (case dh_stale_since h of
        None \<Rightarrow> (h, [])
      | Some since \<Rightarrow>
          (clear_stale_episode h,
           [soft_event cfg ''manager.driver.heartbeat_recovered'' h age now
              [(''stale_duration_s'', PFloat (Fin (max 0 (now - since)))),
               (''max_heartbeat_age_s'', opt_num (dh_stale_max_age h))]]))"

definition soft_stale :: "driver_cfg \<Rightarrow> rat \<Rightarrow> rat \<Rightarrow> dhandle \<Rightarrow> dhandle \<times> dv_event list" where
  "soft_stale cfg now age h =
     (case dh_stale_since h of
        None \<Rightarrow>
          let h1 = h\<lparr>dh_stale_since := Some now, dh_stale_max_age := Some age,
                     dh_stale_generation := Some (episode_generation h)\<rparr>
          in (h1, [soft_event cfg ''manager.driver.heartbeat_stale'' h1 age now
                [(''heartbeat_received'', PBool (heartbeat_from_current_run h)),
                 (''recent_manager_loop_stall'', PBool (recent_manager_loop_stall (dc_sup cfg) now)),
                 (''in_startup_grace'', PBool (in_startup_grace (dc_sup cfg) now))]])
      | Some _ \<Rightarrow>
          (h\<lparr>dh_stale_max_age := Some (max age (case dh_stale_max_age h of None \<Rightarrow> 0 | Some m \<Rightarrow> m))\<rparr>, []))"

text \<open>The hard failure, with the restart it schedules when the device asks for one.\<close>

definition hard_failure :: "driver_cfg \<Rightarrow> driver_env \<Rightarrow> rat \<Rightarrow> rat \<Rightarrow> dhandle \<Rightarrow> dhandle \<times> dv_event list" where
  "hard_failure cfg env now age h =
     (let h1 = h\<lparr>dh_state := FAILED, dh_running_since := None, dh_stop_requested := Some now,
                 dh_last_error_kind := Some ''heartbeat_stale'',
                 dh_last_error := Some (''driver heartbeat remained stale for '' @ de_fmt1 env age @ ''s (soft timeout ''
                    @ de_fmt1 env (dc_heartbeat_timeout_s cfg) @ ''s, hard timeout '' @ de_fmt1 env (hard_timeout_for cfg h) @ ''s)'')\<rparr>;
          term = (if dh_process h1 \<and> de_poll env DvHeartbeat = None \<and> de_terminate env = None then [DvTerminate] else []);
          evs = term @ [DriverEvent ''manager.driver.failed'' h1]
      in if ds_restart_on_heartbeat_timeout (dh_spec h1)
         then let h2 = h1\<lparr>dh_reconnect_after_restart := (case dh_last_hb h1 of None \<Rightarrow> False | Some hb \<Rightarrow> hb_device_reachable hb),
                          dh_reconnect_generation := None, dh_restart_is_automatic := True,
                          dh_next_restart := Some (now + ds_restart_backoff_s (dh_spec h1))\<rparr>
              in (h2, evs @ [DriverEvent ''manager.driver.restart_scheduled'' h2])
         else (h1, evs))"

definition enforce_device_driver_heartbeat_timeout ::
  "driver_cfg \<Rightarrow> driver_env \<Rightarrow> rat \<Rightarrow> dhandle \<Rightarrow> dhandle \<times> dv_event list" where
  "enforce_device_driver_heartbeat_timeout cfg env now h =
     (if dh_state h \<noteq> RUNNING then (h, [])
      else case liveness_ref h of
        None \<Rightarrow> (h, [])
      | Some ref \<Rightarrow>
          let h1 = drop_old_episode h;
              age = max 0 (now - ref)
          in if age \<le> dc_heartbeat_timeout_s cfg then soft_recovered cfg now age h1
             else (case soft_stale cfg now age h1 of (h2, evs) \<Rightarrow>
                   if age < hard_timeout_for cfg h2 then (h2, evs)
                   else (case hard_failure cfg env now age h2 of (h3, evs3) \<Rightarrow> (h3, evs @ evs3))))"

section \<open>Exits, stops and restarts\<close>

definition update_device_driver_exit_state :: "driver_env \<Rightarrow> int \<Rightarrow> dhandle \<Rightarrow> dhandle \<times> dv_event list" where
  "update_device_driver_exit_state env rc h =
     (let exiting_pid = pid_or (dh_popen_pid h) (dh_pid h);
          h1 = h\<lparr>dh_last_exit_code := Some rc, dh_process := False, dh_pid := None, dh_running_since := None\<rparr>
      in if dh_state h1 = STOPPING \<and> dh_stop_requested h1 \<noteq> None
         then let h2 = h1\<lparr>dh_state := STOPPED\<rparr> in (h2, [DriverEvent ''manager.driver.stopped'' h2])
         else if dh_last_error_kind h1 = Some ''heartbeat_stale''
         then let h2 = h1\<lparr>dh_state := FAILED, dh_last_failure_pid := exiting_pid,
                          dh_last_signal_name := derive_signal_name (de_signal env) rc\<rparr>
              in (h2, [DriverEvent ''manager.driver.failed'' h2])
         else if rc = 0
         then let h2 = h1\<lparr>dh_state := STOPPED\<rparr> in (h2, [DriverEvent ''manager.driver.exited'' h2])
         else let h2 = h1\<lparr>dh_state := FAILED, dh_last_failure_pid := exiting_pid,
                          dh_last_signal_name := derive_signal_name (de_signal env) rc,
                          dh_last_error_kind := text_or (dh_last_error_kind h1) ''nonzero_exit'',
                          dh_last_error := text_or (dh_last_error h1) (''driver exited: '' @ describe_exit_code (de_signal env) rc)\<rparr>
              in (h2, [DriverEvent ''manager.driver.failed'' h2]))"

definition enforce_device_driver_stop_timeout :: "driver_env \<Rightarrow> rat \<Rightarrow> dhandle \<Rightarrow> dhandle \<times> dv_event list" where
  "enforce_device_driver_stop_timeout env now h =
     (if dh_state h \<noteq> STOPPING \<and>
         \<not> (dh_state h = FAILED \<and> dh_last_error_kind h \<in> {Some ''heartbeat_stale'', Some ''auto_reconnect_exhausted''})
      then (h, [])
      else case dh_stop_requested h of
        None \<Rightarrow> (h, [])
      | Some t \<Rightarrow>
          if \<not> dh_process h \<or> de_poll env DvStop \<noteq> None then (h, [])
          else
          let (h1, evs) = (if now - t > ds_stop_timeout_s (dh_spec h)
                 then (case de_kill env of
                         None \<Rightarrow> (h, [DvKill, DriverEvent ''manager.driver.killing'' h])
                       | Some e \<Rightarrow> (h\<lparr>dh_last_error := Some e\<rparr>, []))
                 else (h, []))
          in if now - t > ds_stop_timeout_s (dh_spec h) + ds_kill_timeout_s (dh_spec h) \<and> dh_process h1
                \<and> de_poll env DvStopAgain = None
             then let h2 = h1\<lparr>dh_state := FAILED, dh_last_error := Some ''kill timeout'',
                              dh_last_error_kind := Some ''kill_timeout'', dh_last_failure_pid := dh_pid h1\<rparr>
                  in (h2, evs @ [DriverEvent ''manager.driver.kill_timeout'' h2])
             else (h1, evs))"

definition maybe_restart_device_driver :: "driver_env \<Rightarrow> rat \<Rightarrow> dhandle \<Rightarrow> dv_result" where
  "maybe_restart_device_driver env now h =
     (if (case dh_next_restart h of None \<Rightarrow> True | Some t \<Rightarrow> now < t) then (Inr (), h, [])
      else if dh_process h \<and> de_poll env DvRestart = None then (Inr (), h, [])
      else if dh_restart_is_automatic h
           \<and> (case ds_max_restarts (dh_spec h) of None \<Rightarrow> False | Some n \<Rightarrow> dh_restart_count h \<ge> n)
      then let h1 = h\<lparr>dh_state := CRASHLOOP, dh_next_restart := None, dh_restart_is_automatic := False,
                      dh_reconnect_after_restart := False, dh_reconnect_generation := None\<rparr>
           in (Inr (), h1, [DriverEvent ''manager.driver.crashloop'' h1])
      else
      let h1 = h\<lparr>dh_restart_count := (if dh_restart_is_automatic h then dh_restart_count h + 1 else dh_restart_count h),
                 dh_last_restart := Some now, dh_healthy_since := None, dh_next_restart := None\<rparr>
      in case start_driver env h1 of
           (r, h2, evs) \<Rightarrow> (r, h2, DriverEvent ''manager.driver.restarting'' h1 # evs))"

definition reset_driver_restart_budget_if_healthy :: "driver_cfg \<Rightarrow> rat \<Rightarrow> dhandle \<Rightarrow> dhandle \<times> dv_event list" where
  "reset_driver_restart_budget_if_healthy cfg now h =
     (if dh_restart_count h \<le> 0 then (h\<lparr>dh_healthy_since := None\<rparr>, [])
      else if dh_state h \<noteq> RUNNING then (h\<lparr>dh_healthy_since := None\<rparr>, [])
      else if \<not> (heartbeat_from_current_run h
               \<and> (case dh_last_hb_recv h of None \<Rightarrow> False | Some t \<Rightarrow> now - t \<le> dc_heartbeat_timeout_s cfg))
      then (h\<lparr>dh_healthy_since := None\<rparr>, [])
      else case dh_healthy_since h of
        None \<Rightarrow> (h\<lparr>dh_healthy_since := Some now\<rparr>, [])
      | Some t \<Rightarrow>
          if now - t < ds_restart_healthy_reset_s (dh_spec h) then (h, [])
          else let h1 = h\<lparr>dh_restart_count := 0, dh_healthy_since := None\<rparr>
               in (h1, [DriverEvent ''manager.driver.restart_budget_reset'' h1]))"

text \<open>
  One device of a supervision pass. A lock held elsewhere skips the device; an exception of a
  restart ends the pass.
\<close>

definition supervise_device_driver :: "driver_cfg \<Rightarrow> driver_env \<Rightarrow> bool \<Rightarrow> rat \<Rightarrow> dhandle \<Rightarrow> dv_result" where
  "supervise_device_driver cfg env lock_free now h =
     (if \<not> lock_free then (Inr (), h, [])
      else
      let (h1, e1) = (case (if dh_process h then de_poll env DvSupervise else None) of
             None \<Rightarrow> (h, []) | Some rc \<Rightarrow> update_device_driver_exit_state env rc h);
          (h2, e2) = enforce_device_driver_heartbeat_timeout cfg env now h1;
          (h3, e3) = enforce_device_driver_stop_timeout env now h2
      in case maybe_restart_device_driver env now h3 of
           (Inl e, h4, e4) \<Rightarrow> (Inl e, h4, e1 @ e2 @ e3 @ e4)
         | (Inr _, h4, e4) \<Rightarrow>
             (case reset_driver_restart_budget_if_healthy cfg now h4 of
                (h5, e5) \<Rightarrow> (Inr (), h5, e1 @ e2 @ e3 @ e4 @ e5)))"


section \<open>What happens to a driver\<close>

text \<open>The turns of the manager's thread: supervision, a heartbeat, a registration.\<close>

datatype auto_step =
    Tick driver_cfg driver_env bool rat
  | Beat driver_env heartbeat
  | Registers driver_cfg driver_env registration

fun auto_turn :: "auto_step \<Rightarrow> dhandle \<Rightarrow> dhandle \<times> dv_event list" where
  "auto_turn (Tick cfg env lock_free now) h =
     (case supervise_device_driver cfg env lock_free now h of (_, h', evs) \<Rightarrow> (h', evs))"
| "auto_turn (Beat env hb) h = (store_heartbeat_on_handle env hb h, [])"
| "auto_turn (Registers cfg env reg) h = handle_registry cfg env reg h"

end
