(* ===== verification/Driver_Supervision_Proofs.thy ===== *)
theory Driver_Supervision_Proofs
  imports Driver_Supervision Budgeted_Steps
begin

text \<open>
  Lemmas on driver supervision: the soft stages of the heartbeat policy, the budget of automatic
  restarts, and the generation a running driver has registered under.
\<close>

section \<open>The soft stages\<close>

fun is_topic :: "string \<Rightarrow> dv_event \<Rightarrow> bool" where
  "is_topic t (DvManagerEvent u _) = (t = u)"
| "is_topic t (DriverEvent u _) = (t = u)"
| "is_topic t _ = False"

text \<open>An episode of the running generation is open.\<close>

definition episode_open :: "dhandle \<Rightarrow> bool" where
  "episode_open h = (dh_stale_since h \<noteq> None \<and> dh_stale_generation h = Some (episode_generation h))"

datatype soft_change = Went_stale | Came_back

fun soft_signal :: "dv_event \<Rightarrow> soft_change option" where
  "soft_signal (DvManagerEvent t _) =
     (if t = ''manager.driver.heartbeat_stale'' then Some Went_stale
      else if t = ''manager.driver.heartbeat_recovered'' then Some Came_back else None)"
| "soft_signal _ = None"

definition soft_signals :: "dv_event list \<Rightarrow> soft_change list" where
  "soft_signals evs = List.map_filter soft_signal evs"

text \<open>What the policy promises: a switch with two positions that reports each change once.\<close>

definition stale_switch :: "bool \<Rightarrow> bool \<Rightarrow> bool \<times> soft_change list" where
  "stale_switch was stale =
     (stale, if stale \<and> \<not> was then [Went_stale] else if was \<and> \<not> stale then [Came_back] else [])"

lemma soft_signals_simps [simp]:
  "soft_signals [] = []"
  "soft_signals (e # evs) = (case soft_signal e of None \<Rightarrow> soft_signals evs | Some s \<Rightarrow> s # soft_signals evs)"
  "soft_signals (xs @ ys) = soft_signals xs @ soft_signals ys"
  by (simp_all add: soft_signals_def List.map_filter_def split: option.split)

lemma soft_signal_event [simp]:
  "soft_signal (soft_event cfg ''manager.driver.heartbeat_stale'' h age now x) = Some Went_stale"
  "soft_signal (soft_event cfg ''manager.driver.heartbeat_recovered'' h age now x) = Some Came_back"
  by (simp_all add: soft_event_def)

lemma hard_failure_spec:
  assumes "hard_failure cfg env now age h = (h', evs)"
  shows "dh_state h' = FAILED" "soft_signals evs = []" "dh_spec h' = dh_spec h" "dh_restart_count h' = dh_restart_count h"
    "dh_next_restart h' = (if ds_restart_on_heartbeat_timeout (dh_spec h)
       then Some (now + ds_restart_backoff_s (dh_spec h)) else dh_next_restart h)"
    "dh_restart_is_automatic h' = (ds_restart_on_heartbeat_timeout (dh_spec h) \<or> dh_restart_is_automatic h)"
    "dh_generation h' = dh_generation h" "dh_registered_generation h' = dh_registered_generation h"
  using assms by (cases "ds_restart_on_heartbeat_timeout (dh_spec h)"; clarsimp simp: hard_failure_def Let_def)+

lemma soft_stale_spec:
  assumes "soft_stale cfg now age h = (h', evs)"
  shows "dh_state h' = dh_state h" "dh_spec h' = dh_spec h" "dh_stale_since h' \<noteq> None"
    "episode_generation h' = episode_generation h"
    "dh_stale_generation h' = (if dh_stale_since h = None then Some (episode_generation h) else dh_stale_generation h)"
    "soft_signals evs = (if dh_stale_since h = None then [Went_stale] else [])"
    "dh_restart_count h' = dh_restart_count h" "dh_next_restart h' = dh_next_restart h"
    "dh_restart_is_automatic h' = dh_restart_is_automatic h"
    "dh_generation h' = dh_generation h" "dh_registered_generation h' = dh_registered_generation h"
  using assms by (auto simp: soft_stale_def Let_def episode_generation_def split: option.splits)

lemma soft_recovered_spec:
  assumes "soft_recovered cfg now age h = (h', evs)"
  shows "dh_state h' = dh_state h" "dh_spec h' = dh_spec h" "dh_stale_since h' = None"
    "soft_signals evs = (if dh_stale_since h = None then [] else [Came_back])"
    "dh_restart_count h' = dh_restart_count h" "dh_next_restart h' = dh_next_restart h"
    "dh_restart_is_automatic h' = dh_restart_is_automatic h"
    "dh_generation h' = dh_generation h" "dh_registered_generation h' = dh_registered_generation h"
  using assms by (auto simp: soft_recovered_def clear_stale_episode_def split: option.splits)

lemma drop_old_episode_simps [simp]:
  "episode_generation (drop_old_episode h) = episode_generation h"
  "dh_state (drop_old_episode h) = dh_state h" "dh_spec (drop_old_episode h) = dh_spec h"
  "dh_restart_count (drop_old_episode h) = dh_restart_count h" "dh_next_restart (drop_old_episode h) = dh_next_restart h"
  "dh_restart_is_automatic (drop_old_episode h) = dh_restart_is_automatic h"
  "dh_generation (drop_old_episode h) = dh_generation h"
  "dh_registered_generation (drop_old_episode h) = dh_registered_generation h"
  by (simp_all add: drop_old_episode_def clear_stale_episode_def episode_generation_def)

lemma drop_old_episode_open:
  "dh_stale_since (drop_old_episode h) = None \<longleftrightarrow> \<not> episode_open h"
  "dh_stale_since (drop_old_episode h) \<noteq> None \<Longrightarrow> dh_stale_generation (drop_old_episode h) = Some (episode_generation h)"
  by (auto simp: drop_old_episode_def clear_stale_episode_def episode_open_def split: if_splits)

lemma hard_timeout_for_cong: "dh_spec h' = dh_spec h \<Longrightarrow> hard_timeout_for cfg h' = hard_timeout_for cfg h"
  by (simp add: hard_timeout_for_def split: option.split)

lemma heartbeat_check_refines_switch:
  assumes run: "dh_state h = RUNNING" "liveness_ref h = Some ref" and age: "age = max 0 (now - ref)"
    and check: "enforce_device_driver_heartbeat_timeout cfg env now h = (h', evs)"
  shows "soft_signals evs = snd (stale_switch (episode_open h) (dc_heartbeat_timeout_s cfg < age))"
    "dh_state h' = (if dc_heartbeat_timeout_s cfg < age \<and> hard_timeout_for cfg h \<le> age then FAILED else RUNNING)"
    "dh_state h' = RUNNING \<Longrightarrow> episode_open h' = fst (stale_switch (episode_open h) (dc_heartbeat_timeout_s cfg < age))"
proof -
  have "soft_signals evs = snd (stale_switch (episode_open h) (dc_heartbeat_timeout_s cfg < age))
    \<and> dh_state h' = (if dc_heartbeat_timeout_s cfg < age \<and> hard_timeout_for cfg h \<le> age then FAILED else RUNNING)
    \<and> (dh_state h' = RUNNING \<longrightarrow> episode_open h' = fst (stale_switch (episode_open h) (dc_heartbeat_timeout_s cfg < age)))"
  proof (cases "age \<le> dc_heartbeat_timeout_s cfg")
    case True
    then have "soft_recovered cfg now age (drop_old_episode h) = (h', evs)"
      using check run by (simp add: enforce_device_driver_heartbeat_timeout_def Let_def age)
    from soft_recovered_spec [OF this] True run(1) show ?thesis
      by (auto simp: stale_switch_def drop_old_episode_open episode_open_def)
  next
    case False
    obtain h2 e2 where stale: "soft_stale cfg now age (drop_old_episode h) = (h2, e2)"
      by (metis surj_pair)
    note two = soft_stale_spec [OF stale]
    have hard: "hard_timeout_for cfg h2 = hard_timeout_for cfg h"
      by (rule hard_timeout_for_cong) (simp add: two)
    have opens: "episode_open h2"
      using two(3,4,5) drop_old_episode_open(2) [of h] by (auto simp: episode_open_def split: if_splits)
    show ?thesis
    proof (cases "age < hard_timeout_for cfg h")
      case True
      then have "h' = h2" "evs = e2"
        using check run False stale hard by (auto simp: enforce_device_driver_heartbeat_timeout_def Let_def age [symmetric])
      with True False two run(1) opens show ?thesis
        by (auto simp: stale_switch_def drop_old_episode_open)
    next
      case hard_stale: False
      obtain h3 e3 where fail: "hard_failure cfg env now age h2 = (h3, e3)"
        by (metis surj_pair)
      have "h' = h3" "evs = e2 @ e3"
        using check run False stale hard hard_stale fail
        by (auto simp: enforce_device_driver_heartbeat_timeout_def Let_def age [symmetric])
      with hard_failure_spec [OF fail] False hard_stale two show ?thesis
        by (auto simp: stale_switch_def drop_old_episode_open)
    qed
  qed
  then show "soft_signals evs = snd (stale_switch (episode_open h) (dc_heartbeat_timeout_s cfg < age))"
    "dh_state h' = (if dc_heartbeat_timeout_s cfg < age \<and> hard_timeout_for cfg h \<le> age then FAILED else RUNNING)"
    "dh_state h' = RUNNING \<Longrightarrow> episode_open h' = fst (stale_switch (episode_open h) (dc_heartbeat_timeout_s cfg < age))"
    by blast+
qed


section \<open>Restarts and generations\<close>

fun is_dv_spawn :: "dv_event \<Rightarrow> bool" where
  "is_dv_spawn (DvSpawned _) = True"
| "is_dv_spawn _ = False"

abbreviation is_budget_reset :: "dv_event \<Rightarrow> bool" where
  "is_budget_reset \<equiv> is_topic ''manager.driver.restart_budget_reset''"

abbreviation uneventful :: "dv_event list \<Rightarrow> bool" where
  "uneventful evs \<equiv> paid is_dv_spawn evs = 0 \<and> paid is_budget_reset evs = 0"

text \<open>Restarts that are due were scheduled by the manager itself.\<close>

definition only_automatic :: "dhandle \<Rightarrow> bool" where
  "only_automatic h = (dh_next_restart h \<noteq> None \<longrightarrow> dh_restart_is_automatic h)"

text \<open>A running driver has registered under the generation the manager launched last.\<close>

definition registered_ok :: "dhandle \<Rightarrow> bool" where
  "registered_ok h = (dh_state h = RUNNING \<and> 0 < dh_generation h \<longrightarrow> dh_registered_generation h = Some (dh_generation h))"

definition driver_steady :: "dhandle \<Rightarrow> dhandle \<Rightarrow> bool" where
  "driver_steady h h' =
     (dh_spec h' = dh_spec h \<and> dh_restart_count h' = dh_restart_count h \<and> dh_generation h' = dh_generation h
      \<and> dh_registered_generation h' = dh_registered_generation h \<and> (dh_state h' = RUNNING \<longrightarrow> dh_state h = RUNNING)
      \<and> (only_automatic h \<longrightarrow> only_automatic h'))"

lemma driver_steady_refl [simp]: "driver_steady h h"
  by (simp add: driver_steady_def)

lemma driver_steady_trans: "\<lbrakk>driver_steady h h1; driver_steady h1 h2\<rbrakk> \<Longrightarrow> driver_steady h h2"
  by (simp add: driver_steady_def)

lemma steady_registered: "\<lbrakk>driver_steady h h'; registered_ok h\<rbrakk> \<Longrightarrow> registered_ok h'"
  by (simp add: driver_steady_def registered_ok_def)

lemma exit_state_steady:
  assumes "update_device_driver_exit_state env rc h = (h', evs)"
  shows "driver_steady h h' \<and> uneventful evs"
  using assms
  by (auto simp: update_device_driver_exit_state_def Let_def driver_steady_def only_automatic_def split: if_splits)

lemma stop_timeout_steady:
  assumes "enforce_device_driver_stop_timeout env now h = (h', evs)"
  shows "driver_steady h h' \<and> uneventful evs"
  using assms
  by (auto simp: enforce_device_driver_stop_timeout_def Let_def driver_steady_def only_automatic_def split: if_splits option.splits)

lemma soft_event_uneventful [simp]:
  "\<not> is_dv_spawn (soft_event cfg t h age now x)"
  "is_budget_reset (soft_event cfg t h age now x) \<longleftrightarrow> t = ''manager.driver.restart_budget_reset''"
  by (auto simp: soft_event_def)

lemma hard_failure_steady:
  assumes "hard_failure cfg env now age h = (h', evs)"
  shows "driver_steady h h' \<and> uneventful evs"
proof
  show "driver_steady h h'"
    using hard_failure_spec [OF assms] by (auto simp: driver_steady_def only_automatic_def split: if_splits)
  show "uneventful evs"
    using assms by (auto simp: hard_failure_def Let_def split: if_splits)
qed

lemma soft_stale_steady:
  assumes "soft_stale cfg now age h = (h', evs)"
  shows "driver_steady h h' \<and> uneventful evs"
  using soft_stale_spec [OF assms] assms
  by (auto simp: driver_steady_def only_automatic_def soft_stale_def Let_def split: option.splits)

lemma soft_recovered_steady:
  assumes "soft_recovered cfg now age h = (h', evs)"
  shows "driver_steady h h' \<and> uneventful evs"
  using soft_recovered_spec [OF assms] assms
  by (auto simp: driver_steady_def only_automatic_def soft_recovered_def split: option.splits)

lemma drop_old_episode_steady [simp]: "driver_steady h (drop_old_episode h)"
  by (simp add: driver_steady_def only_automatic_def)

lemma heartbeat_check_steady:
  assumes "enforce_device_driver_heartbeat_timeout cfg env now h = (h', evs)"
  shows "driver_steady h h' \<and> uneventful evs"
proof -
  have "driver_steady (drop_old_episode h) h' \<and> uneventful evs \<or> h' = h \<and> evs = []"
    using assms
    by (auto simp: enforce_device_driver_heartbeat_timeout_def Let_def
        split: if_splits option.splits prod.splits
        dest!: soft_recovered_steady soft_stale_steady hard_failure_steady intro: driver_steady_trans)
  then show ?thesis
    by (auto intro: driver_steady_trans [OF drop_old_episode_steady])
qed

text \<open>The automatic restarts a driver still has.\<close>

definition restarts_left :: "int \<Rightarrow> dhandle \<Rightarrow> int" where
  "restarts_left n h = max 0 (n - dh_restart_count h)"

definition limited_to :: "int \<Rightarrow> dhandle \<Rightarrow> bool" where
  "limited_to n h = (ds_max_restarts (dh_spec h) = Some n \<and> 0 \<le> n \<and> only_automatic h)"

text \<open>What a launch makes of the fields that matter here.\<close>

lemma prepare_start_simps [simp]:
  "dh_spec (prepare_start h) = dh_spec h" "dh_restart_count (prepare_start h) = dh_restart_count h"
  "dh_generation (prepare_start h) = dh_generation h + 1" "dh_state (prepare_start h) = STARTING"
  "dh_registered_generation (prepare_start h) = dh_registered_generation h" "dh_next_restart (prepare_start h) = None"
  by (simp_all add: prepare_start_def Let_def)

lemma note_child_simps [simp]:
  "dh_spec (note_child pid h) = dh_spec h" "dh_restart_count (note_child pid h) = dh_restart_count h"
  "dh_generation (note_child pid h) = dh_generation h" "dh_state (note_child pid h) = dh_state h"
  "dh_registered_generation (note_child pid h) = dh_registered_generation h" "dh_next_restart (note_child pid h) = dh_next_restart h"
  by (simp_all add: note_child_def Let_def)

lemma settle_starting_simps [simp]:
  "dh_spec (settle_starting h) = dh_spec h" "dh_restart_count (settle_starting h) = dh_restart_count h"
  "dh_generation (settle_starting h) = dh_generation h"
  "dh_state (settle_starting h) = (if dh_state h = RUNNING then RUNNING else STARTING)"
  "dh_registered_generation (settle_starting h) = dh_registered_generation h"
  "dh_next_restart (settle_starting h) = dh_next_restart h"
  by (simp_all add: settle_starting_def)

lemma spawn_failed_spec:
  assumes "spawn_failed prev msg h = (r, h', evs)"
  shows "dh_spec h' = dh_spec h" "dh_restart_count h' = dh_restart_count h" "dh_generation h' = dh_generation h"
    "dh_state h' = FAILED" "dh_next_restart h' = dh_next_restart h" "uneventful evs"
  using assms by (auto simp: spawn_failed_def Let_def split: prod.splits)

lemma start_driver_spec:
  assumes "start_driver env h = (r, h', evs)"
  shows "dh_spec h' = dh_spec h" "dh_restart_count h' = dh_restart_count h" "paid is_budget_reset evs = 0"
    "paid is_dv_spawn evs \<le> 1" "dh_state h' = RUNNING \<Longrightarrow> h' = h" "dh_next_restart h' \<noteq> None \<Longrightarrow> h' = h"
    "registered_ok h \<Longrightarrow> registered_ok h'"
  using assms
  by (auto simp: start_driver_def announce_start_def Let_def registered_ok_def split: if_splits sum.splits dest: spawn_failed_spec)

lemma maybe_restart_funds:
  assumes "maybe_restart_device_driver env now h = (r, h', evs)" "limited_to n h"
  shows "limited_to n h' \<and> paid is_dv_spawn evs + restarts_left n h' \<le> restarts_left n h \<and> paid is_budget_reset evs = 0"
proof -
  consider "h' = h" "evs = []"
    | "h' = h\<lparr>dh_state := CRASHLOOP, dh_next_restart := None, dh_restart_is_automatic := False,
              dh_reconnect_after_restart := False, dh_reconnect_generation := None\<rparr>" "uneventful evs"
    | h1 evs1 r1 where "dh_restart_count h < n" "start_driver env h1 = (r1, h', evs1)"
        "evs = DriverEvent ''manager.driver.restarting'' h1 # evs1"
        "dh_spec h1 = dh_spec h" "dh_restart_count h1 = dh_restart_count h + 1" "dh_next_restart h1 = None"
  proof (cases "(case dh_next_restart h of None \<Rightarrow> True | Some t \<Rightarrow> now < t) \<or> dh_process h \<and> de_poll env DvRestart = None")
    case True
    then have "maybe_restart_device_driver env now h = (Inr (), h, [])"
      by (elim disjE) (simp_all add: maybe_restart_device_driver_def)
    then show ?thesis using assms(1) that(1) by simp
  next
    case due: False
    then have auto: "dh_restart_is_automatic h" "ds_max_restarts (dh_spec h) = Some n"
      using assms(2) by (auto simp: limited_to_def only_automatic_def split: option.splits)
    show ?thesis
    proof (cases "n \<le> dh_restart_count h")
      case True
      with due auto show ?thesis using assms(1) that(2) by (auto simp: maybe_restart_device_driver_def Let_def)
    next
      case False
      define h1 where "h1 = h\<lparr>dh_restart_count := dh_restart_count h + 1, dh_last_restart := Some now, dh_healthy_since := None, dh_next_restart := None\<rparr>"
      obtain r1 h2 evs1 where s: "start_driver env h1 = (r1, h2, evs1)" by (cases "start_driver env h1")
      have "maybe_restart_device_driver env now h = (r1, h2, DriverEvent ''manager.driver.restarting'' h1 # evs1)"
        using False due auto s by (auto simp: maybe_restart_device_driver_def Let_def h1_def)
      with assms(1) s show ?thesis using False by (intro that(3) [of h1]) (auto simp: h1_def)
    qed
  qed
  then show ?thesis
  proof cases
    case 1
    then show ?thesis using assms(2) by simp
  next
    case 2
    then show ?thesis using assms(2) by (simp add: limited_to_def only_automatic_def restarts_left_def)
  next
    case 3
    note start = start_driver_spec [OF 3(2)]
    have "only_automatic h'"
      using start(6) 3(6) by (auto simp: only_automatic_def)
    then show ?thesis
      using start(1-4) 3(1,3-5) assms(2) by (simp add: limited_to_def restarts_left_def)
  qed
qed

lemma maybe_restart_registered:
  assumes "maybe_restart_device_driver env now h = (r, h', evs)" "registered_ok h"
  shows "registered_ok h'"
  using assms
  by (auto simp: maybe_restart_device_driver_def Let_def registered_ok_def
      split: if_splits prod.splits dest!: start_driver_spec(7))

lemma reset_budget_spec:
  assumes "reset_driver_restart_budget_if_healthy cfg now h = (h', evs)"
  shows "dh_spec h' = dh_spec h" "dh_generation h' = dh_generation h" "dh_state h' = dh_state h"
    "dh_registered_generation h' = dh_registered_generation h" "only_automatic h' = only_automatic h"
    "paid is_dv_spawn evs = 0"
    "dh_restart_count h' = (if paid is_budget_reset evs = 0 then dh_restart_count h else 0)"
    "paid is_budget_reset evs \<le> 1"
  using assms
  by (auto simp: reset_driver_restart_budget_if_healthy_def only_automatic_def Let_def split: if_splits option.splits)


text \<open>A pass over one driver, taken apart.\<close>

lemma supervise_driver_cases:
  assumes "supervise_device_driver cfg env lock_free now h = (r, h', evs)"
  obtains "h' = h" "evs = []"
  | h3 e3 h4 e4 e5 r4 where "driver_steady h h3" "uneventful e3" "maybe_restart_device_driver env now h3 = (r4, h4, e4)"
      "evs = e3 @ e4 @ e5" "h' = h4 \<and> e5 = [] \<or> reset_driver_restart_budget_if_healthy cfg now h4 = (h', e5)"
proof (cases lock_free)
  case True
  obtain h1 e1 where one: "(case (if dh_process h then de_poll env DvSupervise else None) of
      None \<Rightarrow> (h, []) | Some rc \<Rightarrow> update_device_driver_exit_state env rc h) = (h1, e1)"
    by (metis surj_pair)
  obtain h2 e2 where two: "enforce_device_driver_heartbeat_timeout cfg env now h1 = (h2, e2)"
    by (metis surj_pair)
  obtain h3 e3 where three: "enforce_device_driver_stop_timeout env now h2 = (h3, e3)"
    by (metis surj_pair)
  obtain r4 h4 e4 where four: "maybe_restart_device_driver env now h3 = (r4, h4, e4)"
    by (metis surj_pair)
  have "driver_steady h h1 \<and> uneventful e1"
    using one by (auto split: option.splits if_splits dest: exit_state_steady)
  with heartbeat_check_steady [OF two] stop_timeout_steady [OF three]
  have "driver_steady h h3 \<and> uneventful (e1 @ e2 @ e3)"
    by (auto intro: driver_steady_trans)
  moreover obtain e5 where "evs = (e1 @ e2 @ e3) @ e4 @ e5"
    "h' = h4 \<and> e5 = [] \<or> reset_driver_restart_budget_if_healthy cfg now h4 = (h', e5)"
    using assms True unfolding supervise_device_driver_def one two three four Let_def
    by (auto simp: one two three four split: sum.splits prod.splits)
  ultimately show thesis
    using that(2) four by blast
next
  case False
  with assms that(1) show thesis by (simp add: supervise_device_driver_def)
qed

lemma supervise_driver_funds:
  assumes "supervise_device_driver cfg env lock_free now h = (r, h', evs)" "limited_to n h"
  shows "limited_to n h' \<and> paid is_dv_spawn evs + restarts_left n h' \<le> restarts_left n h + n * paid is_budget_reset evs"
  using assms(1)
proof (cases rule: supervise_driver_cases)
  case 1
  then show ?thesis using assms(2) by simp
next
  case (2 h3 e3 h4 e4 e5 r4)
  have "limited_to n h3" "restarts_left n h3 = restarts_left n h"
    using 2(1) assms(2) by (auto simp: driver_steady_def limited_to_def restarts_left_def)
  with maybe_restart_funds [OF 2(3), of n] have
    four: "limited_to n h4 \<and> paid is_dv_spawn e4 + restarts_left n h4 \<le> restarts_left n h \<and> paid is_budget_reset e4 = 0"
    by simp
  have "limited_to n h' \<and> paid is_dv_spawn e5 = 0 \<and> restarts_left n h' \<le> restarts_left n h4 + n * paid is_budget_reset e5"
    using 2(5)
  proof
    assume reset: "reset_driver_restart_budget_if_healthy cfg now h4 = (h', e5)"
    note spec = reset_budget_spec [OF reset]
    have "paid is_budget_reset e5 = 0 \<or> paid is_budget_reset e5 = 1"
      using spec(8) paid_nonneg [of is_budget_reset e5] by linarith
    with spec four show ?thesis
      by (auto simp: limited_to_def restarts_left_def)
  qed (use four in simp)
  with four 2(2,4) show ?thesis by auto
qed

lemma supervise_driver_registered:
  assumes "supervise_device_driver cfg env lock_free now h = (r, h', evs)" "registered_ok h"
  shows "registered_ok h'"
  using assms(1)
proof (cases rule: supervise_driver_cases)
  case (2 h3 e3 h4 e4 e5 r4)
  have "registered_ok h4"
    using maybe_restart_registered [OF 2(3)] steady_registered [OF 2(1) assms(2)] by simp
  then show ?thesis
    using 2(5) reset_budget_spec(2-4) [of cfg now h4 h' e5] by (auto simp: registered_ok_def)
qed (use assms in simp)

lemma promote_registered_simps [simp]:
  "dh_generation (promote_registered cfg env h) = dh_generation h"
  "dh_registered_generation (promote_registered cfg env h) = dh_registered_generation h"
  "dh_spec (promote_registered cfg env h) = dh_spec h"
  "dh_restart_count (promote_registered cfg env h) = dh_restart_count h"
  "only_automatic (promote_registered cfg env h) = only_automatic h"
  by (simp_all add: promote_registered_def Let_def only_automatic_def)

lemma announce_registered_spec:
  assumes "announce_registered reg h = (h', evs)"
  shows "dh_generation h' = dh_generation h" "dh_registered_generation h' = dh_registered_generation h"
    "dh_spec h' = dh_spec h" "dh_restart_count h' = dh_restart_count h" "only_automatic h' = only_automatic h"
    "dh_state h' = dh_state h" "uneventful evs"
  using assms by (auto simp: announce_registered_def Let_def only_automatic_def split: if_splits)

lemma record_registration_spec:
  assumes "record_registration reg h = (h', evs)"
  shows "dh_generation h' = dh_generation h" "dh_registered_generation h' = rg_generation reg"
    "dh_spec h' = dh_spec h" "dh_restart_count h' = dh_restart_count h" "only_automatic h' = only_automatic h"
    "dh_state h' = dh_state h" "uneventful evs"
  using assms by (auto simp: record_registration_def only_automatic_def)

lemma handle_registry_cases:
  assumes "handle_registry cfg env reg h = (h', evs)"
  obtains "h' = h" "uneventful evs"
  | "dh_generation h > 0 \<longrightarrow> rg_generation reg = Some (dh_generation h)" "dh_generation h' = dh_generation h"
    "dh_registered_generation h' = rg_generation reg" "dh_spec h' = dh_spec h" "dh_restart_count h' = dh_restart_count h"
    "only_automatic h' = only_automatic h" "uneventful evs"
proof (cases "registration_obsolete reg h")
  case True
  with assms that(1) show thesis by (auto simp: handle_registry_def)
next
  case False
  obtain h1 e1 where one: "record_registration reg h = (h1, e1)" by (metis surj_pair)
  obtain h2 e2 where two: "announce_registered reg (promote_registered cfg env h1) = (h2, e2)" by (metis surj_pair)
  have "h' = h2" "evs = e1 @ e2" using assms False one two by (simp_all add: handle_registry_def)
  with record_registration_spec [OF one] announce_registered_spec [OF two] False that(2) show thesis
    by (auto simp: registration_obsolete_def)
qed

lemma handle_registry_spec:
  assumes "handle_registry cfg env reg h = (h', evs)"
  shows "dh_spec h' = dh_spec h" "dh_restart_count h' = dh_restart_count h" "only_automatic h' = only_automatic h"
    "uneventful evs" "registered_ok h \<Longrightarrow> registered_ok h'"
  using assms by (cases rule: handle_registry_cases; simp add: registered_ok_def)+

lemma auto_turn_funds:
  assumes "limited_to n h"
  shows "limited_to n (fst (auto_turn s h))
    \<and> paid is_dv_spawn (snd (auto_turn s h)) + restarts_left n (fst (auto_turn s h))
        \<le> restarts_left n h + n * paid is_budget_reset (snd (auto_turn s h))"
proof (cases s)
  case (Tick cfg env lock_free now)
  then show ?thesis
    using supervise_driver_funds [OF _ assms] by (auto split: prod.splits)
next
  case (Beat env hb)
  then show ?thesis
    using assms by (simp add: store_heartbeat_on_handle_def limited_to_def only_automatic_def restarts_left_def)
next
  case (Registers cfg env reg)
  obtain h' evs where "handle_registry cfg env reg h = (h', evs)"
    by (metis surj_pair)
  with handle_registry_spec [OF this] assms Registers show ?thesis
    by (simp add: limited_to_def restarts_left_def)
qed

interpretation driver_restarts: funded_steps auto_turn "limited_to n" is_dv_spawn is_budget_reset n "restarts_left n" for n
  by unfold_locales (use auto_turn_funds in \<open>auto simp: restarts_left_def\<close>)

end
