(* ===== verification/Driver_Race.thy ===== *)
theory Driver_Race
  imports Driver_Supervision_Proofs
begin

text \<open>
  An operator's start or stop of a driver, on a lifecycle worker, interleaved with the
  manager's thread: a state is the handle of the driver together with how far the worker is
  in its operation and how far the manager is in handling a registration. The two threads
  switch between the phases of \<open>Driver_Supervision\<close>, each of which runs as a whole. The
  lifecycle lock of the device lets one operation run at a time and makes a supervision pass
  skip the device while it runs; registrations and heartbeats do not take the lock.
\<close>

section \<open>States and steps\<close>

datatype worker_pc =
    WorkerIdle
  | Prepared heartbeat_memo
  | Launched int
  | ChildNoted
  | StateSettled
  | StopBegun bool
  | StopAlive bool

datatype register_pc =
    NotRegistering
  | Checked registration
  | Recorded registration
  | Promoted registration

record driver_race =
  ra_handle :: dhandle
  ra_worker :: worker_pc
  ra_register :: register_pc

definition race_start :: "dhandle \<Rightarrow> driver_race" where
  "race_start h = \<lparr>ra_handle = h, ra_worker = WorkerIdle, ra_register = NotRegistering\<rparr>"

text \<open>A registration that has passed the generation check and has not made the driver RUNNING yet.\<close>

fun midway :: "register_pc \<Rightarrow> bool" where
  "midway (Checked _) = True"
| "midway (Recorded _) = True"
| "midway _ = False"

text \<open>The phases of the worker's operation, and those of the manager's thread.\<close>

inductive worker_step :: "driver_race \<Rightarrow> driver_race \<Rightarrow> bool" where
  prepare: "\<lbrakk>ra_worker r = WorkerIdle; \<not> start_refused env (ra_handle r)\<rbrakk> \<Longrightarrow>
    worker_step r (r\<lparr>ra_handle := prepare_start (ra_handle r), ra_worker := Prepared (previous_heartbeat (ra_handle r))\<rparr>)"
| launch: "\<lbrakk>ra_worker r = Prepared prev; de_spawn (env :: driver_env) = Inr pid\<rbrakk> \<Longrightarrow>
    worker_step r (r\<lparr>ra_handle := (ra_handle r)\<lparr>dh_process := True\<rparr>, ra_worker := Launched pid\<rparr>)"
| launch_fails: "\<lbrakk>ra_worker r = Prepared prev; spawn_failed prev msg (ra_handle r) = (res, h', evs)\<rbrakk> \<Longrightarrow>
    worker_step r (r\<lparr>ra_handle := h', ra_worker := WorkerIdle\<rparr>)"
| note_pid: "ra_worker r = Launched pid \<Longrightarrow>
    worker_step r (r\<lparr>ra_handle := note_child pid (ra_handle r), ra_worker := ChildNoted\<rparr>)"
| settle: "ra_worker r = ChildNoted \<Longrightarrow>
    worker_step r (r\<lparr>ra_handle := settle_starting (ra_handle r), ra_worker := StateSettled\<rparr>)"
| announce: "ra_worker r = StateSettled \<Longrightarrow> worker_step r (r\<lparr>ra_worker := WorkerIdle\<rparr>)"
| stop_begins: "\<lbrakk>ra_worker r = WorkerIdle; begin_stop cfg env (ra_handle r) = (h', evs)\<rbrakk> \<Longrightarrow>
    worker_step r (r\<lparr>ra_handle := h', ra_worker := StopBegun force\<rparr>)"
| stop_gone: "\<lbrakk>ra_worker r = StopBegun force; \<not> dh_process (ra_handle r) \<or> de_poll (env :: driver_env) DvStop \<noteq> None;
      stopped_already (ra_handle r) = (h', evs)\<rbrakk> \<Longrightarrow>
    worker_step r (r\<lparr>ra_handle := h', ra_worker := WorkerIdle\<rparr>)"
| stop_alive: "\<lbrakk>ra_worker r = StopBegun force; dh_process (ra_handle r); de_poll (env :: driver_env) DvStop = None\<rbrakk> \<Longrightarrow>
    worker_step r (r\<lparr>ra_worker := StopAlive force\<rparr>)"
| stop_ends: "\<lbrakk>ra_worker r = StopAlive force; finish_stop env force (ra_handle r) = (h', evs)\<rbrakk> \<Longrightarrow>
    worker_step r (r\<lparr>ra_handle := h', ra_worker := WorkerIdle\<rparr>)"

inductive manager_step :: "driver_race \<Rightarrow> driver_race \<Rightarrow> bool" where
  heartbeat: "ra_register r = NotRegistering \<Longrightarrow>
    manager_step r (r\<lparr>ra_handle := store_heartbeat_on_handle env hb (ra_handle r)\<rparr>)"
| supervision: "\<lbrakk>ra_register r = NotRegistering;
      supervise_device_driver cfg env (ra_worker r = WorkerIdle) now (ra_handle r) = (res, h', evs)\<rbrakk> \<Longrightarrow>
    manager_step r (r\<lparr>ra_handle := h'\<rparr>)"
| check: "\<lbrakk>ra_register r = NotRegistering; \<not> registration_obsolete reg (ra_handle r)\<rbrakk> \<Longrightarrow>
    manager_step r (r\<lparr>ra_register := Checked reg\<rparr>)"
| recorded: "\<lbrakk>ra_register r = Checked reg; record_registration reg (ra_handle r) = (h', evs)\<rbrakk> \<Longrightarrow>
    manager_step r (r\<lparr>ra_handle := h', ra_register := Recorded reg\<rparr>)"
| promote: "ra_register r = Recorded reg \<Longrightarrow>
    manager_step r (r\<lparr>ra_handle := promote_registered cfg env (ra_handle r), ra_register := Promoted reg\<rparr>)"
| announced: "\<lbrakk>ra_register r = Promoted reg; announce_registered reg (ra_handle r) = (h', evs)\<rbrakk> \<Longrightarrow>
    manager_step r (r\<lparr>ra_handle := h', ra_register := NotRegistering\<rparr>)"

text \<open>
  Runs of the two threads. The flag records whether the worker prepared a start while a
  registration was midway.
\<close>

definition splits_registration :: "driver_race \<Rightarrow> driver_race \<Rightarrow> bool" where
  "splits_registration r r' = (midway (ra_register r) \<and> dh_generation (ra_handle r') \<noteq> dh_generation (ra_handle r))"

inductive race_reach :: "dhandle \<Rightarrow> bool \<Rightarrow> driver_race \<Rightarrow> bool" for h where
  race_init: "race_reach h False (race_start h)"
| race_worker: "\<lbrakk>race_reach h split r; worker_step r r'\<rbrakk> \<Longrightarrow> race_reach h (split \<or> splits_registration r r') r'"
| race_manager: "\<lbrakk>race_reach h split r; manager_step r r'\<rbrakk> \<Longrightarrow> race_reach h split r'"

section \<open>The generation of a running driver\<close>

text \<open>What a registration that is midway has established.\<close>

fun register_ok :: "register_pc \<Rightarrow> dhandle \<Rightarrow> bool" where
  "register_ok (Checked reg) h = (0 < dh_generation h \<longrightarrow> rg_generation reg = Some (dh_generation h))"
| "register_ok (Recorded reg) h = (0 < dh_generation h \<longrightarrow> dh_registered_generation h = Some (dh_generation h))"
| "register_ok _ h = True"

definition race_ok :: "driver_race \<Rightarrow> bool" where
  "race_ok r = (registered_ok (ra_handle r) \<and> register_ok (ra_register r) (ra_handle r))"

text \<open>A phase that leaves the generations alone and does not make the driver RUNNING keeps both.\<close>

definition race_steady :: "dhandle \<Rightarrow> dhandle \<Rightarrow> bool" where
  "race_steady h h' =
     (dh_generation h' = dh_generation h \<and> dh_registered_generation h' = dh_registered_generation h
      \<and> (dh_state h' = RUNNING \<longrightarrow> dh_state h = RUNNING))"

lemma race_steady_ok: "\<lbrakk>race_steady h h'; registered_ok h\<rbrakk> \<Longrightarrow> registered_ok h'"
  "\<lbrakk>race_steady h h'; register_ok pc h\<rbrakk> \<Longrightarrow> register_ok pc h'"
  by (cases pc; simp add: race_steady_def registered_ok_def)+

lemma worker_phases_steady:
  "race_steady h (h\<lparr>dh_process := True\<rparr>)" "race_steady h (note_child pid h)" "race_steady h (settle_starting h)"
  "begin_stop cfg env h = (h', evs) \<Longrightarrow> race_steady h h'"
  "stopped_already h = (h', evs) \<Longrightarrow> race_steady h h'"
  "finish_stop env force h = (h', evs) \<Longrightarrow> race_steady h h'"
  "spawn_failed prev msg h = (res, h', evs) \<Longrightarrow> race_steady h h'"
  by (auto simp: race_steady_def begin_stop_def mark_device_offline_def stopped_already_def finish_stop_def
      spawn_failed_def Let_def split: if_splits option.splits prod.splits)

lemma worker_step_ok:
  assumes "worker_step r r'" "race_ok r" "\<not> splits_registration r r'"
  shows "race_ok r'"
  using assms
proof cases
  case (prepare env)
  then have "register_ok (ra_register r) (prepare_start (ra_handle r))"
    using assms(3) by (cases "ra_register r") (auto simp: splits_registration_def)
  with prepare show ?thesis by (simp add: race_ok_def registered_ok_def)
qed (auto simp: race_ok_def intro: race_steady_ok worker_phases_steady)

lemma manager_step_ok:
  assumes "manager_step r r'" "race_ok r"
  shows "race_ok r'"
  using assms
proof cases
  case (heartbeat env hb)
  with assms(2) show ?thesis by (simp add: race_ok_def registered_ok_def store_heartbeat_on_handle_def)
next
  case (supervision cfg env now res h' evs)
  with assms(2) supervise_driver_registered show ?thesis by (auto simp: race_ok_def)
next
  case (check reg)
  with assms(2) show ?thesis by (auto simp: race_ok_def registration_obsolete_def)
next
  case (recorded reg h' evs)
  with assms(2) record_registration_spec [OF recorded(3)] show ?thesis by (simp add: race_ok_def registered_ok_def)
next
  case (promote reg cfg env)
  with assms(2) show ?thesis by (simp add: race_ok_def registered_ok_def)
next
  case (announced reg h' evs)
  with assms(2) announce_registered_spec [OF announced(3)] show ?thesis by (simp add: race_ok_def registered_ok_def)
qed

lemma race_reach_ok:
  assumes "race_reach h split r" "registered_ok h"
  shows "\<not> split \<Longrightarrow> race_ok r"
  using assms
proof (induction rule: race_reach.induct)
  case race_init
  then show ?case by (simp add: race_ok_def race_start_def)
next
  case (race_worker split r r')
  then show ?case using worker_step_ok by blast
next
  case (race_manager split r r')
  then show ?case using manager_step_ok by blast
qed

section \<open>A start in the middle of a registration\<close>

text \<open>
  The proviso is needed. When the worker prepares a start after the manager has checked a
  registration of the generation before, the manager records that registration and makes the
  new launch RUNNING with it: the driver is RUNNING under a generation that has not registered,
  with the endpoints of the process that is gone.
\<close>

lemma start_splits_registration:
  fixes reg :: registration and cfg :: driver_cfg
  assumes "0 < dh_generation h" "rg_generation reg = Some (dh_generation h)" "\<not> start_refused env h"
  shows "\<exists>r. race_reach h True r \<and> dh_state (ra_handle r) = RUNNING
    \<and> dh_generation (ra_handle r) = dh_generation h + 1 \<and> dh_registered_generation (ra_handle r) = Some (dh_generation h)
    \<and> dh_rpc_endpoint (ra_handle r) = Some (rg_rpc_endpoint reg)"
proof -
  define r1 where "r1 = (race_start h)\<lparr>ra_register := Checked reg\<rparr>"
  define r2 where "r2 = r1\<lparr>ra_handle := prepare_start h, ra_worker := Prepared (previous_heartbeat h)\<rparr>"
  define r3 where "r3 = r2\<lparr>ra_handle := fst (record_registration reg (prepare_start h)), ra_register := Recorded reg\<rparr>"
  define r4 where "r4 = r3\<lparr>ra_handle := promote_registered cfg env (ra_handle r3), ra_register := Promoted reg\<rparr>"
  have one: "race_reach h False r1"
    unfolding r1_def by (rule race_manager [OF race_init check]) (simp_all add: race_start_def registration_obsolete_def assms(2))
  have "worker_step r1 r2"
    using prepare [of r1 env] assms(3) by (simp add: r1_def r2_def race_start_def)
  moreover have "splits_registration r1 r2"
    by (simp add: splits_registration_def r1_def r2_def race_start_def)
  ultimately have two: "race_reach h True r2"
    using race_worker [OF one, of r2] by simp
  have three: "race_reach h True r3"
    unfolding r3_def
    by (rule race_manager [OF two recorded]) (simp_all add: r1_def r2_def record_registration_def)
  have four: "race_reach h True r4"
    unfolding r4_def by (rule race_manager [OF three promote]) (simp add: r3_def)
  have "dh_state (ra_handle r3) = STARTING" "dh_rpc_endpoint (ra_handle r3) = Some (rg_rpc_endpoint reg)"
    "dh_generation (ra_handle r3) = dh_generation h + 1" "dh_registered_generation (ra_handle r3) = Some (dh_generation h)"
    by (simp_all add: r3_def r2_def record_registration_def assms(2))
  then show ?thesis
    using four by (intro exI [of _ r4]) (simp add: r4_def promote_registered_def Let_def)
qed

end
