(* ===== verification/Driver_Supervision_Props.thy ===== *)
theory Driver_Supervision_Props
  imports Driver_Race
begin

text \<open>The properties of driver supervision, each with a driver for which its hypotheses hold.\<close>

section \<open>A driver for the witnesses\<close>

definition laser_spec :: device_spec where
  "laser_spec = \<lparr>ds_device_id = ''laser'', ds_hard_timeout_s = None, ds_restart_on_heartbeat_timeout = True,
     ds_stop_timeout_s = 3, ds_kill_timeout_s = 3, ds_restart_backoff_s = 1 / 2, ds_max_restarts = Some 2,
     ds_restart_healthy_reset_s = 300\<rparr>"

definition laser_handle :: dhandle where
  "laser_handle = (device_handle laser_spec)
     \<lparr>dh_process := True, dh_state := RUNNING, dh_pid := Some 7, dh_popen_pid := Some 7, dh_generation := 1,
      dh_registered_generation := Some 1, dh_running_since := Some 0, dh_last_hb_recv := Some 10\<rparr>"

definition laser_env :: "rat \<Rightarrow> driver_env" where
  "laser_env t = \<lparr>de_poll = (\<lambda>_. None), de_terminate = None, de_kill = None, de_spawn = Inr 8, de_child_pid = 7, de_mono = t,
     de_signal = (\<lambda>_. None), de_fmt1 = (\<lambda>_. ''0.0'')\<rparr>"

definition laser_cfg :: driver_cfg where
  "laser_cfg = \<lparr>dc_sup = \<lparr>sc_stall_warn_s = 1, sc_current_pump_start = None, sc_current_pump_gap = None,
       sc_last_loop_stall = None, sc_last_loop_stall_duration = None, sc_stall_recent_s = 10, sc_startup_active = False,
       sc_startup_complete = None, sc_startup_grace_s = 10, sc_startup_grace_hard_s = 30, sc_hard_multiplier = 3,
       sc_strikes_to_fail = 2, sc_reconcile_multiplier = 5 / 4\<rparr>,
     dc_heartbeat_timeout_s = 3, dc_heartbeat_hard_timeout_s = 15\<rparr>"

lemmas laser_defs = laser_spec_def laser_handle_def laser_env_def laser_cfg_def device_handle_def

section \<open>Properties\<close>

text \<open>
  C23. The heartbeat policy of drivers implements a switch with two positions. For a running
  driver a check reports the change from fresh to stale once, the change back once, and
  nothing in between, where only an episode of the present generation counts; and it fails
  the driver exactly when the heartbeat is past both the soft and the hard timeout.
\<close>
theorem driver_heartbeat_is_a_switch:
  assumes "dh_state h = RUNNING" "liveness_ref h = Some ref" "age = max 0 (now - ref)"
    and "enforce_device_driver_heartbeat_timeout cfg env now h = (h', evs)"
  shows "soft_signals evs = snd (stale_switch (episode_open h) (dc_heartbeat_timeout_s cfg < age))
    \<and> dh_state h' = (if dc_heartbeat_timeout_s cfg < age \<and> hard_timeout_for cfg h \<le> age then FAILED else RUNNING)
    \<and> (dh_state h' = RUNNING \<longrightarrow> episode_open h' = fst (stale_switch (episode_open h) (dc_heartbeat_timeout_s cfg < age)))"
  using heartbeat_check_refines_switch [OF assms] by blast

theorem driver_heartbeat_is_a_switch_witness:
  "\<exists>h' evs. enforce_device_driver_heartbeat_timeout laser_cfg (laser_env 14) 14 laser_handle = (h', evs)
     \<and> soft_signals evs = [Went_stale] \<and> dh_state h' = RUNNING \<and> episode_open h'"
proof -
  obtain h' evs where check: "enforce_device_driver_heartbeat_timeout laser_cfg (laser_env 14) 14 laser_handle = (h', evs)"
    by (metis surj_pair)
  have "liveness_ref laser_handle = Some 10" "dh_state laser_handle = RUNNING" "\<not> episode_open laser_handle"
    "dc_heartbeat_timeout_s laser_cfg = 3" "hard_timeout_for laser_cfg laser_handle = 15"
    by (simp_all add: liveness_ref_def heartbeat_from_current_run_def episode_open_def hard_timeout_for_def laser_defs)
  with driver_heartbeat_is_a_switch [of laser_handle 10 4 14 laser_cfg "laser_env 14" h' evs] check show ?thesis
    by (simp add: stale_switch_def)
qed

text \<open>
  C24. Automatic restarts are budgeted. Over any sequence of supervision passes, heartbeats and
  registrations of a driver with a restart limit, the manager launches it at most as often as
  it has restarts left, plus the whole limit again for every time a healthy run has reset the
  budget.
\<close>
theorem automatic_restarts_bounded:
  assumes "ds_max_restarts (dh_spec h) = Some n" "0 \<le> n" "dh_next_restart h \<noteq> None \<longrightarrow> dh_restart_is_automatic h"
  shows "paid is_dv_spawn (snd (run_steps auto_turn steps h))
    \<le> max 0 (n - dh_restart_count h) + n * paid is_budget_reset (snd (run_steps auto_turn steps h))"
  using driver_restarts.run_within_funds [of n h steps] assms
  by (simp add: limited_to_def only_automatic_def restarts_left_def)

theorem automatic_restarts_bounded_witness:
  "paid is_dv_spawn (snd (run_steps auto_turn
      [Tick laser_cfg (laser_env 30) True 30, Tick laser_cfg ((laser_env 40)\<lparr>de_poll := (\<lambda>_. Some (-15))\<rparr>) True 40] laser_handle))
   \<le> 2 + 2 * paid is_budget_reset (snd (run_steps auto_turn
      [Tick laser_cfg (laser_env 30) True 30, Tick laser_cfg ((laser_env 40)\<lparr>de_poll := (\<lambda>_. Some (-15))\<rparr>) True 40] laser_handle))"
proof -
  have "ds_max_restarts (dh_spec laser_handle) = Some 2" "dh_next_restart laser_handle = None" "dh_restart_count laser_handle = 0"
    by (simp_all add: laser_defs)
  with automatic_restarts_bounded [of laser_handle 2] show ?thesis by (simp del: run_steps.simps)
qed

text \<open>
  C12. A driver is RUNNING only under its present generation. Whatever the order of supervision,
  heartbeats, registrations (late ones of processes that are gone included) and operator's
  starts and stops, whose phases run on another thread, a driver that the manager has launched
  and that is RUNNING has registered with the generation of its last launch, provided no
  operator's start was prepared between the generation check of a registration and the
  promotion that follows it. Without that proviso it fails: see \<open>start_splits_registration\<close>.
\<close>
theorem running_driver_registered_this_generation:
  assumes "dh_generation h = 0 \<or> dh_state h \<noteq> RUNNING" and "race_reach h False r"
    and "dh_state (ra_handle r) = RUNNING" "0 < dh_generation (ra_handle r)"
  shows "dh_registered_generation (ra_handle r) = Some (dh_generation (ra_handle r))"
proof -
  have "registered_ok h" using assms(1) by (auto simp: registered_ok_def)
  then show ?thesis
    using race_reach_ok [OF assms(2)] assms(3,4) by (simp add: race_ok_def registered_ok_def)
qed

text \<open>A driver is launched and registers while the worker has not finished the launch.\<close>

definition laser_registration :: registration where
  "laser_registration = \<lparr>rg_rpc_endpoint = ''tcp://rpc'', rg_pub_endpoint = ''tcp://pub'', rg_capabilities = PNone,
     rg_generation = Some 1\<rparr>"

definition quick_child :: driver_race where
  "quick_child = \<lparr>ra_handle = promote_registered laser_cfg (laser_env 3) (fst (record_registration laser_registration
       ((prepare_start (device_handle laser_spec))\<lparr>dh_process := True\<rparr>))),
     ra_worker = Launched 8, ra_register = Promoted laser_registration\<rparr>"

lemma quick_child_reached: "race_reach (device_handle laser_spec) False quick_child"
proof -
  let ?h = "device_handle laser_spec" let ?h1 = "prepare_start ?h" let ?h2 = "?h1\<lparr>dh_process := True\<rparr>"
  have "race_reach ?h False ((race_start ?h)\<lparr>ra_handle := ?h1, ra_worker := Prepared (previous_heartbeat ?h)\<rparr>)"
    using race_worker [OF race_init prepare [of "race_start ?h" "laser_env 1"]]
    by (simp add: race_start_def start_refused_def laser_defs splits_registration_def)
  from race_worker [OF this launch [of _ _ "laser_env 2" 8]]
  have "race_reach ?h False \<lparr>ra_handle = ?h2, ra_worker = Launched 8, ra_register = NotRegistering\<rparr>"
    by (simp add: race_start_def splits_registration_def laser_env_def)
  from race_manager [OF this check [of _ laser_registration]]
  have "race_reach ?h False \<lparr>ra_handle = ?h2, ra_worker = Launched 8, ra_register = Checked laser_registration\<rparr>"
    by (simp add: registration_obsolete_def laser_registration_def device_handle_def)
  from race_manager [OF this recorded [OF _ surjective_pairing]]
  have "race_reach ?h False \<lparr>ra_handle = fst (record_registration laser_registration ?h2), ra_worker = Launched 8,
      ra_register = Recorded laser_registration\<rparr>"
    by simp
  from race_manager [OF this promote [of _ laser_registration laser_cfg "laser_env 3"]] show ?thesis
    by (simp add: quick_child_def)
qed

theorem running_driver_registered_this_generation_witness:
  "race_reach (device_handle laser_spec) False quick_child \<and> ra_worker quick_child = Launched 8
   \<and> dh_state (ra_handle quick_child) = RUNNING \<and> dh_registered_generation (ra_handle quick_child) = Some 1"
proof -
  have run: "dh_state (ra_handle quick_child) = RUNNING" "dh_generation (ra_handle quick_child) = 1"
    by (simp_all add: quick_child_def promote_registered_def record_registration_def device_handle_def)
  from running_driver_registered_this_generation [OF _ quick_child_reached run(1)] run
  have "dh_registered_generation (ra_handle quick_child) = Some 1" by (simp add: device_handle_def)
  with run quick_child_reached show ?thesis by (simp add: quick_child_def)
qed

end
