(* ===== verification/Watchdog.thy ===== *)
theory Watchdog
  imports Interlock Responses
begin

text \<open>
  The watchdog process, \<open>processes/watchdog.py\<close>: rulesets and their parsing, the evaluation of a
  rule (telemetry, arming, alarm, confirmation, stability, latch, cooldown), the tick over all
  rules with the action chains in flight, the chains themselves, and the operations that
  change its state by RPC.
\<close>

section \<open>Rules\<close>

datatype wd_target = CommandAction string | ProcessAction string \<comment> \<open>the device or process id\<close>

record wd_action =
  wa_target :: wd_target
  wa_action :: string
  wa_params :: items
  wa_timeout_s :: "pyfloat option"
  wa_retries :: int

record wd_arm =
  ar_condition :: pyval
  ar_disarm_condition :: "pyval option"
  ar_disarm_on_trigger :: bool

record wd_confirmation =
  cf_sample_aliases :: "string list"
  cf_consecutive_samples :: int
  cf_branch_conditions :: items

record wd_rule =
  wr_name :: string
  wr_severity :: string
  wr_message :: "string option"
  wr_telemetry :: "telemetry_binding list"
  wr_condition :: pyval
  wr_stable_for_s :: pyfloat
  wr_cooldown_s :: pyfloat
  wr_latch :: bool
  wr_on_unknown :: string
  wr_actions :: "wd_action list"
  wr_arm :: "wd_arm option"
  wr_confirmation :: "wd_confirmation option"

record wd_ruleset =
  wrs_watchdog_id :: string
  wrs_rules :: "wd_rule list"
  wrs_enabled :: bool

record wd_entry =
  we_ruleset :: wd_ruleset
  we_enabled :: bool

text \<open>The progress of an alias towards confirmation, and the state of a rule.\<close>

record wd_progress =
  pg_count :: int
  pg_last_t_mono_recv :: pyval
  pg_evidence :: "pyval list"

record rule_state =
  st_stable_since :: "pyfloat option"
  st_last_trigger :: "pyfloat option"
  st_latched :: bool
  st_armed :: bool
  st_last_evaluated :: "pyfloat option"
  st_alarm :: "bool option"
  st_unknown :: "bool option"
  st_snapshot :: pyval
  st_condition_evaluation :: pyval
  st_active_trip_id :: "string option"
  st_active_trip_recovered :: bool
  st_last_action_chain :: pyval
  st_confirmation :: "(string \<times> wd_progress) list option"

definition fresh_rule_state :: rule_state where
  "fresh_rule_state = \<lparr>st_stable_since = None, st_last_trigger = None, st_latched = False, st_armed = False,
     st_last_evaluated = None, st_alarm = None, st_unknown = None, st_snapshot = PNone, st_condition_evaluation = PNone,
     st_active_trip_id = None, st_active_trip_recovered = False, st_last_action_chain = PNone, st_confirmation = None\<rparr>"

section \<open>Parsing\<close>

definition coerce_bool :: "pyval \<Rightarrow> bool \<Rightarrow> bool" where
  "coerce_bool v dflt = (case v of PNone \<Rightarrow> dflt | PBool b \<Rightarrow> b | _ \<Rightarrow> truthy v)"

definition coerce_int :: "py_lang \<Rightarrow> pyval \<Rightarrow> int \<Rightarrow> pyexc + int" where
  "coerce_int L v dflt =
     (if v = PNone then Inr dflt
      else case py_int L v of None \<Rightarrow> Inl (ValueError ''invalid literal for int()'') | Some n \<Rightarrow> Inr n)"

definition raising :: "pyexc + 'a \<Rightarrow> parse_error + 'a" where
  "raising r = (case r of Inl e \<Rightarrow> Inl (ParseRaised e) | Inr x \<Rightarrow> Inr x)"

type_synonym wd_defaults = "pyfloat \<times> pyfloat \<times> pyfloat \<times> bool \<times> string"

definition parse_watchdog_defaults :: "py_lang \<Rightarrow> items \<Rightarrow> parse_error + wd_defaults" where
  "parse_watchdog_defaults L obj =
     res_bind (optional_dict (jget obj ''defaults'') [PKey ''defaults'']) (\<lambda>d.
     res_bind (raising (coerce_float L (jget d ''max_age_s'') (Some (Fin 2)))) (\<lambda>max_age.
     res_bind (raising (coerce_float L (jget d ''stable_for_s'') (Some (Fin 0)))) (\<lambda>stable.
     res_bind (raising (coerce_float L (jget d ''cooldown_s'') (Some (Fin 5)))) (\<lambda>cooldown.
     res_bind (parse_on_unknown (jget d ''on_unknown'') [PKey ''defaults'', PKey ''on_unknown''] ''ignore'') (\<lambda>unk.
       Inr (max_age, stable, cooldown, coerce_bool (jget d ''latch'') False, unk))))))"

definition parse_watchdog_arm :: "items \<Rightarrow> nat \<Rightarrow> parse_error + wd_arm option" where
  "parse_watchdog_arm rule_raw i =
     (if jget rule_raw ''arm'' = PNone then Inr None
      else
      res_bind (require_dict (jget rule_raw ''arm'') [PKey ''rules'', PIdx i, PKey ''arm'']) (\<lambda>arm.
        if \<not> dhas arm ''condition'' then Inl (ConfigError (rule_at i ''arm.condition'') ''condition is required'')
        else Inr (Some \<lparr>ar_condition = jget arm ''condition'',
          ar_disarm_condition = (if jget arm ''disarm_condition'' = PNone then None else Some (jget arm ''disarm_condition'')),
          ar_disarm_on_trigger = coerce_bool (jget arm ''disarm_on_trigger'') False\<rparr>)))"

fun parse_branches :: "nat \<Rightarrow> nat \<Rightarrow> pyval list \<Rightarrow> parse_error + (string list \<times> items)" where
  "parse_branches i k [] = Inr ([], [])"
| "parse_branches i k (raw # raws) =
     (let here = [PKey ''rules'', PIdx i, PKey ''confirmation'', PKey ''any'', PIdx k] in
      res_bind (require_dict raw here) (\<lambda>b.
      res_bind (require_str (jget b ''sample_alias'') (here @ [PKey ''sample_alias''])) (\<lambda>alias.
        if \<not> dhas b ''condition''
        then Inl (ConfigError (rule_at i (''confirmation.any['' @ digits_of k @ ''].condition'')) ''condition is required'')
        else
        res_bind (parse_branches i (Suc k) raws) (\<lambda>(aliases, conds).
          Inr (alias # aliases, (alias, jget b ''condition'') # conds)))))"

text \<open>\<open>sorted(...)\<close> of texts.\<close>

definition parse_confirmation_aliases :: "items \<Rightarrow> nat \<Rightarrow> parse_error + (string list \<times> items)" where
  "parse_confirmation_aliases obj i =
     (if jget obj ''any'' = PNone
      then res_bind (require_str (jget obj ''sample_alias'') [PKey ''rules'', PIdx i, PKey ''confirmation'', PKey ''sample_alias''])
             (\<lambda>alias. Inr ([alias], []))
      else if dhas obj ''sample_alias''
      then Inl (ConfigError (rule_at i ''confirmation'') ''use sample_alias or any, not both'')
      else
      res_bind (normalize_list (jget obj ''any'') [PKey ''rules'', PIdx i, PKey ''confirmation'', PKey ''any'']) (\<lambda>branches.
        if branches = [] \<or> \<not> list_all is_dict branches
        then Inl (ConfigError (rule_at i ''confirmation.any'') ''must be a non-empty list of objects'')
        else parse_branches i 0 branches))"

definition parse_watchdog_confirmation ::
  "py_lang \<Rightarrow> items \<Rightarrow> nat \<Rightarrow> telemetry_binding list \<Rightarrow> parse_error + wd_confirmation option" where
  "parse_watchdog_confirmation L rule_raw i telemetry =
     (if jget rule_raw ''confirmation'' = PNone then Inr None
      else
      res_bind (require_dict (jget rule_raw ''confirmation'') [PKey ''rules'', PIdx i, PKey ''confirmation'']) (\<lambda>obj.
      res_bind (parse_confirmation_aliases obj i) (\<lambda>(aliases, conds).
        if \<not> distinct aliases
        then Inl (ConfigError (rule_at i ''confirmation'') ''sample aliases must be unique'')
        else
        let unknown = filter (\<lambda>a. a \<notin> tb_alias ` set telemetry) aliases in
        if unknown \<noteq> []
        then Inl (ConfigError (rule_at i ''confirmation'')
               (''sample alias is not a telemetry input: '' @ py_repr L (PList (map PStr (sorted_texts unknown)))))
        else
        res_bind (raising (coerce_int L (jget obj ''consecutive_samples'') 0)) (\<lambda>n.
          if n \<le> 0
          then Inl (ConfigError (rule_at i ''confirmation.consecutive_samples'') ''must be a positive integer'')
          else Inr (Some \<lparr>cf_sample_aliases = aliases, cf_consecutive_samples = n, cf_branch_conditions = conds\<rparr>)))))"

definition parse_timeout :: "py_lang \<Rightarrow> pyval \<Rightarrow> pyexc + pyfloat option" where
  "parse_timeout L v =
     (if v = PNone then Inr None else case py_float L v of None \<Rightarrow> Inl (float_error v) | Some f \<Rightarrow> Inr (Some f))"

definition parse_watchdog_action :: "py_lang \<Rightarrow> nat \<Rightarrow> nat \<Rightarrow> pyval \<Rightarrow> parse_error + wd_action" where
  "parse_watchdog_action L i k raw =
     (let at_action = ''actions['' @ digits_of k @ '']'' in
      case as_dict raw of
        None \<Rightarrow> Inl (ConfigError (rule_at i at_action) ''must be an object/dict'')
      | Some d \<Rightarrow>
          if dhas d ''command'' = dhas d ''process''
          then Inl (ConfigError (rule_at i at_action)
                 (''each action must be exactly one of '' @ repr_str ''command'' @ '' or '' @ repr_str ''process''))
          else
          let kind = (if dhas d ''command'' then ''command'' else ''process'');
              here = [PKey ''rules'', PIdx i, PKey ''actions'', PIdx k, PKey kind] in
          res_bind (require_dict (jget d kind) here) (\<lambda>spec.
          res_bind (require_str (jget spec ''action'') (here @ [PKey ''action''])) (\<lambda>action.
          case as_dict (py_or (dget spec ''params'' (PDict [])) (PDict [])) of
            None \<Rightarrow> Inl (ConfigError (rule_at i (at_action @ ''.'' @ kind @ ''.params'')) ''params must be a dict'')
          | Some params \<Rightarrow>
              res_bind (raising (parse_timeout L (jget spec ''timeout_s''))) (\<lambda>timeout.
              res_bind (raising (coerce_int L (jget spec ''retries'') 0)) (\<lambda>retries.
              res_bind (if kind = ''command''
                        then res_bind (require_str (jget spec ''device_id'') (here @ [PKey ''device_id''])) (\<lambda>x. Inr (CommandAction x))
                        else res_bind (require_str (jget spec ''process_id'') (here @ [PKey ''process_id''])) (\<lambda>x. Inr (ProcessAction x)))
                (\<lambda>target. Inr \<lparr>wa_target = target, wa_action = action, wa_params = params, wa_timeout_s = timeout,
                               wa_retries = max 0 retries\<rparr>))))))"

fun parse_actions_from :: "py_lang \<Rightarrow> nat \<Rightarrow> nat \<Rightarrow> pyval list \<Rightarrow> parse_error + wd_action list" where
  "parse_actions_from L i k [] = Inr []"
| "parse_actions_from L i k (raw # raws) =
     res_bind (parse_watchdog_action L i k raw) (\<lambda>a.
     res_bind (parse_actions_from L i (Suc k) raws) (\<lambda>rest. Inr (a # rest)))"

definition parse_watchdog_actions :: "py_lang \<Rightarrow> items \<Rightarrow> nat \<Rightarrow> parse_error + wd_action list" where
  "parse_watchdog_actions L rule_raw i =
     res_bind (normalize_list (jget rule_raw ''actions'') [PKey ''rules'', PIdx i, PKey ''actions'']) (\<lambda>raws.
       if raws = [] then Inl (ConfigError (rule_at i ''actions'') ''actions are required'')
       else parse_actions_from L i 0 raws)"

definition parse_watchdog_rule ::
  "py_lang \<Rightarrow> string \<Rightarrow> wd_defaults \<Rightarrow> string list \<Rightarrow> nat \<Rightarrow> items \<Rightarrow> parse_error + wd_rule" where
  "parse_watchdog_rule L watchdog_id defaults seen i raw =
     (case defaults of (max_age, stable0, cooldown, latch, unk) \<Rightarrow>
      let field_path = (\<lambda>k. [PKey ''rules'', PIdx i, PKey k]) in
      res_bind (require_str (jget raw ''name'') (field_path ''name'')) (\<lambda>name.
        if name \<in> set seen
        then Inl (ConfigError (rule_at i ''name'')
               (''duplicate rule '' @ repr_str name @ '' in watchdog '' @ repr_str watchdog_id))
        else
        res_bind (parse_severity (jget raw ''severity'') (field_path ''severity'')) (\<lambda>severity.
        res_bind (optional_dict (jget raw ''inputs'') (field_path ''inputs'')) (\<lambda>inputs.
        res_bind (parse_telemetry_bindings L (PDict inputs) (field_path ''inputs'') max_age True False) (\<lambda>telemetry.
          if \<not> dhas raw ''condition'' then Inl (ConfigError (rule_at i ''condition'') ''condition is required'')
          else
          res_bind (raising (coerce_float L (jget raw ''stable_for_s'') (Some stable0))) (\<lambda>stable_for.
          res_bind (raising (coerce_float L (jget raw ''cooldown_s'') (Some cooldown))) (\<lambda>cool.
          res_bind (parse_on_unknown (jget raw ''on_unknown'') (field_path ''on_unknown'') unk) (\<lambda>on_unknown.
          res_bind (parse_watchdog_arm raw i) (\<lambda>arm.
          res_bind (parse_watchdog_confirmation L raw i telemetry) (\<lambda>confirmation.
          res_bind (parse_watchdog_actions L raw i) (\<lambda>actions.
            Inr \<lparr>wr_name = name, wr_severity = severity,
                 wr_message = (if jget raw ''message'' = PNone then None else Some (py_str L (jget raw ''message''))),
                 wr_telemetry = telemetry, wr_condition = jget raw ''condition'',
                 wr_stable_for_s = fmax (Fin 0) stable_for, wr_cooldown_s = fmax (Fin 0) cool,
                 wr_latch = coerce_bool (jget raw ''latch'') latch, wr_on_unknown = on_unknown, wr_actions = actions,
                 wr_arm = arm, wr_confirmation = confirmation\<rparr>)))))))))))"

fun parse_watchdog_rules ::
  "py_lang \<Rightarrow> string \<Rightarrow> string \<Rightarrow> wd_defaults \<Rightarrow> string list \<Rightarrow> nat \<Rightarrow> items list \<Rightarrow> pyexc + wd_rule list" where
  "parse_watchdog_rules L source watchdog_id defaults seen i [] = Inr []"
| "parse_watchdog_rules L source watchdog_id defaults seen i (raw # raws) =
     (case parse_watchdog_rule L watchdog_id defaults seen i raw of
        Inl (ConfigError p msg) \<Rightarrow> Inl (ValueError (source @ '': '' @ parse_error_text (ConfigError p msg)))
      | Inl (ParseRaised e) \<Rightarrow> Inl e
      | Inr r \<Rightarrow>
          res_bind (parse_watchdog_rules L source watchdog_id defaults (wr_name r # seen) (Suc i) raws) (\<lambda>rs. Inr (r # rs)))"

definition parse_watchdog_ruleset :: "py_lang \<Rightarrow> string \<Rightarrow> pyval \<Rightarrow> pyexc + wd_ruleset" where
  "parse_watchdog_ruleset L source raw =
     res_bind (as_exc (require_dict raw [])) (\<lambda>obj.
     res_bind (as_exc (parse_version L obj False)) (\<lambda>_.
     res_bind (as_exc (require_str (jget obj ''watchdog_id'') [PKey ''watchdog_id''])) (\<lambda>watchdog_id.
     res_bind (as_exc (parse_watchdog_defaults L obj)) (\<lambda>defaults.
     res_bind (as_exc (require_list_of_dicts (jget obj ''rules'') [PKey ''rules''])) (\<lambda>raws.
     res_bind (parse_watchdog_rules L source watchdog_id defaults [] 0 raws) (\<lambda>rules.
       Inr \<lparr>wrs_watchdog_id = watchdog_id, wrs_rules = rules, wrs_enabled = coerce_bool (jget obj ''enabled'') True\<rparr>))))))"


section \<open>Telemetry\<close>

definition watchdog_age_s :: "py_lang \<Rightarrow> pyfloat \<Rightarrow> items \<Rightarrow> pyexc + pyfloat option" where
  "watchdog_age_s L now sample =
     (if jget sample ''age_s'' \<noteq> PNone
      then (case py_float L (jget sample ''age_s'') of None \<Rightarrow> Inl (float_error (jget sample ''age_s'')) | Some a \<Rightarrow> Inr (Some a))
      else if jget sample ''t_mono'' = PNone then Inr None
      else case py_float L (jget sample ''t_mono'') of
             None \<Rightarrow> Inl (float_error (jget sample ''t_mono'')) | Some t \<Rightarrow> Inr (Some (fsub now t)))"

definition opt_float :: "pyfloat option \<Rightarrow> pyval" where
  "opt_float o' = (case o' of None \<Rightarrow> PNone | Some f \<Rightarrow> PFloat f)"

definition alias_env :: "telemetry_binding \<Rightarrow> pyval \<Rightarrow> pyval \<Rightarrow> pyval \<Rightarrow> bool \<Rightarrow> pyval" where
  "alias_env b value age quality ok =
     to_attrdict (PDict [(''value'', value), (''age_s'', age), (''quality'', quality), (''device'', PStr (tb_device_id b)),
       (''signal'', PStr (tb_signal b)), (''ok'', PBool ok)])"

text \<open>A binding: its entry in the snapshot, the value of its alias, and whether it makes the rule unknown.\<close>

definition resolve_watchdog_binding ::
  "py_lang \<Rightarrow> (string \<Rightarrow> string \<Rightarrow> items option) \<Rightarrow> pyfloat \<Rightarrow> telemetry_binding \<Rightarrow> pyexc + (items \<times> pyval option \<times> bool)" where
  "resolve_watchdog_binding L get now b =
     (let entry = [(''device'', PStr (tb_device_id b)), (''signal'', PStr (tb_signal b)), (''max_age_s'', PFloat (tb_max_age_s b))] in
      case get (tb_device_id b) (tb_signal b) of
        None \<Rightarrow>
          let entry1 = entry @ [(''value'', PNone), (''quality'', PStr ''MISSING''), (''age_s'', PNone), (''ok'', PBool False)] in
          if \<not> tb_required b then Inr (entry1, Some (alias_env b PNone PNone (PStr ''MISSING'') False), False)
          else Inr (entry1, None, tb_required b)
      | Some s \<Rightarrow>
          res_bind (watchdog_age_s L now s) (\<lambda>age.
            let quality = jget s ''quality'';
                ok = (py_eq quality (PStr ''OK'') \<and> (case age of None \<Rightarrow> False | Some a \<Rightarrow> fle a (tb_max_age_s b)));
                entry1 = entry @ [(''value'', jget s ''value''), (''quality'', quality), (''age_s'', opt_float age),
                                  (''t_mono_recv'', jget s ''t_mono_recv''), (''ok'', PBool ok)]
            in if \<not> ok
               then if \<not> tb_required b then Inr (entry1, Some (alias_env b PNone (opt_float age) quality False), False)
                    else Inr (entry1, None, tb_required b)
               else Inr (entry1, Some (alias_env b (jget s ''value'') (opt_float age) quality True), False)))"

type_synonym wd_snapshot = "(string \<times> items) list"

fun resolve_watchdog_bindings ::
  "py_lang \<Rightarrow> (string \<Rightarrow> string \<Rightarrow> items option) \<Rightarrow> pyfloat \<Rightarrow> telemetry_binding list \<Rightarrow> items \<Rightarrow> wd_snapshot \<Rightarrow> bool
    \<Rightarrow> pyexc + (items \<times> wd_snapshot \<times> bool)" where
  "resolve_watchdog_bindings L get now [] env snap unk = Inr (env, snap, unk)"
| "resolve_watchdog_bindings L get now (b # bs) env snap unk =
     res_bind (resolve_watchdog_binding L get now b) (\<lambda>(entry, alias_val, is_unknown).
       resolve_watchdog_bindings L get now bs
         (case alias_val of None \<Rightarrow> env | Some v \<Rightarrow> dset (tb_alias b) v env)
         (dset (tb_alias b) entry snap) (unk \<or> is_unknown))"

definition snapshot_value :: "wd_snapshot \<Rightarrow> pyval" where
  "snapshot_value snap = PDict (map (\<lambda>(k, e). (k, PDict e)) snap)"

section \<open>The trace of a condition\<close>

fun condition_trace_value :: "pyval \<Rightarrow> pyval"
  and condition_trace_items :: "items \<Rightarrow> items"
  and condition_trace_list :: "pyval list \<Rightarrow> pyval list" where
  "condition_trace_value (PList xs) = PList (condition_trace_list xs)"
| "condition_trace_value (PDict d) = PDict (condition_trace_items d)"
| "condition_trace_value (PAttr d) = PDict (condition_trace_items d)"
| "condition_trace_value v = v"
| "condition_trace_items [] = []"
| "condition_trace_items ((k, v) # d) = (k, condition_trace_value v) # condition_trace_items d"
| "condition_trace_list [] = []"
| "condition_trace_list (x # xs) = condition_trace_value x # condition_trace_list xs"

definition TRACE_COMPARATORS :: "string list" where
  "TRACE_COMPARATORS = [''eq'', ''ne'', ''gt'', ''ge'', ''lt'', ''le'', ''abs_lt'']"

definition trace_order :: "eval_lang \<Rightarrow> ordop \<Rightarrow> pyval \<Rightarrow> pyval \<Rightarrow> eval_error + bool" where
  "trace_order E op a b =
     (case py_ord op a b of Some r \<Rightarrow> Inr r | None \<Rightarrow> Inl (EvalRaised (TypeError (op_error_text E (ordop_symbol op) [a, b]))))"

definition trace_compare :: "eval_lang \<Rightarrow> string \<Rightarrow> pyval \<Rightarrow> pyval \<Rightarrow> eval_error + bool" where
  "trace_compare E op a b =
     (if op = ''eq'' then Inr (py_eq a b)
      else if op = ''ne'' then Inr (\<not> py_eq a b)
      else if op = ''gt'' then trace_order E OGt a b
      else if op = ''ge'' then trace_order E OGe a b
      else if op = ''lt'' then trace_order E OLt a b
      else if op = ''le'' then trace_order E OLe a b
      else case py_abs a of
             Inl _ \<Rightarrow> Inl (EvalRaised (TypeError (op_error_text E ''abs'' [a])))
           | Inr a' \<Rightarrow> trace_order E OLt a' b)"

definition condition_comparison_trace :: "eval_lang \<Rightarrow> string \<Rightarrow> pyval \<Rightarrow> items \<Rightarrow> eval_error + items" where
  "condition_comparison_trace E op operands env =
     res_bind (render_pair E operands env) (\<lambda>(left, right).
     res_bind (trace_compare E op left right) (\<lambda>r.
       Inr [(''kind'', PStr ''comparison''), (''operator'', PStr op), (''result'', PBool r),
            (''left'', condition_trace_value left), (''right'', condition_trace_value right)]))"

definition condition_group_result :: "string \<Rightarrow> items list \<Rightarrow> pyval" where
  "condition_group_result op children =
     (let results = map (\<lambda>c. jget c ''result'') children in
      if op = ''and'' then
        if PBool False \<in> set results then PBool False
        else if PNone \<in> set results then PNone else PBool True
      else if PBool True \<in> set results then PBool True
      else if PNone \<in> set results then PNone else PBool False)"

definition safe_trace :: "eval_error + items \<Rightarrow> items" where
  "safe_trace r =
     (case r of
        Inr t \<Rightarrow> t
      | Inl e \<Rightarrow> [(''kind'', PStr ''error''), (''result'', PNone),
                  (''error'', PStr (if eval_error_text e \<noteq> [] then eval_error_text e else eval_error_repr e))])"

definition value_trace :: "eval_lang \<Rightarrow> string \<Rightarrow> pyval \<Rightarrow> items \<Rightarrow> eval_error + items" where
  "value_trace E kind v env =
     res_bind (render_templates E v env) (\<lambda>r.
       Inr [(''kind'', PStr kind), (''result'', PBool (truthy r)), (''resolved'', condition_trace_value r)])"

definition group_trace :: "string \<Rightarrow> items list \<Rightarrow> items" where
  "group_trace op children =
     [(''kind'', PStr ''group''), (''operator'', PStr op), (''result'', condition_group_result op children),
      (''children'', PList (map PDict children))]"

definition negation_trace :: "items \<Rightarrow> items" where
  "negation_trace child =
     [(''kind'', PStr ''not''),
      (''result'', if jget child ''result'' = PNone then PNone else PBool (\<not> truthy (jget child ''result''))),
      (''children'', PList [PDict child])]"

function condition_evaluation_trace :: "eval_lang \<Rightarrow> items \<Rightarrow> pyval \<Rightarrow> eval_error + items" where
  "condition_evaluation_trace E env v =
     (case as_dict v of
        None \<Rightarrow> value_trace E ''value'' v env
      | Some d \<Rightarrow>
          if dhas d ''always'' then value_trace E ''always'' (jget d ''always'') env
          else case List.find (dhas d) TRACE_COMPARATORS of
            Some op \<Rightarrow> condition_comparison_trace E op (jget d op) env
          | None \<Rightarrow>
              if dhas d ''and'' then
                if py_iter (jget d ''and'') = None
                then Inl (EvalRaised (TypeError (op_error_text E ''iter'' [jget d ''and''])))
                else Inr (group_trace ''and'' (map (\<lambda>c. safe_trace (condition_evaluation_trace E env c)) (cond_items (jget d ''and''))))
              else if dhas d ''or'' then
                if py_iter (jget d ''or'') = None
                then Inl (EvalRaised (TypeError (op_error_text E ''iter'' [jget d ''or''])))
                else Inr (group_trace ''or'' (map (\<lambda>c. safe_trace (condition_evaluation_trace E env c)) (cond_items (jget d ''or''))))
              else if dhas d ''not'' then
                Inr (negation_trace (safe_trace (condition_evaluation_trace E env (jget d ''not''))))
              else Inr [(''kind'', PStr ''value''), (''result'', PBool False), (''resolved'', v)])"
  by pat_completeness auto
termination
proof (relation "measure (\<lambda>(E, env, v). size v)", goal_cases)
  case (2 E env v d c)
  then show ?case by (cases v) (auto simp: size_cond_jget)
next
  case (3 E env v d c)
  then show ?case by (cases v) (auto simp: size_cond_jget)
next
  case (4 E env v d)
  then show ?case by (cases v) (auto simp: size_jget)
qed simp

declare condition_evaluation_trace.simps [simp del]


section \<open>Evaluating a rule\<close>

text \<open>The alarm, the trace kept for the status, and the errors reported to the callback.\<close>

definition evaluate_watchdog_alarm :: "eval_lang \<Rightarrow> wd_rule \<Rightarrow> items \<Rightarrow> bool \<Rightarrow> bool \<times> items \<times> eval_error list" where
  "evaluate_watchdog_alarm E rule env unknown =
     (let trace = safe_trace (condition_evaluation_trace E env (wr_condition rule)) in
      if unknown
      then (wr_on_unknown rule = ''trigger'', dset ''unknown'' (PBool True) (dset ''result'' PNone trace), [])
      else case eval_condition E env (wr_condition rule) of
             Inr alarm \<Rightarrow> (alarm, dset ''result'' (PBool alarm) trace, [])
           | Inl e \<Rightarrow> (False, dset ''error'' (PStr (if eval_error_text e \<noteq> [] then eval_error_text e else eval_error_repr e))
                        (dset ''result'' PNone trace), [e]))"

definition evaluate_watchdog_condition :: "eval_lang \<Rightarrow> pyval \<Rightarrow> items \<Rightarrow> bool \<Rightarrow> bool \<times> eval_error list" where
  "evaluate_watchdog_condition E c env unknown =
     (if unknown then (False, [])
      else case eval_condition E env c of Inr b \<Rightarrow> (b, []) | Inl e \<Rightarrow> (False, [e]))"

definition update_watchdog_armed_state ::
  "eval_lang \<Rightarrow> wd_rule \<Rightarrow> items \<Rightarrow> bool \<Rightarrow> rule_state \<Rightarrow> rule_state \<times> eval_error list" where
  "update_watchdog_armed_state E rule env unknown st =
     (case wr_arm rule of
        None \<Rightarrow> (st, [])
      | Some arm \<Rightarrow>
          let (disarm, errs1) = (case ar_disarm_condition arm of
                 None \<Rightarrow> (False, []) | Some c \<Rightarrow> evaluate_watchdog_condition E c env unknown);
              st1 = (if disarm then st\<lparr>st_armed := False\<rparr> else st);
              (arms, errs2) = evaluate_watchdog_condition E (ar_condition arm) env unknown
          in (if arms then st1\<lparr>st_armed := True\<rparr> else st1, errs1 @ errs2))"

definition watchdog_stable_ready :: "wd_rule \<Rightarrow> pyfloat \<Rightarrow> rule_state \<Rightarrow> bool \<times> rule_state" where
  "watchdog_stable_ready rule now st =
     (if fle (wr_stable_for_s rule) (Fin 0) then (True, st)
      else
      let since = (case st_stable_since st of None \<Rightarrow> now | Some t \<Rightarrow> t)
      in (fle (wr_stable_for_s rule) (fsub now since), st\<lparr>st_stable_since := Some since\<rparr>))"

definition watchdog_cooldown_ready :: "wd_rule \<Rightarrow> pyfloat \<Rightarrow> rule_state \<Rightarrow> bool" where
  "watchdog_cooldown_ready rule now st =
     (case st_last_trigger st of None \<Rightarrow> True | Some t \<Rightarrow> fle (wr_cooldown_s rule) (fsub now t))"

definition reset_watchdog_confirmation :: "rule_state \<Rightarrow> rule_state" where
  "reset_watchdog_confirmation st =
     st\<lparr>st_confirmation := map_option (map (\<lambda>(a, p). (a, p\<lparr>pg_count := 0, pg_evidence := []\<rparr>))) (st_confirmation st)\<rparr>"

definition fresh_progress :: wd_progress where
  "fresh_progress = \<lparr>pg_count = 0, pg_last_t_mono_recv = PNone, pg_evidence = []\<rparr>"

text \<open>One alias: a sample counts once, by its time of receipt.\<close>

definition confirm_alias ::
  "eval_lang \<Rightarrow> wd_confirmation \<Rightarrow> items \<Rightarrow> items \<Rightarrow> string \<Rightarrow> wd_progress \<Rightarrow> bool \<times> wd_progress" where
  "confirm_alias E cf env entry alias p =
     (let marker = jget entry ''t_mono_recv''; n = cf_consecutive_samples cf in
      if \<not> truthy (jget entry ''ok'') \<or> marker = PNone
      then (False, p\<lparr>pg_count := 0, pg_evidence := [], pg_last_t_mono_recv := marker\<rparr>)
      else if py_eq marker (pg_last_t_mono_recv p) then (pg_count p \<ge> n, p)
      else
      let p1 = p\<lparr>pg_last_t_mono_recv := marker\<rparr>;
          branch = (if dhas (cf_branch_conditions cf) alias
                    then fst (evaluate_watchdog_condition E (jget (cf_branch_conditions cf) alias) env False) else True)
      in if \<not> branch then (False, p1\<lparr>pg_count := 0, pg_evidence := []\<rparr>)
         else
         let evidence = pg_evidence p1 @
               [PDict [(''t_mono_recv'', marker), (''value'', jget entry ''value''), (''quality'', jget entry ''quality'')]];
             p2 = p1\<lparr>pg_count := pg_count p1 + 1, pg_evidence := drop (length evidence - nat n) evidence\<rparr>
         in (pg_count p2 \<ge> n, p2))"

fun confirm_aliases ::
  "eval_lang \<Rightarrow> wd_confirmation \<Rightarrow> items \<Rightarrow> wd_snapshot \<Rightarrow> string list \<Rightarrow> (string \<times> wd_progress) list
    \<Rightarrow> bool \<times> (string \<times> wd_progress) list" where
  "confirm_aliases E cf env snap [] ps = (False, ps)"
| "confirm_aliases E cf env snap (a # as) ps =
     (let (r, p) = confirm_alias E cf env (dget snap a []) a (dget ps a fresh_progress);
          (r', ps') = confirm_aliases E cf env snap as (dset a p ps)
      in (r \<or> r', ps'))"

definition watchdog_confirmation_ready ::
  "eval_lang \<Rightarrow> wd_rule \<Rightarrow> items \<Rightarrow> wd_snapshot \<Rightarrow> bool \<Rightarrow> rule_state \<Rightarrow> bool \<times> rule_state" where
  "watchdog_confirmation_ready E rule env snap alarm st =
     (case wr_confirmation rule of
        None \<Rightarrow> (True, st)
      | Some cf \<Rightarrow>
          let st1 = (if st_confirmation st = None
                     then st\<lparr>st_confirmation := Some (map (\<lambda>a. (a, fresh_progress)) (cf_sample_aliases cf))\<rparr> else st)
          in if \<not> alarm then (False, reset_watchdog_confirmation st1)
             else (case confirm_aliases E cf env snap (cf_sample_aliases cf) (the (st_confirmation st1)) of
                     (ready, ps) \<Rightarrow> (ready, st1\<lparr>st_confirmation := Some ps\<rparr>)))"

definition watchdog_confirmation_alarm :: "eval_lang \<Rightarrow> wd_rule \<Rightarrow> items \<Rightarrow> bool \<Rightarrow> bool" where
  "watchdog_confirmation_alarm E rule env alarm =
     (case wr_confirmation rule of
        None \<Rightarrow> alarm
      | Some cf \<Rightarrow>
          if cf_branch_conditions cf = [] then alarm
          else alarm \<and> list_ex (\<lambda>(_, c). fst (evaluate_watchdog_condition E c env False)) (cf_branch_conditions cf))"

definition watchdog_confirmation_gate ::
  "eval_lang \<Rightarrow> wd_rule \<Rightarrow> items \<Rightarrow> wd_snapshot \<Rightarrow> bool \<Rightarrow> bool \<Rightarrow> rule_state \<Rightarrow> bool \<times> rule_state" where
  "watchdog_confirmation_gate E rule env snap alarm unknown st =
     (if unknown \<and> wr_on_unknown rule = ''trigger'' then (True, reset_watchdog_confirmation st)
      else watchdog_confirmation_ready E rule env snap alarm st)"

text \<open>The gates a rule in alarm has to pass, and what passing them does to its state.\<close>

definition watchdog_gates ::
  "eval_lang \<Rightarrow> wd_rule \<Rightarrow> pyfloat \<Rightarrow> items \<Rightarrow> wd_snapshot \<Rightarrow> bool \<Rightarrow> rule_state \<Rightarrow> bool \<times> rule_state" where
  "watchdog_gates E rule now env snap unknown st =
     (if wr_latch rule \<and> st_latched st then (False, st)
      else
      let (confirmed, st1) = watchdog_confirmation_gate E rule env snap True unknown st;
          (ready, st2) = watchdog_stable_ready rule now st1
      in if \<not> ready \<or> \<not> confirmed \<or> \<not> watchdog_cooldown_ready rule now st2 then (False, st2)
         else
         let st3 = (if wr_latch rule then st2\<lparr>st_latched := True\<rparr> else st2);
             st4 = (case wr_arm rule of None \<Rightarrow> st3
                    | Some arm \<Rightarrow> if ar_disarm_on_trigger arm then st3\<lparr>st_armed := False\<rparr> else st3)
         in (True, st4))"

text \<open>The rule as a whole: whether it triggers, its new state, and the errors of its conditions.\<close>

definition evaluate_watchdog_rule ::
  "eval_lang \<Rightarrow> wd_rule \<Rightarrow> (string \<Rightarrow> string \<Rightarrow> items option) \<Rightarrow> pyfloat \<Rightarrow> rule_state
    \<Rightarrow> pyexc + (bool \<times> rule_state \<times> eval_error list)" where
  "evaluate_watchdog_rule E rule get now st =
     res_bind (resolve_watchdog_bindings (plain E) get now (wr_telemetry rule) [(''params'', to_attrdict (PDict []))] [] False)
       (\<lambda>(env, snap, unknown).
        let (st1, errs1) = update_watchdog_armed_state E rule env unknown st;
            (alarm0, trace, errs2) = evaluate_watchdog_alarm E rule env unknown;
            alarm = (if unknown then alarm0 else watchdog_confirmation_alarm E rule env alarm0);
            st2 = st1\<lparr>st_last_evaluated := Some now, st_alarm := Some alarm, st_unknown := Some unknown,
                      st_snapshot := snapshot_value snap, st_condition_evaluation := PDict trace\<rparr>;
            errs = errs1 @ errs2
        in if wr_arm rule \<noteq> None \<and> \<not> st_armed st2
           then Inr (False, reset_watchdog_confirmation (st2\<lparr>st_stable_since := None\<rparr>), errs)
           else if \<not> alarm
           then Inr (False, snd (watchdog_confirmation_ready E rule env snap alarm (st2\<lparr>st_stable_since := None\<rparr>)), errs)
           else case watchdog_gates E rule now env snap unknown st2 of (triggered, st3) \<Rightarrow> Inr (triggered, st3, errs))"

definition mark_watchdog_triggered :: "pyfloat \<Rightarrow> rule_state \<Rightarrow> rule_state" where
  "mark_watchdog_triggered now st = st\<lparr>st_last_trigger := Some now\<rparr>"


section \<open>The process\<close>

text \<open>
  \<open>wd_submitted\<close> are the action chains handed to the worker, oldest first; \<open>wd_inflight\<close> the
  rules whose chain is not done. \<open>wd_events\<close> are the events published, oldest first.
\<close>

type_synonym rule_key = "string \<times> string"

record watchdog =
  wd_process_id :: string
  wd_entries :: "(string \<times> wd_entry) list"
  wd_order :: "string list"
  wd_states :: "(rule_key \<times> rule_state) list"
  wd_inflight :: "rule_key list"
  wd_rule_error_last :: "(rule_key \<times> pyfloat) list"
  wd_events :: "(string \<times> items) list"
  wd_submitted :: "(rule_key \<times> string) list"
  wd_stop :: bool

definition wd_publish :: "string \<Rightarrow> items \<Rightarrow> watchdog \<Rightarrow> watchdog" where
  "wd_publish topic payload w = w\<lparr>wd_events := wd_events w @ [(topic, payload)]\<rparr>"

definition wd_set_state :: "rule_key \<Rightarrow> rule_state \<Rightarrow> watchdog \<Rightarrow> watchdog" where
  "wd_set_state key st w = w\<lparr>wd_states := dset key st (wd_states w)\<rparr>"

definition opt_bool :: "bool option \<Rightarrow> pyval" where
  "opt_bool o' = (case o' of None \<Rightarrow> PNone | Some b \<Rightarrow> PBool b)"

definition confirmation_status :: "wd_rule \<Rightarrow> rule_state \<Rightarrow> pyval" where
  "confirmation_status rule st =
     (case wr_confirmation rule of
        None \<Rightarrow> PNone
      | Some cf \<Rightarrow>
          let progress = (case st_confirmation st of None \<Rightarrow> [] | Some ps \<Rightarrow> ps) in
          PDict [(''consecutive_samples'', PInt (cf_consecutive_samples cf)),
            (''sample_aliases'', PList (map PStr (cf_sample_aliases cf))),
            (''any'', if cf_branch_conditions cf = [] then PNone
                      else PList (map (\<lambda>(a, c). PDict [(''sample_alias'', PStr a), (''condition'', c)]) (cf_branch_conditions cf))),
            (''progress'', PDict (map (\<lambda>a. (a, let p = dget progress a fresh_progress in
               PDict [(''count'', PInt (pg_count p)), (''evidence'', PList (pg_evidence p))])) (cf_sample_aliases cf)))])"

definition publish_triggered :: "string \<Rightarrow> wd_rule \<Rightarrow> rule_state \<Rightarrow> string \<Rightarrow> watchdog \<Rightarrow> watchdog" where
  "publish_triggered wid rule st trip w =
     wd_publish ''manager.watchdog.triggered''
       [(''process_id'', PStr (wd_process_id w)), (''trip_id'', PStr trip), (''watchdog_id'', PStr wid), (''rule'', PStr (wr_name rule)),
        (''severity'', PStr (wr_severity rule)),
        (''message'', PStr (case wr_message rule of Some (c # cs) \<Rightarrow> c # cs
           | _ \<Rightarrow> ''Watchdog '' @ wid @ '':'' @ wr_name rule @ '' triggered'')),
        (''alarm'', PBool True), (''unknown'', opt_bool (st_unknown st)), (''snapshot'', st_snapshot st),
        (''timing'', PDict [(''stable_for_s'', PFloat (wr_stable_for_s rule)), (''cooldown_s'', PFloat (wr_cooldown_s rule)),
           (''latched'', PBool (wr_latch rule)), (''armed'', PBool (st_armed st))]),
        (''confirmation'', confirmation_status rule st)] w"

definition publish_latched :: "string \<Rightarrow> wd_rule \<Rightarrow> rule_state \<Rightarrow> string \<Rightarrow> watchdog \<Rightarrow> watchdog" where
  "publish_latched wid rule st trip w =
     wd_publish ''manager.watchdog.latched''
       [(''process_id'', PStr (wd_process_id w)), (''trip_id'', PStr trip), (''watchdog_id'', PStr wid), (''rule'', PStr (wr_name rule)),
        (''severity'', PStr (wr_severity rule)), (''alarm'', opt_bool (st_alarm st)), (''unknown'', opt_bool (st_unknown st))] w"

definition publish_recovered :: "string \<Rightarrow> wd_rule \<Rightarrow> rule_state \<Rightarrow> string \<Rightarrow> watchdog \<Rightarrow> watchdog" where
  "publish_recovered wid rule st trip w =
     wd_publish ''manager.watchdog.recovered''
       [(''process_id'', PStr (wd_process_id w)), (''trip_id'', PStr trip), (''watchdog_id'', PStr wid), (''rule'', PStr (wr_name rule)),
        (''alarm'', PBool False), (''unknown'', opt_bool (st_unknown st)), (''latched'', PBool (st_latched st)),
        (''snapshot'', st_snapshot st), (''condition_evaluation'', st_condition_evaluation st)] w"

text \<open>The callback for a condition that raised: one event per rule every 30 seconds.\<close>

definition wd_condition_error :: "pyfloat \<Rightarrow> rule_key \<Rightarrow> eval_error \<Rightarrow> watchdog \<Rightarrow> watchdog" where
  "wd_condition_error now key e w =
     (if (case map_of (wd_rule_error_last w) key of None \<Rightarrow> False | Some t \<Rightarrow> flt (fsub now t) (Fin 30)) then w
      else wd_publish ''manager.watchdog.rule_error''
             [(''process_id'', PStr (wd_process_id w)), (''watchdog_id'', PStr (fst key)), (''rule'', PStr (snd key)),
              (''error'', PStr (eval_error_repr e))]
             (w\<lparr>wd_rule_error_last := dset key now (wd_rule_error_last w)\<rparr>))"

definition chain_record :: "string \<Rightarrow> string \<Rightarrow> pyval \<Rightarrow> wd_rule \<Rightarrow> int \<Rightarrow> items" where
  "chain_record trip state success rule failed =
     [(''trip_id'', PStr trip), (''state'', PStr state), (''success'', success), (''action_count'', PInt (int (length (wr_actions rule)))),
      (''succeeded_actions'', PInt 0), (''failed_actions'', PInt failed), (''actions'', PList [])]"

text \<open>Handing the chain to the worker; the executor may have been shut down.\<close>

definition submit_actions :: "bool \<Rightarrow> string \<Rightarrow> wd_rule \<Rightarrow> rule_key \<Rightarrow> string \<Rightarrow> rule_state \<Rightarrow> watchdog \<Rightarrow> rule_state \<times> watchdog" where
  "submit_actions executor_up wid rule key trip st w =
     (if executor_up
      then (st\<lparr>st_last_action_chain := PDict (chain_record trip ''running'' PNone rule 0)\<rparr>,
            w\<lparr>wd_submitted := wd_submitted w @ [(key, trip)]\<rparr>)
      else (st\<lparr>st_last_action_chain := PDict (chain_record trip ''error'' (PBool False) rule (int (length (wr_actions rule)))
              @ [(''error'', PStr ''action executor is unavailable'')])\<rparr>,
            wd_publish ''manager.watchdog.action_chain_error''
              [(''process_id'', PStr (wd_process_id w)), (''trip_id'', PStr trip), (''watchdog_id'', PStr wid),
               (''rule'', PStr (wr_name rule)), (''error'', PStr ''action executor is unavailable'')]
              (w\<lparr>wd_inflight := filter (\<lambda>k. k \<noteq> key) (wd_inflight w)\<rparr>)))"

definition has_trace_error :: "rule_state \<Rightarrow> bool" where
  "has_trace_error st = (case as_dict (st_condition_evaluation st) of None \<Rightarrow> False | Some d \<Rightarrow> jget d ''error'' \<noteq> PNone)"

definition note_recovery :: "string \<Rightarrow> wd_rule \<Rightarrow> rule_state \<Rightarrow> watchdog \<Rightarrow> rule_state \<times> watchdog" where
  "note_recovery wid rule st w =
     (case st_active_trip_id st of
        None \<Rightarrow> (st, w)
      | Some trip \<Rightarrow>
          if \<not> st_active_trip_recovered st \<and> st_alarm st = Some False \<and> st_unknown st = Some False \<and> \<not> has_trace_error st
          then (st\<lparr>st_active_trip_recovered := True, st_active_trip_id := (if st_latched st then Some trip else None)\<rparr>,
                publish_recovered wid rule st trip w)
          else (st, w))"

definition act_on_trigger ::
  "bool \<Rightarrow> pyfloat \<Rightarrow> string \<Rightarrow> wd_rule \<Rightarrow> string \<Rightarrow> bool \<Rightarrow> rule_state \<Rightarrow> watchdog \<Rightarrow> rule_state \<times> watchdog" where
  "act_on_trigger executor_up now wid rule trip was_latched st w =
     (let key = (wid, wr_name rule) in
      if key \<in> set (wd_inflight w) then (st, w)
      else
      let w1 = w\<lparr>wd_inflight := key # wd_inflight w\<rparr>;
          st1 = (mark_watchdog_triggered now st)\<lparr>st_active_trip_id := Some trip, st_active_trip_recovered := False\<rparr>;
          w2 = publish_triggered wid rule st1 trip w1;
          w3 = (if \<not> was_latched \<and> st_latched st1 then publish_latched wid rule st1 trip w2 else w2);
          (st2, w4) = submit_actions executor_up wid rule key trip st1 w3
      in (reset_watchdog_confirmation st2, w4))"

text \<open>
  What a tick finds: the latest samples, the clock, the identifiers it draws and whether the
  worker takes chains. An exception ends the tick, and with it the process.
\<close>

record wd_world =
  ww_get :: "string \<Rightarrow> string \<Rightarrow> items option"
  ww_now :: pyfloat
  ww_uuid :: "rule_key \<Rightarrow> string"
  ww_executor_up :: bool

definition evaluate_one :: "eval_lang \<Rightarrow> wd_world \<Rightarrow> string \<Rightarrow> wd_rule \<Rightarrow> watchdog \<Rightarrow> (pyexc + unit) \<times> watchdog" where
  "evaluate_one E x wid rule w =
     (let key = (wid, wr_name rule) in
      case map_of (wd_states w) key of
        None \<Rightarrow> (Inl (KeyError (wr_name rule)), w)
      | Some st \<Rightarrow>
          (case evaluate_watchdog_rule E rule (ww_get x) (ww_now x) st of
             Inl e \<Rightarrow> (Inl e, w)
           | Inr (triggered, st1, errs) \<Rightarrow>
               let w1 = fold (wd_condition_error (ww_now x) key) errs w;
                   (st2, w2) = note_recovery wid rule st1 w1;
                   (st3, w3) = (if triggered
                      then act_on_trigger (ww_executor_up x) (ww_now x) wid rule (ww_uuid x key) (st_latched st) st2 w2
                      else (st2, w2))
               in (Inr (), wd_set_state key st3 w3)))"

fun evaluate_rule_list :: "eval_lang \<Rightarrow> wd_world \<Rightarrow> (string \<times> wd_rule) list \<Rightarrow> watchdog \<Rightarrow> (pyexc + unit) \<times> watchdog" where
  "evaluate_rule_list E x [] w = (Inr (), w)"
| "evaluate_rule_list E x ((wid, rule) # rs) w =
     (case evaluate_one E x wid rule w of
        (Inl e, w1) \<Rightarrow> (Inl e, w1)
      | (Inr _, w1) \<Rightarrow> evaluate_rule_list E x rs w1)"

text \<open>The rules of the enabled rulesets in order. A tick does not change which they are.\<close>

definition enabled_rules :: "watchdog \<Rightarrow> (string \<times> wd_rule) list" where
  "enabled_rules w =
     concat (map (\<lambda>wid. case map_of (wd_entries w) wid of
         None \<Rightarrow> []
       | Some e \<Rightarrow> if we_enabled e then map (\<lambda>r. (wid, r)) (wrs_rules (we_ruleset e)) else []) (wd_order w))"

definition evaluate_rules :: "eval_lang \<Rightarrow> wd_world \<Rightarrow> watchdog \<Rightarrow> (pyexc + unit) \<times> watchdog" where
  "evaluate_rules E x w = evaluate_rule_list E x (enabled_rules w) w"


section \<open>Building the process\<close>

fun add_watchdog_rulesets :: "wd_ruleset list \<Rightarrow> watchdog \<Rightarrow> pyexc + watchdog" where
  "add_watchdog_rulesets [] w = Inr w"
| "add_watchdog_rulesets (rs # rss) w =
     (if dhas (wd_entries w) (wrs_watchdog_id rs)
      then Inl (ValueError (''Duplicate watchdog_id '' @ repr_str (wrs_watchdog_id rs)))
      else add_watchdog_rulesets rss
        (w\<lparr>wd_entries := wd_entries w @ [(wrs_watchdog_id rs, \<lparr>we_ruleset = rs, we_enabled = wrs_enabled rs\<rparr>)],
           wd_order := wd_order w @ [wrs_watchdog_id rs],
           wd_states := fold (\<lambda>r. dset (wrs_watchdog_id rs, wr_name r) fresh_rule_state) (wrs_rules rs) (wd_states w)\<rparr>))"

definition watchdog_init :: "string \<Rightarrow> wd_ruleset list \<Rightarrow> pyexc + watchdog" where
  "watchdog_init process_id rulesets =
     add_watchdog_rulesets rulesets
       \<lparr>wd_process_id = process_id, wd_entries = [], wd_order = [], wd_states = [], wd_inflight = [],
        wd_rule_error_last = [], wd_events = [], wd_submitted = [], wd_stop = False\<rparr>"

section \<open>Action chains\<close>

definition TRIP_CONTEXT_ACTIONS :: "string list" where
  "TRIP_CONTEXT_ACTIONS = [''sequencer.pause'', ''sequencer.stop'']"

definition dsetdefault :: "string \<Rightarrow> pyval \<Rightarrow> items \<Rightarrow> items" where
  "dsetdefault k v d = (if dhas d k then d else d @ [(k, v)])"

definition with_trip_context :: "wd_action \<Rightarrow> string \<Rightarrow> wd_rule \<Rightarrow> string \<Rightarrow> items" where
  "with_trip_context a wid rule trip =
     (if wa_action a \<notin> set TRIP_CONTEXT_ACTIONS then wa_params a
      else
      dsetdefault ''trigger'' (PDict [(''watchdog_id'', PStr wid), (''rule'', PStr (wr_name rule)),
          (''severity'', PStr (wr_severity rule)), (''trip_id'', PStr trip)])
        (dsetdefault ''source'' (PStr ''watchdog'')
          (dsetdefault ''reason'' (PStr (case wr_message rule of Some (c # cs) \<Rightarrow> c # cs
              | _ \<Rightarrow> ''watchdog rule '' @ repr_str (wr_name rule) @ '' tripped''))
            (wa_params a))))"

text \<open>The request sent to the manager for an action, and the description its events carry.\<close>

definition action_request :: "string \<Rightarrow> wd_action \<Rightarrow> string \<Rightarrow> wd_rule \<Rightarrow> string \<Rightarrow> items \<times> items" where
  "action_request process_id a wid rule trip =
     (case wa_target a of
        ProcessAction pid \<Rightarrow>
          let params = PDict (with_trip_context a wid rule trip) in
          ([(''process_id'', PStr pid), (''action'', PStr (wa_action a)), (''params'', params)],
           [(''type'', PStr ''manager.processes.rpc''), (''process_id'', PStr pid),
            (''request'', PDict [(''type'', PStr (wa_action a)), (''params'', params)]), (''caller_process_id'', PStr process_id)])
      | CommandAction did \<Rightarrow>
          ([(''device_id'', PStr did), (''action'', PStr (wa_action a)), (''params'', PDict (wa_params a))],
           [(''type'', PStr ''command''), (''device_id'', PStr did), (''action'', PStr (wa_action a)),
            (''params'', PDict (wa_params a)), (''caller_process_id'', PStr process_id)]))"

text \<open>
  The worker's calls: what the manager answers to the \<open>n\<close>-th call of a chain (\<open>PNone\<close> on a
  timeout), or the exception raised. Durations are left out of the events and the summary.
\<close>

type_synonym wd_call = "nat \<Rightarrow> items \<Rightarrow> int option \<Rightarrow> pyexc + pyval"

definition action_event :: "string \<Rightarrow> string \<Rightarrow> string \<Rightarrow> wd_rule \<Rightarrow> string \<Rightarrow> items \<Rightarrow> nat \<Rightarrow> int \<Rightarrow> int \<Rightarrow> pyval \<Rightarrow> (string \<times> items) list" where
  "action_event topic process_id wid rule trip command idx attempt attempts err =
     (topic, [(''process_id'', PStr process_id), (''trip_id'', PStr trip), (''watchdog_id'', PStr wid), (''rule'', PStr (wr_name rule)),
        (''command'', PDict command), (''action_index'', PInt (int idx)), (''action_count'', PInt (int (length (wr_actions rule)))),
        (''attempt'', PInt attempt), (''max_attempts'', PInt attempts)] @ (if err = PNone then [] else [(''error'', err)]))
     # (if topic = ''manager.watchdog.action_started''
        then [(''manager.watchdog.action_sent'', [(''process_id'', PStr process_id), (''watchdog_id'', PStr wid),
               (''rule'', PStr (wr_name rule)), (''command'', PDict command), (''attempt'', PInt attempt),
               (''retries'', PInt (attempts - 1))])]
        else [])"

text \<open>
  The attempts at one action, \<open>left\<close> more after this one: the result recorded, the number of
  calls made so far and the events. A failed call, an exception of the client and a timeout
  all count as a failed attempt.
\<close>

definition exc_repr :: "pyexc \<Rightarrow> string" where
  "exc_repr e = exc_class e @ ''('' @ repr_str (exc_text e) @ '')''"

definition attempt_error :: "pyexc + pyval \<Rightarrow> pyval option" where
  "attempt_error answer =
     (case answer of
        Inl e \<Rightarrow> Some (PStr (exc_repr e))
      | Inr resp \<Rightarrow> if resp = PNone then Some (PStr ''timeout'') else if is_response_ok resp then None else Some resp)"

fun try_action ::
  "wd_call \<Rightarrow> (string \<Rightarrow> int \<Rightarrow> pyval \<Rightarrow> (string \<times> items) list) \<Rightarrow> items \<Rightarrow> int option \<Rightarrow> int \<Rightarrow> nat \<Rightarrow> nat
    \<Rightarrow> (int \<times> pyval option) \<times> nat \<times> (string \<times> items) list" where
  "try_action call event req ms attempts 0 n =
     (let started = event ''manager.watchdog.action_started'' attempts PNone in
      case attempt_error (call n req ms) of
        None \<Rightarrow> ((attempts, None), Suc n, started @ event ''manager.watchdog.action_succeeded'' attempts PNone)
      | Some err \<Rightarrow> ((attempts, Some err), Suc n, started @ event ''manager.watchdog.action_failed'' attempts err))"
| "try_action call event req ms attempts (Suc left) n =
     (let attempt = attempts - int (Suc left);
          started = event ''manager.watchdog.action_started'' attempt PNone in
      case attempt_error (call n req ms) of
        None \<Rightarrow> ((attempt, None), Suc n, started @ event ''manager.watchdog.action_succeeded'' attempt PNone)
      | Some err \<Rightarrow>
          (case try_action call event req ms attempts left (Suc n) of
             (r, n', evs) \<Rightarrow> (r, n', started @ event ''manager.watchdog.action_retry'' attempt err @ evs)))"

definition action_result :: "nat \<Rightarrow> items \<Rightarrow> int \<times> pyval option \<Rightarrow> items" where
  "action_result idx command r =
     [(''action_index'', PInt (int idx)), (''command'', PDict command), (''ok'', PBool (snd r = None)), (''attempts'', PInt (fst r))]
     @ (case snd r of None \<Rightarrow> [] | Some err \<Rightarrow> [(''error'', err)])"

text \<open>
  The actions in order. A timeout that is no finite number raises once the attempt has been
  announced, and takes the chain down with it.
\<close>

fun run_chain ::
  "wd_call \<Rightarrow> string \<Rightarrow> string \<Rightarrow> wd_rule \<Rightarrow> string \<Rightarrow> nat \<Rightarrow> wd_action list \<Rightarrow> nat
    \<Rightarrow> (pyexc + items list) \<times> (string \<times> items) list" where
  "run_chain call process_id wid rule trip idx [] n = (Inr [], [])"
| "run_chain call process_id wid rule trip idx (a # as) n =
     (let attempts = 1 + max 0 (wa_retries a);
          (command, req) = action_request process_id a wid rule trip;
          event = (\<lambda>topic attempt err. action_event topic process_id wid rule trip command idx attempt attempts err)
      in case timeout_ms (wa_timeout_s a) of
           Inl e \<Rightarrow> (Inl e, event ''manager.watchdog.action_started'' 1 PNone)
         | Inr ms \<Rightarrow>
             (case try_action call event req ms attempts (nat (attempts - 1)) n of
                (r, n', evs) \<Rightarrow>
                  (case run_chain call process_id wid rule trip (Suc idx) as n' of
                     (rest, evs') \<Rightarrow> (res_bind rest (\<lambda>rs. Inr (action_result idx command r # rs)), evs @ evs'))))"

definition chain_summary :: "string \<Rightarrow> string \<Rightarrow> wd_rule \<Rightarrow> string \<Rightarrow> items list \<Rightarrow> items" where
  "chain_summary process_id wid rule trip results =
     (let count = int (length (wr_actions rule));
          failed = int (length (filter (\<lambda>r. \<not> truthy (jget r ''ok'')) results)) in
      [(''process_id'', PStr process_id), (''trip_id'', PStr trip), (''watchdog_id'', PStr wid), (''rule'', PStr (wr_name rule)),
       (''success'', PBool (failed = 0)), (''action_count'', PInt count), (''succeeded_actions'', PInt (count - failed)),
       (''failed_actions'', PInt failed), (''actions'', PList (map PDict results))])"

definition execute_actions :: "wd_call \<Rightarrow> string \<Rightarrow> string \<Rightarrow> wd_rule \<Rightarrow> string \<Rightarrow> (pyexc + items) \<times> (string \<times> items) list" where
  "execute_actions call process_id wid rule trip =
     (case run_chain call process_id wid rule trip 0 (wr_actions rule) 0 of
        (Inl e, evs) \<Rightarrow> (Inl e, evs)
      | (Inr results, evs) \<Rightarrow>
          let summary = chain_summary process_id wid rule trip results
          in (Inr summary, evs @ [(''manager.watchdog.action_chain_completed'', summary)]))"

text \<open>The worker is done with a chain: its result is kept if no later chain has started, and the rule is free again.\<close>

definition keep_chain :: "string \<Rightarrow> rule_key \<Rightarrow> (items \<Rightarrow> items) \<Rightarrow> watchdog \<Rightarrow> watchdog" where
  "keep_chain trip key f w =
     (case map_of (wd_states w) key of
        None \<Rightarrow> w
      | Some st \<Rightarrow>
          (case as_dict (st_last_action_chain st) of
             None \<Rightarrow> w
           | Some previous \<Rightarrow>
               if jget previous ''trip_id'' = PStr trip
               then wd_set_state key (st\<lparr>st_last_action_chain := PDict (f previous)\<rparr>) w else w))"

definition on_action_chain_done :: "rule_key \<Rightarrow> string \<Rightarrow> pyexc + items \<Rightarrow> watchdog \<Rightarrow> watchdog" where
  "on_action_chain_done key trip outcome w =
     (let w1 = (case outcome of
          Inr summary \<Rightarrow> keep_chain trip key (\<lambda>_. dset ''state'' (PStr ''completed'') summary) w
        | Inl e \<Rightarrow>
            wd_publish ''manager.watchdog.action_chain_error''
              [(''process_id'', PStr (wd_process_id w)), (''trip_id'', PStr trip), (''watchdog_id'', PStr (fst key)),
               (''rule'', PStr (snd key)), (''error'', PStr (exc_repr e))]
              (keep_chain trip key (\<lambda>previous.
                 dict_update previous
                   [(''state'', PStr ''error''), (''success'', PBool False),
                    (''failed_actions'', dget previous ''action_count'' (PInt 0)), (''error'', PStr (exc_repr e))]) w))
      in w1\<lparr>wd_inflight := filter (\<lambda>k. k \<noteq> key) (wd_inflight w1)\<rparr>)"


section \<open>Operations by RPC\<close>

text \<open>Clearing the latch of one rule: the answer's flags, or that there is no such rule.\<close>

definition clear_rule_state :: "string \<Rightarrow> string \<Rightarrow> pyval \<Rightarrow> watchdog \<Rightarrow> (bool \<times> bool) option \<times> watchdog" where
  "clear_rule_state wid name request_id w =
     (case map_of (wd_states w) (wid, name) of
        None \<Rightarrow> (None, w)
      | Some st \<Rightarrow>
          let was_latched = st_latched st; was_armed = st_armed st;
              st1 = reset_watchdog_confirmation (st\<lparr>st_latched := False, st_armed := False, st_stable_since := None\<rparr>);
              st2 = (if was_latched then st1\<lparr>st_active_trip_id := None, st_active_trip_recovered := False\<rparr> else st1);
              w1 = wd_set_state (wid, name) st2 w;
              flags = [(''previous_latched'', PBool was_latched), (''previous_armed'', PBool was_armed)];
              w2 = (if was_latched
                    then wd_publish ''manager.watchdog.latch_cleared''
                      ([(''process_id'', PStr (wd_process_id w)),
                        (''trip_id'', case st_active_trip_id st of None \<Rightarrow> PNone | Some t \<Rightarrow> PStr t),
                        (''watchdog_id'', PStr wid), (''rule'', PStr name)] @ flags
                       @ [(''alarm'', opt_bool (st_alarm st)), (''unknown'', opt_bool (st_unknown st))]
                       @ (if request_id = PNone then [] else [(''request_id'', request_id)])) w1
                    else w1);
              w3 = wd_publish ''manager.watchdog.cleared''
                     ([(''process_id'', PStr (wd_process_id w)), (''watchdog_id'', PStr wid), (''rule'', PStr name)] @ flags) w2
          in (Some (was_latched, was_armed), w3))"

definition wd_answer :: "items \<Rightarrow> pyval \<Rightarrow> items" where
  "wd_answer req result = [(''request_id'', jget req ''request_id''), (''ok'', PBool True), (''result'', result)]"

definition wd_refuse :: "items \<Rightarrow> string \<Rightarrow> items" where
  "wd_refuse req code = [(''request_id'', jget req ''request_id''), (''ok'', PBool False), (''error'', PDict [(''code'', PStr code)])]"

definition wd_params :: "items \<Rightarrow> items option" where
  "wd_params req = as_dict (py_or (dget req ''params'' (PDict [])) (PDict []))"

definition cleared_entry :: "string \<Rightarrow> string \<Rightarrow> bool \<times> bool \<Rightarrow> pyval" where
  "cleared_entry wid name flags =
     PDict [(''watchdog_id'', PStr wid), (''rule'', PStr name), (''previous_latched'', PBool (fst flags)),
            (''previous_armed'', PBool (snd flags)), (''changed'', PBool (fst flags))]"

definition rpc_watchdog_enable_disable :: "py_lang \<Rightarrow> bool \<Rightarrow> items \<Rightarrow> watchdog \<Rightarrow> items \<times> watchdog" where
  "rpc_watchdog_enable_disable L enable req w =
     (case wd_params req of
        None \<Rightarrow> (wd_refuse req ''invalid_params'', w)
      | Some params \<Rightarrow>
          let raw = jget params ''watchdog_id''; wid = py_str L raw in
          if \<not> truthy raw then (wd_refuse req ''missing_watchdog_id'', w)
          else (case map_of (wd_entries w) wid of
                  None \<Rightarrow> (wd_refuse req ''unknown_watchdog'', w)
                | Some e \<Rightarrow>
                    (wd_answer req (PDict [(''watchdog_id'', PStr wid), (''enabled'', PBool enable)]),
                     w\<lparr>wd_entries := dset wid (e\<lparr>we_enabled := enable\<rparr>) (wd_entries w)\<rparr>)))"

definition rpc_watchdog_enable_all_disable_all :: "bool \<Rightarrow> items \<Rightarrow> watchdog \<Rightarrow> items \<times> watchdog" where
  "rpc_watchdog_enable_all_disable_all enable req w =
     (wd_answer req (PDict [(''enabled'', PBool enable), (''count'', PInt (int (length (wd_entries w))))]),
      w\<lparr>wd_entries := map (\<lambda>(k, e). (k, e\<lparr>we_enabled := enable\<rparr>)) (wd_entries w)\<rparr>)"

text \<open>All the rules, of disabled rulesets too, in order.\<close>

definition all_rules :: "watchdog \<Rightarrow> (string \<times> wd_rule) list" where
  "all_rules w =
     concat (map (\<lambda>wid. case map_of (wd_entries w) wid of
         None \<Rightarrow> [] | Some e \<Rightarrow> map (\<lambda>r. (wid, r)) (wrs_rules (we_ruleset e))) (wd_order w))"

fun clear_each :: "(string \<times> string) list \<Rightarrow> pyval \<Rightarrow> watchdog \<Rightarrow> pyval list \<times> watchdog" where
  "clear_each [] request_id w = ([], w)"
| "clear_each ((wid, name) # ks) request_id w =
     (case clear_rule_state wid name request_id w of
        (r, w1) \<Rightarrow>
          (case clear_each ks request_id w1 of
             (out, w2) \<Rightarrow> ((case r of None \<Rightarrow> out | Some flags \<Rightarrow> cleared_entry wid name flags # out), w2)))"

definition rpc_watchdog_clear_all_latches :: "items \<Rightarrow> watchdog \<Rightarrow> items \<times> watchdog" where
  "rpc_watchdog_clear_all_latches req w =
     (case clear_each (map (\<lambda>(wid, r). (wid, wr_name r)) (all_rules w)) (jget req ''request_id'') w of
        (cleared, w1) \<Rightarrow> (wd_answer req (PDict [(''cleared'', PList cleared)]), w1))"

definition rpc_watchdog_clear_scoped :: "items \<Rightarrow> string \<Rightarrow> string \<Rightarrow> watchdog \<Rightarrow> items \<times> watchdog" where
  "rpc_watchdog_clear_scoped req wid name w =
     (if \<not> dhas (wd_entries w) wid then (wd_refuse req ''unknown_watchdog'', w)
      else (case clear_rule_state wid name (jget req ''request_id'') w of
              (None, w1) \<Rightarrow> (wd_refuse req ''unknown_rule'', w1)
            | (Some flags, w1) \<Rightarrow> (wd_answer req (cleared_entry wid name flags), w1)))"

definition find_watchdog_rule_matches :: "string \<Rightarrow> watchdog \<Rightarrow> (string \<times> string) list" where
  "find_watchdog_rule_matches name w =
     map (\<lambda>(wid, r). (wid, wr_name r)) (filter (\<lambda>(wid, r). wr_name r = name) (all_rules w))"

definition rpc_watchdog_clear_unscoped :: "items \<Rightarrow> string \<Rightarrow> watchdog \<Rightarrow> items \<times> watchdog" where
  "rpc_watchdog_clear_unscoped req name w =
     (case find_watchdog_rule_matches name w of
        [] \<Rightarrow> (wd_refuse req ''unknown_rule'', w)
      | [(wid, r)] \<Rightarrow>
          (case clear_rule_state wid r (jget req ''request_id'') w of
             (flags, w1) \<Rightarrow>
               (wd_answer req (case flags of
                  Some f \<Rightarrow> cleared_entry wid r f
                | None \<Rightarrow> PDict [(''watchdog_id'', PStr wid), (''rule'', PStr r), (''previous_latched'', PNone),
                                 (''previous_armed'', PNone), (''changed'', PNone)]), w1))
      | ms \<Rightarrow>
          ([(''request_id'', jget req ''request_id''), (''ok'', PBool False),
            (''error'', PDict [(''code'', PStr ''ambiguous_rule''),
               (''matches'', PList (map (\<lambda>(wid, r). PDict [(''watchdog_id'', PStr wid), (''rule'', PStr r)]) ms))])], w))"

definition rpc_watchdog_clear_latch :: "py_lang \<Rightarrow> items \<Rightarrow> watchdog \<Rightarrow> items \<times> watchdog" where
  "rpc_watchdog_clear_latch L req w =
     (case wd_params req of
        None \<Rightarrow> (wd_refuse req ''invalid_params'', w)
      | Some params \<Rightarrow>
          if truthy (jget params ''all'') then rpc_watchdog_clear_all_latches req w
          else if \<not> truthy (jget params ''rule'') then (wd_refuse req ''missing_rule'', w)
          else if jget params ''watchdog_id'' \<noteq> PNone
          then rpc_watchdog_clear_scoped req (py_str L (jget params ''watchdog_id'')) (py_str L (jget params ''rule'')) w
          else rpc_watchdog_clear_unscoped req (py_str L (jget params ''rule'')) w)"


section \<open>Status, and the RPC entry point\<close>

definition action_status_payload :: "wd_action \<Rightarrow> pyval" where
  "action_status_payload a =
     PDict ([(''action'', PStr (wa_action a)), (''params'', PDict (wa_params a)), (''timeout_s'', opt_float (wa_timeout_s a)),
             (''retries'', PInt (wa_retries a))]
            @ (case wa_target a of ProcessAction p \<Rightarrow> [(''process_id'', PStr p)] | CommandAction d \<Rightarrow> [(''device_id'', PStr d)]))"

definition opt_age :: "pyfloat \<Rightarrow> pyfloat option \<Rightarrow> pyval" where
  "opt_age now t = (case t of None \<Rightarrow> PNone | Some s \<Rightarrow> PFloat (fmax (Fin 0) (fsub now s)))"

definition arm_status :: "wd_arm option \<Rightarrow> pyval" where
  "arm_status a' = (case a' of None \<Rightarrow> PNone | Some a \<Rightarrow>
     PDict [(''condition'', ar_condition a), (''disarm_condition'', case ar_disarm_condition a of None \<Rightarrow> PNone | Some c \<Rightarrow> c),
            (''disarm_on_trigger'', PBool (ar_disarm_on_trigger a))])"

definition watchdog_rule_status :: "pyfloat \<Rightarrow> wd_rule \<Rightarrow> rule_state \<Rightarrow> pyval" where
  "watchdog_rule_status now rule st =
     PDict
       [(''name'', PStr (wr_name rule)), (''severity'', PStr (wr_severity rule)), (''message'', opt_text (wr_message rule)),
        (''condition'', wr_condition rule), (''arm'', arm_status (wr_arm rule)), (''confirmation'', confirmation_status rule st),
        (''telemetry'', PList (map (\<lambda>b. PDict [(''as'', PStr (tb_alias b)), (''device_id'', PStr (tb_device_id b)),
            (''signal'', PStr (tb_signal b)), (''max_age_s'', PFloat (tb_max_age_s b)), (''required'', PBool (tb_required b))])
          (wr_telemetry rule))),
        (''actions'', PList (map action_status_payload (wr_actions rule))),
        (''stable_for_s'', PFloat (wr_stable_for_s rule)), (''cooldown_s'', PFloat (wr_cooldown_s rule)),
        (''latch'', PBool (wr_latch rule)), (''on_unknown'', PStr (wr_on_unknown rule)),
        (''latched'', PBool (st_latched st)), (''armed'', PBool (st_armed st)),
        (''alarm'', opt_bool (st_alarm st)), (''unknown'', opt_bool (st_unknown st)),
        (''snapshot'', st_snapshot st), (''condition_evaluation'', st_condition_evaluation st),
        (''last_evaluated_mono'', opt_float (st_last_evaluated st)), (''last_evaluated_age_s'', opt_age now (st_last_evaluated st)),
        (''stable_since_mono'', opt_float (st_stable_since st)), (''stable_since_age_s'', opt_age now (st_stable_since st)),
        (''last_trigger_mono'', opt_float (st_last_trigger st)), (''last_trigger_age_s'', opt_age now (st_last_trigger st)),
        (''active_trip_id'', opt_text (st_active_trip_id st)), (''last_action_chain'', st_last_action_chain st)]"

definition watchdog_entry_status :: "pyfloat \<Rightarrow> watchdog \<Rightarrow> string \<Rightarrow> pyexc + pyval" where
  "watchdog_entry_status now w wid =
     (case map_of (wd_entries w) wid of
        None \<Rightarrow> Inl (KeyError wid)
      | Some e \<Rightarrow>
          res_bind (res_map (\<lambda>r. case map_of (wd_states w) (wid, wr_name r) of
                        None \<Rightarrow> Inl (KeyError (wr_name r)) | Some st \<Rightarrow> Inr (watchdog_rule_status now r st))
                      (wrs_rules (we_ruleset e)))
            (\<lambda>rules. Inr (PDict [(''watchdog_id'', PStr wid), (''enabled'', PBool (we_enabled e)), (''rules'', PList rules)])))"

definition rpc_watchdog_status :: "pyfloat \<Rightarrow> items \<Rightarrow> watchdog \<Rightarrow> pyexc + items" where
  "rpc_watchdog_status now req w =
     res_bind (res_map (watchdog_entry_status now w) (wd_order w))
       (\<lambda>ws. Inr (wd_answer req (PDict [(''watchdogs'', PList ws)])))"

definition publish_rules_loaded :: "watchdog \<Rightarrow> watchdog" where
  "publish_rules_loaded w =
     wd_publish ''manager.watchdog.rules_loaded''
       [(''process_id'', PStr (wd_process_id w)), (''watchdog_ids'', PList (map PStr (wd_order w))),
        (''rules'', PList (map (\<lambda>(wid, r). PDict [(''watchdog_id'', PStr wid), (''rule'', PStr (wr_name r)),
            (''severity'', PStr (wr_severity r))]) (all_rules w)))] w"

datatype wd_handler = WCapabilities | WStatus | WEnable | WDisable | WEnableAll | WDisableAll | WClearLatch

definition watchdog_registry :: "py_lang \<Rightarrow> wd_handler rpc_registry" where
  "watchdog_registry L =
     rpc_registry_init L
       [(''process.capabilities'', WCapabilities), (''watchdog.status'', WStatus), (''watchdog.enable'', WEnable),
        (''watchdog.disable'', WDisable), (''watchdog.enable_all'', WEnableAll), (''watchdog.disable_all'', WDisableAll),
        (''watchdog.clear_latch'', WClearLatch)]
       [(''watchdog.get_status'', ''watchdog.status'')]"

text \<open>The handler a request names; the capability listing \<open>caps\<close> is a parameter.\<close>

fun run_wd_handler :: "py_lang \<Rightarrow> pyval \<Rightarrow> pyfloat \<Rightarrow> wd_handler \<Rightarrow> items \<Rightarrow> watchdog \<Rightarrow> (pyexc + items) \<times> watchdog" where
  "run_wd_handler L caps now WCapabilities req w = (Inr (wd_answer req caps), w)"
| "run_wd_handler L caps now WStatus req w = (rpc_watchdog_status now req w, w)"
| "run_wd_handler L caps now WEnable req w = (case rpc_watchdog_enable_disable L True req w of (r, w1) \<Rightarrow> (Inr r, w1))"
| "run_wd_handler L caps now WDisable req w = (case rpc_watchdog_enable_disable L False req w of (r, w1) \<Rightarrow> (Inr r, w1))"
| "run_wd_handler L caps now WEnableAll req w = (case rpc_watchdog_enable_all_disable_all True req w of (r, w1) \<Rightarrow> (Inr r, w1))"
| "run_wd_handler L caps now WDisableAll req w = (case rpc_watchdog_enable_all_disable_all False req w of (r, w1) \<Rightarrow> (Inr r, w1))"
| "run_wd_handler L caps now WClearLatch req w = (case rpc_watchdog_clear_latch L req w of (r, w1) \<Rightarrow> (Inr r, w1))"


text \<open>
  A request to the process, \<open>process.stop\<close> first: it sets the stop event, which ends the
  heartbeats. The dispatch hands the handler the request with its canonical type.
\<close>

definition handle_watchdog_rpc :: "py_lang \<Rightarrow> pyval \<Rightarrow> pyfloat \<Rightarrow> items \<Rightarrow> watchdog \<Rightarrow> (pyexc + items) \<times> watchdog" where
  "handle_watchdog_rpc L caps now req w =
     (if py_str L (dget req ''type'' (PStr [])) = ''process.stop''
      then (Inr (wd_answer req (PDict [(''status'', PStr ''stopping'')])), w\<lparr>wd_stop := True\<rparr>)
      else if wd_params req = None then (Inr (wd_refuse req ''invalid_params''), w)
      else case dispatch_with_canonical L (watchdog_registry L) req of
             None \<Rightarrow> (Inr (wd_refuse req ''unknown_request''), w)
           | Some (h, req1) \<Rightarrow> run_wd_handler L caps now h req1 w)"

end
