(* ===== verification/Watchdog_Proofs.thy ===== *)
theory Watchdog_Proofs
  imports Watchdog
begin

text \<open>
  What the watchdog keeps through evaluations, completions of chains and requests, whatever
  their interleaving: when a rule's state says since when it has been in alarm, it has been,
  and the time of its last trip is the one that was announced.
\<close>

section \<open>One evaluation of a rule\<close>

definition wd_resolved :: "eval_lang \<Rightarrow> wd_world \<Rightarrow> wd_rule \<Rightarrow> pyexc + (items \<times> wd_snapshot \<times> bool)" where
  "wd_resolved E x rule =
     resolve_watchdog_bindings (plain E) (ww_get x) (ww_now x) (wr_telemetry rule) [(''params'', to_attrdict (PDict []))] [] False"

text \<open>What being in alarm means: the condition holds of the telemetry, or it is unknown and the rule triggers on that.\<close>

definition alarm_holds :: "eval_lang \<Rightarrow> wd_world \<Rightarrow> wd_rule \<Rightarrow> bool" where
  "alarm_holds E x rule \<longleftrightarrow>
     (case wd_resolved E x rule of
        Inl _ \<Rightarrow> False
      | Inr (env, snap, unknown) \<Rightarrow>
          if unknown then wr_on_unknown rule = ''trigger'' else eval_condition E env (wr_condition rule) = Inr True)"

definition arm_holds :: "eval_lang \<Rightarrow> wd_world \<Rightarrow> wd_rule \<Rightarrow> wd_arm \<Rightarrow> bool" where
  "arm_holds E x rule arm \<longleftrightarrow>
     (case wd_resolved E x rule of
        Inl _ \<Rightarrow> False
      | Inr (env, snap, unknown) \<Rightarrow> \<not> unknown \<and> eval_condition E env (ar_condition arm) = Inr True)"

text \<open>The parts of a rule's state the gates depend on.\<close>

definition same_gates :: "rule_state \<Rightarrow> rule_state \<Rightarrow> bool" where
  "same_gates st st' \<longleftrightarrow> st_stable_since st' = st_stable_since st \<and> st_last_trigger st' = st_last_trigger st
     \<and> st_latched st' = st_latched st"

lemma same_gates_simps [simp]:
  "same_gates st st"
  "same_gates st (st\<lparr>st_armed := b\<rparr>)"
  "same_gates st (st\<lparr>st_confirmation := c\<rparr>)"
  "same_gates st (st\<lparr>st_last_action_chain := c'\<rparr>)"
  "same_gates st (reset_watchdog_confirmation st)"
  by (simp_all add: same_gates_def reset_watchdog_confirmation_def)

lemma same_gates_trans: "same_gates a b \<Longrightarrow> same_gates b c \<Longrightarrow> same_gates a c"
  by (simp add: same_gates_def)

lemma armed_state_gates:
  assumes "update_watchdog_armed_state E rule env unknown st = (st', errs)"
  shows "same_gates st st' \<and> (\<forall>arm. wr_arm rule = Some arm \<longrightarrow> st_armed st' \<longrightarrow>
    st_armed st \<or> (\<not> unknown \<and> eval_condition E env (ar_condition arm) = Inr True))"
  using assms
  by (auto simp: update_watchdog_armed_state_def Let_def evaluate_watchdog_condition_def same_gates_def
      split: option.splits prod.splits if_splits sum.splits)

lemma confirmation_ready_gates:
  "watchdog_confirmation_ready E rule env snap alarm st = (r, st') \<Longrightarrow>
    same_gates st st' \<and> st_alarm st' = st_alarm st \<and> st_armed st' = st_armed st"
  by (auto simp: watchdog_confirmation_ready_def Let_def same_gates_def reset_watchdog_confirmation_def
      split: option.splits if_splits prod.splits)

lemma confirmation_gate_gates:
  "watchdog_confirmation_gate E rule env snap alarm unknown st = (r, st') \<Longrightarrow>
    same_gates st st' \<and> st_alarm st' = st_alarm st \<and> st_armed st' = st_armed st"
  using confirmation_ready_gates [of E rule env snap alarm st r st']
  by (auto simp: watchdog_confirmation_gate_def reset_watchdog_confirmation_def same_gates_def split: if_splits)

text \<open>The gates of a rule in alarm.\<close>

lemma gates_result:
  assumes "watchdog_gates E rule now env snap unknown st = (triggered, st')"
  shows "st_last_trigger st' = st_last_trigger st \<and> st_alarm st' = st_alarm st \<and> (st_latched st \<longrightarrow> st_latched st')
    \<and> (st_stable_since st' = st_stable_since st \<or> st_stable_since st = None \<and> st_stable_since st' = Some now)
    \<and> (triggered \<longrightarrow> (wr_latch rule \<longrightarrow> \<not> st_latched st \<and> st_latched st') \<and> watchdog_cooldown_ready rule now st
        \<and> (fle (wr_stable_for_s rule) (Fin 0)
           \<or> (\<exists>t. st_stable_since st' = Some t \<and> fle (wr_stable_for_s rule) (fsub now t))))"
proof (cases "wr_latch rule \<and> st_latched st")
  case True
  then show ?thesis using assms by (auto simp: watchdog_gates_def)
next
  case False
  obtain c st1 where g: "watchdog_confirmation_gate E rule env snap True unknown st = (c, st1)"
    by (metis surj_pair)
  obtain r st2 where s: "watchdog_stable_ready rule now st1 = (r, st2)"
    by (metis surj_pair)
  have st1: "st_stable_since st1 = st_stable_since st" "st_last_trigger st1 = st_last_trigger st"
    "st_latched st1 = st_latched st" "st_alarm st1 = st_alarm st"
    using confirmation_gate_gates [OF g] by (simp_all add: same_gates_def)
  have st2: "st_last_trigger st2 = st_last_trigger st" "st_alarm st2 = st_alarm st" "st_latched st2 = st_latched st"
    "st_stable_since st2 = st_stable_since st \<or> st_stable_since st = None \<and> st_stable_since st2 = Some now"
    "r \<Longrightarrow> fle (wr_stable_for_s rule) (Fin 0)
      \<or> (\<exists>t. st_stable_since st2 = Some t \<and> fle (wr_stable_for_s rule) (fsub now t))"
    using s st1 by (auto simp: watchdog_stable_ready_def Let_def split: if_splits option.splits)
  have "watchdog_cooldown_ready rule now st2 = watchdog_cooldown_ready rule now st"
    by (simp add: watchdog_cooldown_ready_def st2)
  then show ?thesis
    using assms False st2 by (auto simp: watchdog_gates_def g s Let_def split: if_splits option.splits)
qed

text \<open>The rule as a whole.\<close>

lemma rule_evaluation:
  assumes "evaluate_watchdog_rule E rule (ww_get x) (ww_now x) st = Inr (triggered, st', errs)"
  shows "st_last_trigger st' = st_last_trigger st"
    and "st_stable_since st' = Some t \<Longrightarrow> alarm_holds E x rule \<and> (st_stable_since st = Some t \<or> t = ww_now x)"
    and "st_latched st \<Longrightarrow> st_latched st'"
    and "triggered \<Longrightarrow> (wr_latch rule \<longrightarrow> \<not> st_latched st \<and> st_latched st') \<and> watchdog_cooldown_ready rule (ww_now x) st
      \<and> (\<forall>arm. wr_arm rule = Some arm \<longrightarrow> st_armed st \<or> arm_holds E x rule arm)
      \<and> alarm_holds E x rule
      \<and> (fle (wr_stable_for_s rule) (Fin 0)
         \<or> (\<exists>t. st_stable_since st' = Some t \<and> fle (wr_stable_for_s rule) (fsub (ww_now x) t)))"
proof -
  obtain env snap unknown where b: "wd_resolved E x rule = Inr (env, snap, unknown)"
    using assms unfolding evaluate_watchdog_rule_def wd_resolved_def [symmetric] by auto
  obtain st1 errs1 where u: "update_watchdog_armed_state E rule env unknown st = (st1, errs1)" by (metis surj_pair)
  obtain alarm0 trace errs2 where a: "evaluate_watchdog_alarm E rule env unknown = (alarm0, trace, errs2)" by (metis surj_pair)
  define alarm where "alarm = (if unknown then alarm0 else watchdog_confirmation_alarm E rule env alarm0)"
  define st2 where "st2 = st1\<lparr>st_last_evaluated := Some (ww_now x), st_alarm := Some alarm, st_unknown := Some unknown,
      st_snapshot := snapshot_value snap, st_condition_evaluation := PDict trace\<rparr>"
  obtain g st3 where gates: "watchdog_gates E rule (ww_now x) env snap unknown st2 = (g, st3)" by (metis surj_pair)
  have held: "alarm \<Longrightarrow> alarm_holds E x rule"
    using a by (auto simp: alarm_def alarm_holds_def b evaluate_watchdog_alarm_def Let_def watchdog_confirmation_alarm_def
        split: if_splits sum.splits option.splits)
  have st2: "st_last_trigger st2 = st_last_trigger st" "st_stable_since st2 = st_stable_since st" "st_latched st2 = st_latched st"
    "watchdog_cooldown_ready rule (ww_now x) st2 = watchdog_cooldown_ready rule (ww_now x) st"
    "\<And>arm. wr_arm rule = Some arm \<Longrightarrow> st_armed st2 \<Longrightarrow> st_armed st \<or> arm_holds E x rule arm"
    using armed_state_gates [OF u] by (auto simp: st2_def same_gates_def watchdog_cooldown_ready_def arm_holds_def b)
  have result: "(triggered, st') =
      (if wr_arm rule \<noteq> None \<and> \<not> st_armed st2 then (False, reset_watchdog_confirmation (st2\<lparr>st_stable_since := None\<rparr>))
       else if \<not> alarm then (False, snd (watchdog_confirmation_ready E rule env snap alarm (st2\<lparr>st_stable_since := None\<rparr>)))
       else (g, st3))"
    using assms unfolding evaluate_watchdog_rule_def wd_resolved_def [symmetric] b res_bind_simps Let_def u a prod.case
      alarm_def [symmetric] st2_def [symmetric] gates
    by (auto split: if_splits)
  have reset: "st_latched (snd (watchdog_confirmation_ready E rule env snap alarm (st2\<lparr>st_stable_since := None\<rparr>))) = st_latched st"
    "st_last_trigger (snd (watchdog_confirmation_ready E rule env snap alarm (st2\<lparr>st_stable_since := None\<rparr>))) = st_last_trigger st"
    "st_stable_since (snd (watchdog_confirmation_ready E rule env snap alarm (st2\<lparr>st_stable_since := None\<rparr>))) = None"
    using confirmation_ready_gates [of E rule env snap alarm "st2\<lparr>st_stable_since := None\<rparr>", OF prod.collapse [symmetric]]
    by (simp_all add: same_gates_def st2)
  note gr = gates_result [OF gates, unfolded st2]
  show "st_last_trigger st' = st_last_trigger st"
    using result gr reset by (auto simp: reset_watchdog_confirmation_def st2 split: if_splits)
  show "st_latched st'" if "st_latched st"
    using that result gr reset by (auto simp: reset_watchdog_confirmation_def st2 split: if_splits)
  show "alarm_holds E x rule \<and> (st_stable_since st = Some t \<or> t = ww_now x)" if "st_stable_since st' = Some t"
    using that result gr reset held by (auto simp: reset_watchdog_confirmation_def split: if_splits)
  show "(wr_latch rule \<longrightarrow> \<not> st_latched st \<and> st_latched st') \<and> watchdog_cooldown_ready rule (ww_now x) st
      \<and> (\<forall>arm. wr_arm rule = Some arm \<longrightarrow> st_armed st \<or> arm_holds E x rule arm)
      \<and> alarm_holds E x rule
      \<and> (fle (wr_stable_for_s rule) (Fin 0)
         \<or> (\<exists>t. st_stable_since st' = Some t \<and> fle (wr_stable_for_s rule) (fsub (ww_now x) t)))" if "triggered"
    using that result gr held st2(5) by (auto split: if_splits)
qed


section \<open>Trips announced\<close>

definition trips :: "watchdog \<Rightarrow> nat" where
  "trips w = length (filter (\<lambda>e. fst e = ''manager.watchdog.triggered'') (wd_events w))"

lemma trips_publish [simp]:
  "trips (wd_publish topic p w) = trips w + (if topic = ''manager.watchdog.triggered'' then 1 else 0)"
  by (simp add: trips_def wd_publish_def)

lemma wd_publish_fields [simp]:
  "wd_states (wd_publish topic p w) = wd_states w"
  "wd_inflight (wd_publish topic p w) = wd_inflight w"
  "wd_process_id (wd_publish topic p w) = wd_process_id w"
  by (simp_all add: wd_publish_def)

lemma condition_errors_keep:
  "trips (fold (wd_condition_error now key) errs w) = trips w
    \<and> wd_states (fold (wd_condition_error now key) errs w) = wd_states w
    \<and> wd_inflight (fold (wd_condition_error now key) errs w) = wd_inflight w"
proof (induction errs arbitrary: w)
  case (Cons e errs)
  have "trips (wd_condition_error now key e w) = trips w \<and> wd_states (wd_condition_error now key e w) = wd_states w
      \<and> wd_inflight (wd_condition_error now key e w) = wd_inflight w"
    by (simp add: wd_condition_error_def) (simp add: trips_def)
  then show ?case using Cons.IH by simp
qed simp

lemma note_recovery_keeps:
  assumes "note_recovery wid rule st w = (st', w')"
  shows "trips w' = trips w \<and> wd_states w' = wd_states w \<and> wd_inflight w' = wd_inflight w
    \<and> same_gates st st'"
  using assms
  by (auto simp: note_recovery_def publish_recovered_def same_gates_def split: option.splits if_splits)

lemma submit_keeps:
  assumes "submit_actions up wid rule key trip st w = (st', w')"
  shows "trips w' = trips w \<and> wd_states w' = wd_states w \<and> same_gates st st'"
  using assms by (auto simp: submit_actions_def trips_def same_gates_def wd_publish_def split: if_splits)

lemma act_on_trigger_result:
  assumes "act_on_trigger up now wid rule trip was_latched st w = (st', w')"
  shows "(wid, wr_name rule) \<in> set (wd_inflight w) \<and> st' = st \<and> w' = w
    \<or> (wid, wr_name rule) \<notin> set (wd_inflight w) \<and> trips w' = Suc (trips w) \<and> wd_states w' = wd_states w
      \<and> st_last_trigger st' = Some now \<and> st_stable_since st' = st_stable_since st \<and> st_latched st' = st_latched st"
proof (cases "(wid, wr_name rule) \<in> set (wd_inflight w)")
  case True
  then show ?thesis using assms by (simp add: act_on_trigger_def Let_def)
next
  case False
  define w1 where "w1 = w\<lparr>wd_inflight := (wid, wr_name rule) # wd_inflight w\<rparr>"
  define st1 where "st1 = (mark_watchdog_triggered now st)\<lparr>st_active_trip_id := Some trip, st_active_trip_recovered := False\<rparr>"
  define w3 where "w3 = (if \<not> was_latched \<and> st_latched st1 then publish_latched wid rule st1 trip (publish_triggered wid rule st1 trip w1)
      else publish_triggered wid rule st1 trip w1)"
  obtain st2 w4 where s: "submit_actions up wid rule (wid, wr_name rule) trip st1 w3 = (st2, w4)" by (metis surj_pair)
  have w3: "trips w3 = Suc (trips w) \<and> wd_states w3 = wd_states w"
    by (simp add: w3_def publish_latched_def publish_triggered_def w1_def) (simp add: trips_def)
  have "st' = reset_watchdog_confirmation st2" "w' = w4"
    using assms False by (simp_all add: act_on_trigger_def Let_def s w1_def [symmetric] st1_def [symmetric] w3_def [symmetric])
  then show ?thesis
    using False submit_keeps [OF s] w3
    by (simp add: same_gates_def reset_watchdog_confirmation_def st1_def mark_watchdog_triggered_def)
qed


text \<open>One rule of a tick: whether its trip is announced, and what becomes of the states.\<close>

lemma evaluate_one_result:
  fixes wid rule
  defines "key \<equiv> (wid, wr_name rule)"
  assumes "evaluate_one E x wid rule w = (Inr (), w')"
  obtains st triggered st1 errs st' where
    "map_of (wd_states w) key = Some st"
    "evaluate_watchdog_rule E rule (ww_get x) (ww_now x) st = Inr (triggered, st1, errs)"
    "wd_states w' = dset key st' (wd_states w)"
    "st_stable_since st' = st_stable_since st1" "st_latched st' = st_latched st1"
    "trips w' = trips w \<and> st_last_trigger st' = st_last_trigger st1 \<and> (triggered \<longrightarrow> key \<in> set (wd_inflight w))
     \<or> trips w' = Suc (trips w) \<and> st_last_trigger st' = Some (ww_now x) \<and> triggered \<and> key \<notin> set (wd_inflight w)"
proof -
  obtain st where st: "map_of (wd_states w) key = Some st"
    using assms(2) by (auto simp: evaluate_one_def key_def Let_def split: option.splits)
  obtain triggered st1 errs where e: "evaluate_watchdog_rule E rule (ww_get x) (ww_now x) st = Inr (triggered, st1, errs)"
    using assms(2) st by (auto simp: evaluate_one_def key_def Let_def split: sum.splits)
  define w1 where "w1 = fold (wd_condition_error (ww_now x) key) errs w"
  obtain st2 w2 where n: "note_recovery wid rule st1 w1 = (st2, w2)" by (metis surj_pair)
  obtain st3 w3 where a: "act_on_trigger (ww_executor_up x) (ww_now x) wid rule (ww_uuid x key) (st_latched st) st2 w2 = (st3, w3)"
    by (metis surj_pair)
  have w': "w' = wd_set_state key (if triggered then st3 else st2) (if triggered then w3 else w2)"
    using assms(2) unfolding evaluate_one_def key_def [symmetric] Let_def st option.case e sum.case prod.case
      w1_def [symmetric] n a by (auto split: if_splits)
  have kept: "trips w2 = trips w" "wd_states w2 = wd_states w" "wd_inflight w2 = wd_inflight w" "same_gates st1 st2"
    using note_recovery_keeps [OF n] condition_errors_keep [of "ww_now x" key errs w] by (simp_all add: w1_def)
  have trips_set: "trips (wd_set_state k s v) = trips v" for k s v by (simp add: trips_def wd_set_state_def)
  show thesis
  proof (rule that [OF st e])
    show "wd_states w' = dset key (if triggered then st3 else st2) (wd_states w)"
      using act_on_trigger_result [OF a] kept by (auto simp: w' wd_set_state_def)
  qed (use act_on_trigger_result [OF a] kept in \<open>auto simp: w' trips_set same_gates_def key_def\<close>)
qed


section \<open>Runs\<close>

text \<open>
  The evaluations of a run, in order: the rule's key, the time, whether the rule was in alarm
  and whether a trip was announced. Between two evaluations a chain may complete and requests
  may be served.
\<close>

type_synonym wd_eval = "rule_key \<times> pyfloat \<times> bool \<times> bool"

definition eval_entry :: "eval_lang \<Rightarrow> wd_world \<Rightarrow> string \<Rightarrow> wd_rule \<Rightarrow> watchdog \<Rightarrow> watchdog \<Rightarrow> wd_eval" where
  "eval_entry E x wid rule w w' = ((wid, wr_name rule), ww_now x, alarm_holds E x rule, trips w' \<noteq> trips w)"

inductive wd_reach :: "eval_lang \<Rightarrow> wd_eval list \<Rightarrow> watchdog \<Rightarrow> bool" for E where
  wd_start: "watchdog_init pid rulesets = Inr w \<Longrightarrow> wd_reach E [] w"
| wd_evaluate: "wd_reach E evs w \<Longrightarrow> evaluate_one E x wid rule w = (Inr (), w')
    \<Longrightarrow> wd_reach E (evs @ [eval_entry E x wid rule w w']) w'"
| wd_chain_done: "wd_reach E evs w \<Longrightarrow> wd_reach E evs (on_action_chain_done key trip outcome w)"
| wd_request: "wd_reach E evs w \<Longrightarrow> wd_reach E evs (snd (handle_watchdog_rpc L caps now req w))"

fun last_trip :: "rule_key \<Rightarrow> wd_eval list \<Rightarrow> pyfloat option" where
  "last_trip key [] = None"
| "last_trip key ((k, t, alarm, trip) # evs) =
     (case last_trip key evs of Some t' \<Rightarrow> Some t' | None \<Rightarrow> if k = key \<and> trip then Some t else None)"

lemma last_trip_snoc: "last_trip key (evs @ [(k, t, alarm, trip)]) = (if k = key \<and> trip then Some t else last_trip key evs)"
  by (induction key evs rule: last_trip.induct) auto

text \<open>At every evaluation of the rule from the one at time \<open>t\<close> to the last, it was in alarm.\<close>

definition alarm_since :: "rule_key \<Rightarrow> wd_eval list \<Rightarrow> pyfloat \<Rightarrow> bool" where
  "alarm_since key evs t \<longleftrightarrow> (\<exists>before trip since. evs = before @ (key, t, True, trip) # since
     \<and> (\<forall>(k, _, alarm, _) \<in> set since. k = key \<longrightarrow> alarm))"

lemma alarm_since_snoc:
  assumes "alarm_since key evs t" "k = key \<longrightarrow> alarm"
  shows "alarm_since key (evs @ [(k, t', alarm, trip)]) t"
proof -
  obtain before trip' since where "evs = before @ (key, t, True, trip') # since"
    "\<forall>(k, _, alarm, _) \<in> set since. k = key \<longrightarrow> alarm"
    using assms(1) unfolding alarm_since_def by blast
  with assms(2) show ?thesis
    unfolding alarm_since_def
    by (intro exI [of _ before] exI [of _ trip'] exI [of _ "since @ [(k, t', alarm, trip)]"]) auto
qed

lemma alarm_since_last: "alarm_since key (evs @ [(key, t, True, trip)]) t"
  unfolding alarm_since_def by (intro exI [of _ evs] exI [of _ trip] exI [of _ "[]"]) simp


section \<open>What holds in every run\<close>

text \<open>Steps that only ever make a rule forget since when it has been in alarm.\<close>

definition wd_calm :: "watchdog \<Rightarrow> watchdog \<Rightarrow> bool" where
  "wd_calm w w' \<longleftrightarrow> (\<forall>key st'. map_of (wd_states w') key = Some st' \<longrightarrow>
     (\<exists>st. map_of (wd_states w) key = Some st \<and> st_last_trigger st' = st_last_trigger st
       \<and> (st_stable_since st' = st_stable_since st \<or> st_stable_since st' = None)))"

lemma wd_calm_refl [simp]: "wd_calm w w"
  by (simp add: wd_calm_def)

lemma wd_calm_trans: "wd_calm a b \<Longrightarrow> wd_calm b c \<Longrightarrow> wd_calm a c"
  unfolding wd_calm_def by metis

lemma wd_calm_states: "wd_states w' = wd_states w \<Longrightarrow> wd_calm w w'"
  by (simp add: wd_calm_def)

lemma calm_set:
  "map_of (wd_states w) key = Some st \<Longrightarrow> wd_states w' = dset key st' (wd_states w) \<Longrightarrow> st_last_trigger st' = st_last_trigger st
    \<Longrightarrow> st_stable_since st' = st_stable_since st \<or> st_stable_since st' = None \<Longrightarrow> wd_calm w w'"
  by (auto simp: wd_calm_def update_conv')

lemma calm_keep_chain: "wd_calm w (keep_chain trip key f w)"
  by (auto simp: keep_chain_def wd_set_state_def intro: calm_set split: option.splits)

lemma calm_done: "wd_calm w (on_action_chain_done key trip outcome w)"
proof (cases outcome)
  case (Inl e)
  then have "wd_states (on_action_chain_done key trip outcome w) = wd_states (keep_chain trip key (\<lambda>previous.
      dict_update previous [(''state'', PStr ''error''), (''success'', PBool False),
        (''failed_actions'', dget previous ''action_count'' (PInt 0)), (''error'', PStr (exc_repr e))]) w)"
    by (simp add: on_action_chain_done_def Let_def)
  then show ?thesis by (blast intro: wd_calm_trans [OF calm_keep_chain] wd_calm_states)
next
  case (Inr summary)
  then have "wd_states (on_action_chain_done key trip outcome w)
      = wd_states (keep_chain trip key (\<lambda>_. dset ''state'' (PStr ''completed'') summary) w)"
    by (simp add: on_action_chain_done_def Let_def)
  then show ?thesis by (blast intro: wd_calm_trans [OF calm_keep_chain] wd_calm_states)
qed

lemma calm_clear: "wd_calm w (snd (clear_rule_state wid name rid w))"
proof (cases "map_of (wd_states w) (wid, name)")
  case None
  then show ?thesis by (simp add: clear_rule_state_def)
next
  case (Some st)
  have "\<exists>st'. wd_states (snd (clear_rule_state wid name rid w)) = dset (wid, name) st' (wd_states w)
      \<and> st_last_trigger st' = st_last_trigger st \<and> st_stable_since st' = None"
    by (intro exI [of _ "the (map_of (wd_states (snd (clear_rule_state wid name rid w))) (wid, name))"])
      (simp add: clear_rule_state_def Some Let_def wd_set_state_def reset_watchdog_confirmation_def update_conv')
  then show ?thesis using calm_set [OF Some] by blast
qed

lemma calm_clear_each: "wd_calm w (snd (clear_each ks rid w))"
proof (induction ks rid w rule: clear_each.induct)
  case (2 wid name ks rid w)
  obtain r w1 where c: "clear_rule_state wid name rid w = (r, w1)" by (metis surj_pair)
  have "wd_calm w w1" using calm_clear [of w wid name rid] c by simp
  moreover have "wd_calm w1 (snd (clear_each ks rid w1))" using 2 c by simp
  ultimately show ?case using wd_calm_trans by (fastforce simp: c split: prod.splits)
qed simp

lemma calm_clear_latch: "wd_calm w (snd (rpc_watchdog_clear_latch L req w))"
proof -
  have "wd_calm w (snd (rpc_watchdog_clear_all_latches r w))" for r
    using calm_clear_each by (simp add: rpc_watchdog_clear_all_latches_def split: prod.splits) (metis snd_conv)
  moreover have "wd_calm w (snd (rpc_watchdog_clear_scoped r wid name w))" for r wid name
    using calm_clear [of w wid name "jget r ''request_id''"]
    by (auto simp: rpc_watchdog_clear_scoped_def split: prod.splits option.splits)
  moreover have "wd_calm w (snd (rpc_watchdog_clear_unscoped r name w))" for r name
    using calm_clear [of w _ _ "jget r ''request_id''"]
    by (auto simp: rpc_watchdog_clear_unscoped_def split: list.splits prod.splits) (metis snd_conv)
  ultimately show ?thesis by (simp add: rpc_watchdog_clear_latch_def split: option.split)
qed

lemma calm_handler: "wd_calm w (snd (run_wd_handler L caps now h req w))"
proof (cases h)
  case WClearLatch
  then show ?thesis using calm_clear_latch [of w L req] by (simp split: prod.splits) (metis snd_conv)
qed (auto simp: rpc_watchdog_enable_disable_def rpc_watchdog_enable_all_disable_all_def Let_def
      intro: wd_calm_states split: prod.splits option.splits)

lemma calm_request: "wd_calm w (snd (handle_watchdog_rpc L caps now req w))"
  using calm_handler by (auto simp: handle_watchdog_rpc_def intro: wd_calm_states split: option.splits)


lemma fold_fresh_states:
  "map_of (fold (\<lambda>r. dset (f r) fresh_rule_state) rs d) key = Some st \<Longrightarrow> map_of d key = Some st \<or> st = fresh_rule_state"
  by (induction rs arbitrary: d) (force simp: update_conv' split: if_splits)+

lemma add_rulesets_states:
  "add_watchdog_rulesets rss w = Inr w' \<Longrightarrow> map_of (wd_states w') key = Some st
    \<Longrightarrow> map_of (wd_states w) key = Some st \<or> st = fresh_rule_state"
  by (induction rss w rule: add_watchdog_rulesets.induct) (auto dest: fold_fresh_states split: if_splits)

lemma init_states: "watchdog_init pid rulesets = Inr w \<Longrightarrow> map_of (wd_states w) key = Some st \<Longrightarrow> st = fresh_rule_state"
  using add_rulesets_states unfolding watchdog_init_def by fastforce

definition gates_true :: "wd_eval list \<Rightarrow> watchdog \<Rightarrow> bool" where
  "gates_true evs w \<longleftrightarrow> (\<forall>key st. map_of (wd_states w) key = Some st \<longrightarrow>
     st_last_trigger st = last_trip key evs \<and> (\<forall>t. st_stable_since st = Some t \<longrightarrow> alarm_since key evs t))"

lemma gates_true_calm: "gates_true evs w \<Longrightarrow> wd_calm w w' \<Longrightarrow> gates_true evs w'"
  unfolding gates_true_def wd_calm_def by (metis option.discI)

lemma gates_true_evaluate:
  assumes "gates_true evs w" and "evaluate_one E x wid rule w = (Inr (), w')"
  shows "gates_true (evs @ [eval_entry E x wid rule w w']) w'"
proof -
  let ?k = "(wid, wr_name rule)"
  obtain st triggered st1 errs st' where r:
    "map_of (wd_states w) ?k = Some st"
    "evaluate_watchdog_rule E rule (ww_get x) (ww_now x) st = Inr (triggered, st1, errs)"
    "wd_states w' = dset ?k st' (wd_states w)" "st_stable_since st' = st_stable_since st1"
    "trips w' = trips w \<and> st_last_trigger st' = st_last_trigger st1
     \<or> trips w' = Suc (trips w) \<and> st_last_trigger st' = Some (ww_now x)"
    using evaluate_one_result [OF assms(2)] by metis
  note ev = rule_evaluation [OF r(2)]
  have own: "st_last_trigger st = last_trip ?k evs" "\<And>t. st_stable_since st = Some t \<Longrightarrow> alarm_since ?k evs t"
    using assms(1) r(1) by (auto simp: gates_true_def)
  have "st_last_trigger st' = last_trip ?k (evs @ [eval_entry E x wid rule w w'])"
    using r(5) ev(1) own(1) by (auto simp: eval_entry_def last_trip_snoc)
  moreover have "alarm_since ?k (evs @ [eval_entry E x wid rule w w']) t" if "st_stable_since st' = Some t" for t
    using ev(2) [of t] that r(4) own(2) [of t] alarm_since_snoc [of ?k evs t ?k True "ww_now x"] alarm_since_last [of ?k evs t]
    by (auto simp: eval_entry_def)
  moreover have "st_last_trigger s = last_trip k (evs @ [eval_entry E x wid rule w w'])
      \<and> (\<forall>t. st_stable_since s = Some t \<longrightarrow> alarm_since k (evs @ [eval_entry E x wid rule w w']) t)"
    if "k \<noteq> ?k" "map_of (wd_states w) k = Some s" for k s
    using assms(1) that alarm_since_snoc [of k evs _ ?k]
    by (cases k) (auto simp: gates_true_def eval_entry_def last_trip_snoc)
  ultimately show ?thesis
    unfolding gates_true_def r(3) update_conv' by (metis fun_upd_apply option.inject)
qed

lemma reach_gates: "wd_reach E evs w \<Longrightarrow> gates_true evs w"
proof (induction rule: wd_reach.induct)
  case (wd_start pid rulesets w)
  then show ?case using init_states by (force simp: gates_true_def fresh_rule_state_def)
qed (auto intro: gates_true_evaluate gates_true_calm calm_done calm_request)



section \<open>Action chains\<close>

text \<open>
  How an action has to be served: called again until a call succeeds or \<open>1 + retries\<close> calls are
  made, from call number \<open>n\<close> up to \<open>n'\<close> (exclusive), and recorded as the last call went.
\<close>

definition action_served :: "wd_call \<Rightarrow> items \<Rightarrow> wd_action \<Rightarrow> nat \<Rightarrow> nat \<Rightarrow> items \<Rightarrow> bool" where
  "action_served call req a n n' result \<longleftrightarrow>
     (\<exists>ms. timeout_ms (wa_timeout_s a) = Inr ms \<and> n < n' \<and> n' \<le> n + 1 + nat (wa_retries a)
       \<and> (\<forall>i. n \<le> i \<and> Suc i < n' \<longrightarrow> attempt_error (call i req ms) \<noteq> None)
       \<and> (case attempt_error (call (n' - 1) req ms) of
            None \<Rightarrow> jget result ''ok'' = PBool True
          | Some err \<Rightarrow> jget result ''ok'' = PBool False \<and> jget result ''error'' = err \<and> n' = n + 1 + nat (wa_retries a))
       \<and> jget result ''attempts'' = PInt (int (n' - n)))"

fun chain_served :: "wd_call \<Rightarrow> (wd_action \<Rightarrow> items) \<Rightarrow> wd_action list \<Rightarrow> nat \<Rightarrow> items list \<Rightarrow> bool" where
  "chain_served call req [] n results \<longleftrightarrow> results = []"
| "chain_served call req (a # as) n results \<longleftrightarrow>
     (\<exists>n' r rs. results = r # rs \<and> action_served call (req a) a n n' r \<and> chain_served call req as n' rs)"

lemma try_action_result:
  assumes "try_action call event req ms attempts left n = ((k, err), n', evs)"
  shows "n < n' \<and> n' \<le> n + Suc left \<and> (\<forall>i. n \<le> i \<and> Suc i < n' \<longrightarrow> attempt_error (call i req ms) \<noteq> None)
    \<and> err = attempt_error (call (n' - 1) req ms) \<and> (err \<noteq> None \<longrightarrow> n' = n + Suc left)
    \<and> k = attempts - int left + int (n' - n) - 1"
  using assms
proof (induction left arbitrary: n k err n' evs)
  case 0
  then have "n' = Suc n" "k = attempts" "err = attempt_error (call n req ms)"
    by (auto simp: Let_def split: option.splits)
  then show ?case by auto
next
  case (Suc left)
  show ?case
  proof (cases "attempt_error (call n req ms)")
    case None
    then have "n' = Suc n" "k = attempts - int (Suc left)" "err = None"
      using Suc.prems unfolding try_action.simps Let_def None option.case by simp_all
    then show ?thesis using None by auto
  next
    case (Some e)
    obtain r m evs' where rest: "try_action call event req ms attempts left (Suc n) = (r, m, evs')" by (metis surj_pair)
    have "r = (k, err)" "m = n'"
      using Suc.prems unfolding try_action.simps Let_def Some option.case rest prod.case by simp_all
    with rest have "try_action call event req ms attempts left (Suc n) = ((k, err), n', evs')" by simp
    note ih = Suc.IH [OF this]
    have "attempt_error (call i req ms) \<noteq> None" if "n \<le> i" "Suc i < n'" for i
    proof (cases "i = n")
      case False
      then have "Suc n \<le> i" using that(1) by simp
      then show ?thesis using ih that(2) by blast
    qed (simp add: Some)
    moreover have "k = attempts - int (Suc left) + int (n' - n) - 1"
      using ih [THEN conjunct1] ih [THEN conjunct2, THEN conjunct2, THEN conjunct2, THEN conjunct2, THEN conjunct2] by linarith
    moreover have "n < n'" "n' \<le> n + Suc (Suc left)"
      using ih [THEN conjunct1] ih [THEN conjunct2, THEN conjunct1] by linarith+
    moreover have "err = attempt_error (call (n' - 1) req ms)" "err \<noteq> None \<longrightarrow> n' = n + Suc (Suc left)"
      using ih [THEN conjunct2, THEN conjunct2, THEN conjunct2, THEN conjunct1]
        ih [THEN conjunct2, THEN conjunct2, THEN conjunct2, THEN conjunct2, THEN conjunct1] by simp_all
    ultimately show ?thesis by blast
  qed
qed

lemma action_result_fields:
  "jget (action_result idx command r) ''ok'' = PBool (snd r = None)"
  "jget (action_result idx command r) ''attempts'' = PInt (fst r)"
  "snd r = Some e \<Longrightarrow> jget (action_result idx command r) ''error'' = e"
  by (simp_all add: action_result_def)

lemma action_result_served:
  assumes ms: "timeout_ms (wa_timeout_s a) = Inr ms"
    and t: "try_action call event req ms (1 + int (nat (wa_retries a))) (nat (wa_retries a)) n = ((k, err), n', evs)"
  shows "action_served call req a n n' (action_result idx command (k, err))"
proof -
  note r = try_action_result [OF t]
  have "k = int (n' - n)"
    using r [THEN conjunct2, THEN conjunct2, THEN conjunct2, THEN conjunct2, THEN conjunct2] by simp
  moreover have "n < n'" "n' \<le> n + 1 + nat (wa_retries a)"
    using r [THEN conjunct1] r [THEN conjunct2, THEN conjunct1] by simp_all
  moreover have e: "err = attempt_error (call (n' - 1) req ms)" "err \<noteq> None \<longrightarrow> n' = n + 1 + nat (wa_retries a)"
    using r [THEN conjunct2, THEN conjunct2, THEN conjunct2, THEN conjunct1]
      r [THEN conjunct2, THEN conjunct2, THEN conjunct2, THEN conjunct2, THEN conjunct1] by simp_all
  moreover have "case attempt_error (call (n' - 1) req ms) of
      None \<Rightarrow> jget (action_result idx command (k, err)) ''ok'' = PBool True
    | Some e \<Rightarrow> jget (action_result idx command (k, err)) ''ok'' = PBool False
        \<and> jget (action_result idx command (k, err)) ''error'' = e \<and> n' = n + 1 + nat (wa_retries a)"
    unfolding e(1) [symmetric] using e(2) by (simp add: action_result_fields split: option.split)
  moreover have "jget (action_result idx command (k, err)) ''attempts'' = PInt k"
    by (simp add: action_result_fields)
  ultimately show ?thesis
    using ms r [THEN conjunct2, THEN conjunct2, THEN conjunct1] unfolding action_served_def by blast
qed

lemma run_chain_served:
  assumes "\<forall>a \<in> set as. \<exists>ms. timeout_ms (wa_timeout_s a) = Inr ms"
  shows "\<exists>results evs. run_chain call pid wid rule trip idx as n = (Inr results, evs)
    \<and> chain_served call (\<lambda>a. snd (action_request pid a wid rule trip)) as n results"
  using assms
proof (induction as arbitrary: idx n)
  case (Cons a as)
  obtain ms where ms: "timeout_ms (wa_timeout_s a) = Inr ms" using Cons.prems by auto
  obtain command req where cr: "action_request pid a wid rule trip = (command, req)" by (metis surj_pair)
  define attempts where "attempts = 1 + max 0 (wa_retries a)"
  define event where "event = (\<lambda>topic attempt err. action_event topic pid wid rule trip command idx attempt attempts err)"
  obtain k err n' evs where t: "try_action call event req ms attempts (nat (attempts - 1)) n = ((k, err), n', evs)"
    by (metis surj_pair)
  obtain results evs' where rest: "run_chain call pid wid rule trip (Suc idx) as n' = (Inr results, evs')"
    "chain_served call (\<lambda>a. snd (action_request pid a wid rule trip)) as n' results"
    using Cons.IH [of "Suc idx" n'] Cons.prems by auto
  have left: "nat (attempts - 1) = nat (wa_retries a)" "attempts = 1 + int (nat (wa_retries a))" by (simp_all add: attempts_def)
  have "action_served call req a n n' (action_result idx command (k, err))"
    using action_result_served [OF ms, of call event req n] t [unfolded left(1)] unfolding left(2) by blast
  moreover have "run_chain call pid wid rule trip idx (a # as) n = (Inr (action_result idx command (k, err) # results), evs @ evs')"
    unfolding run_chain.simps cr Let_def prod.case attempts_def [symmetric] event_def [symmetric] ms sum.case t rest(1) by simp
  ultimately show ?case using rest(2) unfolding chain_served.simps cr snd_conv by blast
qed simp



section \<open>A latched rule\<close>

lemma latched_rule_silent:
  assumes "map_of (wd_states w) (wid, wr_name rule) = Some st" "st_latched st" "wr_latch rule"
    "evaluate_one E x wid rule w = (r, w')"
  shows "trips w' = trips w \<and> (\<exists>st'. map_of (wd_states w') (wid, wr_name rule) = Some st' \<and> st_latched st')"
proof (cases r)
  case (Inl e)
  then have "w' = w" using assms(1,4) by (auto simp: evaluate_one_def Let_def split: sum.splits prod.splits if_splits)
  then show ?thesis using assms by auto
next
  case (Inr u)
  then have "evaluate_one E x wid rule w = (Inr (), w')" using assms(4) by simp
  then obtain st0 triggered st1 errs st' where r: "map_of (wd_states w) (wid, wr_name rule) = Some st0"
    "evaluate_watchdog_rule E rule (ww_get x) (ww_now x) st0 = Inr (triggered, st1, errs)"
    "wd_states w' = dset (wid, wr_name rule) st' (wd_states w)" "st_latched st' = st_latched st1"
    "trips w' = trips w \<or> triggered"
    by (rule evaluate_one_result) blast
  then have "st0 = st" using assms(1) by simp
  with r assms(2,3) rule_evaluation(3,4) [OF r(2)] show ?thesis by (auto simp: update_conv')
qed

fun eval_run :: "eval_lang \<Rightarrow> string \<Rightarrow> wd_rule \<Rightarrow> wd_world list \<Rightarrow> watchdog \<Rightarrow> watchdog" where
  "eval_run E wid rule [] w = w"
| "eval_run E wid rule (x # xs) w = eval_run E wid rule xs (snd (evaluate_one E x wid rule w))"

lemma latched_run_silent:
  assumes "map_of (wd_states w) (wid, wr_name rule) = Some st" "st_latched st" "wr_latch rule"
  shows "trips (eval_run E wid rule xs w) = trips w"
  using assms
proof (induction xs arbitrary: w st)
  case (Cons x xs)
  obtain r w' where e: "evaluate_one E x wid rule w = (r, w')" by (metis surj_pair)
  obtain st' where "trips w' = trips w" "map_of (wd_states w') (wid, wr_name rule) = Some st'" "st_latched st'"
    using latched_rule_silent [OF Cons.prems e] by blast
  then show ?case using Cons.IH [of w' st'] Cons.prems(3) by (simp add: e)
qed simp

lemma keep_chain_latched:
  assumes "map_of (wd_states w) key = Some st"
  shows "\<exists>st'. map_of (wd_states (keep_chain trip k f w)) key = Some st' \<and> st_latched st' = st_latched st"
  using assms by (auto simp: keep_chain_def wd_set_state_def update_conv' split: option.split)

lemma chain_done_latched:
  assumes "map_of (wd_states w) key = Some st"
  shows "\<exists>st'. map_of (wd_states (on_action_chain_done k trip outcome w)) key = Some st' \<and> st_latched st' = st_latched st"
  by (cases outcome) (auto simp: on_action_chain_done_def Let_def intro: keep_chain_latched [OF assms])

lemma keep_chain_trips: "trips (keep_chain trip k f w) = trips w"
  by (auto simp: keep_chain_def wd_set_state_def trips_def split: option.split)

lemma chain_done_trips: "trips (on_action_chain_done k trip outcome w) = trips w"
proof -
  have drop: "trips (v\<lparr>wd_inflight := ks\<rparr>) = trips v" for v ks by (simp add: trips_def)
  show ?thesis by (cases outcome) (simp_all add: on_action_chain_done_def Let_def drop keep_chain_trips)
qed

end
