(* ===== verification/Watchdog_Props.thy ===== *)
theory Watchdog_Props
  imports Watchdog_Proofs Sequencer_Eval_Proofs
begin

text \<open>
  The properties of the watchdog: when it trips, what it does when it trips, and a trip it
  loses.
\<close>

section \<open>An instance for examples\<close>

definition hot_rule :: wd_rule where
  "hot_rule = \<lparr>wr_name = ''hot'', wr_severity = ''critical'', wr_message = None, wr_telemetry = [], wr_condition = PBool True,
     wr_stable_for_s = Fin 2, wr_cooldown_s = Fin 5, wr_latch = True, wr_on_unknown = ''ignore'',
     wr_actions = [\<lparr>wa_target = CommandAction ''laser'', wa_action = ''off'', wa_params = [], wa_timeout_s = Some (Fin 1), wa_retries = 2\<rparr>],
     wr_arm = None, wr_confirmation = None\<rparr>"

definition hot_ruleset :: wd_ruleset where
  "hot_ruleset = \<lparr>wrs_watchdog_id = ''safety'', wrs_rules = [hot_rule], wrs_enabled = True\<rparr>"

definition hot_world :: "rat \<Rightarrow> wd_world" where
  "hot_world t = \<lparr>ww_get = (\<lambda>_ _. None), ww_now = Fin t, ww_uuid = (\<lambda>_. ''trip''), ww_executor_up = True\<rparr>"

definition hot_watchdog :: watchdog where
  "hot_watchdog = (case watchdog_init ''wd'' [hot_ruleset] of Inr w \<Rightarrow> w | Inl _ \<Rightarrow> undefined)"

lemma hot_init: "watchdog_init ''wd'' [hot_ruleset] = Inr hot_watchdog"
  by (simp add: hot_watchdog_def watchdog_init_def hot_ruleset_def)

abbreviation hot_step :: "rat \<Rightarrow> watchdog \<Rightarrow> watchdog" where
  "hot_step t w \<equiv> snd (evaluate_one plain_eval (hot_world t) ''safety'' hot_rule w)"

lemma hot_alarm: "alarm_holds plain_eval (hot_world t) hot_rule"
  by (simp add: alarm_holds_def wd_resolved_def hot_rule_def eval_condition.simps)

lemma hot_evaluates:
  "evaluate_one plain_eval (hot_world 10) ''safety'' hot_rule hot_watchdog = (Inr (), hot_step 10 hot_watchdog)"
  "evaluate_one plain_eval (hot_world 13) ''safety'' hot_rule (hot_step 10 hot_watchdog)
    = (Inr (), hot_step 13 (hot_step 10 hot_watchdog))"
proof -
  have "fst (evaluate_one plain_eval (hot_world 10) ''safety'' hot_rule hot_watchdog) = Inr ()" by code_simp
  then show "evaluate_one plain_eval (hot_world 10) ''safety'' hot_rule hot_watchdog = (Inr (), hot_step 10 hot_watchdog)"
    by (metis prod.collapse)
  have "fst (evaluate_one plain_eval (hot_world 13) ''safety'' hot_rule (hot_step 10 hot_watchdog)) = Inr ()" by code_simp
  then show "evaluate_one plain_eval (hot_world 13) ''safety'' hot_rule (hot_step 10 hot_watchdog)
      = (Inr (), hot_step 13 (hot_step 10 hot_watchdog))"
    by (metis prod.collapse)
qed

lemma hot_trips: "trips (hot_step 10 hot_watchdog) = 0" "trips (hot_step 13 (hot_step 10 hot_watchdog)) = 1" "trips hot_watchdog = 0"
  by code_simp+


section \<open>When the watchdog trips\<close>

text \<open>
  C6. No trip before its time. In every run of the watchdog (evaluations of rules, chains that
  complete and requests, in any order), an evaluation announces a trip of a rule only if no
  chain of the rule is in flight, a latching rule is not latched, an arming rule is or becomes
  armed, the last trip announced for the rule is at least its cooldown away, and the rule was
  in alarm at each of its evaluations for the whole of its stability time.
\<close>
theorem watchdog_trips_only_when_due:
  fixes wid rule
  defines "key \<equiv> (wid, wr_name rule)"
  assumes "wd_reach E evs w" "evaluate_one E x wid rule w = (Inr (), w')" "trips w' \<noteq> trips w"
  shows "key \<notin> set (wd_inflight w)
    \<and> alarm_holds E x rule
    \<and> (\<exists>st. map_of (wd_states w) key = Some st \<and> (wr_latch rule \<longrightarrow> \<not> st_latched st)
         \<and> (\<forall>arm. wr_arm rule = Some arm \<longrightarrow> st_armed st \<or> arm_holds E x rule arm))
    \<and> (\<forall>t. last_trip key evs = Some t \<longrightarrow> fle (wr_cooldown_s rule) (fsub (ww_now x) t))
    \<and> (fle (wr_stable_for_s rule) (Fin 0)
       \<or> (\<exists>t. alarm_since key (evs @ [eval_entry E x wid rule w w']) t \<and> fle (wr_stable_for_s rule) (fsub (ww_now x) t)))"
proof -
  obtain st triggered st1 errs st' where r: "map_of (wd_states w) key = Some st"
    "evaluate_watchdog_rule E rule (ww_get x) (ww_now x) st = Inr (triggered, st1, errs)"
    "wd_states w' = dset key st' (wd_states w)" "st_stable_since st' = st_stable_since st1"
    "triggered" "key \<notin> set (wd_inflight w)"
    using evaluate_one_result [OF assms(3)] assms(4) unfolding key_def by metis
  note due = rule_evaluation(4) [OF r(2) r(5)]
  have "st_last_trigger st = last_trip key evs"
    using reach_gates [OF assms(2)] r(1) unfolding gates_true_def by blast
  then have "\<forall>t. last_trip key evs = Some t \<longrightarrow> fle (wr_cooldown_s rule) (fsub (ww_now x) t)"
    using due by (auto simp: watchdog_cooldown_ready_def)
  moreover have "gates_true (evs @ [eval_entry E x wid rule w w']) w'"
    by (rule reach_gates [OF wd_evaluate [OF assms(2,3)]])
  then have "alarm_since key (evs @ [eval_entry E x wid rule w w']) t" if "st_stable_since st1 = Some t" for t
    using that r(3,4) unfolding gates_true_def by (metis update_conv' fun_upd_same)
  ultimately show ?thesis using r(1,6) due by blast
qed

theorem watchdog_trips_only_when_due_witness:
  "\<exists>t. alarm_since (''safety'', ''hot'')
      [((''safety'', ''hot''), Fin 10, True, False), ((''safety'', ''hot''), Fin 13, True, True)] t
    \<and> fle (Fin 2) (fsub (Fin 13) t)"
proof -
  have r1: "wd_reach plain_eval [eval_entry plain_eval (hot_world 10) ''safety'' hot_rule hot_watchdog (hot_step 10 hot_watchdog)]
      (hot_step 10 hot_watchdog)"
    using wd_evaluate [OF wd_start [OF hot_init] hot_evaluates(1)] by simp
  have "trips (hot_step 13 (hot_step 10 hot_watchdog)) \<noteq> trips (hot_step 10 hot_watchdog)" using hot_trips by simp
  note due = watchdog_trips_only_when_due [OF r1 hot_evaluates(2) this]
  have "wr_stable_for_s hot_rule = Fin 2" "wr_name hot_rule = ''hot''" "\<not> fle (Fin 2) (Fin 0)"
    by (simp_all add: hot_rule_def)
  then show ?thesis using due hot_trips hot_alarm by (simp add: eval_entry_def hot_world_def)
qed


section \<open>What a trip does\<close>

text \<open>
  C13. Every action of a chain is attempted. When the timeouts of a rule's actions are finite,
  running its chain ends with a summary, whatever the calls answer: the actions are served
  in order, each called again until a call succeeds or its retries are used up, a failure or
  an exception of one never keeps the next from being called, and the chain is reported as a
  success exactly if every action was recorded as one.
\<close>
theorem chain_serves_every_action:
  assumes "\<forall>a \<in> set (wr_actions rule). \<exists>ms. timeout_ms (wa_timeout_s a) = Inr ms"
  shows "\<exists>results summary evs. execute_actions call pid wid rule trip = (Inr summary, evs)
    \<and> chain_served call (\<lambda>a. snd (action_request pid a wid rule trip)) (wr_actions rule) 0 results
    \<and> jget summary ''actions'' = PList (map PDict results)
    \<and> jget summary ''success'' = PBool (\<forall>r \<in> set results. truthy (jget r ''ok''))
    \<and> last evs = (''manager.watchdog.action_chain_completed'', summary)"
proof -
  obtain results evs where run: "run_chain call pid wid rule trip 0 (wr_actions rule) 0 = (Inr results, evs)"
    "chain_served call (\<lambda>a. snd (action_request pid a wid rule trip)) (wr_actions rule) 0 results"
    using run_chain_served [OF assms] by blast
  let ?s = "chain_summary pid wid rule trip results"
  have "execute_actions call pid wid rule trip = (Inr ?s, evs @ [(''manager.watchdog.action_chain_completed'', ?s)])"
    unfolding execute_actions_def run(1) by (simp add: Let_def)
  moreover have "jget ?s ''actions'' = PList (map PDict results)"
    "jget ?s ''success'' = PBool (\<forall>r \<in> set results. truthy (jget r ''ok''))"
    by (simp_all add: chain_summary_def Let_def filter_empty_conv)
  ultimately show ?thesis
    using run(2) by (intro exI conjI) (assumption | rule last_snoc)+
qed

text \<open>The laser answers on the third call only.\<close>

definition slow_laser :: wd_call where
  "slow_laser n req ms = (if n < 2 then Inr PNone else Inr (PDict [(''ok'', PBool True)]))"

theorem chain_serves_every_action_witness:
  "\<exists>results. chain_served slow_laser (\<lambda>a. snd (action_request ''wd'' a ''safety'' hot_rule ''trip'')) (wr_actions hot_rule) 0 results
    \<and> (\<forall>r \<in> set results. truthy (jget r ''ok''))"
proof -
  have "\<forall>a \<in> set (wr_actions hot_rule). \<exists>ms. timeout_ms (wa_timeout_s a) = Inr ms"
    by (simp add: hot_rule_def timeout_ms_def)
  from chain_serves_every_action [OF this, of slow_laser "''wd''" "''safety''" "''trip''"]
  obtain results summary evs where r: "execute_actions slow_laser ''wd'' ''safety'' hot_rule ''trip'' = (Inr summary, evs)"
    "chain_served slow_laser (\<lambda>a. snd (action_request ''wd'' a ''safety'' hot_rule ''trip'')) (wr_actions hot_rule) 0 results"
    "jget summary ''success'' = PBool (\<forall>r \<in> set results. truthy (jget r ''ok''))"
    by blast
  have "(case fst (execute_actions slow_laser ''wd'' ''safety'' hot_rule ''trip'') of Inr s \<Rightarrow> jget s ''success'' = PBool True | Inl _ \<Rightarrow> False)"
    by code_simp
  with r show ?thesis by auto
qed


section \<open>A trip that is lost\<close>

text \<open>
  C40. A latching rule whose chain is still in flight (the operator cleared its latch meanwhile)
  and that is due again becomes latched without a trip: nothing is announced, no chain is
  submitted, and since it is latched no later evaluation trips it either, even after the
  chain in flight is done.
\<close>
theorem trip_lost_while_chain_in_flight:
  fixes wid rule
  defines "key \<equiv> (wid, wr_name rule)"
  assumes "key \<in> set (wd_inflight w)" "map_of (wd_states w) key = Some st" "wr_latch rule"
    and "evaluate_watchdog_rule E rule (ww_get x) (ww_now x) st = Inr (True, st1, [])"
    and "evaluate_one E x wid rule w = (r, w')"
  shows "trips w' = trips w \<and> wd_submitted w' = wd_submitted w
    \<and> (\<exists>st'. map_of (wd_states w') key = Some st' \<and> st_latched st')
    \<and> trips (eval_run E wid rule xs (on_action_chain_done key trip outcome w')) = trips w"
proof -
  have latched: "st_latched st1" using rule_evaluation(4) [OF assms(5)] assms(4) by simp
  obtain st2 w2 where n: "note_recovery wid rule st1 w = (st2, w2)" by (metis surj_pair)
  have kept: "trips w2 = trips w" "wd_states w2 = wd_states w" "wd_inflight w2 = wd_inflight w" "st_latched st2"
    "wd_submitted w2 = wd_submitted w"
    using note_recovery_keeps [OF n] latched n
    by (auto simp: same_gates_def note_recovery_def publish_recovered_def wd_publish_def split: option.splits if_splits)
  have w': "w' = wd_set_state key st2 w2"
    using assms(2,3,5,6) n kept(3) by (auto simp: evaluate_one_def key_def Let_def act_on_trigger_def)
  have st': "map_of (wd_states w') key = Some st2" by (simp add: w' wd_set_state_def update_conv')
  obtain st3 where "map_of (wd_states (on_action_chain_done key trip outcome w')) key = Some st3" "st_latched st3"
    using chain_done_latched [OF st'] kept(4) by blast
  then have "trips (eval_run E wid rule xs (on_action_chain_done key trip outcome w')) = trips w'"
    using latched_run_silent assms(4) unfolding key_def by (metis chain_done_trips)
  moreover have "trips w' = trips w" using kept(1) by (simp add: w' wd_set_state_def trips_def)
  moreover have "wd_submitted w' = wd_submitted w" using kept(5) by (simp add: w' wd_set_state_def)
  ultimately show ?thesis using st' kept(4) by auto
qed

text \<open>Tripped at 13, cleared at 14 with the chain still running, due again at 23.\<close>

definition cleared_watchdog :: watchdog where
  "cleared_watchdog = hot_step 20 (snd (handle_watchdog_rpc plain_lang PNone (Fin 14)
     [(''type'', PStr ''watchdog.clear_latch''), (''params'', PDict [(''rule'', PStr ''hot'')])] (hot_step 13 (hot_step 10 hot_watchdog))))"

theorem trip_lost_while_chain_in_flight_witness:
  "trips (hot_step 23 cleared_watchdog) = 1
   \<and> (\<exists>st'. map_of (wd_states (hot_step 23 cleared_watchdog)) (''safety'', ''hot'') = Some st' \<and> st_latched st')"
proof -
  have "(case map_of (wd_states cleared_watchdog) (''safety'', ''hot'') of None \<Rightarrow> False | Some st \<Rightarrow>
      \<not> st_latched st \<and> (case evaluate_watchdog_rule plain_eval hot_rule (ww_get (hot_world 23)) (ww_now (hot_world 23)) st of
        Inr (t, _, errs) \<Rightarrow> t \<and> errs = [] | Inl _ \<Rightarrow> False))"
    by code_simp
  then obtain st st1 where st: "map_of (wd_states cleared_watchdog) (''safety'', wr_name hot_rule) = Some st"
    "evaluate_watchdog_rule plain_eval hot_rule (ww_get (hot_world 23)) (ww_now (hot_world 23)) st = Inr (True, st1, [])"
    by (auto simp: hot_rule_def split: option.splits sum.splits)
  have "(''safety'', wr_name hot_rule) \<in> set (wd_inflight cleared_watchdog)" "wr_latch hot_rule" "trips cleared_watchdog = 1"
    by code_simp+
  then show ?thesis
    using trip_lost_while_chain_in_flight [OF _ st(1) _ st(2) prod.collapse [symmetric]] by (simp add: hot_rule_def)
qed

end
