(* ===== verification/Sequencer_Form.thy ===== *)
theory Sequencer_Form
  imports Sequencer_Eval
begin

text \<open>
  The check of a sequence's run form, \<open>sequencer/run_form.py\<close>: every field of the form names a
  declared variable, and the form has at most one target and one range that moves it.
\<close>

definition FIELD_TYPES :: "string list" where
  "FIELD_TYPES = [''checkbox'', ''number'', ''integer'', ''text'', ''select'', ''chips'', ''target'', ''range'']"

definition FORM_KEYS :: "string list" where
  "FORM_KEYS = [''title'', ''presets'', ''summary'', ''sections'']"

definition SECTION_KEYS :: "string list" where
  "SECTION_KEYS = [''title'', ''toggle'', ''fields'', ''wide'', ''column'']"

definition SECTION_COLUMNS :: "string list" where
  "SECTION_COLUMNS = [''left'', ''right'']"

definition COMMON_FIELD_KEYS :: "string list" where
  "COMMON_FIELD_KEYS = [''type'', ''label'', ''enabled_by'']"

definition FIELD_KEYS :: "string \<Rightarrow> string list" where
  "FIELD_KEYS kind = dget
     [(''checkbox'', [''var'']),
      (''number'', [''var'', ''min'', ''max'', ''step'', ''unit'']),
      (''integer'', [''var'', ''min'', ''max'', ''unit'']),
      (''text'', [''var'']),
      (''select'', [''var'', ''options'', ''options_call'', ''empty_label'']),
      (''chips'', [''var'', ''options'', ''includes'']),
      (''target'', [''var'', ''catalog'', ''other'', ''other_exclude'', ''other_defaults'', ''sets'']),
      (''range'', [''target'', ''relative'', ''from'', ''to'', ''points''])] kind []"

definition OPTIONS_CALL_KEYS :: "string list" where
  "OPTIONS_CALL_KEYS = [''device'', ''action'', ''params'', ''list'', ''value'', ''label'']"

definition form_dict :: "pyval \<Rightarrow> string \<Rightarrow> pyexc + items" where
  "form_dict v loc = (case as_dict v of Some d \<Rightarrow> Inr d | None \<Rightarrow> Inl (TypeError (loc @ '' must be a dict'')))"

definition form_keys :: "items \<Rightarrow> string \<Rightarrow> string list \<Rightarrow> pyexc + unit" where
  "form_keys obj loc allowed =
     (let unknown = sorted_texts (filter (\<lambda>k. k \<notin> set allowed) (map fst obj)) in
      guard_err (unknown = []) (TypeError (loc @ '' has unknown key(s): '' @ join '', '' unknown)))"

definition check_var :: "py_lang \<Rightarrow> pyval \<Rightarrow> string \<Rightarrow> items \<Rightarrow> pyexc + string" where
  "check_var L name loc vars =
     (case name of
        PStr s \<Rightarrow>
          if py_strip s = [] then Inl (TypeError (loc @ '' must name a var''))
          else if \<not> dhas vars s
          then Inl (TypeError (loc @ '' names '' @ repr_str s @ '', which is not declared in vars''))
          else Inr s
      | _ \<Rightarrow> Inl (TypeError (loc @ '' must name a var'')))"

fun each_res :: "('a \<Rightarrow> 'e + unit) \<Rightarrow> 'a list \<Rightarrow> 'e + unit" where
  "each_res f [] = Inr ()"
| "each_res f (x # xs) = res_bind (f x) (\<lambda>_. each_res f xs)"

definition is_str :: "pyval \<Rightarrow> bool" where
  "is_str v = (case v of PStr _ \<Rightarrow> True | _ \<Rightarrow> False)"

definition is_bool :: "pyval \<Rightarrow> bool" where
  "is_bool v = (case v of PBool _ \<Rightarrow> True | _ \<Rightarrow> False)"

definition nonblank :: "pyval \<Rightarrow> bool" where
  "nonblank v = (case v of PStr s \<Rightarrow> py_strip s \<noteq> [] | _ \<Rightarrow> False)"

definition at_index :: "string \<Rightarrow> nat \<Rightarrow> string" where
  "at_index p i = p @ ''['' @ digits_of i @ '']''"

definition check_options :: "pyval \<Rightarrow> string \<Rightarrow> pyexc + unit" where
  "check_options options loc =
     (case options of
        PList xs \<Rightarrow>
          each_res (\<lambda>(i, option).
            guard_err (case as_dict option of Some d \<Rightarrow> dhas d ''value'' | None \<Rightarrow> False)
              (TypeError (at_index loc i @ '' must be a dict with a value''))) (enumerate 0 xs)
      | _ \<Rightarrow> Inl (TypeError (loc @ '' must be a list of {value, label}'')))"

definition check_target :: "py_lang \<Rightarrow> items \<Rightarrow> string \<Rightarrow> items \<Rightarrow> pyexc + unit" where
  "check_target L obj loc vars =
     res_bind (check_var L (jget obj ''catalog'') (loc @ ''.catalog'') vars) (\<lambda>catalog.
     res_bind (guard_err (case jget vars catalog of PList _ \<Rightarrow> True | _ \<Rightarrow> False)
         (TypeError (loc @ ''.catalog '' @ repr_str catalog @ '' must be a list of targets''))) (\<lambda>_.
     res_bind (guard_err (is_bool (dget obj ''other'' (PBool True)))
         (TypeError (loc @ ''.other must be true or false''))) (\<lambda>_.
     res_bind (guard_err (case dget obj ''other_exclude'' (PList []) of PList ds \<Rightarrow> list_all is_str ds | _ \<Rightarrow> False)
         (TypeError (loc @ ''.other_exclude must be a list of device ids''))) (\<lambda>_.
     res_bind (form_dict (dget obj ''other_defaults'' (PDict [])) (loc @ ''.other_defaults'')) (\<lambda>_.
     res_bind (form_dict (dget obj ''sets'' (PDict [])) (loc @ ''.sets'')) (\<lambda>sets.
     each_res (\<lambda>(name, key).
       res_bind (check_var L (PStr name) (loc @ ''.sets'') vars) (\<lambda>_.
       guard_err (nonblank key) (TypeError (loc @ ''.sets.'' @ name @ '' must name a target key'')))) sets))))))"

definition check_options_call :: "items \<Rightarrow> string \<Rightarrow> pyexc + unit" where
  "check_options_call obj loc =
     res_bind (guard_err (\<not> dhas obj ''options'') (TypeError (loc @ '' sets both options and options_call''))) (\<lambda>_.
     res_bind (form_dict (jget obj ''options_call'') (loc @ ''.options_call'')) (\<lambda>call.
     res_bind (form_keys call (loc @ ''.options_call'') OPTIONS_CALL_KEYS) (\<lambda>_.
     each_res (\<lambda>key. guard_err (nonblank (jget call key))
       (TypeError (loc @ ''.options_call.'' @ key @ '' must be a non-empty string''))) [''device'', ''action''])))"

definition check_field :: "py_lang \<Rightarrow> pyval \<Rightarrow> string \<Rightarrow> items \<Rightarrow> pyexc + items" where
  "check_field L field loc vars =
     res_bind (form_dict field loc) (\<lambda>obj.
     case jget obj ''type'' of
       PStr kind \<Rightarrow>
         if kind \<notin> set FIELD_TYPES
         then Inl (TypeError (loc @ ''.type must be one of '' @ join '', '' FIELD_TYPES @ '', got '' @ repr_str kind))
         else
         res_bind (form_keys obj loc (COMMON_FIELD_KEYS @ FIELD_KEYS kind)) (\<lambda>_.
         res_bind (if dhas obj ''enabled_by''
                   then res_bind (check_var L (jget obj ''enabled_by'') (loc @ ''.enabled_by'') vars) (\<lambda>_. Inr ()) else Inr ()) (\<lambda>_.
         if kind = ''range''
         then res_bind (each_res (\<lambda>key. res_bind (check_var L (jget obj key) (loc @ ''.'' @ key) vars) (\<lambda>_. Inr ()))
                [''target'', ''relative'', ''from'', ''to'', ''points'']) (\<lambda>_. Inr obj)
         else
         res_bind (check_var L (jget obj ''var'') (loc @ ''.var'') vars) (\<lambda>_.
         res_bind (if kind = ''target'' then check_target L obj loc vars else Inr ()) (\<lambda>_.
         res_bind (if kind = ''chips'' \<and> dhas obj ''includes''
                   then res_bind (check_var L (jget obj ''includes'') (loc @ ''.includes'') vars) (\<lambda>_. Inr ()) else Inr ()) (\<lambda>_.
         res_bind (if kind = ''chips'' \<or> kind = ''select'' \<and> \<not> dhas obj ''options_call''
                   then res_bind (check_var L (jget obj ''options'') (loc @ ''.options'') vars) (\<lambda>options.
                        check_options (jget vars options) (loc @ ''.options ('' @ options @ '')''))
                   else Inr ()) (\<lambda>_.
         res_bind (if kind = ''select'' \<and> dhas obj ''options_call'' then check_options_call obj loc else Inr ())
           (\<lambda>_. Inr obj)))))))
     | v \<Rightarrow> Inl (TypeError (loc @ ''.type must be one of '' @ join '', '' FIELD_TYPES @ '', got '' @ py_repr L v)))"

text \<open>A section: the targets and the ranges its fields name are added to those found so far.\<close>

definition field_names :: "items \<Rightarrow> string list \<times> string list" where
  "field_names obj =
     (case (jget obj ''type'', jget obj ''var'', jget obj ''target'') of
        (PStr kind, v, t) \<Rightarrow>
          ((case v of PStr s \<Rightarrow> if kind = ''target'' then [s] else [] | _ \<Rightarrow> []),
           (case t of PStr s \<Rightarrow> if kind = ''range'' then [s] else [] | _ \<Rightarrow> []))
      | _ \<Rightarrow> ([], []))"

definition check_section :: "py_lang \<Rightarrow> items \<Rightarrow> nat \<times> pyval \<Rightarrow> pyexc + (string list \<times> string list)" where
  "check_section L vars entry =
     (let loc = at_index ''form.sections'' (fst entry) in
      res_bind (form_dict (snd entry) loc) (\<lambda>section.
      res_bind (form_keys section loc SECTION_KEYS) (\<lambda>_.
      res_bind (if dhas section ''toggle''
                then res_bind (check_var L (jget section ''toggle'') (loc @ ''.toggle'') vars) (\<lambda>_. Inr ()) else Inr ()) (\<lambda>_.
      res_bind (guard_err (dhas section ''wide'' \<longrightarrow> is_bool (jget section ''wide''))
          (TypeError (loc @ ''.wide must be true or false''))) (\<lambda>_.
      res_bind (guard_err (dhas section ''column'' \<longrightarrow> jget section ''column'' \<in> PStr ` set SECTION_COLUMNS)
          (TypeError (loc @ ''.column must be one of '' @ join '', '' SECTION_COLUMNS))) (\<lambda>_.
      res_bind (guard_err (\<not> (dhas section ''column'' \<and> jget section ''wide'' = PBool True))
          (TypeError (loc @ '' sets both wide and column''))) (\<lambda>_.
      case jget section ''fields'' of
        PList (f # fs) \<Rightarrow>
          res_bind (res_map (\<lambda>(i, field). check_field L field (at_index (loc @ ''.fields'') i) vars) (enumerate 0 (f # fs)))
            (\<lambda>objs. Inr (concat (map (fst \<circ> field_names) objs), concat (map (snd \<circ> field_names) objs)))
      | _ \<Rightarrow> Inl (TypeError (loc @ ''.fields must be a non-empty list'')))))))))"

definition check_preset :: "py_lang \<Rightarrow> items \<Rightarrow> nat \<times> pyval \<Rightarrow> pyexc + unit" where
  "check_preset L vars entry =
     (let loc = at_index ''form.presets'' (fst entry) in
      res_bind (form_dict (snd entry) loc) (\<lambda>preset.
      res_bind (form_keys preset loc [''label'', ''set'']) (\<lambda>_.
      res_bind (form_dict (jget preset ''set'') (loc @ ''.set'')) (\<lambda>sets.
      each_res (\<lambda>(name, _). res_bind (check_var L (PStr name) (loc @ ''.set'') vars) (\<lambda>_. Inr ())) sets))))"

definition check_summary_item :: "py_lang \<Rightarrow> items \<Rightarrow> nat \<times> pyval \<Rightarrow> pyexc + unit" where
  "check_summary_item L vars entry =
     (let loc = at_index ''form.summary'' (fst entry) in
      res_bind (form_dict (snd entry) loc) (\<lambda>item.
      res_bind (form_keys item loc [''label'', ''product'']) (\<lambda>_.
      res_bind (guard_err (is_str (jget item ''label'')) (TypeError (loc @ ''.label must be a string''))) (\<lambda>_.
      case jget item ''product'' of
        PList (p # ps) \<Rightarrow> each_res (\<lambda>name. res_bind (check_var L name (loc @ ''.product'') vars) (\<lambda>_. Inr ())) (p # ps)
      | _ \<Rightarrow> Inl (TypeError (loc @ ''.product must be a non-empty list of vars''))))))"

text \<open>\<open>enumerate(form.get("presets", []) or [])\<close>: iterating over a dictionary or a text gives its keys or characters.\<close>

definition form_presets :: "eval_lang \<Rightarrow> items \<Rightarrow> pyexc + pyval list" where
  "form_presets E form =
     (let v = py_or (dget form ''presets'' (PList [])) (PList []) in
      case py_iter v of Some xs \<Rightarrow> Inr xs | None \<Rightarrow> Inl (TypeError (op_error_text E ''iter'' [v])))"

definition validate_run_form :: "eval_lang \<Rightarrow> pyval \<Rightarrow> items \<Rightarrow> pyexc + items" where
  "validate_run_form E raw vars =
     (let L = plain E in
      res_bind (form_dict raw ''form'') (\<lambda>form.
      res_bind (form_keys form ''form'' FORM_KEYS) (\<lambda>_.
      case jget form ''sections'' of
        PList (s # ss) \<Rightarrow>
          res_bind (res_map (check_section L vars) (enumerate 0 (s # ss))) (\<lambda>found.
          let targets = concat (map fst found); ranges = concat (map snd found) in
          res_bind (guard_err (length targets \<le> 1) (TypeError ''form has more than one target field'')) (\<lambda>_.
          res_bind (guard_err (length ranges \<le> 1) (TypeError ''form has more than one range field'')) (\<lambda>_.
          res_bind (guard_err (ranges = [] \<or> hd ranges \<in> set targets)
              (TypeError (''form range field's target '' @ repr_str (hd ranges) @ '' must name the form's target field var''))) (\<lambda>_.
          res_bind (form_presets E form) (\<lambda>presets.
          res_bind (each_res (check_preset L vars) (enumerate 0 presets)) (\<lambda>_.
          case dget form ''summary'' (PList []) of
            PList items \<Rightarrow> res_bind (each_res (check_summary_item L vars) (enumerate 0 items)) (\<lambda>_. Inr form)
          | _ \<Rightarrow> Inl (TypeError ''form.summary must be a list of {label, product}''))))))
      )| _ \<Rightarrow> Inl (TypeError ''form.sections must be a non-empty list''))))"

end
