(* ===== verification/Sequencer_Ranges.thy ===== *)
theory Sequencer_Ranges
  imports Sequencer_Eval Rules_Config Sequencer_Form "HOL-Library.Multiset" "HOL-Library.Product_Lexorder"
begin

text \<open>
  The generators of scan points, \<open>sequencer/ranges.py\<close> and \<open>scan_plan.py\<close>: ranges, grids with
  their patterns and orders, modifiers and sampling, and the records a \<open>for\<close> loop binds. Of
  numpy, the spacing functions and the random generator are the record \<open>np_gen\<close>; a random
  choice is the list of positions it draws.
\<close>

record np_gen =
  np_linspace :: "pyfloat \<Rightarrow> pyfloat \<Rightarrow> int \<Rightarrow> pyexc + pyfloat list"
  np_logspace :: "pyfloat \<Rightarrow> pyfloat \<Rightarrow> int \<Rightarrow> pyfloat \<Rightarrow> pyexc + pyfloat list"
  np_geomspace :: "pyfloat \<Rightarrow> pyfloat \<Rightarrow> int \<Rightarrow> pyexc + pyfloat list"
  np_shuffle :: "int option \<Rightarrow> nat \<Rightarrow> pyexc + nat list"
  np_integers :: "int option \<Rightarrow> nat \<Rightarrow> nat \<Rightarrow> pyexc + nat list"
  np_choice :: "int option \<Rightarrow> nat \<Rightarrow> nat \<Rightarrow> pyexc + nat list"

definition eraise :: "pyexc + 'a \<Rightarrow> eval_error + 'a" where
  "eraise r = (case r of Inl e \<Rightarrow> Inl (EvalRaised e) | Inr x \<Rightarrow> Inr x)"

lemma eraise_simps [simp]: "eraise (Inr x) = Inr x" "eraise (Inl e) = Inl (EvalRaised e)"
  by (simp_all add: eraise_def)

definition to_float :: "eval_lang \<Rightarrow> pyval \<Rightarrow> pyexc + pyfloat" where
  "to_float E v = (case py_float (plain E) v of None \<Rightarrow> Inl (float_error v) | Some f \<Rightarrow> Inr f)"

definition to_int :: "eval_lang \<Rightarrow> pyval \<Rightarrow> pyexc + int" where
  "to_int E v = (case py_int (plain E) v of None \<Rightarrow> Inl (ValueError ''invalid literal for int()'') | Some n \<Rightarrow> Inr n)"


section \<open>The keys of a generator\<close>

definition GENERATOR_FIELDS :: "(string \<times> (string list \<times> string list)) list" where
  "GENERATOR_FIELDS =
     [(''range'', ([''start'', ''stop''], [''step''])),
      (''linspace'', ([''start'', ''stop'', ''num''], [])),
      (''logspace'', ([''start'', ''stop'', ''num''], [''base''])),
      (''geomspace'', ([''start'', ''stop'', ''num''], [])),
      (''triangle'', ([''start'', ''stop'', ''num''], [])),
      (''centered_triangle'', ([''center'', ''span'', ''num''], [''dir'']))]"

definition GENERATOR_KINDS :: "string list" where
  "GENERATOR_KINDS = map fst GENERATOR_FIELDS @ [''values'', ''scan2d'']"

definition GEN_MODIFIER_KEYS :: "string list" where
  "GEN_MODIFIER_KEYS = [''offset'', ''sample'', ''seed'', ''serpentine'', ''shuffle'']"

definition check_generator_fields :: "eval_lang \<Rightarrow> string \<Rightarrow> pyval \<Rightarrow> pyexc + items" where
  "check_generator_fields E kind params =
     (case as_dict params of
        None \<Rightarrow> Inl (TypeError (''gen.'' @ kind @ '' must be a dict''))
      | Some d \<Rightarrow>
          let (required, optional) = dget GENERATOR_FIELDS kind ([], []);
              allowed = required @ optional;
              missing = filter (\<lambda>n. \<not> dhas d n) required
          in case filter (\<lambda>k. k \<notin> set allowed) (map fst d) of
               key # _ \<Rightarrow> Inl (ValueError (unknown_key_message E (''gen.'' @ kind) key allowed None))
             | [] \<Rightarrow>
                 if missing \<noteq> []
                 then Inl (ValueError (''gen.'' @ kind @ '' is missing required field(s): '' @ join '', '' missing))
                 else Inr d)"

definition validate_gen_keys :: "eval_lang \<Rightarrow> pyval \<Rightarrow> pyexc + unit" where
  "validate_gen_keys E spec =
     (case as_dict spec of
        None \<Rightarrow> Inl (TypeError ''gen spec must be a dict'')
      | Some d \<Rightarrow>
          let kinds = filter (\<lambda>k. k \<in> set GENERATOR_KINDS) (map fst d);
              allowed = GENERATOR_KINDS @ GEN_MODIFIER_KEYS
          in case filter (\<lambda>k. k \<notin> set allowed) (map fst d) of
               key # _ \<Rightarrow> Inl (ValueError (unknown_key_message E ''gen spec'' key allowed None))
             | [] \<Rightarrow>
                 (case kinds of
                    [] \<Rightarrow> Inl (ValueError (''gen spec must include one of '' @ join ''/'' GENERATOR_KINDS))
                  | [kind] \<Rightarrow>
                      if dhas GENERATOR_FIELDS kind \<and> is_dict (jget d kind)
                      then res_bind (check_generator_fields E kind (jget d kind)) (\<lambda>_. Inr ()) else Inr ()
                  | _ \<Rightarrow> Inl (ValueError (''gen spec must contain exactly one generator, got: '' @ join '', '' kinds))))"


section \<open>Modifiers and records\<close>

definition pick :: "'a list \<Rightarrow> nat list \<Rightarrow> 'a list" where
  "pick xs is = map (\<lambda>i. xs ! i) is"

definition add_offset :: "eval_lang \<Rightarrow> pyfloat \<Rightarrow> pyval \<Rightarrow> pyexc + pyval" where
  "add_offset E f v =
     (case py_add v (PFloat f) of
        Inr w \<Rightarrow> Inr w | Inl (AOther e) \<Rightarrow> Inl e | Inl _ \<Rightarrow> Inl (TypeError (op_error_text E ''+'' [v, PFloat f])))"

definition apply_modifiers ::
  "eval_lang \<Rightarrow> np_gen \<Rightarrow> pyval list \<Rightarrow> pyfloat option \<Rightarrow> bool \<Rightarrow> int option \<Rightarrow> bool \<Rightarrow> int option \<Rightarrow> pyexc + pyval list" where
  "apply_modifiers E N values offset shuffle seed serpentine serpentine_index =
     res_bind (case offset of None \<Rightarrow> Inr values | Some f \<Rightarrow> res_map (add_offset E f) values) (\<lambda>out.
     res_bind (if shuffle then res_bind (np_shuffle N seed (length out)) (\<lambda>p. Inr (pick out p)) else Inr out) (\<lambda>out.
     Inr (if serpentine \<and> (case serpentine_index of None \<Rightarrow> False | Some i \<Rightarrow> i mod 2 = 1) then rev out else out)))"

definition position_u :: "nat \<Rightarrow> nat \<Rightarrow> pyval" where
  "position_u index total_count =
     PFloat (Fin (if total_count > 1 then of_nat index / of_nat (max 1 (total_count - 1)) else 0))"

definition wrap_scalar_records :: "pyval list \<Rightarrow> items list" where
  "wrap_scalar_records values =
     map (\<lambda>(i, v). [(''value'', v), (''index'', PInt (int i)), (''u'', position_u i (length values)),
                    (''count'', PInt (int (length values)))]) (enumerate 0 values)"

definition range_coerce_int :: "eval_lang \<Rightarrow> pyval \<Rightarrow> string \<Rightarrow> int \<Rightarrow> pyexc + int" where
  "range_coerce_int E v name minimum =
     (case py_int (plain E) v of
        None \<Rightarrow> Inl (TypeError (name @ '' must be an integer''))
      | Some n \<Rightarrow> if n < minimum then Inl (ValueError (name @ '' must be >= '' @ str_int minimum)) else Inr n)"

definition range_coerce_float :: "eval_lang \<Rightarrow> pyval \<Rightarrow> string \<Rightarrow> bool \<Rightarrow> pyexc + pyfloat" where
  "range_coerce_float E v name positive =
     (case py_float (plain E) v of
        None \<Rightarrow> Inl (TypeError (name @ '' must be a number''))
      | Some f \<Rightarrow> if positive \<and> fle f (Fin 0) then Inl (ValueError (name @ '' must be > 0'')) else Inr f)"


section \<open>Grids\<close>

definition validate_scan2d_pattern :: "string \<Rightarrow> pyexc + string" where
  "validate_scan2d_pattern p =
     (let v = py_lower (py_strip (if p = [] then ''serpentine'' else p)) in
      if v \<in> {''raster'', ''serpentine'', ''random'', ''center_out''} then Inr v
      else Inl (ValueError ''scan2d.pattern must be one of raster/serpentine/random/center_out''))"

definition validate_scan2d_order :: "string \<Rightarrow> pyexc + string" where
  "validate_scan2d_order p =
     (let v = py_lower (py_strip (if p = [] then ''row_major'' else p)) in
      if v \<in> {''row_major'', ''col_major''} then Inr v
      else Inl (ValueError ''scan2d.order must be one of row_major/col_major''))"

text \<open>The cells of the grid, as (row, column).\<close>

definition grid_coords :: "bool \<Rightarrow> nat \<Rightarrow> nat \<Rightarrow> (nat \<times> nat) list" where
  "grid_coords row_major x_count y_count =
     (if row_major then [(row, col). row \<leftarrow> [0..<y_count], col \<leftarrow> [0..<x_count]]
      else [(row, col). col \<leftarrow> [0..<x_count], row \<leftarrow> [0..<y_count]])"

definition apply_serpentine :: "bool \<Rightarrow> nat \<Rightarrow> nat \<Rightarrow> (nat \<times> nat) list" where
  "apply_serpentine row_major x_count y_count =
     (if row_major
      then concat (map (\<lambda>row. let cs = map (\<lambda>col. (row, col)) [0..<x_count] in if row mod 2 = 1 then rev cs else cs) [0..<y_count])
      else concat (map (\<lambda>col. let cs = map (\<lambda>row. (row, col)) [0..<y_count] in if col mod 2 = 1 then rev cs else cs) [0..<x_count]))"

definition center_out_sort_key :: "nat \<Rightarrow> nat \<Rightarrow> nat \<times> nat \<Rightarrow> rat \<times> nat \<times> nat" where
  "center_out_sort_key x_count y_count coord =
     (let dr = of_nat (fst coord) - (of_nat y_count - 1) / 2; dc = of_nat (snd coord) - (of_nat x_count - 1) / 2
      in (dr * dr + dc * dc, fst coord, snd coord))"

definition pattern_coords :: "np_gen \<Rightarrow> string \<Rightarrow> bool \<Rightarrow> nat \<Rightarrow> nat \<Rightarrow> int option \<Rightarrow> pyexc + (nat \<times> nat) list" where
  "pattern_coords N pattern row_major x_count y_count seed =
     (let coords = grid_coords row_major x_count y_count in
      if pattern = ''serpentine'' then Inr (apply_serpentine row_major x_count y_count)
      else if pattern = ''random'' then res_bind (np_shuffle N seed (length coords)) (\<lambda>p. Inr (pick coords p))
      else if pattern = ''center_out'' then Inr (sort_key (center_out_sort_key x_count y_count) coords)
      else Inr coords)"

definition scan2d_record :: "pyfloat list \<Rightarrow> pyfloat list \<Rightarrow> nat \<Rightarrow> nat \<times> (nat \<times> nat) \<Rightarrow> items" where
  "scan2d_record xs ys all_count entry =
     (case entry of (index, row, col) \<Rightarrow>
       [(''x'', PFloat (xs ! col)), (''y'', PFloat (ys ! row)), (''row'', PInt (int row)), (''col'', PInt (int col)),
        (''index'', PInt (int index)), (''u'', position_u col (length xs)), (''v'', position_u row (length ys)),
        (''count'', PInt (int all_count))])"

definition generate_scan2d_records ::
  "np_gen \<Rightarrow> pyfloat list \<Rightarrow> pyfloat list \<Rightarrow> string \<Rightarrow> string \<Rightarrow> int option \<Rightarrow> pyexc + items list" where
  "generate_scan2d_records N xs ys pattern order seed =
     (if xs = [] then Inl (ValueError ''scan2d.x must contain at least one point'')
      else if ys = [] then Inl (ValueError ''scan2d.y must contain at least one point'')
      else
      res_bind (validate_scan2d_pattern pattern) (\<lambda>pattern_name.
      res_bind (validate_scan2d_order order) (\<lambda>order_name.
      res_bind (pattern_coords N pattern_name (order_name = ''row_major'') (length xs) (length ys) seed) (\<lambda>coords.
      Inr (map (scan2d_record xs ys (length coords)) (enumerate 0 coords))))))"

definition is_number :: "pyval \<Rightarrow> bool" where
  "is_number v \<longleftrightarrow> as_num v \<noteq> None"

definition normalize_step_counts :: "eval_lang \<Rightarrow> pyval \<Rightarrow> pyexc + int \<times> int" where
  "normalize_step_counts E raw =
     (if is_number raw then res_bind (range_coerce_int E raw ''scan2d.steps'' 1) (\<lambda>n. Inr (n, n))
      else case as_dict raw of
             None \<Rightarrow> Inl (TypeError ''scan2d.steps must be a number or an object with x/y'')
           | Some d \<Rightarrow>
               res_bind (range_coerce_int E (jget d ''x'') ''scan2d.steps.x'' 1) (\<lambda>x.
               res_bind (range_coerce_int E (jget d ''y'') ''scan2d.steps.y'' 1) (\<lambda>y. Inr (x, y))))"

definition normalize_pitch :: "eval_lang \<Rightarrow> pyval \<Rightarrow> pyexc + pyfloat \<times> pyfloat" where
  "normalize_pitch E raw =
     (if is_number raw then res_bind (range_coerce_float E raw ''scan2d.pitch'' True) (\<lambda>p. Inr (p, p))
      else case as_dict raw of
             None \<Rightarrow> Inl (TypeError ''scan2d.pitch must be a number or an object with x/y'')
           | Some d \<Rightarrow>
               res_bind (range_coerce_float E (jget d ''x'') ''scan2d.pitch.x'' True) (\<lambda>x.
               res_bind (range_coerce_float E (jget d ''y'') ''scan2d.pitch.y'' True) (\<lambda>y. Inr (x, y))))"

definition normalize_center :: "eval_lang \<Rightarrow> pyval \<Rightarrow> pyexc + pyfloat \<times> pyfloat" where
  "normalize_center E raw =
     (case as_dict raw of
        None \<Rightarrow> Inl (TypeError ''scan2d.center must be an object with x/y'')
      | Some d \<Rightarrow>
          res_bind (range_coerce_float E (jget d ''x'') ''scan2d.center.x'' False) (\<lambda>x.
          res_bind (range_coerce_float E (jget d ''y'') ''scan2d.center.y'' False) (\<lambda>y. Inr (x, y))))"

definition normalize_size :: "eval_lang \<Rightarrow> items \<Rightarrow> pyexc + pyfloat \<times> pyfloat" where
  "normalize_size E raw =
     (if dhas raw ''size''
      then
      let sz = jget raw ''size'' in
      if is_number sz then res_bind (range_coerce_float E sz ''scan2d.size'' True) (\<lambda>w. Inr (w, w))
      else (case as_dict sz of
              None \<Rightarrow> Inl (TypeError ''scan2d.size must be a number or an object with width/height'')
            | Some d \<Rightarrow>
                res_bind (range_coerce_float E (jget d ''width'') ''scan2d.size.width'' True) (\<lambda>w.
                res_bind (range_coerce_float E (jget d ''height'') ''scan2d.size.height'' True) (\<lambda>h. Inr (w, h))))
      else
      res_bind (range_coerce_float E (jget raw ''width'') ''scan2d.width'' True) (\<lambda>w.
      res_bind (range_coerce_float E (jget raw ''height'') ''scan2d.height'' True) (\<lambda>h. Inr (w, h))))"


text \<open>\<open>round\<close> rounds a half to the even neighbour; \<open>int(round(x))\<close> and \<open>ceil\<close> raise on what is not finite.\<close>

definition round_half_even :: "rat \<Rightarrow> int" where
  "round_half_even q =
     (let f = \<lfloor>q\<rfloor>; r = q - of_int f in
      if r < 1 / 2 then f else if r > 1 / 2 then f + 1 else if even f then f else f + 1)"

definition finite_int :: "(rat \<Rightarrow> int) \<Rightarrow> pyfloat \<Rightarrow> pyexc + int" where
  "finite_int g x =
     (case x of
        Fin q \<Rightarrow> Inr (g q)
      | NaN \<Rightarrow> Inl (ValueError ''cannot convert float NaN to integer'')
      | _ \<Rightarrow> Inl (OtherError ''cannot convert float infinity to integer''))"

definition linspace_from_pitch :: "np_gen \<Rightarrow> pyfloat \<Rightarrow> pyfloat \<Rightarrow> pyfloat \<Rightarrow> pyexc + pyfloat list" where
  "linspace_from_pitch N start stop pitch =
     res_bind (finite_int round_half_even (fdiv (fsub stop start) pitch)) (\<lambda>n. np_linspace N start stop (max 1 (n + 1)))"

definition explicit_axis_values :: "eval_lang \<Rightarrow> np_gen \<Rightarrow> pyval \<Rightarrow> string \<Rightarrow> pyexc + pyfloat list" where
  "explicit_axis_values E N axis name =
     (case as_dict axis of
        None \<Rightarrow> Inl (TypeError (''scan2d.'' @ name @ '' must be an object''))
      | Some d \<Rightarrow>
          if \<not> dhas d ''linspace'' \<or> length d \<noteq> 1
          then Inl (TypeError (''scan2d.'' @ name @ '' must contain exactly one linspace spec''))
          else (case as_dict (jget d ''linspace'') of
                  None \<Rightarrow> Inl (TypeError (''scan2d.'' @ name @ ''.linspace must be an object''))
                | Some params \<Rightarrow>
                    res_bind (range_coerce_float E (jget params ''start'') (''scan2d.'' @ name @ ''.linspace.start'') False) (\<lambda>start.
                    res_bind (range_coerce_float E (jget params ''stop'') (''scan2d.'' @ name @ ''.linspace.stop'') False) (\<lambda>stop.
                    res_bind (range_coerce_int E (jget params ''num'') (''scan2d.'' @ name @ ''.linspace.num'') 1) (\<lambda>num.
                    np_linspace N start stop num)))))"

definition axis_bounds :: "pyfloat \<Rightarrow> pyfloat \<Rightarrow> pyfloat \<times> pyfloat" where
  "axis_bounds center width = (fsub center (fdiv width (Fin 2)), fadd center (fdiv width (Fin 2)))"

definition seed_of :: "eval_lang \<Rightarrow> pyval \<Rightarrow> pyexc + int option" where
  "seed_of E raw = (if raw = PNone then Inr None else res_bind (to_int E raw) (\<lambda>n. Inr (Some n)))"

definition shorthand_axes :: "eval_lang \<Rightarrow> np_gen \<Rightarrow> items \<Rightarrow> pyexc + pyfloat list \<times> pyfloat list" where
  "shorthand_axes E N spec =
     (if \<not> dhas spec ''center'' then Inl (ValueError ''scan2d shorthand requires center'')
      else if dhas spec ''steps'' = dhas spec ''pitch''
      then Inl (ValueError ''scan2d shorthand requires exactly one of steps or pitch'')
      else
      res_bind (normalize_center E (jget spec ''center'')) (\<lambda>(cx, cy).
      res_bind (normalize_size E spec) (\<lambda>(width, height).
      let (x_start, x_stop) = axis_bounds cx width; (y_start, y_stop) = axis_bounds cy height in
      if dhas spec ''steps''
      then res_bind (normalize_step_counts E (jget spec ''steps'')) (\<lambda>(nx, ny).
           res_bind (np_linspace N x_start x_stop nx) (\<lambda>xs.
           res_bind (np_linspace N y_start y_stop ny) (\<lambda>ys. Inr (xs, ys))))
      else res_bind (normalize_pitch E (jget spec ''pitch'')) (\<lambda>(px, py).
           res_bind (linspace_from_pitch N x_start x_stop px) (\<lambda>xs.
           res_bind (linspace_from_pitch N y_start y_stop py) (\<lambda>ys. Inr (xs, ys)))))))"

definition generate_scan2d_from_spec :: "eval_lang \<Rightarrow> np_gen \<Rightarrow> pyval \<Rightarrow> pyexc + items list" where
  "generate_scan2d_from_spec E N raw =
     (case as_dict raw of
        None \<Rightarrow> Inl (TypeError ''gen.scan2d must be a dict'')
      | Some spec \<Rightarrow>
          res_bind (validate_scan2d_pattern (py_str (plain E) (dget spec ''pattern'' (PStr ''serpentine'')))) (\<lambda>pattern.
          res_bind (validate_scan2d_order (py_str (plain E) (dget spec ''order'' (PStr ''row_major'')))) (\<lambda>order.
          res_bind (seed_of E (jget spec ''seed'')) (\<lambda>seed.
          if seed \<noteq> None \<and> pattern \<noteq> ''random''
          then Inl (ValueError ''scan2d.seed is only valid when pattern=random'')
          else
          let explicit = dhas spec ''x'' \<or> dhas spec ''y'';
              shorthand = list_ex (dhas spec) [''center'', ''size'', ''width'', ''height'', ''steps'', ''pitch'']
          in if explicit \<and> shorthand
             then Inl (ValueError ''scan2d cannot mix explicit x/y axes with center/size shorthand'')
             else
             res_bind
               (if \<not> explicit then shorthand_axes E N spec
                else if \<not> dhas spec ''x'' \<or> \<not> dhas spec ''y''
                then Inl (ValueError ''scan2d explicit form requires both x and y'')
                else res_bind (explicit_axis_values E N (jget spec ''x'') ''x'') (\<lambda>xs.
                     res_bind (explicit_axis_values E N (jget spec ''y'') ''y'') (\<lambda>ys. Inr (xs, ys))))
               (\<lambda>(xs, ys). generate_scan2d_records N xs ys pattern order seed)))))"


section \<open>Generators\<close>

text \<open>Sampled records are stamped again with the order of the draw.\<close>

definition restamp :: "items list \<Rightarrow> items list" where
  "restamp records =
     map (\<lambda>(i, r). dset ''u'' (position_u i (length records))
                    (dset ''count'' (PInt (int (length records))) (dset ''index'' (PInt (int i)) r))) (enumerate 0 records)"

definition apply_sample :: "eval_lang \<Rightarrow> np_gen \<Rightarrow> items list \<Rightarrow> pyval \<Rightarrow> items \<Rightarrow> eval_error + items list" where
  "apply_sample E N records sample_spec env =
     res_bind (render_templates E sample_spec env) (\<lambda>rendered.
     case as_dict rendered of
       None \<Rightarrow> Inl (EvalRaised (TypeError ''gen.sample must be a dict''))
     | Some spec \<Rightarrow> eraise
         (res_bind (range_coerce_int E (jget spec ''count'') ''sample.count'' 1) (\<lambda>k.
          res_bind (seed_of E (jget spec ''seed'')) (\<lambda>seed.
          let n = length records in
          if n = 0 then Inr []
          else if truthy (dget spec ''replace'' (PBool False))
          then res_bind (np_integers N seed n (nat k)) (\<lambda>is. Inr (restamp (pick records is)))
          else if k > int n
          then Inl (ValueError (''sample.count='' @ str_int k @ '' exceeds population size '' @ digits_of n @ '' with replace=false''))
          else res_bind (np_choice N seed n (nat k)) (\<lambda>is. Inr (restamp (pick records is)))))))"

definition range_values :: "pyfloat \<Rightarrow> pyfloat \<Rightarrow> pyfloat \<Rightarrow> eval_lang \<Rightarrow> pyexc + pyfloat list" where
  "range_values start stop step E =
     (if feq step (Fin 0) then Inl (ValueError ''range.step must be non-zero'')
      else if flt (fmul (fsub stop start) step) (Fin 0)
      then Inl (ValueError (''range step direction is wrong: start='' @ float_repr E start @ '' stop='' @ float_repr E stop
                  @ '' step='' @ float_repr E step @ '' would never reach stop''))
      else
      res_bind (finite_int (\<lambda>q. \<lceil>q - 1 / 1000000000\<rceil>) (fdiv (fsub stop start) step)) (\<lambda>n.
        Inr (map (\<lambda>i. fadd start (fmul (Fin (of_nat i)) step)) [0..<nat n])))"

definition centered_values :: "np_gen \<Rightarrow> pyfloat \<Rightarrow> pyfloat \<Rightarrow> int \<Rightarrow> int \<Rightarrow> pyexc + pyfloat list" where
  "centered_values N center width num direction =
     (if num < 3 then Inl (ValueError ''centered_triangle.num must be >= 3'')
      else if num mod 2 = 0 then Inl (ValueError ''centered_triangle.num must be odd so the center is included'')
      else if direction \<notin> {- 1, 1} then Inl (ValueError ''centered_triangle.dir must be 1 or -1'')
      else
      let (lower, upper) = axis_bounds center width;
          (first_edge, second_edge) = (if direction = 1 then (upper, lower) else (lower, upper))
      in res_bind (np_linspace N first_edge second_edge num) (\<lambda>edges.
         let mid = nat (num div 2)
         in Inr (rev (take (mid + 1) edges) @ edges @ rev (drop mid edges))))"

text \<open>The values of a generator with fields, once its fields have been checked.\<close>

definition generator_values :: "eval_lang \<Rightarrow> np_gen \<Rightarrow> string \<Rightarrow> items \<Rightarrow> pyexc + pyfloat list" where
  "generator_values E N kind params =
     (if kind = ''centered_triangle''
      then res_bind (to_float E (jget params ''center'')) (\<lambda>center.
           res_bind (to_float E (jget params ''span'')) (\<lambda>width.
           res_bind (to_int E (jget params ''num'')) (\<lambda>num.
           res_bind (to_int E (dget params ''dir'' (PInt 1))) (\<lambda>dir. centered_values N center width num dir))))
      else
      res_bind (to_float E (jget params ''start'')) (\<lambda>start.
      res_bind (to_float E (jget params ''stop'')) (\<lambda>stop.
      if kind = ''range''
      then res_bind (to_float E (dget params ''step'' (PInt 1))) (\<lambda>step. range_values start stop step E)
      else
      res_bind (to_int E (jget params ''num'')) (\<lambda>num.
      if kind = ''linspace'' then np_linspace N start stop num
      else if kind = ''triangle''
      then if num < 2 then Inl (ValueError ''triangle.num must be >= 2'')
           else res_bind (np_linspace N start stop num) (\<lambda>forward.
                res_bind (np_linspace N stop start num) (\<lambda>backward. Inr (forward @ backward)))
      else if kind = ''logspace''
      then res_bind (to_float E (dget params ''base'' (PFloat (Fin 10)))) (\<lambda>base. np_logspace N start stop num base)
      else np_geomspace N start stop num))))"

definition kind_order :: "string list" where
  "kind_order = [''range'', ''linspace'', ''triangle'', ''centered_triangle'', ''logspace'', ''geomspace'']"

definition core_values :: "eval_lang \<Rightarrow> np_gen \<Rightarrow> items \<Rightarrow> items \<Rightarrow> eval_error + pyval list" where
  "core_values E N spec env =
     (case filter (dhas spec) kind_order of
        kind # _ \<Rightarrow>
          res_bind (render_templates E (jget spec kind) env) (\<lambda>rendered.
          res_bind (eraise (check_generator_fields E kind rendered)) (\<lambda>params.
          res_bind (eraise (generator_values E N kind params)) (\<lambda>vs. Inr (map PFloat vs))))
      | [] \<Rightarrow>
          if dhas spec ''values''
          then res_bind (render_templates E (jget spec ''values'') env) (\<lambda>rendered.
               case rendered of PList vs \<Rightarrow> Inr vs | _ \<Rightarrow> Inl (EvalRaised (TypeError ''gen.values must be a list'')))
          else Inl (EvalRaised (ValueError
            ''gen spec must include one of range/linspace/triangle/centered_triangle/logspace/geomspace/values/scan2d'')))"

definition generate_core :: "eval_lang \<Rightarrow> np_gen \<Rightarrow> items \<Rightarrow> items \<Rightarrow> int option \<Rightarrow> eval_error + items list" where
  "generate_core E N spec env serpentine_index =
     (if dhas spec ''scan2d''
      then if length spec \<noteq> 1 then Inl (EvalRaised (ValueError ''scan2d must be the only generator in its gen spec''))
           else res_bind (render_templates E (jget spec ''scan2d'') env) (\<lambda>scan. eraise (generate_scan2d_from_spec E N scan))
      else
      res_bind (eraise (validate_gen_keys E (PDict spec))) (\<lambda>_.
      res_bind (if jget spec ''offset'' = PNone then Inr None
                else res_bind (render_templates E (jget spec ''offset'') env) (\<lambda>v.
                     res_bind (eraise (to_float E v)) (\<lambda>f. Inr (Some f)))) (\<lambda>offset.
      res_bind (if jget spec ''seed'' = PNone then Inr None
                else res_bind (render_templates E (jget spec ''seed'') env) (\<lambda>v. eraise (seed_of E v))) (\<lambda>seed.
      res_bind (core_values E N spec env) (\<lambda>values.
      res_bind (eraise (apply_modifiers E N values offset (truthy (dget spec ''shuffle'' (PBool False))) seed
                          (truthy (dget spec ''serpentine'' (PBool False))) serpentine_index)) (\<lambda>out.
      Inr (wrap_scalar_records out)))))))"

definition generate_from_gen :: "eval_lang \<Rightarrow> np_gen \<Rightarrow> items \<Rightarrow> items \<Rightarrow> int option \<Rightarrow> eval_error + items list" where
  "generate_from_gen E N spec env serpentine_index =
     (let sample_spec = jget spec ''sample'';
          core = (if sample_spec \<noteq> PNone then filter (\<lambda>(k, _). k \<noteq> ''sample'') spec else spec) in
      res_bind (generate_core E N core env serpentine_index) (\<lambda>records.
      if sample_spec \<noteq> PNone then apply_sample E N records sample_spec env else Inr records))"

end
