(* ===== verification/Sequencer_Ast.thy ===== *)
theory Sequencer_Ast
  imports Sequencer_Ranges
begin

text \<open>
  Sequences and their parser, \<open>sequencer/ast.py\<close>: the steps a sequence is made of, the checks
  of their keys and fields, the paths errors are located at, and the wrapping of a sequence
  in the watchdogs it requires. The parser takes the value a YAML loader gives; keys of
  dictionaries are texts.
\<close>

section \<open>Steps\<close>

record call_step =
  cs_device :: string
  cs_process :: "string option"
  cs_action :: string
  cs_params :: items
  cs_save_as :: "string option"
  cs_extract :: "items option"
  cs_assign :: "items option"

record adaptive_spec =
  as_id :: string
  as_controller :: items
  as_space :: items
  as_bind :: "(string \<times> string) list"
  as_state :: "items option"
  as_observe :: items
  as_stopping :: "items option"
  as_constraints :: "pyval list option"
  as_fail_on_trial_error :: bool

datatype step = Step (st_disabled: bool) (st_kind: kind)
and kind =
    CallStep call_step
  | SetStep string string pyval
  | SleepStep pyval
  | WaitUntilStep items
  | ForStep "(string \<times> string) list" pyval "step list"
  | RepeatStep pyval "step list"
  | IfStep pyval "step list" "step list option"
  | WhileStep pyval "step list"
  | AtomicStep "string option" "step list"
  | PauseStep "string option"
  | ParallelStep "step list"
  | TryStep "step list" "step list"
  | AssignStep items
  | SetContextStep pyval items
  | UseStep string "items option"
  | AdaptiveStep adaptive_spec "step list"

record sequence_spec =
  sq_version :: int
  sq_meta :: items
  sq_vars :: items
  sq_steps :: "step list"
  sq_context_columns :: "(string \<times> string) list option"
  sq_watchdog_ids :: "string list option"
  sq_require_hdf_writing :: bool
  sq_form :: "items option"


section \<open>Keys\<close>

text \<open>The closest of a list of step kinds, by \<open>difflib\<close> with the parser's cutoff, is a parameter.\<close>

record ast_lang = eval_lang +
  closest_kind :: "string \<Rightarrow> string option"

definition base_eval :: "ast_lang \<Rightarrow> eval_lang" where
  "base_eval A = \<lparr>float_repr = float_repr A, float_parse = float_parse A, int_parse = int_parse A, ast_parse = ast_parse A,
     close_matches = close_matches A, op_error_text = op_error_text A, str_format = str_format A, float_pow = float_pow A,
     log2_int = log2_int A\<rparr>"

datatype seq_error = SequenceParseError string string | SeqRaised pyexc

definition STEP_KINDS :: "string list" where
  "STEP_KINDS = [''call'', ''set'', ''sleep'', ''wait_until'', ''for'', ''repeat'', ''if'', ''while'', ''atomic'', ''pause'',
     ''parallel'', ''try'', ''assign'', ''set_context'', ''use'', ''adaptive'']"

definition STEP_EXTRA_KEYS :: "string \<Rightarrow> string list" where
  "STEP_EXTRA_KEYS kind = (if kind = ''call'' then [''save_as'', ''extract'', ''assign''] else [])"

definition STEP_INNER_KEYS :: "(string \<times> string list) list" where
  "STEP_INNER_KEYS =
     [(''call'', [''device'', ''process'', ''action'', ''params'']),
      (''set'', [''device'', ''name'', ''value'']),
      (''wait_until'', [''timeout_s'', ''every_s'', ''stable_for_s'', ''sample'', ''condition'', ''reduce'']),
      (''for'', [''bind'', ''in'', ''do'']),
      (''repeat'', [''times'', ''do'']),
      (''if'', [''condition'', ''then'', ''else'']),
      (''while'', [''condition'', ''do'']),
      (''atomic'', [''name'', ''do'']),
      (''pause'', [''reason'']),
      (''parallel'', [''do'']),
      (''try'', [''do'', ''finally'']),
      (''set_context'', [''streams'', ''fields'']),
      (''use'', [''id'', ''args'']),
      (''adaptive'', [''id'', ''controller'', ''space'', ''bind'', ''state'', ''observe'', ''stopping'', ''constraints'', ''do'',
         ''fail_on_trial_error''])]"

definition REDUCE_KEYS :: "string list" where
  "REDUCE_KEYS = [''method'', ''window_s'', ''max_samples'']"

definition TOP_LEVEL_KEYS :: "string list" where
  "TOP_LEVEL_KEYS = [''version'', ''meta'', ''vars'', ''context_columns'', ''requires'', ''form'', ''steps'']"

definition SEQUENCER_RUN_ID_FIELD :: string where
  "SEQUENCER_RUN_ID_FIELD = ''sequencer_run_id''"

definition EXTRACTOR_KINDS :: "string list" where
  "EXTRACTOR_KINDS = [''scalar'', ''index'', ''key'', ''attr'']"

fun check_keys_of :: "ast_lang \<Rightarrow> string list \<Rightarrow> string \<Rightarrow> string list \<Rightarrow> (string \<Rightarrow> string option) \<Rightarrow> pyexc + unit" where
  "check_keys_of A [] owner allowed hint = Inr ()"
| "check_keys_of A (key # keys) owner allowed hint =
     (if key \<in> set allowed then check_keys_of A keys owner allowed hint
      else Inl (TypeError (unknown_key_message (base_eval A) owner key allowed (hint key))))"

definition detect_step_kind :: "ast_lang \<Rightarrow> items \<Rightarrow> pyexc + string" where
  "detect_step_kind A obj =
     (case filter (dhas obj) STEP_KINDS of
        kind # _ \<Rightarrow> Inr kind
      | [] \<Rightarrow>
          (case filter (\<lambda>k. k \<noteq> ''disabled'') (map fst obj) of
             [] \<Rightarrow> Inl (TypeError (''step has no kind; use one of: '' @ join '', '' STEP_KINDS))
           | first # _ \<Rightarrow>
               Inl (TypeError (''Unknown step kind '' @ repr_str first
                 @ (case closest_kind A first of Some c \<Rightarrow> '' (did you mean '' @ repr_str c @ ''?)'' | None \<Rightarrow> [])
                 @ ''. Valid step kinds: '' @ join '', '' STEP_KINDS))))"

definition validate_step_keys :: "ast_lang \<Rightarrow> items \<Rightarrow> string \<Rightarrow> pyexc + unit" where
  "validate_step_keys A obj kind =
     (let extras = STEP_EXTRA_KEYS kind;
          combined = (\<lambda>key. if key \<in> set STEP_KINDS
             then Some (repr_str key @ '' is a step kind of its own and cannot be combined with '' @ repr_str kind
                        @ ''; put it in a separate step'') else None);
          misplaced = (\<lambda>key. if key \<in> set extras
             then Some (repr_str key @ '' belongs next to '' @ repr_str kind @ '', not inside it'') else None)
      in res_bind (check_keys_of A (map fst obj) (kind @ '' step'') (kind # ''disabled'' # extras) combined) (\<lambda>_.
         case (map_of STEP_INNER_KEYS kind, as_dict (jget obj kind)) of
           (Some inner, Some body) \<Rightarrow>
             res_bind (check_keys_of A (map fst body) kind inner misplaced) (\<lambda>_.
             if kind = ''wait_until''
             then (case as_dict (jget body ''reduce'') of
                     Some reduce \<Rightarrow> check_keys_of A (map fst reduce) ''wait_until.reduce'' REDUCE_KEYS (\<lambda>_. None)
                   | None \<Rightarrow> Inr ())
             else Inr ())
         | _ \<Rightarrow> Inr ()))"

definition need_dict :: "pyval \<Rightarrow> string \<Rightarrow> pyexc + items" where
  "need_dict raw name = (case as_dict raw of Some d \<Rightarrow> Inr d | None \<Rightarrow> Inl (TypeError (name @ '' must be a dict'')))"

definition need_list :: "pyval \<Rightarrow> string \<Rightarrow> pyexc + pyval list" where
  "need_list raw name = (case raw of PList xs \<Rightarrow> Inr xs | _ \<Rightarrow> Inl (TypeError (name @ '' must be a list'')))"

definition validate_extractor :: "ast_lang \<Rightarrow> items \<Rightarrow> string \<Rightarrow> pyexc + unit" where
  "validate_extractor A spec name =
     (let k = dget spec ''kind'' (PStr ''scalar''); ref = jget spec ''ref'' in
      case k of
        PStr kind \<Rightarrow>
          if kind \<notin> set EXTRACTOR_KINDS
          then Inl (TypeError (name @ ''.kind must be one of '' @ join '', '' EXTRACTOR_KINDS @ '', got '' @ repr_str kind))
          else if kind = ''scalar'' then Inr ()
          else if ref = PNone then Inl (TypeError (name @ ''.ref is required for kind '' @ repr_str kind))
          else if kind = ''attr'' \<and> \<not> is_str ref then Inl (TypeError (name @ ''.ref must be a string for kind '' @ repr_str ''attr''))
          else Inr ()
      | _ \<Rightarrow> Inl (TypeError (name @ ''.kind must be one of '' @ join '', '' EXTRACTOR_KINDS @ '', got '' @ py_repr (plain (base_eval A)) k)))"


section \<open>The fields of a step\<close>

definition opt_str :: "ast_lang \<Rightarrow> pyval \<Rightarrow> string option" where
  "opt_str A v = (if v = PNone then None else Some (py_str (plain (base_eval A)) v))"

definition opt_dict :: "pyval \<Rightarrow> string \<Rightarrow> pyexc + items option" where
  "opt_dict v name =
     (if v = PNone then Inr None
      else case as_dict v of Some d \<Rightarrow> Inr (Some d) | None \<Rightarrow> Inl (TypeError (name @ '' must be a dict'')))"

definition parse_call :: "ast_lang \<Rightarrow> items \<Rightarrow> pyexc + kind" where
  "parse_call A obj =
     (let L = plain (base_eval A) in
      res_bind (need_dict (jget obj ''call'') ''call'') (\<lambda>call.
      let device = py_str L (dget call ''device'' (PStr [])); process = py_str L (dget call ''process'' (PStr []));
          action = py_str L (dget call ''action'' (PStr [])) in
      if device \<noteq> [] \<and> process \<noteq> [] then Inl (TypeError ''call may set only one of device / process'')
      else if device = [] \<and> process = [] then Inl (TypeError ''call.device or call.process is required'')
      else if action = [] then Inl (TypeError ''call.action is required'')
      else
      res_bind (case as_dict (py_or (dget call ''params'' (PDict [])) (PDict [])) of
                  Some d \<Rightarrow> Inr d | None \<Rightarrow> Inl (TypeError ''call.params must be a dict'')) (\<lambda>params.
      res_bind (opt_dict (jget obj ''extract'') ''extract'') (\<lambda>extract.
      res_bind (opt_dict (jget obj ''assign'') ''assign'') (\<lambda>assign.
      res_bind (case extract of None \<Rightarrow> Inr () | Some spec \<Rightarrow> validate_extractor A spec ''extract'') (\<lambda>_.
      res_bind (each_res (\<lambda>(key, spec). case as_dict spec of Some d \<Rightarrow> validate_extractor A d (''assign.'' @ key) | None \<Rightarrow> Inr ())
                  (case assign of None \<Rightarrow> [] | Some d \<Rightarrow> d)) (\<lambda>_.
      Inr (CallStep \<lparr>cs_device = device, cs_process = (if process = [] then None else Some process), cs_action = action,
             cs_params = params, cs_save_as = opt_str A (jget obj ''save_as''), cs_extract = extract, cs_assign = assign\<rparr>))))))))"

definition parse_set :: "ast_lang \<Rightarrow> items \<Rightarrow> pyexc + kind" where
  "parse_set A obj =
     res_bind (need_dict (jget obj ''set'') ''set'') (\<lambda>val.
     let device = py_str (plain (base_eval A)) (dget val ''device'' (PStr []));
         name = py_str (plain (base_eval A)) (dget val ''name'' (PStr [])) in
     if device = [] \<or> name = [] then Inl (TypeError ''set.device and set.name are required'')
     else Inr (SetStep device name (jget val ''value'')))"

fun parse_bind_items :: "ast_lang \<Rightarrow> string \<Rightarrow> items \<Rightarrow> (string \<times> string) list \<Rightarrow> pyexc + (string \<times> string) list" where
  "parse_bind_items A owner [] acc = Inr acc"
| "parse_bind_items A owner ((k, v) # d) acc =
     (let key = py_strip k; value = py_strip (py_str (plain (base_eval A)) v) in
      if key = [] \<or> value = [] then Inl (TypeError (owner @ '' entries must map non-empty names''))
      else parse_bind_items A owner d (dset key value acc))"

definition parse_for_bind :: "ast_lang \<Rightarrow> pyval \<Rightarrow> pyexc + (string \<times> string) list" where
  "parse_for_bind A raw =
     res_bind
       (case raw of
          PStr s \<Rightarrow> if py_strip s = [] then Inl (TypeError ''for.bind must not be empty'') else Inr [(''value'', py_strip s)]
        | _ \<Rightarrow> (case as_dict raw of Some d \<Rightarrow> parse_bind_items A ''for.bind'' d [] | None \<Rightarrow> Inl (TypeError ''for.bind is required'')))
       (\<lambda>bind. if bind = [] then Inl (TypeError ''for.bind must not be empty'') else Inr bind)"

definition parse_for :: "ast_lang \<Rightarrow> items \<Rightarrow> pyexc + kind" where
  "parse_for A obj =
     res_bind (need_dict (jget obj ''for'') ''for'') (\<lambda>f.
     res_bind (parse_for_bind A (jget f ''bind'')) (\<lambda>bind.
     res_bind (case as_dict (jget f ''in'') of
                 Some d \<Rightarrow> if is_dict (jget d ''gen'') then validate_gen_keys (base_eval A) (jget d ''gen'') else Inr ()
               | None \<Rightarrow> Inr ()) (\<lambda>_.
     Inr (ForStep bind (jget f ''in'') []))))"

definition parse_set_context :: "items \<Rightarrow> pyexc + kind" where
  "parse_set_context obj =
     res_bind (need_dict (jget obj ''set_context'') ''set_context'') (\<lambda>sc.
     case as_dict (py_or (dget sc ''fields'' (PDict [])) (PDict [])) of
       None \<Rightarrow> Inl (TypeError ''set_context.fields must be a dict'')
     | Some flds \<Rightarrow>
         if dhas flds SEQUENCER_RUN_ID_FIELD
         then Inl (TypeError (''set_context.fields must not set '' @ repr_str SEQUENCER_RUN_ID_FIELD
                @ '': it is reserved and injected automatically by the sequencer runtime''))
         else Inr (SetContextStep (dget sc ''streams'' (PList [])) flds))"

definition parse_use :: "ast_lang \<Rightarrow> items \<Rightarrow> pyexc + kind" where
  "parse_use A obj =
     res_bind
       (case jget obj ''use'' of
          PStr s \<Rightarrow> Inr (py_strip s, None)
        | raw \<Rightarrow>
            (case as_dict raw of
               None \<Rightarrow> Inl (TypeError ''use must be a string id or a dict'')
             | Some d \<Rightarrow> res_bind (opt_dict (jget d ''args'') ''use.args'')
                 (\<lambda>args. Inr (py_strip (py_str (plain (base_eval A)) (dget d ''id'' (PStr []))), args))))
       (\<lambda>(name, args). if name = [] then Inl (TypeError ''use.id is required'') else Inr (UseStep name args))"

definition opt_list :: "pyval \<Rightarrow> string \<Rightarrow> pyexc + pyval list option" where
  "opt_list v name =
     (case v of PNone \<Rightarrow> Inr None | PList xs \<Rightarrow> Inr (Some xs) | _ \<Rightarrow> Inl (TypeError (name @ '' must be a list'')))"

definition parse_adaptive :: "ast_lang \<Rightarrow> items \<Rightarrow> pyexc + kind" where
  "parse_adaptive A obj =
     res_bind (need_dict (jget obj ''adaptive'') ''adaptive'') (\<lambda>raw.
     let name = py_strip (py_str (plain (base_eval A)) (dget raw ''id'' (PStr []))) in
     if name = [] then Inl (TypeError ''adaptive.id is required'')
     else
     res_bind (need_dict (jget raw ''controller'') ''adaptive.controller'') (\<lambda>controller.
     res_bind (need_dict (jget raw ''space'') ''adaptive.space'') (\<lambda>spc.
     res_bind (need_dict (jget raw ''bind'') ''adaptive.bind'') (\<lambda>bind_raw.
     res_bind (parse_bind_items A ''adaptive.bind'' bind_raw []) (\<lambda>bind.
     if bind = [] then Inl (TypeError ''adaptive.bind must not be empty'')
     else
     res_bind (opt_dict (jget raw ''state'') ''adaptive.state'') (\<lambda>state.
     res_bind (need_dict (jget raw ''observe'') ''adaptive.observe'') (\<lambda>observe.
     res_bind (opt_dict (jget raw ''stopping'') ''adaptive.stopping'') (\<lambda>stopping.
     res_bind (opt_list (jget raw ''constraints'') ''adaptive.constraints'') (\<lambda>constraints.
     Inr (AdaptiveStep \<lparr>as_id = name, as_controller = controller, as_space = spc, as_bind = bind, as_state = state,
            as_observe = observe, as_stopping = stopping, as_constraints = constraints,
            as_fail_on_trial_error = truthy (dget raw ''fail_on_trial_error'' (PBool False))\<rparr> []))))))))))"

text \<open>A step with its fields checked and its bodies still empty.\<close>

definition step_head :: "ast_lang \<Rightarrow> items \<Rightarrow> string \<Rightarrow> pyexc + kind" where
  "step_head A obj kind =
     (let body = jget obj kind; dict = (\<lambda>k. res_bind (need_dict body kind) k) in
      if kind = ''call'' then parse_call A obj
      else if kind = ''set'' then parse_set A obj
      else if kind = ''sleep'' then Inr (SleepStep body)
      else if kind = ''wait_until'' then dict (\<lambda>w. Inr (WaitUntilStep w))
      else if kind = ''for'' then parse_for A obj
      else if kind = ''repeat'' then dict (\<lambda>r. Inr (RepeatStep (dget r ''times'' (PInt 1)) []))
      else if kind = ''if'' then dict (\<lambda>c. Inr (IfStep (jget c ''condition'') [] (if jget c ''else'' = PNone then None else Some [])))
      else if kind = ''while''
      then dict (\<lambda>w. if dhas w ''condition'' then Inr (WhileStep (jget w ''condition'') []) else Inl (TypeError ''while.condition is required''))
      else if kind = ''atomic'' then dict (\<lambda>a. Inr (AtomicStep (opt_str A (jget a ''name'')) []))
      else if kind = ''pause''
      then Inr (PauseStep (opt_str A (case as_dict body of Some d \<Rightarrow> jget d ''reason'' | None \<Rightarrow> body)))
      else if kind = ''parallel'' then dict (\<lambda>_. Inr (ParallelStep []))
      else if kind = ''try'' then dict (\<lambda>t. if dhas t ''do'' then Inr (TryStep [] []) else Inl (TypeError ''try.do is required''))
      else if kind = ''assign''
      then (case as_dict body of Some d \<Rightarrow> Inr (AssignStep d) | None \<Rightarrow> Inl (TypeError ''assign must be a dict''))
      else if kind = ''set_context'' then parse_set_context obj
      else if kind = ''use'' then parse_use A obj
      else parse_adaptive A obj)"

definition step_open :: "ast_lang \<Rightarrow> items \<Rightarrow> pyexc + (string \<times> kind)" where
  "step_open A obj =
     res_bind (detect_step_kind A obj) (\<lambda>kind.
     res_bind (validate_step_keys A obj kind) (\<lambda>_.
     res_bind (step_head A obj kind) (\<lambda>head. Inr (kind, head))))"

text \<open>The bodies of a step as the value has them, with the ends of their paths.\<close>

definition step_body_values :: "items \<Rightarrow> string \<Rightarrow> (string \<times> pyval) list" where
  "step_body_values obj kind =
     (case as_dict (jget obj kind) of
        None \<Rightarrow> []
      | Some d \<Rightarrow>
          let body = (\<lambda>key. (''.'' @ kind @ ''.'' @ key, dget d key (PList []))) in
          if kind \<in> {''for'', ''repeat'', ''while'', ''atomic'', ''parallel'', ''adaptive''} then [body ''do'']
          else if kind = ''if'' then body ''then'' # (if jget d ''else'' = PNone then [] else [body ''else''])
          else if kind = ''try'' then [body ''do'', body ''finally'']
          else [])"

fun with_bodies :: "kind \<Rightarrow> step list list \<Rightarrow> pyexc + kind" where
  "with_bodies (ForStep bind inn _) [b] = Inr (ForStep bind inn b)"
| "with_bodies (RepeatStep n _) [b] = Inr (RepeatStep n b)"
| "with_bodies (IfStep c _ _) [b] = Inr (IfStep c b None)"
| "with_bodies (IfStep c _ _) [b, e] = Inr (IfStep c b (Some e))"
| "with_bodies (WhileStep c _) [b] = Inr (WhileStep c b)"
| "with_bodies (AtomicStep n _) [b] = Inr (AtomicStep n b)"
| "with_bodies (ParallelStep _) [b] = Inr (ParallelStep b)"
| "with_bodies (TryStep _ _) [b, f] = Inr (TryStep b f)"
| "with_bodies (AdaptiveStep a _) [b] = (if b = [] then Inl (TypeError ''adaptive.do must not be empty'') else Inr (AdaptiveStep a b))"
| "with_bodies k _ = Inr k"


section \<open>Parsing steps\<close>

definition last_segment :: "string \<Rightarrow> string" where
  "last_segment path = rev (takeWhile (\<lambda>c. c \<noteq> CHR ''.'') (rev path))"

fun list_measure :: "pyval \<Rightarrow> nat" where
  "list_measure (PList xs) = size_list size xs"
| "list_measure _ = 0"

abbreviation items_size :: "items \<Rightarrow> nat" where
  "items_size d \<equiv> size_list (size_prod (\<lambda>_. 0) size) d"

lemma list_measure_size: "list_measure v \<le> size v"
  by (cases v) auto

lemma list_measure_dget: "list_measure (dget d k (PList [])) \<le> items_size d"
proof (induction d)
  case (Cons p d)
  then show ?case using list_measure_size [of "snd p"] by (cases p) (simp add: le_SucI trans_le_add1)
qed simp

lemma list_measure_dget2:
  "k \<noteq> k' \<Longrightarrow> list_measure (dget d k (PList [])) + list_measure (dget d k' (PList [])) \<le> items_size d"
proof (induction d)
  case (Cons p d)
  obtain k0 v where p: "p = (k0, v)" by (cases p)
  show ?case
    using Cons list_measure_size [of v] list_measure_dget [of d k] list_measure_dget [of d k']
    by (auto simp: p split: if_splits)
qed simp

lemma items_size_jget: "as_dict (jget obj k) = Some d \<Longrightarrow> items_size d < items_size obj"
proof -
  assume a: "as_dict (jget obj k) = Some d"
  then obtain v where v: "map_of obj k = Some v" "as_dict v = Some d"
    by (auto simp: dget_def split: option.splits)
  then have "items_size d < size v" by (cases v) auto
  with map_of_size [OF v(1)] show ?thesis by simp
qed

lemma body_values_measure: "(\<Sum>(p, v)\<leftarrow>step_body_values obj kind. list_measure v) \<le> items_size obj"
proof (cases "as_dict (jget obj kind)")
  case (Some d)
  show ?thesis
    using items_size_jget [OF Some] list_measure_dget [of d "''do''"] list_measure_dget2 [of "''do''" "''finally''" d]
      list_measure_dget2 [of "''then''" "''else''" d] list_measure_dget [of d "''then''"]
    by (simp add: step_body_values_def Some Let_def)
qed (simp add: step_body_values_def)

lemma body_values_few: "length (step_body_values obj kind) \<le> 2"
  by (simp add: step_body_values_def Let_def split: option.split)

lemma as_dict_size: "as_dict v = Some d \<Longrightarrow> size v = Suc (items_size d)"
  by (cases v) auto

function parse_step :: "ast_lang \<Rightarrow> pyval \<Rightarrow> string \<Rightarrow> seq_error + step"
  and parse_items :: "ast_lang \<Rightarrow> string \<Rightarrow> nat \<Rightarrow> pyval list \<Rightarrow> seq_error + step list"
  and parse_bodies :: "ast_lang \<Rightarrow> string \<Rightarrow> (string \<times> pyval) list \<Rightarrow> seq_error + step list list" where
  "parse_step A raw path =
     (case as_dict raw of
        None \<Rightarrow> Inl (SeqRaised (TypeError ''step must be a dict''))
      | Some obj \<Rightarrow>
          (case step_open A obj of
             Inl e \<Rightarrow> Inl (SeqRaised e)
           | Inr (kind, head) \<Rightarrow>
               (case parse_bodies A path (step_body_values obj kind) of
                  Inl e \<Rightarrow> Inl e
                | Inr bodies \<Rightarrow>
                    (case with_bodies head bodies of
                       Inl e \<Rightarrow> Inl (SeqRaised e)
                     | Inr k \<Rightarrow> Inr (Step (truthy (dget obj ''disabled'' (PBool False))) k)))))"
| "parse_items A path i [] = Inr []"
| "parse_items A path i (x # xs) =
     (case parse_step A x (at_index path i) of
        Inl (SeqRaised e) \<Rightarrow> Inl (SequenceParseError (at_index path i @ '': '' @ exc_text e) (at_index path i))
      | Inl e \<Rightarrow> Inl e
      | Inr s \<Rightarrow> (case parse_items A path (Suc i) xs of Inl e \<Rightarrow> Inl e | Inr ss \<Rightarrow> Inr (s # ss)))"
| "parse_bodies A path [] = Inr []"
| "parse_bodies A path ((suffix, v) # rest) =
     (case v of
        PList xs \<Rightarrow>
          (case parse_items A (path @ suffix) 0 xs of
             Inl e \<Rightarrow> Inl e
           | Inr ss \<Rightarrow> (case parse_bodies A path rest of Inl e \<Rightarrow> Inl e | Inr bs \<Rightarrow> Inr (ss # bs)))
      | _ \<Rightarrow> Inl (SeqRaised (TypeError (last_segment suffix @ '' must be a list''))))"
  by pat_completeness auto

termination
proof (relation "measure (\<lambda>x. case x of
      Inl (_, raw, _) \<Rightarrow> 4 * size raw
    | Inr (Inl (_, _, _, xs)) \<Rightarrow> 4 * size_list size xs
    | Inr (Inr (_, _, bs)) \<Rightarrow> 4 * (\<Sum>(p, v)\<leftarrow>bs. list_measure v) + length bs + 1)", goal_cases)
  case (2 A raw path obj x kind head)
  then show ?case
    using body_values_measure [of obj kind] body_values_few [of obj kind] as_dict_size [of raw obj] by simp
qed auto

definition parse_steps :: "ast_lang \<Rightarrow> pyval \<Rightarrow> string \<Rightarrow> seq_error + step list" where
  "parse_steps A raw path =
     (case raw of PList xs \<Rightarrow> parse_items A path 0 xs | _ \<Rightarrow> Inl (SeqRaised (TypeError (last_segment path @ '' must be a list''))))"


section \<open>Sequences\<close>

text \<open>The step lists inside a step.\<close>

fun kind_bodies :: "kind \<Rightarrow> step list list" where
  "kind_bodies (ForStep _ _ b) = [b]"
| "kind_bodies (RepeatStep _ b) = [b]"
| "kind_bodies (IfStep _ t e) = [t, case e of None \<Rightarrow> [] | Some b \<Rightarrow> b]"
| "kind_bodies (WhileStep _ b) = [b]"
| "kind_bodies (AtomicStep _ b) = [b]"
| "kind_bodies (ParallelStep b) = [b]"
| "kind_bodies (TryStep b f) = [b, f]"
| "kind_bodies (AdaptiveStep _ b) = [b]"
| "kind_bodies _ = []"

lemma kind_bodies_size: "b \<in> set (kind_bodies k) \<Longrightarrow> size_list size b < size k"
  by (cases k) (auto split: option.splits)

lemma in_bodies_size: "b \<in> set (kind_bodies k) \<Longrightarrow> s \<in> set b \<Longrightarrow> size s < size k"
  by (meson kind_bodies_size less_trans_Suc not_less_eq size_list_estimation' order_refl le_less_trans)

function iter_adaptive_ids :: "step \<Rightarrow> string list" where
  "iter_adaptive_ids (Step dis k) =
     (case k of AdaptiveStep a _ \<Rightarrow> [as_id a] | _ \<Rightarrow> [])
     @ concat (map (\<lambda>b. concat (map iter_adaptive_ids b)) (kind_bodies k))"
  by pat_completeness auto
termination by (relation "measure size") (auto dest: in_bodies_size)

function iter_use_ids :: "step \<Rightarrow> string list" where
  "iter_use_ids (Step dis k) =
     (case k of UseStep name _ \<Rightarrow> [name] | _ \<Rightarrow> [])
     @ concat (map (\<lambda>b. concat (map iter_use_ids b)) (kind_bodies k))"
  by pat_completeness auto
termination by (relation "measure size") (auto dest: in_bodies_size)

definition normalize_watchdog_ids :: "pyval \<Rightarrow> pyexc + string list option" where
  "normalize_watchdog_ids raw =
     (case raw of
        PNone \<Rightarrow> Inr None
      | PList (x # xs) \<Rightarrow>
          if list_all nonblank (x # xs) then Inr (Some (map (\<lambda>v. case v of PStr s \<Rightarrow> s | _ \<Rightarrow> []) (x # xs)))
          else Inl (TypeError ''requires.watchdog_ids must be a non-empty list of non-empty strings'')
      | _ \<Rightarrow> Inl (TypeError ''requires.watchdog_ids must be a non-empty list of non-empty strings''))"

definition watchdog_call :: "string \<Rightarrow> string \<Rightarrow> step" where
  "watchdog_call action wid =
     Step False (CallStep \<lparr>cs_device = [], cs_process = Some ''watchdog'', cs_action = action, cs_params = [(''watchdog_id'', PStr wid)],
       cs_save_as = None, cs_extract = None, cs_assign = None\<rparr>)"

definition apply_watchdog_gate :: "step list \<Rightarrow> string list option \<Rightarrow> step list" where
  "apply_watchdog_gate steps ids =
     (case ids of
        None \<Rightarrow> steps
      | Some ws \<Rightarrow>
          [Step False (TryStep (map (watchdog_call ''watchdog.enable'') ws @ steps) (map (watchdog_call ''watchdog.disable'') ws))])"

fun parse_context_columns :: "ast_lang \<Rightarrow> items \<Rightarrow> (string \<times> string) list \<Rightarrow> pyexc + (string \<times> string) list" where
  "parse_context_columns A [] acc = Inr acc"
| "parse_context_columns A ((name, v) # d) acc =
     (let dtype = py_lower (py_str (plain (base_eval A)) v) in
      if name = SEQUENCER_RUN_ID_FIELD
      then Inl (TypeError (''context_columns must not declare '' @ repr_str SEQUENCER_RUN_ID_FIELD
             @ '': it is reserved and added automatically (int64) by the sequencer''))
      else if dtype \<notin> {''float64'', ''int64'', ''bool''}
      then Inl (TypeError (''context_columns['' @ repr_str name @ ''] has unsupported dtype '' @ repr_str dtype))
      else parse_context_columns A d (dset name dtype acc))"

definition parse_requires :: "pyval \<Rightarrow> pyexc + pyval \<times> bool" where
  "parse_requires raw =
     (if raw = PNone then Inr (PNone, False)
      else case as_dict raw of
             None \<Rightarrow> Inl (TypeError ''requires must be a dict'')
           | Some d \<Rightarrow>
               let unknown = sorted_texts (filter (\<lambda>k. k \<notin> {''watchdog_ids'', ''hdf_writing''}) (map fst d)) in
               if unknown \<noteq> [] then Inl (TypeError (''requires has unknown key(s): '' @ join '', '' unknown))
               else (case dget d ''hdf_writing'' (PBool False) of
                       PBool b \<Rightarrow> Inr (jget d ''watchdog_ids'', b)
                     | _ \<Rightarrow> Inl (TypeError ''requires.hdf_writing must be a bool'')))"

fun first_duplicate :: "'a list \<Rightarrow> 'a list \<Rightarrow> 'a option" where
  "first_duplicate seen [] = None"
| "first_duplicate seen (x # xs) = (if x \<in> set seen then Some x else first_duplicate (x # seen) xs)"

definition seq_raise :: "pyexc + 'a \<Rightarrow> seq_error + 'a" where
  "seq_raise r = (case r of Inl e \<Rightarrow> Inl (SeqRaised e) | Inr x \<Rightarrow> Inr x)"

definition parse_meta :: "pyval \<Rightarrow> pyexc + items" where
  "parse_meta raw =
     (case as_dict (py_or raw (PDict [])) of
        None \<Rightarrow> Inl (TypeError ''meta must be a dict'')
      | Some meta \<Rightarrow>
          if dhas meta ''context_columns''
          then Inl (TypeError (''meta.context_columns is no longer supported -- move context_columns ''
            @ ''to the top level (sibling to meta/vars/steps). `meta` is documentation ''
            @ ''only (name/description); engine-consumed fields belong at the top level.''))
          else if dhas meta ''watchdog_ids''
          then Inl (TypeError (''meta.watchdog_ids is no longer supported -- move watchdog_ids to ''
            @ ''requires.watchdog_ids (a new top-level `requires:` key, sibling to ''
            @ ''meta/vars/steps). `meta` is documentation only (name/description); ''
            @ ''engine-consumed fields belong at the top level.''))
          else Inr meta)"

definition parse_columns :: "ast_lang \<Rightarrow> pyval \<Rightarrow> pyexc + (string \<times> string) list option" where
  "parse_columns A raw =
     res_bind (opt_dict raw ''context_columns'') (\<lambda>columns.
     case columns of
       None \<Rightarrow> Inr None
     | Some d \<Rightarrow> res_bind (parse_context_columns A d []) (\<lambda>cs. Inr (Some cs)))"

definition check_adaptive_ids :: "step list \<Rightarrow> pyexc + unit" where
  "check_adaptive_ids steps =
     (case first_duplicate [] (concat (map iter_adaptive_ids steps)) of
        Some dup \<Rightarrow> Inl (TypeError (''duplicate adaptive.id '' @ repr_str dup)) | None \<Rightarrow> Inr ())"

definition parse_sequence :: "ast_lang \<Rightarrow> pyval \<Rightarrow> seq_error + sequence_spec" where
  "parse_sequence A raw =
     res_bind (seq_raise (need_dict raw ''sequence'')) (\<lambda>obj.
     res_bind (seq_raise (check_keys_of A (map fst obj) ''sequence'' TOP_LEVEL_KEYS (\<lambda>_. None))) (\<lambda>_.
     res_bind (seq_raise (to_int (base_eval A) (dget obj ''version'' (PInt 1)))) (\<lambda>version.
     res_bind (parse_steps A (dget obj ''steps'' (PList [])) ''steps'') (\<lambda>steps.
     res_bind (seq_raise (parse_meta (dget obj ''meta'' (PDict [])))) (\<lambda>meta.
     res_bind (seq_raise (case as_dict (py_or (dget obj ''vars'' (PDict [])) (PDict [])) of
                 Some d \<Rightarrow> Inr d | None \<Rightarrow> Inl (TypeError ''vars must be a dict''))) (\<lambda>vars.
     res_bind (seq_raise (parse_requires (jget obj ''requires''))) (\<lambda>(ids_raw, hdf).
     res_bind (seq_raise (parse_columns A (jget obj ''context_columns''))) (\<lambda>columns.
     res_bind (seq_raise (check_adaptive_ids steps)) (\<lambda>_.
     res_bind (seq_raise (normalize_watchdog_ids ids_raw)) (\<lambda>ids.
     res_bind (seq_raise (if jget obj ''form'' = PNone then Inr None
                 else res_bind (validate_run_form (base_eval A) (jget obj ''form'') vars) (\<lambda>f. Inr (Some f)))) (\<lambda>form.
     Inr \<lparr>sq_version = version, sq_meta = meta, sq_vars = vars, sq_steps = apply_watchdog_gate steps ids,
          sq_context_columns = columns, sq_watchdog_ids = ids, sq_require_hdf_writing = hdf, sq_form = form\<rparr>)))))))))))"

end
