(* ===== verification/Sequencer_Vars.thy ===== *)
theory Sequencer_Vars
  imports Sequencer_Ranges
begin

text \<open>
  Two helpers of the sequencer: the resolution of sequence variables against each other
  (\<open>sequencer/var_resolution.py\<close>) and the bounded log of the events of a run
  (\<open>sequencer/run_events.py\<close>). The log is related to an abstract one: the whole history of
  records, with runs of equal records counted, of which the log keeps the end.
\<close>

section \<open>Variables\<close>

fun contains_template :: "pyval \<Rightarrow> bool"
  and contains_template_list :: "pyval list \<Rightarrow> bool"
  and contains_template_items :: "items \<Rightarrow> bool" where
  "contains_template (PStr s) = has_template s"
| "contains_template (PList xs) = contains_template_list xs"
| "contains_template (PDict d) = contains_template_items d"
| "contains_template (PAttr d) = contains_template_items d"
| "contains_template _ = False"
| "contains_template_list [] = False"
| "contains_template_list (x # xs) = (contains_template x \<or> contains_template_list xs)"
| "contains_template_items [] = False"
| "contains_template_items ((k, v) # d) = (contains_template v \<or> contains_template_items d)"

definition vars_env :: "items \<Rightarrow> items" where
  "vars_env resolved = dset ''vars'' (to_attrdict (PDict resolved)) resolved"

text \<open>One pass over the variables: those that can be rendered and change are replaced.\<close>

fun resolve_each :: "eval_lang \<Rightarrow> items \<Rightarrow> items \<Rightarrow> items \<times> bool \<Rightarrow> items \<times> bool" where
  "resolve_each E env [] acc = acc"
| "resolve_each E env ((k, v) # d) (resolved, changed) =
     (case render_templates E v env of
        Inl _ \<Rightarrow> resolve_each E env d (resolved, changed)
      | Inr r \<Rightarrow> if py_eq r v then resolve_each E env d (resolved, changed)
                 else resolve_each E env d (dset k r resolved, True))"

fun resolve_passes :: "eval_lang \<Rightarrow> nat \<Rightarrow> items \<Rightarrow> items" where
  "resolve_passes E 0 resolved = resolved"
| "resolve_passes E (Suc n) resolved =
     (case resolve_each E (vars_env resolved) resolved (resolved, False) of
        (next, changed) \<Rightarrow> if changed then resolve_passes E n next else next)"

definition resolve_vars :: "eval_lang \<Rightarrow> items \<Rightarrow> items" where
  "resolve_vars E raw = (if raw = [] then raw else resolve_passes E (max 4 (4 * length raw)) raw)"

fun unresolved_each :: "eval_lang \<Rightarrow> items \<Rightarrow> items \<Rightarrow> (string \<times> string list) list \<times> (string \<times> string) list" where
  "unresolved_each E resolved [] = ([], [])"
| "unresolved_each E resolved ((k, v) # d) =
     (let (runtime, errors) = unresolved_each E resolved d in
      if \<not> contains_template v then (runtime, errors)
      else case render_templates E v (vars_env resolved) of
             Inl (UnknownNameError msg name) \<Rightarrow>
               if dhas resolved name then (runtime, (k, msg) # errors) else ((k, [name]) # runtime, errors)
           | Inl e \<Rightarrow> (runtime, (k, eval_error_text e) # errors)
           | Inr r \<Rightarrow>
               if contains_template r
               then (runtime, (k, k @ '' can't be resolved: it refers back to itself through other vars'') # errors)
               else (runtime, errors))"

definition unresolved_vars :: "eval_lang \<Rightarrow> items \<Rightarrow> (string \<times> string list) list \<times> (string \<times> string) list" where
  "unresolved_vars E resolved = unresolved_each E resolved resolved"

text \<open>A value as JSON can carry it: a float that is not finite becomes its text.\<close>

fun json_safe :: "py_lang \<Rightarrow> pyval \<Rightarrow> pyval"
  and json_safe_list :: "py_lang \<Rightarrow> pyval list \<Rightarrow> pyval list"
  and json_safe_items :: "py_lang \<Rightarrow> items \<Rightarrow> items" where
  "json_safe L (PFloat f) = (case f of Fin _ \<Rightarrow> PFloat f | _ \<Rightarrow> PStr (float_repr L f))"
| "json_safe L (PList xs) = PList (json_safe_list L xs)"
| "json_safe L (PDict d) = PDict (json_safe_items L d)"
| "json_safe L (PAttr d) = PDict (json_safe_items L d)"
| "json_safe L v = v"
| "json_safe_list L [] = []"
| "json_safe_list L (x # xs) = json_safe L x # json_safe_list L xs"
| "json_safe_items L [] = []"
| "json_safe_items L ((k, v) # d) = (k, json_safe L v) # json_safe_items L d"

fun evaluate_expressions :: "eval_lang \<Rightarrow> pyval list \<Rightarrow> items \<Rightarrow> items \<Rightarrow> items" where
  "evaluate_expressions E [] resolved out = out"
| "evaluate_expressions E (x # xs) resolved out =
     (case x of
        PStr t \<Rightarrow>
          if dhas out t then evaluate_expressions E xs resolved out
          else
          let answer = (case render_templates E (PStr t) (vars_env resolved) of
                Inl (UnknownNameError _ name) \<Rightarrow>
                  PDict [(''ok'', PBool False), (''runtime'', PBool True), (''names'', PList [PStr name])]
              | Inl e \<Rightarrow> PDict [(''ok'', PBool False), (''error'', PStr (eval_error_text e))]
              | Inr v \<Rightarrow> PDict [(''ok'', PBool True), (''value'', json_safe (plain E) v)])
          in evaluate_expressions E xs resolved (dset t answer out)
      | _ \<Rightarrow> evaluate_expressions E xs resolved out)"

text \<open>No pass adds or removes a variable, or reorders them.\<close>

lemma resolve_each_keys:
  "set (map fst d) \<subseteq> set (map fst (fst acc)) \<Longrightarrow> map fst (fst (resolve_each E env d acc)) = map fst (fst acc)"
proof (induction E env d acc rule: resolve_each.induct)
  case (2 E env k v d resolved changed)
  then show ?case
    by (auto simp: update_keys split: sum.split)
qed simp

lemma resolve_passes_keys: "map fst (resolve_passes E n d) = map fst d"
proof (induction n arbitrary: d)
  case (Suc n)
  then show ?case
    using resolve_each_keys [of d "(d, False)" E "vars_env d"] by (auto split: prod.split)
qed simp

lemma resolve_vars_keys [simp]: "map fst (resolve_vars E d) = map fst d"
  by (simp add: resolve_vars_def resolve_passes_keys)


section \<open>The event log of a run\<close>

definition STEP_FIELDS :: "string list" where
  "STEP_FIELDS = [''kind'', ''summary'', ''path'', ''line'', ''branch'']"

definition step_ref :: "items option \<Rightarrow> items option" where
  "step_ref step = map_option (\<lambda>d. map (\<lambda>k. (k, jget d k)) STEP_FIELDS) step"

record run_event =
  ev_severity :: string
  ev_kind :: string
  ev_message :: string
  ev_source :: "string option"
  ev_step :: "items option"
  ev_elapsed :: pyfloat
  ev_last_elapsed :: pyfloat
  ev_count :: nat
  ev_trigger :: "pyval option"

record run_log =
  rl_max :: nat
  rl_events :: "run_event list"
  rl_dropped :: nat
  rl_seq :: nat

definition run_log_init :: "nat \<Rightarrow> run_log" where
  "run_log_init max_events = \<lparr>rl_max = max 1 max_events, rl_events = [], rl_dropped = 0, rl_seq = 0\<rparr>"

definition run_log_reset :: "run_log \<Rightarrow> run_log" where
  "run_log_reset l = l\<lparr>rl_events := [], rl_dropped := 0, rl_seq := rl_seq l + 1\<rparr>"

definition event_key :: "run_event \<Rightarrow> string \<times> string \<times> string \<times> pyval \<times> string option" where
  "event_key e = (ev_severity e, ev_kind e, ev_message e, (case ev_step e of None \<Rightarrow> PNone | Some d \<Rightarrow> jget d ''path''), ev_source e)"

definition event_of ::
  "string \<Rightarrow> string \<Rightarrow> string \<Rightarrow> pyfloat \<Rightarrow> items option \<Rightarrow> string option \<Rightarrow> pyval option \<Rightarrow> run_event" where
  "event_of severity kind message elapsed step source trigger =
     \<lparr>ev_severity = severity, ev_kind = kind, ev_message = message, ev_source = source, ev_step = step_ref step,
      ev_elapsed = elapsed, ev_last_elapsed = elapsed, ev_count = 1, ev_trigger = trigger\<rparr>"

definition bump :: "run_event \<Rightarrow> run_event \<Rightarrow> run_event" where
  "bump last_ev e = last_ev\<lparr>ev_count := ev_count last_ev + 1, ev_last_elapsed := ev_elapsed e\<rparr>"

definition log_event :: "run_event \<Rightarrow> run_log \<Rightarrow> run_log" where
  "log_event e l0 =
     (let l = l0\<lparr>rl_seq := rl_seq l0 + 1\<rparr>; es = rl_events l in
      if es \<noteq> [] \<and> event_key (List.last es) = event_key e
      then l\<lparr>rl_events := butlast es @ [bump (List.last es) e]\<rparr>
      else if length es + 1 > rl_max l
      then l\<lparr>rl_events := tl (es @ [e]), rl_dropped := rl_dropped l + 1\<rparr>
      else l\<lparr>rl_events := es @ [e]\<rparr>)"

definition run_event_dict :: "run_event \<Rightarrow> items" where
  "run_event_dict e =
     [(''severity'', PStr (ev_severity e)), (''kind'', PStr (ev_kind e)), (''message'', PStr (ev_message e)),
      (''source'', opt_text (ev_source e)), (''step'', case ev_step e of None \<Rightarrow> PNone | Some d \<Rightarrow> PDict d),
      (''elapsed_s'', PFloat (ev_elapsed e)), (''last_elapsed_s'', PFloat (ev_last_elapsed e)), (''count'', PInt (int (ev_count e)))]
     @ (case ev_trigger e of None \<Rightarrow> [] | Some t \<Rightarrow> [(''trigger'', t)])"

definition run_log_snapshot :: "run_log \<Rightarrow> items" where
  "run_log_snapshot l =
     [(''seq'', PInt (int (rl_seq l))), (''dropped'', PInt (int (rl_dropped l))),
      (''events'', PList (map (\<lambda>e. PDict (run_event_dict e)) (rl_events l)))]"

definition run_log_summary :: "nat \<Rightarrow> run_log \<Rightarrow> items" where
  "run_log_summary latest l =
     (let es = rl_events l; severities = map ev_severity es in
      [(''seq'', PInt (int (rl_seq l))), (''count'', PInt (int (length es))), (''dropped'', PInt (int (rl_dropped l))),
       (''errors'', PInt (int (length (filter (\<lambda>s. s \<in> {''error'', ''critical''}) severities)))),
       (''warnings'', PInt (int (length (filter (\<lambda>s. s = ''warning'') severities)))),
       (''latest'', PList (map (\<lambda>e. PDict (run_event_dict e)) (drop (length es - latest) es)))])"

text \<open>The abstract log: the whole history with consecutive repeats counted, nothing ever dropped.\<close>

fun counted :: "run_event list \<Rightarrow> run_event list \<Rightarrow> run_event list" where
  "counted acc [] = acc"
| "counted acc (e # es) =
     (if acc \<noteq> [] \<and> event_key (List.last acc) = event_key e
      then counted (butlast acc @ [bump (List.last acc) e]) es
      else counted (acc @ [e]) es)"

definition log_abs :: "run_event list \<Rightarrow> run_log \<Rightarrow> bool" where
  "log_abs hist l \<longleftrightarrow> 1 \<le> rl_max l \<and> rl_events l = drop (length hist - rl_max l) hist
     \<and> rl_dropped l = length hist - rl_max l"

lemma log_abs_step:
  assumes "log_abs hist l"
  shows "log_abs (counted hist [e]) (log_event e l)"
proof (cases "hist = []")
  case True
  then show ?thesis using assms by (auto simp: log_abs_def log_event_def Let_def)
next
  case False
  from assms have m: "1 \<le> rl_max l" and es: "rl_events l = drop (length hist - rl_max l) hist"
    and d: "rl_dropped l = length hist - rl_max l"
    by (auto simp: log_abs_def)
  have lt: "length hist - rl_max l < length hist" using False m by (simp add: Suc_le_lessD)
  then have ne: "rl_events l \<noteq> []" and ls: "List.last (rl_events l) = List.last hist"
    by (simp_all add: es last_drop)
  have len: "length (rl_events l) + 1 > rl_max l \<longleftrightarrow> length hist \<ge> rl_max l"
    using m by (auto simp: es)
  show ?thesis
  proof (cases "event_key (List.last hist) = event_key e")
    case True
    have "butlast (rl_events l) = drop (length hist - rl_max l) (butlast hist)"
      by (simp add: es butlast_drop)
    then show ?thesis
      using True False ne m lt d by (simp add: log_abs_def log_event_def Let_def ls drop_append)
  next
    case other: False
    show ?thesis
    proof (cases "length hist \<ge> rl_max l")
      case True
      then show ?thesis
        using other False ne len m d lt
        by (simp add: log_abs_def log_event_def Let_def ls es Suc_diff_le tl_append2 tl_drop drop_Suc)
    next
      case full: False
      then show ?thesis
        using other False ne len m d by (simp add: log_abs_def log_event_def Let_def ls es)
    qed
  qed
qed

lemma counted_append: "counted acc (xs @ ys) = counted (counted acc xs) ys"
  by (induction acc xs rule: counted.induct) auto

lemma counted_snoc: "counted acc (xs @ [e]) = counted (counted acc xs) [e]"
  by (rule counted_append)

end
