(* ===== verification/Sequencer_State.thy ===== *)
theory Sequencer_State
  imports Sequencer_Ast Sequencer_Vars "HOL-Library.Sublist"
begin

text \<open>
  The state of the sequencer runtime (\<open>sequencer/runtime.py\<close>), the world it runs in and the
  operations shared by its steps: reading the clock, events, error details, calls, telemetry,
  values and conditions, and the begin and the end of a terminal unwind. Everything outside
  the runtime is the record \<open>seq_world\<close>: the callbacks the constructor takes, the clock, the
  adaptive controllers and the formatting of numbers. Each use of the world has a number,
  counted in the state, and the world answers each use as it likes.
\<close>

section \<open>State\<close>

datatype run_state = IDLE | RUNNING | PAUSED | STOPPED | ERROR

text \<open>The proposal of an adaptive controller and the trial made of it, dictionaries with fixed keys in the code.\<close>

record proposal =
  pr_params_raw :: items
  pr_params :: items
  pr_meta :: items

record trial =
  tr_ok :: bool
  tr_context_id :: int
  tr_params_raw :: items
  tr_params :: items
  tr_meta :: items
  tr_state :: items
  tr_metrics :: items
  tr_replicates :: "(string \<times> pyval list) list"
  tr_aggregates :: "(string \<times> items) list"
  tr_score :: pyval
  tr_error :: "items option"
  tr_observe_started :: "pyfloat option"

record adaptive_frame =
  af_spec :: adaptive_spec
  af_body :: "step list"
  af_controller :: nat
  af_rendered_controller :: items
  af_rendered_space :: items
  af_started :: pyfloat
  af_proposal :: "proposal option"
  af_trials :: nat
  af_best :: "pyfloat option"
  af_no_improve :: nat

record observe_state =
  ob_proposal :: proposal
  ob_trial :: trial
  ob_repeats :: int
  ob_metrics :: items
  ob_current :: int
  ob_next_check :: "pyfloat option"

text \<open>
  What leaving a block does: an atomic block lowers the depth, a used sequence restores the
  variables of its caller, the body of an adaptive step goes on to observe its trial. The
  adaptive frame a body belongs to is the one below it on the stack.
\<close>

datatype frame_exit = NoExit | AtomicExit | UseExit items string | AdaptiveExit

datatype frame =
    Frame (fr_steps: "step list") (fr_index: nat) (fr_exit: frame_exit) (fr_unwind: bool)
  | ForFrame "(string \<times> string) list" "items list" nat "step list"
  | RepeatFrame int "step list" int
  | TryFrame "step list" bool
  | WhileFrame pyval "step list" nat
  | AdaptiveFrame adaptive_frame

record wait_state =
  ws_start :: pyfloat
  ws_timeout :: pyfloat
  ws_every :: pyfloat
  ws_next_sample :: pyfloat
  ws_stable_for :: pyfloat
  ws_condition :: pyval
  ws_sample_spec :: items
  ws_reduce :: "items option"
  ws_samples :: "(pyfloat \<times> pyval) list"
  ws_max_samples :: int
  ws_stable_since :: "pyfloat option"
  ws_last_value :: pyval
  ws_last_age :: "pyfloat option"
  ws_label :: "string option"
  ws_max_age :: "pyfloat option"
  ws_call_error :: "string option"

record pause_info =
  pi_reason :: "string option"
  pi_source :: "string option"
  pi_trigger :: "pyval option"

record study =
  sd_kind :: string
  sd_space :: items
  sd_trials :: "trial list"
  sd_mode :: string
  sd_updated :: pyfloat

text \<open>The stack has its top first. Steps are values here, so what the code keys by the identity of a step (its source text, durations and estimates) is not part of the state.
  Two fields are of the model only: \<open>rt_taken\<close>, the steps taken from the stack for execution in this run, and \<open>rt_io\<close>, the number of uses of the world.\<close>

record runtime =
  rt_spec :: "sequence_spec option"
  rt_vars :: items
  rt_base_vars :: items
  rt_env :: items
  rt_stack :: "frame list"
  rt_state :: run_state
  rt_pause_requested :: bool
  rt_stop_requested :: bool
  rt_last_error :: "string option"
  rt_pending_state :: "run_state option"
  rt_pending_error :: "string option"
  rt_cleanup_failed :: bool
  rt_cleanup_errors :: "items list"
  rt_events :: run_log
  rt_pause_info :: "(pause_info \<times> pyfloat) option"
  rt_pause_request :: "pause_info option"
  rt_sleep_until :: "pyfloat option"
  rt_wait :: "wait_state option"
  rt_set_context :: "nat option"
  rt_observe :: "observe_state option"
  rt_parallel :: "nat option"
  rt_parallel_failure :: "string option"
  rt_atomic_depth :: int
  rt_detail :: "items option"
  rt_error_detail :: "items option"
  rt_context_id :: int
  rt_outputs :: "items list"
  rt_completed :: nat
  rt_active :: "step option"
  rt_last_finished :: pyfloat
  rt_started :: "pyfloat option"
  rt_ended :: "pyfloat option"
  rt_paused_total :: pyfloat
  rt_paused_since :: "pyfloat option"
  rt_studies :: "(string \<times> study) list"
  rt_start_modes :: "(string \<times> string) list"
  rt_run_id :: int
  rt_next_run_id :: int
  rt_continuous :: bool
  rt_loops_target :: "int option"
  rt_loops_completed :: int
  rt_overrides :: items
  rt_use_stack :: "string list"
  rt_taken :: "step list"
  rt_io :: nat

text \<open>
  The exceptions of a step: those of the evaluator and of Python, and a failed call with the
  error of its response.
\<close>

datatype seq_exc = SeqEval eval_error | SeqCallFailed string pyval

abbreviation SeqPy :: "pyexc \<Rightarrow> seq_exc" where
  "SeqPy e \<equiv> SeqEval (EvalRaised e)"

fun seq_exc_text :: "seq_exc \<Rightarrow> string" where
  "seq_exc_text (SeqEval e) = eval_error_text e"
| "seq_exc_text (SeqCallFailed msg _) = msg"


section \<open>The world\<close>

record branch_operation =
  bo_source :: "nat option"
  bo_step :: step

record branch_plan =
  bp_index :: nat
  bp_operations :: "branch_operation list"
  bp_env :: items
  bp_path :: string
  bp_atomic :: bool
  bp_repeat :: "int option"

record branch_result =
  br_index :: nat
  br_ok :: bool
  br_outputs :: items
  br_error :: "string option"
  br_path :: "string option"

record seq_world =
  sw_mono :: "nat \<Rightarrow> pyfloat"
  sw_np :: np_gen
  sw_call_device :: "nat \<Rightarrow> string \<Rightarrow> string \<Rightarrow> pyval \<Rightarrow> pyexc + items"
  sw_call_process :: "(nat \<Rightarrow> string \<Rightarrow> string \<Rightarrow> pyval \<Rightarrow> pyexc + items) option"
  sw_telemetry :: "nat \<Rightarrow> string \<Rightarrow> string \<Rightarrow> items option"
  sw_process_telemetry :: "(nat \<Rightarrow> string \<Rightarrow> string \<Rightarrow> items option) option"
  sw_resolve_use :: "(string \<Rightarrow> pyexc + sequence_spec) option"
  sw_set_stream :: "nat \<Rightarrow> string \<Rightarrow> string \<Rightarrow> int \<Rightarrow> items \<Rightarrow> pyexc + unit"
  sw_expect_streams :: "(nat \<Rightarrow> (string \<times> string) list \<Rightarrow> int \<Rightarrow> pyexc + unit) option"
  sw_begin_context :: "(nat \<Rightarrow> (string \<times> string) list \<Rightarrow> int \<Rightarrow> items \<Rightarrow> pyexc + nat) option"
  sw_poll_context :: "(nat \<Rightarrow> nat \<Rightarrow> pyfloat \<Rightarrow> pyexc + (bool \<times> string option)) option"
  sw_begin_parallel :: "(nat \<Rightarrow> branch_plan list \<Rightarrow> pyexc + nat) option"
  sw_poll_parallel :: "(nat \<Rightarrow> nat \<Rightarrow> pyexc + (bool \<times> branch_result list)) option"
  sw_attr :: "pyval \<Rightarrow> string \<Rightarrow> pyval option"
  sw_item :: "pyval \<Rightarrow> pyval \<Rightarrow> pyexc + pyval"
  sw_detail :: "step \<Rightarrow> items"
  sw_json :: "pyval \<Rightarrow> string"
  sw_fmt_g :: "pyfloat \<Rightarrow> string"
  sw_fmt_1 :: "pyfloat \<Rightarrow> string"
  sw_fmt_0 :: "pyfloat \<Rightarrow> string"
  sw_controller :: "nat \<Rightarrow> items \<Rightarrow> items \<Rightarrow> int \<Rightarrow> pyexc + nat"
  sw_suggest :: "nat \<Rightarrow> nat \<Rightarrow> pyexc + pyval"
  sw_tell :: "nat \<Rightarrow> nat \<Rightarrow> proposal \<Rightarrow> trial \<Rightarrow> pyexc + unit"
  sw_should_stop :: "nat \<Rightarrow> nat \<Rightarrow> pyexc + bool"
  sw_stdev :: "pyfloat list \<Rightarrow> pyfloat"
  sw_sqrt :: "pyfloat \<Rightarrow> pyfloat"

text \<open>An operation that may raise: the state is what it has become when the exception leaves.\<close>

type_synonym 'a rt = "runtime \<Rightarrow> (seq_exc + 'a) \<times> runtime"

definition rret :: "'a \<Rightarrow> 'a rt" where
  "rret x = (\<lambda>r. (Inr x, r))"

definition rraise :: "seq_exc \<Rightarrow> 'a rt" where
  "rraise e = (\<lambda>r. (Inl e, r))"

definition rbind :: "'a rt \<Rightarrow> ('a \<Rightarrow> 'b rt) \<Rightarrow> 'b rt" where
  "rbind m f = (\<lambda>r. case m r of (Inl e, r') \<Rightarrow> (Inl e, r') | (Inr x, r') \<Rightarrow> f x r')"

definition rlift :: "eval_error + 'a \<Rightarrow> 'a rt" where
  "rlift x = (\<lambda>r. ((case x of Inl e \<Rightarrow> Inl (SeqEval e) | Inr y \<Rightarrow> Inr y), r))"

definition rpy :: "pyexc + 'a \<Rightarrow> 'a rt" where
  "rpy x = (\<lambda>r. ((case x of Inl e \<Rightarrow> Inl (SeqPy e) | Inr y \<Rightarrow> Inr y), r))"

definition rmodify :: "(runtime \<Rightarrow> runtime) \<Rightarrow> unit rt" where
  "rmodify f = (\<lambda>r. (Inr (), f r))"

definition rget :: "(runtime \<Rightarrow> 'a) \<Rightarrow> 'a rt" where
  "rget f = (\<lambda>r. (Inr (f r), r))"

text \<open>Code of its own that never raises, as an operation.\<close>

definition rrun :: "(runtime \<Rightarrow> 'a \<times> runtime) \<Rightarrow> 'a rt" where
  "rrun f = (\<lambda>r. case f r of (x, r') \<Rightarrow> (Inr x, r'))"

fun rforeach :: "('a \<Rightarrow> unit rt) \<Rightarrow> 'a list \<Rightarrow> unit rt" where
  "rforeach f [] = rret ()"
| "rforeach f (x # xs) = rbind (f x) (\<lambda>_. rforeach f xs)"

fun rmap :: "('a \<Rightarrow> 'b rt) \<Rightarrow> 'a list \<Rightarrow> 'b list rt" where
  "rmap f [] = rret []"
| "rmap f (x # xs) = rbind (f x) (\<lambda>y. rbind (rmap f xs) (\<lambda>ys. rret (y # ys)))"

definition uses :: "runtime \<Rightarrow> runtime" where
  "uses r = r\<lparr>rt_io := rt_io r + 1\<rparr>"

definition clock :: "seq_world \<Rightarrow> runtime \<Rightarrow> pyfloat \<times> runtime" where
  "clock W r = (sw_mono W (rt_io r), uses r)"

text \<open>A use of the world that may raise.\<close>

definition ask :: "(nat \<Rightarrow> pyexc + 'a) \<Rightarrow> 'a rt" where
  "ask f = (\<lambda>r. ((case f (rt_io r) of Inl e \<Rightarrow> Inl (SeqPy e) | Inr y \<Rightarrow> Inr y), uses r))"

section \<open>Time and events\<close>

definition elapsed_run_s :: "runtime \<Rightarrow> pyfloat \<Rightarrow> pyfloat" where
  "elapsed_run_s r now =
     (case rt_started r of
        None \<Rightarrow> Fin 0
      | Some t0 \<Rightarrow>
          let t = (case rt_ended r of Some e \<Rightarrow> e | None \<Rightarrow> now);
              paused = (case rt_paused_since r of None \<Rightarrow> rt_paused_total r
                        | Some p \<Rightarrow> fadd (rt_paused_total r) (fmax (Fin 0) (fsub t p)))
          in fmax (Fin 0) (fsub (fsub t t0) paused))"

definition mark_pause_started :: "pyfloat \<Rightarrow> runtime \<Rightarrow> runtime" where
  "mark_pause_started now r = (if rt_paused_since r = None then r\<lparr>rt_paused_since := Some now\<rparr> else r)"

definition mark_pause_ended :: "pyfloat \<Rightarrow> runtime \<Rightarrow> runtime" where
  "mark_pause_ended now r =
     (case rt_paused_since r of
        None \<Rightarrow> r
      | Some p \<Rightarrow> r\<lparr>rt_paused_total := fadd (rt_paused_total r) (fmax (Fin 0) (fsub now p)), rt_paused_since := None\<rparr>)"

definition record_event ::
  "seq_world \<Rightarrow> string \<Rightarrow> string \<Rightarrow> string \<Rightarrow> items option \<Rightarrow> string option \<Rightarrow> pyval option \<Rightarrow> runtime \<Rightarrow> runtime" where
  "record_event W severity kind message step source trigger r =
     (let (now, r) = clock W r in
      r\<lparr>rt_events := log_event (event_of severity kind message (elapsed_run_s r now)
           (case step of None \<Rightarrow> rt_detail r | Some d \<Rightarrow> Some d) source trigger) (rt_events r)\<rparr>)"

definition pause_info_of :: "py_lang \<Rightarrow> pyval \<Rightarrow> pyval \<Rightarrow> pyval \<Rightarrow> pause_info" where
  "pause_info_of L reason source trigger =
     \<lparr>pi_reason = (if reason = PNone \<or> reason = PStr [] then None else Some (py_str L reason)),
      pi_source = (if source = PNone \<or> source = PStr [] then None else Some (py_str L source)),
      pi_trigger = (if is_dict trigger then Some trigger else None)\<rparr>"

definition enter_pause :: "seq_world \<Rightarrow> pause_info \<Rightarrow> runtime \<Rightarrow> runtime" where
  "enter_pause W info r =
     (let (now, r) = clock W r;
          r = r\<lparr>rt_pause_info := Some (info, elapsed_run_s r now), rt_pause_request := None\<rparr>;
          source = (case pi_source info of None \<Rightarrow> ''unknown'' | Some s \<Rightarrow> s);
          severity = (if source = ''watchdog'' \<or> pi_trigger info \<noteq> None then ''warning'' else ''info'')
      in record_event W severity ''pause''
           (''Paused by '' @ source @ (case pi_reason info of None \<Rightarrow> [] | Some t \<Rightarrow> '': '' @ t)) None (Some source) (pi_trigger info) r)"

definition begin_active_step :: "seq_world \<Rightarrow> step \<Rightarrow> runtime \<Rightarrow> runtime" where
  "begin_active_step W step r =
     (let (now, r) = clock W r;
          r = (if rt_active r \<noteq> None then r\<lparr>rt_last_finished := elapsed_run_s r now\<rparr> else r)
      in r\<lparr>rt_active := Some step\<rparr>)"

definition finish_active_step :: "pyfloat \<Rightarrow> runtime \<Rightarrow> runtime" where
  "finish_active_step now r =
     (if rt_active r = None then r
      else r\<lparr>rt_last_finished := elapsed_run_s r now, rt_active := None, rt_completed := rt_completed r + 1\<rparr>)"

definition abandon_active_step :: "pyfloat \<Rightarrow> runtime \<Rightarrow> runtime" where
  "abandon_active_step now r =
     (if rt_active r = None then r else r\<lparr>rt_active := None, rt_last_finished := elapsed_run_s r now\<rparr>)"


section \<open>Errors\<close>

definition format_error_text :: "py_lang \<Rightarrow> string \<Rightarrow> items option \<Rightarrow> string" where
  "format_error_text L msg step =
     (let message = (if msg = [] then ''sequencer error'' else msg) in
      case step of
        None \<Rightarrow> message
      | Some d \<Rightarrow>
          let source = jget d ''source''; line = jget d ''line''; path = jget d ''path'';
              parts = (if truthy (jget d ''summary'') then [py_str L (jget d ''summary'')] else [])
                @ (if truthy source \<or> truthy line \<or> truthy path
                   then [(if truthy source then py_str L source else ''sequence'')
                         @ (if line \<noteq> PNone then '':'' @ py_str L line else [])
                         @ (if truthy path then '' ('' @ py_str L path @ '')'' else [])] else [])
                @ (if truthy (jget d ''branch'') then [''branch '' @ py_str L (jget d ''branch'')] else [])
          in if parts = [] then message else message @ '' ['' @ join ''; '' parts @ '']'')"

definition current_detail :: "runtime \<Rightarrow> items option" where
  "current_detail r = (case rt_detail r of Some (x # xs) \<Rightarrow> Some (x # xs) | _ \<Rightarrow> None)"

definition opt_dict_val :: "items option \<Rightarrow> pyval" where
  "opt_dict_val d = (case d of None \<Rightarrow> PNone | Some x \<Rightarrow> PDict x)"

definition make_error_detail :: "py_lang \<Rightarrow> string \<Rightarrow> runtime \<Rightarrow> items" where
  "make_error_detail L msg r =
     [(''message'', PStr msg), (''formatted'', PStr (format_error_text L msg (current_detail r))),
      (''step'', opt_dict_val (current_detail r)), (''cleanup_errors'', PList [])]"

definition note_cleanup_failure :: "eval_lang \<Rightarrow> seq_world \<Rightarrow> string \<Rightarrow> runtime \<Rightarrow> runtime" where
  "note_cleanup_failure E W msg r =
     (let detail = make_error_detail (plain E) msg r;
          r = record_event W ''error'' ''cleanup_failed'' msg (current_detail r) None None
                (r\<lparr>rt_cleanup_failed := True, rt_cleanup_errors := rt_cleanup_errors r @ [detail]\<rparr>);
          text = ''cleanup failed: '' @ msg;
          r = r\<lparr>rt_error_detail := map_option (dset ''cleanup_errors'' (PList (map PDict (rt_cleanup_errors r)))) (rt_error_detail r)\<rparr>
      in case rt_pending_error r of
           Some (c # cs) \<Rightarrow>
             if sublist text (c # cs) then r else r\<lparr>rt_pending_error := Some ((c # cs) @ ''; '' @ text)\<rparr>
         | _ \<Rightarrow> r\<lparr>rt_pending_error := Some text\<rparr>)"


section \<open>The terminal unwind\<close>

fun is_unwind_body :: "frame \<Rightarrow> bool" where
  "is_unwind_body (Frame _ _ _ u) = u"
| "is_unwind_body _ = False"

fun is_open_try :: "frame \<Rightarrow> bool" where
  "is_open_try (TryFrame finally_steps finalizing) = (\<not> finalizing \<and> finally_steps \<noteq> [])"
| "is_open_try _ = False"

fun has_exit :: "frame \<Rightarrow> bool" where
  "has_exit (Frame _ _ ex _) = (ex \<noteq> NoExit)"
| "has_exit _ = False"

definition has_terminal_unwind_work :: "runtime \<Rightarrow> bool" where
  "has_terminal_unwind_work r = list_ex (\<lambda>f. has_exit f \<or> is_unwind_body f \<or> is_open_try f) (rt_stack r)"

text \<open>The pending sleep, wait, dispatch, observation and parallel step are dropped together.\<close>

definition clear_set_context :: "runtime \<Rightarrow> runtime" where
  "clear_set_context r = r\<lparr>rt_set_context := None\<rparr>"

definition clear_parallel :: "runtime \<Rightarrow> runtime" where
  "clear_parallel r = r\<lparr>rt_parallel := None, rt_parallel_failure := None\<rparr>"

definition clear_pending :: "runtime \<Rightarrow> runtime" where
  "clear_pending r = clear_parallel ((clear_set_context (r\<lparr>rt_sleep_until := None, rt_wait := None\<rparr>))\<lparr>rt_observe := None\<rparr>)"

definition begin_terminal_unwind :: "seq_world \<Rightarrow> run_state \<Rightarrow> string option \<Rightarrow> runtime \<Rightarrow> bool \<times> runtime" where
  "begin_terminal_unwind W state err r =
     (if rt_pending_state r \<noteq> None then (rt_stack r \<noteq> [], r)
      else if \<not> has_terminal_unwind_work r then (False, r)
      else
      let (now, r) = clock W r; r = abandon_active_step now r in
      (True, (clear_pending (r\<lparr>rt_pending_state := Some state, rt_pending_error := err, rt_cleanup_failed := False,
                rt_cleanup_errors := []\<rparr>))\<lparr>rt_detail := None\<rparr>))"

definition finish_pending_terminal :: "seq_world \<Rightarrow> runtime \<Rightarrow> runtime" where
  "finish_pending_terminal W r =
     (let final = (if rt_cleanup_failed r then ERROR else case rt_pending_state r of Some s \<Rightarrow> s | None \<Rightarrow> STOPPED);
          err = rt_pending_error r;
          r = clear_pending (r\<lparr>rt_pending_state := None, rt_pending_error := None, rt_cleanup_failed := False\<rparr>);
          r = r\<lparr>rt_state := final, rt_last_error := (if final = ERROR then err else None),
                rt_error_detail := (if final = ERROR then rt_error_detail r else None)\<rparr>;
          (now, r) = clock W r
      in r\<lparr>rt_ended := Some now\<rparr>)"

definition fail_step :: "eval_lang \<Rightarrow> seq_world \<Rightarrow> string \<Rightarrow> runtime \<Rightarrow> bool \<times> runtime" where
  "fail_step E W msg r =
     (if rt_pending_state r \<noteq> None then (True, note_cleanup_failure E W msg r)
      else
      let r = record_event W ''error'' ''step_failed'' msg (current_detail r) None None
                (r\<lparr>rt_error_detail := Some (make_error_detail (plain E) msg r)\<rparr>)
      in case begin_terminal_unwind W ERROR (Some msg) r of
           (True, r) \<Rightarrow> (True, r)
         | (False, r) \<Rightarrow> (True, r\<lparr>rt_last_error := Some msg, rt_state := ERROR\<rparr>))"

definition handle_runtime_exception :: "eval_lang \<Rightarrow> seq_world \<Rightarrow> string \<Rightarrow> runtime \<Rightarrow> bool \<times> runtime" where
  "handle_runtime_exception E W msg r =
     (if rt_pending_state r \<noteq> None then (True, note_cleanup_failure E W msg r)
      else
      begin_terminal_unwind W ERROR (Some msg)
        (record_event W ''error'' ''step_failed'' msg (current_detail r) None None
          (r\<lparr>rt_error_detail := Some (make_error_detail (plain E) msg r)\<rparr>)))"

definition interruptible :: "runtime \<Rightarrow> bool" where
  "interruptible r \<longleftrightarrow> rt_atomic_depth r = 0 \<and> rt_parallel r = None"

definition check_stop_pause :: "seq_world \<Rightarrow> runtime \<Rightarrow> bool \<times> runtime" where
  "check_stop_pause W r =
     (if rt_stop_requested r \<and> interruptible r
      then
      let (now, r) = clock W r; r = (mark_pause_ended now r)\<lparr>rt_stop_requested := False\<rparr> in
      (case begin_terminal_unwind W STOPPED None r of
         (True, r) \<Rightarrow> (True, r)
       | (False, r) \<Rightarrow> (True, (abandon_active_step now (clear_set_context r))\<lparr>rt_state := STOPPED, rt_ended := Some now\<rparr>))
      else if rt_pause_requested r \<and> interruptible r
      then
      let (now, r) = clock W r; r = (mark_pause_started now r)\<lparr>rt_state := PAUSED\<rparr> in
      (True, enter_pause W (case rt_pause_request r of Some i \<Rightarrow> i | None \<Rightarrow> \<lparr>pi_reason = None, pi_source = None, pi_trigger = None\<rparr>) r)
      else (False, r))"

section \<open>Values\<close>

definition build_env_view :: "items \<Rightarrow> items \<Rightarrow> items" where
  "build_env_view env vars_map = dset ''vars'' (to_attrdict (PDict vars_map)) (dict_update env vars_map)"

definition env_view :: "runtime \<Rightarrow> items" where
  "env_view r = build_env_view (rt_env r) (rt_vars r)"

definition set_env :: "string \<Rightarrow> pyval \<Rightarrow> runtime \<Rightarrow> runtime" where
  "set_env k v r = r\<lparr>rt_env := dset k v (rt_env r)\<rparr>"

definition render :: "eval_lang \<Rightarrow> pyval \<Rightarrow> pyval rt" where
  "render E v = (\<lambda>r. rlift (render_templates E v (env_view r)) r)"

definition as_float :: "eval_lang \<Rightarrow> pyval \<Rightarrow> string \<Rightarrow> pyexc + pyfloat" where
  "as_float E v what =
     (case py_float (plain E) v of Some f \<Rightarrow> Inr f | None \<Rightarrow> Inl (ValueError (what @ '', got '' @ py_repr (plain E) v)))"

definition as_int :: "eval_lang \<Rightarrow> pyval \<Rightarrow> string \<Rightarrow> pyexc + int" where
  "as_int E v what =
     (case py_int (plain E) v of
        Some n \<Rightarrow> Inr n
      | None \<Rightarrow> if v = PFloat PInf \<or> v = PFloat NInf then Inl (OtherError ''cannot convert float infinity to integer'')
                else Inl (ValueError (what @ '', got '' @ py_repr (plain E) v)))"

definition type_label :: "pyval \<Rightarrow> string" where
  "type_label v = (if v = PNone then ''None'' else type_name v)"

definition article :: "pyval \<Rightarrow> string" where
  "article v = (if v = PNone then ''None'' else ''a '' @ type_label v)"

definition describe_condition :: "seq_world \<Rightarrow> pyval \<Rightarrow> nat \<Rightarrow> string" where
  "describe_condition W cond limit =
     (let t = sw_json W cond in if length t \<le> limit then t else take (limit - 3) t @ ''...'')"

definition hashable :: "pyval \<Rightarrow> bool" where
  "hashable v = (case v of PList _ \<Rightarrow> False | PDict _ \<Rightarrow> False | PAttr _ \<Rightarrow> False | _ \<Rightarrow> True)"

definition unhashable :: "pyval \<Rightarrow> pyexc" where
  "unhashable v = TypeError (''unhashable type: '' @ repr_str (type_name v))"

fun list_at :: "pyval list \<Rightarrow> int \<Rightarrow> pyval option" where
  "list_at xs i =
     (let n = int (length xs); j = (if i < 0 then i + n else i) in
      if 0 \<le> j \<and> j < n then Some (xs ! nat j) else None)"

definition extract_from_result :: "eval_lang \<Rightarrow> seq_world \<Rightarrow> pyval \<Rightarrow> items \<Rightarrow> string \<Rightarrow> pyexc + pyval" where
  "extract_from_result E W result spec label =
     (let L = plain E; kind = dget spec ''kind'' (PStr ''scalar''); ref = jget spec ''ref'' in
      if kind = PStr ''scalar'' then Inr result
      else if kind = PStr ''key''
      then (case as_dict result of
              None \<Rightarrow> Inl (ValueError (label @ '': call result is '' @ article result @ '', not a mapping with key '' @ py_repr L ref))
            | Some d \<Rightarrow>
                if \<not> hashable ref then Inl (unhashable ref)
                else (case ref of
                        PStr k \<Rightarrow> (case map_of d k of Some v \<Rightarrow> Inr v | None \<Rightarrow> Inl (ValueError (label @ '': result has no key ''
                            @ py_repr L ref @ '' (keys: '' @ (if d = [] then ''(none)'' else join '', '' (map fst d)) @ '')'')))
                      | _ \<Rightarrow> Inl (ValueError (label @ '': result has no key ''
                            @ py_repr L ref @ '' (keys: '' @ (if d = [] then ''(none)'' else join '', '' (map fst d)) @ '')''))))
      else if kind = PStr ''index''
      then let look = (\<lambda>xs. case (case as_index ref of None \<Rightarrow> None | Some i \<Rightarrow> list_at xs i) of
                  Some v \<Rightarrow> Inr v
                | None \<Rightarrow> Inl (ValueError (label @ '': cannot take index '' @ py_repr L ref @ '' of a result with ''
                            @ digits_of (length xs) @ '' items'')))
           in (case result of
                 PList xs \<Rightarrow> look xs
               | PStr s \<Rightarrow> look (map (\<lambda>c. PStr [c]) s)
               | _ \<Rightarrow> Inl (ValueError (label @ '': call result is '' @ article result @ '', not a list with index '' @ py_repr L ref)))
      else if kind = PStr ''attr''
      then (case (case ref of PStr a \<Rightarrow> sw_attr W result a | _ \<Rightarrow> None) of
              Some v \<Rightarrow> Inr v
            | None \<Rightarrow> Inl (ValueError (label @ '': call result ('' @ type_label result @ '') has no attribute '' @ py_repr L ref)))
      else Inl (ValueError (label @ '': unknown extractor kind '' @ py_repr L kind)))"

text \<open>\<open>extract_value\<close> of the driver layer, which leaves the errors of indexing to Python.\<close>

definition extract_value :: "eval_lang \<Rightarrow> seq_world \<Rightarrow> pyval \<Rightarrow> pyval \<Rightarrow> pyval \<Rightarrow> pyexc + pyval" where
  "extract_value E W v kind ref =
     (if kind = PStr ''scalar'' then Inr v
      else if ref = PNone then Inl (ValueError (''Extractor kind '' @ py_repr (plain E) kind @ '' requires ref''))
      else if kind = PStr ''index'' \<or> kind = PStr ''key'' then sw_item W v ref
      else if kind = PStr ''attr''
      then (case ref of
              PStr a \<Rightarrow> (case sw_attr W v a of Some x \<Rightarrow> Inr x
                         | None \<Rightarrow> Inl (AttributeError (repr_str (type_name v) @ '' object has no attribute '' @ repr_str a)))
            | _ \<Rightarrow> Inl (TypeError ''attr extractor requires str ref''))
      else Inl (ValueError (''Unknown extractor kind '' @ py_repr (plain E) kind)))"


section \<open>Calls and telemetry\<close>

definition dispatch_call :: "seq_world \<Rightarrow> string \<Rightarrow> string option \<Rightarrow> string \<Rightarrow> pyval \<Rightarrow> items rt" where
  "dispatch_call W device process action params =
     (case process of
        Some (c # cs) \<Rightarrow>
          (case sw_call_process W of
             None \<Rightarrow> rret [(''ok'', PBool False), (''error'', PStr ''process calls not supported (call_process not wired)'')]
           | Some f \<Rightarrow> ask (\<lambda>n. f n (c # cs) action params))
      | _ \<Rightarrow> ask (\<lambda>n. sw_call_device W n device action params))"

definition dispatch_get_telemetry :: "seq_world \<Rightarrow> string \<Rightarrow> string option \<Rightarrow> string \<Rightarrow> items option rt" where
  "dispatch_get_telemetry W device process signal =
     (case process of
        Some (c # cs) \<Rightarrow>
          (case sw_process_telemetry W of
             None \<Rightarrow> rret None
           | Some f \<Rightarrow> (\<lambda>r. (Inr (f (rt_io r) (c # cs) signal), uses r)))
      | _ \<Rightarrow> (\<lambda>r. (Inr (sw_telemetry W (rt_io r) device signal), uses r)))"

definition scalar_float :: "py_lang \<Rightarrow> pyval \<Rightarrow> pyfloat option" where
  "scalar_float L v =
     (case v of PStr _ \<Rightarrow> py_float L v | PInt _ \<Rightarrow> py_float L v | PBool _ \<Rightarrow> py_float L v | PFloat _ \<Rightarrow> py_float L v | _ \<Rightarrow> None)"

definition telemetry_sample_age_s :: "eval_lang \<Rightarrow> seq_world \<Rightarrow> items \<Rightarrow> runtime \<Rightarrow> pyfloat option \<times> runtime" where
  "telemetry_sample_age_s E W sample r =
     (let num = (\<lambda>k. scalar_float (plain E) (jget sample k));
          since = (\<lambda>t r. case clock W r of (now, r) \<Rightarrow> (Some (fmax (Fin 0) (fsub now t)), r))
      in case num ''age_s'' of
           Some a \<Rightarrow> (Some (fmax (Fin 0) a), r)
         | None \<Rightarrow>
             (case num ''t_mono_recv'' of
                Some t \<Rightarrow> since t r
              | None \<Rightarrow> (case num ''t_mono'' of Some t \<Rightarrow> since t r | None \<Rightarrow> (None, r))))"

definition response_error_text :: "py_lang \<Rightarrow> items \<Rightarrow> string option \<Rightarrow> string" where
  "response_error_text L resp target =
     (let error = jget resp ''error''; rest = (if truthy error then py_str L error else ''request failed'') in
      case as_dict error of
        None \<Rightarrow> rest
      | Some d \<Rightarrow>
          let code = jget d ''code''; m = jget d ''message'';
              who = (case target of Some (c # cs) \<Rightarrow> ''process '' @ repr_str (c # cs) | _ \<Rightarrow> ''the process'');
              message = (if truthy m then m
                else if code = PStr ''unknown_process'' then PStr (who @ '' is not registered with the manager'')
                else if code = PStr ''process_not_running'' then PStr (who @ '' is not running'') else m)
          in if truthy message \<and> truthy code then py_str L message @ '' ('' @ py_str L code @ '')''
             else if truthy message then py_str L message
             else if truthy code then py_str L code else rest)"

definition PERMANENT_CALL_ERROR_CODES :: "string list" where
  "PERMANENT_CALL_ERROR_CODES = [''unknown_command'', ''bad_parameters'', ''command_not_allowed'', ''invalid_params'',
     ''unknown_device'', ''unknown_process'', ''unknown_request'']"

definition permanent :: "pyval \<Rightarrow> pyexc + bool" where
  "permanent error =
     (case as_dict error of
        None \<Rightarrow> Inr False
      | Some d \<Rightarrow>
          if jget d ''retryable'' = PBool False then Inr True
          else
          let code = jget d ''code''; inner = (case as_dict (jget d ''details'') of None \<Rightarrow> PNone | Some x \<Rightarrow> jget x ''error_code'') in
          if \<not> hashable code then Inl (unhashable code)
          else if \<not> hashable inner then Inl (unhashable inner)
          else Inr (list_ex (\<lambda>c. code = PStr c \<or> inner = PStr c) PERMANENT_CALL_ERROR_CODES))"

definition rendered_name :: "eval_lang \<Rightarrow> pyval \<Rightarrow> string rt" where
  "rendered_name E v = rbind (render E v) (\<lambda>x. rret (if truthy x then py_strip (py_str (plain E) x) else []))"

definition render_call_target :: "eval_lang \<Rightarrow> items \<Rightarrow> (string \<times> string option \<times> string) rt" where
  "render_call_target E spec =
     rbind (rendered_name E (dget spec ''device'' (PStr []))) (\<lambda>device.
     rbind (rendered_name E (dget spec ''process'' (PStr []))) (\<lambda>process.
     rbind (rendered_name E (dget spec ''action'' (PStr []))) (\<lambda>action.
     if device \<noteq> [] \<and> process \<noteq> [] then rraise (SeqPy (ValueError ''call may set only one of device / process after rendering''))
     else if (device = [] \<and> process = []) \<or> action = []
     then rraise (SeqPy (ValueError ''call target rendered empty device/process or action''))
     else rret (device, if process = [] then None else Some process, action))))"

definition opt_string :: "string \<Rightarrow> string option" where
  "opt_string s = (if s = [] then None else Some s)"

definition resolve_telemetry :: "eval_lang \<Rightarrow> seq_world \<Rightarrow> items \<Rightarrow> pyval \<Rightarrow> pyval rt" where
  "resolve_telemetry E W env raw =
     rbind (rlift (render_templates E raw env)) (\<lambda>rendered.
     case as_dict rendered of
       None \<Rightarrow> rret PNone
     | Some spec \<Rightarrow>
         let L = plain E; device = py_str L (dget spec ''device'' (PStr [])); process = py_str L (dget spec ''process'' (PStr []));
             signal = py_str L (dget spec ''signal'' (PStr [])); age_raw = dget spec ''max_age_s'' (PInt 0) in
         if (device = [] \<and> process = []) \<or> signal = [] then rret PNone
         else
         rbind (rpy (to_float E (if age_raw = PNone then PInt 0 else age_raw))) (\<lambda>max_age.
         rbind (dispatch_get_telemetry W device (opt_string process) signal) (\<lambda>sample.
         case sample of
           Some (x # xs) \<Rightarrow>
             rbind (rrun (telemetry_sample_age_s E W (x # xs))) (\<lambda>age.
             if max_age \<noteq> Fin 0 \<and> (case age of None \<Rightarrow> True | Some a \<Rightarrow> flt max_age a) then rret PNone
             else rret (jget (x # xs) ''value''))
         | _ \<Rightarrow> rret PNone)))"

definition resolve_call :: "eval_lang \<Rightarrow> seq_world \<Rightarrow> items \<Rightarrow> pyval \<Rightarrow> pyval rt" where
  "resolve_call E W env raw =
     (case as_dict raw of
        None \<Rightarrow> rret PNone
      | Some spec \<Rightarrow>
          rbind (render_call_target E spec) (\<lambda>(device, process, action).
          let params = py_or (dget spec ''params'' (PDict [])) (PDict []) in
          rbind (rlift (render_templates E (if is_dict params then params else PDict []) env)) (\<lambda>rendered.
          rbind (dispatch_call W device process action rendered) (\<lambda>resp.
          if \<not> truthy (dget resp ''ok'' (PBool False))
          then rraise (SeqCallFailed (''call '' @ (case process of Some p \<Rightarrow> p | None \<Rightarrow> device) @ ''.'' @ action @ '' failed: ''
                 @ response_error_text (plain E) resp process) (jget resp ''error''))
          else (case as_dict (jget spec ''extract'') of
                  Some ex \<Rightarrow> rpy (extract_from_result E W (jget resp ''result'') ex ''extract'')
                | None \<Rightarrow> rret (jget resp ''result''))))))"

fun resolve_value :: "eval_lang \<Rightarrow> seq_world \<Rightarrow> items \<Rightarrow> pyval \<Rightarrow> pyval rt"
  and resolve_list :: "eval_lang \<Rightarrow> seq_world \<Rightarrow> items \<Rightarrow> pyval list \<Rightarrow> pyval list rt"
  and resolve_items :: "eval_lang \<Rightarrow> seq_world \<Rightarrow> items \<Rightarrow> items \<Rightarrow> items rt" where
  "resolve_value E W env (PDict d) =
     (if dhas d ''telemetry'' then resolve_telemetry E W env (jget d ''telemetry'')
      else if dhas d ''call'' then resolve_call E W env (jget d ''call'')
      else rbind (resolve_items E W env d) (\<lambda>out. rret (PDict out)))"
| "resolve_value E W env (PAttr d) =
     (if dhas d ''telemetry'' then resolve_telemetry E W env (jget d ''telemetry'')
      else if dhas d ''call'' then resolve_call E W env (jget d ''call'')
      else rbind (resolve_items E W env d) (\<lambda>out. rret (PDict out)))"
| "resolve_value E W env (PList xs) = rbind (resolve_list E W env xs) (\<lambda>ys. rret (PList ys))"
| "resolve_value E W env v = rlift (render_templates E v env)"
| "resolve_list E W env [] = rret []"
| "resolve_list E W env (x # xs) =
     rbind (resolve_value E W env x) (\<lambda>y. rbind (resolve_list E W env xs) (\<lambda>ys. rret (y # ys)))"
| "resolve_items E W env [] = rret []"
| "resolve_items E W env ((k, v) # d) =
     rbind (resolve_value E W env v) (\<lambda>y. rbind (resolve_items E W env d) (\<lambda>ys. rret ((k, y) # ys)))"

definition condition_holds :: "eval_lang \<Rightarrow> seq_world \<Rightarrow> pyval \<Rightarrow> bool rt" where
  "condition_holds E W cond = (\<lambda>r. let env = env_view r in
     rbind (resolve_value E W env cond) (\<lambda>v. rlift (eval_condition E env v)) r)"

definition cannot_evaluate :: "string \<Rightarrow> seq_exc \<Rightarrow> seq_exc" where
  "cannot_evaluate kind e = SeqPy (ValueError (kind @ '' condition could not be evaluated: '' @ seq_exc_text e))"

text \<open>A condition of a \<open>wait_until\<close> that fails for want of a value counts as not met yet.\<close>

definition polled_failure :: "string \<Rightarrow> seq_exc \<Rightarrow> bool rt" where
  "polled_failure kind e =
     (case e of
        SeqCallFailed msg error \<Rightarrow>
          rbind (rpy (permanent error)) (\<lambda>p.
          if p then rraise (cannot_evaluate kind e)
          else rbind (rmodify (\<lambda>r. r\<lparr>rt_wait := map_option (\<lambda>ws. ws\<lparr>ws_call_error := Some msg\<rparr>) (rt_wait r)\<rparr>)) (\<lambda>_. rret False))
      | SeqEval (OperandError _ none_involved) \<Rightarrow> if none_involved then rret False else rraise (cannot_evaluate kind e)
      | SeqEval (EvalRaised _) \<Rightarrow> rret False
      | _ \<Rightarrow> rraise (cannot_evaluate kind e))"

definition eval_condition_rt :: "eval_lang \<Rightarrow> seq_world \<Rightarrow> pyval \<Rightarrow> string \<Rightarrow> bool \<Rightarrow> bool rt" where
  "eval_condition_rt E W cond kind polling =
     (\<lambda>r. case condition_holds E W cond r of
        (Inr b, r) \<Rightarrow> (Inr b, r)
      | (Inl e, r) \<Rightarrow> if polling then polled_failure kind e r else (Inl (cannot_evaluate kind e), r))"

end
