(* ===== verification/Sequencer_Adaptive.thy ===== *)
theory Sequencer_Adaptive
  imports Sequencer_State
begin

text \<open>
  Adaptive steps of the sequencer runtime: stopping rules, the proposals of a controller and
  their coercion into the search space, the observation of a trial with its metrics,
  aggregates and score, and what a finished trial does to the run. Controllers are opaque;
  their answers come from the world. Waiting for telemetry is a loop that may not end, so
  operations that observe return an option: \<open>None\<close> means the call does not return.
\<close>

type_synonym 'a prt = "runtime \<Rightarrow> ((seq_exc + 'a) \<times> runtime) option"

definition plift :: "'a rt \<Rightarrow> 'a prt" where
  "plift m = (\<lambda>r. Some (m r))"

definition pbind :: "'a prt \<Rightarrow> ('a \<Rightarrow> 'b prt) \<Rightarrow> 'b prt" where
  "pbind m f = (\<lambda>r. case m r of None \<Rightarrow> None | Some (Inl e, r') \<Rightarrow> Some (Inl e, r') | Some (Inr x, r') \<Rightarrow> f x r')"

abbreviation pret :: "'a \<Rightarrow> 'a prt" where
  "pret x \<equiv> plift (rret x)"

abbreviation praise :: "seq_exc \<Rightarrow> 'a prt" where
  "praise e \<equiv> plift (rraise e)"

text \<open>\<open>try: ... except Exception\<close>: the outcome as a value.\<close>

definition ptry :: "'a prt \<Rightarrow> (seq_exc + 'a) prt" where
  "ptry m = (\<lambda>r. case m r of None \<Rightarrow> None | Some (x, r') \<Rightarrow> Some (Inr x, r'))"

fun pmap :: "('a \<Rightarrow> 'b prt) \<Rightarrow> 'a list \<Rightarrow> 'b list prt" where
  "pmap f [] = pret []"
| "pmap f (x # xs) = pbind (f x) (\<lambda>y. pbind (pmap f xs) (\<lambda>ys. pret (y # ys)))"


section \<open>Proposals\<close>

definition fmin :: "pyfloat \<Rightarrow> pyfloat \<Rightarrow> pyfloat" where
  "fmin a b = (if flt b a then b else a)"

definition coerce_positive_int :: "eval_lang \<Rightarrow> pyval \<Rightarrow> string \<Rightarrow> int rt" where
  "coerce_positive_int E raw name =
     (\<lambda>r. case render_templates E raw (env_view r) of
        Inl _ \<Rightarrow> (Inl (SeqPy (TypeError (name @ '' must be an integer''))), r)
      | Inr v \<Rightarrow>
          (case py_int (plain E) v of
             None \<Rightarrow> (Inl (SeqPy (TypeError (name @ '' must be an integer''))), r)
           | Some n \<Rightarrow> if n \<le> 0 then (Inl (SeqPy (ValueError (name @ '' must be > 0''))), r) else (Inr n, r)))"

definition param_type :: "py_lang \<Rightarrow> items \<Rightarrow> string" where
  "param_type L spec = py_lower (py_strip (py_str L (py_or (dget spec ''type'' (PStr [])) (PStr []))))"

definition snapped :: "eval_lang \<Rightarrow> string \<Rightarrow> items \<Rightarrow> pyfloat \<Rightarrow> pyfloat \<Rightarrow> pyexc + pyfloat" where
  "snapped E name spec lower value =
     (if \<not> (truthy (dget spec ''snap'' (PBool False)) \<and> jget spec ''step'' \<noteq> PNone) then Inr value
      else case py_float (plain E) (jget spec ''step'') of
             None \<Rightarrow> Inl (TypeError (''adaptive.space.'' @ name @ ''.step must be numeric''))
           | Some step_size \<Rightarrow>
               if fle step_size (Fin 0) then Inl (ValueError (''adaptive.space.'' @ name @ ''.step must be > 0''))
               else (case py_float (plain E) (dget spec ''origin'' (PFloat lower)) of
                       None \<Rightarrow> Inl (TypeError (''adaptive.space.'' @ name @ ''.origin must be numeric''))
                     | Some origin \<Rightarrow>
                         res_bind (finite_int round_half_even (fdiv (fsub value origin) step_size)) (\<lambda>n.
                         Inr (fadd origin (fmul (Fin (of_int n)) step_size)))))"

definition coerce_adaptive_param :: "eval_lang \<Rightarrow> string \<Rightarrow> items \<Rightarrow> pyval \<Rightarrow> pyexc + pyval" where
  "coerce_adaptive_param E name spec raw =
     (let L = plain E; kind = param_type L spec; num = scalar_float L in
      if kind = ''categorical''
      then (case jget spec ''choices'' of
              PList (c # cs) \<Rightarrow>
                if list_ex (\<lambda>v. py_eq v raw) (c # cs) then Inr raw
                else Inl (ValueError (''adaptive controller proposed invalid value '' @ py_repr L raw @ '' for '' @ repr_str name))
            | _ \<Rightarrow> Inl (TypeError (''adaptive.space.'' @ name @ ''.choices must be a non-empty list'')))
      else if kind \<notin> {''float'', ''int''}
      then Inl (ValueError (''adaptive.space.'' @ name @ ''.type '' @ repr_str kind @ '' is not supported in v1''))
      else
      case (num raw, num (jget spec ''min''), num (jget spec ''max'')) of
        (Some value, Some lower, Some upper) \<Rightarrow>
          if fle upper lower then Inl (ValueError (''adaptive.space.'' @ name @ '' requires max > min''))
          else
          res_bind (snapped E name spec lower value) (\<lambda>v.
          let clamped = fmax lower (fmin upper v) in
          if kind = ''int'' then res_bind (finite_int round_half_even clamped) (\<lambda>n. Inr (PInt n))
          else Inr (PFloat clamped))
      | _ \<Rightarrow> Inl (TypeError (''adaptive.space.'' @ name @ '' requires numeric min/max and numeric values'')))"

definition space_param :: "eval_lang \<Rightarrow> items \<Rightarrow> string \<times> pyval \<Rightarrow> pyexc + (string \<times> pyval)" where
  "space_param E params_raw entry =
     (case entry of (name, spec) \<Rightarrow>
        case as_dict spec of
          None \<Rightarrow> Inl (TypeError (''adaptive.space.'' @ name @ '' must be a dict''))
        | Some d \<Rightarrow>
            if \<not> dhas params_raw name
            then Inl (KeyError (repr_str (''adaptive controller proposal is missing parameter '' @ repr_str name)))
            else res_bind (coerce_adaptive_param E name d (jget params_raw name)) (\<lambda>v. Inr (name, v)))"

definition apply_adaptive_space :: "eval_lang \<Rightarrow> items \<Rightarrow> items \<Rightarrow> pyexc + items" where
  "apply_adaptive_space E spc params_raw = res_map (space_param E params_raw) spc"

definition prepare_adaptive_proposal :: "eval_lang \<Rightarrow> seq_world \<Rightarrow> adaptive_frame \<Rightarrow> proposal rt" where
  "prepare_adaptive_proposal E W f =
     rbind (ask (\<lambda>n. sw_suggest W n (af_controller f))) (\<lambda>raw.
     case as_dict raw of
       None \<Rightarrow> rraise (SeqPy (TypeError ''adaptive controller must return a dict proposal''))
     | Some d \<Rightarrow>
         (case as_dict (py_or (jget d ''params_raw'') (PDict [])) of
            Some (p # ps) \<Rightarrow>
              (case as_dict (py_or (jget d ''meta'') (PDict [])) of
                 None \<Rightarrow> rraise (SeqPy (TypeError ''adaptive controller proposal meta must be a dict''))
               | Some meta \<Rightarrow>
                   rbind (rpy (apply_adaptive_space E (af_rendered_space f) (p # ps))) (\<lambda>params.
                   rret \<lparr>pr_params_raw = p # ps, pr_params = params, pr_meta = meta\<rparr>))
          | _ \<Rightarrow> rraise (SeqPy (TypeError ''adaptive controller proposal must include params_raw''))))"

definition bind_adaptive_proposal :: "adaptive_spec \<Rightarrow> proposal \<Rightarrow> unit rt" where
  "bind_adaptive_proposal a p =
     (let values = dict_update (pr_params p) (pr_meta p) in
      rforeach (\<lambda>(source, target).
        if dhas values source then rmodify (set_env target (jget values source))
        else rraise (SeqPy (KeyError (repr_str (''adaptive proposal is missing bound field '' @ repr_str source))))) (as_bind a))"

definition rendered_limit :: "eval_lang \<Rightarrow> (py_lang \<Rightarrow> pyval \<Rightarrow> 'a option) \<Rightarrow> string \<Rightarrow> pyval \<Rightarrow> 'a rt" where
  "rendered_limit E conv msg v =
     (\<lambda>r. case render_templates E v (env_view r) of
        Inl _ \<Rightarrow> (Inl (SeqPy (TypeError msg)), r)
      | Inr x \<Rightarrow> (case conv (plain E) x of None \<Rightarrow> (Inl (SeqPy (TypeError msg)), r) | Some y \<Rightarrow> (Inr y, r)))"

definition minimize :: "py_lang \<Rightarrow> adaptive_frame \<Rightarrow> bool" where
  "minimize L f \<longleftrightarrow>
     py_str L (py_or (dget (af_rendered_controller f) ''direction'' (PStr ''maximize'')) (PStr ''maximize'')) = ''minimize''"

definition adaptive_should_stop :: "eval_lang \<Rightarrow> seq_world \<Rightarrow> adaptive_frame \<Rightarrow> bool rt" where
  "adaptive_should_stop E W f =
     (let stopping = (case as_stopping (af_spec f) of None \<Rightarrow> [] | Some d \<Rightarrow> d);
          opt = (\<lambda>k check. let v = jget stopping k in if v = PNone then rret False else check v)
      in
      rbind (opt ''max_trials'' (\<lambda>v.
        rbind (rendered_limit E py_int ''adaptive.stopping.max_trials must be an integer'' v) (\<lambda>lim.
        rret (lim \<ge> 0 \<and> int (af_trials f) \<ge> lim)))) (\<lambda>stop. if stop then rret True else
      rbind (opt ''max_runtime_s'' (\<lambda>v.
        rbind (rendered_limit E py_float ''adaptive.stopping.max_runtime_s must be a number'' v) (\<lambda>lim.
        if fle (Fin 0) lim then rbind (rrun (clock W)) (\<lambda>now. rret (fle lim (fsub now (af_started f)))) else rret False)))
        (\<lambda>stop. if stop then rret True else
      rbind (case af_best f of
          None \<Rightarrow> rret False
        | Some best \<Rightarrow> opt ''target_score'' (\<lambda>v.
            rbind (rendered_limit E py_float ''adaptive.stopping.target_score must be a number'' v) (\<lambda>target.
            rret (if minimize (plain E) f then fle best target else fle target best)))) (\<lambda>stop. if stop then rret True else
      opt ''patience'' (\<lambda>v.
        rbind (rendered_limit E py_int ''adaptive.stopping.patience must be an integer'' v) (\<lambda>lim.
        rret (lim \<ge> 0 \<and> int (af_no_improve f) \<ge> lim)))))))"


section \<open>Metrics and scores\<close>

fun finsert :: "pyfloat \<Rightarrow> pyfloat list \<Rightarrow> pyfloat list" where
  "finsert x [] = [x]"
| "finsert x (y # ys) = (if flt x y then x # y # ys else y # finsert x ys)"

definition fsorted :: "pyfloat list \<Rightarrow> pyfloat list" where
  "fsorted xs = foldl (\<lambda>acc x. finsert x acc) [] xs"

definition fmedian :: "pyfloat list \<Rightarrow> pyfloat" where
  "fmedian xs =
     (let s = fsorted xs; n = length s in
      if odd n then s ! (n div 2) else fdiv (fadd (s ! (n div 2 - 1)) (s ! (n div 2))) (Fin 2))"

definition fmean :: "pyfloat list \<Rightarrow> pyfloat" where
  "fmean xs = fdiv (foldl fadd (Fin 0) xs) (Fin (of_nat (length xs)))"

definition build_adaptive_aggregates :: "eval_lang \<Rightarrow> seq_world \<Rightarrow> pyval list \<Rightarrow> items" where
  "build_adaptive_aggregates E W values =
     (let present = filter (\<lambda>v. v \<noteq> PNone) values; nums = List.map_filter (py_float (plain E)) present;
          base = [(''n'', PInt (int (length values))), (''n_ok'', PInt (int (length present)))]
      in case nums of
           [] \<Rightarrow> base
         | x # xs \<Rightarrow>
             let std = (if xs = [] then Fin 0 else sw_stdev W nums) in
             base @ [(''mean'', PFloat (fmean nums)), (''std'', PFloat std), (''min'', PFloat (foldl fmin x xs)),
               (''max'', PFloat (foldl fmax x xs)), (''median'', PFloat (fmedian nums)),
               (''sem'', PFloat (fdiv std (sw_sqrt W (Fin (of_nat (length nums))))))])"

definition metrics_of :: "eval_lang \<Rightarrow> seq_world \<Rightarrow> (string \<times> pyval list) list \<Rightarrow> items \<times> (string \<times> items) list" where
  "metrics_of E W replicates =
     (let stats = map (\<lambda>(name, vs). (name, build_adaptive_aggregates E W vs)) replicates in
      (map (\<lambda>((name, vs), (_, st)). (name, if dhas st ''mean'' then jget st ''mean'' else if vs \<noteq> [] then List.last vs else PNone))
         (zip replicates stats), stats))"

definition stat_items :: "(string \<times> items) list \<Rightarrow> items" where
  "stat_items aggregates = concat (map (\<lambda>(name, stats). map (\<lambda>(s, v). (name @ ''_'' @ s, v)) stats) aggregates)"

definition compute_adaptive_score :: "eval_lang \<Rightarrow> items \<Rightarrow> items \<Rightarrow> (string \<times> items) list \<Rightarrow> pyval rt" where
  "compute_adaptive_score E observe metrics aggregates =
     (\<lambda>r. let env = dict_update (dict_update (env_view r) metrics) (stat_items aggregates) in
        if jget observe ''score'' \<noteq> PNone then rlift (render_templates E (jget observe ''score'') env) r
        else case metrics of [(_, v)] \<Rightarrow> (Inr v, r) | _ \<Rightarrow> (Inr PNone, r))"

definition score_trial :: "eval_lang \<Rightarrow> string \<Rightarrow> items \<Rightarrow> trial \<Rightarrow> (string option \<times> trial) rt" where
  "score_trial E not_numeric observe t =
     (\<lambda>r. case compute_adaptive_score E observe (tr_metrics t) (tr_aggregates t) r of
        (Inl e, r) \<Rightarrow> (Inr (Some (seq_exc_text e), t), r)
      | (Inr v, r) \<Rightarrow>
          if v = PNone then (Inr (Some ''adaptive step requires a numeric score in v1'', t), r)
          else (case py_float (plain E) v of
                  None \<Rightarrow> (Inr (Some (if not_numeric = [] then exc_text (float_error v) else not_numeric), t\<lparr>tr_score := v\<rparr>), r)
                | Some f \<Rightarrow> (Inr (None, t\<lparr>tr_score := PFloat f\<rparr>), r)))"

definition failed_trial :: "string \<Rightarrow> trial \<Rightarrow> trial" where
  "failed_trial msg t = t\<lparr>tr_ok := False, tr_error := Some [(''message'', PStr msg)]\<rparr>"

definition blank_trial :: "runtime \<Rightarrow> proposal \<Rightarrow> trial" where
  "blank_trial r p =
     \<lparr>tr_ok = True, tr_context_id = rt_context_id r, tr_params_raw = pr_params_raw p, tr_params = pr_params p, tr_meta = pr_meta p,
      tr_state = [], tr_metrics = [], tr_replicates = [], tr_aggregates = [], tr_score = PNone, tr_error = None, tr_observe_started = None\<rparr>"


section \<open>Sampling\<close>

definition usable_sample :: "eval_lang \<Rightarrow> seq_world \<Rightarrow> pyfloat \<Rightarrow> items option \<Rightarrow> runtime \<Rightarrow> pyval option \<times> runtime" where
  "usable_sample E W max_age sample r =
     (case sample of
        Some (x # xs) \<Rightarrow>
          (case telemetry_sample_age_s E W (x # xs) r of
             (age, r) \<Rightarrow>
               if max_age = Fin 0 \<or> (case age of None \<Rightarrow> False | Some a \<Rightarrow> fle a max_age)
               then (Some (jget (x # xs) ''value''), r) else (None, r))
      | _ \<Rightarrow> (None, r))"

partial_function (option) poll_telemetry ::
  "eval_lang \<Rightarrow> seq_world \<Rightarrow> string \<Rightarrow> string option \<Rightarrow> string \<Rightarrow> pyfloat \<Rightarrow> pyfloat \<Rightarrow> pyfloat \<Rightarrow> runtime
     \<Rightarrow> ((seq_exc + pyval) \<times> runtime) option" where
  "poll_telemetry E W device process signal timeout max_age deadline r =
     (case dispatch_get_telemetry W device process signal r of
        (Inl e, r) \<Rightarrow> Some (Inl e, r)
      | (Inr sample, r) \<Rightarrow>
          (case usable_sample E W max_age sample r of
             (Some v, r) \<Rightarrow> Some (Inr v, r)
           | (None, r) \<Rightarrow>
               let late = Inl (SeqPy (RuntimeError (''adaptive telemetry source timed out for ''
                            @ (case process of Some p \<Rightarrow> p | None \<Rightarrow> device) @ ''.'' @ signal)))
               in if fle timeout (Fin 0) then Some (late, r)
                  else (case clock W r of
                          (now, r) \<Rightarrow> if fle deadline now then Some (late, r)
                                      else poll_telemetry E W device process signal timeout max_age deadline r)))"

definition sample_adaptive_telemetry :: "eval_lang \<Rightarrow> seq_world \<Rightarrow> items \<Rightarrow> pyval prt" where
  "sample_adaptive_telemetry E W config =
     (let L = plain E; name = (\<lambda>k. py_strip (py_str L (py_or (dget config k (PStr [])) (PStr []))));
          device = name ''device''; process = name ''process''; signal = name ''signal'' in
      if (device = [] \<and> process = []) \<or> signal = []
      then praise (SeqPy (ValueError ''adaptive telemetry source requires device-or-process and signal''))
      else
      pbind (plift (rpy (to_float E (py_or (dget config ''timeout_s'' (PFloat (Fin 0))) (PFloat (Fin 0)))))) (\<lambda>timeout.
      pbind (plift (rpy (to_float E (py_or (dget config ''max_age_s'' (PFloat (Fin 0))) (PFloat (Fin 0)))))) (\<lambda>max_age.
      pbind (plift (rrun (clock W))) (\<lambda>now.
      poll_telemetry E W device (opt_string process) signal timeout max_age (fadd now (fmax (Fin 0) timeout))))))"

definition sample_adaptive_call :: "eval_lang \<Rightarrow> seq_world \<Rightarrow> items \<Rightarrow> pyval rt" where
  "sample_adaptive_call E W config =
     rbind (render_call_target E config) (\<lambda>(device, process, action).
     let params = py_or (dget config ''params'' (PDict [])) (PDict []) in
     if \<not> is_dict params then rraise (SeqPy (TypeError ''adaptive call source params must be a dict''))
     else
     rbind (render E params) (\<lambda>rendered.
     rbind (dispatch_call W device process action rendered) (\<lambda>resp.
     if \<not> truthy (dget resp ''ok'' (PBool False))
     then rraise (SeqPy (RuntimeError (py_str (plain E) (dget resp ''error'' (PStr ''adaptive call source failed'')))))
     else (case as_dict (jget config ''extract'') of
             Some ex \<Rightarrow> rpy (extract_value E W (jget resp ''result'') (dget ex ''kind'' (PStr ''scalar'')) (jget ex ''ref''))
           | None \<Rightarrow> rret (jget resp ''result'')))))"

definition source_kind :: "eval_lang \<Rightarrow> items \<Rightarrow> string" where
  "source_kind E spec = py_strip (py_str (plain E) (py_or (dget spec ''kind'' (PStr [])) (PStr [])))"

definition sample_adaptive_source :: "eval_lang \<Rightarrow> seq_world \<Rightarrow> pyval \<Rightarrow> pyval prt" where
  "sample_adaptive_source E W raw =
     (case as_dict raw of
        None \<Rightarrow> praise (SeqPy (TypeError ''adaptive source specs must be dicts''))
      | Some spec \<Rightarrow>
          let config = py_or (jget spec ''config'') (PDict []) in
          if \<not> is_dict config then praise (SeqPy (TypeError ''adaptive source config must be a dict''))
          else
          pbind (plift (render E config)) (\<lambda>rendered.
          case as_dict rendered of
            None \<Rightarrow> praise (SeqPy (TypeError ''adaptive source config must render to a dict''))
          | Some d \<Rightarrow>
              if source_kind E spec = ''analysis_output''
              then praise (SeqPy (RuntimeError ''adaptive analysis_output sources are asynchronous and must be sampled by the adaptive runtime''))
              else if source_kind E spec = ''telemetry'' then sample_adaptive_telemetry E W d
              else if source_kind E spec = ''call'' then plift (sample_adaptive_call E W d)
              else praise (SeqPy (ValueError (''unsupported adaptive source kind '' @ repr_str (source_kind E spec))))))"

definition collect_adaptive_state :: "eval_lang \<Rightarrow> seq_world \<Rightarrow> items \<Rightarrow> items prt" where
  "collect_adaptive_state E W spec =
     pmap (\<lambda>(name, source). pbind (sample_adaptive_source E W source) (\<lambda>v. pret (name, v))) spec"

definition add_replicates :: "(string \<times> pyval list) list \<Rightarrow> items \<Rightarrow> (string \<times> pyval list) list" where
  "add_replicates replicates values =
     foldl (\<lambda>reps (name, v). dset name (dget reps name [] @ [v]) reps) replicates values"

fun collect_repeats :: "eval_lang \<Rightarrow> seq_world \<Rightarrow> nat \<Rightarrow> items \<Rightarrow> (string \<times> pyval list) list \<Rightarrow> (string \<times> pyval list) list prt" where
  "collect_repeats E W 0 spec reps = pret reps"
| "collect_repeats E W (Suc n) spec reps =
     pbind (collect_adaptive_state E W spec) (\<lambda>vs. collect_repeats E W n spec (add_replicates reps vs))"

definition collect_adaptive_metrics :: "eval_lang \<Rightarrow> seq_world \<Rightarrow> items \<Rightarrow> (string \<times> pyval list) list prt" where
  "collect_adaptive_metrics E W observe =
     (case as_dict (jget observe ''metrics'') of
        Some (m # ms) \<Rightarrow>
          pbind (plift (coerce_positive_int E (dget observe ''repeats'' (PInt 1)) ''adaptive.observe.repeats'')) (\<lambda>n.
          collect_repeats E W (nat n) (m # ms) (map (\<lambda>(name, _). (name, [])) (m # ms)))
      | _ \<Rightarrow> praise (SeqPy (TypeError ''adaptive.observe.metrics must be a non-empty dict'')))"


section \<open>Trials\<close>

definition state_of_trial :: "eval_lang \<Rightarrow> seq_world \<Rightarrow> adaptive_spec \<Rightarrow> trial \<Rightarrow> (string option \<times> trial) prt" where
  "state_of_trial E W a t =
     (case as_state a of
        Some (s # ss) \<Rightarrow>
          pbind (ptry (collect_adaptive_state E W (s # ss))) (\<lambda>res.
          case res of Inl e \<Rightarrow> pret (Some (seq_exc_text e), t) | Inr st \<Rightarrow> pret (None, t\<lparr>tr_state := st\<rparr>))
      | _ \<Rightarrow> pret (None, t))"

definition outcome :: "string option \<times> trial \<Rightarrow> trial" where
  "outcome res = (case res of (None, t) \<Rightarrow> t | (Some msg, t) \<Rightarrow> failed_trial msg t)"

definition collect_adaptive_trial :: "eval_lang \<Rightarrow> seq_world \<Rightarrow> adaptive_spec \<Rightarrow> proposal \<Rightarrow> trial prt" where
  "collect_adaptive_trial E W a p =
     (\<lambda>r. pbind (state_of_trial E W a (blank_trial r p)) (\<lambda>(err, t).
        case err of
          Some msg \<Rightarrow> pret (failed_trial msg t)
        | None \<Rightarrow>
            pbind (ptry (collect_adaptive_metrics E W (as_observe a))) (\<lambda>res.
            case res of
              Inl e \<Rightarrow> pret (failed_trial (seq_exc_text e) t)
            | Inr reps \<Rightarrow>
                let (metrics, aggregates) = metrics_of E W reps in
                pbind (plift (score_trial E ''adaptive score must be numeric'' (as_observe a)
                  (t\<lparr>tr_metrics := metrics, tr_replicates := reps, tr_aggregates := aggregates\<rparr>))) (\<lambda>res. pret (outcome res)))) r)"

text \<open>The adaptive frame is the top of the stack whenever a trial of it ends.\<close>

definition map_adaptive_top :: "(adaptive_frame \<Rightarrow> adaptive_frame) \<Rightarrow> runtime \<Rightarrow> runtime" where
  "map_adaptive_top g r = r\<lparr>rt_stack := (case rt_stack r of AdaptiveFrame f # fs \<Rightarrow> AdaptiveFrame (g f) # fs | fs \<Rightarrow> fs)\<rparr>"

definition track_score :: "py_lang \<Rightarrow> trial \<Rightarrow> adaptive_frame \<Rightarrow> adaptive_frame" where
  "track_score L t f =
     (case (if tr_score t = PNone then None else py_float L (tr_score t)) of
        None \<Rightarrow> f\<lparr>af_no_improve := af_no_improve f + 1\<rparr>
      | Some s \<Rightarrow>
          (case af_best f of
             None \<Rightarrow> f\<lparr>af_best := Some s, af_no_improve := 0\<rparr>
           | Some best \<Rightarrow>
               if (if minimize L f then flt s best else flt best s)
               then f\<lparr>af_best := Some s, af_no_improve := 0\<rparr> else f\<lparr>af_no_improve := af_no_improve f + 1\<rparr>))"

definition publish_adaptive_trial_env :: "trial \<Rightarrow> runtime \<Rightarrow> runtime" where
  "publish_adaptive_trial_env t r =
     r\<lparr>rt_env := dset ''score'' (tr_score t) (dict_update (dict_update (rt_env r) (tr_metrics t)) (stat_items (tr_aggregates t)))\<rparr>"

definition store_adaptive_trial :: "eval_lang \<Rightarrow> seq_world \<Rightarrow> adaptive_frame \<Rightarrow> trial \<Rightarrow> runtime \<Rightarrow> runtime" where
  "store_adaptive_trial E W f t r =
     (let name = as_id (af_spec f); (t0, r) = clock W r;
          fresh = \<lparr>sd_kind = source_kind E (af_rendered_controller f), sd_space = af_rendered_space f, sd_trials = [],
                   sd_mode = dget (rt_start_modes r) name ''reset'', sd_updated = t0\<rparr>;
          s = dget (rt_studies r) name fresh; (now, r) = clock W r
      in r\<lparr>rt_studies := dset name (s\<lparr>sd_trials := sd_trials s @ [t], sd_updated := now\<rparr>) (rt_studies r)\<rparr>)"

text \<open>
  A failed trial of a step with \<open>fail_on_trial_error\<close> ends the run at once: the state becomes
  ERROR here, without a terminal unwind.
\<close>

definition finalize_adaptive_trial :: "eval_lang \<Rightarrow> seq_world \<Rightarrow> adaptive_frame \<Rightarrow> proposal \<Rightarrow> trial \<Rightarrow> unit rt" where
  "finalize_adaptive_trial E W f p t0 =
     (let t = t0\<lparr>tr_observe_started := None\<rparr>;
          done = (\<lambda>g. g\<lparr>af_proposal := None, af_trials := af_trials g + 1\<rparr>) in
      rbind (rmodify (\<lambda>r. publish_adaptive_trial_env t (map_adaptive_top (track_score (plain E) t) r))) (\<lambda>_.
      (\<lambda>r. case (if tr_ok t \<or> \<not> as_fail_on_trial_error (af_spec f) then ask (\<lambda>n. sw_tell W n (af_controller f) p t) r else (Inr (), r)) of
         (Inl e, r) \<Rightarrow> (Inl e, map_adaptive_top done r)
       | (Inr _, r) \<Rightarrow>
           let r = map_adaptive_top done (store_adaptive_trial E W f t r) in
           if \<not> tr_ok t \<and> as_fail_on_trial_error (af_spec f)
           then (Inr (), r\<lparr>rt_last_error := Some (let m = jget (case tr_error t of None \<Rightarrow> [] | Some d \<Rightarrow> d) ''message'' in
                              if truthy m then py_str (plain E) m else ''adaptive trial failed''), rt_state := ERROR\<rparr>)
           else (Inr (), r))))"

definition observe_uses_analysis :: "eval_lang \<Rightarrow> items \<Rightarrow> bool" where
  "observe_uses_analysis E observe \<longleftrightarrow>
     (case as_dict (jget observe ''metrics'') of
        None \<Rightarrow> False
      | Some d \<Rightarrow> list_ex (\<lambda>(_, v). case as_dict v of None \<Rightarrow> False | Some s \<Rightarrow> source_kind E s = ''analysis_output'') d)"

definition start_adaptive_observation :: "eval_lang \<Rightarrow> seq_world \<Rightarrow> adaptive_frame \<Rightarrow> proposal \<Rightarrow> unit prt" where
  "start_adaptive_observation E W f p =
     (\<lambda>r. pbind (state_of_trial E W (af_spec f) (blank_trial r p)) (\<lambda>(err, t).
        case err of
          Some msg \<Rightarrow> plift (finalize_adaptive_trial E W f p (failed_trial msg t))
        | None \<Rightarrow>
            (case as_dict (jget (as_observe (af_spec f)) ''metrics'') of
               Some (m # ms) \<Rightarrow>
                 pbind (plift (coerce_positive_int E (dget (as_observe (af_spec f)) ''repeats'' (PInt 1)) ''adaptive.observe.repeats'')) (\<lambda>n.
                 plift (rmodify (\<lambda>r. (uses r)\<lparr>rt_observe := Some
                   \<lparr>ob_proposal = p, ob_trial = t\<lparr>tr_replicates := map (\<lambda>(name, _). (name, [])) (m # ms)\<rparr>, ob_repeats = n,
                    ob_metrics = m # ms, ob_current = 0, ob_next_check = None\<rparr>\<rparr>)))
             | _ \<Rightarrow> plift (finalize_adaptive_trial E W f p
                       (failed_trial ''adaptive.observe.metrics must be a non-empty dict'' t)))) r)"

definition after_adaptive_body :: "eval_lang \<Rightarrow> seq_world \<Rightarrow> unit prt" where
  "after_adaptive_body E W =
     (\<lambda>r. case rt_stack r of
        AdaptiveFrame f # _ \<Rightarrow>
          (case af_proposal f of
             None \<Rightarrow> Some (Inr (), r)
           | Some p \<Rightarrow>
               if observe_uses_analysis E (as_observe (af_spec f)) then start_adaptive_observation E W f p r
               else pbind (collect_adaptive_trial E W (af_spec f) p) (\<lambda>t. plift (finalize_adaptive_trial E W f p t)) r)
      | _ \<Rightarrow> Some (Inr (), r))"


section \<open>Waiting for analysis outputs\<close>

text \<open>The outputs received are searched in order; a stale one that is met is dropped.\<close>

datatype output_match = NoMatch | Stale nat | Match nat items

fun find_output :: "eval_lang \<Rightarrow> string \<Rightarrow> string \<Rightarrow> bool \<Rightarrow> int \<Rightarrow> nat \<Rightarrow> items list \<Rightarrow> output_match" where
  "find_output E ws out current ctx i [] = NoMatch"
| "find_output E ws out current ctx i (p # ps) =
     (let name = (\<lambda>k. py_strip (py_str (plain E) (py_or (dget p k (PStr [])) (PStr [])))); skip = find_output E ws out current ctx (Suc i) ps in
      if name ''workspace_id'' \<noteq> ws \<or> name ''output_id'' \<noteq> out then skip
      else if \<not> current then Match i p
      else if jget p ''context_id'' = PNone then skip
      else case py_int (plain E) (jget p ''context_id'') of
             None \<Rightarrow> skip
           | Some c \<Rightarrow> if c < ctx then Stale i else if c \<noteq> ctx then skip else Match i p)"

definition drop_output :: "nat \<Rightarrow> runtime \<Rightarrow> runtime" where
  "drop_output i r = r\<lparr>rt_outputs := take i (rt_outputs r) @ drop (Suc i) (rt_outputs r)\<rparr>"

definition extract_analysis_output_value :: "eval_lang \<Rightarrow> seq_world \<Rightarrow> items \<Rightarrow> items \<Rightarrow> pyexc + pyval" where
  "extract_analysis_output_value E W payload config =
     (case as_dict (jget config ''extract'') of
        Some ex \<Rightarrow> extract_value E W (jget payload ''value'') (dget ex ''kind'' (PStr ''scalar'')) (jget ex ''ref'')
      | None \<Rightarrow> if dhas payload ''value'' then Inr (jget payload ''value'') else Inr (PDict payload))"

definition try_sample_analysis_output :: "eval_lang \<Rightarrow> seq_world \<Rightarrow> items \<Rightarrow> trial \<Rightarrow> (pyval option \<times> trial) rt" where
  "try_sample_analysis_output E W spec t =
     (let config = py_or (jget spec ''config'') (PDict []) in
      if \<not> is_dict config then rraise (SeqPy (TypeError ''adaptive analysis_output config must be a dict''))
      else
      rbind (render E config) (\<lambda>rendered.
      case as_dict rendered of
        None \<Rightarrow> rraise (SeqPy (TypeError ''adaptive analysis_output config must render to a dict''))
      | Some d \<Rightarrow>
          let name = (\<lambda>k. py_strip (py_str (plain E) (py_or (dget d k (PStr [])) (PStr [])))); ws = name ''workspace_id''; out = name ''output_id'' in
          if ws = [] \<or> out = [] then rraise (SeqPy (ValueError ''adaptive analysis_output source requires workspace_id and output_id''))
          else
          rbind (rpy (to_float E (py_or (dget d ''timeout_s'' (PFloat (Fin 5))) (PFloat (Fin 0))))) (\<lambda>timeout.
          rbind (rget rt_outputs) (\<lambda>outputs.
          case find_output E ws out (truthy (dget d ''require_current_context'' (PBool True))) (tr_context_id t) 0 outputs of
            Stale i \<Rightarrow> rbind (rmodify (drop_output i)) (\<lambda>_. rret (None, t))
          | Match i p \<Rightarrow>
              rbind (rmodify (drop_output i)) (\<lambda>_.
              rbind (rpy (extract_analysis_output_value E W p d)) (\<lambda>v. rret (Some v, t)))
          | NoMatch \<Rightarrow>
              if \<not> flt (Fin 0) timeout then rret (None, t)
              else
              rbind (rrun (clock W)) (\<lambda>t1. rbind (rrun (clock W)) (\<lambda>t2.
              let started = (case tr_observe_started t of Some s \<Rightarrow> s | None \<Rightarrow> t1);
                  t = t\<lparr>tr_observe_started := Some started, tr_error := (case tr_error t of None \<Rightarrow> Some [] | Some e \<Rightarrow> Some e)\<rparr>
              in if fle timeout (fsub t2 started)
                 then rraise (SeqPy (RuntimeError (''adaptive analysis_output timed out for '' @ ws @ ''.'' @ out)))
                 else rret (None, t)))))))"

fun sample_analysis_metrics :: "eval_lang \<Rightarrow> seq_world \<Rightarrow> items \<Rightarrow> items \<Rightarrow> trial \<Rightarrow> (items option \<times> trial) rt" where
  "sample_analysis_metrics E W [] acc t = rret (Some acc, t)"
| "sample_analysis_metrics E W ((name, raw) # ms) acc t =
     (case as_dict raw of
        None \<Rightarrow> rraise (SeqPy (TypeError ''adaptive source specs must be dicts''))
      | Some spec \<Rightarrow>
          if source_kind E spec \<noteq> ''analysis_output'' then sample_analysis_metrics E W ms acc t
          else
          rbind (try_sample_analysis_output E W spec t) (\<lambda>(v, t).
          case v of None \<Rightarrow> rret (None, t) | Some x \<Rightarrow> sample_analysis_metrics E W ms (dset name x acc) t))"

definition put_observe :: "observe_state \<Rightarrow> runtime \<Rightarrow> runtime" where
  "put_observe ob r = r\<lparr>rt_observe := Some ob\<rparr>"

definition collect_adaptive_repeat :: "eval_lang \<Rightarrow> seq_world \<Rightarrow> observe_state \<Rightarrow> pyfloat \<Rightarrow> unit prt" where
  "collect_adaptive_repeat E W ob now =
     pbind (plift (sample_analysis_metrics E W (ob_metrics ob) [] (ob_trial ob))) (\<lambda>(vs, t).
     let ob = ob\<lparr>ob_trial := t\<rparr> in
     case vs of
       None \<Rightarrow> plift (rmodify (put_observe (ob\<lparr>ob_next_check := Some (fadd now (Fin (1 / 50)))\<rparr>)))
     | Some got \<Rightarrow>
         pbind (pmap (\<lambda>(name, source). pbind (sample_adaptive_source E W source) (\<lambda>v. pret (name, v)))
                  (filter (\<lambda>(name, _). \<not> dhas got name) (ob_metrics ob))) (\<lambda>rest.
         plift (rmodify (put_observe (ob\<lparr>ob_next_check := None, ob_current := ob_current ob + 1,
           ob_trial := t\<lparr>tr_replicates := add_replicates (tr_replicates t) (got @ rest)\<rparr>\<rparr>)))))"

definition end_observation :: "eval_lang \<Rightarrow> seq_world \<Rightarrow> adaptive_frame \<Rightarrow> observe_state \<Rightarrow> trial \<Rightarrow> bool prt" where
  "end_observation E W f ob t =
     pbind (plift (rmodify (\<lambda>r. r\<lparr>rt_observe := None\<rparr>))) (\<lambda>_.
     pbind (plift (finalize_adaptive_trial E W f (ob_proposal ob) t)) (\<lambda>_. pret True))"

definition step_adaptive_observation :: "eval_lang \<Rightarrow> seq_world \<Rightarrow> pyfloat \<Rightarrow> bool prt" where
  "step_adaptive_observation E W now =
     (\<lambda>r. case (rt_observe r, rt_stack r) of
        (Some ob, AdaptiveFrame f # _) \<Rightarrow>
          if \<not> tr_ok (ob_trial ob) then end_observation E W f ob (ob_trial ob) r
          else if ob_current ob < ob_repeats ob
          then pbind (ptry (collect_adaptive_repeat E W ob now)) (\<lambda>res.
                 case res of
                   Inr _ \<Rightarrow> pret False
                 | Inl e \<Rightarrow> end_observation E W f ob (failed_trial (seq_exc_text e) (ob_trial ob))) r
          else let (metrics, aggregates) = metrics_of E W (tr_replicates (ob_trial ob)) in
               pbind (plift (score_trial E [] (as_observe (af_spec f)) ((ob_trial ob)\<lparr>tr_metrics := metrics, tr_aggregates := aggregates\<rparr>)))
                 (\<lambda>res. end_observation E W f ob (outcome res)) r
      | _ \<Rightarrow> Some (Inr True, r\<lparr>rt_observe := None\<rparr>))"


section \<open>Studies\<close>

definition trial_matches_space :: "py_lang \<Rightarrow> items \<Rightarrow> trial \<Rightarrow> bool" where
  "trial_matches_space L spc t \<longleftrightarrow>
     list_all (\<lambda>(name, raw).
       case (as_dict raw, map_of (tr_params t) name) of
         (Some spec, Some v) \<Rightarrow>
           if param_type L spec = ''categorical''
           then (case jget spec ''choices'' of PList cs \<Rightarrow> list_ex (\<lambda>c. py_eq c v) cs | _ \<Rightarrow> False)
           else param_type L spec \<in> {''float'', ''int''} \<and>
             (case (scalar_float L v, scalar_float L (jget spec ''min''), scalar_float L (jget spec ''max'')) of
                (Some x, Some lower, Some upper) \<Rightarrow> \<not> (flt x lower \<or> flt upper x \<or> fle upper lower)
              | _ \<Rightarrow> False)
       | _ \<Rightarrow> False) spc"

definition reusable_trials :: "py_lang \<Rightarrow> string \<Rightarrow> string \<Rightarrow> items \<Rightarrow> runtime \<Rightarrow> trial list" where
  "reusable_trials L name kind spc r =
     (case map_of (rt_studies r) name of
        None \<Rightarrow> []
      | Some s \<Rightarrow>
          if sd_kind s \<noteq> kind \<or> set (map fst (sd_space s)) \<noteq> set (map fst spc) then []
          else filter (\<lambda>t. tr_ok t \<and> trial_matches_space L spc t) (sd_trials s))"

text \<open>A replayed trial counts unless the controller refuses it.\<close>

fun replay_trials :: "seq_world \<Rightarrow> nat \<Rightarrow> trial list \<Rightarrow> runtime \<Rightarrow> nat \<times> runtime" where
  "replay_trials W c [] r = (0, r)"
| "replay_trials W c (t # ts) r =
     (if tr_params t = [] then replay_trials W c ts r
      else let p = \<lparr>pr_params_raw = (if tr_params_raw t = [] then tr_params t else tr_params_raw t), pr_params = tr_params t, pr_meta = tr_meta t\<rparr>;
               told = sw_tell W (rt_io r) c p t; (n, r) = replay_trials W c ts (uses r)
           in (case told of Inl _ \<Rightarrow> (n, r) | Inr _ \<Rightarrow> (Suc n, r)))"

definition prepare_adaptive_study :: "eval_lang \<Rightarrow> seq_world \<Rightarrow> adaptive_spec \<Rightarrow> nat \<Rightarrow> items \<Rightarrow> items \<Rightarrow> runtime \<Rightarrow> nat \<times> runtime" where
  "prepare_adaptive_study E W a c controller spc r =
     (let mode = dget (rt_start_modes r) (as_id a) ''reset''; kind = source_kind E controller;
          old = (if mode \<in> {''resume'', ''warm_start''} then reusable_trials (plain E) (as_id a) kind spc r else []);
          (now, r) = clock W r
      in replay_trials W c old (r\<lparr>rt_studies := dset (as_id a)
           \<lparr>sd_kind = kind, sd_space = spc, sd_trials = old, sd_mode = mode, sd_updated = now\<rparr> (rt_studies r)\<rparr>))"

definition clear_adaptive_studies :: "string option \<Rightarrow> runtime \<Rightarrow> nat \<times> runtime" where
  "clear_adaptive_studies name r =
     (case name of
        None \<Rightarrow> (length (rt_studies r), r\<lparr>rt_studies := []\<rparr>)
      | Some n \<Rightarrow> if dhas (rt_studies r) n then (1, r\<lparr>rt_studies := dpop n (rt_studies r)\<rparr>) else (0, r))"

definition record_analysis_output :: "items \<Rightarrow> runtime \<Rightarrow> runtime" where
  "record_analysis_output payload r =
     (let os = rt_outputs r @ [payload] in r\<lparr>rt_outputs := drop (length os - 512) os\<rparr>)"

fun start_modes :: "eval_lang \<Rightarrow> items \<Rightarrow> (string \<times> string) list \<Rightarrow> pyexc + (string \<times> string) list" where
  "start_modes E [] out = Inr out"
| "start_modes E ((k, v) # d) out =
     (let name = py_strip k in
      if name = [] then Inl (TypeError ''sequencer.start adaptive override keys must be non-empty'')
      else case as_dict v of
             None \<Rightarrow> Inl (TypeError (''sequencer.start adaptive override for '' @ repr_str name @ '' must be a dict''))
           | Some x \<Rightarrow>
               let mode = py_lower (py_strip (py_str (plain E) (py_or (dget x ''mode'' (PStr ''reset'')) (PStr ''reset'')))) in
               if mode \<notin> {''reset'', ''resume'', ''warm_start''}
               then Inl (ValueError (''unsupported adaptive start mode '' @ repr_str mode @ '' for '' @ repr_str name))
               else start_modes E d (dset name mode out))"

definition normalize_adaptive_start_modes :: "eval_lang \<Rightarrow> pyval \<Rightarrow> pyexc + (string \<times> string) list" where
  "normalize_adaptive_start_modes E raw =
     (if raw = PNone then Inr []
      else case as_dict raw of
             None \<Rightarrow> Inl (TypeError ''sequencer.start adaptive override must be a dict'') | Some d \<Rightarrow> start_modes E d [])"

end
