(* ===== verification/Sequencer_Runtime.thy ===== *)
theory Sequencer_Runtime
  imports Sequencer_Adaptive
begin

text \<open>
  The interpreter of sequences, \<open>sequencer/runtime.py\<close>: a stack of frames, the choice of the
  next step in a run and in a terminal unwind, one handler per kind of step, the steps that
  stay pending over several ticks, the tick with its budget, and the operations the process
  around it calls. Loops that may not end are partial functions: \<open>None\<close> is a call that does
  not return.
\<close>

section \<open>The next step\<close>

datatype step_result = NextStep step | NoStepReady | NoStep

definition push :: "frame \<Rightarrow> runtime \<Rightarrow> runtime" where
  "push f r = r\<lparr>rt_stack := f # rt_stack r\<rparr>"

definition pop :: "runtime \<Rightarrow> runtime" where
  "pop r = r\<lparr>rt_stack := tl (rt_stack r)\<rparr>"

definition set_top :: "frame \<Rightarrow> runtime \<Rightarrow> runtime" where
  "set_top f r = r\<lparr>rt_stack := f # tl (rt_stack r)\<rparr>"

abbreviation body_frame :: "step list \<Rightarrow> frame" where
  "body_frame steps \<equiv> Frame steps 0 NoExit False"

definition record_index :: "eval_lang \<Rightarrow> items \<Rightarrow> nat \<Rightarrow> int" where
  "record_index E record i =
     (case py_int (plain E) (dget record ''index'' (PInt (int i))) of Some n \<Rightarrow> n | None \<Rightarrow> int i)"

definition bind_record :: "eval_lang \<Rightarrow> (string \<times> string) list \<Rightarrow> items \<Rightarrow> nat \<Rightarrow> unit rt" where
  "bind_record E bind record i =
     rbind (rforeach (\<lambda>(source, name).
       if dhas record source then rmodify (set_env name (jget record source))
       else rraise (SeqPy (KeyError (repr_str (''loop record is missing bound field '' @ repr_str source))))) bind) (\<lambda>_.
     rmodify (set_env ''__loop_index'' (PInt (record_index E record i))))"

definition leave_use :: "string \<Rightarrow> string list \<Rightarrow> string list" where
  "leave_use name us =
     (if us \<noteq> [] \<and> List.last us = name then butlast us else if name \<in> set us then remove1 name us else us)"

definition run_exit :: "eval_lang \<Rightarrow> seq_world \<Rightarrow> frame_exit \<Rightarrow> unit prt" where
  "run_exit E W ex =
     (case ex of
        NoExit \<Rightarrow> pret ()
      | AtomicExit \<Rightarrow> plift (rmodify (\<lambda>r. r\<lparr>rt_atomic_depth := rt_atomic_depth r - 1\<rparr>))
      | UseExit saved name \<Rightarrow> plift (rmodify (\<lambda>r. r\<lparr>rt_vars := saved, rt_use_stack := leave_use name (rt_use_stack r)\<rparr>))
      | AdaptiveExit \<Rightarrow> after_adaptive_body E W)"

text \<open>One round of the loop on the top frame: \<open>Some\<close> is what the loop returns, \<open>None\<close> goes round again.\<close>

definition try_round :: "step list \<Rightarrow> bool \<Rightarrow> runtime \<Rightarrow> runtime" where
  "try_round finally_steps finalizing r =
     (if finalizing then pop r
      else let r = set_top (TryFrame finally_steps True) r in
           if finally_steps \<noteq> [] then push (Frame finally_steps 0 NoExit True) r else r)"

definition take_step :: "step list \<Rightarrow> nat \<Rightarrow> frame_exit \<Rightarrow> bool \<Rightarrow> step_result option rt" where
  "take_step steps i ex u =
     rbind (rmodify (set_top (Frame steps (Suc i) ex u))) (\<lambda>_.
     if st_disabled (steps ! i) then rret None
     else rbind (rmodify (\<lambda>r. r\<lparr>rt_taken := rt_taken r @ [steps ! i]\<rparr>)) (\<lambda>_. rret (Some (NextStep (steps ! i)))))"

definition frame_round :: "eval_lang \<Rightarrow> seq_world \<Rightarrow> step list \<Rightarrow> nat \<Rightarrow> frame_exit \<Rightarrow> bool \<Rightarrow> step_result option prt" where
  "frame_round E W steps i ex u =
     (if i \<ge> length steps
      then
      pbind (plift (rmodify pop)) (\<lambda>_.
      if ex = NoExit then pret None
      else
      pbind (plift (rget rt_atomic_depth)) (\<lambda>depth.
      pbind (run_exit E W ex) (\<lambda>_.
      plift (rget (\<lambda>r.
        if rt_state r \<noteq> RUNNING then Some NoStep
        else if rt_observe r \<noteq> None then Some NoStepReady
        else if depth > 0 \<and> rt_atomic_depth r = 0 then Some NoStepReady
        else None)))))
      else
      plift (take_step steps i ex u))"

definition adaptive_round :: "eval_lang \<Rightarrow> seq_world \<Rightarrow> adaptive_frame \<Rightarrow> step_result option rt" where
  "adaptive_round E W f =
     (if af_proposal f \<noteq> None then rret (Some NoStepReady)
      else
      rbind (adaptive_should_stop E W f) (\<lambda>stop.
      if stop then rbind (rmodify pop) (\<lambda>_. rret None)
      else
      rbind (ask (\<lambda>n. sw_should_stop W n (af_controller f))) (\<lambda>stop.
      if stop then rbind (rmodify pop) (\<lambda>_. rret None)
      else
      rbind (prepare_adaptive_proposal E W f) (\<lambda>p.
      rbind (rmodify (set_top (AdaptiveFrame (f\<lparr>af_proposal := Some p\<rparr>)))) (\<lambda>_.
      rbind (bind_adaptive_proposal (af_spec f) p) (\<lambda>_.
      rbind (rmodify (push (Frame (af_body f) 0 AdaptiveExit False))) (\<lambda>_. rret None)))))))"

definition top_round :: "eval_lang \<Rightarrow> seq_world \<Rightarrow> frame \<Rightarrow> step_result option prt" where
  "top_round E W f =
     (case f of
        Frame steps i ex u \<Rightarrow> frame_round E W steps i ex u
      | ForFrame bind records i body \<Rightarrow>
          if i \<ge> length records then plift (rbind (rmodify pop) (\<lambda>_. rret None))
          else plift (rbind (rmodify (set_top (ForFrame bind records (Suc i) body))) (\<lambda>_.
                      rbind (bind_record E bind (records ! i) i) (\<lambda>_.
                      rbind (rmodify (push (body_frame body))) (\<lambda>_. rret None))))
      | RepeatFrame remaining body total_count \<Rightarrow>
          if remaining \<le> 0 then plift (rbind (rmodify pop) (\<lambda>_. rret None))
          else plift (rbind (rmodify (\<lambda>r. push (body_frame body) (set_top (RepeatFrame (remaining - 1) body total_count) r))) (\<lambda>_. rret None))
      | TryFrame finally_steps finalizing \<Rightarrow> plift (rbind (rmodify (try_round finally_steps finalizing)) (\<lambda>_. rret None))
      | WhileFrame condition body passes \<Rightarrow>
          plift (rbind (eval_condition_rt E W condition ''while'' False) (\<lambda>ok.
            rbind (rmodify (\<lambda>r. if ok then push (body_frame body) (set_top (WhileFrame condition body (Suc passes)) r) else pop r)) (\<lambda>_.
            rret None)))
      | AdaptiveFrame f \<Rightarrow> plift (adaptive_round E W f))"

text \<open>The frames above the lowest \<open>base\<close> ones; those below are left alone.\<close>

partial_function (option) next_step_above ::
  "eval_lang \<Rightarrow> seq_world \<Rightarrow> nat \<Rightarrow> runtime \<Rightarrow> ((seq_exc + step_result) \<times> runtime) option" where
  "next_step_above E W base r =
     (case rt_stack r of
        [] \<Rightarrow> Some (Inr NoStep, r)
      | f # fs \<Rightarrow>
          if length (f # fs) \<le> base then Some (Inr NoStep, r)
          else (case top_round E W f r of
                  None \<Rightarrow> None
                | Some (Inl e, r') \<Rightarrow> Some (Inl e, r')
                | Some (Inr (Some res), r') \<Rightarrow> Some (Inr res, r')
                | Some (Inr None, r') \<Rightarrow> next_step_above E W base r'))"

text \<open>
  The terminal unwind discards frames, except that \<open>finally\<close> bodies run, and so does what
  their own steps push.
\<close>

definition above_unwind_body :: "frame list \<Rightarrow> frame list" where
  "above_unwind_body fs = takeWhile (\<lambda>f. \<not> is_unwind_body f) fs"

definition inside_unwind_body :: "frame list \<Rightarrow> bool" where
  "inside_unwind_body fs \<longleftrightarrow> list_ex is_unwind_body fs \<and> \<not> is_unwind_body (hd fs)"

definition after_unwind_exit :: "runtime \<Rightarrow> runtime" where
  "after_unwind_exit r = (clear_set_context (r\<lparr>rt_sleep_until := None, rt_wait := None\<rparr>))\<lparr>rt_observe := None\<rparr>"

definition leave_frame :: "eval_lang \<Rightarrow> seq_world \<Rightarrow> frame_exit \<Rightarrow> step_result option prt" where
  "leave_frame E W ex =
     pbind (plift (rmodify pop)) (\<lambda>_.
     if ex = NoExit then pret None
     else pbind (run_exit E W ex) (\<lambda>_. plift (rbind (rmodify after_unwind_exit) (\<lambda>_. rret None))))"

definition unwind_round :: "eval_lang \<Rightarrow> seq_world \<Rightarrow> frame \<Rightarrow> step_result option prt" where
  "unwind_round E W f =
     (case f of
        Frame steps i ex u \<Rightarrow>
          if \<not> u \<or> i \<ge> length steps then leave_frame E W ex
          else plift (take_step steps i ex u)
      | TryFrame finally_steps finalizing \<Rightarrow> plift (rbind (rmodify (try_round finally_steps finalizing)) (\<lambda>_. rret None))
      | _ \<Rightarrow> plift (rbind (rmodify pop) (\<lambda>_. rret None)))"

partial_function (option) next_terminal_unwind_step ::
  "eval_lang \<Rightarrow> seq_world \<Rightarrow> runtime \<Rightarrow> ((seq_exc + step_result) \<times> runtime) option" where
  "next_terminal_unwind_step E W r =
     (case rt_stack r of
        [] \<Rightarrow> Some (Inr NoStep, r)
      | f # fs \<Rightarrow>
          if inside_unwind_body (f # fs)
          then (case next_step_above E W (length (f # fs) - length (above_unwind_body (f # fs))) r of
                  None \<Rightarrow> None
                | Some (Inl e, r') \<Rightarrow> Some (Inl e, r')
                | Some (Inr NoStep, r') \<Rightarrow> next_terminal_unwind_step E W r'
                | Some (Inr (NextStep s), r') \<Rightarrow> Some (Inr (NextStep s), r')
                | Some (Inr NoStepReady, r') \<Rightarrow> Some (Inr NoStepReady, r'))
          else (case unwind_round E W f r of
                  None \<Rightarrow> None
                | Some (Inl e, r') \<Rightarrow> Some (Inl e, r')
                | Some (Inr (Some res), r') \<Rightarrow> Some (Inr res, r')
                | Some (Inr None, r') \<Rightarrow> next_terminal_unwind_step E W r'))"

definition next_step :: "eval_lang \<Rightarrow> seq_world \<Rightarrow> runtime \<Rightarrow> ((seq_exc + step_result) \<times> runtime) option" where
  "next_step E W r =
     (if rt_pending_state r \<noteq> None then next_terminal_unwind_step E W r else next_step_above E W 0 r)"

section \<open>Parallel steps\<close>

definition parallel_repeat_count :: "eval_lang \<Rightarrow> pyval \<Rightarrow> items \<Rightarrow> seq_exc + int" where
  "parallel_repeat_count E n_times env =
     (case render_templates E n_times env of
        Inl (EvalRaised e) \<Rightarrow>
          (case e of TypeError _ \<Rightarrow> Inl (SeqPy (ValueError ''parallel repeat.times must render to an integer''))
           | ValueError _ \<Rightarrow> Inl (SeqPy (ValueError ''parallel repeat.times must render to an integer''))
           | _ \<Rightarrow> Inl (SeqPy e))
      | Inl _ \<Rightarrow> Inl (SeqPy (ValueError ''parallel repeat.times must render to an integer''))
      | Inr v \<Rightarrow>
          (case py_int (plain E) v of
             None \<Rightarrow> if v = PFloat PInf \<or> v = PFloat NInf then Inl (SeqPy (OtherError ''cannot convert float infinity to integer''))
                     else Inl (SeqPy (ValueError ''parallel repeat.times must render to an integer''))
           | Some n \<Rightarrow> if n \<le> 0 then Inl (SeqPy (ValueError ''parallel repeat.times must be greater than zero'')) else Inr n))"

definition is_operation :: "step \<Rightarrow> bool" where
  "is_operation s = (case st_kind s of CallStep _ \<Rightarrow> True | SetStep _ _ _ \<Rightarrow> True | _ \<Rightarrow> False)"

definition body_operations :: "string \<Rightarrow> step list \<Rightarrow> seq_exc + branch_operation list" where
  "body_operations kind body =
     res_map (\<lambda>(i, s). if is_operation s then Inr \<lparr>bo_source = Some i, bo_step = s\<rparr>
        else Inl (SeqPy (ValueError (''parallel '' @ kind @ '' branches currently support only call and set steps''))))
       (filter (\<lambda>(i, s). \<not> st_disabled s) (enumerate 0 body))"

definition parallel_branch_operations :: "eval_lang \<Rightarrow> step \<Rightarrow> items \<Rightarrow> seq_exc + branch_operation list" where
  "parallel_branch_operations E s env =
     (case st_kind s of
        CallStep _ \<Rightarrow> Inr [\<lparr>bo_source = None, bo_step = s\<rparr>]
      | SetStep _ _ _ \<Rightarrow> Inr [\<lparr>bo_source = None, bo_step = s\<rparr>]
      | RepeatStep n_times body \<Rightarrow> res_bind (parallel_repeat_count E n_times env) (\<lambda>_. body_operations ''repeat'' body)
      | AtomicStep _ body \<Rightarrow> body_operations ''atomic'' body
      | _ \<Rightarrow> Inl (SeqPy (ValueError ''parallel branches currently support only call, set, atomic, and repeat steps'')))"

definition truthy_name :: "string option \<Rightarrow> bool" where
  "truthy_name n = (case n of Some (c # cs) \<Rightarrow> True | _ \<Rightarrow> False)"

definition truthy_dict :: "items option \<Rightarrow> bool" where
  "truthy_dict d = (case d of Some (x # xs) \<Rightarrow> True | _ \<Rightarrow> False)"

definition parallel_step_output_names :: "step \<Rightarrow> string list" where
  "parallel_step_output_names s =
     (case st_kind s of
        CallStep c \<Rightarrow>
          (if truthy_name (cs_save_as c) then [the (cs_save_as c)] else [])
          @ (if truthy_dict (cs_extract c) then [if truthy_name (cs_save_as c) then the (cs_save_as c) else ''value''] else [])
          @ (case cs_assign c of None \<Rightarrow> [] | Some d \<Rightarrow> map fst d)
      | _ \<Rightarrow> [])"

definition rendered_target :: "eval_lang \<Rightarrow> items \<Rightarrow> string \<Rightarrow> seq_exc + string" where
  "rendered_target E env text =
     (case render_templates E (PStr text) env of
        Inl e \<Rightarrow> Inl (SeqEval e) | Inr v \<Rightarrow> Inr (if truthy v then py_strip (py_str (plain E) v) else []))"

definition branch_target :: "eval_lang \<Rightarrow> items \<Rightarrow> string \<Rightarrow> step \<Rightarrow> seq_exc + (string \<times> string)" where
  "branch_target E env path s =
     (case st_kind s of
        SetStep device _ _ \<Rightarrow>
          res_bind (rendered_target E env device) (\<lambda>d.
          if d = [] then Inl (SeqPy (ValueError (path @ '': set.device rendered empty''))) else Inr (''device'', d))
      | CallStep c \<Rightarrow>
          res_bind (rendered_target E env (cs_device c)) (\<lambda>d.
          res_bind (rendered_target E env (case cs_process c of None \<Rightarrow> [] | Some p \<Rightarrow> p)) (\<lambda>p.
          if d \<noteq> [] \<and> p \<noteq> [] then Inl (SeqPy (ValueError (path @ '': call may set only one of device / process'')))
          else if d = [] \<and> p = [] then Inl (SeqPy (ValueError (path @ '': call target rendered empty'')))
          else Inr (if p \<noteq> [] then (''process'', p) else (''device'', d))))
      | _ \<Rightarrow> Inr ([], []))"

text \<open>Claims of a branch against the earlier ones; of several conflicts the code reports an arbitrary one, here the first.\<close>

fun claim_all :: "('k \<Rightarrow> nat \<Rightarrow> seq_exc) \<Rightarrow> nat \<Rightarrow> 'k list \<Rightarrow> ('k \<times> nat) list \<Rightarrow> seq_exc + ('k \<times> nat) list" where
  "claim_all conflict branch [] owners = Inr owners"
| "claim_all conflict branch (k # ks) owners =
     (case map_of owners k of
        Some owner \<Rightarrow> Inl (conflict k owner)
      | None \<Rightarrow> claim_all conflict branch ks ((k, branch) # owners))"

definition target_conflict :: "nat \<Rightarrow> string \<times> string \<Rightarrow> nat \<Rightarrow> seq_exc" where
  "target_conflict branch k owner = SeqPy (ValueError (''parallel branches '' @ digits_of owner @ '' and '' @ digits_of branch
     @ '' both target '' @ fst k @ '' '' @ repr_str (snd k)))"

definition output_conflict :: "nat \<Rightarrow> string \<Rightarrow> nat \<Rightarrow> seq_exc" where
  "output_conflict branch k owner = SeqPy (ValueError (''parallel branches '' @ digits_of owner @ '' and '' @ digits_of branch
     @ '' both write output '' @ repr_str k))"

fun plan_branches ::
  "eval_lang \<Rightarrow> items \<Rightarrow> string \<Rightarrow> (nat \<times> step) list \<Rightarrow> ((string \<times> string) \<times> nat) list \<Rightarrow> (string \<times> nat) list \<Rightarrow> seq_exc + branch_plan list" where
  "plan_branches E env parent [] targets outputs = Inr []"
| "plan_branches E env parent ((i, s) # rest) targets outputs =
     (if st_disabled s then plan_branches E env parent rest targets outputs
      else
      let path = parent @ ''.parallel.do['' @ digits_of i @ '']'' in
      res_bind (parallel_branch_operations E s env) (\<lambda>ops.
      res_bind (res_map (\<lambda>op. branch_target E env path (bo_step op)) ops) (\<lambda>ts.
      res_bind (claim_all (target_conflict i) i (remdups ts) targets) (\<lambda>targets.
      res_bind (claim_all (output_conflict i) i (remdups (concat (map (\<lambda>op. parallel_step_output_names (bo_step op)) ops))) outputs) (\<lambda>outputs.
      res_bind (case st_kind s of RepeatStep n_times _ \<Rightarrow> res_bind (parallel_repeat_count E n_times env) (\<lambda>n. Inr (Some n)) | _ \<Rightarrow> Inr None) (\<lambda>count_opt.
      res_bind (plan_branches E env parent rest targets outputs) (\<lambda>plans.
      Inr (\<lparr>bp_index = i, bp_operations = ops, bp_env = env, bp_path = path,
            bp_atomic = (case st_kind s of AtomicStep _ _ \<Rightarrow> True | _ \<Rightarrow> False), bp_repeat = count_opt\<rparr> # plans))))))))"

definition execute_parallel_step :: "eval_lang \<Rightarrow> seq_world \<Rightarrow> step list \<Rightarrow> bool rt" where
  "execute_parallel_step E W body =
     (\<lambda>r. if rt_atomic_depth r > 0 then rrun (fail_step E W ''parallel is not allowed inside an atomic block'') r
        else
        (case (sw_begin_parallel W, sw_poll_parallel W) of
           (Some begin_parallel, Some _) \<Rightarrow>
             let detail_path = (case rt_detail r of None \<Rightarrow> PNone | Some d \<Rightarrow> jget d ''path'');
                 parent = (if truthy detail_path then py_str (plain E) detail_path else ''parallel'') in
             (case plan_branches E (env_view r) parent (enumerate 0 body) [] [] of
                Inl e \<Rightarrow> rrun (fail_step E W (seq_exc_text e)) r
              | Inr [] \<Rightarrow> (Inr False, r)
              | Inr plans \<Rightarrow> rbind (ask (\<lambda>n. begin_parallel n plans)) (\<lambda>h.
                   rbind (rmodify (\<lambda>r. r\<lparr>rt_parallel := Some h\<rparr>)) (\<lambda>_. rret True)) r)
         | _ \<Rightarrow> rrun (fail_step E W ''parallel dispatcher is not configured'') r))"

definition branch_failure :: "branch_result \<Rightarrow> string" where
  "branch_failure b =
     ''branch '' @ digits_of (br_index b) @ '' ('' @ (case br_path b of Some (c # cs) \<Rightarrow> c # cs | _ \<Rightarrow> ''parallel'') @ ''): ''
     @ (case br_error b of Some (c # cs) \<Rightarrow> c # cs | _ \<Rightarrow> ''request failed'')"

definition finish_parallel :: "eval_lang \<Rightarrow> seq_world \<Rightarrow> branch_result list \<Rightarrow> runtime \<Rightarrow> runtime" where
  "finish_parallel E W results r =
     (let ordered = sort_key br_index results; failures = filter (\<lambda>b. \<not> br_ok b) ordered; pending = rt_parallel_failure r;
          r = r\<lparr>rt_parallel := None, rt_parallel_failure := None\<rparr> in
      case pending of
        Some msg \<Rightarrow> snd (fail_step E W msg (r\<lparr>rt_pause_requested := False, rt_stop_requested := False\<rparr>))
      | None \<Rightarrow>
          if failures \<noteq> [] then snd (fail_step E W (''parallel failed: '' @ join ''; '' (map branch_failure failures)) r)
          else r\<lparr>rt_env := foldl dict_update (rt_env r) (map br_outputs ordered)\<rparr>)"

definition step_parallel :: "eval_lang \<Rightarrow> seq_world \<Rightarrow> bool rt" where
  "step_parallel E W =
     (\<lambda>r. case (rt_parallel r, sw_poll_parallel W) of
        (Some h, Some poll) \<Rightarrow>
          rbind (ask (\<lambda>n. poll n h)) (\<lambda>(finished, results).
          if \<not> finished then rret False
          else rbind (rmodify (finish_parallel E W results)) (\<lambda>_. rret True)) r
      | _ \<Rightarrow> (Inr True, r))"

text \<open>What a worker of the dispatcher does with one branch: its operations in order, on an environment of its own.\<close>

definition branch_call :: "eval_lang \<Rightarrow> items \<Rightarrow> step \<Rightarrow> seq_exc + (string \<times> string \<times> string \<times> pyval)" where
  "branch_call E env s =
     (case st_kind s of
        SetStep device name raw \<Rightarrow>
          res_bind (rendered_target E env device) (\<lambda>d.
          if d = [] then Inl (SeqPy (ValueError ''set.device rendered empty''))
          else (case render_templates E raw env of
                  Inl e \<Rightarrow> Inl (SeqEval e) | Inr v \<Rightarrow> Inr (''device'', d, ''set'', PDict [(''name'', PStr name), (''value'', v)])))
      | CallStep c \<Rightarrow>
          res_bind (rendered_target E env (cs_device c)) (\<lambda>d.
          res_bind (rendered_target E env (case cs_process c of None \<Rightarrow> [] | Some p \<Rightarrow> p)) (\<lambda>p.
          res_bind (rendered_target E env (cs_action c)) (\<lambda>a.
          if d \<noteq> [] \<and> p \<noteq> [] then Inl (SeqPy (ValueError ''call may set only one of device / process''))
          else if (d = [] \<and> p = []) \<or> a = [] then Inl (SeqPy (ValueError ''call target rendered empty device/process or action''))
          else (case render_templates E (PDict (cs_params c)) env of
                  Inl e \<Rightarrow> Inl (SeqEval e) | Inr v \<Rightarrow> Inr (if p \<noteq> [] then (''process'', p, a, v) else (''device'', d, a, v))))))
      | _ \<Rightarrow> Inl (SeqPy (ValueError ''not an operation'')))"

definition extract_by :: "eval_lang \<Rightarrow> seq_world \<Rightarrow> pyval \<Rightarrow> items \<Rightarrow> seq_exc + pyval" where
  "extract_by E W result spec =
     (case extract_value E W result (dget spec ''kind'' (PStr ''scalar'')) (jget spec ''ref'') of Inl e \<Rightarrow> Inl (SeqPy e) | Inr v \<Rightarrow> Inr v)"

fun assign_outputs :: "eval_lang \<Rightarrow> seq_world \<Rightarrow> pyval \<Rightarrow> items \<Rightarrow> seq_exc + items" where
  "assign_outputs E W result [] = Inr []"
| "assign_outputs E W result ((k, spec) # d) =
     (case as_dict spec of
        None \<Rightarrow> assign_outputs E W result d
      | Some ex \<Rightarrow> res_bind (extract_by E W result ex) (\<lambda>v. res_bind (assign_outputs E W result d) (\<lambda>out. Inr ((k, v) # out))))"

definition branch_outputs :: "eval_lang \<Rightarrow> seq_world \<Rightarrow> step \<Rightarrow> items \<Rightarrow> seq_exc + items" where
  "branch_outputs E W s resp =
     (case st_kind s of
        CallStep c \<Rightarrow>
          if \<not> truthy (dget resp ''ok'' (PBool False))
          then let err = jget resp ''error'';
                   shown = (case as_dict err of None \<Rightarrow> err | Some d \<Rightarrow> py_or (py_or (jget d ''message'') (jget d ''code'')) err)
               in Inl (SeqPy (RuntimeError (if truthy shown then py_str (plain E) shown else ''request failed'')))
          else if truthy_dict (cs_extract c) \<and> truthy_dict (cs_assign c)
          then Inl (SeqPy (ValueError ''extract and assign are mutually exclusive''))
          else
          let saved = (if truthy_name (cs_save_as c) then [(the (cs_save_as c), PDict resp)] else []) in
          res_bind (if truthy_dict (cs_extract c)
                    then res_bind (extract_by E W (jget resp ''result'') (the (cs_extract c))) (\<lambda>v.
                         Inr [(if truthy_name (cs_save_as c) then the (cs_save_as c) else ''value'', v)])
                    else Inr []) (\<lambda>extracted.
          res_bind (if truthy_dict (cs_assign c) then assign_outputs E W (jget resp ''result'') (the (cs_assign c)) else Inr []) (\<lambda>assigned.
          Inr (saved @ extracted @ assigned)))
      | _ \<Rightarrow> Inr [])"

definition operation_path :: "branch_plan \<Rightarrow> nat \<Rightarrow> branch_operation \<Rightarrow> string" where
  "operation_path p i op =
     (let src = (case bo_source op of None \<Rightarrow> ''None'' | Some k \<Rightarrow> digits_of k) in
      case bp_repeat p of
        Some n \<Rightarrow> bp_path p @ ''.repeat.do['' @ src @ ''] (iteration '' @ digits_of (i + 1) @ ''/'' @ str_int n @ '')''
      | None \<Rightarrow> if bp_atomic p then bp_path p @ ''.atomic.do['' @ src @ '']'' else bp_path p)"

text \<open>One operation: the response of the device or process, and the names it sets.\<close>

definition run_operation ::
  "eval_lang \<Rightarrow> seq_world \<Rightarrow> items \<Rightarrow> nat \<Rightarrow> step \<Rightarrow> seq_exc + items" where
  "run_operation E W env n s =
     res_bind (branch_call E env s) (\<lambda>(kind, who, action, params).
     res_bind (if kind = ''process''
               then (case sw_call_process W of
                       None \<Rightarrow> Inl (SeqPy (RuntimeError ''process calls not supported''))
                     | Some f \<Rightarrow> (case f n who action params of Inl e \<Rightarrow> Inl (SeqPy e) | Inr d \<Rightarrow> Inr d))
               else (case sw_call_device W n who action params of Inl e \<Rightarrow> Inl (SeqPy e) | Inr d \<Rightarrow> Inr d)) (\<lambda>resp.
     branch_outputs E W s resp))"

fun run_operations ::
  "eval_lang \<Rightarrow> seq_world \<Rightarrow> branch_plan \<Rightarrow> (nat \<times> branch_operation) list \<Rightarrow> nat \<Rightarrow> items \<Rightarrow> items \<Rightarrow> branch_result" where
  "run_operations E W p [] n env outputs =
     \<lparr>br_index = bp_index p, br_ok = True, br_outputs = outputs, br_error = None, br_path = None\<rparr>"
| "run_operations E W p ((i, op) # ops) n env outputs =
     (case run_operation E W env n (bo_step op) of
        Inl e \<Rightarrow> \<lparr>br_index = bp_index p, br_ok = False, br_outputs = [], br_error = Some (seq_exc_text e), br_path = Some (operation_path p i op)\<rparr>
      | Inr out \<Rightarrow> run_operations E W p ops (Suc n) (dict_update env out) (dict_update outputs out))"

definition run_parallel_branch :: "eval_lang \<Rightarrow> seq_world \<Rightarrow> branch_plan \<Rightarrow> nat \<Rightarrow> branch_result" where
  "run_parallel_branch E W p n =
     run_operations E W p [(i, op). i \<leftarrow> [0..<(case bp_repeat p of Some c \<Rightarrow> nat c | None \<Rightarrow> 1)], op \<leftarrow> bp_operations p] n (bp_env p) []"


section \<open>Waiting\<close>

definition MIN_WAIT_EVERY_S :: pyfloat where
  "MIN_WAIT_EVERY_S = Fin (1 / 200)"

definition wait_float :: "eval_lang \<Rightarrow> items \<Rightarrow> items \<Rightarrow> string \<Rightarrow> pyval \<Rightarrow> seq_exc + pyfloat" where
  "wait_float E env raw name fallback =
     (let v = dget raw name fallback in
      case render_templates E (if v = PNone then fallback else v) env of
        Inl e \<Rightarrow> Inl (SeqEval e)
      | Inr x \<Rightarrow> (case as_float E x (''wait_until.'' @ name @ '' must be a number'') of Inl e \<Rightarrow> Inl (SeqPy e) | Inr f \<Rightarrow> Inr f))"

definition rsum :: "seq_exc + 'a \<Rightarrow> 'a rt" where
  "rsum x = (\<lambda>r. (x, r))"

definition start_wait_until :: "eval_lang \<Rightarrow> seq_world \<Rightarrow> items \<Rightarrow> unit rt" where
  "start_wait_until E W raw =
     (\<lambda>r. let env = env_view r in
        rbind (rsum (wait_float E env raw ''timeout_s'' (PInt 0))) (\<lambda>timeout.
        rbind (rsum (wait_float E env raw ''every_s'' (PFloat (Fin (1 / 10))))) (\<lambda>every_raw.
        rbind (rsum (wait_float E env raw ''stable_for_s'' (PInt 0))) (\<lambda>stable_for.
        rbind (rlift (render_templates E (dget raw ''sample'' (PDict [])) env)) (\<lambda>sample.
        rbind (if is_dict (jget raw ''reduce'') then rlift (render_templates E (jget raw ''reduce'') env) else rret PNone) (\<lambda>reduce.
        let reduce_spec = as_dict reduce;
            raw_max = (case reduce_spec of None \<Rightarrow> PNone | Some d \<Rightarrow> jget d ''max_samples'');
            max_samples = (if raw_max = PNone then 10000
              else case render_templates E raw_max env of
                     Inl _ \<Rightarrow> 10000 | Inr v \<Rightarrow> (case py_int (plain E) v of None \<Rightarrow> 10000 | Some n \<Rightarrow> n))
        in rbind (rrun (clock W)) (\<lambda>now.
           rmodify (\<lambda>r. r\<lparr>rt_wait := Some
             \<lparr>ws_start = now, ws_timeout = timeout, ws_every = fmax every_raw MIN_WAIT_EVERY_S, ws_next_sample = now, ws_stable_for = stable_for,
              ws_condition = jget raw ''condition'', ws_sample_spec = (case as_dict sample of None \<Rightarrow> [] | Some d \<Rightarrow> d),
              ws_reduce = reduce_spec, ws_samples = [], ws_max_samples = max 1 max_samples, ws_stable_since = None,
              ws_last_value = PNone, ws_last_age = None, ws_label = None, ws_max_age = None, ws_call_error = None\<rparr>\<rparr>))))))) r)"

definition wait_timeout_message :: "seq_world \<Rightarrow> wait_state \<Rightarrow> string" where
  "wait_timeout_message W ws =
     join ''; ''
      ([''wait_until timed out after '' @ sw_fmt_g W (ws_timeout ws) @ ''s'',
        ''condition '' @ describe_condition W (ws_condition ws) 200 @ '' was not met'']
       @ (if ws_last_value ws = PNone
          then (case (ws_label ws, ws_last_age ws) of
                  (Some (c # cs), Some age) \<Rightarrow>
                    [''latest telemetry for '' @ (c # cs) @ '' is '' @ sw_fmt_1 W age @ ''s old (max_age_s=''
                     @ sw_fmt_g W (case ws_max_age ws of Some m \<Rightarrow> m | None \<Rightarrow> Fin 0) @ '')'']
                | (Some (c # cs), None) \<Rightarrow>
                    [''no telemetry for '' @ (c # cs) @ '' ('' @
                     (case ws_max_age ws of
                        Some m \<Rightarrow> if m = Fin 0 then ''signal not found'' else ''signal not found or older than max_age_s='' @ sw_fmt_g W m
                      | None \<Rightarrow> ''signal not found'') @ '')'']
                | _ \<Rightarrow> [''no sample was received''])
          else [''last sample '' @ describe_condition W (ws_last_value ws) 80
                @ (case ws_last_age ws of None \<Rightarrow> [] | Some age \<Rightarrow> '' ('' @ sw_fmt_1 W age @ ''s old)'')])
       @ (case ws_call_error ws of Some (c # cs) \<Rightarrow> [''last sample call failed: '' @ (c # cs)] | _ \<Rightarrow> []))"

definition set_wait :: "wait_state \<Rightarrow> runtime \<Rightarrow> runtime" where
  "set_wait ws r = r\<lparr>rt_wait := Some ws\<rparr>"

text \<open>The age and time stamp of a telemetry sample, for the message and to tell a repeated sample.\<close>

definition wait_telemetry :: "eval_lang \<Rightarrow> seq_world \<Rightarrow> wait_state \<Rightarrow> (wait_state \<times> pyfloat option) rt" where
  "wait_telemetry E W ws =
     (case as_dict (jget (ws_sample_spec ws) ''telemetry'') of
        None \<Rightarrow> rret (ws, None)
      | Some spec \<Rightarrow>
          let L = plain E; device = py_str L (dget spec ''device'' (PStr [])); process = py_str L (dget spec ''process'' (PStr []));
              signal = py_str L (dget spec ''signal'' (PStr [])); raw = jget spec ''max_age_s'' in
          if (device = [] \<and> process = []) \<or> signal = [] then rret (ws, None)
          else
          let ws = ws\<lparr>ws_label := Some ((if device = [] then process else device) @ ''.'' @ signal),
                      ws_max_age := (if truthy raw then py_float L raw else None)\<rparr> in
          rbind (dispatch_get_telemetry W device (opt_string process) signal) (\<lambda>cached.
          case cached of
            None \<Rightarrow> rret (ws, None)
          | Some d \<Rightarrow>
              rbind (rrun (telemetry_sample_age_s E W d)) (\<lambda>age.
              let stamp = (case jget d ''t_mono_recv'' of
                    PStr s \<Rightarrow> py_float L (PStr s) | PInt i \<Rightarrow> py_float L (PInt i) | PBool b \<Rightarrow> py_float L (PBool b) | PFloat f \<Rightarrow> Some f
                  | _ \<Rightarrow> scalar_float L (jget d ''t_mono''))
              in rret (ws\<lparr>ws_last_age := age\<rparr>, stamp))))"

definition add_sample :: "pyfloat \<Rightarrow> pyfloat option \<Rightarrow> pyval \<Rightarrow> wait_state \<Rightarrow> wait_state" where
  "add_sample now stamp sample ws =
     (case stamp of
        None \<Rightarrow> ws\<lparr>ws_samples := ws_samples ws @ [(now, sample)]\<rparr>
      | Some ts \<Rightarrow>
          if ws_samples ws \<noteq> [] \<and> feq (fst (List.last (ws_samples ws))) ts then ws
          else ws\<lparr>ws_samples := ws_samples ws @ [(ts, sample)]\<rparr>)"

definition sum_values :: "eval_lang \<Rightarrow> pyval list \<Rightarrow> arith_error + pyval" where
  "sum_values E vs = foldl (\<lambda>acc v. res_bind acc (\<lambda>a. py_add a v)) (Inr (PInt 0)) vs"

definition reduced :: "eval_lang \<Rightarrow> items option \<Rightarrow> pyval \<Rightarrow> wait_state \<Rightarrow> pyexc + pyval" where
  "reduced E spec sample ws =
     (let raise = (\<lambda>op vs e. case e of AOther x \<Rightarrow> x | AZeroDivision \<Rightarrow> OtherError ''division by zero'' | ATypeError \<Rightarrow> TypeError (op_error_text E op vs)) in
      case spec of
        Some (s # ss) \<Rightarrow>
          let vs = filter (\<lambda>v. v \<noteq> PNone) (map snd (ws_samples ws)); method = py_str (plain E) (dget (s # ss) ''method'' (PStr ''mean'')) in
          (case vs of
             [] \<Rightarrow> Inr sample
           | v # rest \<Rightarrow>
               (case (if method = ''mean''
                      then res_bind (sum_values E vs) (\<lambda>t. py_binop E Div t (PInt (int (length vs))))
                      else if method = ''min'' then extreme OLt v rest
                      else if method = ''max'' then extreme OGt v rest else Inr (List.last vs)) of
                  Inl e \<Rightarrow> Inl (raise method vs e) | Inr x \<Rightarrow> Inr x))
      | _ \<Rightarrow> Inr sample)"

definition trim_samples :: "eval_lang \<Rightarrow> pyfloat \<Rightarrow> wait_state \<Rightarrow> pyexc + wait_state" where
  "trim_samples E now ws =
     res_bind (case ws_reduce ws of
         Some (s # ss) \<Rightarrow>
           res_bind (to_float E (dget (s # ss) ''window_s'' (PInt 0))) (\<lambda>window.
           Inr (if window = Fin 0 then ws else ws\<lparr>ws_samples := filter (\<lambda>(t, v). fle (fsub now t) window) (ws_samples ws)\<rparr>))
       | _ \<Rightarrow> Inr ws) (\<lambda>ws.
     Inr (ws\<lparr>ws_samples := drop (length (ws_samples ws) - nat (ws_max_samples ws)) (ws_samples ws)\<rparr>))"

text \<open>The condition has been evaluated: the wait ends, or the next sample is due later.\<close>

definition wait_verdict :: "pyfloat \<Rightarrow> bool \<Rightarrow> runtime \<Rightarrow> bool \<times> runtime" where
  "wait_verdict now ok r =
     (case rt_wait r of
        None \<Rightarrow> (True, r)
      | Some ws \<Rightarrow>
          let later = (\<lambda>ws. (False, set_wait (ws\<lparr>ws_next_sample := fadd now (ws_every ws)\<rparr>) r)) in
          if \<not> ok then later (ws\<lparr>ws_stable_since := None\<rparr>)
          else if ws_stable_for ws = Fin 0 then (True, r\<lparr>rt_wait := None\<rparr>)
          else let since = (case ws_stable_since ws of None \<Rightarrow> now | Some t \<Rightarrow> t) in
               if fle (ws_stable_for ws) (fsub now since) then (True, r\<lparr>rt_wait := None\<rparr>)
               else later (ws\<lparr>ws_stable_since := Some since\<rparr>))"

definition publish_samples :: "pyval \<Rightarrow> pyval \<Rightarrow> wait_state \<Rightarrow> runtime \<Rightarrow> runtime" where
  "publish_samples sample reduce_value ws r =
     set_env ''sample_reduced'' reduce_value (set_env ''samples'' (PList (map snd (ws_samples ws))) (set_env ''sample'' sample (set_wait ws r)))"

definition take_sample :: "eval_lang \<Rightarrow> seq_world \<Rightarrow> pyfloat \<Rightarrow> pyval \<Rightarrow> wait_state \<Rightarrow> bool rt" where
  "take_sample E W now sample ws0 =
     rbind (rmodify (set_wait (ws0\<lparr>ws_call_error := None, ws_last_value := sample, ws_last_age := None\<rparr>))) (\<lambda>_.
     rbind (wait_telemetry E W (ws0\<lparr>ws_call_error := None, ws_last_value := sample, ws_last_age := None\<rparr>)) (\<lambda>(ws, stamp).
     let ws = add_sample now stamp sample ws in
     rbind (rmodify (set_wait ws)) (\<lambda>_.
     rbind (rpy (trim_samples E now ws)) (\<lambda>ws.
     rbind (rmodify (set_wait ws)) (\<lambda>_.
     rbind (rpy (reduced E (ws_reduce ws) sample ws)) (\<lambda>v.
     rbind (rmodify (publish_samples sample v ws)) (\<lambda>_.
     rbind (eval_condition_rt E W (ws_condition ws) ''wait_until'' True) (\<lambda>ok.
     rrun (wait_verdict now ok)))))))))"

definition step_wait_until :: "eval_lang \<Rightarrow> seq_world \<Rightarrow> pyfloat \<Rightarrow> bool rt" where
  "step_wait_until E W now =
     (\<lambda>r. case check_stop_pause W r of
        (True, r) \<Rightarrow> (Inr False, r)
      | (False, r) \<Rightarrow>
          (case rt_wait r of
             None \<Rightarrow> (Inr True, r)
           | Some ws \<Rightarrow>
               if ws_timeout ws \<noteq> Fin 0 \<and> flt (ws_timeout ws) (fsub now (ws_start ws))
               then (Inr True, snd (fail_step E W (wait_timeout_message W ws) (r\<lparr>rt_wait := None\<rparr>)))
               else if flt now (ws_next_sample ws) then (Inr False, r)
               else (case resolve_value E W (env_view r) (PDict (ws_sample_spec ws)) r of
                       (Inl (SeqCallFailed msg err), r) \<Rightarrow>
                         rbind (rpy (permanent err)) (\<lambda>p.
                         if p then rrun (\<lambda>r. (True, snd (fail_step E W (''wait_until sample '' @ msg) (r\<lparr>rt_wait := None\<rparr>))))
                         else rrun (\<lambda>r. (False, set_wait (ws\<lparr>ws_call_error := Some msg, ws_next_sample := fadd now (ws_every ws)\<rparr>) r))) r
                     | (Inl e, r) \<Rightarrow> (Inl e, r)
                     | (Inr sample, r) \<Rightarrow> take_sample E W now sample ws r)))"

section \<open>Step handlers\<close>

text \<open>A handler answers whether the tick ends here: the step is pending, paused or failed.\<close>

definition update_detail :: "items \<Rightarrow> runtime \<Rightarrow> runtime" where
  "update_detail d r = r\<lparr>rt_detail := Some (dict_update (case rt_detail r of None \<Rightarrow> [] | Some x \<Rightarrow> x) d)\<rparr>"

definition execute_pause_step :: "eval_lang \<Rightarrow> seq_world \<Rightarrow> string option \<Rightarrow> bool rt" where
  "execute_pause_step E W reason =
     rbind (case reason of Some (c # cs) \<Rightarrow> render E (PStr (c # cs)) | _ \<Rightarrow> rret PNone) (\<lambda>why.
     rrun (\<lambda>r. let r = r\<lparr>rt_pause_requested := True\<rparr>; (now, r) = clock W r in
        (True, enter_pause W (pause_info_of (plain E) why (PStr ''sequence'') PNone) ((mark_pause_started now r)\<lparr>rt_state := PAUSED\<rparr>))))"

definition execute_sleep_step :: "eval_lang \<Rightarrow> seq_world \<Rightarrow> pyval \<Rightarrow> bool rt" where
  "execute_sleep_step E W seconds =
     rbind (render E seconds) (\<lambda>v.
     rbind (rpy (as_float E v ''sleep: expected seconds as a number'')) (\<lambda>s.
     rbind (rrun (clock W)) (\<lambda>now.
     rbind (rmodify (\<lambda>r. r\<lparr>rt_sleep_until := Some (fadd now s)\<rparr>)) (\<lambda>_. rret True))))"

definition records_from_iterable :: "pyval list \<Rightarrow> items list" where
  "records_from_iterable xs =
     map (\<lambda>(i, x).
       case as_dict x of
         Some d \<Rightarrow>
           let d = (if dhas d ''index'' then d else dset ''index'' (PInt (int i)) d);
               d = (if dhas d ''count'' then d else dset ''count'' (PInt (int (length xs))) d)
           in if dhas d ''u'' then d else dset ''u'' (position_u i (length xs)) d
       | None \<Rightarrow> [(''value'', x), (''index'', PInt (int i)), (''u'', position_u i (length xs)), (''count'', PInt (int (length xs)))])
       (enumerate 0 xs)"

definition records_from_rendered :: "eval_lang \<Rightarrow> seq_world \<Rightarrow> pyval \<Rightarrow> items \<Rightarrow> int option \<Rightarrow> eval_error + items list" where
  "records_from_rendered E W rendered env serpentine_index =
     (case (case as_dict rendered of None \<Rightarrow> None | Some d \<Rightarrow> as_dict (jget d ''gen'')) of
        Some gen \<Rightarrow> generate_from_gen E (sw_np W) gen env serpentine_index
      | None \<Rightarrow> (case rendered of PList xs \<Rightarrow> Inr (records_from_iterable xs) | _ \<Rightarrow> Inr (records_from_iterable [rendered])))"

definition serpentine_index :: "eval_lang \<Rightarrow> items \<Rightarrow> pyexc + int option" where
  "serpentine_index E env =
     (let raw = jget env ''__loop_index'' in if raw = PNone then Inr None else res_bind (to_int E raw) (\<lambda>n. Inr (Some n)))"

definition execute_for_step :: "eval_lang \<Rightarrow> seq_world \<Rightarrow> (string \<times> string) list \<Rightarrow> pyval \<Rightarrow> step list \<Rightarrow> bool rt" where
  "execute_for_step E W bind in_value body =
     (\<lambda>r. let env = env_view r in
        rbind (render E in_value) (\<lambda>rendered.
        rbind (rpy (serpentine_index E (rt_env r))) (\<lambda>idx.
        rbind (rlift (records_from_rendered E W rendered env idx)) (\<lambda>records.
        rbind (rmodify (push (ForFrame bind records 0 body))) (\<lambda>_. rret False)))) r)"

definition execute_repeat_step :: "eval_lang \<Rightarrow> pyval \<Rightarrow> step list \<Rightarrow> bool rt" where
  "execute_repeat_step E n_times body =
     rbind (render E n_times) (\<lambda>v.
     rbind (rpy (as_int E v ''repeat.times must be an integer'')) (\<lambda>n.
     rbind (rmodify (push (RepeatFrame n body (max 0 n)))) (\<lambda>_. rret False)))"

definition execute_if_step :: "eval_lang \<Rightarrow> seq_world \<Rightarrow> pyval \<Rightarrow> step list \<Rightarrow> step list option \<Rightarrow> bool rt" where
  "execute_if_step E W condition then_steps else_steps =
     rbind (eval_condition_rt E W condition ''if'' False) (\<lambda>ok.
     rbind (rmodify (push (body_frame (if ok then then_steps else case else_steps of None \<Rightarrow> [] | Some b \<Rightarrow> b)))) (\<lambda>_. rret False))"

definition execute_atomic_step :: "step list \<Rightarrow> bool rt" where
  "execute_atomic_step body =
     rbind (rmodify (\<lambda>r. push (Frame body 0 AtomicExit False) (r\<lparr>rt_atomic_depth := rt_atomic_depth r + 1\<rparr>))) (\<lambda>_. rret False)"

definition execute_try_step :: "step list \<Rightarrow> step list \<Rightarrow> bool rt" where
  "execute_try_step body finally_steps =
     rbind (rmodify (\<lambda>r. push (body_frame body) (push (TryFrame finally_steps False) r))) (\<lambda>_. rret False)"

definition execute_assign_step :: "eval_lang \<Rightarrow> seq_world \<Rightarrow> items \<Rightarrow> bool rt" where
  "execute_assign_step E W values =
     rbind (rforeach (\<lambda>(k, v). (\<lambda>r. rbind (resolve_value E W (env_view r) v) (\<lambda>x. rmodify (set_env k x)) r)) values) (\<lambda>_. rret False)"

definition split_once :: "char \<Rightarrow> string \<Rightarrow> string \<times> string" where
  "split_once c s = (takeWhile (\<lambda>x. x \<noteq> c) s, tl (dropWhile (\<lambda>x. x \<noteq> c) s))"

definition normalize_stream :: "py_lang \<Rightarrow> pyval \<Rightarrow> (string \<times> string) list" where
  "normalize_stream L item =
     (case as_dict item of
        Some d \<Rightarrow>
          let device = py_str L (dget d ''device'' (PStr [])); stream = py_str L (dget d ''stream'' (PStr [])) in
          if device \<noteq> [] \<and> stream \<noteq> [] then [(device, stream)] else []
      | None \<Rightarrow>
          (case item of
             PStr s \<Rightarrow> if CHR ''.'' \<in> set s then [split_once (CHR ''.'') s] else if CHR ''/'' \<in> set s then [split_once (CHR ''/'') s] else []
           | _ \<Rightarrow> []))"

definition normalize_streams :: "py_lang \<Rightarrow> pyval \<Rightarrow> (string \<times> string) list" where
  "normalize_streams L streams = (case streams of PList xs \<Rightarrow> concat (map (normalize_stream L) xs) | _ \<Rightarrow> [])"

text \<open>\<open>try: ... except Exception as e: fail\<close> around uses of the world.\<close>

definition rcatch :: "'a rt \<Rightarrow> (seq_exc \<Rightarrow> 'a rt) \<Rightarrow> 'a rt" where
  "rcatch m h = (\<lambda>r. case m r of (Inl e, r') \<Rightarrow> h e r' | (Inr x, r') \<Rightarrow> (Inr x, r'))"

definition set_context_sync :: "eval_lang \<Rightarrow> seq_world \<Rightarrow> (string \<times> string) list \<Rightarrow> int \<Rightarrow> items \<Rightarrow> bool rt" where
  "set_context_sync E W streams ctx flds =
     rcatch
       (rbind (case sw_expect_streams W of
                 Some f \<Rightarrow> if streams \<noteq> [] then ask (\<lambda>n. f n streams ctx) else rret () | None \<Rightarrow> rret ()) (\<lambda>_.
        rbind (rforeach (\<lambda>(device, stream). ask (\<lambda>n. sw_set_stream W n device stream ctx flds)) streams) (\<lambda>_. rret False)))
       (\<lambda>e. rrun (fail_step E W (''set_context failed: '' @ seq_exc_text e)))"

definition execute_set_context_step :: "eval_lang \<Rightarrow> seq_world \<Rightarrow> pyval \<Rightarrow> items \<Rightarrow> bool rt" where
  "execute_set_context_step E W streams_raw raw =
     rbind (rmodify (\<lambda>r. r\<lparr>rt_context_id := rt_context_id r + 1\<rparr>)) (\<lambda>_.
     rbind (render E (PDict raw)) (\<lambda>rendered.
     rbind (rget (\<lambda>r. (rt_context_id r, rt_run_id r))) (\<lambda>(ctx, run_id).
     let flds = dset SEQUENCER_RUN_ID_FIELD (PInt run_id) (case as_dict rendered of None \<Rightarrow> [] | Some d \<Rightarrow> d);
         streams = normalize_streams (plain E) streams_raw in
     case (sw_begin_context W, sw_poll_context W) of
       (Some begin_context, Some _) \<Rightarrow>
         rbind (ask (\<lambda>n. begin_context n streams ctx flds)) (\<lambda>h.
         rbind (rmodify (\<lambda>r. r\<lparr>rt_set_context := Some h\<rparr>)) (\<lambda>_. rret True))
     | _ \<Rightarrow> set_context_sync E W streams ctx flds)))"

definition step_set_context :: "eval_lang \<Rightarrow> seq_world \<Rightarrow> pyfloat \<Rightarrow> bool rt" where
  "step_set_context E W now =
     (\<lambda>r. case check_stop_pause W r of
        (True, r) \<Rightarrow> (Inr False, r)
      | (False, r) \<Rightarrow>
          (case (rt_set_context r, sw_poll_context W) of
             (None, _) \<Rightarrow> (Inr True, r)
           | (Some _, None) \<Rightarrow> (Inr True, clear_set_context r)
           | (Some h, Some poll) \<Rightarrow>
               rbind (ask (\<lambda>n. poll n h now)) (\<lambda>(finished, err).
               if \<not> finished then rret False
               else rbind (rmodify (\<lambda>r. let r = clear_set_context r in
                      case err of None \<Rightarrow> r | Some msg \<Rightarrow> snd (fail_step E W (''set_context failed: '' @ msg) r))) (\<lambda>_. rret True)) r))"

definition resolve_use_spec :: "seq_world \<Rightarrow> string \<Rightarrow> pyexc + sequence_spec" where
  "resolve_use_spec W name =
     (let n = py_strip name in
      if n = [] then Inl (ValueError ''use.id must not be empty'')
      else case sw_resolve_use W of
             None \<Rightarrow> Inl (RuntimeError (''use step '' @ repr_str n @ '' requires a configured sequence library''))
           | Some f \<Rightarrow> f n)"

definition merged_use_vars :: "eval_lang \<Rightarrow> sequence_spec \<Rightarrow> items option \<Rightarrow> items rt" where
  "merged_use_vars E spec args =
     (\<lambda>r. let merged = dict_update (rt_vars r) (sq_vars spec) in
        case args of
          Some (a # as) \<Rightarrow>
            rbind (render E (PDict (a # as))) (\<lambda>v.
            case as_dict v of
              None \<Rightarrow> rraise (SeqPy (TypeError ''use.args must render to a dict''))
            | Some d \<Rightarrow> rret (resolve_vars E (dict_update merged d))) r
        | _ \<Rightarrow> (Inr (resolve_vars E merged), r))"

definition execute_use_step :: "eval_lang \<Rightarrow> seq_world \<Rightarrow> string \<Rightarrow> items option \<Rightarrow> bool rt" where
  "execute_use_step E W raw_name args =
     (let name = py_strip raw_name in
      rbind (rget rt_use_stack) (\<lambda>us.
      if name \<in> set us then rraise (SeqPy (RuntimeError (''recursive use sequence detected: '' @ join '' -> '' (us @ [name]))))
      else
      rbind (rpy (resolve_use_spec W raw_name)) (\<lambda>spec.
      rbind (merged_use_vars E spec args) (\<lambda>vars.
      rbind (rmodify (\<lambda>r. push (Frame (sq_steps spec) 0 (UseExit (rt_vars r) name) False)
                           (r\<lparr>rt_use_stack := rt_use_stack r @ [name], rt_vars := vars\<rparr>))) (\<lambda>_. rret False)))))"

definition execute_adaptive_step :: "eval_lang \<Rightarrow> seq_world \<Rightarrow> adaptive_spec \<Rightarrow> step list \<Rightarrow> bool rt" where
  "execute_adaptive_step E W a body =
     (case as_constraints a of
        Some (c # cs) \<Rightarrow> rrun (fail_step E W ''adaptive.constraints are not supported in v1'')
      | _ \<Rightarrow>
          rbind (render E (PDict (as_controller a))) (\<lambda>cv.
          case as_dict cv of
            None \<Rightarrow> rrun (fail_step E W ''adaptive.controller must render to a dict'')
          | Some controller \<Rightarrow>
              rbind (render E (PDict (as_space a))) (\<lambda>sv.
              case as_dict sv of
                None \<Rightarrow> rrun (fail_step E W ''adaptive.space must render to a dict'')
              | Some spc \<Rightarrow>
                  rbind (coerce_positive_int E (dget (as_observe a) ''repeats'' (PInt 1)) ''adaptive.observe.repeats'') (\<lambda>n.
                  rbind (ask (\<lambda>i. sw_controller W i controller spc n)) (\<lambda>c.
                  rbind (rrun (prepare_adaptive_study E W a c controller spc)) (\<lambda>replayed.
                  rbind (rrun (clock W)) (\<lambda>now.
                  rbind (rmodify (push (AdaptiveFrame
                    \<lparr>af_spec = a, af_body = body, af_controller = c, af_rendered_controller = controller, af_rendered_space = spc,
                     af_started = now, af_proposal = None, af_trials = replayed, af_best = None, af_no_improve = 0\<rparr>))) (\<lambda>_. rret False))))))))"

definition execute_set_step :: "eval_lang \<Rightarrow> seq_world \<Rightarrow> string \<Rightarrow> string \<Rightarrow> pyval \<Rightarrow> bool rt" where
  "execute_set_step E W raw_device name raw =
     rbind (rendered_name E (PStr raw_device)) (\<lambda>device.
     rbind (rmodify (update_detail [(''device'', PStr device), (''name'', PStr name)])) (\<lambda>_.
     if device = [] then rrun (fail_step E W ''set.device rendered empty'')
     else
     rbind (render E raw) (\<lambda>v.
     rbind (ask (\<lambda>n. sw_call_device W n device ''set'' (PDict [(''name'', PStr name), (''value'', v)]))) (\<lambda>resp.
     if \<not> truthy (dget resp ''ok'' (PBool False)) then rrun (fail_step E W (response_error_text (plain E) resp None))
     else rret False))))"

definition store_extracted :: "eval_lang \<Rightarrow> seq_world \<Rightarrow> pyval \<Rightarrow> string \<Rightarrow> items \<Rightarrow> string \<Rightarrow> unit rt" where
  "store_extracted E W result name spec label =
     rbind (rpy (extract_from_result E W result spec label)) (\<lambda>v. rmodify (set_env name v))"

definition execute_call_step :: "eval_lang \<Rightarrow> seq_world \<Rightarrow> call_step \<Rightarrow> bool rt" where
  "execute_call_step E W c =
     rbind (render_call_target E [(''device'', PStr (cs_device c)), (''process'', PStr (case cs_process c of None \<Rightarrow> [] | Some p \<Rightarrow> p)),
              (''action'', PStr (cs_action c))]) (\<lambda>(device, process, action).
     rbind (rmodify (update_detail [(''target_kind'', PStr (if process = None then ''device'' else ''process'')), (''device'', opt_text (opt_string device)),
              (''process'', opt_text process), (''action'', PStr action)])) (\<lambda>_.
     rbind (render E (PDict (cs_params c))) (\<lambda>params.
     rbind (dispatch_call W device process action params) (\<lambda>resp.
     if \<not> truthy (dget resp ''ok'' (PBool False))
     then rrun (fail_step E W (response_error_text (plain E) resp (Some (case process of Some p \<Rightarrow> p | None \<Rightarrow> device))))
     else
     rbind (rmodify (if truthy_name (cs_save_as c) then set_env (the (cs_save_as c)) (PDict resp) else (\<lambda>r. r))) (\<lambda>_.
     if truthy_dict (cs_extract c) \<and> truthy_dict (cs_assign c) then rrun (fail_step E W ''extract and assign are mutually exclusive'')
     else
     rbind (if truthy_dict (cs_extract c)
            then let name = (if truthy_name (cs_save_as c) then the (cs_save_as c) else ''value'') in
                 store_extracted E W (jget resp ''result'') name (the (cs_extract c)) (''extract '' @ name)
            else rret ()) (\<lambda>_.
     rbind (rforeach (\<lambda>(k, spec). case as_dict spec of
                None \<Rightarrow> rret () | Some d \<Rightarrow> store_extracted E W (jget resp ''result'') k d (''assign '' @ k))
              (case cs_assign c of None \<Rightarrow> [] | Some d \<Rightarrow> d)) (\<lambda>_. rret False)))))))"

definition run_handler :: "eval_lang \<Rightarrow> seq_world \<Rightarrow> kind \<Rightarrow> bool rt" where
  "run_handler E W k =
     (case k of
        CallStep c \<Rightarrow> execute_call_step E W c
      | SetStep device name v \<Rightarrow> execute_set_step E W device name v
      | SleepStep seconds \<Rightarrow> execute_sleep_step E W seconds
      | WaitUntilStep raw \<Rightarrow> rbind (start_wait_until E W raw) (\<lambda>_. rret True)
      | ForStep bind in_value body \<Rightarrow> execute_for_step E W bind in_value body
      | RepeatStep n_times body \<Rightarrow> execute_repeat_step E n_times body
      | IfStep c t e \<Rightarrow> execute_if_step E W c t e
      | WhileStep c body \<Rightarrow> rbind (rmodify (push (WhileFrame c body 0))) (\<lambda>_. rret False)
      | AtomicStep _ body \<Rightarrow> execute_atomic_step body
      | PauseStep reason \<Rightarrow> execute_pause_step E W reason
      | ParallelStep body \<Rightarrow> execute_parallel_step E W body
      | TryStep body finally_steps \<Rightarrow> execute_try_step body finally_steps
      | AssignStep values \<Rightarrow> execute_assign_step E W values
      | SetContextStep streams flds \<Rightarrow> execute_set_context_step E W streams flds
      | UseStep name args \<Rightarrow> execute_use_step E W name args
      | AdaptiveStep a body \<Rightarrow> execute_adaptive_step E W a body)"

definition execute_step :: "eval_lang \<Rightarrow> seq_world \<Rightarrow> step \<Rightarrow> bool rt" where
  "execute_step E W s =
     rbind (rmodify (\<lambda>r. r\<lparr>rt_detail := Some (sw_detail W s)\<rparr>)) (\<lambda>_. run_handler E W (st_kind s))"

section \<open>The tick\<close>

definition TICK_MAX_STEPS :: nat where
  "TICK_MAX_STEPS = 200"

definition TICK_BUDGET_S :: pyfloat where
  "TICK_BUDGET_S = Fin (1 / 100)"

definition should_continue_run_loops :: "runtime \<Rightarrow> bool" where
  "should_continue_run_loops r \<longleftrightarrow> rt_state r = RUNNING \<and>
     (rt_continuous r \<or> (case rt_loops_target r of Some n \<Rightarrow> rt_loops_completed r < n | None \<Rightarrow> False))"

definition prepare_next_run_loop :: "seq_world \<Rightarrow> runtime \<Rightarrow> runtime" where
  "prepare_next_run_loop W r =
     (case rt_spec r of
        None \<Rightarrow> (let (now, r) = clock W r in r\<lparr>rt_state := STOPPED, rt_ended := Some now\<rparr>)
      | Some spec \<Rightarrow>
          uses ((clear_pending (r\<lparr>rt_stack := [body_frame (sq_steps spec)], rt_env := []\<rparr>))
            \<lparr>rt_pending_state := None, rt_pending_error := None, rt_cleanup_failed := False, rt_cleanup_errors := [],
             rt_atomic_depth := 0, rt_detail := None, rt_use_stack := []\<rparr>))"

definition nothing_pending :: "runtime \<Rightarrow> bool" where
  "nothing_pending r \<longleftrightarrow> rt_sleep_until r = None \<and> rt_wait r = None \<and> rt_set_context r = None \<and> rt_parallel r = None"

definition finish_now :: "seq_world \<Rightarrow> runtime \<Rightarrow> runtime" where
  "finish_now W r = (let (now, r) = clock W r in finish_active_step now r)"

text \<open>The end of a pass over the sequence: the next one begins, or the run is over.\<close>

definition end_of_steps :: "seq_world \<Rightarrow> runtime \<Rightarrow> bool \<times> runtime" where
  "end_of_steps W r =
     (if rt_pending_state r \<noteq> None then (False, finish_pending_terminal W r)
      else if rt_state r \<noteq> RUNNING then (False, r)
      else let r = r\<lparr>rt_loops_completed := rt_loops_completed r + 1\<rparr> in
           if should_continue_run_loops r then (True, prepare_next_run_loop W r)
           else let (now, r) = clock W (r\<lparr>rt_state := STOPPED\<rparr>) in (False, r\<lparr>rt_ended := Some now\<rparr>))"

definition run_step :: "eval_lang \<Rightarrow> seq_world \<Rightarrow> step \<Rightarrow> bool rt" where
  "run_step E W s =
     rbind (rmodify (begin_active_step W s)) (\<lambda>_.
     rbind (execute_step E W s) (\<lambda>ends.
     rbind (rmodify (\<lambda>r. if \<not> ends \<or> nothing_pending r then finish_now W r else r)) (\<lambda>_. rret ends)))"

definition over_budget :: "seq_world \<Rightarrow> pyfloat \<Rightarrow> nat \<Rightarrow> runtime \<Rightarrow> bool \<times> runtime" where
  "over_budget W deadline n r =
     (if \<not> interruptible r then (False, r)
      else if n \<ge> TICK_MAX_STEPS then (True, r)
      else let (now, r) = clock W r in (fle deadline now, r))"

text \<open>One round of the loop: it returns, or goes on with the number of steps executed so far.\<close>

datatype round_end = TickReturns bool | TickGoesOn nat

definition step_round :: "eval_lang \<Rightarrow> seq_world \<Rightarrow> pyfloat \<Rightarrow> nat \<Rightarrow> step \<Rightarrow> round_end rt" where
  "step_round E W deadline n s =
     rbind (run_step E W s) (\<lambda>ends.
     if ends then rret (TickReturns False)
     else rbind (rrun (over_budget W deadline (Suc n))) (\<lambda>over.
          rret (if over then TickReturns True else TickGoesOn (Suc n))))"

definition tick_round :: "eval_lang \<Rightarrow> seq_world \<Rightarrow> pyfloat \<Rightarrow> nat \<Rightarrow> round_end prt" where
  "tick_round E W deadline n =
     (\<lambda>r. if rt_state r \<noteq> RUNNING then Some (Inr (TickReturns False), r)
        else case check_stop_pause W r of
          (True, r) \<Rightarrow> Some (Inr (TickReturns False), r)
        | (False, r) \<Rightarrow>
            pbind (next_step E W) (\<lambda>res.
              case res of
                NoStepReady \<Rightarrow> pret (TickReturns False)
              | NoStep \<Rightarrow> plift (rbind (rrun (end_of_steps W)) (\<lambda>again. rret (if again then TickGoesOn n else TickReturns False)))
              | NextStep s \<Rightarrow> plift (step_round E W deadline n s)) r)"

partial_function (option) tick_loop ::
  "eval_lang \<Rightarrow> seq_world \<Rightarrow> pyfloat \<Rightarrow> nat \<Rightarrow> runtime \<Rightarrow> ((seq_exc + bool) \<times> runtime) option" where
  "tick_loop E W deadline n r =
     (case tick_round E W deadline n r of
        None \<Rightarrow> None
      | Some (Inl e, r') \<Rightarrow> Some (Inl e, r')
      | Some (Inr (TickReturns b), r') \<Rightarrow> Some (Inr b, r')
      | Some (Inr (TickGoesOn m), r') \<Rightarrow> tick_loop E W deadline m r')"

text \<open>Something pending from an earlier tick: \<open>False\<close> means it is still pending.\<close>

definition when_pending :: "(runtime \<Rightarrow> bool) \<Rightarrow> seq_world \<Rightarrow> bool prt \<Rightarrow> bool prt" where
  "when_pending pending W m =
     (\<lambda>r. if pending r
        then pbind m (\<lambda>finished. if finished then plift (rbind (rmodify (finish_now W)) (\<lambda>_. rret True)) else pret False) r
        else Some (Inr True, r))"

definition wake_sleep :: "pyfloat \<Rightarrow> bool rt" where
  "wake_sleep now =
     (\<lambda>r. case rt_sleep_until r of
        None \<Rightarrow> (Inr True, r)
      | Some t \<Rightarrow> if flt now t then (Inr False, r) else (Inr True, finish_active_step now (r\<lparr>rt_sleep_until := None\<rparr>)))"

definition resume_pending :: "eval_lang \<Rightarrow> seq_world \<Rightarrow> pyfloat \<Rightarrow> bool prt" where
  "resume_pending E W now =
     pbind (plift (wake_sleep now)) (\<lambda>go. if \<not> go then pret False else
     pbind (when_pending (\<lambda>r. rt_wait r \<noteq> None) W (plift (step_wait_until E W now))) (\<lambda>go. if \<not> go then pret False else
     pbind (when_pending (\<lambda>r. rt_set_context r \<noteq> None) W (plift (step_set_context E W now))) (\<lambda>go. if \<not> go then pret False else
     pbind (when_pending (\<lambda>r. rt_parallel r \<noteq> None) W (plift (step_parallel E W))) (\<lambda>go. if \<not> go then pret False else
     (\<lambda>r. if rt_observe r \<noteq> None then step_adaptive_observation E W now r else Some (Inr True, r))))))"

definition tick_try :: "eval_lang \<Rightarrow> seq_world \<Rightarrow> bool prt" where
  "tick_try E W =
     (\<lambda>r. if rt_pending_state r \<noteq> None \<and> rt_stack r = [] then Some (Inr False, finish_pending_terminal W r)
        else case check_stop_pause W r of
          (True, r) \<Rightarrow> Some (Inr False, r)
        | (False, r) \<Rightarrow>
            pbind (plift (rrun (clock W))) (\<lambda>now.
            pbind (resume_pending E W now) (\<lambda>go.
            if \<not> go then pret False
            else pbind (plift (rrun (clock W))) (\<lambda>t. tick_loop E W (fadd t TICK_BUDGET_S) 0))) r)"

definition tick_failed :: "eval_lang \<Rightarrow> seq_world \<Rightarrow> string \<Rightarrow> runtime \<Rightarrow> runtime" where
  "tick_failed E W msg r =
     (case handle_runtime_exception E W msg r of
        (True, r) \<Rightarrow> r
      | (False, r) \<Rightarrow>
          let r = (if rt_error_detail r = None then r\<lparr>rt_error_detail := Some (make_error_detail (plain E) msg r)\<rparr> else r);
              (now, r) = clock W r; r = (abandon_active_step now r)\<lparr>rt_last_error := Some msg, rt_state := ERROR\<rparr>;
              (now, r) = clock W r
          in r\<lparr>rt_ended := Some now\<rparr>)"

definition tick :: "eval_lang \<Rightarrow> seq_world \<Rightarrow> runtime \<Rightarrow> (bool \<times> runtime) option" where
  "tick E W r =
     (if rt_state r \<noteq> RUNNING then Some (False, r)
      else case tick_try E W r of
             None \<Rightarrow> None
           | Some (Inr b, r) \<Rightarrow> Some (b, r)
           | Some (Inl e, r) \<Rightarrow> Some (False, tick_failed E W (seq_exc_text e) r))"


section \<open>Control\<close>

definition runtime_init :: runtime where
  "runtime_init =
     \<lparr>rt_spec = None, rt_vars = [], rt_base_vars = [], rt_env = [], rt_stack = [], rt_state = IDLE, rt_pause_requested = False,
      rt_stop_requested = False, rt_last_error = None, rt_pending_state = None, rt_pending_error = None, rt_cleanup_failed = False,
      rt_cleanup_errors = [], rt_events = run_log_init 200, rt_pause_info = None, rt_pause_request = None, rt_sleep_until = None,
      rt_wait = None, rt_set_context = None, rt_observe = None, rt_parallel = None, rt_parallel_failure = None, rt_atomic_depth = 0,
      rt_detail = None, rt_error_detail = None, rt_context_id = - 1, rt_outputs = [], rt_completed = 0, rt_active = None,
      rt_last_finished = Fin 0, rt_started = None, rt_ended = None, rt_paused_total = Fin 0, rt_paused_since = None, rt_studies = [],
      rt_start_modes = [], rt_run_id = 0, rt_next_run_id = 1, rt_continuous = False, rt_loops_target = None, rt_loops_completed = 0,
      rt_overrides = [], rt_use_stack = [], rt_taken = [], rt_io = 0\<rparr>"

definition reset_progress :: "runtime \<Rightarrow> runtime" where
  "reset_progress r =
     r\<lparr>rt_completed := 0, rt_active := None, rt_last_finished := Fin 0, rt_started := None, rt_ended := None,
       rt_paused_total := Fin 0, rt_paused_since := None\<rparr>"

definition reset_run :: "runtime \<Rightarrow> runtime" where
  "reset_run r =
     (clear_pending (r\<lparr>rt_pause_requested := False, rt_stop_requested := False, rt_last_error := None, rt_error_detail := None,
       rt_pending_state := None, rt_pending_error := None, rt_cleanup_failed := False, rt_cleanup_errors := [], rt_env := []\<rparr>))
     \<lparr>rt_atomic_depth := 0, rt_detail := None\<rparr>"

definition load :: "eval_lang \<Rightarrow> sequence_spec \<Rightarrow> unit rt" where
  "load E spec =
     (\<lambda>r. if rt_state r = RUNNING then (Inl (SeqPy (RuntimeError ''Cannot load while running'')), r)
        else (Inr (), reset_progress ((reset_run r)\<lparr>rt_spec := Some spec, rt_base_vars := sq_vars spec,
          rt_vars := resolve_vars E (sq_vars spec), rt_stack := [], rt_state := IDLE, rt_start_modes := [],
          rt_continuous := False, rt_loops_target := None, rt_loops_completed := 0, rt_overrides := [], rt_use_stack := []\<rparr>)))"

definition start_loops :: "eval_lang \<Rightarrow> pyval \<Rightarrow> bool \<Rightarrow> pyexc + int option" where
  "start_loops E repeat_count forever =
     (if forever then Inr None
      else if repeat_count = PNone then Inr (Some 1)
      else case py_int (plain E) repeat_count of
             None \<Rightarrow> Inl (TypeError ''sequencer.start repeat_count must be an integer'')
           | Some n \<Rightarrow> if n \<le> 0 then Inl (ValueError ''sequencer.start repeat_count must be > 0'') else Inr (Some n))"

fun override_keys :: "items \<Rightarrow> items \<Rightarrow> pyexc + items" where
  "override_keys [] out = Inr out"
| "override_keys ((k, v) # d) out =
     (if py_strip k = [] then Inl (ValueError ''sequencer.start vars_override keys must be non-empty'')
      else override_keys d (dset (py_strip k) v out))"

definition start_overrides :: "sequence_spec \<Rightarrow> pyval \<Rightarrow> pyexc + items" where
  "start_overrides spec raw =
     res_bind (if raw = PNone then Inr []
               else case as_dict raw of
                      None \<Rightarrow> Inl (TypeError ''sequencer.start vars_override must be a dict'') | Some d \<Rightarrow> override_keys d []) (\<lambda>ov.
     let unknown = sorted_texts (filter (\<lambda>k. \<not> dhas (sq_vars spec) k) (map fst ov)) in
     if sq_vars spec \<noteq> []
     then if unknown \<noteq> [] then Inl (ValueError (''sequencer.start vars_override contains unknown keys: '' @ join '', '' unknown)) else Inr ov
     else if ov \<noteq> [] then Inl (ValueError ''sequencer.start vars_override cannot be used when sequence.vars is empty'') else Inr ov)"

definition start :: "eval_lang \<Rightarrow> seq_world \<Rightarrow> pyval \<Rightarrow> pyval \<Rightarrow> bool \<Rightarrow> pyval \<Rightarrow> unit rt" where
  "start E W adaptive repeat_count forever vars_override =
     (\<lambda>r. case rt_spec r of
        None \<Rightarrow> (Inl (SeqPy (RuntimeError ''No sequence loaded'')), r)
      | Some spec \<Rightarrow>
          rbind (rpy (start_loops E repeat_count forever)) (\<lambda>loops.
          rbind (rpy (start_overrides spec vars_override)) (\<lambda>ov.
          rbind (rmodify (\<lambda>r. r\<lparr>rt_vars := resolve_vars E (dict_update (rt_base_vars r) ov), rt_overrides := ov,
             rt_run_id := rt_next_run_id r, rt_next_run_id := rt_next_run_id r + 1, rt_continuous := forever,
             rt_loops_target := loops, rt_loops_completed := 0, rt_use_stack := [], rt_stack := [body_frame (sq_steps spec)], rt_taken := []\<rparr>)) (\<lambda>_.
          rbind (rpy (normalize_adaptive_start_modes E adaptive)) (\<lambda>modes.
          rmodify (\<lambda>r. let (now, r) = clock W (reset_progress (reset_run (r\<lparr>rt_start_modes := modes\<rparr>))) in
             r\<lparr>rt_started := Some now, rt_ended := None, rt_events := run_log_reset (rt_events r), rt_pause_info := None,
               rt_pause_request := None, rt_state := RUNNING\<rparr>))))) r)"

definition request_pause :: "py_lang \<Rightarrow> pyval \<Rightarrow> pyval \<Rightarrow> pyval \<Rightarrow> runtime \<Rightarrow> runtime" where
  "request_pause L reason source trigger r =
     (let r = (if rt_pause_request r = None \<or> \<not> rt_pause_requested r then r\<lparr>rt_pause_request := Some (pause_info_of L reason source trigger)\<rparr> else r)
      in r\<lparr>rt_pause_requested := True\<rparr>)"

definition resume :: "seq_world \<Rightarrow> string option \<Rightarrow> runtime \<Rightarrow> runtime" where
  "resume W source r =
     (if rt_state r \<noteq> PAUSED then r
      else let (now, r) = clock W r;
               text = (case rt_paused_since r of None \<Rightarrow> [] | Some p \<Rightarrow> '' after '' @ sw_fmt_0 W (fmax (Fin 0) (fsub now p)) @ '' s'');
               r = (mark_pause_ended now r)\<lparr>rt_pause_requested := False, rt_state := RUNNING\<rparr>
           in (record_event W ''info'' ''resume'' (''Resumed'' @ text) None source None r)\<lparr>rt_pause_info := None, rt_pause_request := None\<rparr>)"

definition request_stop :: "seq_world \<Rightarrow> string option \<Rightarrow> string option \<Rightarrow> runtime \<Rightarrow> runtime" where
  "request_stop W reason source r =
     (let r = (if rt_state r \<in> {RUNNING, PAUSED} \<and> \<not> rt_stop_requested r
               then record_event W ''info'' ''stop''
                      (''Stop requested'' @ (case reason of Some (c # cs) \<Rightarrow> '': '' @ (c # cs) | _ \<Rightarrow> [])) None source None r
               else r);
          r = r\<lparr>rt_stop_requested := True\<rparr>
      in if rt_state r = PAUSED
         then let (now, r) = clock W r in (mark_pause_ended now r)\<lparr>rt_pause_requested := False, rt_state := RUNNING\<rparr>
         else r)"

definition fail :: "seq_world \<Rightarrow> string \<Rightarrow> runtime \<Rightarrow> runtime" where
  "fail W reason r =
     (if rt_state r \<notin> {RUNNING, PAUSED} then r
      else
      let msg = (if reason = [] then ''external fault'' else reason);
          r = record_event W ''error'' ''external_fault'' msg None None None r;
          (now, r) = clock W r;
          r = (mark_pause_ended now r)\<lparr>rt_pause_requested := False, rt_stop_requested := False\<rparr>
      in if rt_parallel r \<noteq> None then r\<lparr>rt_parallel_failure := Some msg\<rparr>
         else
         case begin_terminal_unwind W ERROR (Some msg) (clear_pending r) of
           (True, r) \<Rightarrow> r\<lparr>rt_state := RUNNING\<rparr>
         | (False, r) \<Rightarrow> (abandon_active_step now r)\<lparr>rt_last_error := Some msg, rt_state := ERROR, rt_ended := Some now\<rparr>)"

definition note_external_log :: "seq_world \<Rightarrow> string \<Rightarrow> string \<Rightarrow> string option \<Rightarrow> runtime \<Rightarrow> runtime" where
  "note_external_log W severity message source r =
     (if rt_state r \<in> {RUNNING, PAUSED} then record_event W severity ''log'' message None source None r else r)"

definition next_poll_timeout_ms :: "seq_world \<Rightarrow> int \<Rightarrow> int \<Rightarrow> runtime \<Rightarrow> pyexc + int" where
  "next_poll_timeout_ms W ceiling_ms floor_ms r =
     (let floor_ms = max 1 floor_ms; now = sw_mono W (rt_io r);
          deadlines = (case rt_sleep_until r of None \<Rightarrow> [] | Some t \<Rightarrow> [t])
            @ (case rt_wait r of
                 None \<Rightarrow> []
               | Some ws \<Rightarrow> ws_next_sample ws # (if ws_timeout ws \<noteq> Fin 0 then [fadd (ws_start ws) (ws_timeout ws)] else [])
                   @ (case ws_stable_since ws of Some t \<Rightarrow> if ws_stable_for ws \<noteq> Fin 0 then [fadd t (ws_stable_for ws)] else [] | None \<Rightarrow> []))
            @ (case rt_observe r of None \<Rightarrow> [] | Some ob \<Rightarrow> (case ob_next_check ob of None \<Rightarrow> [] | Some t \<Rightarrow> [t]))
            @ (if rt_parallel r = None then [] else [fadd now (Fin (1 / 200))])
      in if rt_state r \<noteq> RUNNING then Inr ceiling_ms
         else case deadlines of
                [] \<Rightarrow> Inr ceiling_ms
              | d # ds \<Rightarrow>
                  res_bind (finite_int (\<lambda>q. \<lceil>q\<rceil>) (fmul (fsub (foldl fmin d ds) now) (Fin 1000))) (\<lambda>ms.
                  Inr (max floor_ms (min ceiling_ms ms))))"

end
