(* ===== verification/Sequencer_Calm.thy ===== *)
theory Sequencer_Calm
  imports Sequencer_Runtime
begin

text \<open>
  The operations of the sequencer runtime that leave its control state alone: the stack up to the
  progress of its loops, the open blocks, the variables, the steps taken and the pending end of
  the run. They are closed under the combinators the runtime is written with, so that whole
  handlers are shown calm from their parts.
\<close>

named_theorems calm_intros

section \<open>Operations that leave the control state alone\<close>

definition run_live :: "runtime \<Rightarrow> bool" where
  "run_live r \<longleftrightarrow> rt_state r = RUNNING \<or> rt_state r = PAUSED"

text \<open>Frames of one loop in different rounds.\<close>

fun frame_like :: "frame \<Rightarrow> frame \<Rightarrow> bool" where
  "frame_like (ForFrame b rs i body) g = (\<exists>j. g = ForFrame b rs j body)"
| "frame_like (RepeatFrame n body t) g = (\<exists>m. g = RepeatFrame m body t)"
| "frame_like (WhileFrame c body n) g = (\<exists>m. g = WhileFrame c body m)"
| "frame_like (AdaptiveFrame a) g = (\<exists>b. g = AdaptiveFrame b \<and> af_body b = af_body a \<and> af_spec b = af_spec a)"
| "frame_like f g = (f = g)"

lemma frame_like_refl [simp]: "frame_like f f"
  by (cases f) auto

lemma frame_like_trans: "frame_like f g \<Longrightarrow> frame_like g h \<Longrightarrow> frame_like f h"
  by (cases f) auto

definition quiet :: "runtime \<Rightarrow> runtime \<Rightarrow> bool" where
  "quiet r r' \<longleftrightarrow> list_all2 frame_like (rt_stack r) (rt_stack r') \<and> rt_atomic_depth r' = rt_atomic_depth r
     \<and> rt_use_stack r' = rt_use_stack r \<and> rt_vars r' = rt_vars r \<and> rt_taken r' = rt_taken r
     \<and> rt_pending_state r' = rt_pending_state r \<and> rt_spec r' = rt_spec r
     \<and> (rt_state r' = rt_state r \<or> run_live r \<and> run_live r')"

lemma quiet_refl [simp]: "quiet r r"
  by (simp add: quiet_def list_all2_refl)

lemma quiet_trans: "quiet r1 r2 \<Longrightarrow> quiet r2 r3 \<Longrightarrow> quiet r1 r3"
  unfolding quiet_def run_live_def
  by (auto intro: list_all2_trans [OF frame_like_trans])

lemma quietI:
  assumes "rt_stack r' = rt_stack r" "rt_atomic_depth r' = rt_atomic_depth r" "rt_use_stack r' = rt_use_stack r"
    "rt_vars r' = rt_vars r" "rt_taken r' = rt_taken r" "rt_pending_state r' = rt_pending_state r" "rt_spec r' = rt_spec r"
    "rt_state r' = rt_state r"
  shows "quiet r r'"
  using assms by (simp add: quiet_def list_all2_refl)

lemma quiet_live: "quiet r r' \<Longrightarrow> run_live r' = run_live r"
  by (auto simp: quiet_def run_live_def)

definition calm :: "'a rt \<Rightarrow> bool" where
  "calm m \<longleftrightarrow> (\<forall>r. quiet r (snd (m r)))"

definition pcalm :: "'a prt \<Rightarrow> bool" where
  "pcalm m \<longleftrightarrow> (\<forall>r x r'. m r = Some (x, r') \<longrightarrow> quiet r r')"

lemma calmD: "calm m \<Longrightarrow> m r = (x, r') \<Longrightarrow> quiet r r'"
  by (metis calm_def snd_conv)

lemma pcalmD: "pcalm m \<Longrightarrow> m r = Some (x, r') \<Longrightarrow> quiet r r'"
  by (simp add: pcalm_def)

lemma calm_simple [calm_intros]: "calm (rret x)" "calm (rraise e)" "calm (rlift y)" "calm (rpy z)" "calm (rget g)" "calm (rsum v)"
  by (simp_all add: calm_def rret_def rraise_def rlift_def rpy_def rget_def rsum_def)

lemma calm_rmodify [calm_intros]: "(\<And>r. quiet r (f r)) \<Longrightarrow> calm (rmodify f)"
  by (simp add: calm_def rmodify_def)

lemma calm_rrun [calm_intros]: "(\<And>r. quiet r (snd (f r))) \<Longrightarrow> calm (rrun f)"
  by (simp add: calm_def rrun_def split_beta)

lemma calm_rbind [calm_intros]:
  assumes "calm m" "\<And>x. calm (f x)"
  shows "calm (rbind m f)"
  unfolding calm_def
proof
  fix r
  obtain x r' where m: "m r = (x, r')" by (cases "m r")
  from calmD [OF assms(1) m] have q: "quiet r r'" .
  show "quiet r (snd (rbind m f r))"
  proof (cases x)
    case (Inr y)
    have "quiet r' (snd (f y r'))" using assms(2) by (simp add: calm_def)
    with q show ?thesis by (simp add: rbind_def m Inr quiet_trans)
  qed (simp add: rbind_def m q)
qed

lemma calm_rforeach [calm_intros]: "(\<And>x. calm (f x)) \<Longrightarrow> calm (rforeach f xs)"
  by (induction xs) (auto intro: calm_intros)

lemma quiet_uses [simp]: "quiet r (uses r)"
  by (rule quietI) (simp_all add: uses_def)

lemma quiet_clock [simp]: "quiet r (snd (clock W r))"
  by (simp add: clock_def)

lemma calm_ask [calm_intros]: "calm (ask f)"
  by (simp add: calm_def ask_def)

lemma calm_if [calm_intros]: "(b \<Longrightarrow> calm m) \<Longrightarrow> (\<not> b \<Longrightarrow> calm n) \<Longrightarrow> calm (if b then m else n)"
  by simp

lemma calm_let [calm_intros]: "(\<And>x. x = t \<Longrightarrow> calm (f x)) \<Longrightarrow> calm (let x = t in f x)"
  by simp

lemma calm_option [calm_intros]: "(x = None \<Longrightarrow> calm m) \<Longrightarrow> (\<And>y. x = Some y \<Longrightarrow> calm (f y)) \<Longrightarrow> calm (case x of None \<Rightarrow> m | Some y \<Rightarrow> f y)"
  by (cases x) auto

lemma calm_list [calm_intros]: "(xs = [] \<Longrightarrow> calm m) \<Longrightarrow> (\<And>y ys. xs = y # ys \<Longrightarrow> calm (f y ys)) \<Longrightarrow> calm (case xs of [] \<Rightarrow> m | y # ys \<Rightarrow> f y ys)"
  by (cases xs) auto

lemma calm_prod [calm_intros]: "(\<And>a b. p = (a, b) \<Longrightarrow> calm (f a b)) \<Longrightarrow> calm (case p of (a, b) \<Rightarrow> f a b)"
  by (cases p) auto

lemma calm_state: "(\<And>s. calm (f s)) \<Longrightarrow> calm (\<lambda>r. f (g r) r)"
  by (simp add: calm_def)

lemma pcalm_plift [calm_intros]: "calm m \<Longrightarrow> pcalm (plift m)"
  by (auto simp: pcalm_def plift_def dest: calmD)

lemma pcalm_pbind [calm_intros]: "pcalm m \<Longrightarrow> (\<And>x. pcalm (f x)) \<Longrightarrow> pcalm (pbind m f)"
  unfolding pcalm_def pbind_def by (auto split: option.splits sum.splits) (metis quiet_trans)+

lemma pcalm_ptry [calm_intros]: "pcalm m \<Longrightarrow> pcalm (ptry m)"
  unfolding pcalm_def ptry_def by (auto split: option.splits)

lemma pcalm_pmap [calm_intros]: "(\<And>x. pcalm (f x)) \<Longrightarrow> pcalm (pmap f xs)"
  by (induction xs) (auto intro!: calm_intros)

lemma pcalm_if [calm_intros]: "(b \<Longrightarrow> pcalm m) \<Longrightarrow> (\<not> b \<Longrightarrow> pcalm n) \<Longrightarrow> pcalm (if b then m else n)"
  by simp

lemma pcalm_let [calm_intros]: "(\<And>x. x = t \<Longrightarrow> pcalm (f x)) \<Longrightarrow> pcalm (let x = t in f x)"
  by simp

lemma pcalm_option [calm_intros]: "(x = None \<Longrightarrow> pcalm m) \<Longrightarrow> (\<And>y. x = Some y \<Longrightarrow> pcalm (f y)) \<Longrightarrow> pcalm (case x of None \<Rightarrow> m | Some y \<Rightarrow> f y)"
  by (cases x) auto

lemma pcalm_list [calm_intros]: "(xs = [] \<Longrightarrow> pcalm m) \<Longrightarrow> (\<And>y ys. xs = y # ys \<Longrightarrow> pcalm (f y ys)) \<Longrightarrow> pcalm (case xs of [] \<Rightarrow> m | y # ys \<Rightarrow> f y ys)"
  by (cases xs) auto

lemma pcalm_prod [calm_intros]: "(\<And>a b. p = (a, b) \<Longrightarrow> pcalm (f a b)) \<Longrightarrow> pcalm (case p of (a, b) \<Rightarrow> f a b)"
  by (cases p) auto

lemma pcalm_sum [calm_intros]: "(\<And>e. x = Inl e \<Longrightarrow> pcalm (f e)) \<Longrightarrow> (\<And>y. x = Inr y \<Longrightarrow> pcalm (g y)) \<Longrightarrow> pcalm (case x of Inl e \<Rightarrow> f e | Inr y \<Rightarrow> g y)"
  by (cases x) auto

lemma pcalm_state: "(\<And>s. pcalm (f s)) \<Longrightarrow> pcalm (\<lambda>r. f (g r) r)"
  by (auto simp: pcalm_def)

section \<open>Helpers\<close>

lemma quiet_pause_marks [simp]: "quiet r (mark_pause_started now r)" "quiet r (mark_pause_ended now r)"
  by (auto simp: mark_pause_started_def mark_pause_ended_def intro: quietI split: option.split)

lemma quiet_active [simp]: "quiet r (finish_active_step now r)" "quiet r (abandon_active_step now r)"
  by (auto simp: finish_active_step_def abandon_active_step_def intro: quietI)

lemma uses_fields [simp]:
  "rt_stack (uses r) = rt_stack r" "rt_atomic_depth (uses r) = rt_atomic_depth r" "rt_use_stack (uses r) = rt_use_stack r"
  "rt_vars (uses r) = rt_vars r" "rt_taken (uses r) = rt_taken r" "rt_pending_state (uses r) = rt_pending_state r"
  "rt_spec (uses r) = rt_spec r" "rt_state (uses r) = rt_state r" "rt_detail (uses r) = rt_detail r" "rt_events (uses r) = rt_events r"
  "rt_pending_error (uses r) = rt_pending_error r" "rt_cleanup_failed (uses r) = rt_cleanup_failed r"
  by (simp_all add: uses_def)

lemma quiet_record_event [simp]: "quiet r (record_event W sv k m st so tr r)"
  by (rule quietI) (simp_all add: record_event_def clock_def Let_def)

lemma quiet_enter_pause [simp]: "quiet r (enter_pause W info r)"
  by (rule quietI) (simp_all add: enter_pause_def record_event_def clock_def Let_def)

lemma quiet_begin_active_step [simp]: "quiet r (begin_active_step W s r)"
  by (rule quietI) (simp_all add: begin_active_step_def clock_def Let_def)

lemma quiet_finish_now [simp]: "quiet r (finish_now W r)"
  by (simp add: finish_now_def clock_def quiet_trans [OF quiet_uses])

lemma quiet_note_cleanup_failure [simp]: "quiet r (note_cleanup_failure E W msg r)"
  by (rule quietI) (simp_all add: note_cleanup_failure_def record_event_def clock_def Let_def split: option.split list.split)

lemma quiet_set_env [simp]: "quiet r (set_env k v r)"
  by (rule quietI) (simp_all add: set_env_def)

lemma quiet_update_detail [simp]: "quiet r (update_detail d r)"
  by (rule quietI) (simp_all add: update_detail_def)

lemma quiet_field [simp]:
  "quiet r (r\<lparr>rt_env := x1\<rparr>)" "quiet r (r\<lparr>rt_wait := x2\<rparr>)" "quiet r (r\<lparr>rt_observe := x3\<rparr>)" "quiet r (r\<lparr>rt_detail := x4\<rparr>)"
  "quiet r (r\<lparr>rt_context_id := x5\<rparr>)" "quiet r (r\<lparr>rt_set_context := x6\<rparr>)" "quiet r (r\<lparr>rt_parallel := x7\<rparr>)" "quiet r (r\<lparr>rt_sleep_until := x8\<rparr>)"
  "quiet r (set_wait ws r)" "quiet r (clear_set_context r)" "quiet r (clear_parallel r)" "quiet r (clear_pending r)" "quiet r (after_unwind_exit r)"
  "quiet r (drop_output i r)" "quiet r (put_observe ob r)"
  by (rule quietI; simp add: set_wait_def clear_set_context_def clear_parallel_def clear_pending_def after_unwind_exit_def
      drop_output_def put_observe_def)+

lemma calm_render [calm_intros]: "calm (render E v)"
  by (simp add: calm_def render_def rlift_def)

lemma calm_dispatch [calm_intros]: "calm (dispatch_call W d p a ps)" "calm (dispatch_get_telemetry W d p s)"
  unfolding dispatch_call_def dispatch_get_telemetry_def by (intro calm_intros | simp add: calm_def)+

lemma quiet_sample_age [simp]: "quiet r (snd (telemetry_sample_age_s E W s r))"
  by (simp add: telemetry_sample_age_s_def Let_def clock_def split: option.split)

lemma calm_names [calm_intros]: "calm (rendered_name E v)" "calm (render_call_target E spec)"
  unfolding rendered_name_def render_call_target_def by (intro calm_intros)+

lemma calm_resolve_parts [calm_intros]: "calm (resolve_telemetry E W env v)" "calm (resolve_call E W env v)"
  unfolding resolve_telemetry_def resolve_call_def by (intro calm_intros quiet_sample_age)+

lemma calm_resolve [calm_intros]:
  "calm (resolve_value E W env v)" "calm (resolve_list E W env xs)" "calm (resolve_items E W env d)"
  by (induction E W env v and E W env xs and E W env d rule: resolve_value_resolve_list_resolve_items.induct)
    (simp_all add: calm_rbind calm_simple calm_resolve_parts)

lemma calm_condition [calm_intros]: "calm (condition_holds E W c)"
  by (simp add: condition_holds_def Let_def) (rule calm_state [of "\<lambda>env. rbind (resolve_value E W env c) (\<lambda>v. rlift (eval_condition E env v))" env_view], intro calm_intros)

lemma calm_polled [calm_intros]: "calm (polled_failure k e)"
  unfolding polled_failure_def by (cases e) (auto intro!: calm_intros split: eval_error.split)

lemma calm_eval_condition_rt [calm_intros]: "calm (eval_condition_rt E W c k polling)"
  unfolding calm_def eval_condition_rt_def
  by (auto split: prod.split sum.split intro: calmD [OF calm_condition])
    (metis calm_polled calm_condition calmD calm_def quiet_trans)

lemma calm_positive_int [calm_intros]: "calm (coerce_positive_int E v n)"
  by (simp add: calm_def coerce_positive_int_def split: sum.split option.split)

lemma calm_rendered_limit [calm_intros]: "calm (rendered_limit E conv msg v)"
  by (simp add: calm_def rendered_limit_def split: sum.split option.split)

lemma calm_proposal [calm_intros]:
  "calm (prepare_adaptive_proposal E W f)" "calm (bind_adaptive_proposal a p)" "calm (adaptive_should_stop E W f)"
  unfolding prepare_adaptive_proposal_def bind_adaptive_proposal_def adaptive_should_stop_def Let_def
  by (intro calm_intros quiet_set_env quiet_clock)+

lemma calm_bind_record [calm_intros]: "calm (bind_record E b rec i)"
  unfolding bind_record_def by (intro calm_intros quiet_set_env)

lemma calm_score [calm_intros]: "calm (compute_adaptive_score E o' m a)" "calm (score_trial E n o' t)"
proof -
  show c: "calm (compute_adaptive_score E o' m a)" for m a
    by (auto simp: calm_def compute_adaptive_score_def Let_def rlift_def split: list.split)
  show "calm (score_trial E n o' t)"
    by (auto simp: calm_def score_trial_def split: prod.split sum.split option.split dest: calmD [OF c])
qed

lemma quiet_usable_sample [simp]: "quiet r (snd (usable_sample E W m s r))"
proof (cases s)
  case (Some d)
  then show ?thesis
    using quiet_sample_age [of r E W d]
    by (cases "telemetry_sample_age_s E W d r") (auto simp: usable_sample_def split: list.split)
qed (simp add: usable_sample_def)

lemma poll_telemetry_quiet: "poll_telemetry E W d p s t m dl r = Some y \<Longrightarrow> quiet r (snd y)"
proof (rule poll_telemetry.raw_induct [where P = "\<lambda>E W d p s t m dl r y. quiet r (snd y)"])
  fix self E W d p s t m dl r y
  assume 1: "\<And>E W d p s t m dl r y. self E W d p s t m dl r = Some y \<Longrightarrow> quiet r (snd y)"
    and 2: "(case dispatch_get_telemetry W d p s r of
        (Inl e, r) \<Rightarrow> Some (Inl e, r)
      | (Inr sample, r) \<Rightarrow>
          (case usable_sample E W m sample r of
             (Some v, r) \<Rightarrow> Some (Inr v, r)
           | (None, r) \<Rightarrow>
               let late = Inl (SeqPy (RuntimeError (''adaptive telemetry source timed out for ''
                            @ (case p of Some p \<Rightarrow> p | None \<Rightarrow> d) @ ''.'' @ s)))
               in if fle t (Fin 0) then Some (late, r)
                  else (case clock W r of
                          (now, r) \<Rightarrow> if fle dl now then Some (late, r) else self E W d p s t m dl r))) = Some y"
  obtain x r1 where c: "dispatch_get_telemetry W d p s r = (x, r1)" by (cases "dispatch_get_telemetry W d p s r")
  have q1: "quiet r r1" using calmD [OF calm_dispatch(2) c] .
  show "quiet r (snd y)"
  proof (cases x)
    case (Inl e)
    then have "y = (Inl e, r1)" using 2 by (simp add: c)
    then show ?thesis using q1 by simp
  next
    case (Inr sm)
    obtain v r2 where u: "usable_sample E W m sm r1 = (v, r2)" by (cases "usable_sample E W m sm r1")
    have q2: "quiet r r2" using quiet_usable_sample [of r1 E W m sm] q1 by (simp add: u quiet_trans)
    have q3: "quiet r (uses r2)" using q2 by (rule quiet_trans) simp
    have "self E W d p s t m dl (uses r2) = Some y \<Longrightarrow> quiet r (snd y)"
      using 1 q3 quiet_trans by blast
    then show ?thesis
      using 2 q2 q3 by (auto simp: c Inr u Let_def clock_def split: option.splits if_splits)
  qed
qed

lemma pcalm_poll_telemetry [calm_intros]: "pcalm (poll_telemetry E W d p s t m dl)"
  using poll_telemetry_quiet by (fastforce simp: pcalm_def)

lemma pcalm_sampling [calm_intros]:
  "pcalm (sample_adaptive_telemetry E W d)" "calm (sample_adaptive_call E W d)" "pcalm (sample_adaptive_source E W v)"
proof -
  show t: "pcalm (sample_adaptive_telemetry E W d)" for d
    unfolding sample_adaptive_telemetry_def by (intro calm_intros quiet_clock)
  show c: "calm (sample_adaptive_call E W d)" for d
    unfolding sample_adaptive_call_def by (intro calm_intros)
  show "pcalm (sample_adaptive_source E W v)"
    unfolding sample_adaptive_source_def by (intro calm_intros t c)
qed

lemma pcalm_collect [calm_intros]:
  "pcalm (collect_adaptive_state E W d)" "pcalm (collect_repeats E W n d reps)" "pcalm (collect_adaptive_metrics E W o')"
proof -
  show s: "pcalm (collect_adaptive_state E W d)" for d
    unfolding collect_adaptive_state_def by (intro calm_intros)
  show r: "pcalm (collect_repeats E W n d reps)" for n d reps
    by (induction n arbitrary: reps) (auto intro!: calm_intros s)
  show "pcalm (collect_adaptive_metrics E W o')"
    unfolding collect_adaptive_metrics_def by (intro calm_intros r)
qed

lemma pcalm_trial [calm_intros]: "pcalm (state_of_trial E W a t)" "pcalm (collect_adaptive_trial E W a p)"
proof -
  show s: "pcalm (state_of_trial E W a t)" for t
    unfolding state_of_trial_def by (intro calm_intros)
  show "pcalm (collect_adaptive_trial E W a p)"
    unfolding collect_adaptive_trial_def
    by (rule pcalm_state [where g = "\<lambda>r. blank_trial r p"]) (intro calm_intros s)
qed

lemma calm_analysis [calm_intros]: "calm (try_sample_analysis_output E W s t)" "calm (sample_analysis_metrics E W ms acc t)"
proof -
  show s: "calm (try_sample_analysis_output E W s t)" for E W s t
    unfolding try_sample_analysis_output_def
    by (intro calm_intros | (simp split: output_match.split; intro conjI allI impI calm_intros) | simp)+
  show "calm (sample_analysis_metrics E W ms acc t)"
    by (induction E W ms acc t rule: sample_analysis_metrics.induct) (auto intro!: calm_intros intro: s)
qed

lemma pcalm_repeat [calm_intros]: "pcalm (collect_adaptive_repeat E W ob now)"
  unfolding collect_adaptive_repeat_def by (intro calm_intros quiet_field)

lemma quiet_replay [simp]: "quiet r (snd (replay_trials W c ts r))"
  by (induction W c ts r rule: replay_trials.induct)
    (auto simp: Let_def split: prod.splits sum.splits intro: quiet_trans [OF quiet_uses])

lemma quiet_prepare_study [simp]: "quiet r (snd (prepare_adaptive_study E W a c ct sp r))"
proof -
  have "quiet r ((uses r)\<lparr>rt_studies := x\<rparr>)" for x
    by (rule quietI) simp_all
  then show ?thesis
    unfolding prepare_adaptive_study_def clock_def Let_def prod.case by (rule quiet_trans) (rule quiet_replay)
qed

end
