(* ===== verification/Sequencer_Control.thy ===== *)
theory Sequencer_Control
  imports Sequencer_Calm
begin

text \<open>
  The control machine of the sequencer: an inductive relation of elementary moves on the stack,
  the open blocks and the run state. The choice of the next step, in a run and in a terminal
  unwind, is a sequence of inner moves, and so is what a finished adaptive trial does; failing a
  step, stopping and pausing are sequences of moves.
\<close>

section \<open>Moves\<close>

fun leave_effect :: "frame_exit \<Rightarrow> runtime \<Rightarrow> runtime" where
  "leave_effect NoExit r = r"
| "leave_effect AtomicExit r = r\<lparr>rt_atomic_depth := rt_atomic_depth r - 1\<rparr>"
| "leave_effect (UseExit saved name) r = r\<lparr>rt_vars := saved, rt_use_stack := leave_use name (rt_use_stack r)\<rparr>"
| "leave_effect AdaptiveExit r = r"

fun droppable :: "frame \<Rightarrow> bool" where
  "droppable (Frame _ _ _ _) = False"
| "droppable (TryFrame _ finalizing) = finalizing"
| "droppable _ = True"

fun loop_body :: "frame \<Rightarrow> frame option" where
  "loop_body (ForFrame _ _ _ body) = Some (body_frame body)"
| "loop_body (RepeatFrame _ body _) = Some (body_frame body)"
| "loop_body (WhileFrame _ body _) = Some (body_frame body)"
| "loop_body (AdaptiveFrame a) = Some (Frame (af_body a) 0 AdaptiveExit False)"
| "loop_body _ = None"

text \<open>
  Moves of the choice of the next step. An adaptive trial that fails ends the run on the spot when
  its step has \<open>fail_on_trial_error\<close> set.
\<close>

inductive inner_move :: "runtime \<Rightarrow> runtime \<Rightarrow> bool" where
  inner_quiet: "quiet r r' \<Longrightarrow> inner_move r r'"
| inner_take: "rt_stack r = Frame ss i ex u # fs \<Longrightarrow> i < length ss \<Longrightarrow>
    inner_move r (r\<lparr>rt_stack := Frame ss (Suc i) ex u # fs, rt_taken := rt_taken r @ (if st_disabled (ss ! i) then [] else [ss ! i])\<rparr>)"
| inner_leave: "rt_stack r = Frame ss i ex u # fs \<Longrightarrow> i \<ge> length ss \<or> \<not> u \<Longrightarrow> inner_move r (leave_effect ex (r\<lparr>rt_stack := fs\<rparr>))"
| inner_drop: "rt_stack r = f # fs \<Longrightarrow> droppable f \<Longrightarrow> inner_move r (r\<lparr>rt_stack := fs\<rparr>)"
| inner_body: "rt_stack r = f # fs \<Longrightarrow> loop_body f = Some g \<Longrightarrow> inner_move r (r\<lparr>rt_stack := g # f # fs\<rparr>)"
| inner_finally: "rt_stack r = TryFrame ss False # fs \<Longrightarrow>
    inner_move r (r\<lparr>rt_stack := (if ss \<noteq> [] then [Frame ss 0 NoExit True] else []) @ TryFrame ss True # fs\<rparr>)"
| inner_abort: "rt_stack r = AdaptiveFrame a # fs \<Longrightarrow> as_fail_on_trial_error (af_spec a) \<Longrightarrow> inner_move r (r\<lparr>rt_state := ERROR\<rparr>)"

text \<open>The frames a step pushes.\<close>

fun entry :: "kind \<Rightarrow> frame list \<Rightarrow> bool" where
  "entry (ForStep b _ body) fs = (\<exists>rs. fs = [ForFrame b rs 0 body])"
| "entry (RepeatStep _ body) fs = (\<exists>n t. fs = [RepeatFrame n body t])"
| "entry (IfStep _ t e) fs = (fs = [body_frame t] \<or> fs = [body_frame (case e of None \<Rightarrow> [] | Some b \<Rightarrow> b)])"
| "entry (WhileStep c body) fs = (fs = [WhileFrame c body 0])"
| "entry (TryStep body fin) fs = (fs = [body_frame body, TryFrame fin False])"
| "entry (AdaptiveStep spec body) fs = (\<exists>a. fs = [AdaptiveFrame a] \<and> af_body a = body \<and> af_spec a = spec)"
| "entry _ _ = False"

text \<open>The step that has just been taken: the top frame has moved past it.\<close>

definition just_taken :: "step \<Rightarrow> runtime \<Rightarrow> bool" where
  "just_taken s r \<longleftrightarrow> s \<in> set (rt_taken r) \<and> (\<exists>ss i ex u fs. rt_stack r = Frame ss (Suc i) ex u # fs \<and> i < length ss \<and> ss ! i = s)"

text \<open>
  All moves. With \<open>strict\<close>, steps are entered only while the run is alive; the interpreter keeps to
  that when no adaptive trial can end the run in the middle of a choice.
\<close>

inductive move :: "seq_world \<Rightarrow> bool \<Rightarrow> runtime \<Rightarrow> runtime \<Rightarrow> bool" for W strict where
  move_inner: "inner_move r r' \<Longrightarrow> move W strict r r'"
| move_enter: "just_taken s r \<Longrightarrow> strict \<longrightarrow> run_live r \<Longrightarrow> entry (st_kind s) fs \<Longrightarrow> move W strict r (r\<lparr>rt_stack := fs @ rt_stack r\<rparr>)"
| move_atomic: "just_taken s r \<Longrightarrow> strict \<longrightarrow> run_live r \<Longrightarrow> st_kind s = AtomicStep name body \<Longrightarrow>
    move W strict r (r\<lparr>rt_atomic_depth := rt_atomic_depth r + 1, rt_stack := Frame body 0 AtomicExit False # rt_stack r\<rparr>)"
| move_use: "just_taken s r \<Longrightarrow> strict \<longrightarrow> run_live r \<Longrightarrow> st_kind s = UseStep raw args \<Longrightarrow> resolve_use_spec W raw = Inr spec \<Longrightarrow>
    name \<notin> set (rt_use_stack r) \<Longrightarrow>
    move W strict r (r\<lparr>rt_use_stack := rt_use_stack r @ [name], rt_vars := v,
      rt_stack := Frame (sq_steps spec) 0 (UseExit (rt_vars r) name) False # rt_stack r\<rparr>)"
| move_unwind: "rt_pending_state r = None \<Longrightarrow> move W strict r (r\<lparr>rt_pending_state := Some st\<rparr>)"
| move_halt: "\<not> has_terminal_unwind_work r \<Longrightarrow> pd = None \<or> pd = rt_pending_state r \<Longrightarrow>
    move W strict r (r\<lparr>rt_state := st, rt_pending_state := pd\<rparr>)"
| move_pause: "move W strict r (r\<lparr>rt_state := PAUSED\<rparr>)"
| move_again: "rt_stack r = [] \<Longrightarrow> run_live r \<Longrightarrow> rt_spec r = Some spec \<Longrightarrow>
    move W strict r (r\<lparr>rt_stack := [body_frame (sq_steps spec)], rt_atomic_depth := 0, rt_use_stack := []\<rparr>)"

abbreviation inner_moves :: "runtime \<Rightarrow> runtime \<Rightarrow> bool" where
  "inner_moves \<equiv> inner_move\<^sup>*\<^sup>*"

abbreviation moves :: "seq_world \<Rightarrow> bool \<Rightarrow> runtime \<Rightarrow> runtime \<Rightarrow> bool" where
  "moves W strict \<equiv> (move W strict)\<^sup>*\<^sup>*"

lemma quiet_inner: "quiet r r' \<Longrightarrow> inner_moves r r'"
  by (auto intro: inner_quiet)

lemma inner_then_quiet: "inner_move r r' \<Longrightarrow> quiet r' r'' \<Longrightarrow> inner_moves r r''"
  by (meson inner_quiet r_into_rtranclp rtranclp.rtrancl_into_rtrancl)

lemma inner_moves_moves: "inner_moves r r' \<Longrightarrow> moves W strict r r'"
  by (induction rule: rtranclp_induct) (auto intro: move_inner rtranclp.rtrancl_into_rtrancl)

lemma quiet_moves: "quiet r r' \<Longrightarrow> moves W strict r r'"
  by (intro inner_moves_moves quiet_inner)

text \<open>Operations as sequences of inner moves.\<close>

definition inner_op :: "'a prt \<Rightarrow> bool" where
  "inner_op m \<longleftrightarrow> (\<forall>r x r'. m r = Some (x, r') \<longrightarrow> inner_moves r r')"

lemma inner_opD: "inner_op m \<Longrightarrow> m r = Some (x, r') \<Longrightarrow> inner_moves r r'"
  by (simp add: inner_op_def)

lemma inner_op_pcalm: "pcalm m \<Longrightarrow> inner_op m"
  by (auto simp: inner_op_def pcalm_def intro: quiet_inner)

lemma inner_op_pbind: "inner_op m \<Longrightarrow> (\<And>x. inner_op (f x)) \<Longrightarrow> inner_op (pbind m f)"
  unfolding inner_op_def pbind_def by (auto split: option.splits sum.splits) (metis rtranclp_trans)+

lemma inner_op_after_calm: "pcalm m \<Longrightarrow> (\<And>x. inner_op (f x)) \<Longrightarrow> inner_op (pbind m f)"
  by (rule inner_op_pbind [OF inner_op_pcalm])

lemma quiet_adaptive_top [simp]:
  assumes "\<And>f. af_body (g f) = af_body f \<and> af_spec (g f) = af_spec f"
  shows "quiet r (map_adaptive_top g r)"
  using assms by (auto simp: quiet_def map_adaptive_top_def list_all2_refl split: list.split frame.split)

lemma map_adaptive_top_stack:
  "rt_stack r = AdaptiveFrame f # fs \<Longrightarrow> rt_stack (map_adaptive_top g r) = AdaptiveFrame (g f) # fs"
  by (simp add: map_adaptive_top_def)

lemma track_score_body [simp]: "af_body (track_score L t f) = af_body f" "af_spec (track_score L t f) = af_spec f"
  by (simp_all add: track_score_def split: option.split)

lemma quiet_publish_trial [simp]: "quiet r (publish_adaptive_trial_env t r)"
  by (simp add: publish_adaptive_trial_env_def)

lemma quiet_store_trial [simp]: "quiet r (store_adaptive_trial E W f t r)"
  by (rule quietI) (simp_all add: store_adaptive_trial_def clock_def Let_def)

lemma quiet_adaptive_stack:
  "quiet r r' \<Longrightarrow> rt_stack r = AdaptiveFrame f # fs \<Longrightarrow> \<exists>f' fs'. rt_stack r' = AdaptiveFrame f' # fs' \<and> af_spec f' = af_spec f"
  by (auto simp: quiet_def list_all2_Cons1)

text \<open>Finishing a trial is quiet, unless it ends the run with an adaptive frame on top.\<close>

lemma finalize_inner:
  assumes top: "rt_stack r = AdaptiveFrame f0 # fs" "af_spec f0 = af_spec f"
    and fin: "finalize_adaptive_trial E W f p t r = (x, r')"
  shows "inner_moves r r'"
proof -
  define t' where "t' = t\<lparr>tr_observe_started := None\<rparr>"
  define r1 where "r1 = publish_adaptive_trial_env t' (map_adaptive_top (track_score (plain E) t') r)"
  define fd where "fd = (\<lambda>g :: adaptive_frame. g\<lparr>af_proposal := None, af_trials := af_trials g + 1\<rparr>)"
  define asked where "asked = (if tr_ok t' \<or> \<not> as_fail_on_trial_error (af_spec f) then ask (\<lambda>n. sw_tell W n (af_controller f) p t') r1 else (Inr (), r1))"
  obtain y r2 where a: "asked = (y, r2)" by (cases asked)
  have q1: "quiet r r1" unfolding r1_def by (rule quiet_trans [OF quiet_adaptive_top [where g = "track_score (plain E) t'"]]) simp_all
  have "quiet r1 r2" using a by (auto simp: asked_def ask_def split: if_splits)
  with q1 have q2: "quiet r r2" by (rule quiet_trans)
  have fd: "af_body (fd g) = af_body g \<and> af_spec (fd g) = af_spec g" for g by (simp add: fd_def)
  have q3: "quiet r (map_adaptive_top fd r2)" using q2 by (rule quiet_trans) (simp add: fd)
  define r3 where "r3 = map_adaptive_top fd (store_adaptive_trial E W f t' r2)"
  have q4: "quiet r r3" unfolding r3_def 
    by (rule quiet_trans [OF q2 quiet_trans [OF quiet_store_trial [of r2 E W f t'] quiet_adaptive_top]]) (rule fd)
  obtain f3 fs3 where top3: "rt_stack r3 = AdaptiveFrame f3 # fs3" "af_spec f3 = af_spec f"
    using quiet_adaptive_stack [OF q4 top(1)] top(2) by auto
  have fin': "(case asked of (Inl e, r) \<Rightarrow> (Inl e, map_adaptive_top fd r)
      | (Inr _, r) \<Rightarrow> let r = map_adaptive_top fd (store_adaptive_trial E W f t' r) in
           if \<not> tr_ok t' \<and> as_fail_on_trial_error (af_spec f)
           then (Inr (), r\<lparr>rt_last_error := Some (let m = jget (case tr_error t' of None \<Rightarrow> [] | Some d \<Rightarrow> d) ''message'' in
                              if truthy m then py_str (plain E) m else ''adaptive trial failed''), rt_state := ERROR\<rparr>)
           else (Inr (), r)) = (x, r')"
    using fin unfolding finalize_adaptive_trial_def Let_def rbind_def rmodify_def asked_def r1_def t'_def fd_def by simp
  have ab: "inner_moves r (r3\<lparr>rt_last_error := e, rt_state := ERROR\<rparr>)" if "as_fail_on_trial_error (af_spec f)" for e
  proof -
    have "inner_move r3 (r3\<lparr>rt_state := ERROR\<rparr>)" using inner_abort [OF top3(1)] top3(2) that by simp
    moreover have "quiet (r3\<lparr>rt_state := ERROR\<rparr>) (r3\<lparr>rt_last_error := e, rt_state := ERROR\<rparr>)" by (rule quietI) simp_all
    ultimately show ?thesis using q4 by (meson inner_then_quiet quiet_inner rtranclp_trans)
  qed
  show ?thesis
    using fin' q3 q4 ab by (auto simp: a Let_def r3_def [symmetric] split: sum.splits if_splits intro: quiet_inner)
qed

section \<open>The next step is a sequence of inner moves\<close>

text \<open>Operations that are sequences of inner moves when an adaptive frame of a given specification is on top.\<close>

definition adaptive_op :: "adaptive_spec \<Rightarrow> 'a prt \<Rightarrow> bool" where
  "adaptive_op s m \<longleftrightarrow> (\<forall>r f fs x r'. rt_stack r = AdaptiveFrame f # fs \<longrightarrow> af_spec f = s \<longrightarrow> m r = Some (x, r') \<longrightarrow> inner_moves r r')"

named_theorems adaptive_intros

lemma adaptive_op_calm [adaptive_intros]: "pcalm m \<Longrightarrow> adaptive_op sp m"
  by (auto simp: adaptive_op_def pcalm_def intro: quiet_inner)

lemma adaptive_op_finalize [adaptive_intros]: "adaptive_op (af_spec f) (plift (finalize_adaptive_trial E W f p t))"
  by (auto simp: adaptive_op_def plift_def intro: finalize_inner)

lemma pbind_cases:
  assumes "pbind m f r = Some (x, r')"
  obtains (raised) e where "m r = Some (Inl e, r')" "x = Inl e"
    | (went) y r1 where "m r = Some (Inr y, r1)" "f y r1 = Some (x, r')"
  using assms by (auto simp: pbind_def split: option.splits sum.splits)

lemma adaptive_op_pbind:
  assumes "pcalm m" and rest: "\<And>y. adaptive_op sp (f y)"
  shows "adaptive_op sp (pbind m f)"
  unfolding adaptive_op_def
proof (intro allI impI)
  fix r a fs x r'
  assume top: "rt_stack r = AdaptiveFrame a # fs" and spec: "af_spec a = sp" and run: "pbind m f r = Some (x, r')"
  from run show "inner_moves r r'"
  proof (cases rule: pbind_cases)
    case (raised e)
    then show ?thesis using pcalmD [OF assms(1)] quiet_inner by blast
  next
    case (went y r1)
    have q: "quiet r r1" using pcalmD [OF assms(1) went(1)] .
    obtain f1 fs1 where "rt_stack r1 = AdaptiveFrame f1 # fs1" "af_spec f1 = sp" using quiet_adaptive_stack [OF q top] spec by auto
    with rest [of y] went(2) have "inner_moves r1 r'" by (simp add: adaptive_op_def)
    with quiet_inner [OF q] show ?thesis by (rule rtranclp_trans)
  qed
qed

lemma adaptive_op_finalize_then [adaptive_intros]:
  "adaptive_op (af_spec f) (pbind (plift (finalize_adaptive_trial E W f p t)) (\<lambda>_. pret b))"
  by (auto simp: adaptive_op_def plift_def rret_def elim!: pbind_cases intro: finalize_inner)

lemma adaptive_op_state: "(\<And>s. adaptive_op sp (f s)) \<Longrightarrow> adaptive_op sp (\<lambda>r. f (g r) r)"
  by (auto simp: adaptive_op_def)

lemma adaptive_op_cases [adaptive_intros]:
  "(b \<Longrightarrow> adaptive_op sp m) \<Longrightarrow> (\<not> b \<Longrightarrow> adaptive_op sp n) \<Longrightarrow> adaptive_op sp (if b then m else n)"
  "(v = None \<Longrightarrow> adaptive_op sp m) \<Longrightarrow> (\<And>y. v = Some y \<Longrightarrow> adaptive_op sp (f y)) \<Longrightarrow> adaptive_op sp (case v of None \<Rightarrow> m | Some y \<Rightarrow> f y)"
  "(xs = [] \<Longrightarrow> adaptive_op sp m) \<Longrightarrow> (\<And>y ys. xs = y # ys \<Longrightarrow> adaptive_op sp (g y ys)) \<Longrightarrow> adaptive_op sp (case xs of [] \<Rightarrow> m | y # ys \<Rightarrow> g y ys)"
  "(\<And>a c. p = (a, c) \<Longrightarrow> adaptive_op sp (h a c)) \<Longrightarrow> adaptive_op sp (case p of (a, c) \<Rightarrow> h a c)"
  "(\<And>e. s = Inl e \<Longrightarrow> adaptive_op sp (k e)) \<Longrightarrow> (\<And>y. s = Inr y \<Longrightarrow> adaptive_op sp (l y)) \<Longrightarrow> adaptive_op sp (case s of Inl e \<Rightarrow> k e | Inr y \<Rightarrow> l y)"
  by (auto split: option.split list.split sum.split prod.split)

lemma pcalm_open_observation: "pcalm (pbind (plift (coerce_positive_int E v n)) (\<lambda>n. plift (rmodify (\<lambda>r. (uses r)\<lparr>rt_observe := g n\<rparr>))))"
  by (intro calm_intros) (rule quiet_trans [OF quiet_uses], simp)

lemma start_observation_op: "adaptive_op (af_spec f) (start_adaptive_observation E W f p)"
  unfolding start_adaptive_observation_def
  by (rule adaptive_op_state [where g = "\<lambda>r. blank_trial r p"])
    (intro adaptive_op_pbind pcalm_trial adaptive_intros pcalm_open_observation)

lemma collect_then_finalize_op: "adaptive_op (af_spec f) (pbind (collect_adaptive_trial E W a p) (\<lambda>t. plift (finalize_adaptive_trial E W f p t)))"
  by (intro adaptive_op_pbind pcalm_trial adaptive_op_finalize)

lemma after_adaptive_body_inner: "inner_op (after_adaptive_body E W)"
  using start_observation_op collect_then_finalize_op
  unfolding inner_op_def after_adaptive_body_def adaptive_op_def
  by (auto split: list.splits frame.splits option.splits if_splits)

lemma end_observation_op: "adaptive_op (af_spec f) (end_observation E W f ob t)"
  unfolding end_observation_def by (intro adaptive_op_pbind pcalm_plift calm_rmodify quiet_field adaptive_intros)

lemma repeat_then_end_op:
  "adaptive_op (af_spec f) (pbind (ptry (collect_adaptive_repeat E W ob now)) (\<lambda>res. case res of
     Inr _ \<Rightarrow> pret False | Inl e \<Rightarrow> end_observation E W f ob (failed_trial (seq_exc_text e) (ob_trial ob))))"
  by (intro adaptive_op_pbind pcalm_ptry pcalm_repeat adaptive_op_cases end_observation_op adaptive_op_calm pcalm_plift calm_simple)

lemma score_then_end_op: "adaptive_op (af_spec f) (pbind (plift (score_trial E k o' t)) (\<lambda>res. end_observation E W f ob (outcome res)))"
  by (intro adaptive_op_pbind pcalm_plift calm_score end_observation_op)

lemma step_observation_inner: "inner_op (step_adaptive_observation E W now)"
proof -
  have "inner_moves r (r\<lparr>rt_observe := None\<rparr>)" for r by (simp add: quiet_inner)
  then show ?thesis
    using end_observation_op repeat_then_end_op score_then_end_op
    unfolding inner_op_def step_adaptive_observation_def adaptive_op_def
    by (auto split: list.splits frame.splits option.splits if_splits prod.splits)
qed

text \<open>Leaving and taking.\<close>

lemma run_exit_inner:
  assumes top: "rt_stack r = Frame ss i ex u # fs" and fin: "i \<ge> length ss \<or> \<not> u"
    and run: "run_exit E W ex (pop r) = Some (x, r')"
  shows "inner_moves r r'"
proof -
  have m: "inner_move r (leave_effect ex (pop r))" using inner_leave [OF top fin] by (simp add: pop_def top)
  have "r' = leave_effect ex (pop r) \<or> ex = AdaptiveExit \<and> after_adaptive_body E W (pop r) = Some (x, r')"
    using run by (cases ex) (auto simp: run_exit_def plift_def rret_def rmodify_def)
  then show ?thesis
  proof
    assume "ex = AdaptiveExit \<and> after_adaptive_body E W (pop r) = Some (x, r')"
    then have "inner_move r (pop r)" "inner_moves (pop r) r'"
      using m inner_opD [OF after_adaptive_body_inner] by auto
    then show ?thesis by (rule converse_rtranclp_into_rtranclp)
  qed (use m in auto)
qed

lemma take_step_inner:
  assumes top: "rt_stack r = Frame ss i ex u # fs" and "i < length ss" and run: "take_step ss i ex u r = (x, r')"
  shows "inner_move r r'"
proof -
  have "r' = r\<lparr>rt_stack := Frame ss (Suc i) ex u # fs, rt_taken := rt_taken r @ (if st_disabled (ss ! i) then [] else [ss ! i])\<rparr>"
    using run by (auto simp: take_step_def rbind_def rmodify_def rret_def set_top_def top split: if_splits)
  then show ?thesis using inner_take [OF top assms(2)] by simp
qed

lemma pop_inner: "rt_stack r = Frame ss i NoExit u # fs \<Longrightarrow> i \<ge> length ss \<or> \<not> u \<Longrightarrow> inner_move r (pop r)"
  using inner_leave [of r ss i NoExit u fs] by (simp add: pop_def)

lemma frame_round_inner:
  assumes top: "rt_stack r = Frame ss i ex u # fs" and run: "frame_round E W ss i ex u r = Some (x, r')"
  shows "inner_moves r r'"
proof (cases "i \<ge> length ss")
  case True
  show ?thesis
  proof (cases "ex = NoExit")
    case ne: True
    have "r' = pop r" using run True ne by (auto simp: frame_round_def pbind_def plift_def rmodify_def rret_def)
    then show ?thesis using pop_inner [of r ss i u fs] top True ne by auto
  next
    case False
    have "\<exists>y. run_exit E W ex (pop r) = Some (y, r')"
      using run True False by (auto simp: frame_round_def pbind_def plift_def rmodify_def rget_def split: option.splits sum.splits)
    then show ?thesis using run_exit_inner [OF top] True by blast
  qed
next
  case False
  then show ?thesis using run take_step_inner [OF top] by (auto simp: frame_round_def plift_def)
qed

lemma leave_frame_inner:
  assumes top: "rt_stack r = Frame ss i ex u # fs" and fin: "i \<ge> length ss \<or> \<not> u" and run: "leave_frame E W ex r = Some (x, r')"
  shows "inner_moves r r'"
proof (cases "ex = NoExit")
  case True
  have "r' = pop r" using run True by (auto simp: leave_frame_def pbind_def plift_def rmodify_def rret_def)
  then show ?thesis using pop_inner [of r ss i u fs] top fin True by auto
next
  case False
  obtain y r1 where "run_exit E W ex (pop r) = Some (y, r1)" "quiet r1 r'"
    using run False
    by (auto simp: leave_frame_def pbind_def plift_def rmodify_def rret_def rbind_def split: option.splits sum.splits)
  then show ?thesis using run_exit_inner [OF top fin] quiet_inner by (meson rtranclp_trans)
qed

lemma try_round_inner:
  assumes "rt_stack r = TryFrame ss fin # fs"
  shows "inner_move r (try_round ss fin r)"
proof (cases fin)
  case True
  then show ?thesis using inner_drop [OF assms] by (simp add: try_round_def pop_def assms)
next
  case False
  then show ?thesis
    using inner_finally [of r ss fs] assms by (cases ss) (simp_all add: try_round_def push_def set_top_def)
qed

lemma drop_inner: "rt_stack r = f # fs \<Longrightarrow> droppable f \<Longrightarrow> inner_move r (pop r)"
  using inner_drop [of r f fs] by (simp add: pop_def)

lemma quiet_set_top: "rt_stack r = f # fs \<Longrightarrow> frame_like f g \<Longrightarrow> quiet r (set_top g r)"
  by (simp add: quiet_def set_top_def list_all2_refl)

lemma push_body_inner:
  assumes "quiet r r1" "rt_stack r1 = f # fs" "loop_body f = Some g"
  shows "inner_moves r (push g r1)"
proof -
  have "inner_move r1 (push g r1)" using inner_body [OF assms(2,3)] by (simp add: push_def assms(2))
  then show ?thesis using quiet_inner [OF assms(1)] by (simp add: rtranclp.rtrancl_into_rtrancl)
qed

lemma quiet_stack_like: "quiet r r' \<Longrightarrow> rt_stack r = f # fs \<Longrightarrow> \<exists>g gs. rt_stack r' = g # gs \<and> frame_like f g"
  by (auto simp: quiet_def list_all2_Cons1)

lemma frame_like_loop_body: "frame_like f g \<Longrightarrow> loop_body g = loop_body f"
  by (cases f) auto

lemma for_round_inner:
  assumes top: "rt_stack r = ForFrame b rs i body # fs"
    and run: "top_round E W (ForFrame b rs i body) r = Some (x, r')"
  shows "inner_moves r r'"
proof (cases "i \<ge> length rs")
  case True
  then have "r' = pop r" using run by (auto simp: top_round_def plift_def rbind_def rmodify_def rret_def)
  then show ?thesis using drop_inner [OF top] by auto
next
  case False
  define r1 where "r1 = set_top (ForFrame b rs (Suc i) body) r"
  have q1: "quiet r r1" unfolding r1_def by (rule quiet_set_top [OF top]) simp
  obtain y r2 where bd: "bind_record E b (rs ! i) i r1 = (y, r2)" by (cases "bind_record E b (rs ! i) i r1")
  have q2: "quiet r r2" using quiet_trans [OF q1 calmD [OF calm_bind_record bd]] .
  obtain g gs where s2: "rt_stack r2 = g # gs" "loop_body g = Some (body_frame body)"
    using quiet_stack_like [OF q2 top] by auto
  have "r' = (case y of Inl _ \<Rightarrow> r2 | Inr _ \<Rightarrow> push (body_frame body) r2)"
    using run False bd by (auto simp: top_round_def plift_def rbind_def rmodify_def rret_def r1_def split: sum.splits prod.splits)
  then show ?thesis using quiet_inner [OF q2] push_body_inner [OF q2 s2] by (cases y) auto
qed

lemma repeat_round_inner:
  assumes top: "rt_stack r = RepeatFrame n body t # fs"
    and run: "top_round E W (RepeatFrame n body t) r = Some (x, r')"
  shows "inner_moves r r'"
proof (cases "n \<le> 0")
  case True
  then have "r' = pop r" using run by (auto simp: top_round_def plift_def rbind_def rmodify_def rret_def)
  then show ?thesis using drop_inner [OF top] by auto
next
  case False
  have q: "quiet r (set_top (RepeatFrame (n - 1) body t) r)" by (rule quiet_set_top [OF top]) simp
  have "r' = push (body_frame body) (set_top (RepeatFrame (n - 1) body t) r)"
    using run False by (auto simp: top_round_def plift_def rbind_def rmodify_def rret_def)
  then show ?thesis using push_body_inner [OF q] by (simp add: set_top_def)
qed

lemma while_round_inner:
  assumes top: "rt_stack r = WhileFrame c body n # fs"
    and run: "top_round E W (WhileFrame c body n) r = Some (x, r')"
  shows "inner_moves r r'"
proof -
  obtain y r1 where ev: "eval_condition_rt E W c ''while'' False r = (y, r1)" by (cases "eval_condition_rt E W c ''while'' False r")
  have q1: "quiet r r1" using calmD [OF calm_eval_condition_rt ev] .
  obtain g gs where s1: "rt_stack r1 = g # gs" "frame_like (WhileFrame c body n) g" using quiet_stack_like [OF q1 top] by blast
  then obtain m where g: "g = WhileFrame c body m" by auto
  have q2: "quiet r (set_top (WhileFrame c body (Suc n)) r1)"
    by (rule quiet_trans [OF q1 quiet_set_top [OF s1(1)]]) (simp add: g)
  have d: "inner_moves r (pop r1)"
    using rtranclp.rtrancl_into_rtrancl [OF quiet_inner [OF q1] drop_inner [OF s1(1)]] by (simp add: g)
  have "r' = (case y of Inl _ \<Rightarrow> r1 | Inr ok \<Rightarrow> if ok then push (body_frame body) (set_top (WhileFrame c body (Suc n)) r1) else pop r1)"
    using run ev by (auto simp: top_round_def plift_def rbind_def rmodify_def rret_def split: sum.splits if_splits)
  then show ?thesis using quiet_inner [OF q1] push_body_inner [OF q2] d by (auto simp: set_top_def split: sum.splits)
qed

lemma rbind_cases:
  assumes "rbind m f r = (x, r')"
  obtains (raised) e where "m r = (Inl e, r')" "x = Inl e"
    | (went) y r1 where "m r = (Inr y, r1)" "f y r1 = (x, r')"
  using assms by (auto simp: rbind_def split: prod.splits sum.splits)

text \<open>Below, an operation runs with a frame like \<open>f\<close> on top.\<close>

definition frame_op :: "frame \<Rightarrow> 'a rt \<Rightarrow> bool" where
  "frame_op f m \<longleftrightarrow> (\<forall>r g fs x r'. rt_stack r = g # fs \<longrightarrow> frame_like f g \<longrightarrow> m r = (x, r') \<longrightarrow> inner_moves r r')"

lemma frame_op_calm: "calm m \<Longrightarrow> frame_op f m"
  by (auto simp: frame_op_def intro: quiet_inner calmD)

lemma frame_op_rbind:
  assumes "calm m" "\<And>y. frame_op f (k y)"
  shows "frame_op f (rbind m k)"
  unfolding frame_op_def
proof (intro allI impI)
  fix r g fs x r'
  assume top: "rt_stack r = g # fs" and like: "frame_like f g" and run: "rbind m k r = (x, r')"
  from run show "inner_moves r r'"
  proof (cases rule: rbind_cases)
    case (raised e)
    then show ?thesis using calmD [OF assms(1)] quiet_inner by blast
  next
    case (went y r1)
    have q: "quiet r r1" using calmD [OF assms(1) went(1)] .
    obtain g1 gs1 where "rt_stack r1 = g1 # gs1" "frame_like f g1"
      using quiet_stack_like [OF q top] frame_like_trans [OF like] by blast
    with assms(2) [of y] went(2) have "inner_moves r1 r'" by (auto simp: frame_op_def)
    with quiet_inner [OF q] show ?thesis by (rule rtranclp_trans)
  qed
qed

lemma frame_op_pop: "(\<And>g. frame_like f g \<Longrightarrow> droppable g) \<Longrightarrow> frame_op f (rbind (rmodify pop) (\<lambda>_. rret v))"
  by (auto simp: frame_op_def rbind_def rmodify_def rret_def intro: drop_inner)

lemma frame_op_push: "loop_body f = Some b \<Longrightarrow> frame_op f (rbind (rmodify (push b)) (\<lambda>_. rret v))"
  using push_body_inner [OF quiet_refl] frame_like_loop_body by (fastforce simp: frame_op_def rbind_def rmodify_def rret_def)

lemma frame_op_set:
  assumes "\<And>f'. frame_like f f' \<Longrightarrow> frame_like f' g" "frame_like f g" "\<And>y. frame_op f (k y)"
  shows "frame_op f (rbind (rmodify (set_top g)) k)"
  unfolding frame_op_def
proof (intro allI impI)
  fix r f' fs x r'
  assume top: "rt_stack r = f' # fs" and like: "frame_like f f'" and run: "rbind (rmodify (set_top g)) k r = (x, r')"
  have q: "quiet r (set_top g r)" using quiet_set_top [OF top] assms(1) [OF like] .
  have "k () (set_top g r) = (x, r')" using run by (simp add: rbind_def rmodify_def)
  moreover have "rt_stack (set_top g r) = g # fs" by (simp add: set_top_def top)
  ultimately have "inner_moves (set_top g r) r'" using assms(3) [of "()"] assms(2) by (auto simp: frame_op_def)
  with quiet_inner [OF q] show "inner_moves r r'" by (rule rtranclp_trans)
qed

lemma adaptive_round_op: "frame_op (AdaptiveFrame a) (adaptive_round E W a)"
proof (cases "af_proposal a")
  case (Some p)
  then show ?thesis by (simp add: adaptive_round_def) (intro frame_op_calm calm_simple)
next
  case None
  have p: "frame_op (AdaptiveFrame a) (rbind (rmodify pop) (\<lambda>_. rret v))" for v :: "step_result option"
    by (rule frame_op_pop) auto
  show ?thesis
    unfolding adaptive_round_def
    using None
    by (simp, intro frame_op_rbind calm_proposal calm_ask)
      (auto intro!: p frame_op_rbind [OF calm_proposal(1)] frame_op_rbind [OF calm_proposal(2)] frame_op_rbind [OF calm_ask]
        frame_op_set frame_op_push)
qed

lemma top_round_inner:
  assumes top: "rt_stack r = f # fs" and run: "top_round E W f r = Some (x, r')"
  shows "inner_moves r r'"
proof (cases f)
  case (Frame ss i ex u)
  then show ?thesis using frame_round_inner [of r ss i ex u fs] top run by (simp add: top_round_def)
next
  case (TryFrame ss fin)
  then show ?thesis
    using run try_round_inner [of r ss fin fs] top by (auto simp: top_round_def plift_def rbind_def rmodify_def rret_def)
next
  case (AdaptiveFrame a)
  then show ?thesis using run adaptive_round_op [of a E W] top by (auto simp: top_round_def plift_def frame_op_def)
next
  case (ForFrame b rs i body)
  then show ?thesis using for_round_inner top run by simp
next
  case (RepeatFrame n body t)
  then show ?thesis using repeat_round_inner top run by simp
next
  case (WhileFrame c body n)
  then show ?thesis using while_round_inner top run by simp
qed

lemma next_step_above_inner: "next_step_above E W base r = Some y \<Longrightarrow> inner_moves r (snd y)"
proof (rule next_step_above.raw_induct [where P = "\<lambda>E W base r y. inner_moves r (snd y)"])
  fix self E W base r y
  assume IH: "\<And>E W base r y. self E W base r = Some y \<Longrightarrow> inner_moves r (snd y)"
    and run: "(case rt_stack r of
        [] \<Rightarrow> Some (Inr NoStep, r)
      | f # fs \<Rightarrow>
          if length (f # fs) \<le> base then Some (Inr NoStep, r)
          else (case top_round E W f r of
                  None \<Rightarrow> None
                | Some (Inl e, r') \<Rightarrow> Some (Inl e, r')
                | Some (Inr (Some res), r') \<Rightarrow> Some (Inr res, r')
                | Some (Inr None, r') \<Rightarrow> self E W base r')) = Some y"
  show "inner_moves r (snd y)"
  proof (cases "rt_stack r")
    case (Cons f fs)
    have t: "top_round E W f r = Some (x, r') \<Longrightarrow> inner_moves r r'" for x r'
      using top_round_inner [OF Cons] .
    have i: "self E W base r' = Some y \<Longrightarrow> inner_moves r r' \<Longrightarrow> inner_moves r (snd y)" for r'
      using IH by (meson rtranclp_trans)
    show ?thesis
      using run t i by (auto simp: Cons split: if_splits option.splits sum.splits)
  qed (use run in auto)
qed

lemma unwind_round_inner:
  assumes top: "rt_stack r = f # fs" and run: "unwind_round E W f r = Some (x, r')"
  shows "inner_moves r r'"
proof (cases f)
  case (Frame ss i ex u)
  show ?thesis
  proof (cases "\<not> u \<or> i \<ge> length ss")
    case True
    then have "i \<ge> length ss \<or> \<not> u" by blast
    then show ?thesis using leave_frame_inner [of r ss i ex u fs] top run True by (auto simp: unwind_round_def Frame)
  next
    case False
    then show ?thesis using take_step_inner [of r ss i ex u fs] top run by (auto simp: unwind_round_def Frame plift_def)
  qed
next
  case (TryFrame ss fin)
  then show ?thesis
    using run try_round_inner [of r ss fin fs] top by (auto simp: unwind_round_def plift_def rbind_def rmodify_def rret_def)
qed (use drop_inner [OF top] run in \<open>auto simp: unwind_round_def plift_def rbind_def rmodify_def rret_def\<close>)

lemma unwind_inner: "next_terminal_unwind_step E W r = Some y \<Longrightarrow> inner_moves r (snd y)"
proof (rule next_terminal_unwind_step.raw_induct [where P = "\<lambda>E W r y. inner_moves r (snd y)"])
  fix self E W r y
  assume IH: "\<And>E W r y. self E W r = Some y \<Longrightarrow> inner_moves r (snd y)"
    and run: "(case rt_stack r of
        [] \<Rightarrow> Some (Inr NoStep, r)
      | f # fs \<Rightarrow>
          if inside_unwind_body (f # fs)
          then (case next_step_above E W (length (f # fs) - length (above_unwind_body (f # fs))) r of
                  None \<Rightarrow> None
                | Some (Inl e, r') \<Rightarrow> Some (Inl e, r')
                | Some (Inr NoStep, r') \<Rightarrow> self E W r'
                | Some (Inr (NextStep s), r') \<Rightarrow> Some (Inr (NextStep s), r')
                | Some (Inr NoStepReady, r') \<Rightarrow> Some (Inr NoStepReady, r'))
          else (case unwind_round E W f r of
                  None \<Rightarrow> None
                | Some (Inl e, r') \<Rightarrow> Some (Inl e, r')
                | Some (Inr (Some res), r') \<Rightarrow> Some (Inr res, r')
                | Some (Inr None, r') \<Rightarrow> self E W r')) = Some y"
  have a: "next_step_above E W n r = Some (x, r') \<Longrightarrow> inner_moves r r'" for n x r'
    using next_step_above_inner by fastforce
  show "inner_moves r (snd y)"
  proof (cases "rt_stack r")
    case (Cons f fs)
    have u: "unwind_round E W f r = Some (x, r') \<Longrightarrow> inner_moves r r'" for x r'
      using unwind_round_inner [OF Cons] .
    have i: "self E W r' = Some y \<Longrightarrow> inner_moves r r' \<Longrightarrow> inner_moves r (snd y)" for r'
      using IH by (meson rtranclp_trans)
    show ?thesis
      using run a u i
      by (auto simp: Cons split: if_splits option.splits sum.splits step_result.splits)
  qed (use run in auto)
qed

lemma next_step_inner: "next_step E W r = Some (x, r') \<Longrightarrow> inner_moves r r'"
  using unwind_inner next_step_above_inner by (fastforce simp: next_step_def split: if_splits)

section \<open>Ending a run\<close>

lemma quiet_stack_same:
  assumes "quiet r r'" "\<And>f. f \<in> set (rt_stack r) \<Longrightarrow> P f" "\<And>f g. frame_like f g \<Longrightarrow> P f \<Longrightarrow> P g"
  shows "\<forall>f\<in>set (rt_stack r'). P f"
proof
  fix g assume "g \<in> set (rt_stack r')"
  then obtain i where i: "i < length (rt_stack r')" "g = rt_stack r' ! i" by (auto simp: in_set_conv_nth)
  from assms(1) have l: "list_all2 frame_like (rt_stack r) (rt_stack r')" by (simp add: quiet_def)
  have "i < length (rt_stack r)" using list_all2_lengthD [OF l] i by simp
  with list_all2_nthD2 [OF l i(1)] i(2) show "P g" using assms(2,3) by (meson nth_mem)
qed

lemma frame_like_work: "frame_like f g \<Longrightarrow> has_exit g = has_exit f \<and> is_unwind_body g = is_unwind_body f \<and> is_open_try g = is_open_try f"
  by (cases f) auto

lemma quiet_no_work: "quiet r r' \<Longrightarrow> \<not> has_terminal_unwind_work r \<Longrightarrow> \<not> has_terminal_unwind_work r'"
  using quiet_stack_same [of r r' "\<lambda>f. \<not> (has_exit f \<or> is_unwind_body f \<or> is_open_try f)"] frame_like_work
  by (auto simp: has_terminal_unwind_work_def list_ex_iff)

lemma moves_via: "quiet r r1 \<Longrightarrow> move W strict r1 r2 \<Longrightarrow> quiet r2 r' \<Longrightarrow> moves W strict r r'"
  by (rule rtranclp_trans [OF quiet_moves rtranclp_trans [OF r_into_rtranclp quiet_moves]])

lemma moves_halt:
  assumes "quiet r r1" "\<not> has_terminal_unwind_work r1" "pd = None \<or> pd = rt_pending_state r1"
    "quiet (r1\<lparr>rt_state := st, rt_pending_state := pd\<rparr>) r'"
  shows "moves W strict r r'"
  using assms(1) move_halt [OF assms(2,3)] assms(4) by (rule moves_via)

lemma begin_unwind_moves:
  assumes "begin_terminal_unwind W st err r = (b, r')"
  shows "moves W strict r r' \<and> (\<not> b \<longrightarrow> r' = r \<and> \<not> has_terminal_unwind_work r)"
proof (cases "rt_pending_state r = None \<and> has_terminal_unwind_work r")
  case False
  then show ?thesis using assms by (auto simp: begin_terminal_unwind_def has_terminal_unwind_work_def split: if_splits)
next
  case True
  define r1 where "r1 = abandon_active_step (sw_mono W (rt_io r)) (uses r)"
  have q1: "quiet r r1" unfolding r1_def by (rule quiet_trans [OF quiet_uses]) simp
  have p: "rt_pending_state r1 = None" using q1 True by (simp add: quiet_def)
  have r': "b" "r' = (clear_pending (r1\<lparr>rt_pending_state := Some st, rt_pending_error := err, rt_cleanup_failed := False,
      rt_cleanup_errors := []\<rparr>))\<lparr>rt_detail := None\<rparr>"
    using assms True by (auto simp: begin_terminal_unwind_def clock_def r1_def Let_def)
  have "quiet (r1\<lparr>rt_pending_state := Some st\<rparr>) r'"
    unfolding r'(2) by (rule quietI) (simp_all add: clear_pending_def clear_parallel_def clear_set_context_def)
  with q1 move_unwind [OF p] have "moves W strict r r'" by (rule moves_via)
  with r'(1) show ?thesis by simp
qed

lemma quiet_state_change: "quiet (r\<lparr>rt_state := st, rt_pending_state := rt_pending_state r\<rparr>) (r\<lparr>rt_last_error := e, rt_state := st\<rparr>)"
  by (rule quietI) simp_all

lemma fail_step_moves: "fail_step E W msg r = (b, r') \<Longrightarrow> moves W strict r r'"
proof (cases "rt_pending_state r = None")
  case False
  assume "fail_step E W msg r = (b, r')"
  with False show ?thesis by (auto simp: fail_step_def intro: quiet_moves)
next
  case True
  assume run: "fail_step E W msg r = (b, r')"
  define r1 where "r1 = record_event W ''error'' ''step_failed'' msg (current_detail r) None None
     (r\<lparr>rt_error_detail := Some (make_error_detail (plain E) msg r)\<rparr>)"
  have q1: "quiet r r1" unfolding r1_def by (rule quiet_trans [OF _ quiet_record_event]) (rule quietI, simp_all)
  obtain b2 r2 where bg: "begin_terminal_unwind W ERROR (Some msg) r1 = (b2, r2)" by (cases "begin_terminal_unwind W ERROR (Some msg) r1")
  have r': "r' = (if b2 then r2 else r2\<lparr>rt_last_error := Some msg, rt_state := ERROR\<rparr>)"
    using run True bg by (auto simp: fail_step_def r1_def Let_def split: bool.splits)
  from begin_unwind_moves [OF bg, of strict] have m: "moves W strict r1 r2" and nb: "\<not> b2 \<longrightarrow> r2 = r1 \<and> \<not> has_terminal_unwind_work r1" by auto
  show ?thesis
  proof (cases b2)
    case True
    then show ?thesis using r' rtranclp_trans [OF quiet_moves [OF q1] m] by simp
  next
    case False
    have "moves W strict r (r1\<lparr>rt_last_error := Some msg, rt_state := ERROR\<rparr>)"
      by (rule moves_halt [OF q1, of "rt_pending_state r1" ERROR]) (use nb False quiet_state_change in auto)
    then show ?thesis using r' nb False by simp
  qed
qed

lemma finish_pending_moves:
  assumes "rt_stack r = []"
  shows "moves W strict r (finish_pending_terminal W r)"
proof -
  define final where "final = (if rt_cleanup_failed r then ERROR else case rt_pending_state r of Some s \<Rightarrow> s | None \<Rightarrow> STOPPED)"
  have "quiet (r\<lparr>rt_state := final, rt_pending_state := None\<rparr>) (finish_pending_terminal W r)"
    by (rule quietI) (simp_all add: finish_pending_terminal_def Let_def clock_def final_def clear_pending_def clear_parallel_def clear_set_context_def)
  then show ?thesis
    using assms by (intro moves_halt [OF quiet_refl, of r None final]) (simp_all add: has_terminal_unwind_work_def)
qed

lemma check_stop_pause_moves:
  assumes "check_stop_pause W r = (b, r')"
  shows "moves W strict r r' \<and> (\<not> b \<longrightarrow> r' = r)"
proof (cases "rt_stop_requested r \<and> interruptible r")
  case True
  define now where "now = sw_mono W (rt_io r)"
  define r1 where "r1 = (mark_pause_ended now (uses r))\<lparr>rt_stop_requested := False\<rparr>"
  have q1: "quiet r r1" unfolding r1_def
    by (rule quiet_trans [OF quiet_trans [OF quiet_uses quiet_pause_marks(2)]]) (rule quietI, simp_all)
  obtain b2 r2 where bg: "begin_terminal_unwind W STOPPED None r1 = (b2, r2)" by (cases "begin_terminal_unwind W STOPPED None r1")
  have res: "b" "r' = (if b2 then r2 else (abandon_active_step now (clear_set_context r2))\<lparr>rt_state := STOPPED, rt_ended := Some now\<rparr>)"
    using assms True bg by (auto simp: check_stop_pause_def clock_def r1_def now_def Let_def split: bool.splits)
  from begin_unwind_moves [OF bg, of strict] have m: "moves W strict r1 r2" and nb: "\<not> b2 \<longrightarrow> r2 = r1 \<and> \<not> has_terminal_unwind_work r1" by auto
  have "quiet (r1\<lparr>rt_state := STOPPED, rt_pending_state := rt_pending_state r1\<rparr>)
      ((abandon_active_step now (clear_set_context r1))\<lparr>rt_state := STOPPED, rt_ended := Some now\<rparr>)"
    by (rule quietI) (simp_all add: abandon_active_step_def clear_set_context_def)
  then have "\<not> b2 \<Longrightarrow> moves W strict r r'"
    using moves_halt [OF q1, of "rt_pending_state r1" STOPPED] nb res by simp
  moreover have "b2 \<Longrightarrow> moves W strict r r'" using res rtranclp_trans [OF quiet_moves [OF q1] m] by simp
  ultimately show ?thesis using res(1) by blast
next
  case False
  show ?thesis
  proof (cases "rt_pause_requested r \<and> interruptible r")
    case no: False
    then show ?thesis using assms False by (auto simp: check_stop_pause_def)
  next
    case True
    define r1 where "r1 = mark_pause_started (sw_mono W (rt_io r)) (uses r)"
    have q1: "quiet r r1" unfolding r1_def by (rule quiet_trans [OF quiet_uses]) simp
    have "\<exists>i. b \<and> r' = enter_pause W i (r1\<lparr>rt_state := PAUSED\<rparr>)"
      using assms False True by (auto simp: check_stop_pause_def clock_def r1_def Let_def)
    then show ?thesis using moves_via [OF q1 move_pause quiet_enter_pause] by blast
  qed
qed


section \<open>Properties of all steps\<close>

text \<open>A property of every step a run can come across, and of the frames made of them.\<close>

function all_kinds :: "(kind \<Rightarrow> bool) \<Rightarrow> step \<Rightarrow> bool" where
  "all_kinds P (Step d k) = (P k \<and> (\<forall>b\<in>set (kind_bodies k). \<forall>s\<in>set b. all_kinds P s))"
  by pat_completeness auto
termination by (relation "measure (\<lambda>(P, s). size s)") (auto dest: in_bodies_size)

fun frame_all :: "(kind \<Rightarrow> bool) \<Rightarrow> frame \<Rightarrow> bool" where
  "frame_all P (Frame ss _ _ _) = list_all (all_kinds P) ss"
| "frame_all P (ForFrame _ _ _ body) = list_all (all_kinds P) body"
| "frame_all P (RepeatFrame _ body _) = list_all (all_kinds P) body"
| "frame_all P (TryFrame ss _) = list_all (all_kinds P) ss"
| "frame_all P (WhileFrame c body _) = (P (WhileStep c body) \<and> list_all (all_kinds P) body)"
| "frame_all P (AdaptiveFrame a) = (P (AdaptiveStep (af_spec a) (af_body a)) \<and> list_all (all_kinds P) (af_body a))"

definition library_all :: "(kind \<Rightarrow> bool) \<Rightarrow> seq_world \<Rightarrow> bool" where
  "library_all P W \<longleftrightarrow> (\<forall>name spec. resolve_use_spec W name = Inr spec \<longrightarrow> list_all (all_kinds P) (sq_steps spec))"

definition run_all :: "(kind \<Rightarrow> bool) \<Rightarrow> runtime \<Rightarrow> bool" where
  "run_all P r \<longleftrightarrow> list_all (frame_all P) (rt_stack r) \<and> list_all (all_kinds P) (rt_taken r)
     \<and> (case rt_spec r of None \<Rightarrow> True | Some spec \<Rightarrow> list_all (all_kinds P) (sq_steps spec))"

lemma all_kinds_body: "all_kinds P s \<Longrightarrow> b \<in> set (kind_bodies (st_kind s)) \<Longrightarrow> list_all (all_kinds P) b"
  by (cases s) (auto simp: list_all_iff)

lemma all_kinds_kind: "all_kinds P s \<Longrightarrow> P (st_kind s)"
  by (cases s) auto

lemma frame_like_all: "frame_like f g \<Longrightarrow> frame_all P f \<Longrightarrow> frame_all P g"
  by (cases f) auto

lemma quiet_run_all: "quiet r r' \<Longrightarrow> run_all P r \<Longrightarrow> run_all P r'"
proof -
  assume q: "quiet r r'" and a: "run_all P r"
  have "\<forall>f\<in>set (rt_stack r'). frame_all P f"
    by (rule quiet_stack_same [OF q]) (use a in \<open>auto simp: run_all_def list_all_iff intro: frame_like_all\<close>)
  with q a show ?thesis by (simp add: run_all_def quiet_def list_all_iff)
qed

lemma leave_effect_fields [simp]:
  "rt_stack (leave_effect ex r) = rt_stack r" "rt_taken (leave_effect ex r) = rt_taken r" "rt_spec (leave_effect ex r) = rt_spec r"
  "rt_state (leave_effect ex r) = rt_state r" "rt_pending_state (leave_effect ex r) = rt_pending_state r"
  by (cases ex; simp)+

lemma loop_body_all: "loop_body f = Some g \<Longrightarrow> frame_all P f \<Longrightarrow> frame_all P g"
  by (cases f) auto

lemma inner_move_run_all: "inner_move r r' \<Longrightarrow> run_all P r \<Longrightarrow> run_all P r'"
proof (induction rule: inner_move.induct)
  case (inner_quiet r r')
  then show ?case by (rule quiet_run_all)
next
  case (inner_body r f fs g)
  then show ?case using loop_body_all [of f g P] by (simp add: run_all_def)
qed (auto simp: run_all_def list_all_iff)

lemma entry_all: "all_kinds P s \<Longrightarrow> entry (st_kind s) fs \<Longrightarrow> list_all (frame_all P) fs"
  using all_kinds_body [of P s] all_kinds_kind [of P s] by (cases "st_kind s") auto

lemma move_run_all:
  assumes "library_all P W" "move W strict r r'" "run_all P r"
  shows "run_all P r'"
  using assms(2,3)
proof (induction rule: move.induct)
  case (move_inner r r')
  then show ?case using inner_move_run_all by blast
next
  case (move_enter s r fs)
  then have "list_all (frame_all P) fs" by (intro entry_all [of P s]) (auto simp: just_taken_def run_all_def list_all_iff)
  with move_enter show ?case by (simp add: run_all_def)
next
  case (move_atomic s r name body)
  then have "all_kinds P s" by (auto simp: just_taken_def run_all_def list_all_iff)
  from all_kinds_body [OF this, of body] move_atomic show ?case by (simp add: run_all_def)
next
  case (move_use s r raw args spec name v)
  then show ?case using assms(1) by (auto simp: run_all_def library_all_def)
qed (auto simp: run_all_def)

lemma moves_run_all: "moves W strict r r' \<Longrightarrow> library_all P W \<Longrightarrow> run_all P r \<Longrightarrow> run_all P r'"
  by (induction rule: rtranclp_induct) (auto intro: move_run_all)

lemma inner_moves_run_all: "inner_moves r r' \<Longrightarrow> run_all P r \<Longrightarrow> run_all P r'"
  by (induction rule: rtranclp_induct) (auto intro: inner_move_run_all)

fun tolerates_trials :: "kind \<Rightarrow> bool" where
  "tolerates_trials (AdaptiveStep spec _) = (\<not> as_fail_on_trial_error spec)"
| "tolerates_trials _ = True"

lemma inner_move_live: "inner_move r r' \<Longrightarrow> run_all tolerates_trials r \<Longrightarrow> run_live r' = run_live r"
proof (induction rule: inner_move.induct)
  case (inner_quiet r r')
  then show ?case using quiet_live by blast
qed (auto simp: run_live_def run_all_def)

lemma inner_moves_live: "inner_moves r r' \<Longrightarrow> run_all tolerates_trials r \<Longrightarrow> run_live r' = run_live r"
  by (induction rule: rtranclp_induct) (auto dest: inner_move_live inner_moves_run_all)

lemma inner_move_pending: "inner_move r r' \<Longrightarrow> rt_pending_state r' = rt_pending_state r"
  by (induction rule: inner_move.induct) (auto simp: quiet_def)

lemma inner_moves_pending: "inner_moves r r' \<Longrightarrow> rt_pending_state r' = rt_pending_state r"
  by (induction rule: rtranclp_induct) (auto dest: inner_move_pending)

end
