(* ===== verification/Sequencer_Ticks.thy ===== *)
theory Sequencer_Ticks
  imports Sequencer_Control
begin

text \<open>
  Every tick of the sequencer runtime, and every request made of it between ticks, is a sequence
  of moves of the control machine.
\<close>

section \<open>Step handlers\<close>

text \<open>An operation run for a step that has been taken, with the run alive if the moves are strict.\<close>

definition ready :: "bool \<Rightarrow> step \<Rightarrow> runtime \<Rightarrow> bool" where
  "ready strict s r \<longleftrightarrow> just_taken s r \<and> (strict \<longrightarrow> run_live r)"

lemma quiet_just_taken: "quiet r r' \<Longrightarrow> just_taken s r \<Longrightarrow> just_taken s r'"
  by (auto simp: just_taken_def quiet_def list_all2_Cons1)

lemma quiet_ready: "quiet r r' \<Longrightarrow> ready strict s r \<Longrightarrow> ready strict s r'"
  using quiet_live [of r r'] by (simp add: ready_def quiet_just_taken)

definition step_op :: "seq_world \<Rightarrow> bool \<Rightarrow> step \<Rightarrow> 'a rt \<Rightarrow> bool" where
  "step_op W strict s m \<longleftrightarrow> (\<forall>r x r'. ready strict s r \<longrightarrow> m r = (x, r') \<longrightarrow> moves W strict r r')"

named_theorems step_intros

lemma step_op_calm: "calm m \<Longrightarrow> step_op W strict s m"
  by (auto simp: step_op_def intro: quiet_moves calmD)

lemma step_op_fail [step_intros]: "step_op W strict s (rrun (fail_step E W msg))"
  by (auto simp: step_op_def rrun_def split: prod.splits dest: fail_step_moves)

lemma step_op_rbind:
  assumes "calm m" "\<And>y. step_op W strict s (k y)"
  shows "step_op W strict s (rbind m k)"
  unfolding step_op_def
proof (intro allI impI)
  fix r x r'
  assume rd: "ready strict s r" and run: "rbind m k r = (x, r')"
  from run show "moves W strict r r'"
  proof (cases rule: rbind_cases)
    case (raised e)
    then show ?thesis using calmD [OF assms(1)] quiet_moves by blast
  next
    case (went y r1)
    have q: "quiet r r1" using calmD [OF assms(1) went(1)] .
    with assms(2) [of y] went(2) quiet_ready [OF q rd] have "moves W strict r1 r'" by (simp add: step_op_def)
    with quiet_moves [OF q] show ?thesis by (rule rtranclp_trans)
  qed
qed

lemma step_op_if: "(b \<Longrightarrow> step_op W strict s m) \<Longrightarrow> (\<not> b \<Longrightarrow> step_op W strict s n) \<Longrightarrow> step_op W strict s (if b then m else n)"
  by simp

lemma step_op_option: "(v = None \<Longrightarrow> step_op W strict s m) \<Longrightarrow> (\<And>y. v = Some y \<Longrightarrow> step_op W strict s (f y)) \<Longrightarrow>
    step_op W strict s (case v of None \<Rightarrow> m | Some y \<Rightarrow> f y)"
  by (cases v) auto

lemma step_op_list: "(xs = [] \<Longrightarrow> step_op W strict s m) \<Longrightarrow> (\<And>y ys. xs = y # ys \<Longrightarrow> step_op W strict s (f y ys)) \<Longrightarrow>
    step_op W strict s (case xs of [] \<Rightarrow> m | y # ys \<Rightarrow> f y ys)"
  by (cases xs) auto

lemma step_op_prod: "(\<And>a b. p = (a, b) \<Longrightarrow> step_op W strict s (f a b)) \<Longrightarrow> step_op W strict s (case p of (a, b) \<Rightarrow> f a b)"
  by (cases p) auto

lemma step_op_let: "(\<And>x. x = t \<Longrightarrow> step_op W strict s (f x)) \<Longrightarrow> step_op W strict s (let x = t in f x)"
  by simp

lemmas step_cases = step_op_if step_op_option step_op_list step_op_prod step_op_let

text \<open>The last act of a handler that opens a block.\<close>

lemma step_op_move:
  assumes "\<And>r. ready strict s r \<Longrightarrow> move W strict r (f r)"
  shows "step_op W strict s (rbind (rmodify f) (\<lambda>_. rret v))"
  using assms by (auto simp: step_op_def rbind_def rmodify_def rret_def)

lemma step_op_push:
  assumes "entry (st_kind s) [g]"
  shows "step_op W strict s (rbind (rmodify (push g)) (\<lambda>_. rret v))"
  by (rule step_op_move) (use move_enter [of s _ strict "[g]" W] assms in \<open>auto simp: ready_def push_def\<close>)

lemma calm_wait [calm_intros]: "calm (start_wait_until E W raw)"
proof -
  have u: "quiet r (r\<lparr>rt_wait := x\<rparr>)" for r x by simp
  show ?thesis
    unfolding start_wait_until_def Let_def
    by (rule calm_state [of _ env_view]) (intro calm_intros quiet_clock u)
qed

lemma for_op: "st_kind s = ForStep b v body \<Longrightarrow> step_op W strict s (execute_for_step E W b v body)"
  unfolding execute_for_step_def Let_def step_op_def
proof (intro allI impI)
  fix r x r'
  assume k: "st_kind s = ForStep b v body" and rd: "ready strict s r"
    and run: "rbind (render E v) (\<lambda>rendered. rbind (rpy (serpentine_index E (rt_env r))) (\<lambda>idx.
        rbind (rlift (records_from_rendered E W rendered (env_view r) idx)) (\<lambda>records.
        rbind (rmodify (push (ForFrame b records 0 body))) (\<lambda>_. rret False)))) r = (x, r')"
  have "step_op W strict s (rbind (render E v) (\<lambda>rendered. rbind (rpy (serpentine_index E (rt_env r))) (\<lambda>idx.
        rbind (rlift (records_from_rendered E W rendered (env_view r) idx)) (\<lambda>records.
        rbind (rmodify (push (ForFrame b records 0 body))) (\<lambda>_. rret False)))))"
    by (intro step_op_rbind calm_render calm_simple step_op_push) (simp add: k)
  with rd run show "moves W strict r r'" by (simp add: step_op_def)
qed

lemma block_ops:
  "st_kind s = RepeatStep n body \<Longrightarrow> step_op W strict s (execute_repeat_step E n body)"
  "st_kind s = IfStep c t e \<Longrightarrow> step_op W strict s (execute_if_step E W c t e)"
  "st_kind s = WhileStep c body \<Longrightarrow> step_op W strict s (rbind (rmodify (push (WhileFrame c body 0))) (\<lambda>_. rret False))"
  unfolding execute_repeat_step_def execute_if_step_def
  by (intro step_op_rbind calm_render calm_simple calm_eval_condition_rt step_op_push; simp)+

lemma try_op: "st_kind s = TryStep body fin \<Longrightarrow> step_op W strict s (execute_try_step body fin)"
  unfolding execute_try_step_def
  by (rule step_op_move) (use move_enter [of s _ strict "[body_frame body, TryFrame fin False]" W] in \<open>auto simp: ready_def push_def\<close>)

lemma atomic_op: "st_kind s = AtomicStep n body \<Longrightarrow> step_op W strict s (execute_atomic_step body)"
  unfolding execute_atomic_step_def
  by (rule step_op_move) (use move_atomic [of s _ strict n body W] in \<open>auto simp: ready_def push_def\<close>)

lemma calm_merged_use_vars [calm_intros]: "calm (merged_use_vars E spec args)"
  unfolding calm_def merged_use_vars_def Let_def rbind_def render_def rlift_def rret_def rraise_def
  by (auto split: option.split list.split sum.split)

lemma use_op: "st_kind s = UseStep raw args \<Longrightarrow> step_op W strict s (execute_use_step E W raw args)"
  unfolding step_op_def
proof (intro allI impI)
  fix r x r'
  assume k: "st_kind s = UseStep raw args" and rd: "ready strict s r" and run: "execute_use_step E W raw args r = (x, r')"
  show "moves W strict r r'"
  proof (cases "py_strip raw \<in> set (rt_use_stack r) \<or> (\<exists>e. resolve_use_spec W raw = Inl e)")
    case True
    then show ?thesis using run
      by (auto simp: execute_use_step_def Let_def rbind_def rget_def rraise_def rpy_def split: if_splits)
  next
    case False
    then obtain spec where sp: "resolve_use_spec W raw = Inr spec" and nu: "py_strip raw \<notin> set (rt_use_stack r)"
      by (cases "resolve_use_spec W raw") auto
    obtain v r1 where mv: "merged_use_vars E spec args r = (v, r1)" by (cases "merged_use_vars E spec args r")
    have q: "quiet r r1" using calmD [OF calm_merged_use_vars mv] .
    have r': "r' = (case v of Inl _ \<Rightarrow> r1 | Inr vars \<Rightarrow> push (Frame (sq_steps spec) 0 (UseExit (rt_vars r1) (py_strip raw)) False)
        (r1\<lparr>rt_use_stack := rt_use_stack r1 @ [py_strip raw], rt_vars := vars\<rparr>))"
      using run nu sp mv by (auto simp: execute_use_step_def Let_def rbind_def rget_def rpy_def rmodify_def rret_def split: sum.splits)
    show ?thesis
    proof (cases v)
      case (Inl e)
      then show ?thesis using r' quiet_moves [OF q] by simp
    next
      case (Inr vars)
      have u: "rt_use_stack r1 = rt_use_stack r" using q by (simp add: quiet_def)
      have "move W strict r1 (r1\<lparr>rt_use_stack := rt_use_stack r1 @ [py_strip raw], rt_vars := vars,
          rt_stack := Frame (sq_steps spec) 0 (UseExit (rt_vars r1) (py_strip raw)) False # rt_stack r1\<rparr>)"
        by (rule move_use [OF _ _ k sp]) (use quiet_ready [OF q rd] nu u in \<open>auto simp: ready_def\<close>)
      then have "move W strict r1 r'" by (simp add: r' Inr push_def)
      with q show ?thesis by (rule moves_via) simp
    qed
  qed
qed

lemma adaptive_step_op: "st_kind s = AdaptiveStep a body \<Longrightarrow> step_op W strict s (execute_adaptive_step E W a body)"
  unfolding execute_adaptive_step_def
  by (intro step_cases step_op_rbind calm_render calm_positive_int calm_ask calm_rrun quiet_prepare_study quiet_clock step_intros step_op_push)
    simp_all

lemma pause_op: "step_op W strict s (execute_pause_step E W reason)"
proof -
  have "moves W strict r (enter_pause W i ((mark_pause_started now (uses (r\<lparr>rt_pause_requested := True\<rparr>)))\<lparr>rt_state := PAUSED\<rparr>))" for r i now
  proof (rule moves_via [OF _ move_pause quiet_enter_pause])
    have "quiet r (r\<lparr>rt_pause_requested := True\<rparr>)" by (rule quietI) simp_all
    then show "quiet r (mark_pause_started now (uses (r\<lparr>rt_pause_requested := True\<rparr>)))"
      by (rule quiet_trans [OF _ quiet_trans [OF quiet_uses quiet_pause_marks(1)]])
  qed
  then have "step_op W strict s (rrun (\<lambda>r. let r = r\<lparr>rt_pause_requested := True\<rparr>; (now, r) = clock W r in
      (True, enter_pause W i ((mark_pause_started now r)\<lparr>rt_state := PAUSED\<rparr>))))" for i
    by (auto simp: step_op_def rrun_def clock_def Let_def)
  then show ?thesis
    unfolding execute_pause_step_def
    by (intro step_op_rbind calm_option calm_list calm_render calm_simple)
qed

lemma calm_handlers [calm_intros]:
  "calm (execute_sleep_step E W v)" "calm (execute_assign_step E W d)" "calm (store_extracted E W res n spec l)"
proof -
  show "calm (execute_sleep_step E W v)"
    unfolding execute_sleep_step_def by (intro calm_intros quiet_clock quiet_field)
  have "calm (\<lambda>r. rbind (resolve_value E W (env_view r) v) (\<lambda>x. rmodify (set_env k x)) r)" for k v
    by (rule calm_state [of "\<lambda>env. rbind (resolve_value E W env v) (\<lambda>x. rmodify (set_env k x))" env_view]) (intro calm_intros quiet_set_env)
  then show "calm (execute_assign_step E W d)"
    unfolding execute_assign_step_def by (intro calm_rbind calm_rforeach calm_simple) (auto split: prod.split)
  show "calm (store_extracted E W res n spec l)"
    unfolding store_extracted_def by (intro calm_intros quiet_set_env)
qed

lemma step_op_catch: "calm m \<Longrightarrow> (\<And>e. step_op W strict s (h e)) \<Longrightarrow> step_op W strict s (rcatch m h)"
  unfolding step_op_def
proof (intro allI impI)
  fix r x r'
  assume m: "calm m" and h: "\<And>e. \<forall>r x r'. ready strict s r \<longrightarrow> h e r = (x, r') \<longrightarrow> moves W strict r r'"
    and rd: "ready strict s r" and run: "rcatch m h r = (x, r')"
  obtain y r1 where r1: "m r = (y, r1)" by (cases "m r")
  have q: "quiet r r1" using calmD [OF m r1] .
  show "moves W strict r r'"
  proof (cases y)
    case (Inl e)
    then have "moves W strict r1 r'" using run h [of e] quiet_ready [OF q rd] by (simp add: rcatch_def r1)
    with quiet_moves [OF q] show ?thesis by (rule rtranclp_trans)
  next
    case (Inr v)
    then show ?thesis using run quiet_moves [OF q] by (auto simp: rcatch_def r1)
  qed
qed

lemma set_context_op: "step_op W strict s (execute_set_context_step E W streams raw)"
proof -
  have sync: "step_op W strict s (set_context_sync E W ss ctx flds)" for ss ctx flds
    unfolding set_context_sync_def by (intro step_op_catch step_intros calm_intros)
  have q: "quiet r (r\<lparr>rt_context_id := x\<rparr>)" "quiet r (r\<lparr>rt_set_context := y\<rparr>)" for r x y by simp_all
  show ?thesis
    unfolding execute_set_context_step_def
    by (intro step_op_rbind calm_rmodify q calm_render calm_simple calm_ask step_op_prod step_op_let step_op_option sync)
      (intro step_op_calm calm_simple)
qed

lemma set_op: "step_op W strict s (execute_set_step E W d n v)"
  unfolding execute_set_step_def
  by (intro step_op_rbind calm_names calm_rmodify quiet_update_detail step_cases step_intros calm_render calm_ask)
    (intro step_op_calm calm_simple)

lemma call_op: "step_op W strict s (execute_call_step E W c)"
proof -
  have q: "quiet r ((if b then set_env k v else (\<lambda>r. r)) r)" for b k v r by simp
  show ?thesis
    unfolding execute_call_step_def
    by (intro step_op_rbind calm_names calm_rmodify quiet_update_detail step_cases step_intros calm_render calm_dispatch q)
      (intro step_op_calm calm_intros)+
qed

lemma quiet_fail_moves: "quiet r r1 \<Longrightarrow> moves W strict r (snd (fail_step E W msg r1))"
  by (metis fail_step_moves prod.collapse quiet_moves rtranclp_trans)

lemma parallel_op: "step_op W strict s (execute_parallel_step E W body)"
proof -
  have f: "moves W strict r (snd (fail_step E W msg r))" for r msg by (rule quiet_fail_moves) simp
  have a: "calm (rbind (ask g) (\<lambda>h. rbind (rmodify (\<lambda>r. r\<lparr>rt_parallel := Some h\<rparr>)) (\<lambda>_. rret True)))" for g :: "nat \<Rightarrow> pyexc + nat"
    by (intro calm_intros quiet_field)
  show ?thesis
    unfolding step_op_def execute_parallel_step_def Let_def
    using f quiet_moves [OF calmD [OF a]]
    by (auto simp: rrun_def split: if_splits option.splits sum.splits list.splits prod.splits) (metis snd_conv)+
qed

lemma run_handler_op: "st_kind s = k \<Longrightarrow> step_op W strict s (run_handler E W k)"
proof (cases k)
  case (WaitUntilStep raw)
  then show ?thesis by (simp add: run_handler_def) (intro step_op_calm calm_intros)
qed (auto simp: run_handler_def intro: call_op set_op for_op block_ops try_op atomic_op use_op adaptive_step_op pause_op
      set_context_op parallel_op step_op_calm calm_handlers)

lemma run_step_op: "step_op W strict s (run_step E W s)"
proof -
  have e: "step_op W strict s (execute_step E W s)"
    unfolding execute_step_def by (intro step_op_rbind calm_rmodify quiet_field run_handler_op refl)
  have "moves W strict r r'" if "ready strict s r" "run_step E W s r = (x, r')" for r x r'
  proof -
    define r0 where "r0 = begin_active_step W s r"
    have q0: "quiet r r0" by (simp add: r0_def)
    obtain y r1 where x1: "execute_step E W s r0 = (y, r1)" by (cases "execute_step E W s r0")
    have m: "moves W strict r r1"
      using rtranclp_trans [OF quiet_moves [OF q0]] e quiet_ready [OF q0 that(1)] x1 by (auto simp: step_op_def)
    have "quiet r1 r'"
      using that(2) x1 by (auto simp: run_step_def rbind_def rmodify_def rret_def r0_def split: sum.splits if_splits)
    with m show ?thesis by (meson quiet_moves rtranclp_trans)
  qed
  then show ?thesis by (auto simp: step_op_def)
qed

section \<open>Pending steps\<close>

text \<open>Operations as sequences of moves.\<close>

definition move_op :: "seq_world \<Rightarrow> bool \<Rightarrow> 'a prt \<Rightarrow> bool" where
  "move_op W strict m \<longleftrightarrow> (\<forall>r x r'. m r = Some (x, r') \<longrightarrow> moves W strict r r')"

lemma move_opD: "move_op W strict m \<Longrightarrow> m r = Some (x, r') \<Longrightarrow> moves W strict r r'"
  by (simp add: move_op_def)

lemma move_op_pbind: "move_op W strict m \<Longrightarrow> (\<And>y. move_op W strict (k y)) \<Longrightarrow> move_op W strict (pbind m k)"
  unfolding move_op_def by (auto elim!: pbind_cases) (metis rtranclp_trans)

lemma move_op_calm: "calm m \<Longrightarrow> move_op W strict (plift m)"
  by (auto simp: move_op_def plift_def intro: quiet_moves calmD)

lemma move_op_inner: "inner_op m \<Longrightarrow> move_op W strict m"
  by (auto simp: move_op_def inner_op_def intro: inner_moves_moves)

lemma move_op_if: "(b \<Longrightarrow> move_op W strict m) \<Longrightarrow> (\<not> b \<Longrightarrow> move_op W strict n) \<Longrightarrow> move_op W strict (if b then m else n)"
  by simp

lemma calm_take_sample [calm_intros]: "calm (take_sample E W now sample ws)"
proof -
  have w: "calm (wait_telemetry E W ws)" for ws
    unfolding wait_telemetry_def by (intro calm_intros quiet_sample_age)
  have v: "quiet r (snd (wait_verdict now ok r))" for ok r
    by (simp add: wait_verdict_def Let_def split: option.split)
  have p: "quiet r (publish_samples a b ws r)" for a b ws r
    unfolding publish_samples_def by (intro quiet_trans [OF _ quiet_set_env]) simp
  show ?thesis
    unfolding take_sample_def by (intro calm_intros w v p quiet_field)
qed

lemma wait_moves: "move_op W strict (plift (step_wait_until E W now))"
  unfolding move_op_def plift_def
proof (intro allI impI)
  fix r x r'
  assume "Some (step_wait_until E W now r) = Some (x, r')"
  then have run: "step_wait_until E W now r = (x, r')" by simp
  obtain b r1 where c: "check_stop_pause W r = (b, r1)" by (cases "check_stop_pause W r")
  have m1: "moves W strict r r1" and same: "\<not> b \<longrightarrow> r1 = r" using check_stop_pause_moves [OF c, of strict] by auto
  show "moves W strict r r'"
  proof (cases b)
    case True
    then show ?thesis using run m1 by (simp add: step_wait_until_def c)
  next
    case False
    with same have r1: "r1 = r" by simp
    show ?thesis
    proof (cases "rt_wait r")
      case None
      then show ?thesis using run False r1 by (simp add: step_wait_until_def c)
    next
      case (Some ws)
      obtain y r2 where rv: "resolve_value E W (env_view r) (PDict (ws_sample_spec ws)) r = (y, r2)"
        by (cases "resolve_value E W (env_view r) (PDict (ws_sample_spec ws)) r")
      have q2: "quiet r r2" using calmD [OF calm_resolve(1) rv] .
      have f: "moves W strict r (snd (fail_step E W msg (r3\<lparr>rt_wait := None\<rparr>)))" if "quiet r r3" for msg r3
        by (rule quiet_fail_moves [OF quiet_trans [OF that]]) simp
      have t: "take_sample E W now v ws r2 = (x, r') \<Longrightarrow> moves W strict r r'" for v
        using quiet_trans [OF q2 calmD [OF calm_take_sample]] quiet_moves by blast
      have l: "moves W strict r (set_wait w r2)" for w
        using quiet_trans [OF q2] quiet_moves by (metis quiet_field(9))
      show ?thesis
        using run False r1 Some rv f [OF quiet_refl] f [OF q2] t l quiet_moves [OF q2] quiet_moves [OF quiet_refl]
        by (auto simp: step_wait_until_def c rbind_def rpy_def rrun_def split: if_splits sum.splits seq_exc.splits)
    qed
  qed
qed

lemma set_context_moves: "move_op W strict (plift (step_set_context E W now))"
  unfolding move_op_def plift_def
proof (intro allI impI)
  fix r x r'
  assume "Some (step_set_context E W now r) = Some (x, r')"
  then have run: "step_set_context E W now r = (x, r')" by simp
  obtain b r1 where c: "check_stop_pause W r = (b, r1)" by (cases "check_stop_pause W r")
  have m1: "moves W strict r r1" and same: "\<not> b \<longrightarrow> r1 = r" using check_stop_pause_moves [OF c, of strict] by auto
  have q: "quiet r (clear_set_context (uses r))" by (rule quiet_trans [OF quiet_uses]) simp
  have f: "moves W strict r (snd (fail_step E W msg (clear_set_context (uses r))))" for msg
    by (rule quiet_fail_moves [OF q])
  show "moves W strict r r'"
    using run m1 same f quiet_moves [OF q] quiet_moves [OF quiet_uses [of r]] quiet_moves [OF quiet_field(10) [of r]]
    by (auto simp: step_set_context_def c rbind_def ask_def rret_def rmodify_def Let_def split: bool.splits option.splits sum.splits if_splits)
qed

lemma parallel_moves: "move_op W strict (plift (step_parallel E W))"
proof -
  have q: "quiet r (r\<lparr>rt_parallel := None, rt_parallel_failure := None\<rparr>)"
    "quiet r (r\<lparr>rt_parallel := None, rt_parallel_failure := None, rt_pause_requested := False, rt_stop_requested := False\<rparr>)" for r
    by (rule quietI; simp)+
  have f: "moves W strict r (finish_parallel E W results r)" for r results
  proof -
    have "quiet r (r\<lparr>rt_parallel := None, rt_parallel_failure := None, rt_env := e\<rparr>)" for e by (rule quietI) simp_all
    then show ?thesis
      using quiet_fail_moves [OF q(1) [of r]] quiet_fail_moves [OF q(2) [of r]] quiet_moves
      by (auto simp: finish_parallel_def Let_def split: option.split)
  qed
  have g: "moves W strict r (finish_parallel E W results (uses r))" for r results
    by (rule rtranclp_trans [OF quiet_moves [OF quiet_uses] f])
  show ?thesis
    unfolding move_op_def plift_def step_parallel_def
    using g quiet_moves [OF quiet_uses]
    by (auto simp: rbind_def ask_def rret_def rmodify_def split: option.splits sum.splits if_splits prod.splits)
qed

lemma when_pending_moves: "move_op W strict m \<Longrightarrow> move_op W strict (when_pending p W m)"
proof -
  assume m: "move_op W strict m"
  have "move_op W strict (pbind m (\<lambda>finished. if finished then plift (rbind (rmodify (finish_now W)) (\<lambda>_. rret True)) else pret False))"
    by (intro move_op_pbind m move_op_if move_op_calm calm_intros quiet_finish_now)
  then show ?thesis by (auto simp: when_pending_def move_op_def)
qed

lemma resume_pending_moves: "move_op W strict (resume_pending E W now)"
proof -
  have w: "calm (wake_sleep now)"
    unfolding calm_def wake_sleep_def
    by (auto split: option.split intro: quiet_trans [OF quiet_field(8) quiet_active(1)])
  have o: "move_op W strict (\<lambda>r. if rt_observe r \<noteq> None then step_adaptive_observation E W now r else Some (Inr True, r))"
    using move_opD [OF move_op_inner [OF step_observation_inner]] by (auto simp: move_op_def split: if_splits)
  show ?thesis
    unfolding resume_pending_def
    by (intro move_op_pbind move_op_if move_op_calm calm_simple w when_pending_moves wait_moves set_context_moves parallel_moves o)
qed

section \<open>Ticks\<close>

text \<open>Strict moves are those of runs that cannot meet an adaptive step.\<close>

definition tame :: "seq_world \<Rightarrow> bool \<Rightarrow> runtime \<Rightarrow> bool" where
  "tame W strict r \<longleftrightarrow> (strict \<longrightarrow> library_all tolerates_trials W \<and> run_all tolerates_trials r)"

lemma moves_tame: "moves W strict r r' \<Longrightarrow> tame W strict r \<Longrightarrow> tame W strict r'"
  by (auto simp: tame_def dest: moves_run_all)

lemma take_step_taken: "take_step ss i ex u r = (Inr (Some (NextStep s)), r') \<Longrightarrow> i < length ss \<Longrightarrow> just_taken s r'"
  by (auto simp: take_step_def set_top_def just_taken_def rbind_def rmodify_def rret_def split: if_splits)

lemma frame_round_result:
  assumes "frame_round E W ss i ex u r = Some (Inr (Some res), r')"
  shows "(\<forall>s. res = NextStep s \<longrightarrow> just_taken s r') \<and> (res = NoStep \<longrightarrow> rt_state r' \<noteq> RUNNING)"
  using assms take_step_taken [of ss i ex u r _ r']
  by (auto simp: frame_round_def plift_def rmodify_def rret_def rget_def pbind_def split: if_splits option.splits sum.splits)
    (auto simp: take_step_def rbind_def rmodify_def rret_def split: if_splits)

lemma top_round_result:
  assumes "top_round E W f r = Some (Inr (Some res), r')"
  shows "(\<forall>s. res = NextStep s \<longrightarrow> just_taken s r') \<and> (res = NoStep \<longrightarrow> rt_state r' \<noteq> RUNNING)"
proof (cases f)
  case (Frame ss i ex u)
  then show ?thesis using assms frame_round_result by (simp add: top_round_def)
next
  case (AdaptiveFrame a)
  then show ?thesis
    using assms by (auto simp: top_round_def plift_def adaptive_round_def rret_def elim!: rbind_cases split: if_splits)
qed (use assms in \<open>auto simp: top_round_def plift_def rret_def rmodify_def elim!: rbind_cases split: if_splits\<close>)

lemma next_step_above_result:
  "next_step_above E W base r = Some y \<Longrightarrow>
     (\<forall>s. fst y = Inr (NextStep s) \<longrightarrow> just_taken s (snd y))
     \<and> (fst y = Inr NoStep \<longrightarrow> rt_state (snd y) \<noteq> RUNNING \<or> length (rt_stack (snd y)) \<le> base)"
proof (rule next_step_above.raw_induct [where P = "\<lambda>E W base r y.
     (\<forall>s. fst y = Inr (NextStep s) \<longrightarrow> just_taken s (snd y))
     \<and> (fst y = Inr NoStep \<longrightarrow> rt_state (snd y) \<noteq> RUNNING \<or> length (rt_stack (snd y)) \<le> base)"])
  fix self E W base r y
  assume IH: "\<And>E W base r y. self E W base r = Some y \<Longrightarrow>
      (\<forall>s. fst y = Inr (NextStep s) \<longrightarrow> just_taken s (snd y))
      \<and> (fst y = Inr NoStep \<longrightarrow> rt_state (snd y) \<noteq> RUNNING \<or> length (rt_stack (snd y)) \<le> base)"
    and run: "(case rt_stack r of
        [] \<Rightarrow> Some (Inr NoStep, r)
      | f # fs \<Rightarrow>
          if length (f # fs) \<le> base then Some (Inr NoStep, r)
          else (case top_round E W f r of
                  None \<Rightarrow> None
                | Some (Inl e, r') \<Rightarrow> Some (Inl e, r')
                | Some (Inr (Some res), r') \<Rightarrow> Some (Inr res, r')
                | Some (Inr None, r') \<Rightarrow> self E W base r')) = Some y"
  show "(\<forall>s. fst y = Inr (NextStep s) \<longrightarrow> just_taken s (snd y))
     \<and> (fst y = Inr NoStep \<longrightarrow> rt_state (snd y) \<noteq> RUNNING \<or> length (rt_stack (snd y)) \<le> base)"
  proof (cases "rt_stack r")
    case (Cons f fs)
    show ?thesis
    proof (cases "length (f # fs) \<le> base")
      case True
      then show ?thesis using run Cons by auto
    next
      case False
      consider (none) "top_round E W f r = None" | (err) e r' where "top_round E W f r = Some (Inl e, r')"
        | (res) x r' where "top_round E W f r = Some (Inr (Some x), r')" | (again) r' where "top_round E W f r = Some (Inr None, r')"
        by (cases "top_round E W f r") (auto, metis obj_sumE option.exhaust)
      then show ?thesis
      proof cases
        case (res x r')
        then have "y = (Inr x, r')" using run False by (simp add: Cons)
        then show ?thesis using top_round_result [OF res] by auto
      next
        case (again r')
        then have "self E W base r' = Some y" using run False by (simp add: Cons)
        then show ?thesis by (rule IH)
      qed (use run False in \<open>auto simp: Cons\<close>)
    qed
  qed (use run in auto)
qed

lemma unwind_round_result:
  assumes "unwind_round E W f r = Some (Inr (Some res), r')"
  shows "\<exists>s. res = NextStep s \<and> just_taken s r'"
proof (cases f)
  case (Frame ss i ex u)
  show ?thesis
  proof (cases "\<not> u \<or> i \<ge> length ss")
    case True
    then have "unwind_round E W f = leave_frame E W ex" by (simp add: unwind_round_def Frame)
    with assms show ?thesis
      unfolding leave_frame_def by (auto simp: plift_def rmodify_def rret_def rbind_def elim!: pbind_cases split: if_splits)
  next
    case False
    then show ?thesis using assms Frame take_step_taken [of ss i ex u r _ r']
      by (auto simp: unwind_round_def plift_def) (auto simp: take_step_def rbind_def rmodify_def rret_def split: if_splits)
  qed
qed (use assms in \<open>auto simp: unwind_round_def plift_def rret_def rmodify_def rbind_def\<close>)

lemma unwind_result:
  "next_terminal_unwind_step E W r = Some y \<Longrightarrow>
     (\<forall>s. fst y = Inr (NextStep s) \<longrightarrow> just_taken s (snd y)) \<and> (fst y = Inr NoStep \<longrightarrow> rt_stack (snd y) = [])"
proof (rule next_terminal_unwind_step.raw_induct [where P = "\<lambda>E W r y.
     (\<forall>s. fst y = Inr (NextStep s) \<longrightarrow> just_taken s (snd y)) \<and> (fst y = Inr NoStep \<longrightarrow> rt_stack (snd y) = [])"])
  fix self E W r y
  assume IH: "\<And>E W r y. self E W r = Some y \<Longrightarrow>
      (\<forall>s. fst y = Inr (NextStep s) \<longrightarrow> just_taken s (snd y)) \<and> (fst y = Inr NoStep \<longrightarrow> rt_stack (snd y) = [])"
    and run: "(case rt_stack r of
        [] \<Rightarrow> Some (Inr NoStep, r)
      | f # fs \<Rightarrow>
          if inside_unwind_body (f # fs)
          then (case next_step_above E W (length (f # fs) - length (above_unwind_body (f # fs))) r of
                  None \<Rightarrow> None
                | Some (Inl e, r') \<Rightarrow> Some (Inl e, r')
                | Some (Inr NoStep, r') \<Rightarrow> self E W r'
                | Some (Inr (NextStep s), r') \<Rightarrow> Some (Inr (NextStep s), r')
                | Some (Inr NoStepReady, r') \<Rightarrow> Some (Inr NoStepReady, r'))
          else (case unwind_round E W f r of
                  None \<Rightarrow> None
                | Some (Inl e, r') \<Rightarrow> Some (Inl e, r')
                | Some (Inr (Some res), r') \<Rightarrow> Some (Inr res, r')
                | Some (Inr None, r') \<Rightarrow> self E W r')) = Some y"
  show "(\<forall>s. fst y = Inr (NextStep s) \<longrightarrow> just_taken s (snd y)) \<and> (fst y = Inr NoStep \<longrightarrow> rt_stack (snd y) = [])"
  proof (cases "rt_stack r")
    case (Cons f fs)
    define above where "above = next_step_above E W (length (f # fs) - length (above_unwind_body (f # fs))) r"
    have a: "above = Some (Inr (NextStep s), r') \<Longrightarrow> just_taken s r'" for s r'
      using next_step_above_result unfolding above_def by fastforce
    note run = run [unfolded Cons list.case above_def [symmetric]]
    show ?thesis
    proof (cases "inside_unwind_body (f # fs)")
      case True
      note run = run [unfolded if_P [OF True]]
      consider (none) "above = None" | (err) e r' where "above = Some (Inl e, r')" | (no) r' where "above = Some (Inr NoStep, r')"
        | (step) s r' where "above = Some (Inr (NextStep s), r')" | (wait) r' where "above = Some (Inr NoStepReady, r')"
        by (cases above) (auto, metis obj_sumE step_result.exhaust)
      then show ?thesis using run a IH by cases auto
    next
      case False
      note run = run [unfolded if_not_P [OF False]]
      consider (none) "unwind_round E W f r = None" | (err) e r' where "unwind_round E W f r = Some (Inl e, r')"
        | (res) x r' where "unwind_round E W f r = Some (Inr (Some x), r')" | (again) r' where "unwind_round E W f r = Some (Inr None, r')"
        by (cases "unwind_round E W f r") (auto, metis obj_sumE option.exhaust)
      then show ?thesis using run unwind_round_result [of E W f r] IH by cases auto
    qed
  qed (use run in auto)
qed

lemma next_step_result:
  assumes "next_step E W r = Some (Inr res, r')"
  shows "res = NextStep s \<Longrightarrow> just_taken s r'"
    and "res = NoStep \<Longrightarrow> rt_stack r' = [] \<or> rt_pending_state r = None \<and> rt_state r' \<noteq> RUNNING"
  using assms unwind_result [of E W r] next_step_above_result [of E W 0 r]
  by (fastforce simp: next_step_def split: if_splits)+

lemma quiet_clock_step: "clock W r = (now, r') \<Longrightarrow> quiet r r'"
  by (auto simp: clock_def)

lemma prepare_next_moves:
  assumes "rt_stack r = []" "rt_state r = RUNNING" "rt_pending_state r = None"
  shows "moves W strict r (prepare_next_run_loop W r)"
proof (cases "rt_spec r")
  case None
  have "quiet (r\<lparr>rt_state := STOPPED, rt_pending_state := None\<rparr>) (prepare_next_run_loop W r)"
    by (rule quietI) (simp_all add: prepare_next_run_loop_def None clock_def uses_def assms)
  then show ?thesis
    by (intro moves_halt [OF quiet_refl, of r None STOPPED]) (simp_all add: has_terminal_unwind_work_def assms)
next
  case (Some spec)
  have "quiet (r\<lparr>rt_stack := [body_frame (sq_steps spec)], rt_atomic_depth := 0, rt_use_stack := []\<rparr>) (prepare_next_run_loop W r)"
    by (rule quietI) (simp_all add: prepare_next_run_loop_def Some uses_def clear_pending_def clear_parallel_def clear_set_context_def assms)
  with quiet_refl move_again [OF assms(1) _ Some] show ?thesis
    by (rule moves_via) (simp add: run_live_def assms)
qed

lemma end_of_steps_moves:
  assumes "end_of_steps W r = (b, r')" "rt_stack r = [] \<or> rt_pending_state r = None \<and> rt_state r \<noteq> RUNNING"
  shows "moves W strict r r'"
proof (cases "rt_pending_state r = None \<and> rt_state r = RUNNING")
  case False
  then show ?thesis using assms finish_pending_moves [of r W strict] by (auto simp: end_of_steps_def split: if_splits)
next
  case True
  define r1 where "r1 = r\<lparr>rt_loops_completed := rt_loops_completed r + 1\<rparr>"
  have q: "quiet r r1" unfolding r1_def by (rule quietI) simp_all
  have s: "rt_stack r1 = []" "rt_state r1 = RUNNING" "rt_pending_state r1 = None" using assms True by (auto simp: r1_def)
  show ?thesis
  proof (cases "should_continue_run_loops r1")
    case go: True
    then have "r' = prepare_next_run_loop W r1" using assms True by (simp add: end_of_steps_def Let_def r1_def)
    then show ?thesis using rtranclp_trans [OF quiet_moves [OF q] prepare_next_moves [OF s]] by simp
  next
    case stop: False
    then have "r' = (snd (clock W (r1\<lparr>rt_state := STOPPED\<rparr>)))\<lparr>rt_ended := Some (fst (clock W (r1\<lparr>rt_state := STOPPED\<rparr>)))\<rparr>"
      using assms True by (auto simp: end_of_steps_def Let_def r1_def split: prod.splits)
    then have "quiet (r1\<lparr>rt_state := STOPPED, rt_pending_state := None\<rparr>) r'"
      by (intro quietI) (simp_all add: clock_def uses_def s)
    with q show ?thesis by (intro moves_halt [OF q, of None STOPPED]) (simp_all add: has_terminal_unwind_work_def s)
  qed
qed

lemma step_round_op: "step_op W strict s (step_round E W deadline n s)"
  unfolding step_op_def
proof (intro allI impI)
  fix r x r'
  assume rd: "ready strict s r" and run: "step_round E W deadline n s r = (x, r')"
  obtain y r1 where st: "run_step E W s r = (y, r1)" by (cases "run_step E W s r")
  have m: "moves W strict r r1" using run_step_op rd st by (auto simp: step_op_def)
  have "quiet r1 r'"
    using run st quiet_clock_step [of W r1]
    by (auto simp: step_round_def rbind_def rret_def rrun_def over_budget_def split: sum.splits if_splits prod.splits)
  with m show "moves W strict r r'" by (meson quiet_moves rtranclp_trans)
qed

lemma tick_round_moves:
  assumes t: "tame W strict r" and run: "tick_round E W deadline n r = Some (x, r')"
  shows "moves W strict r r'"
proof (cases "rt_state r = RUNNING \<and> check_stop_pause W r = (False, r)")
  case False
  then show ?thesis
    using run check_stop_pause_moves [of W r _ _ strict]
    by (auto simp: tick_round_def split: if_splits prod.splits bool.splits)
next
  case True
  then have run: "pbind (next_step E W) (\<lambda>res. case res of
                NoStepReady \<Rightarrow> pret (TickReturns False)
              | NoStep \<Rightarrow> plift (rbind (rrun (end_of_steps W)) (\<lambda>again. rret (if again then TickGoesOn n else TickReturns False)))
              | NextStep s \<Rightarrow> plift (step_round E W deadline n s)) r = Some (x, r')"
    using run by (simp add: tick_round_def)
  then show ?thesis
  proof (cases rule: pbind_cases)
    case (raised e)
    then show ?thesis using next_step_inner inner_moves_moves by blast
  next
    case (went res r1)
    have i: "inner_moves r r1" using next_step_inner went(1) .
    then have m: "moves W strict r r1" by (rule inner_moves_moves)
    have lv: "strict \<longrightarrow> run_live r1" using inner_moves_live [OF i] t True by (auto simp: tame_def run_live_def)
    have "moves W strict r1 r'"
    proof (cases res)
      case (NextStep s)
      then have "ready strict s r1" using next_step_result(1) [OF went(1)] lv by (simp add: ready_def)
      then show ?thesis using went(2) step_round_op NextStep by (auto simp: plift_def step_op_def)
    next
      case NoStepReady
      then show ?thesis using went(2) by (simp add: plift_def rret_def)
    next
      case NoStep
      have "rt_stack r1 = [] \<or> rt_pending_state r1 = None \<and> rt_state r1 \<noteq> RUNNING"
        using next_step_result(2) [OF went(1) NoStep] inner_moves_pending [OF i] by auto
      moreover obtain b r2 where e: "end_of_steps W r1 = (b, r2)" by (cases "end_of_steps W r1")
      moreover have "r' = r2" using went(2) e NoStep by (simp add: plift_def rbind_def rrun_def rret_def)
      ultimately show ?thesis using end_of_steps_moves by blast
    qed
    with m show ?thesis by (rule rtranclp_trans)
  qed
qed

lemma tick_loop_moves: "tick_loop E W deadline n r = Some y \<Longrightarrow> tame W strict r \<longrightarrow> moves W strict r (snd y)"
proof (rule tick_loop.raw_induct [where P = "\<lambda>E W deadline n r y. tame W strict r \<longrightarrow> moves W strict r (snd y)"])
  fix self E W deadline n r y
  assume IH: "\<And>E W deadline n r y. self E W deadline n r = Some y \<Longrightarrow> tame W strict r \<longrightarrow> moves W strict r (snd y)"
    and run: "(case tick_round E W deadline n r of
        None \<Rightarrow> None
      | Some (Inl e, r') \<Rightarrow> Some (Inl e, r')
      | Some (Inr (TickReturns b), r') \<Rightarrow> Some (Inr b, r')
      | Some (Inr (TickGoesOn m), r') \<Rightarrow> self E W deadline m r') = Some y"
  show "tame W strict r \<longrightarrow> moves W strict r (snd y)"
  proof
    assume t: "tame W strict r"
    obtain x r1 where rd: "tick_round E W deadline n r = Some (x, r1)" using run by (cases "tick_round E W deadline n r") auto
    have m: "moves W strict r r1" by (rule tick_round_moves [OF t rd])
    show "moves W strict r (snd y)"
    proof (cases "\<exists>k. x = Inr (TickGoesOn k)")
      case True
      then obtain k where "self E W deadline k r1 = Some y" using run rd by auto
      then have "moves W strict r1 (snd y)" using IH moves_tame [OF m t] by blast
      with m show ?thesis by (rule rtranclp_trans)
    next
      case False
      then have "snd y = r1" using run rd by (auto split: sum.splits round_end.splits)
      with m show ?thesis by simp
    qed
  qed
qed

lemma tick_try_moves:
  assumes t: "tame W strict r" and run: "tick_try E W r = Some (x, r')"
  shows "moves W strict r r'"
proof (cases "rt_pending_state r \<noteq> None \<and> rt_stack r = []")
  case True
  then show ?thesis using run finish_pending_moves [of r W strict] by (auto simp: tick_try_def)
next
  case False
  obtain b r1 where c: "check_stop_pause W r = (b, r1)" by (cases "check_stop_pause W r")
  have c': "moves W strict r r1" "\<not> b \<longrightarrow> r1 = r" using check_stop_pause_moves [OF c, of strict] by auto
  show ?thesis
  proof (cases b)
    case True
    then show ?thesis using run False c c' by (auto simp: tick_try_def)
  next
    case nb: False
    have run: "pbind (resume_pending E W (fst (clock W r))) (\<lambda>go. if \<not> go then pret False
            else pbind (plift (rrun (clock W))) (\<lambda>t. tick_loop E W (fadd t TICK_BUDGET_S) 0)) (snd (clock W r)) = Some (x, r')"
      using run False nb c c' by (auto simp: tick_try_def pbind_def plift_def rrun_def clock_def)
    define r2 where "r2 = snd (clock W r)"
    have q: "quiet r r2" by (simp add: r2_def clock_def)
    from run have "moves W strict r2 r'"
    proof (cases rule: pbind_cases)
      case (raised e)
      then show ?thesis using move_opD [OF resume_pending_moves] by (simp add: r2_def)
    next
      case (went go r3)
      have m: "moves W strict r2 r3" using move_opD [OF resume_pending_moves went(1)] by (simp add: r2_def)
      show ?thesis
      proof (cases go)
        case True
        define r4 where "r4 = snd (clock W r3)"
        have q4: "quiet r3 r4" by (simp add: r4_def clock_def)
        have t4: "tame W strict r4"
          by (intro moves_tame [OF rtranclp_trans [OF quiet_moves [OF q] rtranclp_trans [OF m quiet_moves [OF q4]]] t])
        have "\<exists>dl. tick_loop E W dl 0 r4 = Some (x, r')" using went(2) True by (auto simp: pbind_def plift_def rrun_def r4_def clock_def)
        then have "moves W strict r4 r'" using tick_loop_moves [of E W _ 0 r4 "(x, r')" strict] t4 by auto
        with m quiet_moves [OF q4] show ?thesis by (meson rtranclp_trans)
      qed (use went m in \<open>auto simp: plift_def rret_def\<close>)
    qed
    with quiet_moves [OF q] show ?thesis by (rule rtranclp_trans)
  qed
qed

lemma tick_failed_moves: "moves W strict r (tick_failed E W msg r)"
proof -
  obtain b r1 where h: "handle_runtime_exception E W msg r = (b, r1)" by (cases "handle_runtime_exception E W msg r")
  show ?thesis
  proof (cases "rt_pending_state r = None")
    case False
    then have "b" "quiet r r1" using h by (auto simp: handle_runtime_exception_def)
    then show ?thesis using h quiet_moves by (simp add: tick_failed_def)
  next
    case True
    define r0 where "r0 = record_event W ''error'' ''step_failed'' msg (current_detail r) None None
          (r\<lparr>rt_error_detail := Some (make_error_detail (plain E) msg r)\<rparr>)"
    have q0: "quiet r r0" unfolding r0_def by (rule quiet_trans [OF _ quiet_record_event]) (rule quietI, simp_all)
    have bg: "begin_terminal_unwind W ERROR (Some msg) r0 = (b, r1)" using h True by (simp add: handle_runtime_exception_def r0_def)
    note m = begin_unwind_moves [OF bg, of strict]
    show ?thesis
    proof (cases b)
      case True
      then show ?thesis using h m rtranclp_trans [OF quiet_moves [OF q0]] by (simp add: tick_failed_def)
    next
      case False
      then have r1: "r1 = r0" "\<not> has_terminal_unwind_work r0" using m by auto
      have "quiet (r0\<lparr>rt_state := ERROR, rt_pending_state := rt_pending_state r0\<rparr>) (tick_failed E W msg r)"
        using h False r1 by (intro quietI) (simp_all add: tick_failed_def clock_def Let_def abandon_active_step_def uses_def)
      then show ?thesis using moves_halt [OF q0 r1(2)] by blast
    qed
  qed
qed

text \<open>A tick is a sequence of moves.\<close>

lemma tick_moves:
  assumes "tame W strict r" "tick E W r = Some (b, r')"
  shows "moves W strict r r'"
proof (cases "rt_state r = RUNNING")
  case True
  then obtain x r1 where t: "tick_try E W r = Some (x, r1)" using assms(2) by (cases "tick_try E W r") (auto simp: tick_def)
  have m: "moves W strict r r1" by (rule tick_try_moves [OF assms(1) t])
  show ?thesis
  proof (cases x)
    case (Inl e)
    then have "r' = tick_failed E W (seq_exc_text e) r1" using assms(2) True t by (simp add: tick_def)
    then show ?thesis using rtranclp_trans [OF m tick_failed_moves] by simp
  next
    case (Inr v)
    then show ?thesis using assms(2) True t m by (simp add: tick_def)
  qed
qed (use assms(2) in \<open>auto simp: tick_def\<close>)

section \<open>Runs\<close>

text \<open>What the process around the runtime does to it: ticks, and the requests of its clients between them.\<close>

datatype seq_op =
    OpTick
  | OpPause pyval pyval pyval
  | OpResume "string option"
  | OpStop "string option" "string option"
  | OpFail string
  | OpLog string string "string option"

fun run_op :: "eval_lang \<Rightarrow> seq_world \<Rightarrow> seq_op \<Rightarrow> runtime \<Rightarrow> runtime option" where
  "run_op E W OpTick r = map_option snd (tick E W r)"
| "run_op E W (OpPause reason source trigger) r = Some (request_pause (plain E) reason source trigger r)"
| "run_op E W (OpResume source) r = Some (resume W source r)"
| "run_op E W (OpStop reason source) r = Some (request_stop W reason source r)"
| "run_op E W (OpFail reason) r = Some (fail W reason r)"
| "run_op E W (OpLog severity message source) r = Some (note_external_log W severity message source r)"

fun run_ops :: "eval_lang \<Rightarrow> seq_world \<Rightarrow> seq_op list \<Rightarrow> runtime \<Rightarrow> runtime option" where
  "run_ops E W [] r = Some r"
| "run_ops E W (op # ops) r = (case run_op E W op r of None \<Rightarrow> None | Some r1 \<Rightarrow> run_ops E W ops r1)"

lemma quiet_request_pause: "quiet r (request_pause L a b c r)"
  by (rule quietI) (simp_all add: request_pause_def Let_def)

lemma quiet_running:
  assumes "quiet r r1" "run_live r"
  shows "quiet r (r1\<lparr>rt_pause_requested := p, rt_state := RUNNING\<rparr>)"
  using assms by (auto simp: quiet_def run_live_def)

lemma quiet_resume: "quiet r (resume W source r)"
proof (cases "rt_state r = PAUSED")
  case True
  define now where "now = fst (clock W r)"
  have "quiet r (mark_pause_ended now (uses r))" by (rule quiet_trans [OF quiet_uses]) simp
  then have q: "quiet r ((mark_pause_ended now (uses r))\<lparr>rt_pause_requested := False, rt_state := RUNNING\<rparr>)"
    by (rule quiet_running) (simp add: run_live_def True)
  have u: "quiet x (x\<lparr>rt_pause_info := None, rt_pause_request := None\<rparr>)" for x by (rule quietI) simp_all
  show ?thesis
    using quiet_trans [OF q quiet_trans [OF quiet_record_event u]] True
    by (simp add: resume_def clock_def now_def Let_def)
qed (simp add: resume_def)

lemma quiet_request_stop: "quiet r (request_stop W reason source r)"
proof -
  define r1 where "r1 = (if rt_state r \<in> {RUNNING, PAUSED} \<and> \<not> rt_stop_requested r
      then record_event W ''info'' ''stop'' (''Stop requested'' @ (case reason of Some (c # cs) \<Rightarrow> '': '' @ (c # cs) | _ \<Rightarrow> [])) None source None r
      else r)\<lparr>rt_stop_requested := True\<rparr>"
  have u: "quiet x (x\<lparr>rt_stop_requested := True\<rparr>)" for x by (rule quietI) simp_all
  have q1: "quiet r r1" unfolding r1_def by (auto intro: quiet_trans [OF quiet_record_event u] u)
  have st: "rt_state r1 = PAUSED \<Longrightarrow> run_live r1" by (simp add: run_live_def)
  have "rt_state r1 = PAUSED \<Longrightarrow> quiet r1 ((mark_pause_ended now (uses r1))\<lparr>rt_pause_requested := False, rt_state := RUNNING\<rparr>)" for now
    by (rule quiet_running [OF quiet_trans [OF quiet_uses]]) (simp_all add: st)
  moreover have "request_stop W reason source r = (if rt_state r1 = PAUSED
      then (mark_pause_ended (sw_mono W (rt_io r1)) (uses r1))\<lparr>rt_pause_requested := False, rt_state := RUNNING\<rparr> else r1)"
    unfolding request_stop_def Let_def r1_def clock_def by (simp only: prod.case)
  ultimately show ?thesis using q1 quiet_trans by auto
qed

lemma fail_moves: "moves W strict r (fail W reason r)"
proof (cases "run_live r")
  case True
  define msg where "msg = (if reason = [] then ''external fault'' else reason)"
  define r1 where "r1 = record_event W ''error'' ''external_fault'' msg None None None r"
  define now where "now = fst (clock W r1)"
  define r2 where "r2 = (mark_pause_ended now (uses r1))\<lparr>rt_pause_requested := False, rt_stop_requested := False\<rparr>"
  have u: "quiet x (x\<lparr>rt_pause_requested := False, rt_stop_requested := False\<rparr>)" for x by (rule quietI) simp_all
  have q2: "quiet r r2"
    unfolding r2_def r1_def by (rule quiet_trans [OF quiet_record_event quiet_trans [OF quiet_uses quiet_trans [OF quiet_pause_marks(2) u]]])
  show ?thesis
  proof (cases "rt_parallel r2")
    case (Some p)
    then have f: "fail W reason r = r2\<lparr>rt_parallel_failure := Some msg\<rparr>"
      using True by (auto simp: fail_def run_live_def clock_def Let_def msg_def r1_def r2_def now_def)
    have "quiet r2 (r2\<lparr>rt_parallel_failure := Some msg\<rparr>)" by (rule quietI) simp_all
    then show ?thesis unfolding f using quiet_moves [OF quiet_trans [OF q2]] by blast
  next
    case None
    obtain b r3 where bg: "begin_terminal_unwind W ERROR (Some msg) (clear_pending r2) = (b, r3)"
      by (cases "begin_terminal_unwind W ERROR (Some msg) (clear_pending r2)")
    have f: "fail W reason r = (if b then r3\<lparr>rt_state := RUNNING\<rparr>
        else (abandon_active_step now r3)\<lparr>rt_last_error := Some msg, rt_state := ERROR, rt_ended := Some now\<rparr>)"
      using True None bg by (auto simp: fail_def run_live_def clock_def Let_def msg_def r1_def r2_def now_def split: bool.split)
    have q3: "quiet r (clear_pending r2)" by (rule quiet_trans [OF q2]) simp
    note m = begin_unwind_moves [OF bg, of strict]
    have lv: "run_live (clear_pending r2)" using quiet_live [OF q3] True by simp
    have lv3: "rt_state r3 = rt_state (clear_pending r2)"
      using bg by (auto simp: begin_terminal_unwind_def clock_def abandon_active_step_def uses_def Let_def clear_pending_def clear_parallel_def clear_set_context_def split: if_splits)
    show ?thesis
    proof (cases b)
      case b: True
      have "quiet r3 (r3\<lparr>rt_state := RUNNING\<rparr>)" using lv lv3 by (auto simp: quiet_def run_live_def list_all2_refl)
      then show ?thesis unfolding f using b m quiet_moves [OF q3] by (simp, meson quiet_moves rtranclp_trans)
    next
      case False
      then have r3: "r3 = clear_pending r2" "\<not> has_terminal_unwind_work (clear_pending r2)" using m by auto
      show ?thesis
        unfolding f by (rule moves_halt [OF q3 r3(2), of "rt_pending_state (clear_pending r2)" ERROR])
          (use False r3 in \<open>auto intro!: quietI simp: abandon_active_step_def\<close>)
    qed
  qed
next
  case False
  then have "fail W reason r = r" by (simp add: fail_def run_live_def)
  then show ?thesis by simp
qed

lemma quiet_note_log: "quiet r (note_external_log W a b c r)"
  by (simp add: note_external_log_def quiet_record_event)

lemma run_op_moves: "tame W strict r \<Longrightarrow> run_op E W op r = Some r' \<Longrightarrow> moves W strict r r'"
  by (cases op) (auto intro: tick_moves quiet_moves quiet_request_pause quiet_resume quiet_request_stop fail_moves quiet_note_log)

lemma run_ops_moves: "tame W strict r \<Longrightarrow> run_ops E W ops r = Some r' \<Longrightarrow> moves W strict r r'"
proof (induction ops arbitrary: r)
  case (Cons op ops)
  then obtain r1 where o: "run_op E W op r = Some r1" "run_ops E W ops r1 = Some r'" by (auto split: option.splits)
  have m: "moves W strict r r1" by (rule run_op_moves [OF Cons.prems(1) o(1)])
  then show ?case using Cons.IH [OF moves_tame [OF m Cons.prems(1)] o(2)] by (rule rtranclp_trans)
qed simp

end
