(* ===== verification/Sequencer_Books.thy ===== *)
theory Sequencer_Books
  imports Sequencer_Ticks "HOL-Library.Sublist"
begin

text \<open>
  What every move of the sequencer keeps. The contract \<open>kept_by_moves\<close> is a property of states
  that each move keeps, and gives it in every state a run reaches. It is instantiated for the
  books of open blocks (atomic depth, used sequences, variables), for the account of the steps
  that are owed because a \<open>try\<close> was entered, and for the rule that a run is over only when
  nothing is owed.
\<close>

locale kept_by_moves =
  fixes W :: seq_world and strict :: bool and keep :: "runtime \<Rightarrow> bool"
  assumes move_keeps: "keep r \<Longrightarrow> move W strict r r' \<Longrightarrow> keep r'"
begin

lemma moves_keep: "moves W strict r r' \<Longrightarrow> keep r \<Longrightarrow> keep r'"
  by (induction rule: rtranclp_induct) (auto intro: move_keeps)

lemma run_keeps: "tame W strict r \<Longrightarrow> run_ops E W ops r = Some r' \<Longrightarrow> keep r \<Longrightarrow> keep r'"
  by (rule moves_keep [OF run_ops_moves])

end

section \<open>The books of open blocks\<close>

fun atomic_count :: "frame list \<Rightarrow> int" where
  "atomic_count [] = 0"
| "atomic_count (Frame _ _ AtomicExit _ # fs) = atomic_count fs + 1"
| "atomic_count (_ # fs) = atomic_count fs"

fun used_names :: "frame list \<Rightarrow> string list" where
  "used_names [] = []"
| "used_names (Frame _ _ (UseExit _ name) _ # fs) = used_names fs @ [name]"
| "used_names (_ # fs) = used_names fs"

text \<open>The variables in force once all used sequences are left.\<close>

fun outer_vars :: "frame list \<Rightarrow> items \<Rightarrow> items" where
  "outer_vars [] v = v"
| "outer_vars (Frame _ _ (UseExit saved _) _ # fs) v = outer_vars fs saved"
| "outer_vars (_ # fs) v = outer_vars fs v"

definition books_ok :: "items \<Rightarrow> runtime \<Rightarrow> bool" where
  "books_ok v r \<longleftrightarrow> rt_atomic_depth r = atomic_count (rt_stack r) \<and> rt_use_stack r = used_names (rt_stack r)
     \<and> distinct (rt_use_stack r) \<and> outer_vars (rt_stack r) (rt_vars r) = v"

lemma frame_like_books:
  "frame_like f g \<Longrightarrow> atomic_count (g # fs) = atomic_count (f # fs) \<and> used_names (g # fs) = used_names (f # fs)
     \<and> outer_vars (g # fs) v = outer_vars (f # fs) v"
  by (cases f) auto

lemma cons_books:
  "atomic_count gs = atomic_count fs \<Longrightarrow> atomic_count (f # gs) = atomic_count (f # fs)"
  "used_names gs = used_names fs \<Longrightarrow> used_names (f # gs) = used_names (f # fs)"
  "(\<And>v. outer_vars gs v = outer_vars fs v) \<Longrightarrow> outer_vars (f # gs) v = outer_vars (f # fs) v"
  by (cases f; simp; cases "fr_exit f"; simp)+

lemma frames_like_books:
  "list_all2 frame_like fs gs \<Longrightarrow> atomic_count gs = atomic_count fs \<and> used_names gs = used_names fs \<and> (\<forall>v. outer_vars gs v = outer_vars fs v)"
proof (induction rule: list_all2_induct)
  case (Cons f fs g gs)
  then show ?case
    using frame_like_books [of f g gs] cons_books [of gs fs f] by simp
qed simp

lemma no_exit_books:
  assumes "\<not> has_exit f"
  shows "atomic_count (f # fs) = atomic_count fs" "used_names (f # fs) = used_names fs" "outer_vars (f # fs) v = outer_vars fs v"
  using assms by (cases f; simp)+

lemma no_exits_books:
  "\<forall>f\<in>set gs. \<not> has_exit f \<Longrightarrow> atomic_count (gs @ fs) = atomic_count fs \<and> used_names (gs @ fs) = used_names fs \<and> outer_vars (gs @ fs) v = outer_vars fs v"
  by (induction gs) (auto simp: no_exit_books)

lemma loop_body_books:
  "loop_body f = Some g \<Longrightarrow> atomic_count (g # fs) = atomic_count fs \<and> used_names (g # fs) = used_names fs \<and> outer_vars (g # fs) v = outer_vars fs v"
  by (cases f) auto

lemma entry_no_exit: "entry k fs \<Longrightarrow> \<forall>f\<in>set fs. \<not> has_exit f"
  by (cases k) auto

lemma leave_use_last [simp]: "leave_use name (us @ [name]) = us"
  by (simp add: leave_use_def)

lemma leave_books:
  assumes "books_ok v r" "rt_stack r = Frame ss i ex u # fs"
  shows "books_ok v (leave_effect ex (r\<lparr>rt_stack := fs\<rparr>))"
  using assms by (cases ex) (auto simp: books_ok_def)

lemma inner_move_books: "inner_move r r' \<Longrightarrow> books_ok v r \<Longrightarrow> books_ok v r'"
proof (induction rule: inner_move.induct)
  case (inner_quiet r r')
  then show ?case using frames_like_books by (auto simp: quiet_def books_ok_def)
next
  case (inner_take r ss i ex u fs)
  then show ?case by (cases ex) (auto simp: books_ok_def)
next
  case (inner_leave r ss i ex u fs)
  then show ?case using leave_books by blast
next
  case (inner_drop r f fs)
  then show ?case by (cases f) (auto simp: books_ok_def)
next
  case (inner_body r f fs g)
  then show ?case using loop_body_books [of f g "f # fs"] by (auto simp: books_ok_def)
qed (auto simp: books_ok_def)

lemma move_books: "move W strict r r' \<Longrightarrow> books_ok v r \<Longrightarrow> books_ok v r'"
proof (induction rule: move.induct)
  case (move_inner r r')
  then show ?case using inner_move_books by blast
next
  case (move_enter s r fs)
  then show ?case using no_exits_books [OF entry_no_exit [OF move_enter(3)]] by (auto simp: books_ok_def)
qed (auto simp: books_ok_def)

interpretation books: kept_by_moves W strict "books_ok v" for W strict v
  by unfold_locales (rule move_books)

section \<open>Steps that are owed\<close>

text \<open>
  A \<open>try\<close> that has been entered owes the enabled steps of its \<open>finally\<close>, and a running
  \<open>finally\<close> body those it has not taken yet; the innermost come first.
\<close>

abbreviation enabled_steps :: "step list \<Rightarrow> step list" where
  "enabled_steps \<equiv> filter (\<lambda>s. \<not> st_disabled s)"

fun frame_owes :: "frame \<Rightarrow> step list" where
  "frame_owes (Frame ss i _ True) = enabled_steps (drop i ss)"
| "frame_owes (TryFrame ss False) = enabled_steps ss"
| "frame_owes _ = []"

definition owed :: "runtime \<Rightarrow> step list" where
  "owed r = concat (map frame_owes (rt_stack r))"

text \<open>Of the steps \<open>due\<close> when \<open>before\<close> had been taken, each has been taken since or is owed still.\<close>

definition accounted :: "step list \<Rightarrow> step list \<Rightarrow> runtime \<Rightarrow> bool" where
  "accounted before due r \<longleftrightarrow> (\<exists>ts. rt_taken r = before @ ts \<and> subseq due (ts @ owed r))"

lemma accounted_same: "rt_taken r' = rt_taken r \<Longrightarrow> owed r' = owed r \<Longrightarrow> accounted b d r \<Longrightarrow> accounted b d r'"
  by (simp add: accounted_def)

lemma accounted_more:
  assumes "rt_taken r' = rt_taken r @ ts" "subseq (owed r) (ts @ owed r')" "accounted b d r"
  shows "accounted b d r'"
proof -
  from assms(3) obtain us where u: "rt_taken r = b @ us" "subseq d (us @ owed r)" by (auto simp: accounted_def)
  have "subseq (us @ owed r) ((us @ ts) @ owed r')" using assms(2) by (simp add: list_emb_append_mono)
  with u(2) have "subseq d ((us @ ts) @ owed r')" by (rule subseq_order.trans)
  then show ?thesis using u(1) assms(1) unfolding accounted_def by (metis append.assoc)
qed

lemma frame_like_owes: "frame_like f g \<Longrightarrow> frame_owes g = frame_owes f"
  by (cases f) auto

lemma quiet_owed: "quiet r r' \<Longrightarrow> owed r' = owed r"
proof -
  assume "quiet r r'"
  then have "list_all2 frame_like (rt_stack r) (rt_stack r')" by (simp add: quiet_def)
  then have "map frame_owes (rt_stack r') = map frame_owes (rt_stack r)"
    by (induction rule: list_all2_induct) (auto simp: frame_like_owes)
  then show ?thesis by (simp add: owed_def)
qed

lemma leave_owes: "i \<ge> length ss \<or> \<not> u \<Longrightarrow> frame_owes (Frame ss i ex u) = []"
  by (cases u) auto

lemma drop_owes: "droppable f \<Longrightarrow> frame_owes f = []"
  by (cases f) auto

lemma body_owes: "loop_body f = Some g \<Longrightarrow> frame_owes g = []"
  by (cases f) auto

lemma take_owes:
  assumes "i < length ss"
  shows "subseq (frame_owes (Frame ss i ex u)) ((if st_disabled (ss ! i) then [] else [ss ! i]) @ frame_owes (Frame ss (Suc i) ex u))"
  using Cons_nth_drop_Suc [OF assms, symmetric] by (cases u) auto

lemma finally_owes: "concat (map frame_owes ((if ss \<noteq> [] then [Frame ss 0 NoExit True] else []) @ [TryFrame ss True])) = enabled_steps ss"
  by auto

lemma inner_move_accounted: "inner_move r r' \<Longrightarrow> accounted b d r \<Longrightarrow> accounted b d r'"
proof (induction rule: inner_move.induct)
  case (inner_quiet r r')
  then show ?case using quiet_owed accounted_same by (auto simp: quiet_def)
next
  case (inner_take r ss i ex u fs)
  define ts where "ts = (if st_disabled (ss ! i) then [] else [ss ! i])"
  have "subseq (owed r) (ts @ owed (r\<lparr>rt_stack := Frame ss (Suc i) ex u # fs, rt_taken := rt_taken r @ ts\<rparr>))"
    using list_emb_append_mono [OF take_owes [OF inner_take(2), of ex u] subseq_order.refl, of "concat (map frame_owes fs)"] inner_take(1)
    by (simp add: owed_def ts_def)
  then have "accounted b d (r\<lparr>rt_stack := Frame ss (Suc i) ex u # fs, rt_taken := rt_taken r @ ts\<rparr>)"
    by (intro accounted_more [OF _ _ inner_take(3)]) simp_all
  then show ?case by (simp add: ts_def)
next
  case (inner_leave r ss i ex u fs)
  then show ?case by (intro accounted_same [OF _ _ inner_leave(3)]) (simp_all add: owed_def leave_owes)
next
  case (inner_drop r f fs)
  then show ?case by (intro accounted_same [OF _ _ inner_drop(3)]) (simp_all add: owed_def drop_owes)
next
  case (inner_body r f fs g)
  then show ?case by (intro accounted_same [OF _ _ inner_body(3)]) (simp_all add: owed_def body_owes)
next
  case (inner_finally r ss fs)
  then show ?case by (intro accounted_same [OF _ _ inner_finally(2)]) (use finally_owes [of ss] in \<open>simp_all add: owed_def\<close>)
next
  case (inner_abort r a fs)
  then show ?case by (intro accounted_same [OF _ _ inner_abort(3)]) (simp_all add: owed_def)
qed

lemma more_frames_accounted:
  assumes "rt_stack r' = fs @ rt_stack r" "rt_taken r' = rt_taken r" "accounted b d r"
  shows "accounted b d r'"
  by (rule accounted_more [OF _ _ assms(3), of _ "[]"]) (simp_all add: owed_def assms list_emb_append2)

lemma move_accounted: "move W strict r r' \<Longrightarrow> accounted b d r \<Longrightarrow> accounted b d r'"
proof (induction rule: move.induct)
  case (move_inner r r')
  then show ?case using inner_move_accounted by blast
next
  case (move_enter s r fs)
  then show ?case by (intro more_frames_accounted [OF _ _ move_enter(4)]) simp_all
next
  case (move_atomic s r name body)
  then show ?case by (intro more_frames_accounted [OF _ _ move_atomic(4), of _ "[Frame body 0 AtomicExit False]"]) simp_all
next
  case (move_use s r raw args spec name v)
  then show ?case
    by (intro more_frames_accounted [OF _ _ move_use(6), of _ "[Frame (sq_steps spec) 0 (UseExit (rt_vars r) name) False]"]) simp_all
next
  case (move_again r spec)
  then show ?case by (intro accounted_same [OF _ _ move_again(4)]) (simp_all add: owed_def)
qed (simp_all add: accounted_def owed_def)

interpretation account: kept_by_moves W strict "accounted b d" for W strict b d
  by unfold_locales (rule move_accounted)

text \<open>With no adaptive step in sight, a run is over only when nothing is owed.\<close>

definition settled :: "seq_world \<Rightarrow> runtime \<Rightarrow> bool" where
  "settled W r \<longleftrightarrow> library_all tolerates_trials W \<and> run_all tolerates_trials r \<and> (run_live r \<or> owed r = [])"

lemma no_work_owes_nothing: "\<not> has_terminal_unwind_work r \<Longrightarrow> owed r = []"
proof -
  have "\<not> is_unwind_body f \<Longrightarrow> \<not> is_open_try f \<Longrightarrow> frame_owes f = []" for f
    by (induction f rule: frame_owes.induct) auto
  then show "\<not> has_terminal_unwind_work r \<Longrightarrow> owed r = []"
    by (simp add: has_terminal_unwind_work_def owed_def list_ex_iff)
qed

lemma inner_move_owed: "inner_move r r' \<Longrightarrow> owed r = [] \<Longrightarrow> owed r' = []"
proof (induction rule: inner_move.induct)
  case (inner_quiet r r')
  then show ?case by (simp add: quiet_owed)
next
  case (inner_take r ss i ex u fs)
  then show ?case by (cases u) (auto simp: owed_def Cons_nth_drop_Suc [symmetric] split: if_splits)
next
  case (inner_body r f fs g)
  then show ?case by (simp add: owed_def body_owes)
next
  case (inner_finally r ss fs)
  then show ?case using finally_owes [of ss] by (simp add: owed_def)
qed (auto simp: owed_def)

lemma move_settled:
  assumes "settled W r" "move W True r r'"
  shows "settled W r'"
proof -
  have l: "library_all tolerates_trials W" and a: "run_all tolerates_trials r" and o: "run_live r \<or> owed r = []"
    using assms(1) by (auto simp: settled_def)
  have "run_live r' \<or> owed r' = []"
    using assms(2) a o
  proof (induction rule: move.induct)
    case (move_inner r r')
    then show ?case using inner_move_live inner_move_owed by blast
  next
    case (move_halt r pd st)
    then show ?case using no_work_owes_nothing by (simp add: owed_def)
  qed (auto simp: run_live_def owed_def)
  with l move_run_all [OF l assms(2) a] show ?thesis by (simp add: settled_def)
qed

interpretation settle: kept_by_moves W True "settled W" for W
  by unfold_locales (rule move_settled)

section \<open>From the start of a run\<close>

lemma start_state:
  assumes "start E W adaptive n forever ov r0 = (Inr (), r)"
  obtains spec v where "rt_spec r0 = Some spec" "rt_spec r = Some spec" "rt_stack r = [body_frame (sq_steps spec)]" "rt_state r = RUNNING"
    "rt_atomic_depth r = 0" "rt_use_stack r = []" "rt_taken r = []" "rt_pending_state r = None" "rt_parallel r = None"
proof (cases "rt_spec r0")
  case None
  then show ?thesis using assms by (simp add: start_def)
next
  case (Some spec)
  then have "rt_spec r = Some spec \<and> rt_stack r = [body_frame (sq_steps spec)] \<and> rt_state r = RUNNING
      \<and> rt_atomic_depth r = 0 \<and> rt_use_stack r = [] \<and> rt_taken r = [] \<and> rt_pending_state r = None \<and> rt_parallel r = None"
    using assms
    by (auto simp: start_def rmodify_def rpy_def clock_def uses_def reset_progress_def reset_run_def clear_pending_def clear_parallel_def
        clear_set_context_def Let_def elim!: rbind_cases split: sum.splits)
  then show ?thesis using Some that by blast
qed

lemma start_books: "start E W adaptive n forever ov r0 = (Inr (), r) \<Longrightarrow> books_ok (rt_vars r) r"
  by (elim start_state) (simp add: books_ok_def)

lemma start_settled:
  assumes "start E W adaptive n forever ov r0 = (Inr (), r)" "rt_spec r0 = Some spec"
    "library_all tolerates_trials W" "list_all (all_kinds tolerates_trials) (sq_steps spec)"
  shows "settled W r"
  using assms by (elim start_state) (auto simp: settled_def run_all_def run_live_def)

lemma settled_tame: "settled W r \<Longrightarrow> tame W True r"
  by (simp add: settled_def tame_def)

lemma not_strict_tame [simp]: "tame W False r"
  by (simp add: tame_def)

text \<open>What is owed in a state of the run has been taken, in order, when the run is over.\<close>

lemma owed_taken:
  assumes "settled W r" "run_ops E W ops r = Some r'" "\<not> run_live r'"
  shows "subseq (owed r) (drop (length (rt_taken r)) (rt_taken r'))"
proof -
  have "accounted (rt_taken r) (owed r) r'"
    by (rule account.run_keeps [OF settled_tame [OF assms(1)] assms(2)]) (simp add: accounted_def)
  moreover have "owed r' = []"
    using settle.run_keeps [OF settled_tame [OF assms(1)] assms(2,1)] assms(3) by (simp add: settled_def)
  ultimately show ?thesis by (auto simp: accounted_def)
qed

lemma run_ops_append: "run_ops E W (xs @ ys) r = Option.bind (run_ops E W xs r) (run_ops E W ys)"
  by (induction xs arbitrary: r) (auto split: option.splits)

section \<open>A run that is over\<close>

lemma ended_run_op: "\<not> run_live r \<Longrightarrow> run_op E W op r = Some r' \<Longrightarrow> rt_state r' = rt_state r \<and> rt_taken r' = rt_taken r"
  by (cases op) (auto simp: run_live_def tick_def request_pause_def resume_def request_stop_def fail_def note_external_log_def Let_def)

lemma ended_run_ops: "\<not> run_live r \<Longrightarrow> run_ops E W ops r = Some r' \<Longrightarrow> rt_state r' = rt_state r \<and> rt_taken r' = rt_taken r"
proof (induction ops arbitrary: r)
  case (Cons op ops)
  then obtain r1 where o: "run_op E W op r = Some r1" "run_ops E W ops r1 = Some r'" by (auto split: option.splits)
  from ended_run_op [OF Cons.prems(1) o(1)] have "rt_state r1 = rt_state r" "rt_taken r1 = rt_taken r" by auto
  with Cons.IH [OF _ o(2)] Cons.prems(1) show ?case by (simp add: run_live_def)
qed simp

lemma failed_trial_ends_run:
  assumes "finalize_adaptive_trial E W f p t r = (x, r')" "\<not> tr_ok t" "as_fail_on_trial_error (af_spec f)"
  shows "x = Inr () \<and> rt_state r' = ERROR \<and> rt_taken r' = rt_taken r \<and> owed r' = owed r"
proof -
  define t' where "t' = t\<lparr>tr_observe_started := None\<rparr>"
  define fd where "fd = (\<lambda>g :: adaptive_frame. g\<lparr>af_proposal := None, af_trials := af_trials g + 1\<rparr>)"
  define r1 where "r1 = publish_adaptive_trial_env t' (map_adaptive_top (track_score (plain E) t') r)"
  define r2 where "r2 = map_adaptive_top fd (store_adaptive_trial E W f t' r1)"
  have "quiet r r1" unfolding r1_def by (rule quiet_trans [OF quiet_adaptive_top quiet_publish_trial]) simp
  moreover have "quiet r1 r2" unfolding r2_def by (rule quiet_trans [OF quiet_store_trial quiet_adaptive_top]) (simp add: fd_def)
  ultimately have q: "quiet r r2" by (rule quiet_trans)
  have "\<exists>e. x = Inr () \<and> r' = r2\<lparr>rt_last_error := e, rt_state := ERROR\<rparr>"
    using assms by (auto simp: finalize_adaptive_trial_def Let_def rbind_def rmodify_def r2_def r1_def t'_def fd_def)
  then show ?thesis using quiet_owed [OF q] q by (auto simp: owed_def quiet_def)
qed

end
