(* ===== verification/Sequencer_Returns.thy ===== *)
theory Sequencer_Returns
  imports Sequencer_Books
begin

text \<open>
  When the choice of the next step returns. The loops of \<open>_next_step_above\<close> and
  \<open>_next_terminal_unwind_step\<close> are partial functions; they return in every run whose \<open>while\<close>
  bodies have an enabled step, by a measure on the stack, and the first of them does not return
  from a \<open>while\<close> without one whose condition holds.
\<close>

section \<open>Operations that leave the stack alone\<close>

definition steady :: "'a rt \<Rightarrow> bool" where
  "steady m \<longleftrightarrow> (\<forall>r. rt_stack (snd (m r)) = rt_stack r \<and> rt_state (snd (m r)) = rt_state r)"

named_theorems steady_intros

lemma steadyD: "steady m \<Longrightarrow> m r = (x, r') \<Longrightarrow> rt_stack r' = rt_stack r \<and> rt_state r' = rt_state r"
  by (metis snd_conv steady_def)

lemma steady_simple [steady_intros]: "steady (rret x)" "steady (rraise e)" "steady (rlift y)" "steady (rpy z)" "steady (rget g)" "steady (ask f)"
  by (simp_all add: steady_def rret_def rraise_def rlift_def rpy_def rget_def ask_def uses_def)

lemma steady_rmodify [steady_intros]: "(\<And>r. rt_stack (f r) = rt_stack r \<and> rt_state (f r) = rt_state r) \<Longrightarrow> steady (rmodify f)"
  by (simp add: steady_def rmodify_def)

lemma steady_rrun [steady_intros]: "(\<And>r. rt_stack (snd (f r)) = rt_stack r \<and> rt_state (snd (f r)) = rt_state r) \<Longrightarrow> steady (rrun f)"
  by (simp add: steady_def rrun_def split_beta)

lemma steady_rbind [steady_intros]:
  assumes "steady m" "\<And>x. steady (f x)"
  shows "steady (rbind m f)"
  using assms unfolding steady_def rbind_def by (auto split: prod.split sum.split) (metis snd_conv)+

lemma steady_rforeach [steady_intros]: "(\<And>x. steady (f x)) \<Longrightarrow> steady (rforeach f xs)"
  by (induction xs) (auto intro: steady_intros)

lemma steady_cases [steady_intros]:
  "(b \<Longrightarrow> steady m) \<Longrightarrow> (\<not> b \<Longrightarrow> steady n) \<Longrightarrow> steady (if b then m else n)"
  "(v = None \<Longrightarrow> steady m) \<Longrightarrow> (\<And>y. v = Some y \<Longrightarrow> steady (g y)) \<Longrightarrow> steady (case v of None \<Rightarrow> m | Some y \<Rightarrow> g y)"
  "(xs = [] \<Longrightarrow> steady m) \<Longrightarrow> (\<And>y ys. xs = y # ys \<Longrightarrow> steady (h y ys)) \<Longrightarrow> steady (case xs of [] \<Rightarrow> m | y # ys \<Rightarrow> h y ys)"
  "(\<And>a c. p = (a, c) \<Longrightarrow> steady (k a c)) \<Longrightarrow> steady (case p of (a, c) \<Rightarrow> k a c)"
  "(\<And>x. x = t \<Longrightarrow> steady (l x)) \<Longrightarrow> steady (let x = t in l x)"
  by (auto split: option.split list.split prod.split)

lemma steady_render [steady_intros]: "steady (render E v)"
  by (simp add: steady_def render_def rlift_def)

lemma steady_dispatch [steady_intros]: "steady (dispatch_call W d p a ps)" "steady (dispatch_get_telemetry W d p s)"
  unfolding dispatch_call_def dispatch_get_telemetry_def by (intro steady_intros | simp add: steady_def uses_def)+

lemma steady_names [steady_intros]: "steady (rendered_name E v)" "steady (render_call_target E spec)"
  unfolding rendered_name_def render_call_target_def by (intro steady_intros)+

lemma stack_sample_age: "rt_stack (snd (telemetry_sample_age_s E W s r)) = rt_stack r \<and> rt_state (snd (telemetry_sample_age_s E W s r)) = rt_state r"
  by (simp add: telemetry_sample_age_s_def Let_def clock_def uses_def split: option.split)

lemma steady_resolve_parts [steady_intros]: "steady (resolve_telemetry E W env v)" "steady (resolve_call E W env v)"
  unfolding resolve_telemetry_def resolve_call_def by (intro steady_intros stack_sample_age)+

lemma steady_resolve [steady_intros]:
  "steady (resolve_value E W env v)" "steady (resolve_list E W env xs)" "steady (resolve_items E W env d)"
  by (induction E W env v and E W env xs and E W env d rule: resolve_value_resolve_list_resolve_items.induct)
    (simp_all add: steady_rbind steady_simple steady_resolve_parts)

lemma steady_condition: "eval_condition_rt E W c k False r = (x, r') \<Longrightarrow> rt_stack r' = rt_stack r \<and> rt_state r' = rt_state r"
proof -
  have "steady (rbind (resolve_value E W env c) (\<lambda>v. rlift (eval_condition E env v)))" for env
    by (intro steady_intros)
  then have "condition_holds E W c r = (y, r1) \<Longrightarrow> rt_stack r1 = rt_stack r \<and> rt_state r1 = rt_state r" for y r1
    using steadyD by (fastforce simp: condition_holds_def Let_def)
  then show "eval_condition_rt E W c k False r = (x, r') \<Longrightarrow> rt_stack r' = rt_stack r \<and> rt_state r' = rt_state r"
    by (auto simp: eval_condition_rt_def split: prod.splits sum.splits)
qed

lemma steady_bind_record [steady_intros]: "steady (bind_record E b rec i)"
  unfolding bind_record_def by (intro steady_intros) (auto simp: set_env_def)

section \<open>The measure of a stack\<close>

text \<open>Rounds the loop can spend on a frame before it takes a step.\<close>

definition loop_rounds :: "nat \<Rightarrow> step list \<Rightarrow> nat" where
  "loop_rounds k body = k * (length body + 2) + 1"

lemma loop_rounds_body: "0 < k \<Longrightarrow> length body + 1 + loop_rounds (k - 1) body < loop_rounds k body"
  by (cases k) (simp_all add: loop_rounds_def)

fun frame_rounds :: "frame \<Rightarrow> nat" where
  "frame_rounds (Frame ss i _ _) = length ss - i + 1"
| "frame_rounds (ForFrame _ rs i body) = loop_rounds (length rs - i) body"
| "frame_rounds (RepeatFrame n body _) = loop_rounds (nat n) body"
| "frame_rounds (TryFrame ss finalizing) = (if finalizing then 1 else length ss + 3)"
| "frame_rounds _ = 1"

definition stack_rounds :: "frame list \<Rightarrow> nat" where
  "stack_rounds fs = sum_list (map frame_rounds fs)"

lemma stack_rounds_simps [simp]:
  "stack_rounds [] = 0" "stack_rounds (f # fs) = frame_rounds f + stack_rounds fs" "stack_rounds (fs @ gs) = stack_rounds fs + stack_rounds gs"
  by (simp_all add: stack_rounds_def)

lemma frame_rounds_pos: "0 < frame_rounds f"
  by (cases f) (auto simp: loop_rounds_def)

text \<open>The steps of a run that always comes to a step: no adaptive step, no \<open>while\<close> without an enabled step.\<close>

fun busy :: "kind \<Rightarrow> bool" where
  "busy (AdaptiveStep _ _) = False"
| "busy (WhileStep _ body) = (\<exists>s\<in>set body. \<not> st_disabled s)"
| "busy _ = True"

fun plain_frame :: "frame \<Rightarrow> bool" where
  "plain_frame (Frame _ _ AdaptiveExit _) = False"
| "plain_frame (AdaptiveFrame _) = False"
| "plain_frame (WhileFrame _ body _) = (\<exists>s\<in>set body. \<not> st_disabled s)"
| "plain_frame _ = True"

definition ready_ahead :: "frame \<Rightarrow> bool" where
  "ready_ahead f = (case f of Frame ss i _ _ \<Rightarrow> (\<exists>s\<in>set (drop i ss). \<not> st_disabled s) | _ \<Rightarrow> False)"

text \<open>What one round does to the stack: it works on the top frame only, and either comes nearer to the end or to a step.\<close>

definition round_ok :: "frame \<Rightarrow> frame list \<Rightarrow> run_state \<Rightarrow> ((seq_exc + step_result option) \<times> runtime) option \<Rightarrow> bool" where
  "round_ok f fs st res \<longleftrightarrow> (\<exists>x r' gs. res = Some (x, r') \<and> rt_stack r' = gs @ fs \<and> rt_state r' = st \<and> (\<forall>g\<in>set gs. plain_frame g)
     \<and> (x = Inr None \<longrightarrow> stack_rounds gs < frame_rounds f \<or> gs \<noteq> [] \<and> ready_ahead (hd gs)))"

lemma round_okI:
  assumes "res \<noteq> None" "\<forall>g\<in>set gs. plain_frame g"
    and "\<And>x r'. res = Some (x, r') \<Longrightarrow> rt_stack r' = gs @ fs \<and> rt_state r' = st"
    and "\<And>r'. res = Some (Inr None, r') \<Longrightarrow> stack_rounds gs < frame_rounds f \<or> gs \<noteq> [] \<and> ready_ahead (hd gs)"
  shows "round_ok f fs st res"
  using assms unfolding round_ok_def by (cases res) auto

lemma pop_round_ok:
  assumes "rt_stack r = f # fs"
  shows "round_ok f fs (rt_state r) (plift (rbind (rmodify pop) (\<lambda>_. rret None)) r)"
  using assms frame_rounds_pos [of f] by (intro round_okI [where gs = "[]"]) (auto simp: plift_def rbind_def rmodify_def rret_def pop_def)

lemma run_exit_stack:
  "ex \<noteq> AdaptiveExit \<Longrightarrow> \<exists>r'. run_exit E W ex r = Some (Inr (), r') \<and> rt_stack r' = rt_stack r \<and> rt_state r' = rt_state r"
  by (cases ex) (auto simp: run_exit_def plift_def rmodify_def rret_def)

lemma take_round_ok:
  assumes "rt_stack r = Frame ss i ex u # fs" "i < length ss" "plain_frame (Frame ss i ex u)"
  shows "round_ok (Frame ss i ex u) fs (rt_state r) (plift (take_step ss i ex u) r)"
proof -
  have pl: "plain_frame (Frame ss (Suc i) ex u)" using assms(3) by (cases ex) auto
  obtain x r' where t: "take_step ss i ex u r = (x, r')" by (cases "take_step ss i ex u r")
  then have "rt_stack r' = Frame ss (Suc i) ex u # fs" "rt_state r' = rt_state r"
    using assms(1) by (auto simp: take_step_def rbind_def rmodify_def rret_def set_top_def split: if_splits)
  with t pl assms(2) show ?thesis by (intro round_okI [where gs = "[Frame ss (Suc i) ex u]"]) (auto simp: plift_def)
qed

lemma frame_round_ok:
  assumes top: "rt_stack r = Frame ss i ex u # fs" and pl: "plain_frame (Frame ss i ex u)"
  shows "round_ok (Frame ss i ex u) fs (rt_state r) (frame_round E W ss i ex u r)"
proof (cases "i \<ge> length ss")
  case True
  have ex: "ex \<noteq> AdaptiveExit" using pl by auto
  obtain r' where r': "run_exit E W ex (pop r) = Some (Inr (), r')" "rt_stack r' = fs" "rt_state r' = rt_state r"
    using run_exit_stack [OF ex, of E W "pop r"] by (auto simp: pop_def top)
  show ?thesis
  proof (cases "ex = NoExit")
    case True
    then show ?thesis using \<open>i \<ge> length ss\<close> top
      by (intro round_okI [where gs = "[]"]) (auto simp: frame_round_def pbind_def plift_def rmodify_def rret_def pop_def)
  next
    case False
    then show ?thesis using \<open>i \<ge> length ss\<close> r'
      by (intro round_okI [where gs = "[]"]) (auto simp: frame_round_def pbind_def plift_def rmodify_def rget_def)
  qed
next
  case False
  then show ?thesis using take_round_ok [OF top _ pl] by (simp add: frame_round_def)
qed

lemma try_round_ok:
  assumes top: "rt_stack r = TryFrame ss finalizing # fs"
  shows "round_ok (TryFrame ss finalizing) fs (rt_state r) (plift (rbind (rmodify (try_round ss finalizing)) (\<lambda>_. rret None)) r)"
proof (cases finalizing)
  case True
  then show ?thesis using pop_round_ok [OF top] by (simp add: try_round_def rmodify_def rbind_def plift_def)
next
  case False
  then show ?thesis using top
    by (intro round_okI [where gs = "(if ss \<noteq> [] then [Frame ss 0 NoExit True] else []) @ [TryFrame ss True]"])
      (auto simp: try_round_def plift_def rbind_def rmodify_def rret_def push_def set_top_def Let_def)
qed

lemma for_round_ok:
  assumes top: "rt_stack r = ForFrame bnd rs i body # fs"
  shows "round_ok (ForFrame bnd rs i body) fs (rt_state r) (top_round E W (ForFrame bnd rs i body) r)"
proof (cases "i \<ge> length rs")
  case True
  then show ?thesis using pop_round_ok [OF top] by (simp add: top_round_def)
next
  case False
  define r1 where "r1 = set_top (ForFrame bnd rs (Suc i) body) r"
  obtain x r2 where b: "bind_record E bnd (rs ! i) i r1 = (x, r2)" by (cases "bind_record E bnd (rs ! i) i r1")
  have s2: "rt_stack r2 = ForFrame bnd rs (Suc i) body # fs" "rt_state r2 = rt_state r"
    using steadyD [OF steady_bind_record b] by (simp_all add: r1_def set_top_def top)
  have run: "top_round E W (ForFrame bnd rs i body) r = Some (case x of Inl e \<Rightarrow> (Inl e, r2) | Inr _ \<Rightarrow> (Inr None, push (body_frame body) r2))"
    using False b by (simp add: top_round_def plift_def rbind_def rmodify_def rret_def r1_def split: sum.split)
  show ?thesis
  proof (cases x)
    case (Inl e)
    then show ?thesis using run s2 by (intro round_okI [where gs = "[ForFrame bnd rs (Suc i) body]"]) auto
  next
    case (Inr y)
    have "length body + 1 + loop_rounds (length rs - Suc i) body < loop_rounds (length rs - i) body"
      using loop_rounds_body [of "length rs - i" body] False by simp
    then show ?thesis using run s2 Inr
      by (intro round_okI [where gs = "[body_frame body, ForFrame bnd rs (Suc i) body]"]) (auto simp: push_def)
  qed
qed

lemma repeat_round_ok:
  assumes top: "rt_stack r = RepeatFrame n body t # fs"
  shows "round_ok (RepeatFrame n body t) fs (rt_state r) (top_round E W (RepeatFrame n body t) r)"
proof (cases "n \<le> 0")
  case True
  then show ?thesis using pop_round_ok [OF top] by (simp add: top_round_def)
next
  case False
  then have "length body + 1 + loop_rounds (nat (n - 1)) body < loop_rounds (nat n) body"
    using loop_rounds_body [of "nat n" body] by (simp add: nat_diff_distrib)
  then show ?thesis using False top
    by (intro round_okI [where gs = "[body_frame body, RepeatFrame (n - 1) body t]"])
      (auto simp: top_round_def plift_def rbind_def rmodify_def rret_def push_def set_top_def)
qed

lemma while_round_ok:
  assumes top: "rt_stack r = WhileFrame c body n # fs" and pl: "plain_frame (WhileFrame c body n)"
  shows "round_ok (WhileFrame c body n) fs (rt_state r) (top_round E W (WhileFrame c body n) r)"
proof -
  obtain x r1 where c: "eval_condition_rt E W c ''while'' False r = (x, r1)" by (cases "eval_condition_rt E W c ''while'' False r")
  have s1: "rt_stack r1 = WhileFrame c body n # fs" "rt_state r1 = rt_state r" using steady_condition [OF c] top by simp_all
  have run: "top_round E W (WhileFrame c body n) r = Some (case x of Inl e \<Rightarrow> (Inl e, r1)
      | Inr ok \<Rightarrow> (Inr None, if ok then push (body_frame body) (set_top (WhileFrame c body (Suc n)) r1) else pop r1))"
    by (simp add: top_round_def plift_def rbind_def rmodify_def rret_def c split: sum.split)
  consider e where "x = Inl e" | "x = Inr True" | "x = Inr False" by (cases x) auto
  then show ?thesis
  proof cases
    case 1
    then show ?thesis using run s1 pl by (intro round_okI [where gs = "[WhileFrame c body n]"]) auto
  next
    case 2
    then show ?thesis using run s1 pl
      by (intro round_okI [where gs = "[body_frame body, WhileFrame c body (Suc n)]"]) (auto simp: push_def set_top_def ready_ahead_def)
  next
    case 3
    then show ?thesis using run s1 by (intro round_okI [where gs = "[]"]) (auto simp: pop_def)
  qed
qed

lemma top_round_ok:
  assumes top: "rt_stack r = f # fs" and pl: "plain_frame f"
  shows "round_ok f fs (rt_state r) (top_round E W f r)"
proof (cases f)
  case (Frame ss i ex u)
  then show ?thesis using frame_round_ok top pl by (simp add: top_round_def)
next
  case (TryFrame ss fin)
  then show ?thesis using try_round_ok top by (simp add: top_round_def)
qed (use assms for_round_ok repeat_round_ok while_round_ok in \<open>auto\<close>)

text \<open>A round of the unwind always comes nearer to the end.\<close>

definition shrinks :: "frame \<Rightarrow> frame list \<Rightarrow> run_state \<Rightarrow> ((seq_exc + step_result option) \<times> runtime) option \<Rightarrow> bool" where
  "shrinks f fs st res \<longleftrightarrow> (\<exists>x r' gs. res = Some (x, r') \<and> rt_stack r' = gs @ fs \<and> rt_state r' = st \<and> (\<forall>g\<in>set gs. plain_frame g) \<and> stack_rounds gs < frame_rounds f)"

lemma shrinksI:
  assumes "res \<noteq> None" "\<forall>g\<in>set gs. plain_frame g" "stack_rounds gs < frame_rounds f"
    and "\<And>x r'. res = Some (x, r') \<Longrightarrow> rt_stack r' = gs @ fs \<and> rt_state r' = st"
  shows "shrinks f fs st res"
  using assms unfolding shrinks_def by (cases res) auto

lemma unwind_round_shrinks:
  assumes top: "rt_stack r = f # fs" and pl: "plain_frame f"
  shows "shrinks f fs (rt_state r) (unwind_round E W f r)"
proof -
  have pop: "shrinks f fs (rt_state r) (plift (rbind (rmodify pop) (\<lambda>_. rret None)) r)"
    using top frame_rounds_pos [of f] by (intro shrinksI [where gs = "[]"]) (auto simp: plift_def rbind_def rmodify_def rret_def pop_def)
  show ?thesis
  proof (cases f)
    case (Frame ss i ex u)
    have ex: "ex \<noteq> AdaptiveExit" using pl Frame by auto
    show ?thesis
    proof (cases "\<not> u \<or> i \<ge> length ss")
      case True
      obtain r' where r': "run_exit E W ex (pop r) = Some (Inr (), r')" "rt_stack r' = fs" "rt_state r' = rt_state r"
        using run_exit_stack [OF ex, of E W "pop r"] by (auto simp: pop_def top)
      have "\<exists>r2. leave_frame E W ex r = Some (Inr None, r2) \<and> rt_stack r2 = fs \<and> rt_state r2 = rt_state r"
        using r' top by (cases "ex = NoExit")
          (auto simp: leave_frame_def pbind_def plift_def rmodify_def rret_def rbind_def pop_def after_unwind_exit_def clear_set_context_def)
      then show ?thesis
        using True Frame by (auto simp: unwind_round_def intro!: shrinksI [where gs = "[]"])
    next
      case False
      have pl': "plain_frame (Frame ss (Suc i) ex u)" using ex by (cases ex) auto
      obtain x r' where t: "take_step ss i ex u r = (x, r')" by (cases "take_step ss i ex u r")
      then have "rt_stack r' = Frame ss (Suc i) ex u # fs" "rt_state r' = rt_state r"
        using top Frame by (auto simp: take_step_def rbind_def rmodify_def rret_def set_top_def split: if_splits)
      with t pl' False show ?thesis
        by (intro shrinksI [where gs = "[Frame ss (Suc i) ex u]"]) (auto simp: unwind_round_def plift_def Frame)
    qed
  next
    case (TryFrame ss finalizing)
    show ?thesis
    proof (cases finalizing)
      case True
      then show ?thesis using pop TryFrame by (simp add: unwind_round_def try_round_def rmodify_def rbind_def plift_def)
    next
      case False
      then show ?thesis using top TryFrame
        by (intro shrinksI [where gs = "(if ss \<noteq> [] then [Frame ss 0 NoExit True] else []) @ [TryFrame ss True]"])
          (auto simp: unwind_round_def try_round_def plift_def rbind_def rmodify_def rret_def push_def set_top_def Let_def)
    qed
  qed (use pop in \<open>auto simp: unwind_round_def\<close>)
qed

section \<open>The choice of the next step returns\<close>

lemma top_frame_step:
  "rt_stack r = f # fs \<Longrightarrow> base \<le> length fs \<Longrightarrow>
   next_step_above E W base r = (case top_round E W f r of
      None \<Rightarrow> None
    | Some (Inl e, r') \<Rightarrow> Some (Inl e, r')
    | Some (Inr (Some res), r') \<Rightarrow> Some (Inr res, r')
    | Some (Inr None, r') \<Rightarrow> next_step_above E W base r')"
  by (subst next_step_above.simps) simp

definition returned :: "frame list \<Rightarrow> run_state \<Rightarrow> ((seq_exc + step_result) \<times> runtime) option \<Rightarrow> bool" where
  "returned low st res \<longleftrightarrow> (\<exists>x r' gs. res = Some (x, r') \<and> rt_stack r' = gs @ low \<and> rt_state r' = st \<and> (\<forall>g\<in>set gs. plain_frame g)
     \<and> (x = Inr NoStep \<and> st = RUNNING \<longrightarrow> gs = []))"

lemma returnedI:
  assumes "res = Some (x, r')" "rt_stack r' = gs @ low" "rt_state r' = st" "\<forall>g\<in>set gs. plain_frame g"
    "x = Inr NoStep \<and> st = RUNNING \<longrightarrow> gs = []"
  shows "returned low st res"
  using assms unfolding returned_def by blast

text \<open>With an enabled step ahead in the top frame the loop takes it.\<close>

lemma ready_returns:
  assumes "rt_stack r = Frame ss i ex u # hs @ low" "ready_ahead (Frame ss i ex u)" "\<forall>h\<in>set (Frame ss i ex u # hs). plain_frame h"
  shows "returned low (rt_state r) (next_step_above E W (length low) r)"
  using assms
proof (induction "length ss - i" arbitrary: i r rule: less_induct)
  case less
  have i: "i < length ss" using less.prems(2) by (cases "i < length ss") (auto simp: ready_ahead_def)
  define r1 where "r1 = set_top (Frame ss (Suc i) ex u) r"
  have pl: "plain_frame (Frame ss (Suc i) ex u)" using less.prems(3) by (cases ex) auto
  have s1: "rt_stack r1 = Frame ss (Suc i) ex u # hs @ low" "rt_state r1 = rt_state r" by (simp_all add: r1_def set_top_def less.prems(1))
  have step: "next_step_above E W (length low) r = (if st_disabled (ss ! i) then next_step_above E W (length low) r1
      else Some (Inr (NextStep (ss ! i)), r1\<lparr>rt_taken := rt_taken r1 @ [ss ! i]\<rparr>))"
    using i top_frame_step [OF less.prems(1), of "length low" E W]
    by (simp add: top_round_def frame_round_def take_step_def plift_def rbind_def rmodify_def rret_def r1_def)
  show ?case
  proof (cases "st_disabled (ss ! i)")
    case True
    have "ready_ahead (Frame ss (Suc i) ex u)"
      using less.prems(2) True i by (auto simp: ready_ahead_def Cons_nth_drop_Suc [symmetric])
    then have "returned low (rt_state r1) (next_step_above E W (length low) r1)"
      using less.hyps [of "Suc i" r1] i s1(1) less.prems(3) pl by auto
    then show ?thesis using step True s1(2) by simp
  next
    case False
    then have "next_step_above E W (length low) r = Some (Inr (NextStep (ss ! i)), r1\<lparr>rt_taken := rt_taken r1 @ [ss ! i]\<rparr>)"
      using step by simp
    then show ?thesis
      by (rule returnedI [where gs = "Frame ss (Suc i) ex u # hs"]) (use s1 pl less.prems(3) in simp_all)
  qed
qed

lemma next_step_above_returns:
  assumes "rt_stack r = hs @ low" "\<forall>h\<in>set hs. plain_frame h"
  shows "returned low (rt_state r) (next_step_above E W (length low) r)"
  using assms
proof (induction "stack_rounds hs" arbitrary: hs r rule: less_induct)
  case less
  show ?case
  proof (cases hs)
    case Nil
    then have "next_step_above E W (length low) r = Some (Inr NoStep, r)"
      using less.prems(1) by (subst next_step_above.simps) (cases low; simp)
    then show ?thesis using less.prems(1) Nil by (simp add: returned_def)
  next
    case (Cons f hs')
    have st: "rt_stack r = f # (hs' @ low)" using less.prems(1) Cons by simp
    from top_round_ok [OF st, of E W] less.prems(2) Cons
    obtain x r' gs where rd: "top_round E W f r = Some (x, r')" "rt_stack r' = gs @ hs' @ low" "rt_state r' = rt_state r" "\<forall>g\<in>set gs. plain_frame g"
      "x = Inr None \<Longrightarrow> stack_rounds gs < frame_rounds f \<or> gs \<noteq> [] \<and> ready_ahead (hd gs)"
      by (auto simp: round_ok_def)
    have pl: "\<forall>h\<in>set (gs @ hs'). plain_frame h" using rd(4) less.prems(2) Cons by auto
    note step = top_frame_step [OF st, of "length low" E W]
    show ?thesis
    proof (cases "x = Inr None")
      case True
      from rd(5) [OF True] show ?thesis
      proof
        assume "stack_rounds gs < frame_rounds f"
        then have "returned low (rt_state r') (next_step_above E W (length low) r')"
          using less.hyps [of "gs @ hs'" r'] rd(2) pl Cons by simp
        then show ?thesis using step rd(1,3) True by simp
      next
        assume g: "gs \<noteq> [] \<and> ready_ahead (hd gs)"
        then obtain ss i ex u gs' where gs: "gs = Frame ss i ex u # gs'" by (cases gs; cases "hd gs") (auto simp: ready_ahead_def)
        have "returned low (rt_state r') (next_step_above E W (length low) r')"
          by (rule ready_returns [of r' ss i ex u "gs' @ hs'"]) (use rd(2) g gs pl in auto)
        then show ?thesis using step rd(1,3) True by simp
      qed
    next
      case False
      have no: "x = Inr (Some NoStep) \<Longrightarrow> rt_state r' \<noteq> RUNNING" using top_round_result [of E W f r NoStep r'] rd(1) by auto
      have "next_step_above E W (length low) r = Some (case x of Inl e \<Rightarrow> Inl e | Inr res \<Rightarrow> Inr (the res), r')"
        using step rd(1) False by (auto split: sum.splits option.splits)
      then show ?thesis
        by (rule returnedI [where gs = "gs @ hs'"]) (use rd(2,3) pl no False in \<open>auto split: sum.splits\<close>)
    qed
  qed
qed

text \<open>The unwind returns too.\<close>

lemma unwind_step:
  assumes "rt_stack r = f # fs"
  shows "next_terminal_unwind_step E W r =
     (if inside_unwind_body (f # fs)
      then (case next_step_above E W (length (f # fs) - length (above_unwind_body (f # fs))) r of
              None \<Rightarrow> None
            | Some (Inl e, r') \<Rightarrow> Some (Inl e, r')
            | Some (Inr NoStep, r') \<Rightarrow> next_terminal_unwind_step E W r'
            | Some (Inr (NextStep s), r') \<Rightarrow> Some (Inr (NextStep s), r')
            | Some (Inr NoStepReady, r') \<Rightarrow> Some (Inr NoStepReady, r'))
      else (case unwind_round E W f r of
              None \<Rightarrow> None
            | Some (Inl e, r') \<Rightarrow> Some (Inl e, r')
            | Some (Inr (Some res), r') \<Rightarrow> Some (Inr res, r')
            | Some (Inr None, r') \<Rightarrow> next_terminal_unwind_step E W r'))"
  by (subst next_terminal_unwind_step.simps) (simp add: assms)

lemma inside_split:
  assumes "inside_unwind_body fs"
  shows "fs = above_unwind_body fs @ dropWhile (\<lambda>f. \<not> is_unwind_body f) fs" "above_unwind_body fs \<noteq> []"
    "length fs - length (above_unwind_body fs) = length (dropWhile (\<lambda>f. \<not> is_unwind_body f) fs)"
proof -
  show "fs = above_unwind_body fs @ dropWhile (\<lambda>f. \<not> is_unwind_body f) fs" by (simp add: above_unwind_body_def)
  then show "length fs - length (above_unwind_body fs) = length (dropWhile (\<lambda>f. \<not> is_unwind_body f) fs)"
    by (metis add_diff_cancel_left' length_append)
  show "above_unwind_body fs \<noteq> []" using assms by (cases fs) (auto simp: inside_unwind_body_def above_unwind_body_def)
qed

lemma unwind_returns:
  assumes "\<forall>f\<in>set (rt_stack r). plain_frame f" "rt_state r = RUNNING"
  shows "\<exists>x r'. next_terminal_unwind_step E W r = Some (x, r')"
  using assms
proof (induction "stack_rounds (rt_stack r)" arbitrary: r rule: less_induct)
  case less
  show ?case
  proof (cases "rt_stack r")
    case Nil
    then show ?thesis by (subst next_terminal_unwind_step.simps) simp
  next
    case (Cons f fs)
    note step = unwind_step [OF Cons, of E W]
    show ?thesis
    proof (cases "inside_unwind_body (f # fs)")
      case True
      define hs where "hs = above_unwind_body (f # fs)"
      define low where "low = dropWhile (\<lambda>f. \<not> is_unwind_body f) (f # fs)"
      note sp = inside_split [OF True, folded hs_def low_def]
      have "returned low RUNNING (next_step_above E W (length low) r)"
        using next_step_above_returns [of r hs low E W] less.prems sp(1) Cons by (metis Un_iff set_append)
      then obtain x r' gs where n: "next_step_above E W (length low) r = Some (x, r')" "rt_stack r' = gs @ low" "rt_state r' = RUNNING"
        "x = Inr NoStep \<Longrightarrow> gs = []" by (auto simp: returned_def)
      show ?thesis
      proof (cases "x = Inr NoStep")
        case no: True
        have "0 < stack_rounds hs" using sp(2) frame_rounds_pos by (cases hs) auto
        then have "stack_rounds (rt_stack r') < stack_rounds (rt_stack r)" using n(2,4) no sp(1) Cons by (metis add_less_cancel_right add_0 append_Nil stack_rounds_simps(3))
        moreover have "\<forall>f\<in>set (rt_stack r'). plain_frame f" using n(2,4) no less.prems(1) Cons sp(1) by (metis UnCI append_Nil set_append)
        ultimately have "\<exists>x r''. next_terminal_unwind_step E W r' = Some (x, r'')" using less.hyps n(3) by blast
        then show ?thesis using step True n(1) no sp(3) by (simp add: hs_def)
      next
        case False
        then show ?thesis using step True n(1) sp(3) by (cases x) (auto simp: hs_def split: step_result.splits)
      qed
    next
      case False
      from unwind_round_shrinks [OF Cons, of E W] less.prems(1) Cons
      obtain x r' gs where u: "unwind_round E W f r = Some (x, r')" "rt_stack r' = gs @ fs" "rt_state r' = rt_state r"
        "\<forall>g\<in>set gs. plain_frame g" "stack_rounds gs < frame_rounds f" by (auto simp: shrinks_def)
      have "\<exists>x r''. next_terminal_unwind_step E W r' = Some (x, r'')"
        using less.hyps [of r'] u less.prems Cons by auto
      then show ?thesis using step False u(1) by (cases x) (auto split: option.splits)
    qed
  qed
qed

section \<open>Runs that always come to a step\<close>

definition bustling :: "seq_world \<Rightarrow> runtime \<Rightarrow> bool" where
  "bustling W r \<longleftrightarrow> library_all busy W \<and> run_all busy r \<and> (\<forall>f\<in>set (rt_stack r). plain_frame f)"

lemma frame_like_plain: "frame_like f g \<Longrightarrow> plain_frame f \<Longrightarrow> plain_frame g"
  by (cases f) auto

lemma loop_body_plain: "loop_body f = Some g \<Longrightarrow> plain_frame f \<Longrightarrow> plain_frame g"
  by (cases f) auto

lemma frame_index_plain: "plain_frame (Frame ss i ex u) \<Longrightarrow> plain_frame (Frame ss j ex u)"
  by (cases ex) auto

lemma inner_move_plain:
  "inner_move r r' \<Longrightarrow> \<forall>f\<in>set (rt_stack r). plain_frame f \<Longrightarrow> \<forall>f\<in>set (rt_stack r'). plain_frame f"
proof (induction rule: inner_move.induct)
  case (inner_quiet r r')
  then show ?case using quiet_stack_same [of r r' plain_frame] frame_like_plain by blast
next
  case (inner_body r f fs g)
  then show ?case using loop_body_plain by auto
next
  case (inner_take r ss i ex u fs)
  then show ?case using frame_index_plain by auto
qed auto

lemma entry_plain: "entry k fs \<Longrightarrow> busy k \<Longrightarrow> \<forall>f\<in>set fs. plain_frame f"
  by (cases k) auto

lemma move_bustling:
  assumes "bustling W r" "move W strict r r'"
  shows "bustling W r'"
proof -
  have l: "library_all busy W" and a: "run_all busy r" and p: "\<forall>f\<in>set (rt_stack r). plain_frame f"
    using assms(1) by (auto simp: bustling_def)
  have "\<forall>f\<in>set (rt_stack r'). plain_frame f"
    using assms(2) a p
  proof (induction rule: move.induct)
    case (move_inner r r')
    then show ?case using inner_move_plain by blast
  next
    case (move_enter s r fs)
    then have "busy (st_kind s)" using all_kinds_kind [of busy s] by (auto simp: just_taken_def run_all_def list_all_iff)
    then show ?case using entry_plain [OF move_enter(3)] move_enter by auto
  qed auto
  with l move_run_all [OF l assms(2) a] show ?thesis by (simp add: bustling_def)
qed

interpretation bustle: kept_by_moves W strict "bustling W" for W strict
  by unfold_locales (rule move_bustling)

lemma start_bustling:
  assumes "start E W adaptive n forever ov r0 = (Inr (), r)" "rt_spec r0 = Some spec"
    "library_all busy W" "list_all (all_kinds busy) (sq_steps spec)"
  shows "bustling W r"
  using assms by (elim start_state) (auto simp: bustling_def run_all_def)

lemma bustling_next_step: "bustling W r \<Longrightarrow> rt_state r = RUNNING \<Longrightarrow> \<exists>x r'. next_step E W r = Some (x, r')"
  using unwind_returns [of r E W] next_step_above_returns [of r "rt_stack r" "[]" E W]
  by (auto simp: next_step_def bustling_def returned_def)

section \<open>A loop that does not return\<close>

text \<open>At a \<open>while\<close> whose body has no enabled step, or inside its body.\<close>

definition spinning :: "pyval \<Rightarrow> step list \<Rightarrow> nat \<Rightarrow> runtime \<Rightarrow> bool" where
  "spinning c body base r \<longleftrightarrow> (\<exists>n fs. base \<le> length fs
     \<and> (rt_stack r = WhileFrame c body n # fs \<or> (\<exists>i. rt_stack r = Frame body i NoExit False # WhileFrame c body n # fs)))"

definition holds_always :: "eval_lang \<Rightarrow> seq_world \<Rightarrow> pyval \<Rightarrow> bool" where
  "holds_always E W c \<longleftrightarrow> (\<forall>r. fst (eval_condition_rt E W c ''while'' False r) = Inr True)"

lemma spinning_round:
  assumes "spinning c body base r" "\<forall>s\<in>set body. st_disabled s" "holds_always E W c"
  obtains f fs r' where "rt_stack r = f # fs" "base \<le> length fs" "top_round E W f r = Some (Inr None, r')" "spinning c body base r'"
proof -
  from assms(1) obtain n fs where b: "base \<le> length fs"
    and st: "rt_stack r = WhileFrame c body n # fs \<or> (\<exists>i. rt_stack r = Frame body i NoExit False # WhileFrame c body n # fs)"
    by (auto simp: spinning_def)
  from st show ?thesis
  proof
    assume s: "rt_stack r = WhileFrame c body n # fs"
    obtain r1 where c: "eval_condition_rt E W c ''while'' False r = (Inr True, r1)"
      using assms(3) unfolding holds_always_def by (metis prod.collapse)
    define r' where "r' = push (body_frame body) (set_top (WhileFrame c body (Suc n)) r1)"
    have "top_round E W (WhileFrame c body n) r = Some (Inr None, r')"
      by (simp add: top_round_def plift_def rbind_def rmodify_def rret_def c r'_def)
    moreover have "rt_stack r' = body_frame body # WhileFrame c body (Suc n) # fs"
      using steady_condition [OF c] s by (simp add: r'_def push_def set_top_def)
    ultimately show ?thesis using that [OF s b] b unfolding spinning_def by blast
  next
    assume "\<exists>i. rt_stack r = Frame body i NoExit False # WhileFrame c body n # fs"
    then obtain i where s: "rt_stack r = Frame body i NoExit False # WhileFrame c body n # fs" by blast
    define gs where "gs = (if i < length body then [Frame body (Suc i) NoExit False] else [])"
    define r' where "r' = r\<lparr>rt_stack := gs @ WhileFrame c body n # fs\<rparr>"
    have "top_round E W (Frame body i NoExit False) r = Some (Inr None, r')"
      using assms(2) s by (auto simp: top_round_def frame_round_def take_step_def pbind_def plift_def rbind_def rmodify_def rret_def
          pop_def set_top_def gs_def r'_def)
    moreover have "spinning c body base r'" using b by (auto simp: spinning_def r'_def gs_def)
    ultimately show ?thesis using that [OF s] b by simp
  qed
qed

lemma spinning_never_returns:
  assumes "\<forall>s\<in>set body. st_disabled s" "holds_always E0 W0 c" "spinning c body base r"
  shows "next_step_above E0 W0 base r = None"
proof -
  have "next_step_above E W base r = Some y \<Longrightarrow> holds_always E W c \<longrightarrow> \<not> spinning c body base r" for E W base r y
  proof (rule next_step_above.raw_induct [where P = "\<lambda>E W base r y. holds_always E W c \<longrightarrow> \<not> spinning c body base r"])
    fix self E W base r y
    assume IH: "\<And>E W base r y. self E W base r = Some y \<Longrightarrow> holds_always E W c \<longrightarrow> \<not> spinning c body base r"
      and run: "(case rt_stack r of
        [] \<Rightarrow> Some (Inr NoStep, r)
      | f # fs \<Rightarrow>
          if length (f # fs) \<le> base then Some (Inr NoStep, r)
          else (case top_round E W f r of
                  None \<Rightarrow> None
                | Some (Inl e, r') \<Rightarrow> Some (Inl e, r')
                | Some (Inr (Some res), r') \<Rightarrow> Some (Inr res, r')
                | Some (Inr None, r') \<Rightarrow> self E W base r')) = Some y"
    show "holds_always E W c \<longrightarrow> \<not> spinning c body base r"
    proof (intro impI notI)
      assume h: "holds_always E W c" and s: "spinning c body base r"
      from spinning_round [OF s assms(1) h] obtain f fs r' where
        "rt_stack r = f # fs" "base \<le> length fs" "top_round E W f r = Some (Inr None, r')" "spinning c body base r'" .
      then have "self E W base r' = Some y" "spinning c body base r'" using run by auto
      then show False using IH h by blast
    qed
  qed
  with assms(2,3) show ?thesis by (cases "next_step_above E0 W0 base r") auto
qed

end
