(* ===== verification/Sequencer_Demo.thy ===== *)
theory Sequencer_Demo
  imports Sequencer_Ticks Sequencer_Eval_Proofs
begin

text \<open>
  Small worlds in which the sequencer runtime can be run: what a device answers is a parameter,
  and the clock stands still or advances with every use of the world.
\<close>

declare poll_telemetry.simps [code] tick_loop.simps [code] next_step_above.simps [code] next_terminal_unwind_step.simps [code]

text \<open>The size limit of rendered values is compared in binary.\<close>

lemma too_large_int [code_unfold]: "(MAX_RESULT_SIZE < n) = (1000000 < int n)"
  by (simp add: MAX_RESULT_SIZE_def)

text \<open>Every call is answered, the clock stands still and there is no library of sequences.\<close>

definition still_np :: np_gen where
  "still_np = \<lparr>np_linspace = (\<lambda>_ _ _. Inr []), np_logspace = (\<lambda>_ _ _ _. Inr []), np_geomspace = (\<lambda>_ _ _. Inr []),
     np_shuffle = (\<lambda>_ n. Inr (rev [0..<n])), np_integers = (\<lambda>_ _ _. Inr []), np_choice = (\<lambda>_ _ _. Inr [])\<rparr>"

definition empty_spec :: sequence_spec where
  "empty_spec = \<lparr>sq_version = 1, sq_meta = [], sq_vars = [], sq_steps = [], sq_context_columns = None, sq_watchdog_ids = None,
     sq_require_hdf_writing = False, sq_form = None\<rparr>"

definition still_world :: "(string \<Rightarrow> pyexc + items) \<Rightarrow> seq_world" where
  "still_world reply = \<lparr>sw_mono = (\<lambda>_. Fin 0), sw_np = still_np, sw_call_device = (\<lambda>_ d a p. reply d),
     sw_call_process = None, sw_telemetry = (\<lambda>_ _ _. None), sw_process_telemetry = None, sw_resolve_use = None,
     sw_set_stream = (\<lambda>_ _ _ _ _. Inr ()), sw_expect_streams = None, sw_begin_context = None, sw_poll_context = None,
     sw_begin_parallel = None, sw_poll_parallel = None, sw_attr = (\<lambda>_ _. None), sw_item = (\<lambda>_ _. Inl (KeyError [])),
     sw_detail = (\<lambda>_. []), sw_json = (\<lambda>_. []), sw_fmt_g = (\<lambda>_. []), sw_fmt_1 = (\<lambda>_. []), sw_fmt_0 = (\<lambda>_. []),
     sw_controller = (\<lambda>_ _ _ _. Inr 0), sw_suggest = (\<lambda>_ _. Inr (PDict [])), sw_tell = (\<lambda>_ _ _ _. Inr ()),
     sw_should_stop = (\<lambda>_ _. Inr False), sw_stdev = (\<lambda>_. Fin 0), sw_sqrt = (\<lambda>_. Fin 0)\<rparr>"

definition loaded :: "step list \<Rightarrow> runtime" where
  "loaded steps = snd (load plain_eval (empty_spec\<lparr>sq_steps := steps\<rparr>) runtime_init)"

definition started :: "seq_world \<Rightarrow> step list \<Rightarrow> runtime" where
  "started W steps = snd (start plain_eval W PNone PNone False PNone (loaded steps))"

definition after_ops :: "seq_world \<Rightarrow> step list \<Rightarrow> seq_op list \<Rightarrow> runtime" where
  "after_ops W steps ops = the (run_ops plain_eval W ops (started W steps))"

text \<open>A run of a sequence from its start, and what holds after some operations on it.\<close>

definition goes :: "seq_world \<Rightarrow> step list \<Rightarrow> seq_op list \<Rightarrow> (runtime \<Rightarrow> bool) \<Rightarrow> bool" where
  "goes W steps ops P =
     (case start plain_eval W PNone PNone False PNone (loaded steps) of
        (Inl _, _) \<Rightarrow> False
      | (Inr _, r) \<Rightarrow> (case run_ops plain_eval W ops r of None \<Rightarrow> False | Some r' \<Rightarrow> P r'))"

lemma goesD:
  assumes "goes W steps ops P"
  shows "start plain_eval W PNone PNone False PNone (loaded steps) = (Inr (), started W steps)"
    "run_ops plain_eval W ops (started W steps) = Some (after_ops W steps ops)" "P (after_ops W steps ops)"
  using assms by (auto simp: goes_def started_def after_ops_def split: prod.splits sum.splits option.splits)

lemma goes_spec: "rt_spec (loaded steps) = Some (empty_spec\<lparr>sq_steps := steps\<rparr>)"
  by (simp add: loaded_def load_def runtime_init_def reset_progress_def)

definition refusing :: seq_world where
  "refusing = still_world (\<lambda>_. Inr [(''ok'', PBool False)])"

definition granting :: seq_world where
  "granting = still_world (\<lambda>_. Inr [(''ok'', PBool True)])"

definition ticking :: seq_world where
  "ticking = (still_world (\<lambda>_. Inr [])) \<lparr>sw_mono := (\<lambda>n. Fin (of_nat n))\<rparr>"

end
