(* ===== verification/Sequencer_Props.thy ===== *)
theory Sequencer_Props
  imports Sequencer_Returns Sequencer_Demo
begin

text \<open>
  The properties of the sequencer runtime, each with a run of a small sequence that meets its
  hypotheses.
\<close>

section \<open>Blocks\<close>

definition guarded_steps :: "step list" where
  "guarded_steps = [Step False (TryStep [Step False (SetStep ''laser'' ''power'' (PInt 3))] [Step False (SetStep ''laser'' ''power'' (PInt 0)), Step True (AssignStep [])])]"


lemma guarded_goes:
  "goes refusing guarded_steps [OpTick] (\<lambda>r. TryFrame [Step False (SetStep ''laser'' ''power'' (PInt 0)), Step True (AssignStep [])] False \<in> set (rt_stack r)
     \<and> (case run_ops plain_eval refusing [OpTick, OpTick] r of None \<Rightarrow> False | Some r' \<Rightarrow> rt_state r' = ERROR))"
  by code_simp

lemma refusing_world: "library_all P refusing"
  by (simp add: library_all_def resolve_use_spec_def Let_def refusing_def still_world_def)






section \<open>Returning and hanging\<close>

text \<open>
  C10. The tick loop does not hang on its own account. In a run of a sequence without adaptive
  steps in which every \<open>while\<close> has an enabled step in its body, every round of the loop
  returns in every state the run reaches: the choice of the next step, in the run and in the
  unwind, ends after finitely many frames, and so does the step it chooses.
\<close>
theorem tick_rounds_return:
  assumes "start E W adaptive n forever ov r0 = (Inr (), r1)" "rt_spec r0 = Some spec"
    and "library_all busy W" "list_all (all_kinds busy) (sq_steps spec)"
    and "run_ops E W ops r1 = Some r"
  shows "\<exists>x r'. tick_round E W deadline k r = Some (x, r')"
proof -
  have b: "bustling W r"
    using bustle.run_keeps [OF not_strict_tame assms(5)] start_bustling [OF assms(1-4)] by blast
  obtain c r2 where ch: "check_stop_pause W r = (c, r2)" by (cases "check_stop_pause W r")
  have "\<not> c \<Longrightarrow> r2 = r" using check_stop_pause_moves [OF ch] by blast
  moreover have "rt_state r = RUNNING \<Longrightarrow> \<exists>x r'. next_step E W r = Some (x, r')" by (rule bustling_next_step [OF b])
  ultimately show ?thesis
    using ch by (auto simp: tick_round_def pbind_def plift_def split: sum.splits step_result.splits bool.splits)
qed

theorem tick_rounds_return_witness:
  "\<exists>x r'. tick_round plain_eval refusing (Fin 1) 0 (after_ops refusing guarded_steps [OpTick]) = Some (x, r')"
proof -
  have b: "list_all (all_kinds busy) (sq_steps (empty_spec\<lparr>sq_steps := guarded_steps\<rparr>))"
    by (simp add: guarded_steps_def)
  show ?thesis
    by (rule tick_rounds_return [OF goesD(1) [OF guarded_goes] goes_spec refusing_world b goesD(2) [OF guarded_goes]])
qed

text \<open>
  C34. A \<open>while\<close> without an enabled step in its body hangs the process. The parser accepts such a
  step, and as long as its condition holds the choice of the next step goes round it without
  taking a step, so that the tick never returns: no budget is counted, and no request to pause
  or stop can be received.
\<close>
theorem empty_while_hangs_tick:
  assumes "rt_state r = RUNNING" "rt_pending_state r = None" "\<not> rt_stop_requested r" "\<not> rt_pause_requested r"
    and "nothing_pending r" "rt_observe r = None"
    and "rt_stack r = WhileFrame c body n # fs" "\<forall>s\<in>set body. st_disabled s" "holds_always E W c"
  shows "tick E W r = None"
proof -
  define r1 where "r1 = uses (uses r)"
  have same: "rt_stack r1 = rt_stack r" "rt_state r1 = rt_state r" "rt_pending_state r1 = rt_pending_state r"
    "rt_stop_requested r1 = rt_stop_requested r" "rt_pause_requested r1 = rt_pause_requested r" by (simp_all add: r1_def uses_def)
  have "next_step_above E W 0 r1 = None"
    by (rule spinning_never_returns [OF assms(8,9)]) (simp add: spinning_def same assms(7))
  then have "tick_round E W dl 0 r1 = None" for dl
    using assms(1-4) by (simp add: tick_round_def check_stop_pause_def next_step_def pbind_def same)
  then have loop: "tick_loop E W dl 0 r1 = None" for dl by (simp add: tick_loop.simps)
  have pend: "resume_pending E W now (uses r) = Some (Inr True, uses r)" for now
    using assms(5,6)
    by (simp add: resume_pending_def wake_sleep_def when_pending_def pbind_def plift_def nothing_pending_def uses_def)
  have "tick_try E W r = None"
    using assms(2-4) pend loop
    by (simp add: tick_try_def check_stop_pause_def pbind_def plift_def rrun_def clock_def r1_def assms(7))
  then show ?thesis using assms(1) by (simp add: tick_def)
qed

definition waiting_steps :: "step list" where
  "waiting_steps = [Step False (WhileStep (PBool True) [])]"

theorem empty_while_hangs_tick_witness:
  "run_ops plain_eval ticking [OpTick, OpTick] (started ticking waiting_steps) = None"
proof -
  define r where "r = after_ops ticking waiting_steps [OpTick]"
  have "goes ticking waiting_steps [OpTick] (\<lambda>r. (rt_state r = RUNNING \<and> rt_pending_state r = None \<and> \<not> rt_stop_requested r \<and> \<not> rt_pause_requested r
      \<and> nothing_pending r \<and> rt_observe r = None) \<and> rt_stack r = WhileFrame (PBool True) [] 0 # tl (rt_stack r))"
    by code_simp
  note g = goesD [OF this, folded r_def]
  have h: "holds_always plain_eval ticking (PBool True)"
    by (simp add: holds_always_def eval_condition_rt_def condition_holds_def Let_def rbind_def rlift_def render_templates_def eval_condition.simps)
  have "tick plain_eval ticking r = None"
    using g(3) by (elim conjE) (rule empty_while_hangs_tick [OF _ _ _ _ _ _ _ _ h], assumption+, simp)
  then show ?thesis using g(2) run_ops_append [of plain_eval ticking "[OpTick]" "[OpTick]"] by simp
qed

text \<open>
  C35. A failed trial skips the clean-up. When the body of an adaptive step has ended and its trial
  fails, with \<open>fail_on_trial_error\<close> set, the tick ends with the run in \<open>ERROR\<close> on the spot: no
  unwind begins, the steps owed by the enclosing \<open>try\<close> blocks are still owed, and nothing done
  to the run afterwards takes any of them.
\<close>
theorem failed_trial_skips_cleanup:
  assumes "rt_state r = RUNNING" "rt_pending_state r = None" "check_stop_pause W r = (False, r)"
    and "rt_stack r = Frame body i AdaptiveExit False # AdaptiveFrame f # fs" "i \<ge> length body"
    and "af_proposal f = Some p" "\<not> observe_uses_analysis E (as_observe (af_spec f))" "as_fail_on_trial_error (af_spec f)"
    and "collect_adaptive_trial E W (af_spec f) p (pop r) = Some (Inr t, r1)" "\<not> tr_ok t"
  shows "\<exists>r'. tick_round E W deadline k r = Some (Inr (TickReturns False), r') \<and> rt_state r' = ERROR \<and> owed r' = owed r
    \<and> (\<forall>ops r''. run_ops E W ops r' = Some r'' \<longrightarrow> rt_state r'' = ERROR \<and> rt_taken r'' = rt_taken r)"
proof -
  obtain x r' where fin: "finalize_adaptive_trial E W f p t r1 = (x, r')" by (cases "finalize_adaptive_trial E W f p t r1")
  note ends = failed_trial_ends_run [OF fin assms(10,8)]
  have q: "quiet (pop r) r1" by (rule pcalmD [OF pcalm_trial(2) assms(9)])
  have e: "run_exit E W AdaptiveExit (pop r) = Some (Inr (), r')"
    using assms(4,6,7,9) fin ends by (simp add: run_exit_def after_adaptive_body_def pop_def pbind_def plift_def)
  have p: "rt_pending_state r' = None"
    using inner_moves_pending [OF run_exit_inner [OF assms(4) _ e]] assms(2,5) by simp
  have "frame_round E W body i AdaptiveExit False r = Some (Inr (Some NoStep), r')"
    using assms(5) e ends by (simp add: frame_round_def pbind_def plift_def rmodify_def rget_def)
  then have "next_step_above E W 0 r = Some (Inr NoStep, r')"
    by (simp add: top_frame_step [OF assms(4)] top_round_def)
  then have t: "tick_round E W deadline k r = Some (Inr (TickReturns False), r')"
    using assms(1-3) p ends by (simp add: tick_round_def next_step_def pbind_def plift_def end_of_steps_def rbind_def rrun_def rret_def)
  have o: "owed r' = owed r" "rt_taken r' = rt_taken r"
    using ends quiet_owed [OF q] q assms(4) by (auto simp: owed_def pop_def quiet_def)
  have "run_ops E W ops r' = Some r'' \<Longrightarrow> rt_state r'' = ERROR \<and> rt_taken r'' = rt_taken r" for ops r''
    using ended_run_ops [of r' E W ops r''] ends o(2) by (auto simp: run_live_def)
  with t o(1) ends show ?thesis by blast
qed

definition scan_step :: step where
  "scan_step = Step False (AdaptiveStep
     \<lparr>as_id = [], as_controller = [], as_space = [], as_bind = [], as_state = None, as_observe = [], as_stopping = None,
      as_constraints = None, as_fail_on_trial_error = True\<rparr> [Step False (AssignStep [])])"

definition scan_steps :: "step list" where
  "scan_steps = [Step False (TryStep [scan_step] [Step False (SetStep ''laser'' ''power'' (PInt 0))])]"

definition scanning :: seq_world where
  "scanning = ticking\<lparr>sw_suggest := (\<lambda>_ _. Inr (PDict [(''params_raw'', PDict [(''x'', PInt 1)])]))\<rparr>"

theorem failed_trial_skips_cleanup_witness:
  "let r = after_ops scanning scan_steps [OpTick, OpTick, OpTick] in
     \<exists>r'. tick_round plain_eval scanning (Fin 9) 0 r = Some (Inr (TickReturns False), r') \<and> rt_state r' = ERROR
       \<and> owed r' = [Step False (SetStep ''laser'' ''power'' (PInt 0))]
       \<and> (\<forall>ops r''. run_ops plain_eval scanning ops r' = Some r'' \<longrightarrow> rt_state r'' = ERROR \<and> rt_taken r'' = rt_taken r)"
proof -
  define r where "r = after_ops scanning scan_steps [OpTick, OpTick, OpTick]"
  define p where "p = \<lparr>pr_params_raw = [(''x'', PInt 1)], pr_params = [], pr_meta = []\<rparr>"
  define f where "f = \<lparr>af_spec = \<lparr>as_id = [], as_controller = [], as_space = [], as_bind = [], as_state = None, as_observe = [],
      as_stopping = None, as_constraints = None, as_fail_on_trial_error = True\<rparr>, af_body = [Step False (AssignStep [])], af_controller = 0,
      af_rendered_controller = [], af_rendered_space = [], af_started = Fin 11, af_proposal = Some p, af_trials = 0, af_best = None, af_no_improve = 0\<rparr>"
  have "goes scanning scan_steps [OpTick, OpTick, OpTick] (\<lambda>r. rt_state r = RUNNING \<and> rt_pending_state r = None \<and> check_stop_pause scanning r = (False, r)
      \<and> rt_stack r = Frame [Step False (AssignStep [])] 1 AdaptiveExit False # AdaptiveFrame f # drop 2 (rt_stack r)
      \<and> owed r = [Step False (SetStep ''laser'' ''power'' (PInt 0))]
      \<and> (case collect_adaptive_trial plain_eval scanning (af_spec f) p (pop r) of Some (Inr t, _) \<Rightarrow> \<not> tr_ok t | _ \<Rightarrow> False))"
    unfolding p_def f_def by code_simp
  note g = goesD(3) [OF this, folded r_def]
  then have a: "rt_state r = RUNNING" "rt_pending_state r = None" "check_stop_pause scanning r = (False, r)"
    and b: "rt_stack r = Frame [Step False (AssignStep [])] 1 AdaptiveExit False # AdaptiveFrame f # drop 2 (rt_stack r)"
    and o: "owed r = [Step False (SetStep ''laser'' ''power'' (PInt 0))]" by blast+
  have c: "af_proposal f = Some p" "\<not> observe_uses_analysis plain_eval (as_observe (af_spec f))" "as_fail_on_trial_error (af_spec f)"
    by (simp_all add: f_def observe_uses_analysis_def)
  obtain t r1 where d: "collect_adaptive_trial plain_eval scanning (af_spec f) p (pop r) = Some (Inr t, r1)" "\<not> tr_ok t"
    using g by (auto split: option.splits sum.splits)
  show ?thesis
    using failed_trial_skips_cleanup [OF a b _ c d, of "Fin 9" 0] o by (simp add: r_def)
qed

end
