(* ===== verification/Sequencer_Gate.thy ===== *)
theory Sequencer_Gate
  imports Sequencer_Props
begin

text \<open>
  The watchdog gate of a sequence, from the parser to the end of a run: \<open>apply_watchdog_gate\<close>
  puts the steps of a sequence that requires watchdogs inside a \<open>try\<close> whose \<open>finally\<close> disables
  them, and the runtime takes those steps after anything the gate lets through.
\<close>

section \<open>The stack of a gated run\<close>

text \<open>
  Every frame of the stack lies above the open gate, apart from the frame of the gate step
  itself, the gate, and the frame of its clean-up.
\<close>

fun behind_gate :: "step \<Rightarrow> step list \<Rightarrow> frame list \<Rightarrow> bool" where
  "behind_gate G dis [] = True"
| "behind_gate G dis (f # fs) = (behind_gate G dis fs \<and> (TryFrame dis False \<in> set fs \<or>
     (case f of TryFrame ss _ \<Rightarrow> ss = dis | Frame ss _ ex _ \<Rightarrow> ss = dis \<or> ss = [G] | _ \<Rightarrow> False)))"

definition watched :: "step \<Rightarrow> step list \<Rightarrow> runtime \<Rightarrow> bool" where
  "watched G dis r \<longleftrightarrow> map_option sq_steps (rt_spec r) = Some [G] \<and> behind_gate G dis (rt_stack r)
     \<and> (\<forall>k<length (rt_taken r). rt_taken r ! k \<notin> set (G # dis) \<longrightarrow> accounted (take (Suc k) (rt_taken r)) dis r)"

text \<open>A gate: its clean-up is made of enabled steps that open nothing.\<close>

definition gate_of :: "step \<Rightarrow> step list \<Rightarrow> bool" where
  "gate_of G dis \<longleftrightarrow> (\<exists>body. st_kind G = TryStep body dis)
     \<and> (\<forall>s\<in>set dis. \<not> st_disabled s \<and> (\<exists>c. st_kind s = CallStep c))"

lemma frame_like_try: "frame_like f g \<Longrightarrow> (f = TryFrame dis b) = (g = TryFrame dis b)"
  by (cases f) auto

lemma frames_like_try: "list_all2 frame_like fs gs \<Longrightarrow> (TryFrame dis b \<in> set fs) = (TryFrame dis b \<in> set gs)"
proof (induction rule: list_all2_induct)
  case (Cons f fs g gs)
  then show ?case using frame_like_try [of f g dis b] by auto
qed simp

lemma frames_like_gate: "list_all2 frame_like fs gs \<Longrightarrow> behind_gate G dis fs \<Longrightarrow> behind_gate G dis gs"
proof (induction rule: list_all2_induct)
  case (Cons f fs g gs)
  then show ?case using frames_like_try [of fs gs dis False] by (cases f) auto
qed simp

lemma behind_gate_above: "TryFrame dis False \<in> set fs \<Longrightarrow> behind_gate G dis fs \<Longrightarrow> behind_gate G dis (gs @ fs)"
  by (induction gs) auto

lemma inner_move_gate: "inner_move r r' \<Longrightarrow> behind_gate G dis (rt_stack r) \<Longrightarrow> behind_gate G dis (rt_stack r')"
proof (induction rule: inner_move.induct)
  case (inner_quiet r r')
  then show ?case using frames_like_gate by (auto simp: quiet_def)
next
  case (inner_body r f fs g)
  then show ?case by (cases f) auto
qed auto

lemma inner_move_spec: "inner_move r r' \<Longrightarrow> rt_spec r' = rt_spec r"
  by (induction rule: inner_move.induct) (auto simp: quiet_def)

text \<open>A step taken outside the gate and its clean-up is taken above the open gate.\<close>

lemma taken_above_gate:
  assumes "just_taken s r" "behind_gate G dis (rt_stack r)" "s \<notin> set (G # dis)"
  shows "TryFrame dis False \<in> set (rt_stack r)"
proof -
  from assms(1) obtain ss i ex u fs where top: "rt_stack r = Frame ss (Suc i) ex u # fs" "i < length ss" "ss ! i = s"
    by (auto simp: just_taken_def)
  with assms(2) have "TryFrame dis False \<in> set fs \<or> ss = dis \<or> ss = [G]" by simp
  moreover have "ss \<noteq> dis" "ss \<noteq> [G]" using assms(3) top nth_mem [of i ss] by auto
  ultimately show ?thesis using top by simp
qed

lemma entered_above_gate:
  assumes "just_taken s r" "behind_gate G dis (rt_stack r)" "gate_of G dis" "\<forall>c. st_kind s \<noteq> CallStep c"
  shows "s = G \<or> TryFrame dis False \<in> set (rt_stack r)"
  using assms taken_above_gate [OF assms(1,2)] by (auto simp: gate_of_def)

lemma move_gate:
  assumes "move W strict r r'" "gate_of G dis" "map_option sq_steps (rt_spec r) = Some [G]" "behind_gate G dis (rt_stack r)"
  shows "behind_gate G dis (rt_stack r') \<and> map_option sq_steps (rt_spec r') = Some [G]"
  using assms
proof (induction rule: move.induct)
  case (move_inner r r')
  then show ?case using inner_move_gate inner_move_spec [of r r'] by simp
next
  case (move_enter s r fs)
  have "\<forall>c. st_kind s \<noteq> CallStep c" using move_enter(3) by auto
  with entered_above_gate [OF move_enter(1)] move_enter have "s = G \<or> TryFrame dis False \<in> set (rt_stack r)" by blast
  then show ?case using behind_gate_above move_enter by (auto simp: gate_of_def)
next
  case (move_atomic s r name body)
  then have "s = G \<or> TryFrame dis False \<in> set (rt_stack r)" by (intro entered_above_gate) auto
  then have "TryFrame dis False \<in> set (rt_stack r)" using move_atomic by (auto simp: gate_of_def)
  then show ?case using move_atomic by simp
next
  case (move_use s r raw args spec name v)
  then have "s = G \<or> TryFrame dis False \<in> set (rt_stack r)" by (intro entered_above_gate) auto
  then have "TryFrame dis False \<in> set (rt_stack r)" using move_use by (auto simp: gate_of_def)
  then show ?case using move_use by simp
qed auto

lemma inner_move_takes: "inner_move r r' \<Longrightarrow> rt_taken r' = rt_taken r \<or> (\<exists>s. rt_taken r' = rt_taken r @ [s] \<and> just_taken s r')"
  by (induction rule: inner_move.induct) (auto simp: quiet_def just_taken_def)

lemma move_takes: "move W strict r r' \<Longrightarrow> rt_taken r' = rt_taken r \<or> (\<exists>s. rt_taken r' = rt_taken r @ [s] \<and> just_taken s r')"
  by (induction rule: move.induct) (auto dest: inner_move_takes)

lemma gate_accounts:
  assumes "gate_of G dis" "TryFrame dis False \<in> set (rt_stack r)"
  shows "accounted (rt_taken r) dis r"
proof -
  have "enabled_steps dis = dis" using assms(1) by (auto simp: gate_of_def filter_id_conv)
  moreover have "subseq (enabled_steps dis) (owed r)" using assms(2) by (auto simp: owed_def dest!: split_list)
  ultimately show ?thesis by (simp add: accounted_def)
qed

lemma move_watched:
  assumes "watched G dis r" "move W strict r r'" "gate_of G dis"
  shows "watched G dis r'"
proof -
  note g = move_gate [OF assms(2,3)]
  have gate: "behind_gate G dis (rt_stack r')" "map_option sq_steps (rt_spec r') = Some [G]"
    using g assms(1) by (simp_all add: watched_def)
  have "accounted (take (Suc k) (rt_taken r')) dis r'"
    if k: "k < length (rt_taken r')" "rt_taken r' ! k \<notin> set (G # dis)" for k
  proof (cases "k < length (rt_taken r)")
    case True
    have "rt_taken r' ! k = rt_taken r ! k" "take (Suc k) (rt_taken r') = take (Suc k) (rt_taken r)"
      using move_takes [OF assms(2)] True by (auto simp: nth_append)
    with True k(2) assms(1) show ?thesis
      by (intro move_accounted [OF assms(2)]) (simp add: watched_def)
  next
    case False
    with move_takes [OF assms(2)] k obtain s where "rt_taken r' = rt_taken r @ [s]" and s: "just_taken s r'" and "k = length (rt_taken r)"
      by auto
    with gate_accounts [OF assms(3) taken_above_gate [OF s gate(1)]] k(2) show ?thesis by simp
  qed
  with gate show ?thesis by (simp add: watched_def)
qed

locale gated_run =
  fixes W :: seq_world and strict :: bool and G :: step and dis :: "step list"
  assumes gate: "gate_of G dis"

sublocale gated_run \<subseteq> watch: kept_by_moves W strict "watched G dis"
  by unfold_locales (rule move_watched [OF _ _ gate])

section \<open>The gate the parser builds\<close>

abbreviation disable_steps :: "string list \<Rightarrow> step list" where
  "disable_steps \<equiv> map (watchdog_call ''watchdog.disable'')"

definition gate_step :: "step list \<Rightarrow> string list \<Rightarrow> step" where
  "gate_step steps ws = hd (apply_watchdog_gate steps (Some ws))"

lemma gate_step_only: "apply_watchdog_gate steps (Some ws) = [gate_step steps ws]"
  by (simp add: gate_step_def apply_watchdog_gate_def)

interpretation gate: gated_run W strict "gate_step steps ws" "disable_steps ws" for W strict steps ws
  by unfold_locales (auto simp: gate_of_def gate_step_def apply_watchdog_gate_def watchdog_call_def)

lemma gate_all_kinds: "list_all (all_kinds tolerates_trials) steps \<Longrightarrow> list_all (all_kinds tolerates_trials) (apply_watchdog_gate steps (Some ws))"
  by (auto simp: apply_watchdog_gate_def watchdog_call_def list_all_iff)

text \<open>
  C2. Watchdogs are disabled after a gated run. When a sequence requires watchdogs, and no adaptive
  step of it or of the sequences it uses has \<open>fail_on_trial_error\<close> set, then after every step that
  the run takes other than the gate and the disabling calls, in particular after every
  \<open>watchdog.enable\<close>, the calls that disable all the required watchdogs are taken, in order, before
  the run is over: when it finishes, fails, is stopped or is struck by an external fault. A
  failed trial of an adaptive step with that flag ends the run without them.
\<close>
theorem watchdogs_disabled_after_run:
  assumes "start E W adaptive n forever ov r0 = (Inr (), r1)" "rt_spec r0 = Some spec"
    and "sq_steps spec = apply_watchdog_gate steps (Some ws)" "list_all (all_kinds tolerates_trials) steps"
    and "library_all tolerates_trials W" "run_ops E W ops r1 = Some r" "\<not> run_live r"
    and "k < length (rt_taken r)" "rt_taken r ! k \<notin> set (apply_watchdog_gate steps (Some ws))"
    and "rt_taken r ! k \<notin> set (map (watchdog_call ''watchdog.disable'') ws)"
  shows "subseq (map (watchdog_call ''watchdog.disable'') ws) (drop (Suc k) (rt_taken r))"
proof -
  have s: "settled W r1" using gate_all_kinds [OF assms(4)] by (intro start_settled [OF assms(1,2,5)]) (simp add: assms(3))
  have "watched (gate_step steps ws) (disable_steps ws) r1"
    using assms(1-3) by (elim start_state) (auto simp: watched_def gate_step_only)
  then have "watched (gate_step steps ws) (disable_steps ws) r"
    by (rule gate.watch.run_keeps [OF settled_tame [OF s] assms(6)])
  with assms(8-10) have "accounted (take (Suc k) (rt_taken r)) (disable_steps ws) r" by (simp add: watched_def gate_step_only)
  moreover have "owed r = []" using settle.run_keeps [OF settled_tame [OF s] assms(6) s] assms(7) by (simp add: settled_def)
  ultimately have "\<exists>ts. rt_taken r = take (Suc k) (rt_taken r) @ ts \<and> subseq (disable_steps ws) ts" by (simp add: accounted_def)
  then show ?thesis by (metis append_take_drop_id same_append_eq)
qed

definition gated_steps :: "step list" where
  "gated_steps = apply_watchdog_gate [Step False (SetStep ''laser'' ''power'' (PInt 3))] (Some [''w''])"

theorem watchdogs_disabled_after_run_witness:
  "let r = after_ops refusing gated_steps [OpTick, OpTick, OpTick] in rt_state r = ERROR
     \<and> rt_taken r ! 1 = watchdog_call ''watchdog.enable'' ''w'' \<and> subseq [watchdog_call ''watchdog.disable'' ''w''] (drop 2 (rt_taken r))"
proof -
  define r where "r = after_ops refusing gated_steps [OpTick, OpTick, OpTick]"
  have "goes refusing gated_steps [OpTick, OpTick, OpTick] (\<lambda>r. rt_state r = ERROR \<and> 1 < length (rt_taken r)
      \<and> rt_taken r ! 1 = watchdog_call ''watchdog.enable'' ''w'')" by code_simp
  note g = goesD [OF this, folded r_def]
  then have e: "rt_state r = ERROR" and t: "1 < length (rt_taken r)" "rt_taken r ! 1 = watchdog_call ''watchdog.enable'' ''w''" by blast+
  have "subseq (map (watchdog_call ''watchdog.disable'') [''w'']) (drop (Suc 1) (rt_taken r))"
    by (rule watchdogs_disabled_after_run [OF g(1) goes_spec _ _ refusing_world g(2) _ t(1), where steps = "[Step False (SetStep ''laser'' ''power'' (PInt 3))]"])
      (use e t in \<open>simp_all add: gated_steps_def run_live_def apply_watchdog_gate_def watchdog_call_def\<close>)
  then show ?thesis using e t by (simp add: r_def numeral_2_eq_2)
qed

end
