(* ===== verification/Sequencer_Parts.thy ===== *)
theory Sequencer_Parts
  imports Sequencer_Returns Sequencer_Demo "HOL-Library.Multiset" "HOL-Library.Product_Lexorder"
begin

text \<open>
  The parts of a sequence run one by one: the points of a two-dimensional scan, the log of a
  run, a wait for a stable condition, the parameters of an adaptive trial, the branches of a
  parallel step, and a clean-up that never ends.
\<close>

section \<open>Scans\<close>

lemma mset_serpentine:
  "mset (concat (map (\<lambda>a. let cs = map (g a) [0..<n] in if a mod 2 = 1 then rev cs else cs) as)) = mset (concat (map (\<lambda>a. map (g a) [0..<n]) as))"
  by (induction as) (simp_all add: Let_def)

lemma mset_pick: "mset p = mset [0..<length xs] \<Longrightarrow> mset (pick xs p) = mset xs"
proof -
  assume p: "mset p = mset [0..<length xs]"
  have "mset (pick xs p) = image_mset (\<lambda>i. xs ! i) (mset p)" by (simp add: pick_def)
  also have "\<dots> = mset (map (\<lambda>i. xs ! i) [0..<length xs])" by (simp only: p mset_map)
  finally show ?thesis by (simp only: map_nth)
qed

lemma pattern_coords_mset:
  assumes "\<And>n p. np_shuffle N seed n = Inr p \<Longrightarrow> mset p = mset [0..<n]"
    "pattern_coords N pattern row_major nx ny seed = Inr coords"
  shows "mset coords = mset (grid_coords row_major nx ny)"
proof -
  have s: "mset (apply_serpentine row_major nx ny) = mset (grid_coords row_major nx ny)"
    using mset_serpentine [of Pair nx "[0..<ny]"] mset_serpentine [of "\<lambda>c r. (r, c)" ny "[0..<nx]"]
    by (simp add: apply_serpentine_def grid_coords_def)
  show ?thesis
    using assms mset_pick s
    by (auto simp: pattern_coords_def Let_def res_bind_eq_Inr split: if_splits)
qed

lemma grid_product:
  "grid_coords row_major nx ny = (if row_major then List.product [0..<ny] [0..<nx] else map prod.swap (List.product [0..<nx] [0..<ny]))"
  by (simp add: grid_coords_def product_concat_map map_concat comp_def)

lemma distinct_grid: "distinct (grid_coords row_major nx ny)" "set (grid_coords row_major nx ny) = {..<ny} \<times> {..<nx}"
  "length (grid_coords row_major nx ny) = nx * ny"
  by (auto simp: grid_product distinct_product distinct_map)

text \<open>The cell a record of a scan stands for.\<close>

definition record_cell :: "items \<Rightarrow> pyval \<times> pyval" where
  "record_cell d = (jget d ''row'', jget d ''col'')"

text \<open>
  C26. A two-dimensional scan visits every cell of its grid exactly once, whatever its pattern and
  order, and numbers its points 0, 1, 2, ... in the order it visits them; the shuffle of the
  random generator is taken to return a permutation.
\<close>
theorem scan2d_visits_every_cell_once:
  assumes "generate_scan2d_records N xs ys pattern order seed = Inr recs"
    and "\<And>n p. np_shuffle N seed n = Inr p \<Longrightarrow> mset p = mset [0..<n]"
  shows "distinct (map record_cell recs)
    \<and> set (map record_cell recs) = {(PInt (int row), PInt (int col)) | row col. row < length ys \<and> col < length xs}
    \<and> map (\<lambda>d. jget d ''index'') recs = map (\<lambda>i. PInt (int i)) [0..<length xs * length ys]"
proof -
  from assms(1) obtain pat ord coords where c: "pattern_coords N pat ord (length xs) (length ys) seed = Inr coords"
    and recs: "recs = map (scan2d_record xs ys (length coords)) (enumerate 0 coords)"
    by (auto simp: generate_scan2d_records_def res_bind_eq_Inr split: if_splits)
  define cell where "cell = (\<lambda>(row, col). (PInt (int row), PInt (int col)))"
  have m: "mset coords = mset (grid_coords ord (length xs) (length ys))" by (rule pattern_coords_mset [OF assms(2) c])
  then have d: "distinct coords" "set coords = {..<length ys} \<times> {..<length xs}" "length coords = length xs * length ys"
    using distinct_grid [of ord "length xs" "length ys"] by (metis mset_eq_imp_distinct_iff, metis mset_eq_setD, metis mset_eq_length)
  have idx: "map (\<lambda>d. jget d ''index'') recs = map ((\<lambda>i. PInt (int i)) \<circ> fst) (enumerate 0 coords)"
    unfolding recs by (auto simp: scan2d_record_def dget_def split: prod.split)
  have cells: "map record_cell recs = map (cell \<circ> snd) (enumerate 0 coords)"
    unfolding recs by (auto simp: record_cell_def scan2d_record_def cell_def dget_def split: prod.split)
  have "map record_cell recs = map cell coords" unfolding cells by (simp flip: map_map)
  moreover have inj: "inj_on cell (set coords)" by (auto simp: cell_def inj_on_def)
  moreover have "map (\<lambda>d. jget d ''index'') recs = map (\<lambda>i. PInt (int i)) [0..<length coords]" unfolding idx by (simp flip: map_map)
  ultimately show ?thesis using d by (auto simp: distinct_map cell_def image_iff)
qed

lemma mirror_scan:
  "generate_scan2d_records still_np [Fin 0, Fin 1] [Fin 0, Fin 5] ''random'' ''row_major'' None =
     Inr (map (scan2d_record [Fin 0, Fin 1] [Fin 0, Fin 5] 4) (enumerate 0 [(1, 1), (1, 0), (0, 1), (0, 0)]))"
proof -
  have "validate_scan2d_pattern ''random'' = Inr ''random''" "validate_scan2d_order ''row_major'' = Inr ''row_major''" by code_simp+
  moreover have "pattern_coords still_np ''random'' True 2 2 None = Inr [(1, 1), (1, 0), (0, 1), (0, 0)]"
    by (simp add: pattern_coords_def still_np_def grid_coords_def pick_def upt_rec numeral_2_eq_2)
  ultimately show ?thesis by (simp add: generate_scan2d_records_def Suc_1 flip: numeral_2_eq_2)
qed

theorem scan2d_visits_every_cell_once_witness:
  "\<exists>recs. generate_scan2d_records still_np [Fin 0, Fin 1] [Fin 0, Fin 5] ''random'' ''row_major'' None = Inr recs
     \<and> map record_cell recs = [(PInt 1, PInt 1), (PInt 1, PInt 0), (PInt 0, PInt 1), (PInt 0, PInt 0)] \<and> distinct (map record_cell recs)"
proof -
  have "np_shuffle still_np None n = Inr p \<Longrightarrow> mset p = mset [0..<n]" for n p
    by (auto simp: still_np_def)
  from scan2d_visits_every_cell_once [OF mirror_scan this] mirror_scan show ?thesis
    by (auto simp: record_cell_def scan2d_record_def dget_def)
qed

section \<open>The log of a run\<close>

definition fresh_event :: "run_event \<Rightarrow> bool" where
  "fresh_event e \<longleftrightarrow> ev_count e = 1"

lemma fresh_event_of: "fresh_event (event_of severity kind message elapsed step source trigger)"
  by (simp add: fresh_event_def event_of_def)

definition event_total :: "run_event list \<Rightarrow> nat" where
  "event_total es = sum_list (map ev_count es)"

lemma counted_total: "list_all fresh_event es \<Longrightarrow> event_total (counted acc es) = event_total acc + length es"
proof (induction acc es rule: counted.induct)
  case (2 acc e es)
  have "acc \<noteq> [] \<Longrightarrow> event_total (butlast acc @ [bump (List.last acc) e]) = event_total acc + 1"
    by (cases acc rule: rev_cases) (simp_all add: event_total_def bump_def)
  then show ?case using 2 by (auto simp: event_total_def fresh_event_def)
qed simp

lemma log_abs_fold: "log_abs hist l \<Longrightarrow> log_abs (counted hist es) (fold log_event es l)"
proof (induction es arbitrary: hist l)
  case (Cons e es)
  then show ?case using Cons.IH [OF log_abs_step [OF Cons.prems, of e]] counted_append [of hist "[e]" es] by simp
qed simp

lemma log_seq_fold: "rl_seq (fold log_event es l) = rl_seq l + length es \<and> rl_max (fold log_event es l) = rl_max l"
  by (induction es arbitrary: l) (auto simp: log_event_def Let_def)

text \<open>
  C28. The bounded log of a run refines the unbounded history in which consecutive repeats of an
  event are counted: after any events it holds exactly the newest entries of that history, as
  many as it has room for, the number dropped is the number of older entries, and the counts of
  the whole history add up to the number of events recorded, which is also the sequence number.
\<close>
theorem run_log_is_tail_of_history:
  fixes size_limit :: nat
  assumes "list_all fresh_event es"
  defines "l \<equiv> fold log_event es (run_log_init size_limit)" and "hist \<equiv> counted [] es"
  shows "rl_events l = drop (length hist - max 1 size_limit) hist \<and> rl_dropped l = length hist - max 1 size_limit
    \<and> rl_seq l = length es \<and> event_total hist = length es"
  using log_abs_fold [of "[]" "run_log_init size_limit" es] log_seq_fold [of es "run_log_init size_limit"] counted_total [OF assms(1), of "[]"]
  unfolding l_def hist_def by (auto simp: log_abs_def run_log_init_def event_total_def)

definition note_event :: "string \<Rightarrow> run_event" where
  "note_event msg = event_of ''info'' ''log'' msg (Fin 0) None None None"

theorem run_log_is_tail_of_history_witness:
  "map (\<lambda>e. (ev_message e, ev_count e)) (rl_events (fold log_event (map note_event [''a'', ''b'', ''b'', ''c'']) (run_log_init 2))) = [(''b'', 2), (''c'', 1)]"
proof -
  have "list_all fresh_event (map note_event [''a'', ''b'', ''b'', ''c''])" by (simp add: note_event_def fresh_event_of)
  then have "rl_events (fold log_event (map note_event [''a'', ''b'', ''b'', ''c'']) (run_log_init 2))
      = drop (length (counted [] (map note_event [''a'', ''b'', ''b'', ''c''])) - max 1 2) (counted [] (map note_event [''a'', ''b'', ''b'', ''c'']))"
    using run_log_is_tail_of_history by blast
  then show ?thesis by (simp add: note_event_def event_of_def event_key_def step_ref_def bump_def)
qed

section \<open>Waiting for a stable condition\<close>

text \<open>The samples of a wait, each with its time and the verdict on the condition, one after another.\<close>

fun run_verdicts :: "(pyfloat \<times> bool) list \<Rightarrow> runtime \<Rightarrow> bool \<times> runtime" where
  "run_verdicts [] r = (False, r)"
| "run_verdicts ((now, ok) # vs) r = (case wait_verdict now ok r of (True, r1) \<Rightarrow> (True, r1) | (False, r1) \<Rightarrow> run_verdicts vs r1)"

text \<open>The newest samples were all good from time \<open>t\<close> on.\<close>

definition good_since :: "pyfloat \<Rightarrow> (pyfloat \<times> bool) list \<Rightarrow> bool" where
  "good_since t vs \<longleftrightarrow> (\<exists>pre good. vs = pre @ good \<and> good \<noteq> [] \<and> list_all snd good \<and> fst (hd good) = t)"

definition tracked :: "(pyfloat \<times> bool) list \<Rightarrow> wait_state \<Rightarrow> bool" where
  "tracked vs ws \<longleftrightarrow> (\<forall>t. ws_stable_since ws = Some t \<longrightarrow> good_since t vs)"

lemma good_since_snoc: "good_since t vs \<Longrightarrow> good_since t (vs @ [(now, True)])"
  unfolding good_since_def by (elim exE conjE, rule_tac x = pre in exI, rule_tac x = "good @ [(now, True)]" in exI) simp

lemma good_since_now: "good_since now (vs @ [(now, True)])"
  unfolding good_since_def by (intro exI [of _ vs] exI [of _ "[(now, True)]"]) simp

lemma tracked_since: "tracked vs ws \<Longrightarrow> good_since (case ws_stable_since ws of None \<Rightarrow> now | Some t \<Rightarrow> t) (vs @ [(now, True)])"
  by (auto simp: tracked_def good_since_now good_since_snoc split: option.split)

lemma verdict_tracked:
  assumes "rt_wait r = Some ws" "ws_stable_for ws \<noteq> Fin 0" "tracked vs ws" "wait_verdict now ok r = (False, r1)"
  obtains ws1 where "rt_wait r1 = Some ws1" "ws_stable_for ws1 = ws_stable_for ws" "tracked (vs @ [(now, ok)]) ws1"
  using assms tracked_since [OF assms(3), of now]
  by (auto simp: wait_verdict_def Let_def set_wait_def tracked_def split: if_splits)

lemma verdicts_tracked:
  assumes "rt_wait r = Some ws" "ws_stable_for ws \<noteq> Fin 0" "tracked seen ws" "run_verdicts vs r = (False, r1)"
  shows "\<exists>ws1. rt_wait r1 = Some ws1 \<and> ws_stable_for ws1 = ws_stable_for ws \<and> tracked (seen @ vs) ws1"
  using assms
proof (induction vs arbitrary: r ws seen)
  case (Cons v vs)
  obtain now ok where v: "v = (now, ok)" by (cases v)
  obtain r2 where w: "wait_verdict now ok r = (False, r2)" and rest: "run_verdicts vs r2 = (False, r1)"
    using Cons.prems(4) v by (auto split: prod.splits bool.splits)
  from verdict_tracked [OF Cons.prems(1-3) w] obtain ws2 where "rt_wait r2 = Some ws2" "ws_stable_for ws2 = ws_stable_for ws" "tracked (seen @ [v]) ws2"
    unfolding v .
  with Cons.IH [of r2 ws2 "seen @ [v]"] Cons.prems(2) rest show ?case by simp
qed auto

text \<open>
  C25. A wait for a stable condition ends only when the condition held at the last sample and at
  every sample before it in an unbroken stretch that spans at least the stable time: one bad
  sample starts the count anew.
\<close>
theorem wait_ends_only_when_stable:
  assumes "rt_wait r = Some ws" "ws_stable_for ws \<noteq> Fin 0" "ws_stable_since ws = None"
    and "run_verdicts vs r = (False, r1)" "wait_verdict now ok r1 = (True, r2)"
  shows "\<exists>t. good_since t (vs @ [(now, ok)]) \<and> fle (ws_stable_for ws) (fsub now t) \<and> rt_wait r2 = None"
proof -
  obtain ws1 where w: "rt_wait r1 = Some ws1" "ws_stable_for ws1 = ws_stable_for ws" "tracked vs ws1"
    using verdicts_tracked [OF assms(1,2) _ assms(4), of "[]"] assms(3) by (auto simp: tracked_def)
  have ok: "ok" using assms(5) w by (auto simp: wait_verdict_def Let_def split: if_splits)
  have "fle (ws_stable_for ws) (fsub now (case ws_stable_since ws1 of None \<Rightarrow> now | Some t \<Rightarrow> t)) \<and> rt_wait r2 = None"
    using assms(2,5) w(1,2) ok by (auto simp: wait_verdict_def Let_def split: if_splits)
  with tracked_since [OF w(3), of now] ok show ?thesis by auto
qed

definition demo_wait :: wait_state where
  "demo_wait = \<lparr>ws_start = Fin 0, ws_timeout = Fin 0, ws_every = Fin 1, ws_next_sample = Fin 0, ws_stable_for = Fin 2,
     ws_condition = PBool True, ws_sample_spec = [], ws_reduce = None, ws_samples = [], ws_max_samples = 1, ws_stable_since = None,
     ws_last_value = PNone, ws_last_age = None, ws_label = None, ws_max_age = None, ws_call_error = None\<rparr>"

theorem wait_ends_only_when_stable_witness:
  "\<exists>r1 r2. run_verdicts [(Fin 1, True), (Fin 2, False), (Fin 3, True), (Fin 4, True)] (set_wait demo_wait runtime_init) = (False, r1)
     \<and> wait_verdict (Fin 5) True r1 = (True, r2)
     \<and> (\<exists>t. good_since t [(Fin 1, True), (Fin 2, False), (Fin 3, True), (Fin 4, True), (Fin 5, True)] \<and> fle (Fin 2) (fsub (Fin 5) t))"
proof -
  let ?vs = "[(Fin 1, True), (Fin 2, False), (Fin 3, True), (Fin 4, True)]" and ?r = "set_wait demo_wait runtime_init"
  define r1 where "r1 = snd (run_verdicts ?vs ?r)"
  define r2 where "r2 = snd (wait_verdict (Fin 5) True r1)"
  have v: "run_verdicts ?vs ?r = (False, r1)" "wait_verdict (Fin 5) True r1 = (True, r2)"
    unfolding r2_def r1_def by (simp_all add: wait_verdict_def set_wait_def demo_wait_def Let_def)
  have "rt_wait ?r = Some demo_wait" "ws_stable_for demo_wait \<noteq> Fin 0" "ws_stable_since demo_wait = None"
    by (simp_all add: set_wait_def demo_wait_def)
  from wait_ends_only_when_stable [OF this v] v show ?thesis by (auto simp: demo_wait_def)
qed

section \<open>The parameters of a trial\<close>

lemma clamp_within: "lo < hi \<Longrightarrow> \<exists>q. fmax (Fin lo) (fmin (Fin hi) v) = Fin q \<and> lo \<le> q \<and> q \<le> hi"
  by (cases v) (auto simp: fmax_def fmin_def)

lemma round_half_even_near:
  fixes q :: rat
  shows "of_int (round_half_even q) \<le> q + 1 / 2 \<and> q - 1 / 2 \<le> of_int (round_half_even q)"
proof -
  define f where "f = \<lfloor>q\<rfloor>"
  have "of_int f \<le> q" "q < of_int f + 1" unfolding f_def by (simp, linarith)
  then show ?thesis
    unfolding round_half_even_def f_def [symmetric] Let_def by auto
qed

lemma round_between_integers: "of_int a \<le> q \<Longrightarrow> q \<le> of_int b \<Longrightarrow> a \<le> round_half_even q \<and> round_half_even q \<le> b"
proof -
  assume q: "of_int a \<le> q" "q \<le> of_int b"
  have "of_int a - (1 / 2 :: rat) \<le> of_int (round_half_even q)" "of_int (round_half_even q) \<le> of_int b + (1 / 2 :: rat)"
    using round_half_even_near [of q] q by linarith+
  then show ?thesis by linarith
qed

text \<open>
  C27. The parameters of an adaptive trial stay in their space. Whatever a controller proposes, NaN
  and infinities included, a \<open>float\<close> parameter with finite bounds that is accepted lies between
  them, snapped or not, and an \<open>int\<close> parameter does when its bounds are whole numbers; bounds in
  the wrong order are refused.
\<close>
theorem adaptive_params_within_bounds:
  assumes "coerce_adaptive_param E name spec raw = Inr v" "param_type (plain E) spec \<in> {''float'', ''int''}"
    and "scalar_float (plain E) (jget spec ''min'') = Some (Fin lo)" "scalar_float (plain E) (jget spec ''max'') = Some (Fin hi)"
  shows "lo < hi \<and> (param_type (plain E) spec = ''float'' \<longrightarrow> (\<exists>q. v = PFloat (Fin q) \<and> lo \<le> q \<and> q \<le> hi))
    \<and> (param_type (plain E) spec = ''int'' \<and> lo = of_int a \<and> hi = of_int b \<longrightarrow> (\<exists>n. v = PInt n \<and> a \<le> n \<and> n \<le> b))"
proof -
  obtain x y where lt: "lo < hi" and res: "(let clamped = fmax (Fin lo) (fmin (Fin hi) y) in
      if param_type (plain E) spec = ''int'' then res_bind (finite_int round_half_even clamped) (\<lambda>n. Inr (PInt n)) else Inr (PFloat clamped)) = Inr v"
    using assms by (auto simp: coerce_adaptive_param_def Let_def res_bind_eq_Inr split: option.splits if_splits)
  obtain q where q: "fmax (Fin lo) (fmin (Fin hi) y) = Fin q" "lo \<le> q" "q \<le> hi" using clamp_within [OF lt] by blast
  show ?thesis
    using lt res q round_between_integers [of a q b] by (auto simp: Let_def finite_int_def split: if_splits)
qed

definition gain_spec :: items where
  "gain_spec = [(''type'', PStr ''float''), (''min'', PInt 0), (''max'', PInt 2)]"

theorem adaptive_params_within_bounds_witness:
  "\<exists>q. coerce_adaptive_param plain_eval ''gain'' gain_spec (PFloat NaN) = Inr (PFloat (Fin q)) \<and> 0 \<le> q \<and> q \<le> 2"
proof -
  have "coerce_adaptive_param plain_eval ''gain'' gain_spec (PFloat NaN) = Inr (PFloat (Fin 2)) \<and> param_type (plain plain_eval) gain_spec = ''float''
      \<and> scalar_float (plain plain_eval) (jget gain_spec ''min'') = Some (Fin 0) \<and> scalar_float (plain plain_eval) (jget gain_spec ''max'') = Some (Fin 2)"
    by code_simp
  then have c: "coerce_adaptive_param plain_eval ''gain'' gain_spec (PFloat NaN) = Inr (PFloat (Fin 2))" and k: "param_type (plain plain_eval) gain_spec = ''float''"
    and b: "scalar_float (plain plain_eval) (jget gain_spec ''min'') = Some (Fin 0)" "scalar_float (plain plain_eval) (jget gain_spec ''max'') = Some (Fin 2)"
    by blast+
  from adaptive_params_within_bounds [OF c _ b] c k show ?thesis by simp
qed

text \<open>An \<open>int\<close> parameter is rounded after it is clamped: with bounds that are not whole it can leave them.\<close>

lemma int_param_leaves_bounds:
  "coerce_adaptive_param plain_eval ''n'' [(''type'', PStr ''int''), (''min'', PFloat (Fin (3 / 5))), (''max'', PFloat (Fin (4 / 5)))] (PInt 0) = Inr (PInt 1)"
  by code_simp

section \<open>Parallel branches\<close>

text \<open>
  A refused \<open>set\<close> in a parallel branch goes unnoticed. The worker checks the response of a
  call, but not that of a \<open>set\<close>: when the device refuses the very same request, the branch
  reports success and the run goes on, while the same step outside a parallel block fails the
  run.
\<close>
theorem parallel_set_refusal_unnoticed:
  assumes "st_kind (bo_step op) = SetStep device name raw" "bp_operations p = [op]" "bp_repeat p = None"
    and "branch_call E (bp_env p) (bo_step op) = Inr (''device'', who, ''set'', params)"
    and "sw_call_device W n who ''set'' params = Inr resp" "\<not> truthy (dget resp ''ok'' (PBool False))"
    and "env_view r = bp_env p" "rt_io r = n"
  shows "br_ok (run_parallel_branch E W p n) \<and> br_outputs (run_parallel_branch E W p n) = []
    \<and> (\<exists>msg r1. execute_set_step E W device name raw r = rrun (fail_step E W msg) r1)"
proof -
  have tgt: "rendered_target E (bp_env p) device = Inr who" "who \<noteq> []"
    and val: "\<exists>v. render_templates E raw (bp_env p) = Inr v \<and> params = PDict [(''name'', PStr name), (''value'', v)]"
    using assms(1,4) by (auto simp: branch_call_def res_bind_eq_Inr split: if_splits sum.splits)
  have "run_operation E W (bp_env p) n (bo_step op) = Inr []"
    using assms(1,4,5) by (simp add: run_operation_def branch_outputs_def)
  then have branch: "br_ok (run_parallel_branch E W p n)" "br_outputs (run_parallel_branch E W p n) = []"
    using assms(2,3) by (simp_all add: run_parallel_branch_def upt_rec dict_update_def)
  have nm: "rendered_name E (PStr device) r = (Inr who, r)"
    using tgt(1) assms(7) by (auto simp: rendered_name_def render_def rendered_target_def rbind_def rlift_def rret_def split: sum.splits if_splits)
  obtain v where v: "render_templates E raw (bp_env p) = Inr v" "params = PDict [(''name'', PStr name), (''value'', v)]" using val by blast
  define r1 where "r1 = update_detail [(''device'', PStr who), (''name'', PStr name)] r"
  have same: "env_view r1 = bp_env p" "rt_io r1 = n" using assms(7,8) by (simp_all add: r1_def update_detail_def env_view_def)
  have "execute_set_step E W device name raw r = rrun (fail_step E W (response_error_text (plain E) resp None)) (uses r1)"
    using nm tgt(2) v same assms(5,6)
    by (simp add: execute_set_step_def rbind_def rmodify_def render_def rlift_def ask_def flip: r1_def)
  with branch show ?thesis by blast
qed

definition refused_set :: branch_operation where
  "refused_set = \<lparr>bo_source = None, bo_step = Step False (SetStep ''laser'' ''power'' (PInt 3))\<rparr>"

definition refused_plan :: branch_plan where
  "refused_plan = \<lparr>bp_index = 0, bp_operations = [refused_set], bp_env = env_view runtime_init, bp_path = [], bp_atomic = False, bp_repeat = None\<rparr>"

theorem parallel_set_refusal_unnoticed_witness:
  "br_ok (run_parallel_branch plain_eval refusing refused_plan 0)
   \<and> (\<exists>msg r1. execute_set_step plain_eval refusing ''laser'' ''power'' (PInt 3) runtime_init = rrun (fail_step plain_eval refusing msg) r1)"
proof -
  let ?params = "PDict [(''name'', PStr ''power''), (''value'', PInt 3)]"
  have k: "st_kind (bo_step refused_set) = SetStep ''laser'' ''power'' (PInt 3)" "bp_operations refused_plan = [refused_set]" "bp_repeat refused_plan = None"
    by (simp_all add: refused_set_def refused_plan_def)
  have c: "branch_call plain_eval (bp_env refused_plan) (bo_step refused_set) = Inr (''device'', ''laser'', ''set'', ?params)" by code_simp
  have a: "sw_call_device refusing 0 ''laser'' ''set'' ?params = Inr [(''ok'', PBool False)]" "\<not> truthy (dget [(''ok'', PBool False)] ''ok'' (PBool False))"
    by (simp_all add: refusing_def still_world_def dget_def)
  have e: "env_view runtime_init = bp_env refused_plan" "rt_io runtime_init = 0" by (simp_all add: refused_plan_def runtime_init_def)
  show ?thesis using parallel_set_refusal_unnoticed [OF k c a e] by blast
qed

section \<open>A clean-up that never ends\<close>

text \<open>A condition that cannot be evaluated, with no effect on the run.\<close>

definition fails_always :: "eval_lang \<Rightarrow> seq_world \<Rightarrow> pyval \<Rightarrow> bool" where
  "fails_always E W c \<longleftrightarrow> (\<forall>r. \<exists>e. eval_condition_rt E W c ''while'' False r = (Inl e, r))"

definition stuck_cleanup :: "frame list \<Rightarrow> step list \<Rightarrow> runtime \<Rightarrow> bool" where
  "stuck_cleanup fs taken r \<longleftrightarrow> rt_state r = RUNNING \<and> rt_pending_state r \<noteq> None \<and> rt_stack r = fs \<and> rt_taken r = taken
     \<and> nothing_pending r \<and> rt_observe r = None \<and> \<not> rt_pause_requested r"

lemma stuck_stop: "stuck_cleanup fs taken r \<Longrightarrow> stuck_cleanup fs taken (request_stop W reason source r)"
  by (auto simp: stuck_cleanup_def request_stop_def record_event_def clock_def uses_def nothing_pending_def Let_def)

lemma stuck_note: "stuck_cleanup fs taken r \<Longrightarrow> stuck_cleanup fs taken (note_cleanup_failure E W msg r)"
  by (auto simp: stuck_cleanup_def note_cleanup_failure_def record_event_def clock_def uses_def nothing_pending_def Let_def
      split: option.split list.split)

lemma stuck_uses: "stuck_cleanup fs taken r \<Longrightarrow> stuck_cleanup fs taken (uses r)"
  by (simp add: stuck_cleanup_def uses_def nothing_pending_def)

lemma stuck_check:
  assumes "stuck_cleanup fs taken r" "fs \<noteq> []" "check_stop_pause W r = (b, r')"
  shows "stuck_cleanup fs taken r' \<and> (\<not> b \<longrightarrow> r' = r)"
  using assms
  by (auto simp: stuck_cleanup_def check_stop_pause_def clock_def uses_def begin_terminal_unwind_def mark_pause_ended_def nothing_pending_def Let_def
      split: if_splits option.splits)

lemma stuck_round:
  assumes s: "stuck_cleanup fs taken r" and fs: "fs = WhileFrame c body n # gs" "list_ex is_unwind_body gs" and f: "fails_always E W c"
  shows "\<exists>x r'. tick_round E W dl k r = Some (x, r') \<and> stuck_cleanup fs taken r' \<and> (x = Inr (TickReturns False) \<or> (\<exists>e. x = Inl e))"
proof -
  obtain b r1 where ch: "check_stop_pause W r = (b, r1)" by (cases "check_stop_pause W r")
  have s1: "stuck_cleanup fs taken r1" "\<not> b \<longrightarrow> r1 = r" using stuck_check [OF s _ ch] fs(1) by auto
  have run: "rt_state r = RUNNING" "rt_pending_state r \<noteq> None" "rt_stack r = WhileFrame c body n # gs" using s fs(1) by (auto simp: stuck_cleanup_def)
  show ?thesis
  proof (cases b)
    case True
    then show ?thesis using ch run s1 by (simp add: tick_round_def)
  next
    case False
    have ins: "inside_unwind_body (WhileFrame c body n # gs)" using fs(2) by (simp add: inside_unwind_body_def)
    obtain e where e: "eval_condition_rt E W c ''while'' False r = (Inl e, r)" using f by (auto simp: fails_always_def)
    note sp = inside_split [OF ins]
    have "length (WhileFrame c body n # gs) - length (above_unwind_body (WhileFrame c body n # gs)) \<le> length gs"
      using sp(2) by (cases "above_unwind_body (WhileFrame c body n # gs)") auto
    then have "next_step_above E W (length (WhileFrame c body n # gs) - length (above_unwind_body (WhileFrame c body n # gs))) r = Some (Inl e, r)"
      using top_frame_step [OF run(3)] e by (simp add: top_round_def plift_def rbind_def)
    then have "next_step E W r = Some (Inl e, r)" using run ins by (simp add: next_step_def unwind_step [OF run(3)])
    then show ?thesis using ch run s s1(2) False by (auto simp: tick_round_def pbind_def)
  qed
qed

lemma stuck_tick:
  assumes s: "stuck_cleanup fs taken r" and fs: "fs = WhileFrame c body n # gs" "list_ex is_unwind_body gs" and f: "fails_always E W c"
  shows "\<exists>r'. tick E W r = Some (False, r') \<and> stuck_cleanup fs taken r'"
proof -
  obtain b r1 where ch: "check_stop_pause W r = (b, r1)" by (cases "check_stop_pause W r")
  have s1: "stuck_cleanup fs taken r1" "\<not> b \<longrightarrow> r1 = r" using stuck_check [OF s _ ch] fs(1) by auto
  have run: "rt_state r = RUNNING" "rt_pending_state r \<noteq> None" "rt_stack r \<noteq> []" using s fs(1) by (auto simp: stuck_cleanup_def)
  show ?thesis
  proof (cases b)
    case True
    then show ?thesis using ch run s1 by (auto simp: tick_def tick_try_def)
  next
    case False
    define r2 where "r2 = uses (uses r)"
    have s2: "stuck_cleanup fs taken r2" unfolding r2_def by (intro stuck_uses s)
    have pend: "resume_pending E W now (uses r) = Some (Inr True, uses r)" for now
      using s by (simp add: stuck_cleanup_def resume_pending_def wake_sleep_def when_pending_def pbind_def plift_def nothing_pending_def uses_def)
    define dl where "dl = fadd (sw_mono W (rt_io (uses r))) TICK_BUDGET_S"
    obtain x r3 where rd: "tick_round E W dl 0 r2 = Some (x, r3)" and s3: "stuck_cleanup fs taken r3"
      and x: "x = Inr (TickReturns False) \<or> (\<exists>e. x = Inl e)" using stuck_round [OF s2 fs f] by blast
    define res where "res = (case x of Inl e \<Rightarrow> Inl e | Inr _ \<Rightarrow> Inr False)"
    have "tick_loop E W dl 0 r2 = Some (res, r3)"
      using rd x by (subst tick_loop.simps) (auto simp: res_def)
    then have t: "tick_try E W r = Some (res, r3)"
      using False ch s1(2) run pend
      by (auto simp: tick_try_def pbind_def plift_def rrun_def clock_def r2_def dl_def)
    have "stuck_cleanup fs taken (tick_failed E W msg r3)" for msg
      using s3 stuck_note [OF s3] by (auto simp: tick_failed_def handle_runtime_exception_def stuck_cleanup_def)
    then show ?thesis using t run x s3 by (auto simp: tick_def res_def)
  qed
qed

text \<open>
  C36. A clean-up can go on for ever. When a \<open>while\<close> inside a \<open>finally\<close> body has a condition that
  cannot be evaluated, each tick of the unwind notes the failure and leaves the loop on the
  stack: the run stays \<open>RUNNING\<close> through any number of ticks, takes no further step, not even
  the rest of the clean-up, and requests to stop it change nothing.
\<close>
theorem failing_while_keeps_cleanup_running:
  assumes "rt_state r = RUNNING" "rt_pending_state r \<noteq> None" "nothing_pending r" "rt_observe r = None" "\<not> rt_pause_requested r"
    and "rt_stack r = WhileFrame c body n # fs" "list_ex is_unwind_body fs" "fails_always E W c"
    and "set ops \<subseteq> insert OpTick (range (case_prod OpStop))"
  shows "\<exists>r'. run_ops E W ops r = Some r' \<and> rt_state r' = RUNNING \<and> rt_stack r' = rt_stack r \<and> rt_taken r' = rt_taken r"
proof -
  define st where "st = rt_stack r"
  define tk where "tk = rt_taken r"
  have "stuck_cleanup st tk r" using assms(1-5) by (simp add: stuck_cleanup_def st_def tk_def)
  then have "\<exists>r'. run_ops E W ops r = Some r' \<and> stuck_cleanup st tk r'"
    using assms(9)
  proof (induction ops arbitrary: r)
    case (Cons op ops)
    have "\<exists>r1. run_op E W op r = Some r1 \<and> stuck_cleanup st tk r1"
      using Cons.prems stuck_tick [OF Cons.prems(1) _ assms(7,8)] stuck_stop [OF Cons.prems(1)] assms(6) by (auto simp: st_def)
    then show ?case using Cons.IH Cons.prems(2) by auto
  qed simp
  then show ?thesis by (auto simp: stuck_cleanup_def st_def tk_def)
qed

definition stuck_steps :: "step list" where
  "stuck_steps = [Step False (TryStep [] [Step False (WhileStep (PDict [(''and'', PInt 3)]) []), Step False (AssignStep [])])]"

definition stuck_run :: runtime where
  "stuck_run = after_ops ticking stuck_steps [OpTick, OpTick, OpStop None None, OpTick]"

theorem failing_while_keeps_cleanup_running_witness:
  "\<exists>r'. run_ops plain_eval ticking [OpTick, OpStop None None, OpTick, OpTick] stuck_run = Some r' \<and> rt_state r' = RUNNING \<and> rt_taken r' = rt_taken stuck_run"
proof -
  have "goes ticking stuck_steps [OpTick, OpTick, OpStop None None, OpTick] (\<lambda>r. rt_state r = RUNNING \<and> rt_pending_state r \<noteq> None \<and> nothing_pending r
      \<and> rt_observe r = None \<and> \<not> rt_pause_requested r \<and> rt_stack r = WhileFrame (PDict [(''and'', PInt 3)]) [] 0 # tl (rt_stack r)
      \<and> list_ex is_unwind_body (tl (rt_stack r)))" by code_simp
  from goesD(3) [OF this, folded stuck_run_def]
  have s: "rt_state stuck_run = RUNNING" "rt_pending_state stuck_run \<noteq> None" "nothing_pending stuck_run" "rt_observe stuck_run = None" "\<not> rt_pause_requested stuck_run"
    and st: "rt_stack stuck_run = WhileFrame (PDict [(''and'', PInt 3)]) [] 0 # tl (rt_stack stuck_run)" "list_ex is_unwind_body (tl (rt_stack stuck_run))"
    by blast+
  have f: "fails_always plain_eval ticking (PDict [(''and'', PInt 3)])"
    by (simp add: fails_always_def eval_condition_rt_def condition_holds_def Let_def rbind_def rlift_def rret_def render_templates_def
        eval_condition.simps cond_first_def dhas_def dget_def)
  from failing_while_keeps_cleanup_running [OF s st f, of "[OpTick, OpStop None None, OpTick, OpTick]"] show ?thesis
    by (auto simp: image_iff)
qed

end
