(* ===== verification/Spec2Isabelle.thy ===== *)
theory Spec2Isabelle
  imports Shm_Ring_Props Safety_Path State_Machine_Props Process_Supervision_Props
    Driver_Supervision_Props Watchdog_Props Sequencer_Gate Sequencer_Parts
begin

text \<open>
  experiment-control runs laboratory experiments: a manager process starts device drivers and
  service processes, routes commands to them and watches over them; service processes check
  commands, react to telemetry and run measurement sequences; data moves through rings in
  shared memory. This development models the parts of \<open>src/src/experiment_control\<close> that decide
  what happens to the experiment, and proves what makes them correct. All paths below are
  relative to that directory.

  \<^bold>\<open>The parts and how they meet.\<close> A command enters the manager, which asks every process that
  has registered an interceptor route for it (\<open>_manager/interceptor_routes.py\<close>,
  \<open>utils/command_interceptors.py\<close>). The interlock process (\<open>processes/interlock.py\<close>) is such a
  process: it answers from rules over telemetry, whose conditions the evaluator of
  \<open>sequencer/eval.py\<close> computes. The watchdog process (\<open>processes/watchdog.py\<close>) evaluates rules
  of the same language by itself and acts when one is due. The sequencer parses a sequence
  (\<open>sequencer/ast.py\<close>) and interprets it tick by tick (\<open>sequencer/runtime.py\<close>), sending commands
  on the way; a sequence can require watchdogs, which the parser turns into a \<open>try\<close> around its
  steps. The manager supervises the service processes and the drivers
  (\<open>_manager/process_supervision.py\<close>, \<open>_manager/driver_heartbeat_policy.py\<close>). Streams travel
  from drivers to readers through \<open>shm/shm_ring.py\<close>. Processes built on
  \<open>processes/state_machine_base.py\<close> plan and make their transitions with it.

  \<^bold>\<open>Theories and sources.\<close>
  \<^item> \<open>Prelude\<close>, \<open>Py_Value\<close>: results with errors (\<open>res_bind\<close>), byte buffers, dictionaries in
    insertion order; the Python values exchanged as JSON with truthiness, equality, \<open>str\<close>,
    \<open>int\<close>, \<open>float\<close> and \<open>strip\<close>.
  \<^item> \<open>Shm_Ring\<close>: the segment of \<open>shm/shm_ring.py\<close> byte by byte, the writer as a list of stores,
    the readers as loads, creation and attachment. \<open>Shm_Ring_Proofs\<close>, \<open>Shm_Ring_Reads\<close>,
    \<open>Shm_Ring_Segment\<close>, \<open>Shm_Ring_Props\<close>: reads concurrent with the writer are never torn, and a
    read that no overwrite disturbs succeeds; between writes the readers return exactly the
    events the ring still holds; the ring refines a bounded event log (locale \<open>event_log\<close>,
    interpreted as \<open>ring_log\<close>); attaching recovers the layout.
  \<^item> \<open>Responses\<close>: \<open>utils/responses.py\<close> and \<open>utils/rpc_dispatch.py\<close>.
  \<^item> \<open>Interceptor_Routes\<close>, \<open>Command_Interceptors\<close> with \<open>_Proofs\<close> and \<open>Interceptors_Props\<close>: the
    registry with its cache, the chain and the manager's handlers. The chain relies on the
    registry through the locale \<open>chain_provider\<close>, interpreted for the registry and for the
    manager's own fields: every process with a matching route was asked and allowed the
    command; the cached chain is the one the routes define. Both hold in the states of
    \<open>routes_reach True\<close>; a registration that fails half way leads to \<open>routes_reach False\<close>, where
    the cache can be out of date until it is next emptied.
  \<^item> \<open>Sequencer_Eval\<close>, \<open>Sequencer_Eval_Proofs\<close>: expressions, templates and conditions of
    \<open>sequencer/eval.py\<close>.
  \<^item> \<open>Rules_Config\<close>, \<open>Interlock\<close>, \<open>Interlock_Proofs\<close>, \<open>Interlock_Props\<close>: rule configurations and
    the interlock process with all its handlers; rule verdicts fail closed, and a change of the
    rules is transactional in every reachable state (\<open>interlock_reach\<close>).
  \<^item> \<open>Safety_Path\<close> joins the chain and the interlock for the theorem of this theory.
  \<^item> \<open>State_Machine\<close>, \<open>State_Machine_Proofs\<close>, \<open>State_Machine_Props\<close>: the graph, transitions with
    their hooks, the bounded history and path planning by breadth-first search. Reachable
    machines (\<open>machine_reach\<close>) include those whose hooks make transitions of their own or raise.
  \<^item> \<open>Budgeted_Steps\<close>: runs of a step function that pays for some of its events out of a budget
    (locales \<open>kept_by_steps\<close>, \<open>funded_steps\<close>, \<open>budgeted_steps\<close>), the contract of the supervision
    passes.
  \<^item> \<open>Process_Supervision\<close>, \<open>_Proofs\<close>, \<open>_Checks\<close>, \<open>_Props\<close>: managed processes: starting, stopping,
    heartbeats, restarts, kill escalation; \<open>Driver_Supervision\<close>, \<open>_Proofs\<close>, \<open>_Props\<close>: the same for
    device drivers, with registration by generation and the staged heartbeat policy.
    \<open>Driver_Race\<close> interleaves the phases of an operator's start or stop, on a worker with the
    lifecycle lock, with the manager's thread, whose registrations do not take it
    (\<open>race_reach\<close>): a running driver has registered under its present generation unless a start
    was prepared in the middle of a registration, and then it need not have.
  \<^item> \<open>Watchdog\<close>, \<open>Watchdog_Proofs\<close>, \<open>Watchdog_Props\<close>: rule evaluation with arming, confirmation,
    stability, latch and cooldown, the tick, action chains in flight and the handlers; when a
    trip is announced, in any interleaving of ticks, completions and requests (\<open>wd_reach\<close>).
  \<^item> \<open>Sequencer_Form\<close>, \<open>Sequencer_Ranges\<close>, \<open>Sequencer_Ast\<close>, \<open>Sequencer_Vars\<close>: run forms, scan
    points (also \<open>scan_plan.py\<close>), the parser, variables and the run log.
  \<^item> \<open>Sequencer_State\<close>, \<open>Sequencer_Adaptive\<close>, \<open>Sequencer_Runtime\<close>: the state of the interpreter
    (the record \<open>runtime\<close>, one field per attribute of \<open>SequenceRuntime\<close>), adaptive steps, the
    stack of frames, a handler per kind of step, the unwind that runs \<open>finally\<close> bodies, and
    \<open>tick\<close> with its budget.
  \<^item> \<open>Sequencer_Calm\<close>, \<open>Sequencer_Control\<close>, \<open>Sequencer_Ticks\<close>: a simulation. Operations that leave
    the control state alone are \<open>calm\<close>; an inductive relation \<open>move\<close> describes what the others may
    do to the stack, the open blocks and the run state; every operation on a run, \<open>run_op\<close>, is
    shown to be a sequence of moves.
  \<^item> \<open>Sequencer_Books\<close>, \<open>Sequencer_Returns\<close>, \<open>Sequencer_Gate\<close>: what all moves keep (locale
    \<open>kept_by_moves\<close>, interpreted for the books of open blocks, the account of owed clean-up
    steps, the end of a run, the loops that return, and, through \<open>gated_run\<close>, the watchdog gate);
    \<open>Sequencer_Props\<close>, \<open>Sequencer_Parts\<close> state the properties, and \<open>Sequencer_Demo\<close> has the worlds
    their examples run in.

  \<^bold>\<open>How the code is represented.\<close> Classes are records and enumerations are datatypes; a method
  is a function from the state to a result and the new state; exceptions are the left side of a
  sum; the runtime's methods are written in a state monad with exceptions (\<open>rbind\<close>) and, where
  they may not return, with an option around it (\<open>pbind\<close>). Two fields of \<open>runtime\<close> are not in
  the code: \<open>rt_taken\<close> lists the steps taken for execution and \<open>rt_io\<close> counts the uses of the
  world, so that successive answers of the world can differ.

  \<^bold>\<open>Parameters.\<close> What is outside the sources is an argument: \<open>py_lang\<close>, \<open>eval_lang\<close> and \<open>ast_lang\<close>
  hold parts of Python the model does not compute (float printing and parsing, \<open>ast.parse\<close>,
  printf formatting, \<open>math.log2\<close>, close matches, YAML); \<open>np_api\<close> numpy's dtypes and \<open>json\<close>, with
  \<open>numpy_json_ok\<close> for what attaching relies on; \<open>np_gen\<close> the spacing functions and the generator of
  numpy; \<open>icpt_env\<close> and \<open>manager_env\<close> the processes a chain asks; \<open>telemetry_world\<close>, \<open>yaml_world\<close>
  and \<open>wd_world\<close> telemetry, files and clock of the rule processes; \<open>machine_env\<close> the hooks of a
  state machine; \<open>proc_env\<close> and \<open>driver_env\<close> the operating system; \<open>seq_world\<close> clock, devices,
  processes, telemetry, library of sequences and adaptive controllers of the sequencer.

  \<^bold>\<open>Bounds and fuel.\<close> Loops with a bound in the code are structural or have a termination proof.
  Searches in a string take its length as fuel, which is enough because each round uses up a
  character; templates are rendered to the depth limit of the code. The loops of the runtime
  that may not end (\<open>next_step_above\<close>, \<open>next_terminal_unwind_step\<close>, \<open>tick_loop\<close>, the wait for
  telemetry) and \<open>walk_back\<close> are partial functions with \<open>None\<close> for a call that does not return;
  that they return is proved where it is claimed, and so is a case in which they do not. Floats
  are exact rationals with infinities and NaN, so rounding errors are not modelled. The ring is
  modelled with sequentially consistent memory; exit codes are those of POSIX. A phase of a driver
  start, stop or registration runs without a switch of threads. Publishing an event does not fail,
  and the turns of the supervision properties supervise one process.

  \<^bold>\<open>What the properties show.\<close> They are numbered C1, C2, ... in the theories. This theory has the
  safety path from a command to the interlock's rules; \<open>Sequencer_Gate\<close> the one from a required
  watchdog to its disabling. The others concern one component each: safety (no torn read, no
  command past an interceptor, no trip that is not due, no clean-up step forgotten unless a
  trial with \<open>fail_on_trial_error\<close> fails), invariants
  of reachable states, bounds on restarts, kills and sizes, refinements (ring and event log, run
  log and history, heartbeat policy and switch), termination and liveness. C34 to C40 are
  behaviours a user of the code has to know of: a \<open>while\<close> without enabled steps hangs the tick, a
  failed adaptive trial skips the clean-up, a clean-up can go on for ever, a registration that
  fails half way leaves routes behind, a process failed by the manager is not restarted, a
  failing spawn ends the supervision pass, and a trip can be lost while a chain is in flight.

  \<^bold>\<open>Not modelled.\<close> Of the modelled processes: their sockets, threads and shutdown, and payloads
  made only for display (capabilities, progress, plans and status of a run). Of the manager: the
  socket loop and its wiring, removal of processes, reconnection of devices. Whole parts: the
  sequencer's own process around the runtime, the HDF and Influx writers, stream analysis, the
  device router, federation, the HTTP gateway, user interfaces, client library, command line,
  drivers, logs on disk, configuration files. They are I/O, threads around sockets, numerical
  work of third-party packages, or presentation.
\<close>

section \<open>Across the components\<close>

text \<open>
  C1. From the command to the rule. The manager has registered the routes of the interlock
  process, and each check it sends there is answered by the interlock's own check (on the
  telemetry of that moment); the names in the rules and of the process have no surrounding
  blanks, and the routes the manager had stood in the order of their registration, as in every
  state it reaches. Then a command leaves the manager's interceptor chain only if
  every rule in force that matches it held: each required sample present, of quality OK and
  fresh, and the condition true of a command with this target.
\<close>
theorem command_passes_only_if_interlock_rules_hold:
  fixes L :: py_lang and cmd :: items
  defines "d \<equiv> py_str L (dget cmd ''device_id'' (PStr ''''))"
    and "a \<equiv> py_str L (dget cmd ''action'' (PStr ''''))"
  assumes "plain_names p" "plain_name (ip_process_id p)" "orders_ok (mgr_state mgr)"
    and "\<And>i req. me_rpc (me i) (ip_process_id p) (PDict req) = RpcReply (fst (rpc_interlock_check E (w i) (now i) req (q i)))"
    and "\<And>i. active_rules (q i) = active_rules p"
    and "apply_command_interceptors L me rid caller cmd (with_interlock L p mgr) = ((Inr (Inr out), evs), mgr')"
    and "(iid, r) \<in> set (active_rules p)" "rule_matches r d a"
  shows "\<exists>i. (\<forall>b\<in>set (ru_telemetry r). tb_required b \<longrightarrow> binding_fresh (plain E) (w i) b)
    \<and> (\<exists>c. command_target d a c \<and> eval_condition E (rule_env E (w i) r c) (ru_condition r) = Inr True)"
  using passed_command_satisfies_rules [OF assms(3-9) assms(10) [unfolded d_def a_def], folded d_def a_def]
  unfolding rule_holds_def telemetry_ok_def by blast

theorem command_passes_only_if_interlock_rules_hold_witness:
  "fst (fst (apply_command_interceptors plain_lang ilk_env PNone PNone fire_cmd
      (with_interlock plain_lang demo_interlock bare_manager))) = Inr (Inr fire_cmd)
   \<and> binding_fresh (plain plain_eval) (demo_world ''OK'') (hd (ru_telemetry demo_rule))"
proof -
  obtain evs mgr' where pass: "apply_command_interceptors plain_lang ilk_env PNone PNone fire_cmd
      (with_interlock plain_lang demo_interlock bare_manager) = ((Inr (Inr fire_cmd), evs), mgr')"
    using fire_passes by (metis prod.collapse)
  have "plain_names demo_interlock"
    unfolding plain_names_def demo_active by (simp add: demo_rule_def plain_name_def py_strip_def is_space_def)
  moreover have "plain_name (ip_process_id demo_interlock)"
    by (simp add: demo_interlock_def plain_name_def py_strip_def is_space_def)
  moreover have "orders_ok (mgr_state bare_manager)"
    by (simp add: orders_ok_def mgr_state_def bare_manager_def ensure_interceptor_route_state_def)
  moreover have "rule_matches demo_rule (py_str plain_lang (dget fire_cmd ''device_id'' (PStr '''')))
      (py_str plain_lang (dget fire_cmd ''action'' (PStr '''')))"
    by (simp add: rule_matches_def demo_rule_def fire_cmd_def dget_def)
  moreover have "me_rpc (ilk_env i) (ip_process_id demo_interlock) (PDict req) =
      RpcReply (fst (rpc_interlock_check plain_eval (demo_world ''OK'') (Fin 10) req demo_interlock))" for i req
    by (simp add: ilk_env_def)
  moreover have "(''safety'', demo_rule) \<in> set (active_rules demo_interlock)"
    by (simp add: demo_active)
  ultimately have "\<exists>i :: nat. (\<forall>b\<in>set (ru_telemetry demo_rule). tb_required b \<longrightarrow> binding_fresh (plain plain_eval) (demo_world ''OK'') b)"
    using command_passes_only_if_interlock_rules_hold [of demo_interlock bare_manager ilk_env plain_eval "\<lambda>_. demo_world ''OK''" "\<lambda>_. Fin 10"
        "\<lambda>_. demo_interlock", OF _ _ _ _ refl pass]
    by blast
  moreover have "hd (ru_telemetry demo_rule) \<in> set (ru_telemetry demo_rule)" "tb_required (hd (ru_telemetry demo_rule))"
    by (simp_all add: demo_rule_def)
  ultimately show ?thesis
    using fire_passes by blast
qed

end
